(* ===== verification/Prelude.thy ===== *)
theory Prelude
  imports Main "HOL-Library.Char_ord" "HOL-Library.List_Lexorder"
begin

text \<open>
  Shared vocabulary of the development: the \<open>Result\<close> type of the code and the
  combinators that stand for the \<open>?\<close> operator, the \<open>SQL\<close> statements of the
  registry as operations on lists of rows, byte-level text predicates, and the
  interfaces (locales) that several components share: text codecs, phase graphs,
  table access and paged readers.
\<close>

section \<open>Results\<close>

text \<open>
  \<open>Result<T, E>\<close> is the sum \<open>'e + 'a\<close>: \<open>Inl\<close> is \<open>Err\<close>, \<open>Inr\<close> is \<open>Ok\<close>.
  \<open>and_then r k\<close> is \<open>let x = r?; k(x)\<close>.
\<close>

type_synonym ('e, 'a) result = "'e + 'a"

definition and_then :: "('e, 'a) result \<Rightarrow> ('a \<Rightarrow> ('e, 'b) result) \<Rightarrow> ('e, 'b) result" where
  "and_then r k = (case r of Inl e \<Rightarrow> Inl e | Inr x \<Rightarrow> k x)"

definition ok_or :: "'a option \<Rightarrow> 'e \<Rightarrow> ('e, 'a) result" where
  "ok_or x e = (case x of None \<Rightarrow> Inl e | Some y \<Rightarrow> Inr y)"

definition map_err :: "('e \<Rightarrow> 'f) \<Rightarrow> ('e, 'a) result \<Rightarrow> ('f, 'a) result" where
  "map_err f r = (case r of Inl e \<Rightarrow> Inl (f e) | Inr x \<Rightarrow> Inr x)"

definition require :: "bool \<Rightarrow> 'e \<Rightarrow> ('e, unit) result" where
  "require b e = (if b then Inr () else Inl e)"

definition transpose_opt :: "('e, 'a) result option \<Rightarrow> ('e, 'a option) result" where
  "transpose_opt x = (case x of None \<Rightarrow> Inr None | Some r \<Rightarrow> and_then r (\<lambda>y. Inr (Some y)))"

fun collect_results :: "('e, 'a) result list \<Rightarrow> ('e, 'a list) result" where
  "collect_results [] = Inr []"
| "collect_results (r # rs) =
     and_then r (\<lambda>x. and_then (collect_results rs) (\<lambda>xs. Inr (x # xs)))"

lemma and_then_simps [simp]:
  "and_then (Inr x) k = k x"
  "and_then (Inl e) k = Inl e"
  by (simp_all add: and_then_def)

lemma and_then_Inr [simp]:
  "and_then r k = Inr y \<longleftrightarrow> (\<exists>x. r = Inr x \<and> k x = Inr y)"
  by (cases r) simp_all

lemma and_then_Inl:
  "and_then r k = Inl e \<longleftrightarrow> r = Inl e \<or> (\<exists>x. r = Inr x \<and> k x = Inl e)"
  by (cases r) simp_all

lemma ok_or_simps [simp]:
  "ok_or (Some x) e = Inr x"
  "ok_or None e = Inl e"
  by (simp_all add: ok_or_def)

lemma ok_or_Inr [simp]: "ok_or x e = Inr y \<longleftrightarrow> x = Some y"
  by (cases x) simp_all

lemma ok_or_Inl [simp]: "ok_or x e = Inl e' \<longleftrightarrow> x = None \<and> e' = e"
  by (cases x) auto

lemma map_err_simps [simp]:
  "map_err f (Inr x) = Inr x"
  "map_err f (Inl e) = Inl (f e)"
  by (simp_all add: map_err_def)

lemma map_err_Inr [simp]: "map_err f r = Inr y \<longleftrightarrow> r = Inr y"
  by (cases r) simp_all

lemma require_simps [simp]:
  "require True e = Inr ()"
  "require False e = Inl e"
  by (simp_all add: require_def)

lemma require_Inr [simp]: "require b e = Inr u \<longleftrightarrow> b"
  by (simp add: require_def)

lemma if_Inl_Inr [simp]:
  "(if b then Inl e else r) = Inr y \<longleftrightarrow> \<not> b \<and> r = Inr y"
  "(if b then r else Inl e) = Inr y \<longleftrightarrow> b \<and> r = Inr y"
  by auto

lemma transpose_opt_simps [simp]:
  "transpose_opt None = Inr None"
  "transpose_opt (Some r) = and_then r (\<lambda>y. Inr (Some y))"
  by (simp_all add: transpose_opt_def)

lemma collect_results_Inr:
  "collect_results rs = Inr xs \<longleftrightarrow> rs = map Inr xs"
proof (induction rs arbitrary: xs)
  case Nil
  then show ?case by auto
next
  case (Cons r rs)
  then show ?case by (cases xs) auto
qed

lemma collect_results_map_total:
  "(\<And>x. x \<in> set xs \<Longrightarrow> f x = Inr (g x)) \<Longrightarrow> collect_results (map f xs) = Inr (map g xs)"
  by (induction xs) auto

section \<open>Tables\<close>

text \<open>
  A table is the list of its rows. \<open>UPDATE ... WHERE\<close> changes the rows that match and
  reports how many did, \<open>DELETE ... WHERE\<close> drops them, a query for one row finds the
  first that matches.
\<close>

definition sql_count :: "('r \<Rightarrow> bool) \<Rightarrow> 'r list \<Rightarrow> nat" where
  "sql_count P rows = length (filter P rows)"

definition sql_update_rows :: "('r \<Rightarrow> bool) \<Rightarrow> ('r \<Rightarrow> 'r) \<Rightarrow> 'r list \<Rightarrow> 'r list" where
  "sql_update_rows P f rows = map (\<lambda>r. if P r then f r else r) rows"

definition sql_delete_rows :: "('r \<Rightarrow> bool) \<Rightarrow> 'r list \<Rightarrow> 'r list" where
  "sql_delete_rows P rows = filter (\<lambda>r. \<not> P r) rows"

primrec sql_max :: "int list \<Rightarrow> int option" where
  "sql_max [] = None"
| "sql_max (x # xs) = Some (case sql_max xs of None \<Rightarrow> x | Some m \<Rightarrow> max x m)"

lemma find_Some_iff_distinct:
  assumes "distinct (map key rows)" and "r \<in> set rows"
  shows "List.find (\<lambda>x. key x = key r) rows = Some r"
  using assms by (induction rows) auto

lemma find_SomeD: "List.find P rows = Some r \<Longrightarrow> r \<in> set rows \<and> P r"
  by (induction rows) (auto split: if_splits)

lemma find_NoneD: "List.find P rows = None \<Longrightarrow> x \<in> set rows \<Longrightarrow> \<not> P x"
  by (induction rows) (auto split: if_splits)

lemma find_cong_set: "(\<And>x. x \<in> set xs \<Longrightarrow> P x = Q x) \<Longrightarrow> List.find P xs = List.find Q xs"
  by (induction xs) auto

lemma distinct_key_unique:
  "distinct (map key rows) \<Longrightarrow> r \<in> set rows \<Longrightarrow> r' \<in> set rows \<Longrightarrow> key r = key r' \<Longrightarrow> r = r'"
  by (induction rows) (auto simp: image_iff)

lemma set_sql_update_rows:
  "set (sql_update_rows P f rows) = (\<lambda>r. if P r then f r else r) ` set rows"
  by (simp add: sql_update_rows_def)

lemma map_key_update_rows:
  "(\<And>r. r \<in> set rows \<Longrightarrow> P r \<Longrightarrow> key (f r) = key r) \<Longrightarrow>
   map key (sql_update_rows P f rows) = map key rows"
  by (auto simp: sql_update_rows_def)

lemma sql_update_rows_none: "sql_count P rows = 0 \<Longrightarrow> sql_update_rows P f rows = rows"
  by (simp add: sql_count_def sql_update_rows_def filter_empty_conv map_idI)

lemma sql_count_pos: "sql_count P rows \<noteq> 0 \<longleftrightarrow> (\<exists>r \<in> set rows. P r)"
  by (auto simp: sql_count_def filter_empty_conv)

lemma sql_count_1D: "sql_count P rows = 1 \<Longrightarrow> \<exists>r \<in> set rows. P r"
  using sql_count_pos [of P rows] by simp

lemma sql_count_Suc0D: "sql_count P rows = Suc 0 \<Longrightarrow> \<exists>r \<in> set rows. P r"
  using sql_count_pos [of P rows] by simp

lemma sql_count_key_le_1:
  assumes "distinct (map key rows)" and "\<And>r. P r \<Longrightarrow> key r = k"
  shows "sql_count P rows \<le> 1"
  using assms
proof (induction rows)
  case Nil
  then show ?case by (simp add: sql_count_def)
next
  case (Cons r rows)
  then have "P r \<Longrightarrow> filter P rows = []"
    by (force simp: filter_empty_conv image_iff)
  with Cons show ?case by (auto simp: sql_count_def)
qed

lemma sql_count_key_1:
  assumes "distinct (map key rows)" and "\<And>r. P r \<Longrightarrow> key r = k"
    and "r \<in> set rows" and "P r"
  shows "sql_count P rows = Suc 0"
proof -
  have "sql_count P rows \<le> 1"
    using assms(1,2) by (rule sql_count_key_le_1)
  moreover have "sql_count P rows \<noteq> 0"
    using assms(3,4) sql_count_pos [of P rows] by blast
  ultimately show ?thesis by simp
qed

lemma find_update_rows:
  assumes "\<And>r. r \<in> set rows \<Longrightarrow> P r \<Longrightarrow> Q (f r) = Q r"
  shows "List.find Q (sql_update_rows P f rows) =
    map_option (\<lambda>r. if P r then f r else r) (List.find Q rows)"
  using assms by (induction rows) (auto simp: sql_update_rows_def)

lemma sql_max_None [simp]: "sql_max xs = None \<longleftrightarrow> xs = []"
  by (cases xs) simp_all

lemma sql_max_ge: "sql_max xs = Some m \<Longrightarrow> x \<in> set xs \<Longrightarrow> x \<le> m"
proof (induction xs arbitrary: m)
  case Nil
  then show ?case by simp
next
  case (Cons y ys)
  then show ?case by (cases "sql_max ys") auto
qed

section \<open>Row histories\<close>

text \<open>
  A table \<open>advances\<close> when every old row is still there, either untouched or with a
  greater revision: what optimistic fencing by revision relies on.
\<close>

definition advances :: "('r \<Rightarrow> 'k) \<Rightarrow> ('r \<Rightarrow> int) \<Rightarrow> 'r list \<Rightarrow> 'r list \<Rightarrow> bool" where
  "advances key ver old new \<longleftrightarrow>
     (\<forall>r \<in> set old. \<exists>r' \<in> set new. key r' = key r \<and> (r' = r \<or> ver r < ver r'))"

lemma advances_refl [simp, intro]: "advances key ver rows rows"
  by (auto simp: advances_def)

lemma advances_trans [trans]:
  "advances key ver a b \<Longrightarrow> advances key ver b c \<Longrightarrow> advances key ver a c"
  unfolding advances_def by (metis order_less_trans)

lemma advances_append [simp, intro]: "advances key ver rows (rows @ more)"
  by (auto simp: advances_def)

lemma advances_update:
  assumes "\<And>r. r \<in> set rows \<Longrightarrow> P r \<Longrightarrow> key (f r) = key r \<and> ver r < ver (f r)"
  shows "advances key ver rows (sql_update_rows P f rows)"
  using assms by (auto simp: advances_def set_sql_update_rows)

lemma advances_unique:
  assumes "advances key ver old new" and "distinct (map key new)"
    and "r \<in> set old" and "r' \<in> set new" and "key r' = key r"
  shows "r' = r \<or> ver r < ver r'"
proof -
  from assms(1,3) obtain s where s: "s \<in> set new" "key s = key r" "s = r \<or> ver r < ver s"
    by (auto simp: advances_def)
  with assms(2,4,5) have "s = r'"
    by (metis distinct_key_unique)
  with s(3) show ?thesis by blast
qed

lemma advances_fence:
  assumes "advances key ver old new" and "distinct (map key new)"
  shows "\<forall>r \<in> set old. \<forall>r' \<in> set new. key r' = key r \<and> ver r' = ver r \<longrightarrow> r' = r"
  using advances_unique [OF assms] by fastforce

section \<open>Text\<close>

text \<open>
  A Rust \<open>str\<close> is its UTF-8 bytes, one \<open>char\<close> per byte, so \<open>length\<close> is \<open>str::len\<close>.
  \<open>leading_ws s\<close> is the number of bytes of the Unicode white-space character that starts
  \<open>s\<close> (0 when none does): \<open>char::is_whitespace\<close> on the first character.
\<close>

definition leading_ws :: "string \<Rightarrow> nat" where
  "leading_ws s =
     (case map of_char (take 3 s) :: nat list of
        [] \<Rightarrow> 0
      | a # r \<Rightarrow>
          if 9 \<le> a \<and> a \<le> 13 \<or> a = 32 then 1
          else (case r of
                  [] \<Rightarrow> 0
                | b # r2 \<Rightarrow>
                    if a = 194 \<and> (b = 133 \<or> b = 160) then 2
                    else (case r2 of
                            [] \<Rightarrow> 0
                          | c # _ \<Rightarrow>
                              if a = 225 \<and> b = 154 \<and> c = 128
                                 \<or> a = 226 \<and> b = 128 \<and>
                                     (128 \<le> c \<and> c \<le> 138 \<or> c = 168 \<or> c = 169 \<or> c = 175)
                                 \<or> a = 226 \<and> b = 129 \<and> c = 159
                                 \<or> a = 227 \<and> b = 128 \<and> c = 128
                              then 3 else 0)))"

text \<open>\<open>s.trim().is_empty()\<close>.\<close>

function blank_text :: "string \<Rightarrow> bool" where
  "blank_text s =
     (if s = [] then True
      else if leading_ws s = 0 then False
      else blank_text (drop (leading_ws s) s))"
  by pat_completeness auto
termination
  by (relation "measure length") auto

declare blank_text.simps [simp del]

lemma blank_text_Nil [simp]: "blank_text []"
  by (subst blank_text.simps) simp

lemma not_blank_nonempty: "\<not> blank_text s \<Longrightarrow> s \<noteq> []"
  by auto

lemma not_blank_leading: "s \<noteq> [] \<Longrightarrow> leading_ws s = 0 \<Longrightarrow> \<not> blank_text s"
  by (subst blank_text.simps) simp

lemma leading_ws_bytes:
  "c \<in> set (take (leading_ws s) s) \<Longrightarrow> (of_char c :: nat) \<le> 32 \<or> 128 \<le> (of_char c :: nat)"
proof -
  assume c: "c \<in> set (take (leading_ws s) s)"
  show ?thesis
  proof (cases s)
    case (Cons x xs)
    note s1 = this
    show ?thesis
    proof (cases xs)
      case Nil
      with c s1 show ?thesis by (auto simp: leading_ws_def split: if_splits)
    next
      case (Cons y ys)
      note s2 = this
      show ?thesis
      proof (cases ys)
        case Nil
        with c s1 s2 show ?thesis by (auto simp: leading_ws_def split: if_splits)
      next
        case (Cons z zs)
        with c s1 s2 show ?thesis
          by (auto simp: leading_ws_def numeral_3_eq_3 split: if_splits)
      qed
    qed
  qed (use c in simp)
qed

lemma blank_text_bytes:
  "blank_text s \<Longrightarrow> c \<in> set s \<Longrightarrow> (of_char c :: nat) \<le> 32 \<or> 128 \<le> (of_char c :: nat)"
proof (induction s rule: blank_text.induct)
  case (1 s)
  then have ne: "s \<noteq> []" by auto
  with "1.prems"(1) have ws: "leading_ws s \<noteq> 0" and rest: "blank_text (drop (leading_ws s) s)"
    by (subst (asm) blank_text.simps, simp split: if_splits)+
  from "1.prems"(2) have "c \<in> set (take (leading_ws s) s) \<or> c \<in> set (drop (leading_ws s) s)"
    by (metis UnE append_take_drop_id set_append)
  then show ?case
    using leading_ws_bytes "1.IH" [OF ne ws rest] by blast
qed

lemma visible_not_blank:
  "c \<in> set s \<Longrightarrow> 32 < (of_char c :: nat) \<Longrightarrow> (of_char c :: nat) < 128 \<Longrightarrow> \<not> blank_text s"
  using blank_text_bytes by fastforce

text \<open>\<open>leading_control s\<close>: the first character is in the category Cc (\<open>char::is_control\<close>).\<close>

definition leading_control :: "string \<Rightarrow> bool" where
  "leading_control s =
     (case map of_char (take 2 s) :: nat list of
        [] \<Rightarrow> False
      | a # r \<Rightarrow> a < 32 \<or> a = 127 \<or>
          (case r of [] \<Rightarrow> False | b # _ \<Rightarrow> a = 194 \<and> 128 \<le> b \<and> b \<le> 159))"

fun any_suffix :: "(string \<Rightarrow> bool) \<Rightarrow> string \<Rightarrow> bool" where
  "any_suffix P [] = P []"
| "any_suffix P (c # cs) = (P (c # cs) \<or> any_suffix P cs)"

definition contains_whitespace :: "string \<Rightarrow> bool" where
  "contains_whitespace s = any_suffix (\<lambda>t. leading_ws t \<noteq> 0) s"

definition contains_control :: "string \<Rightarrow> bool" where
  "contains_control s = any_suffix leading_control s"

definition contains_text :: "string \<Rightarrow> string \<Rightarrow> bool" where
  "contains_text pat s = any_suffix (\<lambda>t. take (length pat) t = pat) s"

definition starts_with :: "string \<Rightarrow> string \<Rightarrow> bool" where
  "starts_with pat s \<longleftrightarrow> take (length pat) s = pat"

definition strip_prefix :: "string \<Rightarrow> string \<Rightarrow> string option" where
  "strip_prefix pat s = (if starts_with pat s then Some (drop (length pat) s) else None)"

text \<open>\<open>s.chars().count()\<close>: the bytes that are not UTF-8 continuation bytes.\<close>

definition chars_count :: "string \<Rightarrow> nat" where
  "chars_count s = length (filter (\<lambda>c. \<not> (128 \<le> (of_char c :: nat) \<and> (of_char c :: nat) < 192)) s)"

definition newline :: char where "newline = CHR 0x0A"
definition carriage_return :: char where "carriage_return = CHR 0x0D"
definition nul :: char where "nul = CHR 0x00"

lemma strip_prefix_Some: "strip_prefix p s = Some t \<longleftrightarrow> s = p @ t"
  unfolding strip_prefix_def starts_with_def
  by (auto simp: append_eq_conv_conj) (metis append_take_drop_id)

section \<open>Interfaces\<close>

subsection \<open>Text codecs\<close>

text \<open>
  The contract of the pairs \<open>x_text\<close> / \<open>x_from_text\<close> by which enumerations are stored
  in TEXT columns.
\<close>

locale text_codec =
  fixes enc :: "'a \<Rightarrow> string"
    and dec :: "string \<Rightarrow> ('e, 'a) result"
  assumes dec_enc: "dec (enc x) = Inr x"
    and enc_dec: "dec s = Inr x \<Longrightarrow> enc x = s"
begin

lemma dec_iff: "dec s = Inr x \<longleftrightarrow> s = enc x"
  using dec_enc enc_dec by blast

lemma enc_inject: "enc x = enc y \<longleftrightarrow> x = y"
  by (metis Inr_inject dec_enc)

lemma dec_fails_iff: "(\<exists>e. dec s = Inl e) \<longleftrightarrow> s \<notin> range enc"
proof (cases "dec s")
  case (Inl e)
  then show ?thesis using dec_enc by force
next
  case (Inr x)
  then show ?thesis using enc_dec by force
qed

end

subsection \<open>Phase graphs\<close>

text \<open>
  The contract of the transition tables: a rank that every permitted step raises, and
  phases without successors.
\<close>

locale phase_graph =
  fixes permits :: "'p \<Rightarrow> 'p \<Rightarrow> bool"
    and rank :: "'p \<Rightarrow> nat"
    and final :: "'p \<Rightarrow> bool"
    and bound :: nat
  assumes permits_rank: "permits a b \<Longrightarrow> rank a < rank b"
    and rank_bound: "rank a \<le> bound"
    and final_stuck: "final a \<Longrightarrow> \<not> permits a b"
begin

fun run :: "'p \<Rightarrow> 'p list \<Rightarrow> bool" where
  "run a [] = True"
| "run a (b # bs) = (permits a b \<and> run b bs)"

lemma run_rank: "run a bs \<Longrightarrow> rank a + length bs \<le> bound"
proof (induction bs arbitrary: a)
  case Nil
  then show ?case using rank_bound by simp
next
  case (Cons b bs)
  then have "rank a < rank b" and "rank b + length bs \<le> bound"
    using permits_rank by auto
  then show ?case by simp
qed

lemma run_rank_last: "run a bs \<Longrightarrow> b \<in> set bs \<Longrightarrow> rank a < rank b"
proof (induction bs arbitrary: a)
  case Nil
  then show ?case by simp
next
  case (Cons c cs)
  then have "rank a < rank c" using permits_rank by simp
  with Cons show ?case by (auto intro: less_trans)
qed

lemma run_acyclic: "run a bs \<Longrightarrow> a \<notin> set bs"
  using run_rank_last by blast

lemma run_distinct: "run a bs \<Longrightarrow> distinct (a # bs)"
proof (induction bs arbitrary: a)
  case Nil
  then show ?case by simp
next
  case (Cons b bs)
  then have "run b bs" by simp
  then have "distinct (b # bs)" by (rule Cons.IH)
  moreover from Cons.prems have "a \<notin> set (b # bs)" by (rule run_acyclic)
  ultimately show ?case by simp
qed

lemma run_final: "final a \<Longrightarrow> run a bs \<Longrightarrow> bs = []"
  by (cases bs) (auto dest: final_stuck)

lemma no_return: "run a (bs @ [a]) \<Longrightarrow> False"
  using run_acyclic by fastforce

end

end
