(* ===== verification/Environment.thy ===== *)
theory Environment
  imports Prelude "HOL-Library.Word"
begin

text \<open>
  The third-party code the program calls, as parameters: the textual form of a
  \<open>uuid::Uuid\<close> and its parser, and the text of a \<open>serde_json::Value\<close> and its parser. The
  record \<open>env\<close> carries them; \<open>env_ok\<close> states the documented round trips. A concrete
  environment shows that the laws can hold and lets the witnesses evaluate.
\<close>

section \<open>Identities and JSON values\<close>

text \<open>A \<open>Uuid\<close> is a 128-bit value; \<open>0\<close> is the nil UUID.\<close>

type_synonym uuid = "128 word"

datatype json_number = JInt int | JFloat string

datatype json =
    JNull
  | JBool bool
  | JNumber json_number
  | JString string
  | JArray "json list"
  | JObject "(string \<times> json) list"

text \<open>
  \<open>json_get\<close> is \<open>Value::get\<close> with a string key: in a parsed object a later duplicate
  replaces an earlier one. \<open>json_str\<close> is \<open>Value::as_str\<close>. \<open>struct_field\<close> is the field
  access of a derived \<open>Deserialize\<close>: a duplicate of a known field is an error.
\<close>

fun json_get :: "json \<Rightarrow> string \<Rightarrow> json option" where
  "json_get (JObject kvs) k = map_of (rev kvs) k"
| "json_get _ _ = None"

fun json_str :: "json \<Rightarrow> string option" where
  "json_str (JString s) = Some s"
| "json_str _ = None"

fun json_is_object :: "json \<Rightarrow> bool" where
  "json_is_object (JObject _) = True"
| "json_is_object _ = False"

definition struct_field :: "(string \<times> json) list \<Rightarrow> string \<Rightarrow> json option option" where
  "struct_field kvs k =
     (case filter (\<lambda>kv. fst kv = k) kvs of
        [] \<Rightarrow> Some None
      | [kv] \<Rightarrow> Some (Some (snd kv))
      | _ \<Rightarrow> None)"

section \<open>The environment\<close>

record env =
  uuid_text :: "uuid \<Rightarrow> string"
  uuid_parse :: "string \<Rightarrow> uuid option"
  json_text :: "json \<Rightarrow> string"
  json_parse :: "string \<Rightarrow> json option"

text \<open>
  \<open>json_exact n j\<close>: a value whose text parses back to itself, nested at most \<open>n\<close> deep
  (\<open>serde_json\<close> stops at 128) and without floating-point or out-of-range numbers.
\<close>

primrec json_exact :: "nat \<Rightarrow> json \<Rightarrow> bool" where
  "json_exact 0 j = False"
| "json_exact (Suc n) j =
     (case j of
        JNumber (JInt k) \<Rightarrow> - (2 ^ 63) \<le> k \<and> k < 2 ^ 63
      | JNumber (JFloat _) \<Rightarrow> False
      | JArray js \<Rightarrow> list_all (json_exact n) js
      | JObject kvs \<Rightarrow> list_all (\<lambda>kv. json_exact n (snd kv)) kvs
      | _ \<Rightarrow> True)"

text \<open>The hyphenated form of a UUID: 36 lower-case hexadecimal digits and hyphens.\<close>

definition uuid_chars :: "char set" where "uuid_chars = set ''0123456789abcdef-''"

definition env_ok :: "env \<Rightarrow> bool" where
  "env_ok E \<longleftrightarrow>
     (\<forall>u. uuid_parse E (uuid_text E u) = Some u) \<and>
     (\<forall>u. length (uuid_text E u) = 36 \<and> set (uuid_text E u) \<subseteq> uuid_chars) \<and>
     (\<forall>j. json_exact 100 j \<longrightarrow> json_parse E (json_text E j) = Some j)"

lemma env_ok_uuid_shape:
  "env_ok E \<Longrightarrow> length (uuid_text E u) = 36"
  "env_ok E \<Longrightarrow> c \<in> set (uuid_text E u) \<Longrightarrow> c \<in> uuid_chars"
  by (auto simp: env_ok_def)

lemma env_ok_uuid: "env_ok E \<Longrightarrow> uuid_parse E (uuid_text E u) = Some u"
  by (simp add: env_ok_def)

lemma env_ok_json: "env_ok E \<Longrightarrow> json_exact 100 j \<Longrightarrow> json_parse E (json_text E j) = Some j"
  by (simp add: env_ok_def)

lemma uuid_text_inject: "env_ok E \<Longrightarrow> uuid_text E u = uuid_text E v \<longleftrightarrow> u = v"
  by (metis env_ok_uuid option.inject)

section \<open>A concrete environment\<close>

text \<open>
  UUIDs print in the hyphenated form; JSON values print in a length-prefixed form that a parser
  with fuel reads back.
\<close>

definition hex_digit :: "nat \<Rightarrow> char" where
  "hex_digit d = ''0123456789abcdef'' ! (d mod 16)"

definition hex_value :: "char \<Rightarrow> nat" where
  "hex_value c = (let n = of_char c :: nat in if n < 97 then n - 48 else n - 87)"

text \<open>Digit \<open>i\<close> of a UUID, most significant first, and the positions of the hyphens.\<close>

definition uuid_digit :: "uuid \<Rightarrow> nat \<Rightarrow> char" where
  "uuid_digit u i = hex_digit (unat u div 16 ^ (31 - i))"

definition sample_uuid_text :: "uuid \<Rightarrow> string" where
  "sample_uuid_text u =
     map (uuid_digit u) [0..<8] @ ''-'' @ map (uuid_digit u) [8..<12] @ ''-''
     @ map (uuid_digit u) [12..<16] @ ''-'' @ map (uuid_digit u) [16..<20] @ ''-''
     @ map (uuid_digit u) [20..<32]"

definition sample_uuid_parse :: "string \<Rightarrow> uuid option" where
  "sample_uuid_parse s =
     (let u = word_of_nat (foldl (\<lambda>n c. 16 * n + hex_value c) 0 (filter (\<lambda>c. c \<noteq> CHR ''-'') s))
      in if sample_uuid_text u = s then Some u else None)"

lemma hex_digit_range: "(d :: nat) mod 16 \<in> {0, 1, 2, 3, 4, 5, 6, 7, 8, 9, 10, 11, 12, 13, 14, 15}"
proof -
  have "e \<in> {0, 1, 2, 3, 4, 5, 6, 7, 8, 9, 10, 11, 12, 13, 14, 15}" if "e < 16" for e :: nat
    using that unfolding insert_iff empty_iff by presburger
  then show ?thesis by simp
qed

lemma hex_value_digit: "hex_value (hex_digit d) = d mod 16"
  using hex_digit_range [of d] unfolding insert_iff empty_iff
  by (elim disjE) (simp_all add: hex_digit_def hex_value_def)

lemma hex_digit_char: "hex_digit d \<in> uuid_chars" "hex_digit d \<noteq> CHR ''-''"
  using hex_digit_range [of d] unfolding insert_iff empty_iff
  by (elim disjE; simp add: hex_digit_def uuid_chars_def)+

lemma hex_digits_value:
  "k \<le> n \<Longrightarrow> foldl (\<lambda>a c. 16 * a + hex_value c) 0 (map (\<lambda>i. hex_digit (m div 16 ^ (n - Suc i))) [0..<k]) =
     m div 16 ^ (n - k) mod 16 ^ k"
proof (induction k)
  case 0
  then show ?case by simp
next
  case (Suc k)
  define q where "q = m div 16 ^ (n - Suc k)"
  have split: "n - k = Suc (n - Suc k)" using Suc.prems by simp
  have "m div 16 ^ (n - k) = q div 16"
    unfolding q_def split by (simp only: power_Suc2 div_mult2_eq)
  moreover have "q mod 16 ^ Suc k = 16 * (q div 16 mod 16 ^ k) + q mod 16"
    by (simp add: mod_mult2_eq)
  ultimately show ?case
    using Suc by (simp add: hex_value_digit q_def)
qed

lemma sample_uuid_digits:
  "filter (\<lambda>c. c \<noteq> CHR ''-'') (sample_uuid_text u) = map (uuid_digit u) [0..<32]"
proof -
  have split: "[0..<32] = [0..<8] @ [8..<12] @ [12..<16] @ [16..<20] @ [20..<32::nat]"
    by (simp add: upt_rec)
  have keep: "filter (\<lambda>c. c \<noteq> CHR ''-'') (map (uuid_digit u) is) = map (uuid_digit u) is" for "is"
    by (induction "is") (simp_all add: uuid_digit_def hex_digit_char)
  have drop: "filter (\<lambda>c. c \<noteq> CHR ''-'') ''-'' = []"
    by simp
  show ?thesis
    by (simp only: sample_uuid_text_def filter_append keep drop split map_append append_Nil)
qed

lemma sample_uuid_round_trip: "sample_uuid_parse (sample_uuid_text u) = Some u"
proof -
  have digits: "uuid_digit u = (\<lambda>i. hex_digit (unat u div 16 ^ (32 - Suc i)))"
    by (simp add: fun_eq_iff uuid_digit_def)
  have "foldl (\<lambda>n c. 16 * n + hex_value c) 0 (map (uuid_digit u) [0..<32]) = unat u mod 16 ^ 32"
    unfolding digits using hex_digits_value [of 32 32 "unat u"]
    by (simp only: diff_self_eq_0 power_0 div_by_1 order_refl)
  also have "unat u mod 16 ^ 32 = unat u"
  proof -
    have "unat u < 2 ^ LENGTH(128)" by (rule unsigned_less)
    then show ?thesis by simp
  qed
  finally show ?thesis
    by (simp add: sample_uuid_parse_def sample_uuid_digits)
qed

lemma sample_uuid_shape:
  "length (sample_uuid_text u) = 36" "set (sample_uuid_text u) \<subseteq> uuid_chars"
proof -
  show "length (sample_uuid_text u) = 36" by (simp add: sample_uuid_text_def)
  have "CHR ''-'' \<in> uuid_chars" by (simp add: uuid_chars_def)
  then show "set (sample_uuid_text u) \<subseteq> uuid_chars"
    by (auto simp: sample_uuid_text_def uuid_digit_def hex_digit_char)
qed

fun nat_code :: "nat \<Rightarrow> string" where
  "nat_code 0 = ''.''"
| "nat_code (Suc n) = CHR ''1'' # nat_code n"

fun nat_decode :: "string \<Rightarrow> (nat \<times> string) option" where
  "nat_decode [] = None"
| "nat_decode (c # cs) =
     (if c = CHR ''.'' then Some (0, cs)
      else map_option (\<lambda>(n, r). (Suc n, r)) (nat_decode cs))"

definition str_code :: "string \<Rightarrow> string" where
  "str_code s = nat_code (length s) @ s"

definition str_decode :: "string \<Rightarrow> (string \<times> string) option" where
  "str_decode s = map_option (\<lambda>(n, r). (take n r, drop n r)) (nat_decode s)"

fun json_code :: "json \<Rightarrow> string" where
  "json_code JNull = ''n''"
| "json_code (JBool b) = (if b then ''t'' else ''f'')"
| "json_code (JNumber (JInt k)) =
     (if 0 \<le> k then CHR ''+'' # nat_code (nat k) else CHR ''-'' # nat_code (nat (- k)))"
| "json_code (JNumber (JFloat s)) = CHR ''#'' # str_code s"
| "json_code (JString s) = CHR ''s'' # str_code s"
| "json_code (JArray js) = CHR ''a'' # nat_code (length js) @ concat (map json_code js)"
| "json_code (JObject kvs) =
     CHR ''o'' # nat_code (length kvs) @ concat (map (\<lambda>(k, v). str_code k @ json_code v) kvs)"

text \<open>\<open>many\<close> reads a counted sequence with a reader of one item.\<close>

fun many :: "(string \<Rightarrow> ('a \<times> string) option) \<Rightarrow> nat \<Rightarrow> string \<Rightarrow> ('a list \<times> string) option" where
  "many p 0 s = Some ([], s)"
| "many p (Suc n) s =
     (case p s of None \<Rightarrow> None
      | Some (x, r) \<Rightarrow> map_option (\<lambda>(xs, r'). (x # xs, r')) (many p n r))"

definition counted :: "(string \<Rightarrow> ('a \<times> string) option) \<Rightarrow> string \<Rightarrow> ('a list \<times> string) option" where
  "counted p s = (case nat_decode s of None \<Rightarrow> None | Some (n, r) \<Rightarrow> many p n r)"

definition json_pair_decode ::
  "(string \<Rightarrow> (json \<times> string) option) \<Rightarrow> string \<Rightarrow> ((string \<times> json) \<times> string) option" where
  "json_pair_decode p s =
     (case str_decode s of None \<Rightarrow> None
      | Some (k, r) \<Rightarrow> map_option (\<lambda>(v, r'). ((k, v), r')) (p r))"

fun json_decode :: "nat \<Rightarrow> string \<Rightarrow> (json \<times> string) option" where
  "json_decode 0 s = None"
| "json_decode (Suc f) [] = None"
| "json_decode (Suc f) (c # cs) =
     (if c = CHR ''n'' then Some (JNull, cs)
      else if c = CHR ''t'' then Some (JBool True, cs)
      else if c = CHR ''f'' then Some (JBool False, cs)
      else if c = CHR ''+'' then map_option (\<lambda>(n, r). (JNumber (JInt (int n)), r)) (nat_decode cs)
      else if c = CHR ''-'' then map_option (\<lambda>(n, r). (JNumber (JInt (- int n)), r)) (nat_decode cs)
      else if c = CHR ''#'' then map_option (\<lambda>(s, r). (JNumber (JFloat s), r)) (str_decode cs)
      else if c = CHR ''s'' then map_option (\<lambda>(s, r). (JString s, r)) (str_decode cs)
      else if c = CHR ''a'' then map_option (\<lambda>(js, r). (JArray js, r)) (counted (json_decode f) cs)
      else if c = CHR ''o'' then
        map_option (\<lambda>(kvs, r). (JObject kvs, r)) (counted (json_pair_decode (json_decode f)) cs)
      else None)"

lemma nat_decode_code [simp]: "nat_decode (nat_code n @ r) = Some (n, r)"
  by (induction n) auto

lemma str_decode_code [simp]: "str_decode (str_code s @ r) = Some (s, r)"
  by (simp add: str_decode_def str_code_def)

lemma many_concat:
  assumes "\<And>x r. x \<in> set xs \<Longrightarrow> p (code x @ r) = Some (x, r)"
  shows "many p (length xs) (concat (map code xs) @ r) = Some (xs, r)"
  using assms by (induction xs arbitrary: r) auto

lemma size_json_pair: "kv \<in> set kvs \<Longrightarrow> size (snd kv) < size (JObject kvs)"
  by (induction kvs) auto

lemma json_decode_code: "size j < f \<Longrightarrow> json_decode f (json_code j @ r) = Some (j, r)"
proof (induction f arbitrary: j r)
  case 0
  then show ?case by simp
next
  case (Suc f)
  show ?case
  proof (cases j)
    case (JNumber x)
    then show ?thesis by (cases x) auto
  next
    case (JArray js)
    have "json_decode f (json_code x @ r') = Some (x, r')" if "x \<in> set js" for x r'
    proof -
      from that have "size x < size j"
        using JArray size_list_estimation' [of x js "size x" size] by simp
      with Suc show ?thesis by simp
    qed
    then have "many (json_decode f) (length js) (concat (map json_code js) @ r) = Some (js, r)"
      by (rule many_concat)
    with JArray show ?thesis by (simp add: counted_def)
  next
    case (JObject kvs)
    have "json_pair_decode (json_decode f) ((\<lambda>(k, v). str_code k @ json_code v) kv @ r') =
        Some (kv, r')" if "kv \<in> set kvs" for kv r'
    proof -
      from that have "size (snd kv) < size j"
        using JObject size_json_pair by simp
      with Suc show ?thesis
        by (cases kv) (simp add: json_pair_decode_def)
    qed
    then have "many (json_pair_decode (json_decode f)) (length kvs)
        (concat (map (\<lambda>(k, v). str_code k @ json_code v) kvs) @ r) = Some (kvs, r)"
      by (rule many_concat)
    with JObject show ?thesis by (simp add: counted_def)
  qed auto
qed

definition sample_json_text :: "json \<Rightarrow> string" where
  "sample_json_text j = nat_code (Suc (size j)) @ json_code j"

definition sample_json_parse :: "string \<Rightarrow> json option" where
  "sample_json_parse s =
     (case nat_decode s of None \<Rightarrow> None
      | Some (f, r) \<Rightarrow>
          (case json_decode f r of Some (j, []) \<Rightarrow> Some j | _ \<Rightarrow> None))"

lemma sample_json_round_trip: "sample_json_parse (sample_json_text j) = Some j"
  using json_decode_code [of j "Suc (size j)" "[]"]
  by (simp add: sample_json_parse_def sample_json_text_def)

definition sample_env :: env where
  "sample_env = \<lparr> uuid_text = sample_uuid_text, uuid_parse = sample_uuid_parse,
     json_text = sample_json_text, json_parse = sample_json_parse \<rparr>"

lemma sample_env_ok [simp, intro]: "env_ok sample_env"
  by (simp add: env_ok_def sample_env_def sample_uuid_round_trip sample_json_round_trip
      sample_uuid_shape)

lemmas sample_uuid_inject [simp] = uuid_text_inject [OF sample_env_ok]
lemmas sample_uuid_parse_text [simp] = env_ok_uuid [OF sample_env_ok]

lemma sample_json_parse_text [simp]: "json_parse sample_env (json_text sample_env j) = Some j"
  by (simp add: sample_env_def sample_json_round_trip)

end
