(* ===== verification/Domain.thy ===== *)
theory Domain
  imports Environment
begin

text \<open>
  \<open>src/domain/mod.rs\<close>: provider identities, optimistic revisions, lifecycles, the two
  phase graphs of durable operations (the generic one and the onboarding one), compound
  operations, provider-identifier validation and the wall clock.
\<close>

section \<open>Providers, revisions, lifecycles\<close>

datatype provider_kind = Codex | OpenCode

datatype workstream_lifecycle = Open | Parked | RecoveryRequired

datatype workstream_origin = External | Independent | Fork

datatype runtime_status = Starting | Idle | Working | Attention | Stopped | Unknown

datatype operation_kind = Onboard | Start

datatype operation_phase =
    Prepared
  | CapabilityIssued
  | RuntimeOwnedLaunching
  | ProviderPreparation
  | ExternalEffectStarted
  | ProviderExecStarted
  | ProviderExecProven
  | ExecFailedKnownAbsent
  | RolledBack
  | AwaitingReconciliation
  | Committed
  | RecoveryRequired
  | Failed

datatype onboarding_phase =
    Prepared
  | CapabilityIssued
  | RuntimeOwnedLaunching
  | ProviderPreparation
  | ProviderExternalEffectStarted
  | ProviderExecStarted
  | ProviderExecProven
  | KnownAbsentExec
  | RecoveryRequired
  | RolledBack

datatype domain_error =
    ClockOverflow
  | ClockBeforeUnixEpoch
  | EmptyRequestKey
  | ExpectedRevisionsMustBeObject
  | InvalidOperationOutcome
  | InvalidOperationTransition operation_phase operation_phase
  | InvalidOnboardingTransition onboarding_phase onboarding_phase
  | OnboardingOperationRequired
  | InvalidOnboardingOperationPhase operation_phase
  | InvalidProviderIdentifier
  | UnknownProviderKind string
  | InvalidRevision int
  | RevisionConflict int int
  | RequestKeyTooLong

text \<open>\<open>ProviderKind::as_str\<close> and its \<open>FromStr\<close>.\<close>

fun provider_kind_text :: "provider_kind \<Rightarrow> string" where
  "provider_kind_text Codex = ''codex''"
| "provider_kind_text OpenCode = ''opencode''"

definition provider_kind_parse :: "string \<Rightarrow> domain_error + provider_kind" where
  "provider_kind_parse s =
     (if s = ''codex'' then Inr Codex
      else if s = ''opencode'' then Inr OpenCode
      else Inl (UnknownProviderKind s))"

text \<open>
  \<open>Revision\<close> is an \<open>i64\<close>. \<open>next\<close> is a plain \<open>+ 1\<close>, which wraps in a release build.
\<close>

definition i64_max :: int where "i64_max = 2 ^ 63 - 1"

definition i64_wrap :: "int \<Rightarrow> int" where
  "i64_wrap n = (n + 2 ^ 63) mod 2 ^ 64 - 2 ^ 63"

definition revision_initial :: int where "revision_initial = 1"

definition revision_next :: "int \<Rightarrow> int" where
  "revision_next r = i64_wrap (r + 1)"

definition revision_try_from :: "int \<Rightarrow> domain_error + int" where
  "revision_try_from v = (if v < 1 then Inl (InvalidRevision v) else Inr v)"

lemma revision_next_below_max:
  "0 < r \<Longrightarrow> r < i64_max \<Longrightarrow> revision_next r = r + 1"
  by (simp add: revision_next_def i64_wrap_def i64_max_def)

lemma revision_try_from_Inr [simp]: "revision_try_from v = Inr r \<longleftrightarrow> r = v \<and> 0 < v"
  by (auto simp: revision_try_from_def)

section \<open>Provider session identities\<close>

record provider_session_id =
  ps_provider :: provider_kind
  ps_native :: string

definition validate_provider_identifier :: "string \<Rightarrow> domain_error + unit" where
  "validate_provider_identifier v =
     (if v = [] \<or> length v > 256 \<or> newline \<in> set v \<or> carriage_return \<in> set v
      then Inl InvalidProviderIdentifier else Inr ())"

definition provider_session_new :: "provider_kind \<Rightarrow> string \<Rightarrow> domain_error + provider_session_id" where
  "provider_session_new p native =
     and_then (validate_provider_identifier native) (\<lambda>_.
     Inr \<lparr> ps_provider = p, ps_native = native \<rparr>)"

definition provider_session_codex :: "string \<Rightarrow> domain_error + provider_session_id" where
  "provider_session_codex native = provider_session_new Codex native"

text \<open>
  The derived \<open>Deserialize\<close> of \<open>ProviderKind\<close>: a unit variant is its name, or an object that
  maps its name to null.
\<close>

definition provider_kind_of_json :: "json \<Rightarrow> provider_kind option" where
  "provider_kind_of_json j =
     (case j of
        JString s \<Rightarrow> (case provider_kind_parse s of Inl _ \<Rightarrow> None | Inr k \<Rightarrow> Some k)
      | JObject [(s, JNull)] \<Rightarrow> (case provider_kind_parse s of Inl _ \<Rightarrow> None | Inr k \<Rightarrow> Some k)
      | _ \<Rightarrow> None)"

text \<open>
  The \<open>Deserialize\<close> of a session identity: the wire structure (an object without unknown
  fields, or the sequence of its two fields), then the validation of the identifier.
\<close>

definition session_wire :: "json \<Rightarrow> (json \<times> json) option" where
  "session_wire j =
     (case j of
        JObject kvs \<Rightarrow>
          if list_all (\<lambda>kv. fst kv = ''provider'' \<or> fst kv = ''native_session_id'') kvs
          then (case (struct_field kvs ''provider'', struct_field kvs ''native_session_id'') of
                  (Some (Some p), Some (Some n)) \<Rightarrow> Some (p, n)
                | _ \<Rightarrow> None)
          else None
      | JArray [p, n] \<Rightarrow> Some (p, n)
      | _ \<Rightarrow> None)"

definition provider_session_of_json :: "json \<Rightarrow> provider_session_id option" where
  "provider_session_of_json j =
     (case session_wire j of
        None \<Rightarrow> None
      | Some (p, n) \<Rightarrow>
          (case (provider_kind_of_json p, json_str n) of
             (Some k, Some native) \<Rightarrow>
               (case provider_session_new k native of Inl _ \<Rightarrow> None | Inr s \<Rightarrow> Some s)
           | _ \<Rightarrow> None))"

definition provider_session_json :: "provider_session_id \<Rightarrow> json" where
  "provider_session_json s =
     JObject [(''provider'', JString (provider_kind_text (ps_provider s))),
              (''native_session_id'', JString (ps_native s))]"

section \<open>The onboarding phase graph\<close>

fun from_operation_phase :: "operation_phase \<Rightarrow> onboarding_phase option" where
  "from_operation_phase operation_phase.Prepared = Some onboarding_phase.Prepared"
| "from_operation_phase operation_phase.CapabilityIssued = Some onboarding_phase.CapabilityIssued"
| "from_operation_phase operation_phase.RuntimeOwnedLaunching =
     Some onboarding_phase.RuntimeOwnedLaunching"
| "from_operation_phase operation_phase.ProviderPreparation =
     Some onboarding_phase.ProviderPreparation"
| "from_operation_phase ExternalEffectStarted = Some ProviderExternalEffectStarted"
| "from_operation_phase operation_phase.ProviderExecStarted =
     Some onboarding_phase.ProviderExecStarted"
| "from_operation_phase operation_phase.ProviderExecProven =
     Some onboarding_phase.ProviderExecProven"
| "from_operation_phase ExecFailedKnownAbsent = Some KnownAbsentExec"
| "from_operation_phase operation_phase.RecoveryRequired = Some onboarding_phase.RecoveryRequired"
| "from_operation_phase operation_phase.RolledBack = Some onboarding_phase.RolledBack"
| "from_operation_phase AwaitingReconciliation = None"
| "from_operation_phase Committed = None"
| "from_operation_phase Failed = None"

fun to_operation_phase :: "onboarding_phase \<Rightarrow> operation_phase" where
  "to_operation_phase onboarding_phase.Prepared = operation_phase.Prepared"
| "to_operation_phase onboarding_phase.CapabilityIssued = operation_phase.CapabilityIssued"
| "to_operation_phase onboarding_phase.RuntimeOwnedLaunching =
     operation_phase.RuntimeOwnedLaunching"
| "to_operation_phase onboarding_phase.ProviderPreparation = operation_phase.ProviderPreparation"
| "to_operation_phase ProviderExternalEffectStarted = ExternalEffectStarted"
| "to_operation_phase onboarding_phase.ProviderExecStarted = operation_phase.ProviderExecStarted"
| "to_operation_phase onboarding_phase.ProviderExecProven = operation_phase.ProviderExecProven"
| "to_operation_phase KnownAbsentExec = ExecFailedKnownAbsent"
| "to_operation_phase onboarding_phase.RecoveryRequired = operation_phase.RecoveryRequired"
| "to_operation_phase onboarding_phase.RolledBack = operation_phase.RolledBack"

fun is_terminal :: "operation_phase \<Rightarrow> bool" where
  "is_terminal p =
     (p = Committed \<or> p = Failed \<or> p = operation_phase.ProviderExecProven
      \<or> p = operation_phase.RolledBack)"

definition action_fenced :: "onboarding_phase \<Rightarrow> bool" where
  "action_fenced p =
     (\<not> (p = onboarding_phase.Prepared \<or> p = onboarding_phase.CapabilityIssued
        \<or> p = onboarding_phase.ProviderExecProven \<or> p = onboarding_phase.RolledBack))"

definition requires_reconciliation :: "onboarding_phase \<Rightarrow> bool" where
  "requires_reconciliation p = (p = KnownAbsentExec \<or> p = onboarding_phase.RecoveryRequired)"

definition permits_onboarding_transition :: "onboarding_phase \<Rightarrow> onboarding_phase \<Rightarrow> bool" where
  "permits_onboarding_transition a b =
     (case a of
        onboarding_phase.Prepared \<Rightarrow>
          b = onboarding_phase.CapabilityIssued \<or> b = onboarding_phase.RolledBack
      | onboarding_phase.CapabilityIssued \<Rightarrow>
          b = onboarding_phase.RuntimeOwnedLaunching \<or> b = onboarding_phase.RolledBack
      | onboarding_phase.RuntimeOwnedLaunching \<Rightarrow>
          b = onboarding_phase.ProviderPreparation \<or> b = onboarding_phase.RecoveryRequired
      | onboarding_phase.ProviderPreparation \<Rightarrow>
          b = ProviderExternalEffectStarted \<or> b = onboarding_phase.ProviderExecStarted
          \<or> b = onboarding_phase.RecoveryRequired
      | ProviderExternalEffectStarted \<Rightarrow>
          b = onboarding_phase.ProviderExecStarted \<or> b = onboarding_phase.RecoveryRequired
      | onboarding_phase.ProviderExecStarted \<Rightarrow>
          b = onboarding_phase.ProviderExecProven \<or> b = KnownAbsentExec
          \<or> b = onboarding_phase.RecoveryRequired
      | KnownAbsentExec \<Rightarrow>
          b = onboarding_phase.RolledBack \<or> b = onboarding_phase.RecoveryRequired
      | onboarding_phase.RecoveryRequired \<Rightarrow>
          b = onboarding_phase.ProviderExecProven \<or> b = onboarding_phase.RolledBack
      | _ \<Rightarrow> False)"

definition onboarding_transition ::
  "onboarding_phase \<Rightarrow> onboarding_phase \<Rightarrow> domain_error + onboarding_phase" where
  "onboarding_transition a b =
     (if permits_onboarding_transition a b then Inr b
      else Inl (InvalidOnboardingTransition a b))"

section \<open>The generic phase graph\<close>

definition permits_transition :: "operation_phase \<Rightarrow> operation_phase \<Rightarrow> bool" where
  "permits_transition a b =
     (case a of
        operation_phase.Prepared \<Rightarrow> b = ExternalEffectStarted \<or> b = Failed
      | ExternalEffectStarted \<Rightarrow>
          b = Committed \<or> b = AwaitingReconciliation \<or> b = operation_phase.RecoveryRequired
          \<or> b = Failed
      | AwaitingReconciliation \<Rightarrow>
          b = Committed \<or> b = operation_phase.RecoveryRequired \<or> b = Failed
      | operation_phase.RecoveryRequired \<Rightarrow> b = Committed
      | _ \<Rightarrow> False)"

section \<open>Compound operations\<close>

record compound_operation =
  co_id :: uuid
  co_request_key :: string
  co_kind :: operation_kind
  co_phase :: operation_phase
  co_expected_revisions :: string
  co_launch_token_id :: "string option"
  co_launch_token_verifier :: "string option"
  co_launch_token_expiry :: "int option"
  co_launch_claims_digest :: "string option"
  co_effect_watermark :: "string option"
  co_outcome :: "string option"
  co_revision :: int

definition compound_with_id ::
  "env \<Rightarrow> uuid \<Rightarrow> string \<Rightarrow> operation_kind \<Rightarrow> string \<Rightarrow> domain_error + compound_operation" where
  "compound_with_id E i request_key kind expected_revisions =
     (if blank_text request_key then Inl EmptyRequestKey
      else if length request_key > 128 then Inl RequestKeyTooLong
      else if \<not> (case json_parse E expected_revisions of
                   None \<Rightarrow> False | Some v \<Rightarrow> json_is_object v)
      then Inl ExpectedRevisionsMustBeObject
      else Inr \<lparr> co_id = i, co_request_key = request_key, co_kind = kind,
                 co_phase = operation_phase.Prepared,
                 co_expected_revisions = expected_revisions,
                 co_launch_token_id = None, co_launch_token_verifier = None,
                 co_launch_token_expiry = None, co_launch_claims_digest = None,
                 co_effect_watermark = None, co_outcome = None,
                 co_revision = revision_initial \<rparr>)"

text \<open>The check of an optional outcome: \<open>serde_json::from_str::<Value>\<close> must succeed.\<close>

definition check_outcome :: "env \<Rightarrow> string option \<Rightarrow> domain_error + unit" where
  "check_outcome E outcome =
     (case outcome of None \<Rightarrow> Inr ()
      | Some s \<Rightarrow> (if json_parse E s = None then Inl InvalidOperationOutcome else Inr ()))"

definition compound_transition ::
  "env \<Rightarrow> compound_operation \<Rightarrow> operation_phase \<Rightarrow> string option \<Rightarrow> string option
     \<Rightarrow> domain_error + compound_operation" where
  "compound_transition E c nxt watermark outcome =
     (if co_kind c = Onboard then Inl OnboardingOperationRequired
      else if \<not> permits_transition (co_phase c) nxt
      then Inl (InvalidOperationTransition (co_phase c) nxt)
      else and_then (check_outcome E outcome) (\<lambda>_.
        Inr (c\<lparr> co_phase := nxt, co_effect_watermark := watermark, co_outcome := outcome,
                co_revision := revision_next (co_revision c) \<rparr>)))"

definition compound_onboarding_phase :: "compound_operation \<Rightarrow> domain_error + onboarding_phase" where
  "compound_onboarding_phase c =
     (if co_kind c \<noteq> Onboard then Inl OnboardingOperationRequired
      else ok_or (from_operation_phase (co_phase c))
             (InvalidOnboardingOperationPhase (co_phase c)))"

definition compound_transition_onboarding ::
  "env \<Rightarrow> compound_operation \<Rightarrow> onboarding_phase \<Rightarrow> string option \<Rightarrow> string option
     \<Rightarrow> domain_error + compound_operation" where
  "compound_transition_onboarding E c nxt watermark outcome =
     and_then (compound_onboarding_phase c) (\<lambda>current.
     and_then (onboarding_transition current nxt) (\<lambda>_.
     and_then (check_outcome E outcome) (\<lambda>_.
     Inr (c\<lparr> co_phase := to_operation_phase nxt, co_effect_watermark := watermark,
             co_outcome := outcome, co_revision := revision_next (co_revision c) \<rparr>))))"

section \<open>The wall clock\<close>

text \<open>
  \<open>SystemClock::now_millis\<close>: the reading is the time since the epoch in milliseconds,
  \<open>None\<close> when the clock is set before it.
\<close>

definition now_millis :: "nat option \<Rightarrow> domain_error + int" where
  "now_millis elapsed =
     (case elapsed of
        None \<Rightarrow> Inl ClockBeforeUnixEpoch
      | Some ms \<Rightarrow> (if int ms \<le> i64_max then Inr (int ms) else Inl ClockOverflow))"

section \<open>Facts about the phase graphs\<close>

text \<open>Ranks that every permitted transition raises.\<close>

fun onboarding_rank :: "onboarding_phase \<Rightarrow> nat" where
  "onboarding_rank onboarding_phase.Prepared = 0"
| "onboarding_rank onboarding_phase.CapabilityIssued = 1"
| "onboarding_rank onboarding_phase.RuntimeOwnedLaunching = 2"
| "onboarding_rank onboarding_phase.ProviderPreparation = 3"
| "onboarding_rank ProviderExternalEffectStarted = 4"
| "onboarding_rank onboarding_phase.ProviderExecStarted = 5"
| "onboarding_rank KnownAbsentExec = 6"
| "onboarding_rank onboarding_phase.RecoveryRequired = 7"
| "onboarding_rank onboarding_phase.ProviderExecProven = 8"
| "onboarding_rank onboarding_phase.RolledBack = 8"

fun operation_rank :: "operation_phase \<Rightarrow> nat" where
  "operation_rank operation_phase.Prepared = 0"
| "operation_rank ExternalEffectStarted = 1"
| "operation_rank AwaitingReconciliation = 2"
| "operation_rank operation_phase.RecoveryRequired = 3"
| "operation_rank _ = 4"

lemmas onboarding_graph_defs =
  permits_onboarding_transition_def action_fenced_def requires_reconciliation_def

interpretation onboarding: phase_graph permits_onboarding_transition onboarding_rank
    "\<lambda>p. is_terminal (to_operation_phase p)" 8
proof unfold_locales
  fix a b
  show "permits_onboarding_transition a b \<Longrightarrow> onboarding_rank a < onboarding_rank b"
    by (cases a) (auto simp: onboarding_graph_defs)
  show "onboarding_rank a \<le> 8"
    by (cases a) auto
  show "is_terminal (to_operation_phase a) \<Longrightarrow> \<not> permits_onboarding_transition a b"
    by (cases a) (auto simp: onboarding_graph_defs)
qed

interpretation journal: phase_graph permits_transition operation_rank is_terminal 4
proof unfold_locales
  fix a b
  show "permits_transition a b \<Longrightarrow> operation_rank a < operation_rank b"
    by (cases a) (auto simp: permits_transition_def)
  show "operation_rank a \<le> 4"
    by (cases a) auto
  show "is_terminal a \<Longrightarrow> \<not> permits_transition a b"
    by (cases a) (auto simp: permits_transition_def)
qed

lemma from_to_operation_phase [simp]: "from_operation_phase (to_operation_phase p) = Some p"
  by (cases p) auto

lemma from_operation_phase_Some: "from_operation_phase q = Some p \<longleftrightarrow> q = to_operation_phase p"
  by (cases q; cases p) auto

text \<open>A run of onboarding transitions: the phases after \<open>a\<close>, each step checked by the code.\<close>

fun onboarding_run :: "onboarding_phase \<Rightarrow> onboarding_phase list \<Rightarrow> bool" where
  "onboarding_run a [] = True"
| "onboarding_run a (b # bs) = (onboarding_transition a b = Inr b \<and> onboarding_run b bs)"

lemma onboarding_run_iff: "onboarding_run a bs = onboarding.run a bs"
  by (induction bs arbitrary: a) (auto simp: onboarding_transition_def)

lemma onboarding_transition_Inr:
  "onboarding_transition a b = Inr c \<longleftrightarrow> c = b \<and> permits_onboarding_transition a b"
  by (auto simp: onboarding_transition_def)

lemma owned_run_fenced:
  "onboarding_run a ps \<Longrightarrow> action_fenced a \<Longrightarrow> p \<in> set ps \<Longrightarrow>
   action_fenced p \<or> is_terminal (to_operation_phase p)"
proof (induction ps arbitrary: a)
  case Nil
  then show ?case by simp
next
  case (Cons q ps)
  then have step: "permits_onboarding_transition a q" and run: "onboarding_run q ps"
    by (auto simp: onboarding_transition_Inr)
  from step Cons.prems(2) have q: "action_fenced q \<or> is_terminal (to_operation_phase q)"
    by (cases a) (auto simp: onboarding_graph_defs)
  show ?case
  proof (cases "action_fenced q")
    case True
    with Cons run q show ?thesis by auto
  next
    case False
    with q run have "ps = []"
      using onboarding.run_final by (auto simp: onboarding_run_iff)
    with Cons.prems q show ?thesis by auto
  qed
qed

lemma proven_needs_exec:
  "onboarding_run a ps \<Longrightarrow> ps \<noteq> [] \<Longrightarrow> last ps = onboarding_phase.ProviderExecProven \<Longrightarrow>
   onboarding_phase.ProviderExecStarted \<in> set (a # butlast ps)
   \<or> onboarding_phase.RecoveryRequired \<in> set (a # butlast ps)"
proof (induction ps arbitrary: a)
  case Nil
  then show ?case by simp
next
  case (Cons q ps)
  show ?case
  proof (cases "ps = []")
    case True
    with Cons.prems show ?thesis
      by (cases a) (auto simp: onboarding_transition_Inr onboarding_graph_defs)
  next
    case False
    with Cons show ?thesis by fastforce
  qed
qed

section \<open>Properties\<close>

text \<open>C8: An onboarding attempt reaches \<open>ProviderExecProven\<close> only through the whole
  ownership boundary: from \<open>Prepared\<close>, the capability is issued first, Runtime ownership is
  committed second, and before the proof the attempt has either started the provider exec or
  been put under recovery. No run can skip one of these.\<close>

theorem exec_proof_needs_ownership:
  assumes "onboarding_run onboarding_phase.Prepared ps" and "ps \<noteq> []"
    and "last ps = onboarding_phase.ProviderExecProven"
  shows "\<exists>rest. ps = onboarding_phase.CapabilityIssued # onboarding_phase.RuntimeOwnedLaunching
            # rest \<and> rest \<noteq> [] \<and>
          (onboarding_phase.ProviderExecStarted \<in> set (butlast rest)
           \<or> onboarding_phase.RecoveryRequired \<in> set (butlast rest))"
proof -
  obtain a as where ps: "ps = a # as"
    using assms(2) by (cases ps) auto
  with assms(1,3) have a: "a = onboarding_phase.CapabilityIssued" and as: "as \<noteq> []"
    and run_a: "onboarding_run a as"
    using onboarding.run_final [of onboarding_phase.RolledBack as]
    by (auto simp: onboarding_transition_Inr onboarding_graph_defs onboarding_run_iff)
  obtain b bs where bs: "as = b # bs"
    using as by (cases as) auto
  with run_a a assms(3) ps have b: "b = onboarding_phase.RuntimeOwnedLaunching"
    and "bs \<noteq> []" and run_b: "onboarding_run b bs"
    using onboarding.run_final [of onboarding_phase.RolledBack bs]
    by (auto simp: onboarding_transition_Inr onboarding_graph_defs onboarding_run_iff)
  moreover from \<open>bs \<noteq> []\<close> ps bs assms(3) have "last bs = onboarding_phase.ProviderExecProven"
    by simp
  ultimately show ?thesis
    using proven_needs_exec [of b bs] ps bs a by auto
qed

theorem exec_proof_needs_ownership_witness:
  "\<exists>rest. [onboarding_phase.CapabilityIssued, onboarding_phase.RuntimeOwnedLaunching,
      onboarding_phase.ProviderPreparation, onboarding_phase.ProviderExecStarted,
      onboarding_phase.ProviderExecProven] =
      onboarding_phase.CapabilityIssued # onboarding_phase.RuntimeOwnedLaunching # rest \<and>
      rest \<noteq> [] \<and>
      (onboarding_phase.ProviderExecStarted \<in> set (butlast rest)
       \<or> onboarding_phase.RecoveryRequired \<in> set (butlast rest))"
  by (rule exec_proof_needs_ownership)
    (simp_all add: onboarding_transition_def permits_onboarding_transition_def)

text \<open>C9: Onboarding always ends: a run of transitions never repeats a phase, is at most
  eight steps long, and stops at a terminal phase.\<close>

theorem onboarding_run_terminates:
  assumes "onboarding_run a ps"
  shows "distinct (a # ps) \<and> length ps \<le> 8 \<and>
    (is_terminal (to_operation_phase a) \<longrightarrow> ps = [])"
proof -
  from assms have run: "onboarding.run a ps"
    by (simp add: onboarding_run_iff)
  then have "distinct (a # ps)" by (rule onboarding.run_distinct)
  moreover have "length ps \<le> 8"
    using onboarding.run_rank [OF run] by simp
  ultimately show ?thesis
    using onboarding.run_final run by blast
qed

theorem onboarding_run_terminates_witness:
  "distinct [onboarding_phase.Prepared, onboarding_phase.RolledBack]
   \<and> length [onboarding_phase.RolledBack] \<le> 8"
  using onboarding_run_terminates [of onboarding_phase.Prepared "[onboarding_phase.RolledBack]"]
  by (simp add: onboarding_transition_def permits_onboarding_transition_def)

text \<open>C10: Once an onboarding attempt owns its Runtime, ordinary attach and action authority
  stays fenced: every later phase is fenced, or it is terminal and is the last phase of the
  run.\<close>

theorem ownership_fences_until_resolved:
  assumes "onboarding_run onboarding_phase.RuntimeOwnedLaunching ps" and "p \<in> set ps"
  shows "action_fenced p \<or> (is_terminal (to_operation_phase p) \<and> p = last ps)"
proof -
  have "action_fenced p \<or> is_terminal (to_operation_phase p)"
    by (rule owned_run_fenced [OF assms(1) _ assms(2)]) (simp add: action_fenced_def)
  moreover have "p = last ps" if "is_terminal (to_operation_phase p)"
  proof -
    from assms(2) obtain xs ys where ps: "ps = xs @ p # ys"
      by (auto simp: in_set_conv_decomp)
    have "onboarding.run a (xs @ p # ys) \<Longrightarrow> onboarding.run p ys" for a
      by (induction xs arbitrary: a) auto
    with assms(1) ps have "onboarding.run p ys"
      by (auto simp: onboarding_run_iff)
    with that have "ys = []" using onboarding.run_final by blast
    with ps show ?thesis by simp
  qed
  ultimately show ?thesis by blast
qed

theorem ownership_fences_until_resolved_witness:
  "action_fenced onboarding_phase.RecoveryRequired \<or>
   (is_terminal (to_operation_phase onboarding_phase.RecoveryRequired) \<and>
    onboarding_phase.RecoveryRequired =
      last [onboarding_phase.RecoveryRequired, onboarding_phase.RolledBack])"
  by (rule ownership_fences_until_resolved)
    (simp_all add: onboarding_transition_def permits_onboarding_transition_def)

end
