(* ===== verification/Provider.thy ===== *)
theory Provider
  imports Domain
begin

text \<open>
  \<open>src/provider/names.rs\<close> (the display name of a session), \<open>src/provider/lifecycle.rs\<close> (the
  bounded evidence that observers hand to the registry) and \<open>src/provider/grammar.rs\<close> (which
  provider command lines a provisional shell may promote).
\<close>

section \<open>Display names\<close>

datatype name_state = Named | KnownEmpty | Unavailable

datatype name_context = NormalContext | StartingContext

datatype name_source = Native | CachedStale | Synthetic

record effective_name =
  en_text :: string
  en_source :: name_source

text \<open>\<open>Option::filter(|name| !name.trim().is_empty())\<close>.\<close>

definition nonblank :: "string option \<Rightarrow> string option" where
  "nonblank x = (case x of None \<Rightarrow> None | Some s \<Rightarrow> (if blank_text s then None else Some s))"

text \<open>The suffix that marks a cached name as stale: a blank, a middle dot (two bytes), a blank.\<close>

definition stale_suffix :: string where
  "stale_suffix = [CHR 0x20, CHR 0xC2, CHR 0xB7, CHR 0x20] @ ''stale''"

definition resolve_name ::
  "name_state \<Rightarrow> string option \<Rightarrow> string option \<Rightarrow> name_context \<Rightarrow> effective_name" where
  "resolve_name st native cached ctxt =
     (case (st = Named, nonblank native) of
        (True, Some n) \<Rightarrow> \<lparr> en_text = n, en_source = Native \<rparr>
      | _ \<Rightarrow>
        (case (st = Unavailable, nonblank cached) of
           (True, Some n) \<Rightarrow> \<lparr> en_text = n @ stale_suffix, en_source = CachedStale \<rparr>
         | _ \<Rightarrow>
           (case ctxt of
              StartingContext \<Rightarrow> \<lparr> en_text = ''starting'', en_source = Synthetic \<rparr>
            | NormalContext \<Rightarrow>
                (if st = Unavailable
                 then \<lparr> en_text = ''name unavailable'', en_source = Synthetic \<rparr>
                 else \<lparr> en_text = ''untitled'', en_source = Synthetic \<rparr>))))"

lemma nonblank_Some: "nonblank x = Some s \<longleftrightarrow> x = Some s \<and> \<not> blank_text s"
  by (auto simp: nonblank_def split: option.splits)

section \<open>Lifecycle evidence\<close>

datatype lifecycle_event = SessionStart | UserPromptSubmit | Stop | SessionEnd

record lifecycle_observation =
  lo_event :: lifecycle_event
  lo_cwd :: string
  lo_session :: string
  lo_turn :: "string option"
  lo_source :: "string option"

datatype lifecycle_hint = Started | Working | Settled "string option" | Ended

section \<open>Provider command lines\<close>

datatype classification = ManagedFresh "string list" | ExplicitlyUnmanaged

datatype grammar_error = UnsupportedShape | UnsafeArgument | DuplicateOption | InvalidValue

definition max_arguments :: nat where "max_arguments = 16"
definition max_argument_bytes :: nat where "max_argument_bytes = 160"
definition max_replay_limit :: nat where "max_replay_limit = 10000"

definition unsafe_argument :: "string \<Rightarrow> bool" where
  "unsafe_argument a \<longleftrightarrow>
     a = [] \<or> length a > max_argument_bytes \<or> a = ''--'' \<or> CHR ''='' \<in> set a
     \<or> contains_whitespace a \<or> contains_control a"

definition validate_shape :: "string list \<Rightarrow> grammar_error + unit" where
  "validate_shape arguments =
     (if length arguments > max_arguments then Inl UnsafeArgument
      else if list_ex unsafe_argument arguments then Inl UnsafeArgument
      else Inr ())"

definition ascii_alphanumeric :: "char \<Rightarrow> bool" where
  "ascii_alphanumeric c =
     (let n = of_char c :: nat
      in 48 \<le> n \<and> n \<le> 57 \<or> 65 \<le> n \<and> n \<le> 90 \<or> 97 \<le> n \<and> n \<le> 122)"

definition ascii_digit :: "char \<Rightarrow> bool" where
  "ascii_digit c = (48 \<le> (of_char c :: nat) \<and> (of_char c :: nat) \<le> 57)"

definition ascii_lower :: "char \<Rightarrow> char" where
  "ascii_lower c =
     (if 65 \<le> (of_char c :: nat) \<and> (of_char c :: nat) \<le> 90
      then char_of ((of_char c :: nat) + 32) else c)"

definition permitted_char :: "bool \<Rightarrow> char \<Rightarrow> bool" where
  "permitted_char allow_slash c \<longleftrightarrow>
     ascii_alphanumeric c \<or> c \<in> {CHR ''.'', CHR ''_'', CHR '':'', CHR ''-''}
     \<or> allow_slash \<and> c = CHR ''/''"

definition secret_prefixes :: "string list" where
  "secret_prefixes = [''sk-'', ''sk_'', ''token-'', ''bearer-'', ''ghp_'', ''xoxb-'']"

definition safe_value :: "string \<Rightarrow> bool \<Rightarrow> grammar_error + unit" where
  "safe_value v allow_slash =
     (let lowercased = map ascii_lower v
      in if v = [] \<or> length v > max_argument_bytes
            \<or> \<not> list_all (permitted_char allow_slash) v
            \<or> list_ex (\<lambda>p. starts_with p lowercased) secret_prefixes
         then Inl InvalidValue else Inr ())"

subsection \<open>Codex\<close>

definition codex_flags :: "string list" where
  "codex_flags = [''--oss'', ''--search'', ''--no-alt-screen'', ''--approve-for-me'']"

definition codex_canonical :: "string \<Rightarrow> string option" where
  "codex_canonical a =
     (if a = ''-m'' \<or> a = ''--model'' then Some ''--model''
      else if a = ''--local-provider'' then Some ''--local-provider''
      else if a = ''-s'' \<or> a = ''--sandbox'' then Some ''--sandbox''
      else if a = ''-a'' \<or> a = ''--ask-for-approval'' then Some ''--ask-for-approval''
      else None)"

definition codex_value_refused :: "string \<Rightarrow> string \<Rightarrow> bool" where
  "codex_value_refused canonical v \<longleftrightarrow>
     canonical = ''--local-provider'' \<and> v \<notin> {''lmstudio'', ''ollama''}
     \<or> canonical = ''--sandbox'' \<and> v \<notin> {''read-only'', ''workspace-write'', ''danger-full-access''}
     \<or> canonical = ''--ask-for-approval'' \<and> v \<notin> {''on-request'', ''never''}"

definition codex_value :: "string \<Rightarrow> string \<Rightarrow> grammar_error + unit" where
  "codex_value canonical v =
     and_then (safe_value v True) (\<lambda>_.
     if codex_value_refused canonical v then Inl InvalidValue else Inr ())"

text \<open>
  The \<open>while index < arguments.len()\<close> loop of both grammars, over the arguments that are
  left: \<open>flags\<close> are pushed as they are, an option is pushed under its canonical name with
  the value that follows it.
\<close>

fun scan_options ::
  "string list \<Rightarrow> (string \<Rightarrow> string option) \<Rightarrow> (string \<Rightarrow> string \<Rightarrow> grammar_error + unit)
     \<Rightarrow> string list \<Rightarrow> string list \<Rightarrow> string list
     \<Rightarrow> grammar_error + (string list \<times> string list)" where
  "scan_options flags canon value_ok [] normalized seen = Inr (normalized, seen)"
| "scan_options flags canon value_ok (a # rest) normalized seen =
     (if a \<in> set flags then
        (if a \<in> set seen then Inl DuplicateOption
         else scan_options flags canon value_ok rest (normalized @ [a]) (a # seen))
      else
        (case canon a of
           None \<Rightarrow> Inl UnsupportedShape
         | Some canonical \<Rightarrow>
             (case rest of
                [] \<Rightarrow> Inl UnsupportedShape
              | v # rest' \<Rightarrow>
                  (if canonical \<in> set seen then Inl DuplicateOption
                   else
                     (case value_ok canonical v of
                        Inl e \<Rightarrow> Inl e
                      | Inr _ \<Rightarrow>
                          scan_options flags canon value_ok rest'
                            (normalized @ [canonical, v]) (canonical # seen))))))"

definition classify_codex :: "string list \<Rightarrow> grammar_error + classification" where
  "classify_codex arguments =
     (if \<exists>v \<in> {''-h'', ''--help'', ''-V'', ''--version'', ''login''}. arguments = [v]
      then Inr ExplicitlyUnmanaged
      else
        and_then (scan_options codex_flags codex_canonical codex_value arguments [] [])
          (\<lambda>(normalized, seen).
             if ''--local-provider'' \<in> set seen \<and> ''--oss'' \<notin> set seen
             then Inl InvalidValue else Inr (ManagedFresh normalized)))"

subsection \<open>OpenCode\<close>

definition opencode_flags :: "string list" where
  "opencode_flags = [''--pure'', ''--auto'', ''--mini'', ''--no-replay'']"

definition opencode_canonical :: "string \<Rightarrow> string option" where
  "opencode_canonical a =
     (if a = ''-m'' \<or> a = ''--model'' then Some ''--model''
      else if a = ''--agent'' then Some ''--agent''
      else if a = ''--replay-limit'' then Some ''--replay-limit''
      else None)"

text \<open>\<open>str::parse::<u16>\<close> on a text of digits: \<open>None\<close> when empty or above 65535.\<close>

definition digits_value :: "string \<Rightarrow> nat" where
  "digits_value = foldl (\<lambda>n c. 10 * n + (of_char c - 48)) 0"

definition parse_u16_digits :: "string \<Rightarrow> nat option" where
  "parse_u16_digits v =
     (if v = [] \<or> digits_value v > 65535 then None else Some (digits_value v))"

definition opencode_value :: "string \<Rightarrow> string \<Rightarrow> grammar_error + unit" where
  "opencode_value canonical v =
     (if canonical = ''--replay-limit'' then
        (if \<not> list_all ascii_digit v
            \<or> (case parse_u16_digits v of None \<Rightarrow> True | Some limit \<Rightarrow> limit > max_replay_limit)
         then Inl InvalidValue else Inr ())
      else safe_value v (canonical = ''--model''))"

definition classify_opencode :: "string list \<Rightarrow> grammar_error + classification" where
  "classify_opencode arguments =
     (if \<exists>v \<in> {''-h'', ''--help'', ''-v'', ''--version'', ''providers''}. arguments = [v]
      then Inr ExplicitlyUnmanaged
      else
        and_then (scan_options opencode_flags opencode_canonical opencode_value arguments [] [])
          (\<lambda>(normalized, _). Inr (ManagedFresh normalized)))"

definition classify :: "provider_kind \<Rightarrow> string list \<Rightarrow> grammar_error + classification" where
  "classify provider arguments =
     and_then (validate_shape arguments) (\<lambda>_.
     case provider of
       Codex \<Rightarrow> classify_codex arguments
     | OpenCode \<Rightarrow> classify_opencode arguments)"

section \<open>The grammar as a set of command lines\<close>

text \<open>
  The abstract view of a normalized command line: a list of items with distinct names, each a
  known flag or a canonical option with an accepted value.
\<close>

datatype arg_item = FlagItem string | OptionItem string string

fun item_name :: "arg_item \<Rightarrow> string" where
  "item_name (FlagItem f) = f"
| "item_name (OptionItem n v) = n"

fun item_args :: "arg_item \<Rightarrow> string list" where
  "item_args (FlagItem f) = [f]"
| "item_args (OptionItem n v) = [n, v]"

definition render_items :: "arg_item list \<Rightarrow> string list" where
  "render_items items = concat (map item_args items)"

fun item_ok ::
  "string list \<Rightarrow> (string \<Rightarrow> string option) \<Rightarrow> (string \<Rightarrow> string \<Rightarrow> grammar_error + unit)
     \<Rightarrow> arg_item \<Rightarrow> bool" where
  "item_ok flags canon value_ok (FlagItem f) \<longleftrightarrow> f \<in> set flags"
| "item_ok flags canon value_ok (OptionItem n v) \<longleftrightarrow>
     canon n = Some n \<and> n \<notin> set flags \<and> value_ok n v = Inr ()"

definition provider_flags :: "provider_kind \<Rightarrow> string list" where
  "provider_flags p = (case p of Codex \<Rightarrow> codex_flags | OpenCode \<Rightarrow> opencode_flags)"

definition provider_canonical :: "provider_kind \<Rightarrow> string \<Rightarrow> string option" where
  "provider_canonical p = (case p of Codex \<Rightarrow> codex_canonical | OpenCode \<Rightarrow> opencode_canonical)"

definition provider_value :: "provider_kind \<Rightarrow> string \<Rightarrow> string \<Rightarrow> grammar_error + unit" where
  "provider_value p = (case p of Codex \<Rightarrow> codex_value | OpenCode \<Rightarrow> opencode_value)"

definition provider_items_ok :: "provider_kind \<Rightarrow> arg_item list \<Rightarrow> bool" where
  "provider_items_ok p items \<longleftrightarrow>
     distinct (map item_name items) \<and>
     list_all (item_ok (provider_flags p) (provider_canonical p) (provider_value p)) items \<and>
     (p = Codex \<and> ''--local-provider'' \<in> item_name ` set items \<longrightarrow>
        ''--oss'' \<in> item_name ` set items)"

text \<open>Canonical names are their own canonical form, are no flags, and are safe arguments.\<close>

definition canon_stable :: "string list \<Rightarrow> (string \<Rightarrow> string option) \<Rightarrow> bool" where
  "canon_stable flags canon \<longleftrightarrow>
     (\<forall>a n. canon a = Some n \<longrightarrow> canon n = Some n \<and> n \<notin> set flags \<and> \<not> unsafe_argument n)"

lemma render_items_simps [simp]:
  "render_items [] = []"
  "render_items (it # its) = item_args it @ render_items its"
  by (simp_all add: render_items_def)

lemma scan_options_sound:
  assumes "scan_options flags canon value_ok args normalized seen = Inr (normalized', seen')"
    and "canon_stable flags canon"
  shows "\<exists>items. normalized' = normalized @ render_items items \<and>
      distinct (map item_name items) \<and> set (map item_name items) \<inter> set seen = {} \<and>
      list_all (item_ok flags canon value_ok) items \<and>
      set seen' = set (map item_name items) \<union> set seen \<and>
      length (render_items items) = length args \<and>
      set (render_items items) \<subseteq> set args \<union> {n. \<exists>a. canon a = Some n}"
  using assms
proof (induction flags canon value_ok args normalized seen rule: scan_options.induct)
  case (1 flags canon value_ok normalized seen)
  then show ?case by (intro exI [of _ "[]"]) auto
next
  case (2 flags canon value_ok a rest normalized seen)
  show ?case
  proof (cases "a \<in> set flags")
    case True
    with "2.prems" have fresh: "a \<notin> set seen"
      and rec: "scan_options flags canon value_ok rest (normalized @ [a]) (a # seen) =
        Inr (normalized', seen')"
      by (auto split: if_splits)
    from "2.IH"(1) [OF True fresh rec "2.prems"(2)] obtain items where
      items: "normalized' = (normalized @ [a]) @ render_items items"
        "distinct (map item_name items)" "set (map item_name items) \<inter> set (a # seen) = {}"
        "list_all (item_ok flags canon value_ok) items"
        "set seen' = set (map item_name items) \<union> set (a # seen)"
        "length (render_items items) = length rest"
        "set (render_items items) \<subseteq> set rest \<union> {n. \<exists>a. canon a = Some n}"
      by blast
    with True fresh show ?thesis
      by (intro exI [of _ "FlagItem a # items"]) auto
  next
    case False
    with "2.prems" obtain n v rest' where canon: "canon a = Some n" and rest: "rest = v # rest'"
      and fresh: "n \<notin> set seen" and ok: "value_ok n v = Inr ()"
      and rec: "scan_options flags canon value_ok rest' (normalized @ [n, v]) (n # seen) =
        Inr (normalized', seen')"
      by (auto split: if_splits option.splits list.splits sum.splits)
    from "2.IH"(2) [OF False canon rest fresh ok rec "2.prems"(2)] obtain items where
      items: "normalized' = (normalized @ [n, v]) @ render_items items"
        "distinct (map item_name items)" "set (map item_name items) \<inter> set (n # seen) = {}"
        "list_all (item_ok flags canon value_ok) items"
        "set seen' = set (map item_name items) \<union> set (n # seen)"
        "length (render_items items) = length rest'"
        "set (render_items items) \<subseteq> set rest' \<union> {n. \<exists>a. canon a = Some n}"
      by blast
    from canon "2.prems"(2) have "canon n = Some n" "n \<notin> set flags"
      by (auto simp: canon_stable_def)
    with items canon rest fresh ok show ?thesis
      by (intro exI [of _ "OptionItem n v # items"]) auto
  qed
qed

lemma scan_options_complete:
  assumes "distinct (map item_name items)" and "set (map item_name items) \<inter> set seen = {}"
    and "list_all (item_ok flags canon value_ok) items"
  shows "scan_options flags canon value_ok (render_items items) normalized seen =
    Inr (normalized @ render_items items, rev (map item_name items) @ seen)"
  using assms
proof (induction items arbitrary: normalized seen)
  case Nil
  then show ?case by simp
next
  case (Cons it items)
  then show ?case by (cases it) auto
qed

lemma codex_canon_stable: "canon_stable codex_flags codex_canonical"
proof -
  have "codex_canonical n = Some n \<and> n \<notin> set codex_flags \<and> \<not> unsafe_argument n"
    if "n \<in> {''--model'', ''--local-provider'', ''--sandbox'', ''--ask-for-approval''}" for n
    using that by (elim insertE emptyE; hypsubst; code_simp)
  then show ?thesis
    by (auto simp: canon_stable_def codex_canonical_def split: if_splits)
qed

lemma opencode_canon_stable: "canon_stable opencode_flags opencode_canonical"
proof -
  have "opencode_canonical n = Some n \<and> n \<notin> set opencode_flags \<and> \<not> unsafe_argument n"
    if "n \<in> {''--model'', ''--agent'', ''--replay-limit''}" for n
    using that by (elim insertE emptyE; hypsubst; code_simp)
  then show ?thesis
    by (auto simp: canon_stable_def opencode_canonical_def split: if_splits)
qed

lemma provider_canon_stable: "canon_stable (provider_flags p) (provider_canonical p)"
  by (cases p)
    (simp_all add: provider_flags_def provider_canonical_def codex_canon_stable
      opencode_canon_stable)

lemma validate_shape_Inr:
  "validate_shape args = Inr u \<longleftrightarrow> length args \<le> max_arguments \<and> list_all (\<lambda>a. \<not> unsafe_argument a) args"
  by (auto simp: validate_shape_def list_ex_iff list_all_iff)

definition information_commands :: "provider_kind \<Rightarrow> string list" where
  "information_commands p =
     (case p of
        Codex \<Rightarrow> [''-h'', ''--help'', ''-V'', ''--version'', ''login'']
      | OpenCode \<Rightarrow> [''-h'', ''--help'', ''-v'', ''--version'', ''providers''])"

lemma classify_managed_iff:
  "classify p args = Inr (ManagedFresh norm) \<longleftrightarrow>
     validate_shape args = Inr () \<and> (\<forall>v \<in> set (information_commands p). args \<noteq> [v]) \<and>
     (\<exists>seen. scan_options (provider_flags p) (provider_canonical p) (provider_value p) args [] [] =
        Inr (norm, seen) \<and>
      (p = Codex \<longrightarrow> ''--local-provider'' \<in> set seen \<longrightarrow> ''--oss'' \<in> set seen))"
  by (cases p)
    (auto simp: classify_def classify_codex_def classify_opencode_def provider_flags_def
      provider_canonical_def provider_value_def information_commands_def)

lemma information_command_no_flag:
  "v \<in> set (information_commands p) \<Longrightarrow> v \<notin> set (provider_flags p)"
  by (cases p) (auto simp: information_commands_def provider_flags_def codex_flags_def
      opencode_flags_def)

lemma render_singleton:
  "render_items items = [v] \<Longrightarrow> items = [FlagItem v]"
proof (cases items)
  case (Cons it its)
  moreover assume "render_items items = [v]"
  ultimately show ?thesis
    by (cases it; cases its) (auto, metis item_args.elims list.distinct(1))
qed simp

lemma provider_items_complete:
  assumes ok: "provider_items_ok p items" and shape: "validate_shape (render_items items) = Inr ()"
  shows "classify p (render_items items) = Inr (ManagedFresh (render_items items))"
proof -
  have scan: "scan_options (provider_flags p) (provider_canonical p) (provider_value p)
      (render_items items) [] [] = Inr (render_items items, rev (map item_name items))"
    using scan_options_complete [of items "[]" "provider_flags p" "provider_canonical p"
        "provider_value p" "[]"] ok
    by (simp add: provider_items_ok_def)
  have "render_items items \<noteq> [v]" if v: "v \<in> set (information_commands p)" for v
  proof
    assume "render_items items = [v]"
    then have "items = [FlagItem v]" by (rule render_singleton)
    with ok have "v \<in> set (provider_flags p)" by (simp add: provider_items_ok_def)
    with information_command_no_flag [OF v] show False by simp
  qed
  with scan shape ok show ?thesis
    by (auto simp: classify_managed_iff provider_items_ok_def)
qed

lemma provider_items_sound:
  assumes "classify p args = Inr (ManagedFresh norm)"
  shows "\<exists>items. norm = render_items items \<and> provider_items_ok p items \<and>
    validate_shape norm = Inr ()"
proof -
  from assms obtain seen where shape: "validate_shape args = Inr ()"
    and scan: "scan_options (provider_flags p) (provider_canonical p) (provider_value p)
      args [] [] = Inr (norm, seen)"
    and oss: "p = Codex \<longrightarrow> ''--local-provider'' \<in> set seen \<longrightarrow> ''--oss'' \<in> set seen"
    by (auto simp: classify_managed_iff)
  from scan_options_sound [OF scan provider_canon_stable] obtain items where
    items: "norm = render_items items" "distinct (map item_name items)"
      "list_all (item_ok (provider_flags p) (provider_canonical p) (provider_value p)) items"
      "set seen = set (map item_name items)" "length (render_items items) = length args"
      "set (render_items items) \<subseteq> set args \<union> {n. \<exists>a. provider_canonical p a = Some n}"
    by auto
  have "\<not> unsafe_argument a" if "a \<in> set norm" for a
  proof -
    from that items(1,6) consider "a \<in> set args" | b where "provider_canonical p b = Some a"
      by auto
    then show ?thesis
    proof cases
      case 1
      with shape show ?thesis by (auto simp: validate_shape_Inr list_all_iff)
    next
      case 2
      with provider_canon_stable show ?thesis by (auto simp: canon_stable_def)
    qed
  qed
  with shape items(1,5) have "validate_shape norm = Inr ()"
    by (auto simp: validate_shape_Inr list_all_iff)
  moreover have "provider_items_ok p items"
    using items oss by (auto simp: provider_items_ok_def)
  ultimately show ?thesis using items(1) by blast
qed

lemma safe_value_no_secret:
  "safe_value v sl = Inr u \<Longrightarrow> pre \<in> set secret_prefixes \<Longrightarrow>
   \<not> starts_with pre (map ascii_lower v)"
  by (auto simp: safe_value_def Let_def list_ex_iff split: if_splits)

lemma digit_no_secret:
  assumes "list_all ascii_digit v" and "pre \<in> set secret_prefixes"
  shows "\<not> starts_with pre (map ascii_lower v)"
proof
  assume "starts_with pre (map ascii_lower v)"
  moreover have "pre \<noteq> []" and "\<not> ascii_digit (hd pre)"
    using assms(2) by (auto simp: secret_prefixes_def ascii_digit_def)
  ultimately obtain c cs where v: "v = c # cs" and c: "ascii_lower c = hd pre"
    by (cases v; cases pre) (auto simp: starts_with_def)
  with assms(1) have "ascii_digit c" by simp
  then have "ascii_lower c = c" by (auto simp: ascii_lower_def ascii_digit_def)
  with c \<open>ascii_digit c\<close> \<open>\<not> ascii_digit (hd pre)\<close> show False by simp
qed

lemma provider_value_no_secret:
  assumes "provider_value p n v = Inr u" and "pre \<in> set secret_prefixes"
  shows "\<not> starts_with pre (map ascii_lower v)"
proof (cases p)
  case Codex
  with assms(1) have "safe_value v True = Inr ()"
    by (auto simp: provider_value_def codex_value_def)
  then show ?thesis using assms(2) by (rule safe_value_no_secret)
next
  case OpenCode
  with assms show ?thesis
    by (auto simp: provider_value_def opencode_value_def split: if_splits
        dest: digit_no_secret safe_value_no_secret)
qed

section \<open>Properties\<close>


text \<open>Normalization is idempotent: classifying a normalized command line again manages it
  unchanged, so a broker that replays the stored form launches what the first one validated.\<close>

theorem classify_idempotent:
  assumes "classify p args = Inr (ManagedFresh norm)"
  shows "classify p norm = Inr (ManagedFresh norm)"
  using provider_items_sound [OF assms] provider_items_complete by blast

theorem classify_idempotent_witness:
  "classify Codex [''--model'', ''gpt-5.6'', ''--oss''] =
    Inr (ManagedFresh [''--model'', ''gpt-5.6'', ''--oss''])"
proof (rule classify_idempotent)
  show "classify Codex [''-m'', ''gpt-5.6'', ''--oss''] =
      Inr (ManagedFresh [''--model'', ''gpt-5.6'', ''--oss''])"
    by code_simp
qed

text \<open>No value of a promoted command line looks like a credential: every argument that
  is the value of an option fails to start, in any letter case, with one of the secret
  prefixes, and the command line has at most sixteen arguments without white space.\<close>

theorem classify_no_secrets:
  assumes "classify p args = Inr (ManagedFresh norm)"
  shows "length norm \<le> 16 \<and> (\<forall>a \<in> set norm. \<not> contains_whitespace a \<and> \<not> contains_control a) \<and>
    (\<exists>items. norm = render_items items \<and>
       (\<forall>n v pre. OptionItem n v \<in> set items \<and> pre \<in> set secret_prefixes \<longrightarrow>
          \<not> starts_with pre (map ascii_lower v)))"
proof -
  from provider_items_sound [OF assms] obtain items where
    items: "norm = render_items items" "provider_items_ok p items" "validate_shape norm = Inr ()"
    by blast
  have "\<not> starts_with pre (map ascii_lower v)"
    if "OptionItem n v \<in> set items" "pre \<in> set secret_prefixes" for n v pre
  proof -
    from that(1) items(2) have "provider_value p n v = Inr ()"
      by (auto simp: provider_items_ok_def list_all_iff)
    then show ?thesis using that(2) by (rule provider_value_no_secret)
  qed
  with items show ?thesis
    by (auto simp: validate_shape_Inr max_arguments_def list_all_iff unsafe_argument_def)
qed

theorem classify_no_secrets_witness:
  "length [''--agent'', ''build''] \<le> 16 \<and>
   \<not> contains_whitespace ''build'' \<and> \<not> contains_control ''build''"
proof -
  have "classify OpenCode [''--agent'', ''build''] = Inr (ManagedFresh [''--agent'', ''build''])"
    by code_simp
  from classify_no_secrets [OF this] show ?thesis by simp
qed

text \<open>The name shown for a session is never blank, is the provider's own name exactly when
  a usable native name was observed, and is marked stale whenever it is a cached one.\<close>

theorem resolve_name_spec:
  "\<not> blank_text (en_text (resolve_name st native cached ctxt)) \<and>
   (en_source (resolve_name st native cached ctxt) = Native \<longleftrightarrow>
      st = Named \<and> nonblank native \<noteq> None) \<and>
   (en_source (resolve_name st native cached ctxt) = Native \<longrightarrow>
      native = Some (en_text (resolve_name st native cached ctxt))) \<and>
   (en_source (resolve_name st native cached ctxt) = CachedStale \<longrightarrow>
      (\<exists>n. cached = Some n \<and> en_text (resolve_name st native cached ctxt) = n @ stale_suffix))"
proof -
  have "\<not> blank_text (n @ stale_suffix)" for n
    by (rule visible_not_blank [of "CHR ''s''"]) (auto simp: stale_suffix_def)
  moreover have "\<not> blank_text ''starting''"
    by (rule visible_not_blank [of "CHR ''t''"]) auto
  moreover have "\<not> blank_text ''untitled''"
    by (rule visible_not_blank [of "CHR ''t''"]) auto
  moreover have "\<not> blank_text ''name unavailable''"
    by (rule visible_not_blank [of "CHR ''n''"]) auto
  ultimately show ?thesis
    by (cases ctxt; cases st; cases "nonblank native"; cases "nonblank cached")
      (simp_all add: resolve_name_def, auto simp: nonblank_Some)
qed

theorem resolve_name_spec_witness:
  "\<exists>n. Some ''fix'' = Some n \<and>
     en_text (resolve_name Unavailable None (Some ''fix'') NormalContext) = n @ stale_suffix"
proof -
  have "en_source (resolve_name Unavailable None (Some ''fix'') NormalContext) = CachedStale"
    by code_simp
  with resolve_name_spec [of Unavailable None "Some ''fix''" NormalContext] show ?thesis
    by blast
qed

end
