(* ===== verification/Registry.thy ===== *)
theory Registry
  imports Provider
begin

text \<open>
  The host registry: the schema-15 tables of \<open>src/state/schema.rs\<close> as a record of row
  lists, the error type and row records of \<open>src/state/models.rs\<close>, the text codecs and
  validators of \<open>src/state/utils.rs\<close>, the SQL statements with their declared constraints,
  and the registry invariant with its preservation lemmas.

  A statement that breaks a declared constraint (PRIMARY KEY, UNIQUE, CHECK, REFERENCES with
  \<open>PRAGMA foreign_keys = ON\<close>) fails with \<open>Sqlite ConstraintViolation\<close>. A transaction that
  returns an error rolls back: operations return \<open>Inl\<close> without a registry. Device faults and
  lock contention of \<open>SQLite\<close> are not modelled.
\<close>

section \<open>Errors\<close>

datatype sql_error =
  QueryReturnedNoRows | ConstraintViolation | FromSqlConversionFailure | InvalidColumnType

datatype state_recovery_reason = UnknownFreshRootArtifact

datatype fresh_root_rejection =
  NotDirectory | NonCanonicalDirectory | NonPrivateDirectory | UnknownArtifact

datatype (plugins only: code) state_error =
    DomainErr domain_error
  | ConcurrentWrite
  | InvalidPersistedValue string
  | InvalidRegistryField string
  | InvalidProviderMetadata
  | ProviderIdentityMismatch
  | OpenCodeSessionCreationPlanEncoding
  | MissingOpenCodeSessionCreationPlan
  | InvalidOpenCodeSessionCreationPlan
  | InvalidOpenCodeSessionCreationPlanShape
  | OpenCodeSessionCreationUnavailable
  | OnboardingOperationUnavailable
  | InvalidOnboardingPreparation
  | OnboardingCapabilityExpired
  | OnboardingCapabilityRejected
  | OperationRequestMismatch
  | RetiredForkRecoveryRequired
  | NavigatorSnapshotTooLarge
  | InvalidNavigatorPageSize
  | NavigatorCursorOverflow
  | InvalidProjectDisplayName
  | InvalidRepositoryFingerprint
  | InvalidPersistedUuid
  | Io string
  | MissingOperation string
  | Sqlite sql_error
  | HostStateResetRequired int
  | UnknownOperation uuid
  | UnknownOpenWorkstream uuid
  | WorkstreamAlreadyArchived uuid
  | WorkstreamNotArchived uuid
  | WorkstreamForgetRefused
  | WorkstreamArchived uuid
  | RuntimeAlreadyLive uuid
  | RecoveryUnavailable uuid
  | HookEvidenceMismatch
  | UnknownRuntime uuid
  | IntegrationOwnershipMismatch
  | StateRecoveryRequired state_recovery_reason
  | MissingBootstrapLock
  | BootstrapLockBusy
  | InvalidBootstrapLock
  | BootstrapEffectUnknown
  | BootstrapArtifactMismatch
  | FreshRootRejected fresh_root_rejection
  | FreshStateRequired
  | MalformedHostSchema
  | UnsupportedFutureHostSchema int
  | ObserverDatabaseDeadlineExceeded
  | InvalidObserverDegradedMarker
  | ProvisionalLeaseBusy
  | InvalidProvisionalLease

abbreviation sqlite_conversion :: "('e, 'a) result \<Rightarrow> (state_error, 'a) result" where
  "sqlite_conversion r \<equiv> map_err (\<lambda>_. Sqlite FromSqlConversionFailure) r"

abbreviation domain_result :: "(domain_error, 'a) result \<Rightarrow> (state_error, 'a) result" where
  "domain_result r \<equiv> map_err DomainErr r"

section \<open>Text codecs and validators\<close>

fun operation_kind_text :: "operation_kind \<Rightarrow> string" where
  "operation_kind_text Onboard = ''onboard''"
| "operation_kind_text Start = ''start''"

definition operation_kind_from_text :: "string \<Rightarrow> (state_error, operation_kind) result" where
  "operation_kind_from_text v =
     (if v = ''onboard'' then Inr Onboard
      else if v = ''start'' then Inr Start
      else Inl (InvalidPersistedValue v))"

fun operation_phase_text :: "operation_phase \<Rightarrow> string" where
  "operation_phase_text operation_phase.Prepared = ''prepared''"
| "operation_phase_text operation_phase.CapabilityIssued = ''capability_issued''"
| "operation_phase_text operation_phase.RuntimeOwnedLaunching = ''runtime_owned_launching''"
| "operation_phase_text operation_phase.ProviderPreparation = ''provider_preparation''"
| "operation_phase_text ExternalEffectStarted = ''external_effect_started''"
| "operation_phase_text operation_phase.ProviderExecStarted = ''provider_exec_started''"
| "operation_phase_text operation_phase.ProviderExecProven = ''provider_exec_proven''"
| "operation_phase_text ExecFailedKnownAbsent = ''exec_failed_known_absent''"
| "operation_phase_text operation_phase.RolledBack = ''rolled_back''"
| "operation_phase_text AwaitingReconciliation = ''awaiting_reconciliation''"
| "operation_phase_text Committed = ''committed''"
| "operation_phase_text operation_phase.RecoveryRequired = ''recovery_required''"
| "operation_phase_text Failed = ''failed''"

definition operation_phase_from_text :: "string \<Rightarrow> (state_error, operation_phase) result" where
  "operation_phase_from_text v =
     (if v = ''prepared'' then Inr operation_phase.Prepared
      else if v = ''capability_issued'' then Inr operation_phase.CapabilityIssued
      else if v = ''runtime_owned_launching'' then Inr operation_phase.RuntimeOwnedLaunching
      else if v = ''provider_preparation'' then Inr operation_phase.ProviderPreparation
      else if v = ''external_effect_started'' then Inr ExternalEffectStarted
      else if v = ''provider_exec_started'' then Inr operation_phase.ProviderExecStarted
      else if v = ''provider_exec_proven'' then Inr operation_phase.ProviderExecProven
      else if v = ''exec_failed_known_absent'' then Inr ExecFailedKnownAbsent
      else if v = ''rolled_back'' then Inr operation_phase.RolledBack
      else if v = ''awaiting_reconciliation'' then Inr AwaitingReconciliation
      else if v = ''committed'' then Inr Committed
      else if v = ''recovery_required'' then Inr operation_phase.RecoveryRequired
      else if v = ''failed'' then Inr Failed
      else Inl (InvalidPersistedValue v))"

definition runtime_status_from_text :: "string \<Rightarrow> (state_error, runtime_status) result" where
  "runtime_status_from_text v =
     (if v = ''starting'' then Inr Starting
      else if v = ''idle'' then Inr Idle
      else if v = ''working'' then Inr runtime_status.Working
      else if v = ''attention'' then Inr Attention
      else if v = ''stopped'' then Inr Stopped
      else if v = ''unknown'' then Inr Unknown
      else Inl (InvalidPersistedValue v))"

definition provider_kind_from_text :: "string \<Rightarrow> (state_error, provider_kind) result" where
  "provider_kind_from_text v =
     map_err (\<lambda>_. InvalidPersistedValue (''provider kind '' @ v)) (provider_kind_parse v)"

definition workstream_lifecycle_from_text :: "string \<Rightarrow> (state_error, workstream_lifecycle) result" where
  "workstream_lifecycle_from_text v =
     (if v = ''open'' then Inr Open
      else if v = ''parked'' then Inr Parked
      else if v = ''recovery_required'' then Inr workstream_lifecycle.RecoveryRequired
      else Inl (InvalidPersistedValue v))"

definition name_state_from_text :: "string \<Rightarrow> (state_error, name_state) result" where
  "name_state_from_text v =
     (if v = ''named'' then Inr Named
      else if v = ''known_empty'' then Inr KnownEmpty
      else if v = ''unavailable'' then Inr Unavailable
      else Inl (InvalidPersistedValue v))"

datatype integration_lifecycle = TrustPending | Ready | Modified | Disabled

fun integration_lifecycle_text :: "integration_lifecycle \<Rightarrow> string" where
  "integration_lifecycle_text TrustPending = ''trust_pending''"
| "integration_lifecycle_text Ready = ''ready''"
| "integration_lifecycle_text Modified = ''modified''"
| "integration_lifecycle_text Disabled = ''disabled''"

definition integration_lifecycle_from_text :: "string \<Rightarrow> (state_error, integration_lifecycle) result" where
  "integration_lifecycle_from_text v =
     (if v = ''trust_pending'' then Inr TrustPending
      else if v = ''ready'' then Inr Ready
      else if v = ''modified'' then Inr Modified
      else if v = ''disabled'' then Inr Disabled
      else Inl (InvalidPersistedValue v))"

definition validate_registry_text :: "string \<Rightarrow> string \<Rightarrow> (state_error, unit) result" where
  "validate_registry_text name v =
     (if v = [] \<or> length v > 4096 \<or> nul \<in> set v \<or> newline \<in> set v
      then Inl (InvalidRegistryField name) else Inr ())"

definition validate_provider_metadata :: "string \<Rightarrow> (state_error, unit) result" where
  "validate_provider_metadata v =
     (if v = [] \<or> length v > 256 \<or> newline \<in> set v \<or> carriage_return \<in> set v
      then Inl InvalidProviderMetadata else Inr ())"

definition validate_project_display_name :: "string \<Rightarrow> (state_error, unit) result" where
  "validate_project_display_name v =
     (if blank_text v \<or> chars_count v > 128
         \<or> nul \<in> set v \<or> newline \<in> set v \<or> carriage_return \<in> set v
      then Inl InvalidProjectDisplayName else Inr ())"

definition validate_remote_identity_display :: "string option \<Rightarrow> (state_error, unit) result" where
  "validate_remote_identity_display value =
     (case value of
        None \<Rightarrow> Inr ()
      | Some v \<Rightarrow>
          (if blank_text v \<or> length v > 256 \<or> contains_control v
              \<or> CHR 0x5C \<in> set v \<or> CHR ''@'' \<in> set v \<or> contains_text ''//'' v
              \<or> CHR ''?'' \<in> set v \<or> CHR ''#'' \<in> set v \<or> starts_with ''/'' v
           then Inl (InvalidRegistryField ''remote identity display'') else Inr ()))"

definition ascii_hexdigit :: "char \<Rightarrow> bool" where
  "ascii_hexdigit c =
     (let n = of_char c :: nat
      in 48 \<le> n \<and> n \<le> 57 \<or> 65 \<le> n \<and> n \<le> 70 \<or> 97 \<le> n \<and> n \<le> 102)"

definition validate_repository_fingerprint :: "string option \<Rightarrow> (state_error, unit) result" where
  "validate_repository_fingerprint value =
     (case value of
        None \<Rightarrow> Inr ()
      | Some v \<Rightarrow>
          (case strip_prefix ''git-remote-v1:'' v of
             None \<Rightarrow> Inl InvalidRepositoryFingerprint
           | Some hash \<Rightarrow>
               (if length hash \<noteq> 64 \<or> \<not> list_all ascii_hexdigit hash
                then Inl InvalidRepositoryFingerprint else Inr ())))"

text \<open>The encoders of the enumerations that the code writes as literals.\<close>

fun runtime_status_text :: "runtime_status \<Rightarrow> string" where
  "runtime_status_text Starting = ''starting''"
| "runtime_status_text Idle = ''idle''"
| "runtime_status_text runtime_status.Working = ''working''"
| "runtime_status_text Attention = ''attention''"
| "runtime_status_text Stopped = ''stopped''"
| "runtime_status_text Unknown = ''unknown''"

fun workstream_lifecycle_text :: "workstream_lifecycle \<Rightarrow> string" where
  "workstream_lifecycle_text Open = ''open''"
| "workstream_lifecycle_text Parked = ''parked''"
| "workstream_lifecycle_text workstream_lifecycle.RecoveryRequired = ''recovery_required''"

fun name_state_text :: "name_state \<Rightarrow> string" where
  "name_state_text Named = ''named''"
| "name_state_text KnownEmpty = ''known_empty''"
| "name_state_text Unavailable = ''unavailable''"

lemmas codec_defs =
  operation_kind_from_text_def operation_phase_from_text_def runtime_status_from_text_def
  provider_kind_from_text_def provider_kind_parse_def workstream_lifecycle_from_text_def
  name_state_from_text_def integration_lifecycle_from_text_def

interpretation kind_codec: text_codec operation_kind_text operation_kind_from_text
proof
  show "operation_kind_from_text (operation_kind_text x) = Inr x" for x
    by (cases x) (simp_all add: codec_defs)
  show "operation_kind_from_text s = Inr x \<Longrightarrow> operation_kind_text x = s" for s x
    by (auto simp: codec_defs split: if_splits)
qed

interpretation phase_codec: text_codec operation_phase_text operation_phase_from_text
proof
  show "operation_phase_from_text (operation_phase_text x) = Inr x" for x
    by (cases x) (simp_all add: codec_defs)
  show "operation_phase_from_text s = Inr x \<Longrightarrow> operation_phase_text x = s" for s x
    by (auto simp: codec_defs split: if_splits)
qed

interpretation status_codec: text_codec runtime_status_text runtime_status_from_text
proof
  show "runtime_status_from_text (runtime_status_text x) = Inr x" for x
    by (cases x) (simp_all add: codec_defs)
  show "runtime_status_from_text s = Inr x \<Longrightarrow> runtime_status_text x = s" for s x
    by (auto simp: codec_defs split: if_splits)
qed

interpretation provider_codec: text_codec provider_kind_text provider_kind_from_text
proof
  show "provider_kind_from_text (provider_kind_text x) = Inr x" for x
    by (cases x) (simp_all add: codec_defs)
  show "provider_kind_from_text s = Inr x \<Longrightarrow> provider_kind_text x = s" for s x
    by (auto simp: codec_defs split: if_splits)
qed

interpretation lifecycle_codec: text_codec workstream_lifecycle_text workstream_lifecycle_from_text
proof
  show "workstream_lifecycle_from_text (workstream_lifecycle_text x) = Inr x" for x
    by (cases x) (simp_all add: codec_defs)
  show "workstream_lifecycle_from_text s = Inr x \<Longrightarrow> workstream_lifecycle_text x = s" for s x
    by (auto simp: codec_defs split: if_splits)
qed

interpretation name_codec: text_codec name_state_text name_state_from_text
proof
  show "name_state_from_text (name_state_text x) = Inr x" for x
    by (cases x) (simp_all add: codec_defs)
  show "name_state_from_text s = Inr x \<Longrightarrow> name_state_text x = s" for s x
    by (auto simp: codec_defs split: if_splits)
qed

interpretation integration_codec: text_codec integration_lifecycle_text integration_lifecycle_from_text
proof
  show "integration_lifecycle_from_text (integration_lifecycle_text x) = Inr x" for x
    by (cases x) (simp_all add: codec_defs)
  show "integration_lifecycle_from_text s = Inr x \<Longrightarrow> integration_lifecycle_text x = s" for s x
    by (auto simp: codec_defs split: if_splits)
qed

end
