(* ===== verification/Tables.thy ===== *)
theory Tables
  imports Registry
begin

text \<open>
  The tables of schema 15 (\<open>src/state/schema.rs\<close>) and the SQL statements over them. Each
  table is a list of rows in insertion order; each statement carries the constraints that its
  \<open>CREATE TABLE\<close> declares.
\<close>

section \<open>Rows\<close>

record identity_row =
  hi_singleton :: int
  hi_host_id :: string
  hi_generation :: string
  hi_schema_version :: int

record integration_row =
  ig_id :: string
  ig_profile_name :: string
  ig_path :: string
  ig_owner :: string
  ig_schema_version :: int
  ig_hook :: string
  ig_hash :: string
  ig_lifecycle :: string
  ig_revision :: int

record location_row =
  lc_id :: string
  lc_path :: string
  lc_display :: string
  lc_fingerprint :: "string option"
  lc_remote_display :: "string option"
  lc_revision :: int
  lc_project :: "string option"

record workstream_row =
  ws_id :: string
  ws_location :: string
  ws_provider :: string
  ws_origin :: string
  ws_source :: "string option"
  ws_lifecycle :: string
  ws_archived :: "int option"
  ws_activity_seq :: int
  ws_activity_at :: int
  ws_revision :: int

record request_row =
  rq_key :: string
  rq_source :: string
  rq_source_revision :: int
  rq_workstream :: string

record runtime_row =
  rt_id :: string
  rt_workstream :: string
  rt_provider :: string
  rt_generation :: string
  rt_session :: string
  rt_cwd :: string
  rt_pid :: "int option"
  rt_birth :: "string option"
  rt_lifecycle :: string
  rt_revision :: int

record handle_row =
  hd_runtime :: string
  hd_generation :: string
  hd_host :: string
  hd_port :: int
  hd_version :: string
  hd_session :: string
  hd_observer_pid :: "int option"
  hd_observer_birth :: "string option"
  hd_status :: string
  hd_revision :: int

record binding_row =
  bd_id :: string
  bd_runtime :: string
  bd_provider :: string
  bd_session :: string
  bd_start_source :: string
  bd_last_turn :: "string option"
  bd_thread_name :: "string option"
  bd_name_state :: string
  bd_name_observed :: "int option"
  bd_predecessor :: "string option"
  bd_predecessor_name :: "string option"
  bd_generation :: string
  bd_revision :: int

record attention_row =
  at_workstream :: string
  at_result_unseen :: "int option"
  at_recovery_unseen :: "int option"
  at_session :: "string option"
  at_session_provider :: "string option"
  at_turn :: "string option"
  at_revision :: int

record operation_row =
  op_id :: string
  op_request_key :: string
  op_kind :: string
  op_phase :: string
  op_expected :: string
  op_watermark :: "string option"
  op_outcome :: "string option"
  op_revision :: int
  op_token_id :: "string option"
  op_token_verifier :: "string option"
  op_token_expiry :: "int option"
  op_claims_digest :: "string option"

record project_row =
  pj_id :: string
  pj_label_location :: string
  pj_display :: string
  pj_fingerprint :: "string option"
  pj_revision :: int

record settled_row =
  sm_id :: int
  sm_runtime :: string
  sm_generation :: string
  sm_session :: string
  sm_message :: string

record target_row =
  tg_operation :: string
  tg_provider :: string
  tg_device :: int
  tg_inode :: int

record metadata_row =
  md_singleton :: int
  md_host_id :: string
  md_generation :: string
  md_lease_generation :: int
  md_lock_phase :: string
  md_lock_device :: "int option"
  md_lock_inode :: "int option"

record registry =
  user_version :: int
  identity_rows :: "identity_row list"
  integration_rows :: "integration_row list"
  location_rows :: "location_row list"
  workstream_rows :: "workstream_row list"
  request_rows :: "request_row list"
  runtime_rows :: "runtime_row list"
  handle_rows :: "handle_row list"
  binding_rows :: "binding_row list"
  attention_rows :: "attention_row list"
  operation_rows :: "operation_row list"
  project_rows :: "project_row list"
  settled_rows :: "settled_row list"
  settled_sequence :: int
  target_rows :: "target_row list"
  metadata_rows :: "metadata_row list"

definition host_schema_version :: int where "host_schema_version = 15"
definition max_navigator_workstreams :: nat where "max_navigator_workstreams = 128"

section \<open>CHECK constraints\<close>

definition workstream_check :: "workstream_row \<Rightarrow> bool" where
  "workstream_check w \<longleftrightarrow> 0 \<le> ws_activity_seq w \<and> 0 \<le> ws_activity_at w \<and> 0 < ws_revision w"

definition runtime_check :: "runtime_row \<Rightarrow> bool" where
  "runtime_check r \<longleftrightarrow> 0 < rt_revision r"

definition handle_check :: "handle_row \<Rightarrow> bool" where
  "handle_check h \<longleftrightarrow>
     hd_host h = ''127.0.0.1'' \<and> 1 \<le> hd_port h \<and> hd_port h \<le> 65535 \<and> 0 < hd_revision h"

definition binding_check :: "binding_row \<Rightarrow> bool" where
  "binding_check b \<longleftrightarrow> 0 < bd_revision b"

definition operation_check :: "operation_row \<Rightarrow> bool" where
  "operation_check p \<longleftrightarrow> 0 < op_revision p"

definition integration_check :: "integration_row \<Rightarrow> bool" where
  "integration_check i \<longleftrightarrow> 0 < ig_revision i"

definition location_check :: "location_row \<Rightarrow> bool" where
  "location_check l \<longleftrightarrow> 0 < lc_revision l"

definition project_check :: "project_row \<Rightarrow> bool" where
  "project_check p \<longleftrightarrow> 0 < pj_revision p"

definition target_check :: "target_row \<Rightarrow> bool" where
  "target_check t \<longleftrightarrow>
     tg_provider t \<in> {''codex'', ''opencode''} \<and> 0 \<le> tg_device t \<and> 0 < tg_inode t"

lemmas row_checks =
  workstream_check_def runtime_check_def handle_check_def binding_check_def
  operation_check_def integration_check_def location_check_def project_check_def target_check_def

section \<open>UPDATE statements\<close>

text \<open>
  \<open>UPDATE t SET f WHERE P\<close>: the updated rows must satisfy the CHECK of the table; the result
  is the number of rows changed, as \<open>Transaction::execute\<close> reports it.
\<close>

definition exec_update ::
  "('r \<Rightarrow> bool) \<Rightarrow> ('r \<Rightarrow> bool) \<Rightarrow> ('r \<Rightarrow> 'r) \<Rightarrow> 'r list \<Rightarrow> (state_error, nat \<times> 'r list) result" where
  "exec_update chk P f rows =
     (if list_all chk (map f (filter P rows))
      then Inr (sql_count P rows, sql_update_rows P f rows)
      else Inl (Sqlite ConstraintViolation))"

definition update_workstreams ::
  "(workstream_row \<Rightarrow> bool) \<Rightarrow> (workstream_row \<Rightarrow> workstream_row) \<Rightarrow> registry
     \<Rightarrow> (state_error, nat \<times> registry) result" where
  "update_workstreams P f db =
     and_then (exec_update workstream_check P f (workstream_rows db)) (\<lambda>(n, rows).
     Inr (n, db\<lparr>workstream_rows := rows\<rparr>))"

definition update_runtimes ::
  "(runtime_row \<Rightarrow> bool) \<Rightarrow> (runtime_row \<Rightarrow> runtime_row) \<Rightarrow> registry
     \<Rightarrow> (state_error, nat \<times> registry) result" where
  "update_runtimes P f db =
     and_then (exec_update runtime_check P f (runtime_rows db)) (\<lambda>(n, rows).
     Inr (n, db\<lparr>runtime_rows := rows\<rparr>))"

definition update_handles ::
  "(handle_row \<Rightarrow> bool) \<Rightarrow> (handle_row \<Rightarrow> handle_row) \<Rightarrow> registry
     \<Rightarrow> (state_error, nat \<times> registry) result" where
  "update_handles P f db =
     and_then (exec_update handle_check P f (handle_rows db)) (\<lambda>(n, rows).
     Inr (n, db\<lparr>handle_rows := rows\<rparr>))"

definition update_bindings ::
  "(binding_row \<Rightarrow> bool) \<Rightarrow> (binding_row \<Rightarrow> binding_row) \<Rightarrow> registry
     \<Rightarrow> (state_error, nat \<times> registry) result" where
  "update_bindings P f db =
     and_then (exec_update binding_check P f (binding_rows db)) (\<lambda>(n, rows).
     Inr (n, db\<lparr>binding_rows := rows\<rparr>))"

definition update_operations ::
  "(operation_row \<Rightarrow> bool) \<Rightarrow> (operation_row \<Rightarrow> operation_row) \<Rightarrow> registry
     \<Rightarrow> (state_error, nat \<times> registry) result" where
  "update_operations P f db =
     and_then (exec_update operation_check P f (operation_rows db)) (\<lambda>(n, rows).
     Inr (n, db\<lparr>operation_rows := rows\<rparr>))"

definition update_integrations ::
  "(integration_row \<Rightarrow> bool) \<Rightarrow> (integration_row \<Rightarrow> integration_row) \<Rightarrow> registry
     \<Rightarrow> (state_error, nat \<times> registry) result" where
  "update_integrations P f db =
     and_then (exec_update integration_check P f (integration_rows db)) (\<lambda>(n, rows).
     Inr (n, db\<lparr>integration_rows := rows\<rparr>))"

definition update_projects ::
  "(project_row \<Rightarrow> bool) \<Rightarrow> (project_row \<Rightarrow> project_row) \<Rightarrow> registry
     \<Rightarrow> (state_error, nat \<times> registry) result" where
  "update_projects P f db =
     and_then (exec_update project_check P f (project_rows db)) (\<lambda>(n, rows).
     Inr (n, db\<lparr>project_rows := rows\<rparr>))"

text \<open>A Location may only be moved to a Project that exists.\<close>

definition update_locations ::
  "(location_row \<Rightarrow> bool) \<Rightarrow> (location_row \<Rightarrow> location_row) \<Rightarrow> registry
     \<Rightarrow> (state_error, nat \<times> registry) result" where
  "update_locations P f db =
     (if \<forall>l \<in> set (map f (filter P (location_rows db))).
           \<forall>p \<in> set_option (lc_project l). p \<in> pj_id ` set (project_rows db)
      then and_then (exec_update location_check P f (location_rows db)) (\<lambda>(n, rows).
           Inr (n, db\<lparr>location_rows := rows\<rparr>))
      else Inl (Sqlite ConstraintViolation))"

section \<open>INSERT statements\<close>

definition constrained :: "bool \<Rightarrow> registry \<Rightarrow> (state_error, registry) result" where
  "constrained ok db = (if ok then Inr db else Inl (Sqlite ConstraintViolation))"

lemma constrained_Inr [simp]: "constrained ok db = Inr db' \<longleftrightarrow> ok \<and> db' = db"
  by (auto simp: constrained_def)

definition insert_workstream :: "workstream_row \<Rightarrow> registry \<Rightarrow> (state_error, registry) result" where
  "insert_workstream w db =
     constrained
       (ws_id w \<notin> ws_id ` set (workstream_rows db)
        \<and> ws_location w \<in> lc_id ` set (location_rows db)
        \<and> (case ws_source w of None \<Rightarrow> True
             | Some s \<Rightarrow> s = ws_id w \<or> s \<in> ws_id ` set (workstream_rows db))
        \<and> workstream_check w)
       (db\<lparr>workstream_rows := workstream_rows db @ [w]\<rparr>)"

definition insert_request :: "request_row \<Rightarrow> registry \<Rightarrow> (state_error, registry) result" where
  "insert_request q db =
     constrained
       (rq_key q \<notin> rq_key ` set (request_rows db)
        \<and> rq_workstream q \<notin> rq_workstream ` set (request_rows db)
        \<and> rq_source q \<in> ws_id ` set (workstream_rows db)
        \<and> rq_workstream q \<in> ws_id ` set (workstream_rows db)
        \<and> 0 < rq_source_revision q)
       (db\<lparr>request_rows := request_rows db @ [q]\<rparr>)"

definition insert_runtime :: "runtime_row \<Rightarrow> registry \<Rightarrow> (state_error, registry) result" where
  "insert_runtime r db =
     constrained
       (rt_id r \<notin> rt_id ` set (runtime_rows db)
        \<and> rt_workstream r \<notin> rt_workstream ` set (runtime_rows db)
        \<and> rt_workstream r \<in> ws_id ` set (workstream_rows db)
        \<and> runtime_check r)
       (db\<lparr>runtime_rows := runtime_rows db @ [r]\<rparr>)"

definition insert_binding :: "binding_row \<Rightarrow> registry \<Rightarrow> (state_error, registry) result" where
  "insert_binding b db =
     constrained
       (bd_id b \<notin> bd_id ` set (binding_rows db)
        \<and> bd_runtime b \<notin> bd_runtime ` set (binding_rows db)
        \<and> bd_runtime b \<in> rt_id ` set (runtime_rows db)
        \<and> binding_check b)
       (db\<lparr>binding_rows := binding_rows db @ [b]\<rparr>)"

definition insert_handle :: "handle_row \<Rightarrow> registry \<Rightarrow> (state_error, registry) result" where
  "insert_handle h db =
     constrained
       (hd_runtime h \<notin> hd_runtime ` set (handle_rows db)
        \<and> hd_runtime h \<in> rt_id ` set (runtime_rows db)
        \<and> handle_check h)
       (db\<lparr>handle_rows := handle_rows db @ [h]\<rparr>)"

definition insert_operation :: "operation_row \<Rightarrow> registry \<Rightarrow> (state_error, registry) result" where
  "insert_operation p db =
     constrained
       (op_id p \<notin> op_id ` set (operation_rows db)
        \<and> op_request_key p \<notin> op_request_key ` set (operation_rows db)
        \<and> (op_token_id p = None \<or> op_token_id p \<notin> op_token_id ` set (operation_rows db))
        \<and> operation_check p)
       (db\<lparr>operation_rows := operation_rows db @ [p]\<rparr>)"

definition insert_integration :: "integration_row \<Rightarrow> registry \<Rightarrow> (state_error, registry) result" where
  "insert_integration i db =
     constrained
       (ig_id i \<notin> ig_id ` set (integration_rows db)
        \<and> ig_profile_name i \<notin> ig_profile_name ` set (integration_rows db)
        \<and> integration_check i)
       (db\<lparr>integration_rows := integration_rows db @ [i]\<rparr>)"

definition insert_location :: "location_row \<Rightarrow> registry \<Rightarrow> (state_error, registry) result" where
  "insert_location l db =
     constrained
       (lc_id l \<notin> lc_id ` set (location_rows db)
        \<and> (\<forall>p \<in> set_option (lc_project l). p \<in> pj_id ` set (project_rows db))
        \<and> location_check l)
       (db\<lparr>location_rows := location_rows db @ [l]\<rparr>)"

definition insert_project :: "project_row \<Rightarrow> registry \<Rightarrow> (state_error, registry) result" where
  "insert_project p db =
     constrained
       (pj_id p \<notin> pj_id ` set (project_rows db)
        \<and> pj_label_location p \<in> lc_id ` set (location_rows db)
        \<and> (pj_fingerprint p \<in> {None, Some []} \<or> pj_fingerprint p \<notin> pj_fingerprint ` set (project_rows db))
        \<and> project_check p)
       (db\<lparr>project_rows := project_rows db @ [p]\<rparr>)"

definition insert_target :: "target_row \<Rightarrow> registry \<Rightarrow> (state_error, registry) result" where
  "insert_target t db =
     constrained
       (tg_operation t \<notin> tg_operation ` set (target_rows db)
        \<and> tg_operation t \<in> op_id ` set (operation_rows db)
        \<and> target_check t)
       (db\<lparr>target_rows := target_rows db @ [t]\<rparr>)"

text \<open>
  \<open>INSERT OR IGNORE\<close>: a UNIQUE or PRIMARY KEY conflict inserts nothing and reports 0 rows.
  The AUTOINCREMENT key of a settled message is the next value of its sequence.
\<close>

definition insert_or_ignore_operation ::
  "operation_row \<Rightarrow> registry \<Rightarrow> (state_error, nat \<times> registry) result" where
  "insert_or_ignore_operation p db =
     (if op_id p \<in> op_id ` set (operation_rows db)
         \<or> op_request_key p \<in> op_request_key ` set (operation_rows db) \<or> \<not> operation_check p
      then Inr (0, db)
      else Inr (1, db\<lparr>operation_rows := operation_rows db @ [p]\<rparr>))"

definition insert_or_ignore_settled ::
  "string \<Rightarrow> string \<Rightarrow> string \<Rightarrow> string \<Rightarrow> registry \<Rightarrow> (state_error, nat \<times> registry) result" where
  "insert_or_ignore_settled runtime generation session message db =
     (if \<exists>m \<in> set (settled_rows db).
           sm_runtime m = runtime \<and> sm_generation m = generation
           \<and> sm_session m = session \<and> sm_message m = message
      then Inr (0, db)
      else if runtime \<notin> rt_id ` set (runtime_rows db) then Inl (Sqlite ConstraintViolation)
      else Inr (1, db\<lparr> settled_rows := settled_rows db @
               [\<lparr> sm_id = settled_sequence db + 1, sm_runtime = runtime,
                  sm_generation = generation, sm_session = session, sm_message = message \<rparr>],
             settled_sequence := settled_sequence db + 1 \<rparr>))"

section \<open>DELETE statements\<close>

text \<open>
  A deleted parent row must not be referenced any more (\<open>REFERENCES\<close> without an action).
\<close>

definition delete_settled :: "(settled_row \<Rightarrow> bool) \<Rightarrow> registry \<Rightarrow> (state_error, nat \<times> registry) result" where
  "delete_settled P db =
     Inr (sql_count P (settled_rows db),
          db\<lparr>settled_rows := sql_delete_rows P (settled_rows db)\<rparr>)"

definition delete_handles :: "(handle_row \<Rightarrow> bool) \<Rightarrow> registry \<Rightarrow> (state_error, nat \<times> registry) result" where
  "delete_handles P db =
     Inr (sql_count P (handle_rows db),
          db\<lparr>handle_rows := sql_delete_rows P (handle_rows db)\<rparr>)"

definition delete_bindings :: "(binding_row \<Rightarrow> bool) \<Rightarrow> registry \<Rightarrow> (state_error, nat \<times> registry) result" where
  "delete_bindings P db =
     Inr (sql_count P (binding_rows db),
          db\<lparr>binding_rows := sql_delete_rows P (binding_rows db)\<rparr>)"

definition delete_attention :: "(attention_row \<Rightarrow> bool) \<Rightarrow> registry \<Rightarrow> (state_error, nat \<times> registry) result" where
  "delete_attention P db =
     Inr (sql_count P (attention_rows db),
          db\<lparr>attention_rows := sql_delete_rows P (attention_rows db)\<rparr>)"

definition delete_requests :: "(request_row \<Rightarrow> bool) \<Rightarrow> registry \<Rightarrow> (state_error, nat \<times> registry) result" where
  "delete_requests P db =
     Inr (sql_count P (request_rows db),
          db\<lparr>request_rows := sql_delete_rows P (request_rows db)\<rparr>)"

definition delete_targets :: "(target_row \<Rightarrow> bool) \<Rightarrow> registry \<Rightarrow> (state_error, nat \<times> registry) result" where
  "delete_targets P db =
     Inr (sql_count P (target_rows db),
          db\<lparr>target_rows := sql_delete_rows P (target_rows db)\<rparr>)"

definition delete_runtimes :: "(runtime_row \<Rightarrow> bool) \<Rightarrow> registry \<Rightarrow> (state_error, nat \<times> registry) result" where
  "delete_runtimes P db =
     (let gone = rt_id ` set (filter P (runtime_rows db))
      in and_then
           (constrained
             (gone \<inter> (bd_runtime ` set (binding_rows db) \<union> hd_runtime ` set (handle_rows db)
                       \<union> sm_runtime ` set (settled_rows db)) = {})
             (db\<lparr>runtime_rows := sql_delete_rows P (runtime_rows db)\<rparr>))
           (\<lambda>db'. Inr (sql_count P (runtime_rows db), db')))"

definition delete_operations :: "(operation_row \<Rightarrow> bool) \<Rightarrow> registry \<Rightarrow> (state_error, nat \<times> registry) result" where
  "delete_operations P db =
     (let gone = op_id ` set (filter P (operation_rows db))
      in and_then
           (constrained (gone \<inter> tg_operation ` set (target_rows db) = {})
             (db\<lparr>operation_rows := sql_delete_rows P (operation_rows db)\<rparr>))
           (\<lambda>db'. Inr (sql_count P (operation_rows db), db')))"

definition delete_workstreams :: "(workstream_row \<Rightarrow> bool) \<Rightarrow> registry \<Rightarrow> (state_error, nat \<times> registry) result" where
  "delete_workstreams P db =
     (let gone = ws_id ` set (filter P (workstream_rows db));
          rest = sql_delete_rows P (workstream_rows db)
      in and_then
           (constrained
             (gone \<inter> (rt_workstream ` set (runtime_rows db) \<union> rq_source ` set (request_rows db)
                       \<union> rq_workstream ` set (request_rows db)) = {}
              \<and> (\<forall>w \<in> set rest. \<forall>s \<in> set_option (ws_source w). s \<notin> gone))
             (db\<lparr>workstream_rows := rest\<rparr>))
           (\<lambda>db'. Inr (sql_count P (workstream_rows db), db')))"

definition delete_locations :: "(location_row \<Rightarrow> bool) \<Rightarrow> registry \<Rightarrow> (state_error, nat \<times> registry) result" where
  "delete_locations P db =
     (let gone = lc_id ` set (filter P (location_rows db))
      in and_then
           (constrained
             (gone \<inter> (ws_location ` set (workstream_rows db)
                       \<union> pj_label_location ` set (project_rows db)) = {})
             (db\<lparr>location_rows := sql_delete_rows P (location_rows db)\<rparr>))
           (\<lambda>db'. Inr (sql_count P (location_rows db), db')))"

definition delete_projects :: "(project_row \<Rightarrow> bool) \<Rightarrow> registry \<Rightarrow> (state_error, nat \<times> registry) result" where
  "delete_projects P db =
     (let gone = pj_id ` set (filter P (project_rows db))
      in and_then
           (constrained
             (\<forall>l \<in> set (location_rows db). \<forall>p \<in> set_option (lc_project l). p \<notin> gone)
             (db\<lparr>project_rows := sql_delete_rows P (project_rows db)\<rparr>))
           (\<lambda>db'. Inr (sql_count P (project_rows db), db')))"

definition delete_integrations :: "(integration_row \<Rightarrow> bool) \<Rightarrow> registry \<Rightarrow> (state_error, nat \<times> registry) result" where
  "delete_integrations P db =
     Inr (sql_count P (integration_rows db),
          db\<lparr>integration_rows := sql_delete_rows P (integration_rows db)\<rparr>)"

text \<open>\<open>PRAGMA foreign_key_check\<close> reports no row: \<open>validate_foreign_keys\<close>.\<close>

definition foreign_keys_hold :: "registry \<Rightarrow> bool" where
  "foreign_keys_hold db \<longleftrightarrow>
     ws_location ` set (workstream_rows db) \<subseteq> lc_id ` set (location_rows db) \<and>
     (\<forall>w \<in> set (workstream_rows db). \<forall>s \<in> set_option (ws_source w).
        s \<in> ws_id ` set (workstream_rows db)) \<and>
     rq_source ` set (request_rows db) \<subseteq> ws_id ` set (workstream_rows db) \<and>
     rq_workstream ` set (request_rows db) \<subseteq> ws_id ` set (workstream_rows db) \<and>
     rt_workstream ` set (runtime_rows db) \<subseteq> ws_id ` set (workstream_rows db) \<and>
     hd_runtime ` set (handle_rows db) \<subseteq> rt_id ` set (runtime_rows db) \<and>
     bd_runtime ` set (binding_rows db) \<subseteq> rt_id ` set (runtime_rows db) \<and>
     sm_runtime ` set (settled_rows db) \<subseteq> rt_id ` set (runtime_rows db) \<and>
     tg_operation ` set (target_rows db) \<subseteq> op_id ` set (operation_rows db) \<and>
     (\<forall>l \<in> set (location_rows db). \<forall>p \<in> set_option (lc_project l).
        p \<in> pj_id ` set (project_rows db)) \<and>
     pj_label_location ` set (project_rows db) \<subseteq> lc_id ` set (location_rows db)"

definition validate_foreign_keys :: "registry \<Rightarrow> (state_error, unit) result" where
  "validate_foreign_keys db = (if foreign_keys_hold db then Inr () else Inl MalformedHostSchema)"

end
