(* ===== verification/Integrity.thy ===== *)
theory Integrity
  imports Tables
begin

text \<open>
  What every statement keeps: the interface \<open>keyed_table\<close> of the tables that are updated under
  an optimistic revision, its instances for the six versioned tables of the registry, the
  integrity invariant \<open>registry_ok\<close> (keys, references, provider agreement) and the row
  history \<open>progress\<close>, with one lemma per kind of statement for each. An operation of the
  registry is a chain of statements, so its invariance proofs only collect these.
\<close>

named_theorems keeps \<open>statements that keep the integrity invariant\<close>
named_theorems progresses \<open>statements that only move row revisions forward\<close>

section \<open>Versioned tables\<close>

locale keyed_table =
  fixes rows :: "'d \<Rightarrow> 'r list"
    and set_rows :: "'r list \<Rightarrow> 'd \<Rightarrow> 'd"
    and upd :: "('r \<Rightarrow> bool) \<Rightarrow> ('r \<Rightarrow> 'r) \<Rightarrow> 'd \<Rightarrow> (state_error, nat \<times> 'd) result"
    and chk :: "'r \<Rightarrow> bool"
    and key :: "'r \<Rightarrow> string"
    and ver :: "'r \<Rightarrow> int"
  assumes rows_set [simp]: "rows (set_rows xs d) = xs"
    and set_same [simp]: "set_rows (rows d) d = d"
    and upd_eq: "upd P f d =
      (if list_all chk (map f (filter P (rows d)))
       then Inr (sql_count P (rows d), set_rows (sql_update_rows P f (rows d)) d)
       else Inl (Sqlite ConstraintViolation))"
    and chk_ver: "chk r \<Longrightarrow> 0 < ver r"
begin

lemma upd_Inr:
  "upd P f d = Inr (n, d') \<longleftrightarrow>
     list_all chk (map f (filter P (rows d))) \<and> n = sql_count P (rows d) \<and>
     d' = set_rows (sql_update_rows P f (rows d)) d"
  by (auto simp: upd_eq)

lemma upd_rows: "upd P f d = Inr (n, d') \<Longrightarrow> rows d' = sql_update_rows P f (rows d)"
  by (simp add: upd_Inr)

lemma upd_new_rows:
  "upd P f d = Inr (n, d') \<Longrightarrow> r' \<in> set (rows d') \<Longrightarrow>
   r' \<in> set (rows d) \<and> \<not> P r' \<or> (\<exists>r \<in> set (rows d). P r \<and> r' = f r \<and> chk r')"
  by (auto simp: upd_Inr set_sql_update_rows list_all_iff)

lemma upd_checks:
  "upd P f d = Inr (n, d') \<Longrightarrow> list_all chk (rows d) \<Longrightarrow> list_all chk (rows d')"
  by (auto simp: list_all_iff dest!: upd_new_rows)

lemma upd_map:
  assumes "upd P f d = Inr (n, d')" and "\<And>r. P r \<Longrightarrow> g (f r) = g r"
  shows "map g (rows d') = map g (rows d)"
  using assms by (simp add: upd_rows map_key_update_rows)

lemma upd_advances:
  assumes "upd P f d = Inr (n, d')"
    and "\<And>r. r \<in> set (rows d) \<Longrightarrow> P r \<Longrightarrow> chk (f r) \<Longrightarrow> key (f r) = key r \<and> ver r < ver (f r)"
  shows "advances key ver (rows d) (rows d')"
proof -
  from assms(1) have "list_all chk (map f (filter P (rows d)))"
    and rows': "rows d' = sql_update_rows P f (rows d)"
    by (simp_all add: upd_Inr)
  then have "chk (f r)" if "r \<in> set (rows d)" "P r" for r
    using that by (auto simp: list_all_iff)
  with assms(2) show ?thesis
    unfolding rows' by (intro advances_update) blast
qed

lemma upd_none:
  assumes "\<And>r. r \<in> set (rows d) \<Longrightarrow> \<not> P r"
  shows "upd P f d = Inr (0, d)"
proof -
  from assms have "filter P (rows d) = []" by (auto simp: filter_empty_conv)
  moreover from this have "sql_update_rows P f (rows d) = rows d"
    by (intro sql_update_rows_none) (simp add: sql_count_def)
  ultimately show ?thesis by (simp add: upd_eq sql_count_def)
qed

text \<open>A statement whose condition fixes the key changes at most one row.\<close>

lemma upd_keyed:
  assumes "distinct (map key (rows d))" and "r \<in> set (rows d)" and "P r"
    and "\<And>s. P s \<Longrightarrow> key s = key r" and "chk (f r)"
  shows "upd P f d = Inr (1, set_rows (sql_update_rows P f (rows d)) d)"
proof -
  have only: "s = r" if "s \<in> set (rows d)" "P s" for s
    using assms(1) that(1) assms(2) assms(4) [OF that(2)] by (rule distinct_key_unique)
  have "chk (f s)" if "s \<in> set (filter P (rows d))" for s
    using only [of s] that assms(5) by simp
  then have "list_all chk (map f (filter P (rows d)))"
    by (simp add: list_all_iff)
  moreover have "sql_count P (rows d) = Suc 0"
    by (rule sql_count_key_1 [where key = key and k = "key r" and r = r]) (fact assms)+
  ultimately show ?thesis by (simp add: upd_eq)
qed

lemma upd_keyed_count:
  assumes "distinct (map key (rows d))" and "upd P f d = Inr (n, d')"
    and "\<And>s. P s \<Longrightarrow> key s = k"
  shows "n \<le> 1"
proof -
  from assms(2) have "n = sql_count P (rows d)" by (simp add: upd_Inr)
  moreover have "sql_count P (rows d) \<le> 1"
    by (rule sql_count_key_le_1 [where key = key and k = k]) (fact assms)+
  ultimately show ?thesis by simp
qed

lemma upd_one:
  assumes "upd P f d = Inr (1, d')"
  obtains r where "r \<in> set (rows d)" "P r" "chk (f r)"
proof -
  from assms have "sql_count P (rows d) = 1" and chk: "list_all chk (map f (filter P (rows d)))"
    by (simp_all add: upd_Inr)
  then obtain r where "r \<in> set (rows d)" "P r" using sql_count_1D by blast
  moreover from this chk have "chk (f r)" by (auto simp: list_all_iff)
  ultimately show ?thesis by (rule that)
qed

text \<open>One row is changed: it is the row at its key, and its new version is found there.\<close>

lemma upd_one_found:
  assumes "distinct (map key (rows d))" and "upd P f d = Inr (1, d')"
    and "\<And>s. P s \<Longrightarrow> key s = k" and "\<And>s. P s \<Longrightarrow> key (f s) = k"
  obtains r where "List.find (\<lambda>r. key r = k) (rows d) = Some r" "P r" "chk (f r)"
    "List.find (\<lambda>r. key r = k) (rows d') = Some (f r)"
proof -
  from assms(2) obtain r where r: "r \<in> set (rows d)" "P r" "chk (f r)" by (rule upd_one)
  from assms(1) r(1) have "List.find (\<lambda>x. key x = key r) (rows d) = Some r"
    by (rule find_Some_iff_distinct)
  with assms(3) [OF r(2)] have found: "List.find (\<lambda>x. key x = k) (rows d) = Some r" by simp
  have "List.find (\<lambda>x. key x = k) (rows d') = Some (f r)"
    unfolding upd_rows [OF assms(2)] using assms(3,4) r(2)
    by (subst find_update_rows) (auto simp: found)
  with found r(2,3) show ?thesis by (intro that)
qed

lemma upd_find:
  assumes "upd P f d = Inr (n, d')" and "\<And>r. P r \<Longrightarrow> key (f r) = key r"
  shows "List.find (\<lambda>r. key r = k) (rows d') =
    map_option (\<lambda>r. if P r then f r else r) (List.find (\<lambda>r. key r = k) (rows d))"
  using assms by (simp add: upd_rows find_update_rows)

end

interpretation ws: keyed_table workstream_rows "\<lambda>rs db. db\<lparr>workstream_rows := rs\<rparr>"
    update_workstreams workstream_check ws_id ws_revision
proof
  fix P f n r and d :: registry and xs :: "workstream_row list"
  show "workstream_rows (d\<lparr>workstream_rows := xs\<rparr>) = xs" by simp
  show "d\<lparr>workstream_rows := workstream_rows d\<rparr> = d" by simp
  show "update_workstreams P f d =
      (if list_all workstream_check (map f (filter P (workstream_rows d)))
       then Inr (sql_count P (workstream_rows d), d\<lparr>workstream_rows := sql_update_rows P f (workstream_rows d)\<rparr>)
       else Inl (Sqlite ConstraintViolation))"
    by (simp only: update_workstreams_def exec_update_def if_distrib [of "\<lambda>r. and_then r _"]
        and_then_simps prod.case)
  show "workstream_check r \<Longrightarrow> 0 < ws_revision r" by (simp add: row_checks)
qed

interpretation rt: keyed_table runtime_rows "\<lambda>rs db. db\<lparr>runtime_rows := rs\<rparr>"
    update_runtimes runtime_check rt_id rt_revision
proof
  fix P f n r and d :: registry and xs :: "runtime_row list"
  show "runtime_rows (d\<lparr>runtime_rows := xs\<rparr>) = xs" by simp
  show "d\<lparr>runtime_rows := runtime_rows d\<rparr> = d" by simp
  show "update_runtimes P f d =
      (if list_all runtime_check (map f (filter P (runtime_rows d)))
       then Inr (sql_count P (runtime_rows d), d\<lparr>runtime_rows := sql_update_rows P f (runtime_rows d)\<rparr>)
       else Inl (Sqlite ConstraintViolation))"
    by (simp only: update_runtimes_def exec_update_def if_distrib [of "\<lambda>r. and_then r _"]
        and_then_simps prod.case)
  show "runtime_check r \<Longrightarrow> 0 < rt_revision r" by (simp add: row_checks)
qed

interpretation hn: keyed_table handle_rows "\<lambda>rs db. db\<lparr>handle_rows := rs\<rparr>"
    update_handles handle_check hd_runtime hd_revision
proof
  fix P f n r and d :: registry and xs :: "handle_row list"
  show "handle_rows (d\<lparr>handle_rows := xs\<rparr>) = xs" by simp
  show "d\<lparr>handle_rows := handle_rows d\<rparr> = d" by simp
  show "update_handles P f d =
      (if list_all handle_check (map f (filter P (handle_rows d)))
       then Inr (sql_count P (handle_rows d), d\<lparr>handle_rows := sql_update_rows P f (handle_rows d)\<rparr>)
       else Inl (Sqlite ConstraintViolation))"
    by (simp only: update_handles_def exec_update_def if_distrib [of "\<lambda>r. and_then r _"]
        and_then_simps prod.case)
  show "handle_check r \<Longrightarrow> 0 < hd_revision r" by (simp add: row_checks)
qed

interpretation bd: keyed_table binding_rows "\<lambda>rs db. db\<lparr>binding_rows := rs\<rparr>"
    update_bindings binding_check bd_runtime bd_revision
proof
  fix P f n r and d :: registry and xs :: "binding_row list"
  show "binding_rows (d\<lparr>binding_rows := xs\<rparr>) = xs" by simp
  show "d\<lparr>binding_rows := binding_rows d\<rparr> = d" by simp
  show "update_bindings P f d =
      (if list_all binding_check (map f (filter P (binding_rows d)))
       then Inr (sql_count P (binding_rows d), d\<lparr>binding_rows := sql_update_rows P f (binding_rows d)\<rparr>)
       else Inl (Sqlite ConstraintViolation))"
    by (simp only: update_bindings_def exec_update_def if_distrib [of "\<lambda>r. and_then r _"]
        and_then_simps prod.case)
  show "binding_check r \<Longrightarrow> 0 < bd_revision r" by (simp add: row_checks)
qed

interpretation op: keyed_table operation_rows "\<lambda>rs db. db\<lparr>operation_rows := rs\<rparr>"
    update_operations operation_check op_id op_revision
proof
  fix P f n r and d :: registry and xs :: "operation_row list"
  show "operation_rows (d\<lparr>operation_rows := xs\<rparr>) = xs" by simp
  show "d\<lparr>operation_rows := operation_rows d\<rparr> = d" by simp
  show "update_operations P f d =
      (if list_all operation_check (map f (filter P (operation_rows d)))
       then Inr (sql_count P (operation_rows d), d\<lparr>operation_rows := sql_update_rows P f (operation_rows d)\<rparr>)
       else Inl (Sqlite ConstraintViolation))"
    by (simp only: update_operations_def exec_update_def if_distrib [of "\<lambda>r. and_then r _"]
        and_then_simps prod.case)
  show "operation_check r \<Longrightarrow> 0 < op_revision r" by (simp add: row_checks)
qed

interpretation ig: keyed_table integration_rows "\<lambda>rs db. db\<lparr>integration_rows := rs\<rparr>"
    update_integrations integration_check ig_profile_name ig_revision
proof
  fix P f n r and d :: registry and xs :: "integration_row list"
  show "integration_rows (d\<lparr>integration_rows := xs\<rparr>) = xs" by simp
  show "d\<lparr>integration_rows := integration_rows d\<rparr> = d" by simp
  show "update_integrations P f d =
      (if list_all integration_check (map f (filter P (integration_rows d)))
       then Inr (sql_count P (integration_rows d), d\<lparr>integration_rows := sql_update_rows P f (integration_rows d)\<rparr>)
       else Inl (Sqlite ConstraintViolation))"
    by (simp only: update_integrations_def exec_update_def if_distrib [of "\<lambda>r. and_then r _"]
        and_then_simps prod.case)
  show "integration_check r \<Longrightarrow> 0 < ig_revision r" by (simp add: row_checks)
qed

interpretation pj: keyed_table project_rows "\<lambda>rs db. db\<lparr>project_rows := rs\<rparr>"
    update_projects project_check pj_id pj_revision
proof
  fix P f n r and d :: registry and xs :: "project_row list"
  show "project_rows (d\<lparr>project_rows := xs\<rparr>) = xs" by simp
  show "d\<lparr>project_rows := project_rows d\<rparr> = d" by simp
  show "update_projects P f d =
      (if list_all project_check (map f (filter P (project_rows d)))
       then Inr (sql_count P (project_rows d), d\<lparr>project_rows := sql_update_rows P f (project_rows d)\<rparr>)
       else Inl (Sqlite ConstraintViolation))"
    by (simp only: update_projects_def exec_update_def if_distrib [of "\<lambda>r. and_then r _"]
        and_then_simps prod.case)
  show "project_check r \<Longrightarrow> 0 < pj_revision r" by (simp add: row_checks)
qed

lemmas updates_Inr =
  ws.upd_Inr rt.upd_Inr hn.upd_Inr bd.upd_Inr op.upd_Inr ig.upd_Inr pj.upd_Inr

end
