(* ===== verification/Loaders.thy ===== *)
theory Loaders
  imports Integrity
begin

text \<open>
  Reading typed records from the tables: \<open>RuntimeRecord\<close>, \<open>ProviderBinding\<close> and
  \<open>OpenCodeRuntimeHandle\<close> of \<open>src/state/models.rs\<close> and the row readers of
  \<open>src/state/runtime.rs\<close> (\<open>row_to_runtime\<close>, \<open>load_binding\<close>, \<open>load_opencode_handle\<close> and the
  queries built on them). A conversion error inside a row closure surfaces as
  \<open>FromSqlConversionFailure\<close>.
\<close>

section \<open>Queries\<close>

definition runtime_at :: "registry \<Rightarrow> string \<Rightarrow> runtime_row option" where
  "runtime_at db k = List.find (\<lambda>r. rt_id r = k) (runtime_rows db)"

definition runtime_of :: "registry \<Rightarrow> string \<Rightarrow> runtime_row option" where
  "runtime_of db w = List.find (\<lambda>r. rt_workstream r = w) (runtime_rows db)"

definition workstream_at :: "registry \<Rightarrow> string \<Rightarrow> workstream_row option" where
  "workstream_at db k = List.find (\<lambda>w. ws_id w = k) (workstream_rows db)"

definition location_at :: "registry \<Rightarrow> string \<Rightarrow> location_row option" where
  "location_at db k = List.find (\<lambda>l. lc_id l = k) (location_rows db)"

definition binding_at :: "registry \<Rightarrow> string \<Rightarrow> binding_row option" where
  "binding_at db k = List.find (\<lambda>b. bd_runtime b = k) (binding_rows db)"

definition handle_at :: "registry \<Rightarrow> string \<Rightarrow> handle_row option" where
  "handle_at db k = List.find (\<lambda>h. hd_runtime h = k) (handle_rows db)"

definition operation_at :: "registry \<Rightarrow> string \<Rightarrow> operation_row option" where
  "operation_at db k = List.find (\<lambda>p. op_id p = k) (operation_rows db)"

definition operation_keyed :: "registry \<Rightarrow> string \<Rightarrow> operation_row option" where
  "operation_keyed db k = List.find (\<lambda>p. op_request_key p = k) (operation_rows db)"

lemmas lookup_defs =
  runtime_at_def runtime_of_def workstream_at_def location_at_def binding_at_def handle_at_def
  operation_at_def operation_keyed_def

text \<open>\<open>query_row\<close> without \<open>optional\<close>, and the join of a Runtime with its Workstream.\<close>

definition query_row :: "'r option \<Rightarrow> (state_error, 'r) result" where
  "query_row x = ok_or x (Sqlite QueryReturnedNoRows)"

definition runtime_join :: "registry \<Rightarrow> string \<Rightarrow> (runtime_row \<times> workstream_row) option" where
  "runtime_join db k =
     (case runtime_at db k of None \<Rightarrow> None
      | Some r \<Rightarrow> map_option (\<lambda>w. (r, w)) (workstream_at db (rt_workstream r)))"

lemma query_row_Inr [simp]: "query_row x = Inr y \<longleftrightarrow> x = Some y"
  by (simp add: query_row_def)

lemma query_row_Some [simp]: "query_row (Some y) = Inr y"
  by simp

definition read_uuid :: "env \<Rightarrow> string \<Rightarrow> (state_error, uuid) result" where
  "read_uuid E s = ok_or (uuid_parse E s) InvalidPersistedUuid"

definition read_revision :: "int \<Rightarrow> (state_error, int) result" where
  "read_revision n = domain_result (revision_try_from n)"

lemma read_uuid_Inr [simp]: "read_uuid E s = Inr u \<longleftrightarrow> uuid_parse E s = Some u"
  by (simp add: read_uuid_def)

lemma read_revision_Inr [simp]: "read_revision n = Inr r \<longleftrightarrow> r = n \<and> 0 < n"
  by (simp add: read_revision_def)

section \<open>Runtime records\<close>

type_synonym pid = "32 word"

record runtime_record =
  rr_runtime :: uuid
  rr_workstream :: uuid
  rr_provider :: provider_kind
  rr_generation :: string
  rr_session :: string
  rr_cwd :: string
  rr_pid :: "pid option"
  rr_birth :: "string option"
  rr_status :: runtime_status
  rr_revision :: int

definition u32_try_from :: "int \<Rightarrow> pid option" where
  "u32_try_from n = (if 0 \<le> n \<and> n < 2 ^ 32 then Some (word_of_int n) else None)"

definition decode_pid :: "string \<Rightarrow> int option \<Rightarrow> (state_error, pid option) result" where
  "decode_pid name p =
     transpose_opt (map_option (\<lambda>n. ok_or (u32_try_from n) (InvalidPersistedValue name)) p)"

text \<open>The Runtime readers also refuse the process identifier 0.\<close>

definition decode_nonzero_pid :: "int option \<Rightarrow> (state_error, pid option) result" where
  "decode_nonzero_pid p =
     transpose_opt (map_option (\<lambda>n.
       and_then (ok_or (u32_try_from n) (InvalidPersistedValue ''provider PID'')) (\<lambda>pid.
       if pid \<noteq> 0 then Inr pid else Inl (InvalidPersistedValue ''provider PID''))) p)"

definition row_to_runtime_with_id ::
  "runtime_row \<Rightarrow> uuid \<Rightarrow> uuid \<Rightarrow> (state_error, runtime_record) result" where
  "row_to_runtime_with_id r runtime_id workstream_id =
     sqlite_conversion (
       and_then (provider_kind_from_text (rt_provider r)) (\<lambda>provider.
       and_then (decode_nonzero_pid (rt_pid r)) (\<lambda>pid.
       and_then (runtime_status_from_text (rt_lifecycle r)) (\<lambda>status.
       and_then (read_revision (rt_revision r)) (\<lambda>revision.
       Inr \<lparr> rr_runtime = runtime_id, rr_workstream = workstream_id, rr_provider = provider,
             rr_generation = rt_generation r, rr_session = rt_session r, rr_cwd = rt_cwd r,
             rr_pid = pid, rr_birth = rt_birth r, rr_status = status,
             rr_revision = revision \<rparr>)))))"

definition row_to_runtime :: "env \<Rightarrow> runtime_row \<Rightarrow> uuid \<Rightarrow> (state_error, runtime_record) result" where
  "row_to_runtime E r workstream_id =
     and_then (sqlite_conversion (read_uuid E (rt_id r))) (\<lambda>runtime_id.
     row_to_runtime_with_id r runtime_id workstream_id)"

definition workstream_provider :: "env \<Rightarrow> uuid \<Rightarrow> registry \<Rightarrow> (state_error, provider_kind) result" where
  "workstream_provider E w db =
     and_then (query_row (workstream_at db (uuid_text E w))) (\<lambda>row.
     provider_kind_from_text (ws_provider row))"

definition runtime_for_workstream ::
  "env \<Rightarrow> uuid \<Rightarrow> registry \<Rightarrow> (state_error, runtime_record option) result" where
  "runtime_for_workstream E w db =
     (case runtime_of db (uuid_text E w) of
        None \<Rightarrow> Inr None
      | Some row \<Rightarrow>
          and_then (row_to_runtime E row w) (\<lambda>runtime.
          and_then (workstream_provider E w db) (\<lambda>provider.
          if provider \<noteq> rr_provider runtime then Inl ProviderIdentityMismatch
          else Inr (Some runtime))))"

definition runtime_by_id ::
  "env \<Rightarrow> uuid \<Rightarrow> registry \<Rightarrow> (state_error, runtime_record option) result" where
  "runtime_by_id E i db =
     (case runtime_at db (uuid_text E i) of
        None \<Rightarrow> Inr None
      | Some row \<Rightarrow>
          and_then (sqlite_conversion (read_uuid E (rt_workstream row))) (\<lambda>w.
          and_then (row_to_runtime_with_id row i w) (\<lambda>runtime.
          and_then (workstream_provider E (rr_workstream runtime) db) (\<lambda>provider.
          if provider \<noteq> rr_provider runtime then Inl ProviderIdentityMismatch
          else Inr (Some runtime)))))"

text \<open>\<open>hook_runtime_candidates\<close> converts outside the row closure, so its errors keep their kind.\<close>

definition hook_candidate :: "env \<Rightarrow> runtime_row \<Rightarrow> (state_error, runtime_record) result" where
  "hook_candidate E r =
     and_then (read_uuid E (rt_id r)) (\<lambda>runtime_id.
     and_then (read_uuid E (rt_workstream r)) (\<lambda>workstream_id.
     and_then (provider_kind_from_text (rt_provider r)) (\<lambda>provider.
     and_then (decode_pid ''provider PID'' (rt_pid r)) (\<lambda>pid.
     and_then (runtime_status_from_text (rt_lifecycle r)) (\<lambda>status.
     and_then (read_revision (rt_revision r)) (\<lambda>revision.
     Inr \<lparr> rr_runtime = runtime_id, rr_workstream = workstream_id, rr_provider = provider,
           rr_generation = rt_generation r, rr_session = rt_session r, rr_cwd = rt_cwd r,
           rr_pid = pid, rr_birth = rt_birth r, rr_status = status,
           rr_revision = revision \<rparr>))))))"

definition hook_runtime_candidates :: "env \<Rightarrow> registry \<Rightarrow> (state_error, runtime_record list) result" where
  "hook_runtime_candidates E db =
     collect_results (map (hook_candidate E)
       (filter (\<lambda>r. rt_lifecycle r \<in> {''starting'', ''idle'', ''working'', ''attention''}
                    \<and> rt_pid r \<noteq> None \<and> rt_birth r \<noteq> None) (runtime_rows db)))"

definition runtime_is_deliberately_parked ::
  "env \<Rightarrow> uuid \<Rightarrow> uuid \<Rightarrow> registry \<Rightarrow> (state_error, bool) result" where
  "runtime_is_deliberately_parked E i w db =
     (case runtime_join db (uuid_text E i) of
        None \<Rightarrow> Inr False
      | Some (r, ws) \<Rightarrow>
          if rt_workstream r \<noteq> uuid_text E w then Inr False
          else
            and_then (runtime_status_from_text (rt_lifecycle r)) (\<lambda>status.
            if status \<noteq> Stopped then Inr False
            else and_then (workstream_lifecycle_from_text (ws_lifecycle ws)) (\<lambda>lifecycle.
                 Inr (lifecycle = Parked))))"

section \<open>Provider bindings\<close>

record provider_binding =
  pb_runtime :: uuid
  pb_provider :: provider_kind
  pb_session :: provider_session_id
  pb_start_source :: string
  pb_last_turn :: "string option"
  pb_thread_name :: "string option"
  pb_name_state :: name_state
  pb_predecessor :: "provider_session_id option"
  pb_predecessor_name :: "string option"
  pb_generation :: string
  pb_revision :: int

definition row_to_binding :: "uuid \<Rightarrow> binding_row \<Rightarrow> (state_error, provider_binding) result" where
  "row_to_binding i b =
     sqlite_conversion (
       and_then (provider_kind_from_text (bd_provider b)) (\<lambda>provider.
       and_then (domain_result (provider_session_new provider (bd_session b))) (\<lambda>session.
       and_then (transpose_opt (map_option
                  (\<lambda>v. domain_result (provider_session_new provider v)) (bd_predecessor b)))
         (\<lambda>predecessor.
       and_then (name_state_from_text (bd_name_state b)) (\<lambda>name_state.
       and_then (validate_registry_text ''runtime generation'' (bd_generation b)) (\<lambda>_.
       and_then (read_revision (bd_revision b)) (\<lambda>revision.
       Inr \<lparr> pb_runtime = i, pb_provider = provider, pb_session = session,
             pb_start_source = bd_start_source b, pb_last_turn = bd_last_turn b,
             pb_thread_name = bd_thread_name b, pb_name_state = name_state,
             pb_predecessor = predecessor, pb_predecessor_name = bd_predecessor_name b,
             pb_generation = bd_generation b, pb_revision = revision \<rparr>)))))))"

definition other_provider :: "provider_kind \<Rightarrow> provider_session_id option \<Rightarrow> bool" where
  "other_provider p s = (case s of None \<Rightarrow> False | Some x \<Rightarrow> ps_provider x \<noteq> p)"

definition load_binding :: "env \<Rightarrow> uuid \<Rightarrow> registry \<Rightarrow> (state_error, provider_binding option) result" where
  "load_binding E i db =
     (case binding_at db (uuid_text E i) of
        None \<Rightarrow> Inr None
      | Some row \<Rightarrow>
          and_then (row_to_binding i row) (\<lambda>binding.
          and_then (query_row (runtime_at db (uuid_text E i))) (\<lambda>r.
          and_then (provider_kind_from_text (rt_provider r)) (\<lambda>provider.
          if provider \<noteq> pb_provider binding
             \<or> ps_provider (pb_session binding) \<noteq> pb_provider binding
             \<or> other_provider (pb_provider binding) (pb_predecessor binding)
          then Inl ProviderIdentityMismatch
          else Inr (Some binding)))))"

definition load_current_binding ::
  "env \<Rightarrow> uuid \<Rightarrow> registry \<Rightarrow> (state_error, provider_binding option) result" where
  "load_current_binding E i db =
     and_then (load_binding E i db) (\<lambda>found.
     case found of
       None \<Rightarrow> Inr None
     | Some binding \<Rightarrow>
         and_then (query_row (runtime_at db (uuid_text E i))) (\<lambda>r.
         if pb_generation binding \<noteq> rt_generation r then Inl HookEvidenceMismatch
         else Inr (Some binding)))"

definition binding_for_runtime ::
  "env \<Rightarrow> uuid \<Rightarrow> registry \<Rightarrow> (state_error, provider_binding option) result" where
  "binding_for_runtime E i db = load_current_binding E i db"

definition retained_codex_binding_for_runtime ::
  "env \<Rightarrow> uuid \<Rightarrow> registry \<Rightarrow> (state_error, provider_binding option) result" where
  "retained_codex_binding_for_runtime E i db =
     and_then (ok_or (runtime_join db (uuid_text E i)) (UnknownRuntime i)) (\<lambda>(r, ws).
     and_then (provider_kind_from_text (rt_provider r)) (\<lambda>runtime_provider.
     and_then (provider_kind_from_text (ws_provider ws)) (\<lambda>workstream_provider.
     and_then (validate_registry_text ''runtime generation'' (rt_generation r)) (\<lambda>_.
     and_then (runtime_status_from_text (rt_lifecycle r)) (\<lambda>status.
     if runtime_provider \<noteq> workstream_provider \<or> runtime_provider \<noteq> Codex
     then Inl ProviderIdentityMismatch
     else
       and_then (load_binding E i db) (\<lambda>found.
       case found of
         None \<Rightarrow> Inr None
       | Some binding \<Rightarrow>
           if pb_provider binding \<noteq> Codex \<or> ps_provider (pb_session binding) \<noteq> Codex
              \<or> other_provider Codex (pb_predecessor binding)
           then Inl ProviderIdentityMismatch
           else if pb_generation binding \<noteq> rt_generation r \<and> status \<noteq> Stopped \<and> status \<noteq> Unknown
           then Inl HookEvidenceMismatch
           else Inr (Some binding)))))))"

text \<open>Catalog authorization and the one reader of a stale binding on a starting Runtime.\<close>

datatype catalog_authorization = ActiveOnly | ArchivedAllowed

definition permits_archived :: "catalog_authorization \<Rightarrow> bool" where
  "permits_archived a = (a = ArchivedAllowed)"

text \<open>
  \<open>a || b? || ...\<close>: the fallible operands are evaluated in order and only while the earlier
  ones are false.
\<close>

definition or_else :: "bool \<Rightarrow> (state_error, bool) result \<Rightarrow> (state_error, bool) result" where
  "or_else b r = (if b then Inr True else r)"

definition load_codex_recovery_binding ::
  "env \<Rightarrow> uuid \<Rightarrow> int \<Rightarrow> uuid \<Rightarrow> int \<Rightarrow> string \<Rightarrow> catalog_authorization \<Rightarrow> registry
     \<Rightarrow> (state_error, provider_binding) result" where
  "load_codex_recovery_binding E w expected_workstream i expected_runtime generation auth db =
     and_then (validate_registry_text ''runtime generation'' generation) (\<lambda>_.
     and_then (ok_or (runtime_join db (uuid_text E i)) (UnknownRuntime i)) (\<lambda>(r, ws).
     and_then
       (or_else (rt_workstream r \<noteq> uuid_text E w)
         (and_then (provider_kind_from_text (rt_provider r)) (\<lambda>p.
          or_else (p \<noteq> Codex \<or> rt_generation r \<noteq> generation)
         (and_then (runtime_status_from_text (rt_lifecycle r)) (\<lambda>st.
          or_else (st \<noteq> Starting)
         (and_then (read_revision (rt_revision r)) (\<lambda>rrev.
          or_else (rrev \<noteq> expected_runtime)
         (and_then (provider_kind_from_text (ws_provider ws)) (\<lambda>wp.
          or_else (wp \<noteq> Codex)
         (and_then (workstream_lifecycle_from_text (ws_lifecycle ws)) (\<lambda>wl.
          or_else (wl \<noteq> workstream_lifecycle.RecoveryRequired)
         (and_then (read_revision (ws_revision ws)) (\<lambda>wrev.
          Inr (wrev \<noteq> expected_workstream
               \<or> ws_archived ws \<noteq> None \<and> \<not> permits_archived auth))))))))))))))
       (\<lambda>mismatch.
     if mismatch then Inl HookEvidenceMismatch
     else
       and_then (load_binding E i db) (\<lambda>found.
       and_then (ok_or found HookEvidenceMismatch) (\<lambda>binding.
       if pb_provider binding \<noteq> Codex \<or> ps_provider (pb_session binding) \<noteq> Codex
          \<or> pb_generation binding = generation
       then Inl HookEvidenceMismatch
       else Inr binding)))))"

definition codex_recovery_binding_authorized ::
  "env \<Rightarrow> uuid \<Rightarrow> int \<Rightarrow> uuid \<Rightarrow> int \<Rightarrow> string \<Rightarrow> catalog_authorization \<Rightarrow> registry
     \<Rightarrow> (state_error, provider_binding) result" where
  "codex_recovery_binding_authorized E w wrev i rrev generation auth db =
     load_codex_recovery_binding E w wrev i rrev generation auth db"

section \<open>OpenCode handles\<close>

datatype observer_status = ObserverStarting | ObserverReady | ObserverUnknown | ObserverStopped

fun observer_status_text :: "observer_status \<Rightarrow> string" where
  "observer_status_text ObserverStarting = ''starting''"
| "observer_status_text ObserverReady = ''ready''"
| "observer_status_text ObserverUnknown = ''unknown''"
| "observer_status_text ObserverStopped = ''stopped''"

definition observer_status_from_text :: "string \<Rightarrow> (state_error, observer_status) result" where
  "observer_status_from_text v =
     (if v = ''starting'' then Inr ObserverStarting
      else if v = ''ready'' then Inr ObserverReady
      else if v = ''unknown'' then Inr ObserverUnknown
      else if v = ''stopped'' then Inr ObserverStopped
      else Inl (InvalidPersistedValue v))"

interpretation observer_codec: text_codec observer_status_text observer_status_from_text
proof
  show "observer_status_from_text (observer_status_text x) = Inr x" for x
    by (cases x) (simp_all add: observer_status_from_text_def)
  show "observer_status_from_text s = Inr x \<Longrightarrow> observer_status_text x = s" for s x
    by (auto simp: observer_status_from_text_def split: if_splits)
qed

record opencode_runtime_handle =
  oh_runtime :: uuid
  oh_generation :: string
  oh_host :: string
  oh_port :: "16 word"
  oh_version :: string
  oh_session :: provider_session_id
  oh_observer_pid :: "pid option"
  oh_observer_birth :: "string option"
  oh_status :: observer_status
  oh_revision :: int

definition loopback_host :: string where "loopback_host = ''127.0.0.1''"

definition validate_opencode_handle ::
  "env \<Rightarrow> uuid \<Rightarrow> handle_row \<Rightarrow> registry \<Rightarrow> (state_error, observer_status) result" where
  "validate_opencode_handle E i h db =
     and_then (validate_registry_text ''runtime generation'' (hd_generation h)) (\<lambda>_.
     and_then (validate_provider_metadata (hd_version h)) (\<lambda>_.
     and_then (query_row (runtime_at db (uuid_text E i))) (\<lambda>r.
     and_then (provider_kind_from_text (rt_provider r)) (\<lambda>provider.
     if provider \<noteq> OpenCode \<or> rt_generation r \<noteq> hd_generation h
        \<or> hd_host h \<noteq> loopback_host \<or> \<not> (1 \<le> hd_port h \<and> hd_port h \<le> 65535)
     then Inl ProviderIdentityMismatch
     else
       and_then (domain_result (provider_session_new OpenCode (hd_session h))) (\<lambda>session.
       and_then (load_binding E i db) (\<lambda>found.
       and_then (ok_or found ProviderIdentityMismatch) (\<lambda>binding.
       if pb_provider binding \<noteq> OpenCode \<or> pb_session binding \<noteq> session
       then Inl ProviderIdentityMismatch
       else if pb_generation binding \<noteq> hd_generation h then Inl ProviderIdentityMismatch
       else
         and_then (observer_status_from_text (hd_status h)) (\<lambda>status.
         if (hd_observer_pid h \<noteq> None) \<noteq> (hd_observer_birth h \<noteq> None)
            \<or> (case hd_observer_pid h of None \<Rightarrow> False | Some p \<Rightarrow> p \<le> 0)
            \<or> status = ObserverReady \<and> (hd_observer_pid h = None \<or> hd_observer_birth h = None)
         then Inl (InvalidPersistedValue ''OpenCode observer identity'')
         else Inr status))))))))"

definition load_opencode_handle ::
  "env \<Rightarrow> uuid \<Rightarrow> registry \<Rightarrow> (state_error, opencode_runtime_handle option) result" where
  "load_opencode_handle E i db =
     (case handle_at db (uuid_text E i) of
        None \<Rightarrow> Inr None
      | Some h \<Rightarrow>
          and_then (validate_opencode_handle E i h db) (\<lambda>status.
          and_then (domain_result (provider_session_new OpenCode (hd_session h))) (\<lambda>session.
          if \<not> (0 \<le> hd_port h \<and> hd_port h < 2 ^ 16)
          then Inl (InvalidPersistedValue ''OpenCode endpoint port'')
          else
            and_then (decode_pid ''observer PID'' (hd_observer_pid h)) (\<lambda>pid.
            and_then (read_revision (hd_revision h)) (\<lambda>revision.
            Inr (Some \<lparr> oh_runtime = i, oh_generation = hd_generation h, oh_host = hd_host h,
                   oh_port = word_of_int (hd_port h), oh_version = hd_version h,
                   oh_session = session, oh_observer_pid = pid,
                   oh_observer_birth = hd_observer_birth h, oh_status = status,
                   oh_revision = revision \<rparr>))))))"

definition opencode_runtime_handle_for ::
  "env \<Rightarrow> uuid \<Rightarrow> registry \<Rightarrow> (state_error, opencode_runtime_handle option) result" where
  "opencode_runtime_handle_for E i db = load_opencode_handle E i db"

end
