(* ===== verification/Activity.thy ===== *)
theory Activity
  imports Loaders
begin

text \<open>
  The shared helpers at the end of \<open>src/state/workstream.rs\<close>: the activity sequence that
  orders Workstreams, the reopening of parked and recovering ones, and the resolution of an
  open Workstream's project root; and \<open>update_runtime_lifecycle\<close> of \<open>src/state/lifecycle.rs\<close>.
\<close>

section \<open>Statements that must change exactly one row\<close>

definition one_row :: "state_error \<Rightarrow> (state_error, nat \<times> registry) result \<Rightarrow> (state_error, registry) result" where
  "one_row e r = and_then r (\<lambda>(n, db). if n = 1 then Inr db else Inl e)"

lemma one_row_Inr [simp]: "one_row e r = Inr db \<longleftrightarrow> r = Inr (1, db)"
  by (auto simp: one_row_def)

section \<open>Activity\<close>

definition next_activity_sequence :: "registry \<Rightarrow> int" where
  "next_activity_sequence db =
     (case sql_max (map ws_activity_seq (workstream_rows db)) of None \<Rightarrow> 0 | Some m \<Rightarrow> m) + 1"

definition touch_workstream :: "string \<Rightarrow> int option \<Rightarrow> registry \<Rightarrow> (state_error, registry) result" where
  "touch_workstream workstream_id activity_at_millis db =
     one_row ConcurrentWrite
       (update_workstreams (\<lambda>w. ws_id w = workstream_id)
         (\<lambda>w. w\<lparr> ws_activity_seq := next_activity_sequence db,
                 ws_activity_at := (case activity_at_millis of None \<Rightarrow> ws_activity_at w | Some t \<Rightarrow> t),
                 ws_revision := ws_revision w + 1 \<rparr>) db)"

definition reopen_parked_workstream :: "env \<Rightarrow> uuid \<Rightarrow> registry \<Rightarrow> (state_error, registry) result" where
  "reopen_parked_workstream E workstream_id db =
     one_row ConcurrentWrite
       (update_workstreams
         (\<lambda>w. ws_id w = uuid_text E workstream_id \<and> ws_lifecycle w = ''parked'')
         (\<lambda>w. w\<lparr> ws_lifecycle := ''open'', ws_activity_seq := next_activity_sequence db,
                 ws_revision := ws_revision w + 1 \<rparr>) db)"

definition reopen_recovery_workstream :: "env \<Rightarrow> uuid \<Rightarrow> registry \<Rightarrow> (state_error, registry) result" where
  "reopen_recovery_workstream E workstream_id db =
     one_row ConcurrentWrite
       (update_workstreams
         (\<lambda>w. ws_id w = uuid_text E workstream_id \<and> ws_lifecycle w = ''recovery_required'')
         (\<lambda>w. w\<lparr> ws_lifecycle := ''open'', ws_activity_seq := next_activity_sequence db,
                 ws_revision := ws_revision w + 1 \<rparr>) db)"

text \<open>The project root, the lifecycle text and the archive time of an open or parked Workstream.\<close>

definition open_workstream_project_root ::
  "env \<Rightarrow> uuid \<Rightarrow> catalog_authorization \<Rightarrow> registry
     \<Rightarrow> (state_error, string \<times> string \<times> int option) result" where
  "open_workstream_project_root E w auth db =
     (case workstream_at db (uuid_text E w) of
        None \<Rightarrow> Inl (UnknownOpenWorkstream w)
      | Some ws \<Rightarrow>
          (case location_at db (ws_location ws) of
             None \<Rightarrow> Inl (UnknownOpenWorkstream w)
           | Some l \<Rightarrow>
               if ws_lifecycle ws \<notin> {''open'', ''parked''} then Inl (UnknownOpenWorkstream w)
               else if ws_archived ws \<noteq> None \<and> \<not> permits_archived auth
               then Inl (WorkstreamArchived w)
               else Inr (lc_path l, ws_lifecycle ws, ws_archived ws)))"

section \<open>The Runtime lifecycle\<close>

definition update_runtime_lifecycle ::
  "env \<Rightarrow> uuid \<Rightarrow> int \<Rightarrow> string \<Rightarrow> registry \<Rightarrow> (state_error, registry) result" where
  "update_runtime_lifecycle E i expected lifecycle db =
     one_row ConcurrentWrite
       (update_runtimes (\<lambda>r. rt_id r = uuid_text E i \<and> rt_revision r = expected)
         (\<lambda>r. r\<lparr> rt_lifecycle := lifecycle, rt_revision := rt_revision r + 1 \<rparr>) db)"

text \<open>
  The step that several operations share after the Runtime became \<open>unknown\<close>: an open or parked
  Workstream becomes \<open>recovery_required\<close>; one that already is stays as it is.
\<close>

definition workstream_to_recovery ::
  "string \<Rightarrow> (string \<Rightarrow> registry \<Rightarrow> (state_error, string) result) \<Rightarrow> registry
     \<Rightarrow> (state_error, registry) result" where
  "workstream_to_recovery workstream_id lifecycle_of db =
     and_then
       (update_workstreams
         (\<lambda>w. ws_id w = workstream_id \<and> ws_lifecycle w \<in> {''open'', ''parked''})
         (\<lambda>w. w\<lparr> ws_lifecycle := ''recovery_required'',
                 ws_activity_seq := next_activity_sequence db,
                 ws_revision := ws_revision w + 1 \<rparr>) db)
       (\<lambda>(n, db').
     if n = 0 then
       and_then (lifecycle_of workstream_id db') (\<lambda>lifecycle.
       if lifecycle \<noteq> ''recovery_required'' then Inl ConcurrentWrite else Inr db')
     else Inr db')"

end
