(* ===== verification/Journal.thy ===== *)
theory Journal
  imports Activity
begin

text \<open>
  \<open>src/state/compound.rs\<close>: the durable journal of compound operations, the journal of one
  exact OpenCode blank-session creation with its persisted plan
  (\<open>PersistedOpenCodeSessionCreationPlan\<close> of \<open>src/state/models.rs\<close>), independent Workstream
  creation, and the bounded pages of unresolved operations.
\<close>

section \<open>Operations in the journal\<close>

definition row_to_operation :: "env \<Rightarrow> operation_row \<Rightarrow> (state_error, compound_operation) result" where
  "row_to_operation E p =
     sqlite_conversion (
       and_then (read_uuid E (op_id p)) (\<lambda>i.
       and_then (operation_kind_from_text (op_kind p)) (\<lambda>kind.
       and_then (operation_phase_from_text (op_phase p)) (\<lambda>phase.
       and_then (read_revision (op_revision p)) (\<lambda>revision.
       Inr \<lparr> co_id = i, co_request_key = op_request_key p, co_kind = kind, co_phase = phase,
             co_expected_revisions = op_expected p,
             co_launch_token_id = None, co_launch_token_verifier = None,
             co_launch_token_expiry = None, co_launch_claims_digest = None,
             co_effect_watermark = op_watermark p, co_outcome = op_outcome p,
             co_revision = revision \<rparr>)))))"

definition load_operation_by_request_key ::
  "env \<Rightarrow> string \<Rightarrow> registry \<Rightarrow> (state_error, compound_operation option) result" where
  "load_operation_by_request_key E key db =
     transpose_opt (map_option (row_to_operation E) (operation_keyed db key))"

definition load_operation_by_id ::
  "env \<Rightarrow> uuid \<Rightarrow> registry \<Rightarrow> (state_error, compound_operation option) result" where
  "load_operation_by_id E i db =
     transpose_opt (map_option (row_to_operation E) (operation_at db (uuid_text E i)))"

text \<open>The row that \<open>INSERT INTO compound_operations\<close> writes: the launch columns stay NULL.\<close>

definition operation_row_of :: "env \<Rightarrow> compound_operation \<Rightarrow> operation_row" where
  "operation_row_of E c =
     \<lparr> op_id = uuid_text E (co_id c), op_request_key = co_request_key c,
       op_kind = operation_kind_text (co_kind c), op_phase = operation_phase_text (co_phase c),
       op_expected = co_expected_revisions c, op_watermark = co_effect_watermark c,
       op_outcome = co_outcome c, op_revision = co_revision c,
       op_token_id = None, op_token_verifier = None, op_token_expiry = None,
       op_claims_digest = None \<rparr>"

text \<open>
  \<open>create_or_get_operation_with_id_generator\<close>: the identity comes from the generator.
\<close>

definition create_or_get_operation ::
  "env \<Rightarrow> uuid \<Rightarrow> string \<Rightarrow> operation_kind \<Rightarrow> string \<Rightarrow> registry
     \<Rightarrow> (state_error, (compound_operation \<times> bool) \<times> registry) result" where
  "create_or_get_operation E fresh request_key kind expected_revisions db =
     and_then (domain_result (compound_with_id E fresh request_key kind expected_revisions)) (\<lambda>candidate.
     and_then (insert_or_ignore_operation (operation_row_of E candidate) db) (\<lambda>(inserted, db').
     if inserted = 1 then Inr ((candidate, True), db')
     else
       and_then (load_operation_by_request_key E (co_request_key candidate) db') (\<lambda>found.
       and_then (ok_or found (MissingOperation (co_request_key candidate))) (\<lambda>operation.
       Inr ((operation, False), db')))))"

definition update_operation_in_transaction ::
  "env \<Rightarrow> compound_operation \<Rightarrow> int \<Rightarrow> registry \<Rightarrow> (state_error, registry) result" where
  "update_operation_in_transaction E c expected db =
     one_row ConcurrentWrite
       (update_operations (\<lambda>p. op_id p = uuid_text E (co_id c) \<and> op_revision p = expected)
         (\<lambda>p. p\<lparr> op_phase := operation_phase_text (co_phase c),
                 op_watermark := co_effect_watermark c, op_outcome := co_outcome c,
                 op_revision := co_revision c \<rparr>) db)"

definition transition_operation ::
  "env \<Rightarrow> uuid \<Rightarrow> int \<Rightarrow> operation_phase \<Rightarrow> string option \<Rightarrow> string option \<Rightarrow> registry
     \<Rightarrow> (state_error, compound_operation \<times> registry) result" where
  "transition_operation E i expected nxt watermark outcome db =
     and_then (load_operation_by_id E i db) (\<lambda>found.
     and_then (ok_or found (UnknownOperation i)) (\<lambda>operation.
     if co_revision operation \<noteq> expected
     then Inl (DomainErr (RevisionConflict expected (co_revision operation)))
     else
       and_then (domain_result (compound_transition E operation nxt watermark outcome)) (\<lambda>moved.
       and_then (update_operation_in_transaction E moved expected db) (\<lambda>db'.
       Inr (moved, db')))))"

section \<open>The plan of an OpenCode session creation\<close>

record creation_plan =
  cp_schema :: "8 word"
  cp_provider :: provider_kind
  cp_runtime :: uuid
  cp_workstream :: uuid
  cp_generation :: string
  cp_session :: "provider_session_id option"

record creation_operation =
  cs_operation :: compound_operation
  cs_runtime :: uuid
  cs_workstream :: uuid
  cs_generation :: string
  cs_session :: "provider_session_id option"

definition plan_schema_version :: "8 word" where "plan_schema_version = 1"

definition creation_unknown_code :: string where
  "creation_unknown_code = ''opencode_session_creation_external_effect_unknown''"

definition creation_cleanup_unknown_code :: string where
  "creation_cleanup_unknown_code = ''opencode_session_creation_cleanup_unknown''"

text \<open>\<open>encode\<close>: the derived \<open>Serialize\<close>, whose text serialization does not fail.\<close>

definition plan_json :: "env \<Rightarrow> creation_plan \<Rightarrow> json" where
  "plan_json E p =
     JObject
       [(''schema_version'', JNumber (JInt (uint (cp_schema p)))),
        (''provider'', JString (provider_kind_text (cp_provider p))),
        (''runtime_id'', JString (uuid_text E (cp_runtime p))),
        (''workstream_id'', JString (uuid_text E (cp_workstream p))),
        (''runtime_generation'', JString (cp_generation p)),
        (''native_session_id'',
           (case cp_session p of None \<Rightarrow> JNull | Some s \<Rightarrow> provider_session_json s))]"

definition plan_encode :: "env \<Rightarrow> creation_plan \<Rightarrow> (state_error, string) result" where
  "plan_encode E p = Inr (json_text E (plan_json E p))"

definition u8_of_json :: "json \<Rightarrow> 8 word option" where
  "u8_of_json j =
     (case j of JNumber (JInt n) \<Rightarrow> (if 0 \<le> n \<and> n < 256 then Some (word_of_int n) else None)
      | _ \<Rightarrow> None)"

definition uuid_of_json :: "env \<Rightarrow> json \<Rightarrow> uuid option" where
  "uuid_of_json E j = (case json_str j of None \<Rightarrow> None | Some s \<Rightarrow> uuid_parse E s)"

definition session_opt_of_json :: "json \<Rightarrow> provider_session_id option option" where
  "session_opt_of_json j =
     (case j of JNull \<Rightarrow> Some None | _ \<Rightarrow> map_option Some (provider_session_of_json j))"

text \<open>
  The derived \<open>Deserialize\<close>: the six fields of the object (unknown ones ignored, the session
  defaulting to none), or the sequence of five or six fields.
\<close>

definition plan_fields :: "json \<Rightarrow> (json \<times> json \<times> json \<times> json \<times> json \<times> json) option" where
  "plan_fields j =
     (case j of
        JObject kvs \<Rightarrow>
          (case (struct_field kvs ''schema_version'', struct_field kvs ''provider'',
                 struct_field kvs ''runtime_id'', struct_field kvs ''workstream_id'',
                 struct_field kvs ''runtime_generation'', struct_field kvs ''native_session_id'') of
             (Some (Some a), Some (Some b), Some (Some c), Some (Some d), Some (Some e), Some f) \<Rightarrow>
               Some (a, b, c, d, e, case f of None \<Rightarrow> JNull | Some x \<Rightarrow> x)
           | _ \<Rightarrow> None)
      | JArray [a, b, c, d, e] \<Rightarrow> Some (a, b, c, d, e, JNull)
      | JArray [a, b, c, d, e, f] \<Rightarrow> Some (a, b, c, d, e, f)
      | _ \<Rightarrow> None)"

definition plan_of_json :: "env \<Rightarrow> json \<Rightarrow> creation_plan option" where
  "plan_of_json E j =
     (case plan_fields j of
        None \<Rightarrow> None
      | Some (a, b, c, d, e, f) \<Rightarrow>
          (case (u8_of_json a, provider_kind_of_json b, uuid_of_json E c, uuid_of_json E d,
                 json_str e, session_opt_of_json f) of
             (Some schema, Some provider, Some runtime, Some workstream, Some generation, Some s) \<Rightarrow>
               Some \<lparr> cp_schema = schema, cp_provider = provider, cp_runtime = runtime,
                      cp_workstream = workstream, cp_generation = generation, cp_session = s \<rparr>
           | _ \<Rightarrow> None))"

definition plan_decode :: "env \<Rightarrow> string option \<Rightarrow> (state_error, creation_plan) result" where
  "plan_decode E text =
     and_then (ok_or text MissingOpenCodeSessionCreationPlan) (\<lambda>s.
     and_then (ok_or (Option.bind (json_parse E s) (plan_of_json E)) InvalidOpenCodeSessionCreationPlan)
       (\<lambda>plan.
     if cp_schema plan \<noteq> plan_schema_version \<or> cp_provider plan \<noteq> OpenCode
        \<or> cp_runtime plan = 0 \<or> cp_workstream plan = 0
     then Inl InvalidOpenCodeSessionCreationPlanShape
     else
       and_then (validate_registry_text ''runtime generation'' (cp_generation plan)) (\<lambda>_.
       if other_provider OpenCode (cp_session plan) then Inl ProviderIdentityMismatch
       else Inr plan)))"

definition public_plan :: "creation_plan \<Rightarrow> compound_operation \<Rightarrow> creation_operation" where
  "public_plan p c =
     \<lparr> cs_operation = c, cs_runtime = cp_runtime p, cs_workstream = cp_workstream p,
       cs_generation = cp_generation p, cs_session = cp_session p \<rparr>"

section \<open>Binding an OpenCode session\<close>

text \<open>
  \<open>bind_opencode_session_in_transaction\<close>: \<open>fresh\<close> is the identity of a new binding row.
\<close>

definition bind_opencode_session_in_transaction ::
  "env \<Rightarrow> uuid \<Rightarrow> uuid \<Rightarrow> string \<Rightarrow> provider_session_id \<Rightarrow> string \<Rightarrow> registry
     \<Rightarrow> (state_error, provider_binding \<times> registry) result" where
  "bind_opencode_session_in_transaction E fresh i generation session start_source db =
     (if ps_provider session \<noteq> OpenCode \<or> start_source \<notin> {''new'', ''resume''}
      then Inl ProviderIdentityMismatch
      else
        and_then (validate_registry_text ''runtime generation'' generation) (\<lambda>_.
        and_then (validate_registry_text ''start source'' start_source) (\<lambda>_.
        and_then (ok_or (runtime_at db (uuid_text E i)) (UnknownRuntime i)) (\<lambda>r.
        and_then (provider_kind_from_text (rt_provider r)) (\<lambda>provider.
        if provider \<noteq> OpenCode \<or> rt_generation r \<noteq> generation \<or> rt_lifecycle r \<noteq> ''starting''
        then Inl HookEvidenceMismatch
        else
          and_then (load_binding E i db) (\<lambda>existing.
          case existing of
            Some b \<Rightarrow>
              if pb_provider b \<noteq> OpenCode \<or> pb_session b \<noteq> session
              then Inl ProviderIdentityMismatch
              else
                and_then
                  (update_bindings
                    (\<lambda>x. bd_runtime x = uuid_text E i \<and> bd_generation x \<noteq> generation)
                    (\<lambda>x. x\<lparr> bd_generation := generation, bd_start_source := start_source,
                            bd_revision := bd_revision x + 1 \<rparr>) db) (\<lambda>(changed, db').
                if changed = 0 then Inr (b, db')
                else
                  and_then (load_binding E i db') (\<lambda>found.
                  and_then (ok_or found ConcurrentWrite) (\<lambda>b'. Inr (b', db'))))
          | None \<Rightarrow>
              and_then
                (insert_binding
                  \<lparr> bd_id = uuid_text E fresh, bd_runtime = uuid_text E i,
                    bd_provider = ''opencode'', bd_session = ps_native session,
                    bd_start_source = start_source, bd_last_turn = None, bd_thread_name = None,
                    bd_name_state = ''unavailable'', bd_name_observed = None,
                    bd_predecessor = None, bd_predecessor_name = None,
                    bd_generation = generation, bd_revision = 1 \<rparr> db) (\<lambda>db'.
              and_then (load_binding E i db') (\<lambda>found.
              and_then (ok_or found ConcurrentWrite) (\<lambda>b'. Inr (b', db'))))))))))"

section \<open>The journal of one session creation\<close>

definition opencode_session_creation_request_key :: "env \<Rightarrow> uuid \<Rightarrow> string \<Rightarrow> string" where
  "opencode_session_creation_request_key E i generation =
     ''opencode-session:'' @ uuid_text E i @ '':'' @ generation"

definition validate_creation_identity ::
  "env \<Rightarrow> compound_operation \<Rightarrow> creation_plan \<Rightarrow> uuid \<Rightarrow> uuid \<Rightarrow> string
     \<Rightarrow> (state_error, unit) result" where
  "validate_creation_identity E c p i w generation =
     (if co_kind c \<noteq> Start
         \<or> co_request_key c \<noteq> opencode_session_creation_request_key E i generation
         \<or> cp_runtime p \<noteq> i \<or> cp_workstream p \<noteq> w \<or> cp_generation p \<noteq> generation
      then Inl OpenCodeSessionCreationUnavailable else Inr ())"

definition runtime_workstream_id :: "env \<Rightarrow> uuid \<Rightarrow> registry \<Rightarrow> (state_error, uuid) result" where
  "runtime_workstream_id E i db =
     and_then (query_row (runtime_at db (uuid_text E i))) (\<lambda>r. read_uuid E (rt_workstream r))"

definition load_exact_creation ::
  "env \<Rightarrow> creation_operation \<Rightarrow> registry \<Rightarrow> (state_error, compound_operation \<times> creation_plan) result" where
  "load_exact_creation E expected db =
     and_then (load_operation_by_id E (co_id (cs_operation expected)) db) (\<lambda>found.
     and_then (ok_or found (UnknownOperation (co_id (cs_operation expected)))) (\<lambda>operation.
     if co_revision operation \<noteq> co_revision (cs_operation expected)
     then Inl (DomainErr (RevisionConflict (co_revision (cs_operation expected))
                            (co_revision operation)))
     else
       and_then (plan_decode E (co_effect_watermark operation)) (\<lambda>plan.
       if operation \<noteq> cs_operation expected \<or> public_plan plan operation \<noteq> expected
          \<or> co_kind operation \<noteq> Start
       then Inl OpenCodeSessionCreationUnavailable
       else
         and_then (validate_creation_identity E operation plan (cs_runtime expected)
                     (cs_workstream expected) (cs_generation expected)) (\<lambda>_.
         Inr (operation, plan)))))"

definition validate_creation_runtime ::
  "env \<Rightarrow> creation_plan \<Rightarrow> registry \<Rightarrow> (state_error, unit) result" where
  "validate_creation_runtime E p db =
     and_then (ok_or (runtime_at db (uuid_text E (cp_runtime p))) (UnknownRuntime (cp_runtime p))) (\<lambda>r.
     and_then (provider_kind_from_text (rt_provider r)) (\<lambda>provider.
     if provider \<noteq> OpenCode \<or> rt_generation r \<noteq> cp_generation p \<or> rt_lifecycle r \<noteq> ''starting''
     then Inl HookEvidenceMismatch
     else
       and_then (read_uuid E (rt_workstream r)) (\<lambda>w.
       if w \<noteq> cp_workstream p then Inl ProviderIdentityMismatch else Inr ())))"

definition prepare_opencode_session_creation ::
  "env \<Rightarrow> uuid \<Rightarrow> uuid \<Rightarrow> string \<Rightarrow> registry \<Rightarrow> (state_error, creation_operation \<times> registry) result" where
  "prepare_opencode_session_creation E fresh i generation db =
     and_then (validate_registry_text ''runtime generation'' generation) (\<lambda>_.
     and_then (ok_or (runtime_at db (uuid_text E i)) (UnknownRuntime i)) (\<lambda>r.
     and_then (provider_kind_from_text (rt_provider r)) (\<lambda>provider.
     if provider \<noteq> OpenCode \<or> rt_generation r \<noteq> generation \<or> rt_lifecycle r \<noteq> ''starting''
     then Inl HookEvidenceMismatch
     else
       and_then (read_uuid E (rt_workstream r)) (\<lambda>w.
       let key = opencode_session_creation_request_key E i generation in
       and_then (load_operation_by_request_key E key db) (\<lambda>found.
       case found of
         Some operation \<Rightarrow>
           and_then (plan_decode E (co_effect_watermark operation)) (\<lambda>plan.
           and_then (validate_creation_identity E operation plan i w generation) (\<lambda>_.
           Inr (public_plan plan operation, db)))
       | None \<Rightarrow>
           let plan = \<lparr> cp_schema = plan_schema_version, cp_provider = OpenCode, cp_runtime = i,
                        cp_workstream = w, cp_generation = generation, cp_session = None \<rparr> in
           and_then (domain_result (compound_with_id E fresh key Start
               (json_text E (JObject [(''runtime_generation'', JString generation),
                                      (''runtime_id'', JString (uuid_text E i))])))) (\<lambda>blank.
           and_then (plan_encode E plan) (\<lambda>watermark.
           let operation = blank\<lparr> co_effect_watermark := Some watermark \<rparr> in
           and_then (insert_operation (operation_row_of E operation) db) (\<lambda>db'.
           Inr (public_plan plan operation, db')))))))))"

definition begin_opencode_session_creation ::
  "env \<Rightarrow> creation_operation \<Rightarrow> registry \<Rightarrow> (state_error, creation_operation \<times> registry) result" where
  "begin_opencode_session_creation E prepared db =
     and_then (load_exact_creation E prepared db) (\<lambda>(operation, plan).
     if co_phase operation \<noteq> operation_phase.Prepared \<or> cp_session plan \<noteq> None
     then Inl OpenCodeSessionCreationUnavailable
     else
       and_then (validate_creation_runtime E plan db) (\<lambda>_.
       and_then (plan_encode E plan) (\<lambda>watermark.
       and_then (domain_result (compound_transition E operation ExternalEffectStarted
                   (Some watermark) None)) (\<lambda>moved.
       and_then (update_operation_in_transaction E moved (co_revision (cs_operation prepared)) db)
         (\<lambda>db'. Inr (public_plan plan moved, db'))))))"

definition commit_opencode_session_creation ::
  "env \<Rightarrow> uuid \<Rightarrow> creation_operation \<Rightarrow> provider_session_id \<Rightarrow> registry
     \<Rightarrow> (state_error, creation_operation \<times> registry) result" where
  "commit_opencode_session_creation E fresh prepared session db =
     (if ps_provider session \<noteq> OpenCode then Inl ProviderIdentityMismatch
      else
        and_then (load_exact_creation E prepared db) (\<lambda>(operation, plan).
        if co_phase operation \<noteq> ExternalEffectStarted \<or> cp_session plan \<noteq> None
        then Inl OpenCodeSessionCreationUnavailable
        else
          and_then (validate_creation_runtime E plan db) (\<lambda>_.
          and_then (bind_opencode_session_in_transaction E fresh (cp_runtime plan)
                      (cp_generation plan) session ''new'' db) (\<lambda>(_, db1).
          let plan' = plan\<lparr> cp_session := Some session \<rparr> in
          and_then (plan_encode E plan') (\<lambda>watermark.
          and_then (domain_result (compound_transition E operation Committed (Some watermark) None))
            (\<lambda>moved.
          and_then (update_operation_in_transaction E moved (co_revision (cs_operation prepared)) db1)
            (\<lambda>db'. Inr (public_plan plan' moved, db'))))))))"

text \<open>The outcome \<open>json!({"code": code})\<close>.\<close>

definition outcome_text :: "env \<Rightarrow> string \<Rightarrow> string" where
  "outcome_text E code = json_text E (JObject [(''code'', JString code)])"

definition fail_opencode_session_creation ::
  "env \<Rightarrow> creation_operation \<Rightarrow> string \<Rightarrow> registry \<Rightarrow> (state_error, creation_operation \<times> registry) result" where
  "fail_opencode_session_creation E prepared code db =
     and_then (validate_registry_text ''operation outcome'' code) (\<lambda>_.
     and_then (load_exact_creation E prepared db) (\<lambda>(operation, plan).
     if co_phase operation \<noteq> operation_phase.Prepared then Inl OpenCodeSessionCreationUnavailable
     else
       and_then (validate_creation_runtime E plan db) (\<lambda>_.
       and_then (plan_encode E plan) (\<lambda>watermark.
       and_then (domain_result (compound_transition E operation Failed (Some watermark)
                   (Some (outcome_text E code)))) (\<lambda>moved.
       and_then (update_operation_in_transaction E moved (co_revision (cs_operation prepared)) db)
         (\<lambda>db'. Inr (public_plan plan moved, db')))))))"

definition mark_creation_recovery ::
  "env \<Rightarrow> creation_operation \<Rightarrow> operation_phase \<Rightarrow> string \<Rightarrow> registry
     \<Rightarrow> (state_error, creation_operation \<times> registry) result" where
  "mark_creation_recovery E prepared expected_phase code db =
     and_then (load_exact_creation E prepared db) (\<lambda>(operation, plan).
     if co_phase operation \<noteq> expected_phase then Inl OpenCodeSessionCreationUnavailable
     else
       and_then (validate_creation_runtime E plan db) (\<lambda>_.
       and_then (one_row ConcurrentWrite (update_runtimes
           (\<lambda>r. rt_id r = uuid_text E (cp_runtime plan) \<and> rt_generation r = cp_generation plan
                \<and> rt_lifecycle r = ''starting'')
           (\<lambda>r. r\<lparr> rt_lifecycle := ''unknown'', rt_revision := rt_revision r + 1 \<rparr>) db)) (\<lambda>db1.
       and_then (workstream_to_recovery (uuid_text E (cp_workstream plan))
           (\<lambda>k db'. map_err (\<lambda>_. UnknownOpenWorkstream (cp_workstream plan))
                      (and_then (query_row (workstream_at db' k)) (\<lambda>w. Inr (ws_lifecycle w)))) db1)
         (\<lambda>db2.
       and_then (plan_encode E plan) (\<lambda>watermark.
       and_then (domain_result (compound_transition E operation Failed (Some watermark)
                   (Some (outcome_text E code)))) (\<lambda>moved.
       and_then (update_operation_in_transaction E moved (co_revision (cs_operation prepared)) db2)
         (\<lambda>db'. Inr (public_plan plan moved, db'))))))))"

definition mark_creation_unknown ::
  "env \<Rightarrow> creation_operation \<Rightarrow> registry \<Rightarrow> (state_error, creation_operation \<times> registry) result" where
  "mark_creation_unknown E prepared db =
     mark_creation_recovery E prepared ExternalEffectStarted creation_unknown_code db"

definition mark_creation_cleanup_unknown ::
  "env \<Rightarrow> creation_operation \<Rightarrow> registry \<Rightarrow> (state_error, creation_operation \<times> registry) result" where
  "mark_creation_cleanup_unknown E prepared db =
     mark_creation_recovery E prepared operation_phase.Prepared creation_cleanup_unknown_code db"

definition creation_for_runtime ::
  "env \<Rightarrow> uuid \<Rightarrow> string \<Rightarrow> registry \<Rightarrow> (state_error, creation_operation option) result" where
  "creation_for_runtime E i generation db =
     and_then (validate_registry_text ''runtime generation'' generation) (\<lambda>_.
     and_then (load_operation_by_request_key E
                 (opencode_session_creation_request_key E i generation) db) (\<lambda>found.
     transpose_opt (map_option (\<lambda>operation.
       and_then (plan_decode E (co_effect_watermark operation)) (\<lambda>plan.
       and_then (runtime_workstream_id E i db) (\<lambda>w.
       and_then (validate_creation_identity E operation plan i w generation) (\<lambda>_.
       Inr (public_plan plan operation))))) found)))"

definition has_unresolved_creation ::
  "env \<Rightarrow> uuid \<Rightarrow> string \<Rightarrow> registry \<Rightarrow> (state_error, bool) result" where
  "has_unresolved_creation E i generation db =
     and_then (creation_for_runtime E i generation db) (\<lambda>found.
     Inr (case found of None \<Rightarrow> False
          | Some c \<Rightarrow> co_phase (cs_operation c) \<in>
              {operation_phase.Prepared, ExternalEffectStarted, AwaitingReconciliation,
               operation_phase.RecoveryRequired}))"

end
