(* ===== verification/Paging.thy ===== *)
theory Paging
  imports Prelude
begin

text \<open>
  The OFFSET loops of the registry (\<open>workstream_overviews\<close>, \<open>unresolved_operation_overviews\<close>):
  a reader asks for bounded pages until one has no next cursor. \<open>paged_reader\<close> is the contract
  of a page query over a fixed snapshot; under it the loop ends and yields exactly what one
  unbounded read of the snapshot would, errors included.
\<close>

definition u32_limit :: nat where "u32_limit = 2 ^ 32"

text \<open>\<open>u32::checked_add\<close>.\<close>

definition u32_checked_add :: "nat \<Rightarrow> nat \<Rightarrow> nat option" where
  "u32_checked_add a b = (if a + b < u32_limit then Some (a + b) else None)"

partial_function (option) page_loop ::
  "(nat \<Rightarrow> ('e, 'a list \<times> nat option) result) \<Rightarrow> nat \<Rightarrow> 'a list \<Rightarrow> ('e, 'a list) result option" where
  "page_loop page cursor acc =
     (case page cursor of
        Inl e \<Rightarrow> Some (Inl e)
      | Inr (xs, nxt) \<Rightarrow>
          (case nxt of
             None \<Rightarrow> Some (Inr (acc @ xs))
           | Some c \<Rightarrow> page_loop page c (acc @ xs)))"

lemma collect_results_append:
  "collect_results (xs @ ys) =
     and_then (collect_results xs) (\<lambda>a. and_then (collect_results ys) (\<lambda>b. Inr (a @ b)))"
proof (induction xs)
  case Nil
  then show ?case by (cases "collect_results ys") auto
next
  case (Cons r xs)
  then show ?case by (cases r; cases "collect_results xs"; cases "collect_results ys") auto
qed

locale paged_reader =
  fixes page :: "nat \<Rightarrow> ('e, 'a list \<times> nat option) result"
    and rows :: "'r list"
    and dec :: "'r \<Rightarrow> ('e, 'a) result"
    and size :: nat
  assumes size_pos: "0 < size"
    and page_eq: "cursor + size < u32_limit \<Longrightarrow> page cursor =
      and_then (collect_results (map dec (take size (drop cursor rows)))) (\<lambda>xs.
      Inr (xs, if cursor + size < length rows then Some (cursor + size) else None))"
begin

lemma loop_from:
  "length rows + size < u32_limit \<Longrightarrow> cursor \<le> length rows \<Longrightarrow>
   page_loop page cursor acc =
     Some (and_then (collect_results (map dec (drop cursor rows))) (\<lambda>xs. Inr (acc @ xs)))"
proof (induction "length rows - cursor" arbitrary: cursor acc rule: less_induct)
  case less
  define here where "here = collect_results (map dec (take size (drop cursor rows)))"
  have page: "page cursor = and_then here (\<lambda>xs.
      Inr (xs, if cursor + size < length rows then Some (cursor + size) else None))"
    unfolding here_def using less.prems by (intro page_eq) simp
  define rest where "rest = collect_results (map dec (drop (cursor + size) rows))"
  have "map dec (drop cursor rows) =
      map dec (take size (drop cursor rows)) @ map dec (drop (cursor + size) rows)"
    by (metis append_take_drop_id drop_drop add.commute map_append)
  then have whole: "collect_results (map dec (drop cursor rows)) =
      and_then here (\<lambda>a. and_then rest (\<lambda>b. Inr (a @ b)))"
    by (simp only: collect_results_append here_def rest_def)
  show ?case
  proof (cases here)
    case (Inl e)
    with page have "page cursor = Inl e" by simp
    then have "page_loop page cursor acc = Some (Inl e)"
      by (subst page_loop.simps) simp
    with whole Inl show ?thesis by simp
  next
    case (Inr xs)
    show ?thesis
    proof (cases "cursor + size < length rows")
      case True
      with page Inr have "page cursor = Inr (xs, Some (cursor + size))" by simp
      then have "page_loop page cursor acc = page_loop page (cursor + size) (acc @ xs)"
        by (subst page_loop.simps) simp
      also have "\<dots> = Some (and_then rest (\<lambda>ys. Inr ((acc @ xs) @ ys)))"
        unfolding rest_def using True less.prems(1) size_pos by (intro less.hyps) simp_all
      finally show ?thesis
        using whole Inr by (cases rest) simp_all
    next
      case False
      with page Inr have "page cursor = Inr (xs, None)" by simp
      then have "page_loop page cursor acc = Some (Inr (acc @ xs))"
        by (subst page_loop.simps) simp
      moreover from False have "rest = Inr []" by (simp add: rest_def)
      ultimately show ?thesis
        using whole Inr by simp
    qed
  qed
qed

theorem loop_all:
  "length rows + size < u32_limit \<Longrightarrow> page_loop page 0 [] = Some (collect_results (map dec rows))"
proof -
  assume "length rows + size < u32_limit"
  then have "page_loop page 0 [] =
      Some (and_then (collect_results (map dec (drop 0 rows))) (\<lambda>xs. Inr ([] @ xs)))"
    by (intro loop_from) simp_all
  then show ?thesis by (cases "collect_results (map dec rows)") simp_all
qed

end

end
