(* ===== verification/Creation.thy ===== *)
theory Creation
  imports Journal Paging
begin

text \<open>
  The rest of \<open>src/state/compound.rs\<close>: independent Workstreams (by source Workstream and by exact
  Location) with their replay keys, and the bounded pages of unresolved operations.
\<close>

section \<open>Independent Workstreams\<close>

record created_workstream =
  cw_workstream :: uuid
  cw_location :: uuid
  cw_provider :: provider_kind
  cw_origin :: workstream_origin
  cw_source :: uuid
  cw_revision :: int

definition origin_from_text :: "string \<Rightarrow> (state_error, workstream_origin) result" where
  "origin_from_text v =
     (if v = ''independent'' then Inr Independent
      else if v = ''fork'' then Inr Fork
      else Inl MalformedHostSchema)"

definition created_workstream_from_record ::
  "env \<Rightarrow> uuid \<Rightarrow> registry \<Rightarrow> (state_error, created_workstream) result" where
  "created_workstream_from_record E w db =
     and_then (ok_or (workstream_at db (uuid_text E w)) MalformedHostSchema) (\<lambda>row.
     and_then (read_uuid E (ws_location row)) (\<lambda>location.
     and_then (provider_kind_from_text (ws_provider row)) (\<lambda>provider.
     and_then (and_then (ok_or (ws_source row) MalformedHostSchema) (read_uuid E)) (\<lambda>source.
     and_then (origin_from_text (ws_origin row)) (\<lambda>origin.
     and_then (read_revision (ws_revision row)) (\<lambda>revision.
     Inr \<lparr> cw_workstream = w, cw_location = location, cw_provider = provider,
           cw_origin = origin, cw_source = source, cw_revision = revision \<rparr>))))))"

definition load_source_workstream ::
  "env \<Rightarrow> uuid \<Rightarrow> bool \<Rightarrow> registry \<Rightarrow> (state_error, uuid \<times> int) result" where
  "load_source_workstream E w include_archived db =
     and_then (ok_or (workstream_at db (uuid_text E w)) (UnknownOpenWorkstream w)) (\<lambda>row.
     if ws_archived row \<noteq> None \<and> \<not> include_archived then Inl (WorkstreamArchived w)
     else
       and_then (read_uuid E (ws_location row)) (\<lambda>location.
       and_then (read_revision (ws_revision row)) (\<lambda>revision.
       Inr (location, revision))))"

text \<open>The two INSERTs that both creation operations end with.\<close>

definition insert_independent ::
  "env \<Rightarrow> string \<Rightarrow> uuid \<Rightarrow> uuid \<Rightarrow> uuid \<Rightarrow> int \<Rightarrow> provider_kind \<Rightarrow> registry
     \<Rightarrow> (state_error, created_workstream \<times> registry) result" where
  "insert_independent E request_key fresh location source source_revision provider db =
     and_then
       (insert_workstream
         \<lparr> ws_id = uuid_text E fresh, ws_location = uuid_text E location,
           ws_provider = provider_kind_text provider, ws_origin = ''independent'',
           ws_source = Some (uuid_text E source), ws_lifecycle = ''open'', ws_archived = None,
           ws_activity_seq = next_activity_sequence db, ws_activity_at = 0,
           ws_revision = 1 \<rparr> db) (\<lambda>db1.
     and_then
       (insert_request
         \<lparr> rq_key = request_key, rq_source = uuid_text E source,
           rq_source_revision = source_revision, rq_workstream = uuid_text E fresh \<rparr> db1) (\<lambda>db2.
     Inr (\<lparr> cw_workstream = fresh, cw_location = location, cw_provider = provider,
            cw_origin = Independent, cw_source = source, cw_revision = revision_initial \<rparr>, db2)))"

definition request_at :: "registry \<Rightarrow> string \<Rightarrow> request_row option" where
  "request_at db k = List.find (\<lambda>q. rq_key q = k) (request_rows db)"

definition create_independent_workstream ::
  "env \<Rightarrow> uuid \<Rightarrow> string \<Rightarrow> uuid \<Rightarrow> int \<Rightarrow> provider_kind \<Rightarrow> registry
     \<Rightarrow> (state_error, created_workstream \<times> registry) result" where
  "create_independent_workstream E fresh request_key source expected provider db =
     (case request_at db request_key of
        Some q \<Rightarrow>
          and_then (read_uuid E (rq_source q)) (\<lambda>s.
          and_then (or_else (s \<noteq> source)
                     (and_then (read_revision (rq_source_revision q)) (\<lambda>rev.
                      Inr (rev \<noteq> expected)))) (\<lambda>mismatch.
          if mismatch then Inl OperationRequestMismatch
          else
            and_then (read_uuid E (rq_workstream q)) (\<lambda>w.
            and_then (created_workstream_from_record E w db) (\<lambda>created.
            if cw_provider created \<noteq> provider then Inl OperationRequestMismatch
            else Inr (created, db)))))
      | None \<Rightarrow>
          and_then (load_source_workstream E source True db) (\<lambda>(location, current).
          if current \<noteq> expected then Inl (DomainErr (RevisionConflict expected current))
          else insert_independent E request_key fresh location source expected provider db))"

text \<open>
  The replay query of \<open>create_independent_workstream_at_location\<close>: the request joined with its
  source, the source's Location and the destination.
\<close>

definition request_join ::
  "registry \<Rightarrow> string \<Rightarrow> (request_row \<times> workstream_row \<times> location_row \<times> workstream_row) option" where
  "request_join db key =
     (case request_at db key of None \<Rightarrow> None
      | Some q \<Rightarrow>
          (case (workstream_at db (rq_source q), workstream_at db (rq_workstream q)) of
             (Some s, Some d) \<Rightarrow> map_option (\<lambda>l. (q, s, l, d)) (location_at db (ws_location s))
           | _ \<Rightarrow> None))"

definition replay_at_location ::
  "env \<Rightarrow> uuid \<Rightarrow> uuid \<Rightarrow> provider_kind \<Rightarrow> registry
     \<Rightarrow> request_row \<times> workstream_row \<times> location_row \<times> workstream_row
     \<Rightarrow> (state_error, created_workstream) result" where
  "replay_at_location E project location provider db x =
     (case x of (q, s, l, d) \<Rightarrow>
        and_then (read_uuid E (rq_source q)) (\<lambda>source.
        and_then (read_revision (rq_source_revision q)) (\<lambda>_.
        and_then (read_uuid E (ws_location s)) (\<lambda>existing_location.
        and_then (ok_or (lc_project l) MalformedHostSchema) (\<lambda>pt.
        and_then (ok_or (uuid_parse E pt) MalformedHostSchema) (\<lambda>existing_project.
        and_then (read_uuid E (ws_location d)) (\<lambda>destination_location.
        and_then (provider_kind_from_text (ws_provider d)) (\<lambda>destination_provider.
        if ws_origin s \<noteq> ''external'' \<or> existing_location \<noteq> location
           \<or> destination_location \<noteq> location \<or> existing_project \<noteq> project
           \<or> destination_provider \<noteq> provider
        then Inl OperationRequestMismatch
        else
          and_then (read_uuid E (rq_workstream q)) (\<lambda>w.
          and_then (created_workstream_from_record E w db) (\<lambda>created.
          if cw_source created \<noteq> source \<or> cw_provider created \<noteq> provider
             \<or> cw_location created \<noteq> location \<or> cw_origin created \<noteq> Independent
          then Inl OperationRequestMismatch
          else Inr created))))))))))"

text \<open>The revisions of the Project and of its Location.\<close>

definition project_revisions :: "env \<Rightarrow> uuid \<Rightarrow> uuid \<Rightarrow> registry \<Rightarrow> (int \<times> int) option" where
  "project_revisions E project location db =
     (case location_at db (uuid_text E location) of None \<Rightarrow> None
      | Some l \<Rightarrow>
          (if lc_project l = Some (uuid_text E project)
           then map_option (\<lambda>p. (pj_revision p, lc_revision l))
                  (List.find (\<lambda>p. pj_id p = uuid_text E project) (project_rows db))
           else None))"

definition create_independent_workstream_at_location ::
  "env \<Rightarrow> uuid \<Rightarrow> uuid \<Rightarrow> uuid \<Rightarrow> int \<Rightarrow> int \<Rightarrow> string \<Rightarrow> provider_kind \<Rightarrow> registry
     \<Rightarrow> (state_error, created_workstream \<times> registry) result" where
  "create_independent_workstream_at_location E fresh project location project_revision
       location_revision request_key provider db =
     and_then (validate_registry_text ''request key'' request_key) (\<lambda>_.
     case request_join db request_key of
       Some existing \<Rightarrow>
         and_then (replay_at_location E project location provider db existing) (\<lambda>created.
         Inr (created, db))
     | None \<Rightarrow>
         and_then (ok_or (project_revisions E project location db) ConcurrentWrite) (\<lambda>(prev, lrev).
         and_then (and_then (read_revision prev) (\<lambda>p. or_else (p \<noteq> project_revision)
                    (and_then (read_revision lrev) (\<lambda>l. Inr (l \<noteq> location_revision))))) (\<lambda>stale.
         if stale then Inl ConcurrentWrite
         else
           (case take 2 (sort_key ws_id (filter (\<lambda>w. ws_location w = uuid_text E location
                           \<and> ws_origin w = ''external'') (workstream_rows db))) of
              [anchor] \<Rightarrow>
                and_then (read_uuid E (ws_id anchor)) (\<lambda>source.
                and_then (read_revision (ws_revision anchor)) (\<lambda>source_revision.
                insert_independent E request_key fresh location source source_revision provider db))
            | _ \<Rightarrow> Inl MalformedHostSchema))))"

section \<open>Unresolved operations\<close>

record operation_overview =
  ov_operation :: uuid
  ov_kind :: operation_kind
  ov_provider :: provider_kind
  ov_phase :: operation_phase
  ov_revision :: int

definition unresolved_rows :: "registry \<Rightarrow> operation_row list" where
  "unresolved_rows db =
     sort_key op_id (filter (\<lambda>p. op_kind p \<noteq> ''onboard''
       \<and> op_phase p \<in> {''external_effect_started'', ''awaiting_reconciliation'', ''recovery_required''})
       (operation_rows db))"

definition operation_overview_of :: "env \<Rightarrow> operation_row \<Rightarrow> (state_error, operation_overview) result" where
  "operation_overview_of E p =
     and_then (operation_kind_from_text (op_kind p)) (\<lambda>kind.
     and_then (case kind of
                 Onboard \<Rightarrow> Inl OnboardingOperationUnavailable
               | Start \<Rightarrow> and_then (plan_decode E (op_watermark p)) (\<lambda>plan. Inr (cp_provider plan)))
       (\<lambda>provider.
     and_then (read_uuid E (op_id p)) (\<lambda>i.
     and_then (operation_phase_from_text (op_phase p)) (\<lambda>phase.
     and_then (read_revision (op_revision p)) (\<lambda>revision.
     Inr \<lparr> ov_operation = i, ov_kind = kind, ov_provider = provider, ov_phase = phase,
           ov_revision = revision \<rparr>)))))"

definition unresolved_operation_overview_page ::
  "env \<Rightarrow> registry \<Rightarrow> nat \<Rightarrow> nat \<Rightarrow> (state_error, operation_overview list \<times> nat option) result" where
  "unresolved_operation_overview_page E db page_size cursor =
     (if page_size = 0 \<or> page_size > max_navigator_workstreams
      then Inl InvalidNavigatorPageSize
      else
        let rows = take (page_size + 1) (drop cursor (unresolved_rows db));
            has_more = length rows > page_size
        in and_then (collect_results (map (operation_overview_of E) (take page_size rows))) (\<lambda>operations.
           and_then (if has_more
                     then (and_then
                            (ok_or (u32_checked_add cursor page_size) NavigatorCursorOverflow)
                            (\<lambda>c. Inr (Some c)))
                     else Inr None) (\<lambda>nxt.
           Inr (operations, nxt))))"

definition unresolved_operation_overviews ::
  "env \<Rightarrow> registry \<Rightarrow> (state_error, operation_overview list) result option" where
  "unresolved_operation_overviews E db =
     page_loop (unresolved_operation_overview_page E db max_navigator_workstreams) 0 []"

end
