(* ===== verification/Lifecycle.thy ===== *)
theory Lifecycle
  imports Creation
begin

text \<open>
  \<open>src/state/lifecycle.rs\<close>: authorized Codex hook observations and OpenCode observer hints, and
  the transitions of Runtime, binding and Workstream that they commit together.
\<close>

section \<open>Codex hooks\<close>

definition require_matching_binding ::
  "provider_binding option \<Rightarrow> string \<Rightarrow> string \<Rightarrow> (state_error, unit) result" where
  "require_matching_binding binding session_id generation =
     and_then (domain_result (provider_session_codex session_id)) (\<lambda>session.
     if (case binding of None \<Rightarrow> False
         | Some b \<Rightarrow> pb_provider b = Codex \<and> pb_session b = session \<and> pb_generation b = generation)
     then Inr () else Inl HookEvidenceMismatch)"

text \<open>What \<open>SessionStartContext\<close> carries.\<close>

record session_start_context =
  sc_runtime :: uuid
  sc_provider :: provider_kind
  sc_status :: string
  sc_revision :: int
  sc_generation :: string
  sc_workstream :: uuid
  sc_lifecycle :: workstream_lifecycle

definition complete_session_start ::
  "env \<Rightarrow> session_start_context \<Rightarrow> registry \<Rightarrow> (state_error, registry) result" where
  "complete_session_start E c db =
     and_then (ok_or (binding_at db (uuid_text E (sc_runtime c))) HookEvidenceMismatch) (\<lambda>b.
     and_then
       (if bd_generation b \<noteq> sc_generation c
        then one_row ConcurrentWrite (update_bindings
               (\<lambda>x. bd_runtime x = uuid_text E (sc_runtime c)
                    \<and> bd_generation x = bd_generation b \<and> bd_revision x = bd_revision b)
               (\<lambda>x. x\<lparr> bd_generation := sc_generation c, bd_revision := bd_revision x + 1 \<rparr>) db)
        else Inr db) (\<lambda>db1.
     and_then (update_runtime_lifecycle E (sc_runtime c) (sc_revision c) ''idle'' db1) (\<lambda>db2.
     if sc_lifecycle c = workstream_lifecycle.RecoveryRequired
     then reopen_recovery_workstream E (sc_workstream c) db2
     else Inr db2)))"

definition insert_initial_binding ::
  "env \<Rightarrow> uuid \<Rightarrow> session_start_context \<Rightarrow> string \<Rightarrow> string option \<Rightarrow> registry
     \<Rightarrow> (state_error, registry) result" where
  "insert_initial_binding E fresh c session_id source db =
     (if sc_status c \<noteq> ''starting'' \<or> source \<notin> {Some ''startup'', Some ''resume''}
      then Inl HookEvidenceMismatch
      else if sc_lifecycle c = workstream_lifecycle.RecoveryRequired \<and> source \<noteq> Some ''resume''
      then Inl HookEvidenceMismatch
      else
        and_then (domain_result (provider_session_new (sc_provider c) session_id)) (\<lambda>session.
        and_then
          (insert_binding
            \<lparr> bd_id = uuid_text E fresh, bd_runtime = uuid_text E (sc_runtime c),
              bd_provider = provider_kind_text (sc_provider c), bd_session = ps_native session,
              bd_start_source = (case source of None \<Rightarrow> ''startup'' | Some s \<Rightarrow> s),
              bd_last_turn = None, bd_thread_name = None, bd_name_state = ''unavailable'',
              bd_name_observed = None, bd_predecessor = None, bd_predecessor_name = None,
              bd_generation = sc_generation c, bd_revision = 1 \<rparr> db) (\<lambda>db1.
        complete_session_start E c db1)))"

definition apply_session_start ::
  "env \<Rightarrow> uuid \<Rightarrow> session_start_context \<Rightarrow> provider_binding option \<Rightarrow> string \<Rightarrow> string option
     \<Rightarrow> registry \<Rightarrow> (state_error, registry) result" where
  "apply_session_start E fresh c existing session_id source db =
     and_then (domain_result (provider_session_new (sc_provider c) session_id)) (\<lambda>session.
     case existing of
       None \<Rightarrow> insert_initial_binding E fresh c (ps_native session) source db
     | Some b \<Rightarrow>
         if pb_provider b \<noteq> sc_provider c \<or> pb_session b = session then
           (if pb_provider b \<noteq> sc_provider c then Inl ProviderIdentityMismatch
            else if sc_status c \<noteq> ''starting'' then Inl HookEvidenceMismatch
            else if sc_lifecycle c = workstream_lifecycle.RecoveryRequired \<and> source \<noteq> Some ''resume''
            then Inl HookEvidenceMismatch
            else complete_session_start E c db)
         else if pb_generation b \<noteq> sc_generation c then Inl HookEvidenceMismatch
         else if source \<noteq> Some ''clear'' \<or> sc_status c \<notin> {''idle'', ''attention''}
         then Inl HookEvidenceMismatch
         else
           and_then (one_row ConcurrentWrite (update_bindings
               (\<lambda>x. bd_runtime x = uuid_text E (sc_runtime c)
                    \<and> bd_session x = ps_native (pb_session b) \<and> bd_revision x = pb_revision b)
               (\<lambda>x. x\<lparr> bd_session := ps_native session, bd_start_source := ''clear'',
                       bd_last_turn := None, bd_thread_name := None,
                       bd_name_state := ''unavailable'', bd_name_observed := None,
                       bd_predecessor := Some (ps_native (pb_session b)),
                       bd_predecessor_name := pb_thread_name b,
                       bd_revision := bd_revision x + 1 \<rparr>) db)) (\<lambda>db1.
           update_runtime_lifecycle E (sc_runtime c) (sc_revision c) ''idle'' db1))"

definition apply_lifecycle_event ::
  "env \<Rightarrow> uuid \<Rightarrow> session_start_context \<Rightarrow> provider_binding option \<Rightarrow> provider_session_id
     \<Rightarrow> lifecycle_observation \<Rightarrow> registry \<Rightarrow> (state_error, registry) result" where
  "apply_lifecycle_event E fresh c existing observed observation db =
     (case lo_event observation of
        SessionStart \<Rightarrow>
          apply_session_start E fresh c existing (ps_native observed) (lo_source observation) db
      | UserPromptSubmit \<Rightarrow>
          and_then (require_matching_binding existing (lo_session observation) (sc_generation c)) (\<lambda>_.
          update_runtime_lifecycle E (sc_runtime c) (sc_revision c) ''working'' db)
      | Stop \<Rightarrow>
          and_then (ok_or (lo_turn observation) HookEvidenceMismatch) (\<lambda>turn_id.
          and_then (require_matching_binding existing (lo_session observation) (sc_generation c)) (\<lambda>_.
          and_then (validate_provider_metadata turn_id) (\<lambda>_.
          and_then (one_row ConcurrentWrite (update_bindings
              (\<lambda>x. bd_runtime x = uuid_text E (sc_runtime c) \<and> bd_generation x = sc_generation c)
              (\<lambda>x. x\<lparr> bd_last_turn := Some turn_id, bd_revision := bd_revision x + 1 \<rparr>) db)) (\<lambda>db1.
          update_runtime_lifecycle E (sc_runtime c) (sc_revision c) ''attention'' db1))))
      | SessionEnd \<Rightarrow>
          and_then (require_matching_binding existing (lo_session observation) (sc_generation c)) (\<lambda>_.
          update_runtime_lifecycle E (sc_runtime c) (sc_revision c) ''stopped'' db))"

definition observation_activity ::
  "nat option \<Rightarrow> lifecycle_event \<Rightarrow> (state_error, int option) result" where
  "observation_activity clock event =
     (case event of
        UserPromptSubmit \<Rightarrow> and_then (domain_result (now_millis clock)) (\<lambda>t. Inr (Some t))
      | Stop \<Rightarrow> and_then (domain_result (now_millis clock)) (\<lambda>t. Inr (Some t))
      | _ \<Rightarrow> Inr None)"

definition apply_lifecycle_observation ::
  "env \<Rightarrow> nat option \<Rightarrow> uuid \<Rightarrow> uuid \<Rightarrow> string \<Rightarrow> lifecycle_observation \<Rightarrow> registry
     \<Rightarrow> (state_error, unit \<times> registry) result" where
  "apply_lifecycle_observation E clock fresh i generation observation db =
     and_then (observation_activity clock (lo_event observation)) (\<lambda>activity.
     and_then (ok_or (runtime_join db (uuid_text E i)) (UnknownRuntime i)) (\<lambda>(r, ws).
     and_then (read_uuid E (rt_workstream r)) (\<lambda>w.
     and_then (provider_kind_from_text (rt_provider r)) (\<lambda>provider.
     and_then (provider_kind_from_text (ws_provider ws)) (\<lambda>workstream_provider.
     if provider \<noteq> workstream_provider then Inl ProviderIdentityMismatch
     else
       and_then (read_revision (rt_revision r)) (\<lambda>revision.
       if rt_generation r \<noteq> generation \<or> rt_cwd r \<noteq> lo_cwd observation
       then Inl HookEvidenceMismatch
       else
         and_then (load_binding E i db) (\<lambda>existing.
         if provider \<noteq> Codex then Inl ProviderIdentityMismatch
         else
           and_then (domain_result (provider_session_new provider (lo_session observation))) (\<lambda>observed.
           and_then (workstream_lifecycle_from_text (ws_lifecycle ws)) (\<lambda>lifecycle.
           and_then
             (apply_lifecycle_event E fresh
               \<lparr> sc_runtime = i, sc_provider = provider, sc_status = rt_lifecycle r,
                 sc_revision = revision, sc_generation = generation, sc_workstream = w,
                 sc_lifecycle = lifecycle \<rparr> existing observed observation db) (\<lambda>db1.
           and_then (touch_workstream (rt_workstream r) activity db1) (\<lambda>db2.
           Inr ((), db2))))))))))))"

section \<open>OpenCode observers\<close>

record opencode_observation =
  oo_generation :: string
  oo_cwd :: string
  oo_revision :: int
  oo_session :: provider_session_id
  oo_pid :: pid
  oo_birth :: string
  oo_hint :: lifecycle_hint

definition validate_opencode_observation ::
  "env \<Rightarrow> uuid \<Rightarrow> opencode_observation \<Rightarrow> registry \<Rightarrow> (state_error, string \<times> uuid) result" where
  "validate_opencode_observation E i ob db =
     and_then (ok_or (runtime_at db (uuid_text E i)) (UnknownRuntime i)) (\<lambda>r.
     and_then (and_then (provider_kind_from_text (rt_provider r)) (\<lambda>p.
               or_else (p \<noteq> OpenCode \<or> rt_generation r \<noteq> oo_generation ob
                        \<or> rt_cwd r \<noteq> oo_cwd ob)
                 (and_then (read_revision (rt_revision r)) (\<lambda>rev. Inr (rev \<noteq> oo_revision ob))))) (\<lambda>mismatch.
     if mismatch then Inl HookEvidenceMismatch
     else
       and_then (ok_or (List.find (\<lambda>h. hd_runtime h = uuid_text E i
                            \<and> hd_generation h = oo_generation ob) (handle_rows db))
                   HookEvidenceMismatch) (\<lambda>h.
       if hd_observer_pid h \<noteq> Some (uint (oo_pid ob))
          \<or> hd_observer_birth h \<noteq> Some (oo_birth ob)
          \<or> hd_status h \<noteq> observer_status_text ObserverReady
       then Inl HookEvidenceMismatch
       else
         and_then (load_binding E i db) (\<lambda>found.
         and_then (ok_or found HookEvidenceMismatch) (\<lambda>b.
         if pb_provider b \<noteq> OpenCode \<or> pb_session b \<noteq> oo_session ob
         then Inl ProviderIdentityMismatch
         else if pb_generation b \<noteq> oo_generation ob then Inl HookEvidenceMismatch
         else
           and_then (read_uuid E (rt_workstream r)) (\<lambda>w.
           Inr (rt_lifecycle r, w)))))))"

text \<open>
  \<open>record_opencode_settled_message\<close>: \<open>True\<close> when the message is new for the Runtime generation
  and session.
\<close>

definition record_opencode_settled_message ::
  "env \<Rightarrow> uuid \<Rightarrow> opencode_observation \<Rightarrow> string \<Rightarrow> registry \<Rightarrow> (state_error, bool \<times> registry) result" where
  "record_opencode_settled_message E i ob message db =
     (if user_version db \<noteq> host_schema_version then Inl MalformedHostSchema
      else
        and_then (ok_or (List.find (\<lambda>b. bd_runtime b = uuid_text E i \<and> bd_provider b = ''opencode''
                             \<and> bd_session b = ps_native (oo_session ob)
                             \<and> bd_generation b = oo_generation ob) (binding_rows db))
                    HookEvidenceMismatch) (\<lambda>b.
        if bd_last_turn b = Some message then Inr (False, db)
        else
          and_then (insert_or_ignore_settled (uuid_text E i) (oo_generation ob)
                      (ps_native (oo_session ob)) message db) (\<lambda>(changed, db').
          if changed = 0 then Inr (False, db') else Inr (True, db'))))"

definition live_statuses :: "string set" where
  "live_statuses = {''starting'', ''idle'', ''working'', ''attention''}"

definition apply_opencode_lifecycle_transition ::
  "env \<Rightarrow> uuid \<Rightarrow> int \<Rightarrow> string \<Rightarrow> uuid \<Rightarrow> opencode_observation \<Rightarrow> registry
     \<Rightarrow> (state_error, bool \<times> registry) result" where
  "apply_opencode_lifecycle_transition E i revision lifecycle w ob db =
     (case oo_hint ob of
        Started \<Rightarrow>
          (if lifecycle \<noteq> ''starting'' then Inl HookEvidenceMismatch
           else
             and_then (update_runtime_lifecycle E i revision ''idle'' db) (\<lambda>db1.
             and_then (query_row (workstream_at db1 (uuid_text E w))) (\<lambda>ws.
             if ws_lifecycle ws = ''recovery_required'' then
               and_then (load_binding E i db1) (\<lambda>found.
               and_then (ok_or found HookEvidenceMismatch) (\<lambda>b.
               if pb_provider b \<noteq> OpenCode \<or> pb_session b \<noteq> oo_session ob
                  \<or> pb_start_source b \<noteq> ''resume''
               then Inl HookEvidenceMismatch
               else
                 and_then (reopen_recovery_workstream E w db1) (\<lambda>db2. Inr (True, db2))))
             else Inr (True, db1))))
      | lifecycle_hint.Working \<Rightarrow>
          (if lifecycle \<notin> live_statuses then Inl HookEvidenceMismatch
           else if lifecycle = ''working'' then Inr (False, db)
           else and_then (update_runtime_lifecycle E i revision ''working'' db) (\<lambda>db1. Inr (True, db1)))
      | Settled message \<Rightarrow>
          (if lifecycle \<notin> live_statuses then Inl HookEvidenceMismatch
           else
             and_then (ok_or message HookEvidenceMismatch) (\<lambda>m.
             and_then (validate_provider_metadata m) (\<lambda>_.
             and_then (record_opencode_settled_message E i ob m db) (\<lambda>(new, db1).
             if \<not> new then Inr (False, db1)
             else
               and_then (one_row ConcurrentWrite (update_bindings
                   (\<lambda>b. bd_runtime b = uuid_text E i \<and> bd_provider b = ''opencode''
                        \<and> bd_session b = ps_native (oo_session ob)
                        \<and> bd_generation b = oo_generation ob)
                   (\<lambda>b. b\<lparr> bd_last_turn := Some m, bd_revision := bd_revision b + 1 \<rparr>) db1)) (\<lambda>db2.
               and_then (update_runtime_lifecycle E i revision ''attention'' db2) (\<lambda>db3.
               Inr (True, db3)))))))
      | Ended \<Rightarrow>
          (if lifecycle \<notin> live_statuses then Inl HookEvidenceMismatch
           else and_then (update_runtime_lifecycle E i revision ''stopped'' db) (\<lambda>db1. Inr (True, db1))))"

definition opencode_activity ::
  "nat option \<Rightarrow> string \<Rightarrow> lifecycle_hint \<Rightarrow> (state_error, int option) result" where
  "opencode_activity clock lifecycle hint =
     (case hint of
        lifecycle_hint.Working \<Rightarrow>
          (if lifecycle \<noteq> ''working''
           then and_then (domain_result (now_millis clock)) (\<lambda>t. Inr (Some t)) else Inr None)
      | Settled _ \<Rightarrow> and_then (domain_result (now_millis clock)) (\<lambda>t. Inr (Some t))
      | _ \<Rightarrow> Inr None)"

text \<open>\<open>HostRegistry::apply_opencode_lifecycle_observation\<close> of \<open>src/state/runtime.rs\<close>.\<close>

definition apply_opencode_lifecycle_observation ::
  "env \<Rightarrow> nat option \<Rightarrow> uuid \<Rightarrow> opencode_observation \<Rightarrow> registry \<Rightarrow> (state_error, int \<times> registry) result" where
  "apply_opencode_lifecycle_observation E clock i ob db =
     (if ps_provider (oo_session ob) \<noteq> OpenCode \<or> oo_pid ob = 0
      then Inl ProviderIdentityMismatch
      else
        and_then (validate_registry_text ''observer birth'' (oo_birth ob)) (\<lambda>_.
        and_then (validate_opencode_observation E i ob db) (\<lambda>(lifecycle, w).
        and_then (opencode_activity clock lifecycle (oo_hint ob)) (\<lambda>activity.
        and_then (apply_opencode_lifecycle_transition E i (oo_revision ob) lifecycle w ob db)
          (\<lambda>(accepted, db1).
        if accepted then
          and_then (touch_workstream (uuid_text E w) activity db1) (\<lambda>db2.
          Inr (revision_next (oo_revision ob), db2))
        else Inr (oo_revision ob, db1))))))"

end
