(* ===== verification/Runtimes.thy ===== *)
theory Runtimes
  imports Lifecycle
begin

text \<open>
  The operations of \<open>src/state/runtime.rs\<close> that change the registry: reservation of a Runtime
  generation, recovery, OpenCode handles and their observers, process identity, thread
  metadata, and the ends of a Runtime (stopped, recovery required, parked).
\<close>

section \<open>Reservation\<close>

definition tmux_session_name :: "env \<Rightarrow> uuid \<Rightarrow> string" where
  "tmux_session_name E i = ''wsnav-'' @ uuid_text E i"

text \<open>
  The record of the next generation of a Runtime, and the columns that both reservations write.
\<close>

definition next_generation :: "env \<Rightarrow> uuid \<Rightarrow> string \<Rightarrow> runtime_record \<Rightarrow> runtime_record" where
  "next_generation E generation root current =
     current\<lparr> rr_generation := uuid_text E generation,
              rr_session := tmux_session_name E (rr_runtime current),
              rr_cwd := root, rr_pid := None, rr_birth := None, rr_status := Starting,
              rr_revision := revision_next (rr_revision current) \<rparr>"

definition reserved_row :: "runtime_record \<Rightarrow> runtime_row \<Rightarrow> runtime_row" where
  "reserved_row nxt r =
     r\<lparr> rt_generation := rr_generation nxt, rt_session := rr_session nxt, rt_cwd := rr_cwd nxt,
        rt_pid := None, rt_birth := None, rt_lifecycle := ''starting'',
        rt_revision := rr_revision nxt \<rparr>"

text \<open>\<open>fresh\<close> is the identity of a new Runtime, \<open>generation\<close> the random generation.\<close>

definition reserve_runtime_with_provider_authorized ::
  "env \<Rightarrow> uuid \<Rightarrow> uuid \<Rightarrow> uuid \<Rightarrow> provider_kind \<Rightarrow> catalog_authorization \<Rightarrow> registry
     \<Rightarrow> (state_error, runtime_record \<times> registry) result" where
  "reserve_runtime_with_provider_authorized E fresh generation w provider auth db =
     and_then (open_workstream_project_root E w auth db) (\<lambda>(root, lifecycle, archived).
     and_then (query_row (workstream_at db (uuid_text E w))) (\<lambda>ws.
     and_then (provider_kind_from_text (ws_provider ws)) (\<lambda>workstream_provider.
     if workstream_provider \<noteq> provider then Inl ProviderIdentityMismatch
     else if archived \<noteq> None \<and> \<not> permits_archived auth then Inl (WorkstreamArchived w)
     else
       and_then (transpose_opt (map_option (\<lambda>r. row_to_runtime E r w)
                   (runtime_of db (uuid_text E w)))) (\<lambda>found.
       and_then
         (case found of
            Some current \<Rightarrow>
              (if rr_provider current \<noteq> workstream_provider then Inl ProviderIdentityMismatch
               else if rr_status current \<noteq> Stopped \<and> rr_status current \<noteq> Unknown
               then Inl (RuntimeAlreadyLive w)
               else
                 let nxt = next_generation E generation root current in
                 and_then (update_runtimes
                     (\<lambda>r. rt_id r = uuid_text E (rr_runtime nxt)
                          \<and> rt_revision r = rr_revision current) (reserved_row nxt) db) (\<lambda>(_, db1).
                 Inr (nxt, db1)))
          | None \<Rightarrow>
              let record = \<lparr> rr_runtime = fresh, rr_workstream = w, rr_provider = workstream_provider,
                    rr_generation = uuid_text E generation, rr_session = tmux_session_name E fresh,
                    rr_cwd = root, rr_pid = None, rr_birth = None, rr_status = Starting,
                    rr_revision = revision_initial \<rparr> in
              and_then (insert_runtime
                  \<lparr> rt_id = uuid_text E fresh, rt_workstream = uuid_text E w,
                    rt_provider = provider_kind_text workstream_provider,
                    rt_generation = rr_generation record, rt_session = rr_session record,
                    rt_cwd = root, rt_pid = None, rt_birth = None, rt_lifecycle = ''starting'',
                    rt_revision = 1 \<rparr> db) (\<lambda>db1.
              Inr (record, db1)))
         (\<lambda>(record, db1).
       and_then (if lifecycle = ''parked'' then reopen_parked_workstream E w db1
                 else touch_workstream (uuid_text E w) None db1) (\<lambda>db2.
       Inr (record, db2)))))))"

definition reserve_runtime_with_provider ::
  "env \<Rightarrow> uuid \<Rightarrow> uuid \<Rightarrow> uuid \<Rightarrow> provider_kind \<Rightarrow> registry
     \<Rightarrow> (state_error, runtime_record \<times> registry) result" where
  "reserve_runtime_with_provider E fresh generation w provider db =
     reserve_runtime_with_provider_authorized E fresh generation w provider ActiveOnly db"

definition reserve_runtime_recovery_authorized ::
  "env \<Rightarrow> uuid \<Rightarrow> uuid \<Rightarrow> provider_kind \<Rightarrow> catalog_authorization \<Rightarrow> registry
     \<Rightarrow> (state_error, runtime_record \<times> registry) result" where
  "reserve_runtime_recovery_authorized E generation w provider auth db =
     and_then
       (ok_or (case workstream_at db (uuid_text E w) of None \<Rightarrow> None
               | Some ws \<Rightarrow>
                   (case location_at db (ws_location ws) of None \<Rightarrow> None
                    | Some l \<Rightarrow> (if ws_lifecycle ws = ''recovery_required'' then Some (ws, l) else None)))
          (RecoveryUnavailable w)) (\<lambda>(ws, l).
     if ws_archived ws \<noteq> None \<and> \<not> permits_archived auth then Inl (WorkstreamArchived w)
     else
       and_then (provider_kind_from_text (ws_provider ws)) (\<lambda>workstream_provider.
       if workstream_provider \<noteq> provider then Inl ProviderIdentityMismatch
       else
         and_then (transpose_opt (map_option (\<lambda>r. row_to_runtime E r w)
             (List.find (\<lambda>r. rt_workstream r = uuid_text E w \<and> rt_lifecycle r = ''unknown'')
                (runtime_rows db)))) (\<lambda>found.
         and_then (ok_or found (RecoveryUnavailable w)) (\<lambda>current.
         if rr_provider current \<noteq> workstream_provider then Inl ProviderIdentityMismatch
         else
           let nxt = next_generation E generation (lc_path l) current in
           and_then (one_row ConcurrentWrite (update_runtimes
               (\<lambda>r. rt_id r = uuid_text E (rr_runtime nxt) \<and> rt_revision r = rr_revision current
                    \<and> rt_lifecycle r = ''unknown'') (reserved_row nxt) db)) (\<lambda>db1.
           and_then (touch_workstream (uuid_text E w) None db1) (\<lambda>db2.
           Inr (nxt, db2)))))))"

definition reserve_runtime_recovery_with_provider ::
  "env \<Rightarrow> uuid \<Rightarrow> uuid \<Rightarrow> provider_kind \<Rightarrow> registry
     \<Rightarrow> (state_error, runtime_record \<times> registry) result" where
  "reserve_runtime_recovery_with_provider E generation w provider db =
     reserve_runtime_recovery_authorized E generation w provider ActiveOnly db"

section \<open>Codex recovery\<close>

definition reconcile_codex_recovery_authorized ::
  "env \<Rightarrow> uuid \<Rightarrow> int \<Rightarrow> uuid \<Rightarrow> int \<Rightarrow> string \<Rightarrow> provider_binding \<Rightarrow> catalog_authorization
     \<Rightarrow> registry \<Rightarrow> (state_error, unit \<times> registry) result" where
  "reconcile_codex_recovery_authorized E w wrev i rrev generation retained auth db =
     and_then (validate_registry_text ''runtime generation'' generation) (\<lambda>_.
     if pb_runtime retained \<noteq> i \<or> pb_provider retained \<noteq> Codex
        \<or> ps_provider (pb_session retained) \<noteq> Codex \<or> pb_generation retained = generation
     then Inl HookEvidenceMismatch
     else
       and_then (load_codex_recovery_binding E w wrev i rrev generation auth db) (\<lambda>b.
       if b \<noteq> retained \<or> pb_generation b = generation then Inl HookEvidenceMismatch
       else
         and_then (one_row ConcurrentWrite (update_bindings
             (\<lambda>x. bd_runtime x = uuid_text E i \<and> bd_provider x = ''codex''
                  \<and> bd_session x = ps_native (pb_session retained)
                  \<and> bd_generation x = pb_generation retained
                  \<and> bd_revision x = pb_revision retained)
             (\<lambda>x. x\<lparr> bd_generation := generation, bd_revision := bd_revision x + 1 \<rparr>) db)) (\<lambda>db1.
         and_then (one_row ConcurrentWrite (update_workstreams
             (\<lambda>x. ws_id x = uuid_text E w \<and> ws_lifecycle x = ''recovery_required''
                  \<and> ws_revision x = wrev)
             (\<lambda>x. x\<lparr> ws_lifecycle := ''open'', ws_activity_seq := next_activity_sequence db1,
                     ws_revision := ws_revision x + 1 \<rparr>) db1)) (\<lambda>db2.
         Inr ((), db2)))))"

section \<open>OpenCode handles\<close>

definition bind_opencode_session ::
  "env \<Rightarrow> uuid \<Rightarrow> uuid \<Rightarrow> string \<Rightarrow> provider_session_id \<Rightarrow> string \<Rightarrow> registry
     \<Rightarrow> (state_error, provider_binding \<times> registry) result" where
  "bind_opencode_session E fresh i generation session start_source db =
     (if ps_provider session \<noteq> OpenCode \<or> start_source \<notin> {''new'', ''resume''}
      then Inl ProviderIdentityMismatch
      else
        and_then (validate_registry_text ''runtime generation'' generation) (\<lambda>_.
        and_then (validate_registry_text ''start source'' start_source) (\<lambda>_.
        bind_opencode_session_in_transaction E fresh i generation session start_source db)))"

text \<open>The upsert of a handle: a new row, or the same key with its revision raised.\<close>

definition upsert_handle :: "handle_row \<Rightarrow> registry \<Rightarrow> (state_error, registry) result" where
  "upsert_handle h db =
     (if hd_runtime h \<in> hd_runtime ` set (handle_rows db)
      then and_then (update_handles (\<lambda>x. hd_runtime x = hd_runtime h)
             (\<lambda>x. x\<lparr> hd_generation := hd_generation h, hd_host := hd_host h, hd_port := hd_port h,
                     hd_version := hd_version h, hd_session := hd_session h,
                     hd_observer_pid := None, hd_observer_birth := None,
                     hd_status := ''starting'', hd_revision := hd_revision x + 1 \<rparr>) db)
             (\<lambda>(_, db'). Inr db')
      else insert_handle h db)"

definition record_opencode_runtime_handle ::
  "env \<Rightarrow> uuid \<Rightarrow> string \<Rightarrow> 16 word \<Rightarrow> string \<Rightarrow> provider_session_id \<Rightarrow> registry
     \<Rightarrow> (state_error, opencode_runtime_handle \<times> registry) result" where
  "record_opencode_runtime_handle E i generation port version session db =
     (if port = 0 \<or> ps_provider session \<noteq> OpenCode then Inl ProviderIdentityMismatch
      else
        and_then (validate_registry_text ''runtime generation'' generation) (\<lambda>_.
        and_then (validate_provider_metadata version) (\<lambda>_.
        and_then (ok_or (runtime_at db (uuid_text E i)) (UnknownRuntime i)) (\<lambda>r.
        and_then (provider_kind_from_text (rt_provider r)) (\<lambda>provider.
        if provider \<noteq> OpenCode \<or> rt_generation r \<noteq> generation \<or> rt_lifecycle r \<noteq> ''starting''
        then Inl HookEvidenceMismatch
        else
          and_then (load_binding E i db) (\<lambda>found.
          and_then (ok_or found HookEvidenceMismatch) (\<lambda>b.
          if pb_provider b \<noteq> OpenCode \<or> pb_session b \<noteq> session then Inl ProviderIdentityMismatch
          else if pb_generation b \<noteq> generation then Inl HookEvidenceMismatch
          else
            and_then (upsert_handle
                \<lparr> hd_runtime = uuid_text E i, hd_generation = generation,
                  hd_host = ''127.0.0.1'', hd_port = uint port, hd_version = version,
                  hd_session = ps_native session, hd_observer_pid = None,
                  hd_observer_birth = None, hd_status = ''starting'', hd_revision = 1 \<rparr> db) (\<lambda>db1.
            and_then (load_opencode_handle E i db1) (\<lambda>found'.
            and_then (ok_or found' ConcurrentWrite) (\<lambda>h. Inr (h, db1)))))))))))"

definition record_opencode_observer_started ::
  "env \<Rightarrow> uuid \<Rightarrow> string \<Rightarrow> int \<Rightarrow> pid \<Rightarrow> string \<Rightarrow> registry
     \<Rightarrow> (state_error, opencode_runtime_handle \<times> registry) result" where
  "record_opencode_observer_started E i generation expected pid birth db =
     (if pid = 0 then Inl (InvalidRegistryField ''observer PID'')
      else
        and_then (validate_registry_text ''observer birth'' birth) (\<lambda>_.
        and_then (one_row ConcurrentWrite (update_handles
            (\<lambda>h. hd_runtime h = uuid_text E i \<and> hd_generation h = generation
                 \<and> hd_status h = ''starting'' \<and> hd_revision h = expected)
            (\<lambda>h. h\<lparr> hd_observer_pid := Some (uint pid), hd_observer_birth := Some birth,
                    hd_status := ''starting'', hd_revision := hd_revision h + 1 \<rparr>) db)) (\<lambda>db1.
        and_then (load_opencode_handle E i db1) (\<lambda>found.
        and_then (ok_or found ConcurrentWrite) (\<lambda>h. Inr (h, db1))))))"

definition mark_opencode_observer_ready ::
  "env \<Rightarrow> uuid \<Rightarrow> string \<Rightarrow> int \<Rightarrow> pid \<Rightarrow> string \<Rightarrow> registry
     \<Rightarrow> (state_error, opencode_runtime_handle \<times> registry) result" where
  "mark_opencode_observer_ready E i generation expected pid birth db =
     (if pid = 0 then Inl (InvalidRegistryField ''observer PID'')
      else
        and_then (validate_registry_text ''observer birth'' birth) (\<lambda>_.
        and_then (one_row ConcurrentWrite (update_handles
            (\<lambda>h. hd_runtime h = uuid_text E i \<and> hd_generation h = generation
                 \<and> hd_status h = ''starting'' \<and> hd_observer_pid h = Some (uint pid)
                 \<and> hd_observer_birth h = Some birth \<and> hd_revision h = expected)
            (\<lambda>h. h\<lparr> hd_status := ''ready'', hd_revision := hd_revision h + 1 \<rparr>) db)) (\<lambda>db1.
        and_then (load_opencode_handle E i db1) (\<lambda>found.
        and_then (ok_or found ConcurrentWrite) (\<lambda>h. Inr (h, db1))))))"

definition mark_opencode_observer_unknown_exact ::
  "env \<Rightarrow> uuid \<Rightarrow> string \<Rightarrow> int \<Rightarrow> pid \<Rightarrow> string \<Rightarrow> registry
     \<Rightarrow> (state_error, unit \<times> registry) result" where
  "mark_opencode_observer_unknown_exact E i generation expected pid birth db =
     (if pid = 0 then Inl (InvalidRegistryField ''observer PID'')
      else
        and_then (validate_registry_text ''observer birth'' birth) (\<lambda>_.
        and_then (one_row HookEvidenceMismatch (update_handles
            (\<lambda>h. hd_runtime h = uuid_text E i \<and> hd_generation h = generation
                 \<and> hd_observer_pid h = Some (uint pid) \<and> hd_observer_birth h = Some birth
                 \<and> hd_revision h = expected)
            (\<lambda>h. h\<lparr> hd_status := ''unknown'', hd_revision := hd_revision h + 1 \<rparr>) db)) (\<lambda>db1.
        Inr ((), db1))))"

definition delete_opencode_runtime_handle ::
  "env \<Rightarrow> uuid \<Rightarrow> string \<Rightarrow> registry \<Rightarrow> (state_error, unit \<times> registry) result" where
  "delete_opencode_runtime_handle E i generation db =
     and_then (one_row HookEvidenceMismatch (delete_handles
         (\<lambda>h. hd_runtime h = uuid_text E i \<and> hd_generation h = generation) db)) (\<lambda>db1.
     Inr ((), db1))"

section \<open>Process identity and metadata\<close>

definition record_runtime_process_identity ::
  "env \<Rightarrow> uuid \<Rightarrow> int \<Rightarrow> pid \<Rightarrow> string \<Rightarrow> registry \<Rightarrow> (state_error, unit \<times> registry) result" where
  "record_runtime_process_identity E i expected pid birth db =
     (if pid = 0 then Inl (InvalidRegistryField ''provider PID'')
      else
        and_then (validate_registry_text ''process birth'' birth) (\<lambda>_.
        and_then (one_row ConcurrentWrite (update_runtimes
            (\<lambda>r. rt_id r = uuid_text E i \<and> rt_lifecycle r = ''starting'' \<and> rt_revision r = expected)
            (\<lambda>r. r\<lparr> rt_pid := Some (uint pid), rt_birth := Some birth,
                    rt_revision := rt_revision r + 1 \<rparr>) db)) (\<lambda>db1.
        Inr ((), db1))))"

definition backfill_runtime_provider_pid ::
  "env \<Rightarrow> uuid \<Rightarrow> int \<Rightarrow> pid \<Rightarrow> string \<Rightarrow> registry \<Rightarrow> (state_error, unit \<times> registry) result" where
  "backfill_runtime_provider_pid E i expected pid birth db =
     (if pid = 0 then Inl (InvalidRegistryField ''provider PID'')
      else
        and_then (validate_registry_text ''process birth'' birth) (\<lambda>_.
        and_then (one_row ConcurrentWrite (update_runtimes
            (\<lambda>r. rt_id r = uuid_text E i \<and> rt_pid r = None \<and> rt_birth r = Some birth
                 \<and> rt_lifecycle r \<noteq> ''stopped'' \<and> rt_revision r = expected)
            (\<lambda>r. r\<lparr> rt_pid := Some (uint pid), rt_revision := rt_revision r + 1 \<rparr>) db)) (\<lambda>db1.
        Inr ((), db1))))"

definition expected_hook_process_birth ::
  "env \<Rightarrow> uuid \<Rightarrow> string \<Rightarrow> registry \<Rightarrow> (state_error, string) result" where
  "expected_hook_process_birth E i generation db =
     (case runtime_at db (uuid_text E i) of
        None \<Rightarrow> Inl (UnknownRuntime i)
      | Some r \<Rightarrow>
          if rt_generation r \<noteq> generation then Inl HookEvidenceMismatch
          else ok_or (rt_birth r) HookEvidenceMismatch)"

definition record_thread_metadata ::
  "env \<Rightarrow> uuid \<Rightarrow> provider_session_id \<Rightarrow> string option \<Rightarrow> registry
     \<Rightarrow> (state_error, unit \<times> registry) result" where
  "record_thread_metadata E i session name db =
     and_then (case nonblank name of
                 Some n \<Rightarrow> and_then (validate_registry_text ''thread name'' n) (\<lambda>_.
                           Inr (Some n, ''named''))
               | None \<Rightarrow> Inr (None, ''known_empty'')) (\<lambda>(thread_name, name_state).
     and_then (ok_or (runtime_at db (uuid_text E i)) (UnknownRuntime i)) (\<lambda>r.
     and_then (one_row HookEvidenceMismatch (update_bindings
         (\<lambda>b. bd_runtime b = uuid_text E i
              \<and> bd_provider b = provider_kind_text (ps_provider session)
              \<and> bd_session b = ps_native session \<and> bd_generation b = rt_generation r)
         (\<lambda>b. b\<lparr> bd_thread_name := thread_name, bd_name_state := name_state,
                 bd_revision := bd_revision b + 1 \<rparr>) db)) (\<lambda>db1.
     Inr ((), db1))))"

section \<open>The end of a Runtime\<close>

definition mark_runtime_stopped ::
  "env \<Rightarrow> uuid \<Rightarrow> int \<Rightarrow> registry \<Rightarrow> (state_error, unit \<times> registry) result" where
  "mark_runtime_stopped E i expected db =
     and_then (one_row ConcurrentWrite (update_runtimes
         (\<lambda>r. rt_id r = uuid_text E i \<and> rt_revision r = expected)
         (\<lambda>r. r\<lparr> rt_lifecycle := ''stopped'', rt_revision := rt_revision r + 1 \<rparr>) db)) (\<lambda>db1.
     Inr ((), db1))"

text \<open>The Workstream of a Runtime at an exact revision.\<close>

definition runtime_at_revision :: "env \<Rightarrow> uuid \<Rightarrow> int \<Rightarrow> registry \<Rightarrow> runtime_row option" where
  "runtime_at_revision E i expected db =
     List.find (\<lambda>r. rt_id r = uuid_text E i \<and> rt_revision r = expected) (runtime_rows db)"

definition mark_runtime_recovery_required ::
  "env \<Rightarrow> uuid \<Rightarrow> int \<Rightarrow> registry \<Rightarrow> (state_error, unit \<times> registry) result" where
  "mark_runtime_recovery_required E i expected db =
     and_then (ok_or (runtime_at_revision E i expected db) ConcurrentWrite) (\<lambda>r.
     and_then (read_uuid E (rt_workstream r)) (\<lambda>w.
     and_then (one_row ConcurrentWrite (update_runtimes
         (\<lambda>x. rt_id x = uuid_text E i \<and> rt_revision x = expected)
         (\<lambda>x. x\<lparr> rt_lifecycle := ''unknown'', rt_revision := rt_revision x + 1 \<rparr>) db)) (\<lambda>db1.
     and_then (workstream_to_recovery (uuid_text E w)
         (\<lambda>k db'. and_then (query_row (workstream_at db' k)) (\<lambda>ws. Inr (ws_lifecycle ws))) db1) (\<lambda>db2.
     Inr ((), db2)))))"

definition park_runtime ::
  "env \<Rightarrow> uuid \<Rightarrow> int \<Rightarrow> registry \<Rightarrow> (state_error, unit \<times> registry) result" where
  "park_runtime E i expected db =
     and_then (ok_or (runtime_at_revision E i expected db) ConcurrentWrite) (\<lambda>r.
     and_then (update_runtimes (\<lambda>x. rt_id x = uuid_text E i \<and> rt_revision x = expected)
         (\<lambda>x. x\<lparr> rt_lifecycle := ''stopped'', rt_revision := rt_revision x + 1 \<rparr>) db)
       (\<lambda>(runtime_changed, db1).
     and_then (update_workstreams
         (\<lambda>x. ws_id x = rt_workstream r
              \<and> ws_lifecycle x \<in> {''open'', ''parked'', ''recovery_required''})
         (\<lambda>x. x\<lparr> ws_lifecycle := ''parked'', ws_activity_seq := next_activity_sequence db1,
                 ws_revision := ws_revision x + 1 \<rparr>) db1) (\<lambda>(workstream_changed, db2).
     if runtime_changed \<noteq> 1 \<or> workstream_changed \<noteq> 1 then Inl ConcurrentWrite
     else Inr ((), db2))))"

end
