(* ===== verification/Catalog.thy ===== *)
theory Catalog
  imports Runtimes
begin

text \<open>
  \<open>src/state/workstream.rs\<close>: the bounded overview pages of the navigator, archive and restore, and
  the permanent removal of one archived Workstream.
\<close>

section \<open>Overview pages\<close>

record overview_base =
  vb_workstream :: string
  vb_location :: string
  vb_provider :: string
  vb_path :: string
  vb_display :: string
  vb_fingerprint :: "string option"
  vb_remote_display :: "string option"
  vb_lifecycle :: string
  vb_archived :: "int option"
  vb_activity_seq :: int
  vb_activity_at :: int
  vb_revision :: int

definition overview_base_of :: "workstream_row \<times> location_row \<Rightarrow> overview_base" where
  "overview_base_of x =
     (case x of (w, l) \<Rightarrow>
        \<lparr> vb_workstream = ws_id w, vb_location = ws_location w, vb_provider = ws_provider w,
          vb_path = lc_path l, vb_display = lc_display l, vb_fingerprint = lc_fingerprint l,
          vb_remote_display = lc_remote_display l, vb_lifecycle = ws_lifecycle w,
          vb_archived = ws_archived w, vb_activity_seq = ws_activity_seq w,
          vb_activity_at = ws_activity_at w, vb_revision = ws_revision w \<rparr>)"

text \<open>
  The joined rows in the order of the query: latest activity first, then the project root and
  the Workstream identity.
\<close>

definition joined_rows :: "registry \<Rightarrow> (workstream_row \<times> location_row) list" where
  "joined_rows db =
     concat (map (\<lambda>w. case location_at db (ws_location w) of None \<Rightarrow> [] | Some l \<Rightarrow> [(w, l)])
                 (workstream_rows db))"

definition overview_bases :: "registry \<Rightarrow> overview_base list" where
  "overview_bases db =
     sort_key (\<lambda>b. - vb_activity_seq b)
       (sort_key vb_path (sort_key vb_workstream (map overview_base_of (joined_rows db))))"

definition persisted_workstream_overview_page ::
  "registry \<Rightarrow> nat \<Rightarrow> nat \<Rightarrow> (state_error, overview_base list \<times> nat option) result" where
  "persisted_workstream_overview_page db page_size cursor =
     (if page_size = 0 \<or> page_size > max_navigator_workstreams
      then Inl InvalidNavigatorPageSize
      else
        let rows = take (page_size + 1) (drop cursor (overview_bases db));
            has_more = length rows > page_size;
            bases = take page_size rows
        in and_then (if has_more
                     then and_then (ok_or (u32_checked_add cursor (length bases)) NavigatorCursorOverflow)
                            (\<lambda>c. Inr (Some c))
                     else Inr None) (\<lambda>nxt.
           Inr (bases, nxt)))"

record workstream_overview =
  wo_workstream :: uuid
  wo_location :: uuid
  wo_provider :: provider_kind
  wo_path :: string
  wo_display :: string
  wo_fingerprint :: "string option"
  wo_remote_display :: "string option"
  wo_lifecycle :: workstream_lifecycle
  wo_archived :: "int option"
  wo_activity_seq :: int
  wo_activity_at :: "int option"
  wo_revision :: int
  wo_runtime :: "runtime_record option"
  wo_binding :: "provider_binding option"

definition nonempty :: "string option \<Rightarrow> string option" where
  "nonempty x = (case x of None \<Rightarrow> None | Some s \<Rightarrow> (if s = [] then None else Some s))"

text \<open>The binding that an overview shows for its Runtime.\<close>

definition overview_binding ::
  "env \<Rightarrow> runtime_record option \<Rightarrow> registry \<Rightarrow> (state_error, provider_binding option) result" where
  "overview_binding E runtime db =
     (case runtime of
        None \<Rightarrow> Inr None
      | Some r \<Rightarrow>
          if rr_provider r = Codex \<and> (rr_status r = Stopped \<or> rr_status r = Unknown)
          then retained_codex_binding_for_runtime E (rr_runtime r) db
          else
            (case binding_for_runtime E (rr_runtime r) db of
               Inr b \<Rightarrow> Inr b
             | Inl e \<Rightarrow>
                 if e = HookEvidenceMismatch \<and> rr_status r = Starting then Inr None else Inl e))"

definition hydrate_workstream_overview ::
  "env \<Rightarrow> registry \<Rightarrow> overview_base \<Rightarrow> (state_error, workstream_overview) result" where
  "hydrate_workstream_overview E db b =
     and_then (read_uuid E (vb_workstream b)) (\<lambda>w.
     and_then (read_uuid E (vb_location b)) (\<lambda>l.
     and_then (workstream_lifecycle_from_text (vb_lifecycle b)) (\<lambda>lifecycle.
     and_then (provider_kind_from_text (vb_provider b)) (\<lambda>provider.
     and_then (read_revision (vb_revision b)) (\<lambda>revision.
     and_then (runtime_for_workstream E w db) (\<lambda>runtime.
     and_then (overview_binding E runtime db) (\<lambda>binding.
     Inr \<lparr> wo_workstream = w, wo_location = l, wo_provider = provider, wo_path = vb_path b,
           wo_display = vb_display b, wo_fingerprint = nonempty (vb_fingerprint b),
           wo_remote_display = nonempty (vb_remote_display b), wo_lifecycle = lifecycle,
           wo_archived = vb_archived b, wo_activity_seq = vb_activity_seq b,
           wo_activity_at = (if vb_activity_at b \<noteq> 0 then Some (vb_activity_at b) else None),
           wo_revision = revision, wo_runtime = runtime, wo_binding = binding \<rparr>)))))))"

definition workstream_overview_page ::
  "env \<Rightarrow> registry \<Rightarrow> nat \<Rightarrow> nat \<Rightarrow> (state_error, workstream_overview list \<times> nat option) result" where
  "workstream_overview_page E db cursor page_size =
     and_then (persisted_workstream_overview_page db page_size cursor) (\<lambda>(bases, nxt).
     and_then (collect_results (map (hydrate_workstream_overview E db) bases)) (\<lambda>workstreams.
     Inr (workstreams, nxt)))"

definition workstream_overviews ::
  "env \<Rightarrow> registry \<Rightarrow> (state_error, workstream_overview list) result option" where
  "workstream_overviews E db =
     map_option (\<lambda>r. and_then r (\<lambda>bases.
         collect_results (map (hydrate_workstream_overview E db) bases)))
       (page_loop (persisted_workstream_overview_page db max_navigator_workstreams) 0 [])"

section \<open>Archive and restore\<close>

definition transition_workstream_archive ::
  "env \<Rightarrow> uuid \<Rightarrow> int \<Rightarrow> int option \<Rightarrow> registry \<Rightarrow> (state_error, int \<times> registry) result" where
  "transition_workstream_archive E w expected archived db =
     and_then (ok_or (workstream_at db (uuid_text E w)) (UnknownOpenWorkstream w)) (\<lambda>row.
     and_then (read_revision (ws_revision row)) (\<lambda>current.
     if current \<noteq> expected then Inl (DomainErr (RevisionConflict expected current))
     else if ws_archived row \<noteq> None \<and> archived \<noteq> None then Inl (WorkstreamAlreadyArchived w)
     else if ws_archived row = None \<and> archived = None then Inl (WorkstreamNotArchived w)
     else
       let next_revision = revision_next current;
           lifecycle = (if archived = None \<and> ws_lifecycle row = ''parked'' then ''open''
                        else ws_lifecycle row)
       in and_then (one_row ConcurrentWrite (update_workstreams
              (\<lambda>x. ws_id x = uuid_text E w \<and> ws_revision x = current)
              (\<lambda>x. x\<lparr> ws_archived := archived, ws_lifecycle := lifecycle,
                      ws_revision := next_revision \<rparr>) db)) (\<lambda>db1.
          Inr (next_revision, db1))))"

definition archive_workstream ::
  "env \<Rightarrow> uuid \<Rightarrow> int \<Rightarrow> int \<Rightarrow> registry \<Rightarrow> (state_error, int \<times> registry) result" where
  "archive_workstream E w expected at db =
     (if at < 0 then Inl (InvalidRegistryField ''archive timestamp'')
      else transition_workstream_archive E w expected (Some at) db)"

definition restore_workstream ::
  "env \<Rightarrow> uuid \<Rightarrow> int \<Rightarrow> registry \<Rightarrow> (state_error, int \<times> registry) result" where
  "restore_workstream E w expected db = transition_workstream_archive E w expected None db"

section \<open>Forgetting a Workstream\<close>

definition parked_recovery_resolved_outcome :: string where
  "parked_recovery_resolved_outcome =
     ''{'' @ [CHR 0x22] @ ''code'' @ [CHR 0x22] @ '':'' @ [CHR 0x22]
       @ ''parked_recovery_resolved_v1'' @ [CHR 0x22] @ ''}''"

definition persisted_uuid_field :: "env \<Rightarrow> json \<Rightarrow> string \<Rightarrow> (state_error, uuid) result" where
  "persisted_uuid_field E j field =
     and_then (ok_or (Option.bind (json_get j field) json_str) MalformedHostSchema) (\<lambda>s.
     ok_or (uuid_parse E s) MalformedHostSchema)"

text \<open>The member \<open>code\<close> of an outcome, when it is a text.\<close>

definition outcome_code :: "env \<Rightarrow> string option \<Rightarrow> string option" where
  "outcome_code E outcome =
     Option.bind (Option.bind outcome (json_parse E)) (\<lambda>j.
     Option.bind (json_get j ''code'') json_str)"

definition forget_operation_is_terminal ::
  "env \<Rightarrow> operation_kind \<Rightarrow> operation_phase \<Rightarrow> string option \<Rightarrow> bool" where
  "forget_operation_is_terminal E kind phase outcome =
     (case kind of
        Onboard \<Rightarrow>
          (case phase of
             Committed \<Rightarrow> outcome = Some parked_recovery_resolved_outcome
           | operation_phase.ProviderExecProven \<Rightarrow> True
           | operation_phase.RolledBack \<Rightarrow> True
           | _ \<Rightarrow> False)
      | Start \<Rightarrow>
          (case phase of
             Committed \<Rightarrow> True
           | Failed \<Rightarrow> outcome_code E outcome = Some ''provider_effect_not_started''
           | _ \<Rightarrow> False))"

text \<open>
  One operation of the journal seen by a deletion: \<open>None\<close> when it does not belong to the
  Workstream, its identity when it may be deleted with it.
\<close>

definition forget_operation ::
  "env \<Rightarrow> uuid \<Rightarrow> uuid option \<Rightarrow> registry \<Rightarrow> operation_row \<Rightarrow> (state_error, string option) result" where
  "forget_operation E w runtime db p =
     and_then (ok_or (uuid_parse E (op_id p)) MalformedHostSchema) (\<lambda>i.
     and_then (operation_phase_from_text (op_phase p)) (\<lambda>phase.
     if op_kind p \<in> {''onboard'', ''start''} then
       and_then (operation_kind_from_text (op_kind p)) (\<lambda>kind.
       and_then
         (case kind of
            Onboard \<Rightarrow>
              and_then (ok_or (json_parse E (op_expected p)) MalformedHostSchema) (\<lambda>intent.
              and_then (persisted_uuid_field E intent ''workstream_id'') (\<lambda>a.
              and_then (persisted_uuid_field E intent ''candidate_runtime_id'') (\<lambda>b.
              Inr (a, b))))
          | Start \<Rightarrow>
              and_then (plan_decode E (op_watermark p)) (\<lambda>plan.
              Inr (cp_workstream plan, cp_runtime plan))) (\<lambda>(operation_workstream, operation_runtime).
       if runtime = Some operation_runtime \<and> operation_workstream \<noteq> w
       then Inl WorkstreamForgetRefused
       else if operation_workstream \<noteq> w then Inr None
       else if (case runtime_at db (uuid_text E operation_runtime) of None \<Rightarrow> False
                | Some r \<Rightarrow> rt_workstream r \<noteq> uuid_text E w)
       then Inl WorkstreamForgetRefused
       else if \<not> forget_operation_is_terminal E kind phase (op_outcome p)
       then Inl WorkstreamForgetRefused
       else Inr (Some (uuid_text E i))))
     else if op_kind p = ''fork'' \<and> (phase = Committed \<or> phase = Failed) then Inr None
     else Inl WorkstreamForgetRefused))"

definition forget_operation_ids ::
  "env \<Rightarrow> uuid \<Rightarrow> uuid option \<Rightarrow> registry \<Rightarrow> (state_error, string list) result" where
  "forget_operation_ids E w runtime db =
     and_then (collect_results (map (forget_operation E w runtime db)
                 (sort_key op_id (operation_rows db)))) (\<lambda>ids.
     Inr (List.map_filter id ids))"

text \<open>The checks that \<open>validate_forget_workstream\<close> and \<open>forget_workstream\<close> share.\<close>

definition forget_boundary ::
  "env \<Rightarrow> uuid \<Rightarrow> int \<Rightarrow> registry \<Rightarrow> (state_error, uuid option \<times> string list) result" where
  "forget_boundary E w expected db =
     and_then (ok_or (workstream_at db (uuid_text E w)) (UnknownOpenWorkstream w)) (\<lambda>row.
     and_then (read_revision (ws_revision row)) (\<lambda>revision.
     if revision \<noteq> expected then Inl (DomainErr (RevisionConflict expected revision))
     else if ws_archived row = None then Inl (WorkstreamNotArchived w)
     else
       and_then (transpose_opt (map_option (\<lambda>r. ok_or (uuid_parse E (rt_id r)) MalformedHostSchema)
                   (runtime_of db (uuid_text E w)))) (\<lambda>runtime.
       and_then (forget_operation_ids E w runtime db) (\<lambda>ids.
       Inr (runtime, ids)))))"

definition validate_forget_workstream ::
  "env \<Rightarrow> uuid \<Rightarrow> int \<Rightarrow> registry \<Rightarrow> (state_error, unit) result" where
  "validate_forget_workstream E w expected db =
     and_then (forget_boundary E w expected db) (\<lambda>_. Inr ())"

text \<open>The rows of one Runtime, and the journal rows of a list of operations.\<close>

definition forget_runtime :: "env \<Rightarrow> uuid \<Rightarrow> uuid \<Rightarrow> registry \<Rightarrow> (state_error, registry) result" where
  "forget_runtime E w i db =
     and_then (delete_settled (\<lambda>m. sm_runtime m = uuid_text E i) db) (\<lambda>(_, db1).
     and_then (delete_handles (\<lambda>h. hd_runtime h = uuid_text E i) db1) (\<lambda>(_, db2).
     and_then (delete_bindings (\<lambda>b. bd_runtime b = uuid_text E i) db2) (\<lambda>(_, db3).
     one_row WorkstreamForgetRefused
       (delete_runtimes (\<lambda>r. rt_id r = uuid_text E i \<and> rt_workstream r = uuid_text E w) db3))))"

fun forget_operations :: "string list \<Rightarrow> registry \<Rightarrow> (state_error, registry) result" where
  "forget_operations [] db = Inr db"
| "forget_operations (i # is) db =
     and_then (delete_targets (\<lambda>t. tg_operation t = i) db) (\<lambda>(_, db1).
     and_then (delete_operations (\<lambda>p. op_id p = i) db1) (\<lambda>(_, db2).
     forget_operations is db2))"

definition forget_workstream ::
  "env \<Rightarrow> uuid \<Rightarrow> int \<Rightarrow> registry \<Rightarrow> (state_error, unit \<times> registry) result" where
  "forget_workstream E w expected db =
     and_then (forget_boundary E w expected db) (\<lambda>(runtime, ids).
     and_then (update_workstreams (\<lambda>x. ws_source x = Some (uuid_text E w))
         (\<lambda>x. x\<lparr> ws_source := None, ws_revision := ws_revision x + 1 \<rparr>) db) (\<lambda>(_, db1).
     and_then (case runtime of None \<Rightarrow> Inr db1 | Some i \<Rightarrow> forget_runtime E w i db1) (\<lambda>db2.
     and_then (delete_attention (\<lambda>a. at_workstream a = uuid_text E w) db2) (\<lambda>(_, db3).
     and_then (delete_requests (\<lambda>q. rq_workstream q = uuid_text E w
                                    \<or> rq_source q = uuid_text E w) db3) (\<lambda>(_, db4).
     and_then (forget_operations ids db4) (\<lambda>db5.
     and_then (one_row ConcurrentWrite (delete_workstreams
         (\<lambda>x. ws_id x = uuid_text E w \<and> ws_archived x \<noteq> None \<and> ws_revision x = expected) db5)) (\<lambda>db6.
     and_then (validate_foreign_keys db6) (\<lambda>_.
     Inr ((), db6)))))))))"

end
