(* ===== verification/Host.thy ===== *)
theory Host
  imports Catalog
begin

text \<open>
  \<open>src/state/host.rs\<close>: the identity of the host registry and the ownership record of the one
  managed Codex observer profile (\<open>ProfileOwnership\<close> of \<open>src/provider/codex/profile.rs\<close>).
\<close>

section \<open>Identity\<close>

record host_identity =
  hx_host :: uuid
  hx_generation :: string

definition identity :: "env \<Rightarrow> registry \<Rightarrow> (state_error, host_identity) result" where
  "identity E db =
     and_then (query_row (List.find (\<lambda>h. hi_singleton h = 1) (identity_rows db))) (\<lambda>h.
     and_then (read_uuid E (hi_host_id h)) (\<lambda>i.
     Inr \<lparr> hx_host = i, hx_generation = hi_generation h \<rparr>))"

text \<open>\<open>validate_host_identity\<close> of \<open>src/state/schema.rs\<close>.\<close>

definition validate_host_identity :: "env \<Rightarrow> int \<Rightarrow> registry \<Rightarrow> (state_error, unit) result" where
  "validate_host_identity E version db =
     (case List.find (\<lambda>h. hi_singleton h = 1) (identity_rows db) of
        None \<Rightarrow> Inl MalformedHostSchema
      | Some h \<Rightarrow>
          if uuid_parse E (hi_host_id h) = None \<or> hi_generation h = []
             \<or> length (hi_generation h) > 256
             \<or> newline \<in> set (hi_generation h) \<or> carriage_return \<in> set (hi_generation h)
             \<or> hi_schema_version h \<noteq> version
          then Inl MalformedHostSchema else Inr ())"

definition schema_version :: "registry \<Rightarrow> (state_error, int) result" where
  "schema_version db = Inr (user_version db)"

definition has_live_runtime :: "registry \<Rightarrow> (state_error, bool) result" where
  "has_live_runtime db = Inr (list_ex (\<lambda>r. rt_lifecycle r \<noteq> ''stopped'') (runtime_rows db))"

section \<open>The Codex integration\<close>

record profile_ownership =
  po_path :: string
  po_owner :: string
  po_schema :: "8 word"
  po_hook :: string
  po_hash :: string

record codex_integration_record =
  ci_ownership :: profile_ownership
  ci_lifecycle :: integration_lifecycle
  ci_revision :: int

definition observer_profile_name :: string where "observer_profile_name = ''wsnav-observer''"

definition row_to_integration :: "integration_row \<Rightarrow> (state_error, codex_integration_record) result" where
  "row_to_integration g =
     sqlite_conversion (
       and_then (if 0 \<le> ig_schema_version g \<and> ig_schema_version g < 256
                 then Inr (word_of_int (ig_schema_version g))
                 else Inl (InvalidPersistedValue ''profile schema version'')) (\<lambda>schema.
       and_then (integration_lifecycle_from_text (ig_lifecycle g)) (\<lambda>lifecycle.
       and_then (read_revision (ig_revision g)) (\<lambda>revision.
       Inr \<lparr> ci_ownership = \<lparr> po_path = ig_path g, po_owner = ig_owner g, po_schema = schema,
                              po_hook = ig_hook g, po_hash = ig_hash g \<rparr>,
             ci_lifecycle = lifecycle, ci_revision = revision \<rparr>))))"

definition codex_integration :: "registry \<Rightarrow> (state_error, codex_integration_record option) result" where
  "codex_integration db =
     transpose_opt (map_option row_to_integration
       (List.find (\<lambda>g. ig_profile_name g = observer_profile_name) (integration_rows db)))"

definition record_codex_integration ::
  "env \<Rightarrow> uuid \<Rightarrow> profile_ownership \<Rightarrow> integration_lifecycle \<Rightarrow> registry
     \<Rightarrow> (state_error, codex_integration_record \<times> registry) result" where
  "record_codex_integration E fresh ownership lifecycle db =
     and_then (codex_integration db) (\<lambda>existing.
     if (case existing of None \<Rightarrow> False | Some x \<Rightarrow> ci_ownership x \<noteq> ownership)
     then Inl IntegrationOwnershipMismatch
     else
       let revision = (case existing of None \<Rightarrow> revision_initial
                       | Some x \<Rightarrow> revision_next (ci_revision x));
           row = \<lparr> ig_id = uuid_text E fresh, ig_profile_name = observer_profile_name,
                   ig_path = po_path ownership, ig_owner = po_owner ownership,
                   ig_schema_version = uint (po_schema ownership), ig_hook = po_hook ownership,
                   ig_hash = po_hash ownership,
                   ig_lifecycle = integration_lifecycle_text lifecycle, ig_revision = revision \<rparr>
       in and_then
            (if observer_profile_name \<in> ig_profile_name ` set (integration_rows db)
             then and_then (if integration_check row then Inr () else Inl (Sqlite ConstraintViolation)) (\<lambda>_.
                  and_then (update_integrations (\<lambda>g. ig_profile_name g = observer_profile_name)
                    (\<lambda>g. g\<lparr> ig_schema_version := uint (po_schema ownership),
                            ig_lifecycle := integration_lifecycle_text lifecycle,
                            ig_revision := revision \<rparr>) db) (\<lambda>(_, db1). Inr db1))
             else insert_integration row db) (\<lambda>db1.
          Inr (\<lparr> ci_ownership = ownership, ci_lifecycle = lifecycle, ci_revision = revision \<rparr>, db1)))"

definition replace_codex_integration ::
  "profile_ownership \<Rightarrow> profile_ownership \<Rightarrow> integration_lifecycle \<Rightarrow> registry
     \<Rightarrow> (state_error, codex_integration_record \<times> registry) result" where
  "replace_codex_integration expected replacement lifecycle db =
     and_then (codex_integration db) (\<lambda>found.
     and_then (ok_or found IntegrationOwnershipMismatch) (\<lambda>current.
     if ci_ownership current \<noteq> expected then Inl IntegrationOwnershipMismatch
     else
       let revision = revision_next (ci_revision current) in
       and_then (one_row ConcurrentWrite (update_integrations
           (\<lambda>g. ig_profile_name g = observer_profile_name \<and> ig_hash g = po_hash expected
                \<and> ig_revision g = ci_revision current)
           (\<lambda>g. g\<lparr> ig_path := po_path replacement, ig_owner := po_owner replacement,
                   ig_schema_version := uint (po_schema replacement),
                   ig_hook := po_hook replacement, ig_hash := po_hash replacement,
                   ig_lifecycle := integration_lifecycle_text lifecycle,
                   ig_revision := revision \<rparr>) db)) (\<lambda>db1.
       Inr (\<lparr> ci_ownership = replacement, ci_lifecycle = lifecycle, ci_revision = revision \<rparr>, db1))))"

definition set_codex_integration_lifecycle ::
  "codex_integration_record \<Rightarrow> integration_lifecycle \<Rightarrow> registry
     \<Rightarrow> (state_error, codex_integration_record \<times> registry) result" where
  "set_codex_integration_lifecycle expected lifecycle db =
     (let revision = revision_next (ci_revision expected);
          own = ci_ownership expected
      in and_then (one_row ConcurrentWrite (update_integrations
             (\<lambda>g. ig_profile_name g = observer_profile_name \<and> ig_path g = po_path own
                  \<and> ig_owner g = po_owner own \<and> ig_schema_version g = uint (po_schema own)
                  \<and> ig_hook g = po_hook own \<and> ig_hash g = po_hash own
                  \<and> ig_revision g = ci_revision expected)
             (\<lambda>g. g\<lparr> ig_lifecycle := integration_lifecycle_text lifecycle,
                     ig_revision := revision \<rparr>) db)) (\<lambda>db1.
         Inr (\<lparr> ci_ownership = own, ci_lifecycle = lifecycle, ci_revision = revision \<rparr>, db1)))"

definition remove_codex_integration ::
  "profile_ownership \<Rightarrow> registry \<Rightarrow> (state_error, unit \<times> registry) result" where
  "remove_codex_integration ownership db =
     and_then (codex_integration db) (\<lambda>found.
     and_then (ok_or found IntegrationOwnershipMismatch) (\<lambda>current.
     if ci_ownership current \<noteq> ownership then Inl IntegrationOwnershipMismatch
     else
       and_then (one_row ConcurrentWrite (delete_integrations
           (\<lambda>g. ig_profile_name g = observer_profile_name \<and> ig_hash g = po_hash ownership) db)) (\<lambda>db1.
       Inr ((), db1))))"

end
