(* ===== verification/Invariants.thy ===== *)
theory Invariants
  imports Host
begin

text \<open>
  The integrity of the registry: keys, references, the agreement of the provider identities of
  a Workstream, its Runtime and its binding, and rows that the loaders can decode. Each kind
  of statement keeps it (the collection \<open>keeps\<close>), and moves row revisions only forward (the
  collection \<open>progresses\<close>).
\<close>

section \<open>Well-formed rows\<close>

definition canonical :: "env \<Rightarrow> string \<Rightarrow> bool" where
  "canonical E s \<longleftrightarrow> s \<in> range (uuid_text E)"

definition generation_ok :: "string \<Rightarrow> bool" where
  "generation_ok s \<longleftrightarrow> validate_registry_text ''runtime generation'' s = Inr ()"

definition identifier_ok :: "string \<Rightarrow> bool" where
  "identifier_ok s \<longleftrightarrow> validate_provider_identifier s = Inr ()"

definition pid_ok :: "int option \<Rightarrow> bool" where
  "pid_ok p \<longleftrightarrow> (case p of None \<Rightarrow> True | Some n \<Rightarrow> 0 < n \<and> n < 2 ^ 32)"

definition workstream_row_ok :: "env \<Rightarrow> workstream_row \<Rightarrow> bool" where
  "workstream_row_ok E w \<longleftrightarrow>
     workstream_check w \<and> canonical E (ws_id w) \<and> canonical E (ws_location w) \<and>
     ws_provider w \<in> range provider_kind_text \<and> ws_lifecycle w \<in> range workstream_lifecycle_text"

definition runtime_row_ok :: "env \<Rightarrow> runtime_row \<Rightarrow> bool" where
  "runtime_row_ok E r \<longleftrightarrow>
     runtime_check r \<and> canonical E (rt_id r) \<and> canonical E (rt_workstream r) \<and>
     rt_provider r \<in> range provider_kind_text \<and> rt_lifecycle r \<in> range runtime_status_text \<and>
     generation_ok (rt_generation r) \<and> pid_ok (rt_pid r)"

definition binding_row_ok :: "env \<Rightarrow> binding_row \<Rightarrow> bool" where
  "binding_row_ok E b \<longleftrightarrow>
     binding_check b \<and> canonical E (bd_runtime b) \<and> bd_provider b \<in> range provider_kind_text \<and>
     identifier_ok (bd_session b) \<and>
     (case bd_predecessor b of None \<Rightarrow> True | Some s \<Rightarrow> identifier_ok s) \<and>
     bd_name_state b \<in> range name_state_text \<and> generation_ok (bd_generation b)"

definition handle_row_ok :: "env \<Rightarrow> handle_row \<Rightarrow> bool" where
  "handle_row_ok E h \<longleftrightarrow>
     handle_check h \<and> canonical E (hd_runtime h) \<and> generation_ok (hd_generation h) \<and>
     validate_provider_metadata (hd_version h) = Inr () \<and> identifier_ok (hd_session h) \<and>
     hd_status h \<in> range observer_status_text \<and> pid_ok (hd_observer_pid h) \<and>
     (hd_observer_pid h = None \<longleftrightarrow> hd_observer_birth h = None) \<and>
     (hd_status h = ''ready'' \<longrightarrow> hd_observer_pid h \<noteq> None)"

definition operation_row_ok :: "env \<Rightarrow> operation_row \<Rightarrow> bool" where
  "operation_row_ok E p \<longleftrightarrow>
     operation_check p \<and> canonical E (op_id p) \<and>
     op_kind p \<in> insert ''fork'' (range operation_kind_text) \<and>
     op_phase p \<in> range operation_phase_text"

definition integration_row_ok :: "integration_row \<Rightarrow> bool" where
  "integration_row_ok g \<longleftrightarrow>
     integration_check g \<and> 0 \<le> ig_schema_version g \<and> ig_schema_version g < 256 \<and>
     ig_lifecycle g \<in> range integration_lifecycle_text"

lemmas row_ok_defs =
  workstream_row_ok_def runtime_row_ok_def binding_row_ok_def handle_row_ok_def
  operation_row_ok_def integration_row_ok_def

section \<open>The invariant\<close>

definition keys_ok :: "registry \<Rightarrow> bool" where
  "keys_ok db \<longleftrightarrow>
     distinct (map lc_id (location_rows db)) \<and>
     distinct (map ws_id (workstream_rows db)) \<and>
     distinct (map rq_key (request_rows db)) \<and> distinct (map rq_workstream (request_rows db)) \<and>
     distinct (map rt_id (runtime_rows db)) \<and> distinct (map rt_workstream (runtime_rows db)) \<and>
     distinct (map hd_runtime (handle_rows db)) \<and>
     distinct (map bd_id (binding_rows db)) \<and> distinct (map bd_runtime (binding_rows db)) \<and>
     distinct (map op_id (operation_rows db)) \<and> distinct (map op_request_key (operation_rows db)) \<and>
     distinct (map ig_profile_name (integration_rows db)) \<and>
     distinct (map pj_id (project_rows db))"

definition providers_agree :: "registry \<Rightarrow> bool" where
  "providers_agree db \<longleftrightarrow>
     (\<lambda>r. (rt_workstream r, rt_provider r)) ` set (runtime_rows db)
       \<subseteq> (\<lambda>w. (ws_id w, ws_provider w)) ` set (workstream_rows db) \<and>
     (\<lambda>b. (bd_runtime b, bd_provider b)) ` set (binding_rows db)
       \<subseteq> (\<lambda>r. (rt_id r, rt_provider r)) ` set (runtime_rows db)"

definition rows_ok :: "env \<Rightarrow> registry \<Rightarrow> bool" where
  "rows_ok E db \<longleftrightarrow>
     list_all (workstream_row_ok E) (workstream_rows db) \<and>
     list_all (runtime_row_ok E) (runtime_rows db) \<and>
     list_all (binding_row_ok E) (binding_rows db) \<and>
     list_all (handle_row_ok E) (handle_rows db) \<and>
     list_all (operation_row_ok E) (operation_rows db) \<and>
     list_all integration_row_ok (integration_rows db)"

definition registry_ok :: "env \<Rightarrow> registry \<Rightarrow> bool" where
  "registry_ok E db \<longleftrightarrow>
     keys_ok db \<and> foreign_keys_hold db \<and> providers_agree db \<and> rows_ok E db"

lemmas registry_ok_defs = registry_ok_def keys_ok_def foreign_keys_hold_def providers_agree_def rows_ok_def

text \<open>Membership facts that the component proofs use.\<close>

lemma registry_ok_rows:
  assumes "registry_ok E db"
  shows "w \<in> set (workstream_rows db) \<Longrightarrow> workstream_row_ok E w"
    and "r \<in> set (runtime_rows db) \<Longrightarrow> runtime_row_ok E r"
    and "b \<in> set (binding_rows db) \<Longrightarrow> binding_row_ok E b"
    and "h \<in> set (handle_rows db) \<Longrightarrow> handle_row_ok E h"
    and "p \<in> set (operation_rows db) \<Longrightarrow> operation_row_ok E p"
    and "g \<in> set (integration_rows db) \<Longrightarrow> integration_row_ok g"
  using assms by (auto simp: registry_ok_def rows_ok_def list_all_iff)

lemma registry_ok_keys:
  assumes "registry_ok E db"
  shows "distinct (map ws_id (workstream_rows db))"
    and "distinct (map rt_id (runtime_rows db))"
    and "distinct (map rt_workstream (runtime_rows db))"
    and "distinct (map bd_runtime (binding_rows db))"
    and "distinct (map hd_runtime (handle_rows db))"
    and "distinct (map op_id (operation_rows db))"
    and "distinct (map op_request_key (operation_rows db))"
    and "distinct (map lc_id (location_rows db))"
    and "distinct (map pj_id (project_rows db))"
  using assms by (auto simp: registry_ok_def keys_ok_def)

section \<open>Texts and identities\<close>

lemma range_provider_text:
  "s \<in> range provider_kind_text \<longleftrightarrow> s = ''codex'' \<or> s = ''opencode''"
proof -
  have "x \<in> {Codex, OpenCode}" for x :: provider_kind
    by (cases x) simp_all
  then have all: "UNIV = {Codex, OpenCode}" by blast
  show ?thesis by (simp add: all)
qed

lemma range_lifecycle_text:
  "s \<in> range workstream_lifecycle_text \<longleftrightarrow> s = ''open'' \<or> s = ''parked'' \<or> s = ''recovery_required''"
proof -
  have "x \<in> {Open, Parked, workstream_lifecycle.RecoveryRequired}" for x :: workstream_lifecycle
    by (cases x) simp_all
  then have all: "UNIV = {Open, Parked, workstream_lifecycle.RecoveryRequired}" by blast
  show ?thesis by (simp add: all)
qed

lemma range_status_text:
  "s \<in> range runtime_status_text \<longleftrightarrow> s = ''starting'' \<or> s = ''idle'' \<or> s = ''working'' \<or> s = ''attention'' \<or> s = ''stopped'' \<or> s = ''unknown''"
proof -
  have "x \<in> {Starting, Idle, runtime_status.Working, Attention, Stopped, Unknown}" for x :: runtime_status
    by (cases x) simp_all
  then have all: "UNIV = {Starting, Idle, runtime_status.Working, Attention, Stopped, Unknown}" by blast
  show ?thesis by (simp add: all)
qed

lemma range_name_text:
  "s \<in> range name_state_text \<longleftrightarrow> s = ''named'' \<or> s = ''known_empty'' \<or> s = ''unavailable''"
proof -
  have "x \<in> {Named, KnownEmpty, Unavailable}" for x :: name_state
    by (cases x) simp_all
  then have all: "UNIV = {Named, KnownEmpty, Unavailable}" by blast
  show ?thesis by (simp add: all)
qed

lemma range_observer_text:
  "s \<in> range observer_status_text \<longleftrightarrow> s = ''starting'' \<or> s = ''ready'' \<or> s = ''unknown'' \<or> s = ''stopped''"
proof -
  have "x \<in> {ObserverStarting, ObserverReady, ObserverUnknown, ObserverStopped}" for x :: observer_status
    by (cases x) simp_all
  then have all: "UNIV = {ObserverStarting, ObserverReady, ObserverUnknown, ObserverStopped}" by blast
  show ?thesis by (simp add: all)
qed

lemmas range_text_iff =
  range_provider_text range_lifecycle_text range_status_text range_name_text range_observer_text

lemma canonical_text [simp, intro]: "canonical E (uuid_text E u)"
  by (simp add: canonical_def)

lemma canonical_parse: "env_ok E \<Longrightarrow> canonical E s \<Longrightarrow> uuid_parse E s = Some u \<longleftrightarrow> s = uuid_text E u"
  by (auto simp: canonical_def env_ok_uuid uuid_text_inject)

lemma canonicalE:
  assumes "canonical E s" obtains u where "s = uuid_text E u"
  using assms by (auto simp: canonical_def)

lemma generation_text [simp]: "env_ok E \<Longrightarrow> generation_ok (uuid_text E u)"
proof -
  assume E: "env_ok E"
  have "nul \<notin> uuid_chars" "newline \<notin> uuid_chars"
    by (simp_all add: uuid_chars_def nul_def newline_def)
  then have "nul \<notin> set (uuid_text E u)" "newline \<notin> set (uuid_text E u)"
    using env_ok_uuid_shape(2) [OF E] by blast+
  then show "generation_ok (uuid_text E u)"
    using env_ok_uuid_shape(1) [OF E, of u]
    by (auto simp: generation_ok_def validate_registry_text_def)
qed

lemma pid_ok_word [simp]: "(p :: pid) \<noteq> 0 \<Longrightarrow> pid_ok (Some (uint p))" "pid_ok None"
proof -
  show "pid_ok (Some (uint p))" if "p \<noteq> 0"
  proof -
    have "uint p < 2 ^ LENGTH(32)" by (rule unsigned_less)
    moreover have "0 < uint p"
      using that by (metis order_le_less uint_0_iff uint_ge_0)
    ultimately show ?thesis by (simp add: pid_ok_def)
  qed
  show "pid_ok None" by (simp add: pid_ok_def)
qed

lemma provider_text_range [simp]: "provider_kind_text p \<in> range provider_kind_text"
  by simp

section \<open>Statements keep the invariant\<close>

text \<open>
  Updates: the key columns stay, and rows that pass the CHECK of their table stay decodable.
  \<open>P\<close> selects rows, so the hypothesis on \<open>f\<close> only has to hold on rows of the table.
\<close>

lemma image_map_eq: "map g xs = map g ys \<Longrightarrow> g ` set xs = g ` set ys"
  by (metis set_map)

lemma update_runtimes_keeps [keeps]:
  assumes upd: "update_runtimes P f db = Inr (n, db')" and ok: "registry_ok E db"
    and keys: "\<And>r. P r \<Longrightarrow> (rt_id (f r), rt_workstream (f r), rt_provider (f r)) =
                       (rt_id r, rt_workstream r, rt_provider r)"
    and row: "\<And>r. r \<in> set (runtime_rows db) \<Longrightarrow> P r \<Longrightarrow> runtime_row_ok E r \<Longrightarrow> runtime_check (f r) \<Longrightarrow>
                runtime_row_ok E (f r)"
  shows "registry_ok E db'"
proof -
  have db': "db' = db\<lparr>runtime_rows := runtime_rows db'\<rparr>"
    using upd by (simp add: updates_Inr)
  have maps: "map rt_id (runtime_rows db') = map rt_id (runtime_rows db)"
    "map rt_workstream (runtime_rows db') = map rt_workstream (runtime_rows db)"
    "map (\<lambda>r. (rt_workstream r, rt_provider r)) (runtime_rows db') =
      map (\<lambda>r. (rt_workstream r, rt_provider r)) (runtime_rows db)"
    "map (\<lambda>r. (rt_id r, rt_provider r)) (runtime_rows db') =
      map (\<lambda>r. (rt_id r, rt_provider r)) (runtime_rows db)"
    using keys by (auto intro!: rt.upd_map [OF upd])
  have "list_all (runtime_row_ok E) (runtime_rows db')"
    using rt.upd_new_rows [OF upd] row registry_ok_rows(2) [OF ok]
    by (fastforce simp: list_all_iff)
  with ok maps maps [THEN image_map_eq] show ?thesis
    by (subst db') (simp add: registry_ok_defs)
qed

lemma update_workstreams_keeps [keeps]:
  assumes upd: "update_workstreams P f db = Inr (n, db')" and ok: "registry_ok E db"
    and keys: "\<And>w. P w \<Longrightarrow> (ws_id (f w), ws_location (f w), ws_provider (f w)) =
                       (ws_id w, ws_location w, ws_provider w)"
    and source: "\<And>w. P w \<Longrightarrow> ws_source (f w) = ws_source w \<or> ws_source (f w) = None"
    and row: "\<And>w. w \<in> set (workstream_rows db) \<Longrightarrow> P w \<Longrightarrow> workstream_row_ok E w \<Longrightarrow>
                workstream_check (f w) \<Longrightarrow> workstream_row_ok E (f w)"
  shows "registry_ok E db'"
proof -
  have db': "db' = db\<lparr>workstream_rows := workstream_rows db'\<rparr>"
    using upd by (simp add: updates_Inr)
  have maps: "map ws_id (workstream_rows db') = map ws_id (workstream_rows db)"
    "map ws_location (workstream_rows db') = map ws_location (workstream_rows db)"
    "map (\<lambda>w. (ws_id w, ws_provider w)) (workstream_rows db') =
      map (\<lambda>w. (ws_id w, ws_provider w)) (workstream_rows db)"
    using keys by (auto intro!: ws.upd_map [OF upd])
  have "ws_source w' \<in> insert None (ws_source ` set (workstream_rows db))"
    if "w' \<in> set (workstream_rows db')" for w'
    using ws.upd_new_rows [OF upd that] source by (auto simp: image_iff)
  moreover have "\<forall>w \<in> set (workstream_rows db). \<forall>s \<in> set_option (ws_source w).
      s \<in> ws_id ` set (workstream_rows db)"
    using ok by (simp add: registry_ok_def foreign_keys_hold_def)
  ultimately have sources: "\<forall>w \<in> set (workstream_rows db'). \<forall>s \<in> set_option (ws_source w).
      s \<in> ws_id ` set (workstream_rows db)"
    by (metis empty_iff imageE insertE option.set(1))
  have "list_all (workstream_row_ok E) (workstream_rows db')"
    using ws.upd_new_rows [OF upd] row registry_ok_rows(1) [OF ok]
    by (fastforce simp: list_all_iff)
  with ok maps maps [THEN image_map_eq] sources show ?thesis
    by (subst db') (simp add: registry_ok_defs)
qed

lemma update_bindings_keeps [keeps]:
  assumes upd: "update_bindings P f db = Inr (n, db')" and ok: "registry_ok E db"
    and keys: "\<And>b. P b \<Longrightarrow> (bd_id (f b), bd_runtime (f b), bd_provider (f b)) =
                       (bd_id b, bd_runtime b, bd_provider b)"
    and row: "\<And>b. b \<in> set (binding_rows db) \<Longrightarrow> P b \<Longrightarrow> binding_row_ok E b \<Longrightarrow> binding_check (f b) \<Longrightarrow>
                binding_row_ok E (f b)"
  shows "registry_ok E db'"
proof -
  have db': "db' = db\<lparr>binding_rows := binding_rows db'\<rparr>"
    using upd by (simp add: updates_Inr)
  have maps: "map bd_id (binding_rows db') = map bd_id (binding_rows db)"
    "map bd_runtime (binding_rows db') = map bd_runtime (binding_rows db)"
    "map (\<lambda>b. (bd_runtime b, bd_provider b)) (binding_rows db') =
      map (\<lambda>b. (bd_runtime b, bd_provider b)) (binding_rows db)"
    using keys by (auto intro!: bd.upd_map [OF upd])
  have "list_all (binding_row_ok E) (binding_rows db')"
    using bd.upd_new_rows [OF upd] row registry_ok_rows(3) [OF ok]
    by (fastforce simp: list_all_iff)
  with ok maps maps [THEN image_map_eq] show ?thesis
    by (subst db') (simp add: registry_ok_defs)
qed

lemma update_handles_keeps [keeps]:
  assumes upd: "update_handles P f db = Inr (n, db')" and ok: "registry_ok E db"
    and keys: "\<And>h. P h \<Longrightarrow> hd_runtime (f h) = hd_runtime h"
    and row: "\<And>h. h \<in> set (handle_rows db) \<Longrightarrow> P h \<Longrightarrow> handle_row_ok E h \<Longrightarrow> handle_check (f h) \<Longrightarrow>
                handle_row_ok E (f h)"
  shows "registry_ok E db'"
proof -
  have db': "db' = db\<lparr>handle_rows := handle_rows db'\<rparr>"
    using upd by (simp add: updates_Inr)
  have maps: "map hd_runtime (handle_rows db') = map hd_runtime (handle_rows db)"
    using keys by (intro hn.upd_map [OF upd])
  have "list_all (handle_row_ok E) (handle_rows db')"
    using hn.upd_new_rows [OF upd] row registry_ok_rows(4) [OF ok]
    by (fastforce simp: list_all_iff)
  with ok maps image_map_eq [OF maps] show ?thesis
    by (subst db') (simp add: registry_ok_defs)
qed

lemma update_operations_keeps [keeps]:
  assumes upd: "update_operations P f db = Inr (n, db')" and ok: "registry_ok E db"
    and keys: "\<And>p. P p \<Longrightarrow> (op_id (f p), op_request_key (f p)) = (op_id p, op_request_key p)"
    and row: "\<And>p. p \<in> set (operation_rows db) \<Longrightarrow> P p \<Longrightarrow> operation_row_ok E p \<Longrightarrow> operation_check (f p) \<Longrightarrow>
                operation_row_ok E (f p)"
  shows "registry_ok E db'"
proof -
  have db': "db' = db\<lparr>operation_rows := operation_rows db'\<rparr>"
    using upd by (simp add: updates_Inr)
  have maps: "map op_id (operation_rows db') = map op_id (operation_rows db)"
    "map op_request_key (operation_rows db') = map op_request_key (operation_rows db)"
    using keys by (auto intro!: op.upd_map [OF upd])
  have "list_all (operation_row_ok E) (operation_rows db')"
    using op.upd_new_rows [OF upd] row registry_ok_rows(5) [OF ok]
    by (fastforce simp: list_all_iff)
  with ok maps maps [THEN image_map_eq] show ?thesis
    by (subst db') (simp add: registry_ok_defs)
qed

lemma update_integrations_keeps [keeps]:
  assumes upd: "update_integrations P f db = Inr (n, db')" and ok: "registry_ok E db"
    and keys: "\<And>g. P g \<Longrightarrow> ig_profile_name (f g) = ig_profile_name g"
    and row: "\<And>g. g \<in> set (integration_rows db) \<Longrightarrow> P g \<Longrightarrow> integration_row_ok g \<Longrightarrow>
                integration_check (f g) \<Longrightarrow> integration_row_ok (f g)"
  shows "registry_ok E db'"
proof -
  have db': "db' = db\<lparr>integration_rows := integration_rows db'\<rparr>"
    using upd by (simp add: updates_Inr)
  have maps: "map ig_profile_name (integration_rows db') = map ig_profile_name (integration_rows db)"
    using keys by (intro ig.upd_map [OF upd])
  have "list_all integration_row_ok (integration_rows db')"
    using ig.upd_new_rows [OF upd] row registry_ok_rows(6) [OF ok]
    by (fastforce simp: list_all_iff)
  with ok maps show ?thesis
    by (subst db') (simp add: registry_ok_defs)
qed

text \<open>Inserts: the constraints of the table give the keys and references.\<close>

lemma insert_runtime_keeps [keeps]:
  assumes "insert_runtime r db = Inr db'" and "registry_ok E db" and "runtime_row_ok E r"
    and "(rt_workstream r, rt_provider r) \<in> (\<lambda>w. (ws_id w, ws_provider w)) ` set (workstream_rows db)"
  shows "registry_ok E db'"
proof -
  from assms(1) have "db' = db\<lparr>runtime_rows := runtime_rows db @ [r]\<rparr>"
    and "rt_id r \<notin> rt_id ` set (runtime_rows db)"
    and "rt_workstream r \<notin> rt_workstream ` set (runtime_rows db)"
    and "rt_workstream r \<in> ws_id ` set (workstream_rows db)"
    by (simp_all add: insert_runtime_def)
  with assms(2-4) show ?thesis
    by (simp add: registry_ok_defs subset_insertI2)
qed

lemma insert_workstream_keeps [keeps]:
  assumes "insert_workstream w db = Inr db'" and "registry_ok E db" and "workstream_row_ok E w"
  shows "registry_ok E db'"
proof -
  from assms(1) have "db' = db\<lparr>workstream_rows := workstream_rows db @ [w]\<rparr>"
    and "ws_id w \<notin> ws_id ` set (workstream_rows db)"
    and "ws_location w \<in> lc_id ` set (location_rows db)"
    and "\<forall>s \<in> set_option (ws_source w). s = ws_id w \<or> s \<in> ws_id ` set (workstream_rows db)"
    by (auto simp: insert_workstream_def split: option.splits)
  moreover have "\<forall>v \<in> set (workstream_rows db). \<forall>s \<in> set_option (ws_source v).
      s = ws_id w \<or> s \<in> ws_id ` set (workstream_rows db)"
    using assms(2) by (simp add: registry_ok_def foreign_keys_hold_def)
  ultimately show ?thesis
    using assms(2,3) by (simp add: registry_ok_defs subset_insertI2)
qed

lemma insert_request_keeps [keeps]:
  assumes "insert_request q db = Inr db'" and "registry_ok E db"
  shows "registry_ok E db'"
  using assms by (auto simp: insert_request_def registry_ok_defs)

lemma insert_binding_keeps [keeps]:
  assumes "insert_binding b db = Inr db'" and "registry_ok E db" and "binding_row_ok E b"
    and "(bd_runtime b, bd_provider b) \<in> (\<lambda>r. (rt_id r, rt_provider r)) ` set (runtime_rows db)"
  shows "registry_ok E db'"
proof -
  from assms(1) have "db' = db\<lparr>binding_rows := binding_rows db @ [b]\<rparr>"
    and "bd_id b \<notin> bd_id ` set (binding_rows db)"
    and "bd_runtime b \<notin> bd_runtime ` set (binding_rows db)"
    and "bd_runtime b \<in> rt_id ` set (runtime_rows db)"
    by (simp_all add: insert_binding_def)
  with assms(2-4) show ?thesis
    by (simp add: registry_ok_defs)
qed

lemma insert_handle_keeps [keeps]:
  assumes "insert_handle h db = Inr db'" and "registry_ok E db" and "handle_row_ok E h"
  shows "registry_ok E db'"
  using assms by (auto simp: insert_handle_def registry_ok_defs)

lemma operation_append_keeps:
  assumes "op_id p \<notin> op_id ` set (operation_rows db)"
    and "op_request_key p \<notin> op_request_key ` set (operation_rows db)"
    and "registry_ok E db" and "operation_row_ok E p"
  shows "registry_ok E (db\<lparr>operation_rows := operation_rows db @ [p]\<rparr>)"
  using assms by (simp add: registry_ok_defs subset_insertI2)

lemma insert_operation_keeps [keeps]:
  assumes "insert_operation p db = Inr db'" and "registry_ok E db" and "operation_row_ok E p"
  shows "registry_ok E db'"
  using assms operation_append_keeps [of p db E] by (simp add: insert_operation_def)

lemma insert_or_ignore_operation_keeps [keeps]:
  assumes "insert_or_ignore_operation p db = Inr (n, db')" and "registry_ok E db"
    and "operation_row_ok E p"
  shows "registry_ok E db'"
  using assms operation_append_keeps [of p db E]
  by (auto simp: insert_or_ignore_operation_def split: if_splits)

lemma insert_or_ignore_settled_keeps [keeps]:
  assumes "insert_or_ignore_settled i g s m db = Inr (n, db')" and "registry_ok E db"
  shows "registry_ok E db'"
proof -
  have "registry_ok E (db\<lparr>settled_rows := settled_rows db @ [x], settled_sequence := k\<rparr>)"
    if "sm_runtime x \<in> rt_id ` set (runtime_rows db)" for x k
    using that assms(2) by (simp add: registry_ok_defs)
  with assms show ?thesis
    by (auto simp: insert_or_ignore_settled_def split: if_splits)
qed

lemma insert_integration_keeps [keeps]:
  assumes "insert_integration g db = Inr db'" and "registry_ok E db" and "integration_row_ok g"
  shows "registry_ok E db'"
  using assms by (auto simp: insert_integration_def registry_ok_defs)

lemma update_projects_keeps [keeps]:
  assumes upd: "update_projects P f db = Inr (n, db')" and ok: "registry_ok E db"
    and keys: "\<And>p. P p \<Longrightarrow> (pj_id (f p), pj_label_location (f p)) = (pj_id p, pj_label_location p)"
  shows "registry_ok E db'"
proof -
  have db': "db' = db\<lparr>project_rows := project_rows db'\<rparr>"
    using upd by (simp add: updates_Inr)
  have maps: "map pj_id (project_rows db') = map pj_id (project_rows db)"
    "map pj_label_location (project_rows db') = map pj_label_location (project_rows db)"
    using keys by (auto intro!: pj.upd_map [OF upd])
  with ok maps [THEN image_map_eq] show ?thesis
    by (subst db') (simp add: registry_ok_defs)
qed

lemma update_locations_keeps [keeps]:
  assumes upd: "update_locations P f db = Inr (n, db')" and ok: "registry_ok E db"
    and keys: "\<And>l. P l \<Longrightarrow> lc_id (f l) = lc_id l"
  shows "registry_ok E db'"
proof -
  let ?rows = "sql_update_rows P f (location_rows db)"
  from upd have db': "db' = db\<lparr>location_rows := ?rows\<rparr>"
    and moved: "\<forall>l \<in> set (map f (filter P (location_rows db))).
      \<forall>p \<in> set_option (lc_project l). p \<in> pj_id ` set (project_rows db)"
    by (auto simp: update_locations_def exec_update_def split: if_splits)
  have ids: "map lc_id ?rows = map lc_id (location_rows db)"
    using keys by (simp add: map_key_update_rows)
  have "\<forall>l \<in> set ?rows. \<forall>p \<in> set_option (lc_project l). p \<in> pj_id ` set (project_rows db)"
    using moved ok by (auto simp: set_sql_update_rows registry_ok_def foreign_keys_hold_def)
  with ok ids image_map_eq [OF ids] show ?thesis
    unfolding db' by (simp add: registry_ok_defs)
qed

lemma insert_location_keeps [keeps]:
  assumes "insert_location l db = Inr db'" and "registry_ok E db"
  shows "registry_ok E db'"
  using assms by (auto simp: insert_location_def registry_ok_defs)

lemma insert_project_keeps [keeps]:
  assumes "insert_project p db = Inr db'" and "registry_ok E db"
  shows "registry_ok E db'"
  using assms by (auto simp: insert_project_def registry_ok_defs)

lemma insert_target_keeps [keeps]:
  assumes "insert_target t db = Inr db'" and "registry_ok E db"
  shows "registry_ok E db'"
  using assms by (auto simp: insert_target_def registry_ok_defs)

text \<open>Deletions: fewer rows keep every key; a deleted parent is not referenced any more.\<close>

lemma delete_rows_facts:
  "set (sql_delete_rows P xs) \<subseteq> set xs"
  "distinct (map f xs) \<Longrightarrow> distinct (map f (sql_delete_rows P xs))"
  "list_all Q xs \<Longrightarrow> list_all Q (sql_delete_rows P xs)"
  by (auto simp: sql_delete_rows_def distinct_map_filter list_all_iff)

lemma image_delete_rows: "f ` set xs \<subseteq> A \<Longrightarrow> f ` set (sql_delete_rows P xs) \<subseteq> A"
  using delete_rows_facts(1) [of P xs] by blast

lemmas delete_rows_simps = delete_rows_facts(2,3) image_delete_rows

lemma delete_settled_keeps [keeps]:
  assumes "delete_settled P db = Inr (n, db')" and ok: "registry_ok E db"
  shows "registry_ok E db'"
proof -
  from assms(1) have db': "db' = db\<lparr>settled_rows := sql_delete_rows P (settled_rows db)\<rparr>"
    by (simp add: delete_settled_def)
  show ?thesis
    using ok unfolding db' by (simp add: registry_ok_defs delete_rows_simps)
qed

lemma delete_handles_keeps [keeps]:
  assumes "delete_handles P db = Inr (n, db')" and ok: "registry_ok E db"
  shows "registry_ok E db'"
proof -
  from assms(1) have db': "db' = db\<lparr>handle_rows := sql_delete_rows P (handle_rows db)\<rparr>"
    by (simp add: delete_handles_def)
  show ?thesis
    using ok unfolding db' by (simp add: registry_ok_defs delete_rows_simps)
qed

lemma delete_bindings_keeps [keeps]:
  assumes "delete_bindings P db = Inr (n, db')" and ok: "registry_ok E db"
  shows "registry_ok E db'"
proof -
  from assms(1) have db': "db' = db\<lparr>binding_rows := sql_delete_rows P (binding_rows db)\<rparr>"
    by (simp add: delete_bindings_def)
  show ?thesis
    using ok unfolding db' by (simp add: registry_ok_defs delete_rows_simps)
qed

lemma delete_attention_keeps [keeps]:
  assumes "delete_attention P db = Inr (n, db')" and ok: "registry_ok E db"
  shows "registry_ok E db'"
proof -
  from assms(1) have db': "db' = db\<lparr>attention_rows := sql_delete_rows P (attention_rows db)\<rparr>"
    by (simp add: delete_attention_def)
  show ?thesis
    using ok unfolding db' by (simp add: registry_ok_defs delete_rows_simps)
qed

lemma delete_requests_keeps [keeps]:
  assumes "delete_requests P db = Inr (n, db')" and ok: "registry_ok E db"
  shows "registry_ok E db'"
proof -
  from assms(1) have db': "db' = db\<lparr>request_rows := sql_delete_rows P (request_rows db)\<rparr>"
    by (simp add: delete_requests_def)
  show ?thesis
    using ok unfolding db' by (simp add: registry_ok_defs delete_rows_simps)
qed

lemma delete_targets_keeps [keeps]:
  assumes "delete_targets P db = Inr (n, db')" and ok: "registry_ok E db"
  shows "registry_ok E db'"
proof -
  from assms(1) have db': "db' = db\<lparr>target_rows := sql_delete_rows P (target_rows db)\<rparr>"
    by (simp add: delete_targets_def)
  show ?thesis
    using ok unfolding db' by (simp add: registry_ok_defs delete_rows_simps)
qed

lemma delete_integrations_keeps [keeps]:
  assumes "delete_integrations P db = Inr (n, db')" and ok: "registry_ok E db"
  shows "registry_ok E db'"
proof -
  from assms(1) have db': "db' = db\<lparr>integration_rows := sql_delete_rows P (integration_rows db)\<rparr>"
    by (simp add: delete_integrations_def)
  show ?thesis
    using ok unfolding db' by (simp add: registry_ok_defs delete_rows_simps)
qed

lemma delete_locations_facts:
  assumes "delete_locations P db = Inr (n, db')"
  shows "db' = db\<lparr>location_rows := sql_delete_rows P (location_rows db)\<rparr>"
    and "lc_id ` set (filter P (location_rows db)) \<inter>
      (ws_location ` set (workstream_rows db) \<union> pj_label_location ` set (project_rows db)) = {}"
    and "n = sql_count P (location_rows db)"
  using assms by (simp_all add: delete_locations_def Let_def)

lemma delete_projects_facts:
  assumes "delete_projects P db = Inr (n, db')"
  shows "db' = db\<lparr>project_rows := sql_delete_rows P (project_rows db)\<rparr>"
    and "\<forall>l \<in> set (location_rows db). \<forall>p \<in> set_option (lc_project l).
      p \<notin> pj_id ` set (filter P (project_rows db))"
    and "n = sql_count P (project_rows db)"
  using assms by (simp_all add: delete_projects_def Let_def)

text \<open>What is left of the parents still covers what the children name.\<close>

lemma delete_covers:
  assumes "g ` A \<subseteq> f ` set xs" and "fst ` (g ` A) \<inter> key ` set (filter P xs) = {}"
    and "\<And>x. fst (f x) = key x"
  shows "g ` A \<subseteq> f ` set (sql_delete_rows P xs)"
proof
  fix y
  assume y: "y \<in> g ` A"
  with assms(1) obtain x where x: "x \<in> set xs" "y = f x" by blast
  with y assms(3) have "key x \<in> fst ` (g ` A)" by (metis image_eqI)
  with assms(2) x(1) have "\<not> P x" by (auto simp: disjoint_iff)
  with x show "y \<in> f ` set (sql_delete_rows P xs)"
    by (auto simp: sql_delete_rows_def)
qed

lemma delete_covers_key:
  assumes "A \<subseteq> key ` set xs" and "A \<inter> key ` set (filter P xs) = {}"
  shows "A \<subseteq> key ` set (sql_delete_rows P xs)"
  using assms by (fastforce simp: sql_delete_rows_def)

lemma delete_locations_keeps [keeps]:
  assumes del: "delete_locations P db = Inr (n, db')" and ok: "registry_ok E db"
  shows "registry_ok E db'"
proof -
  note facts = delete_locations_facts [OF del]
  from ok have refs: "ws_location ` set (workstream_rows db) \<subseteq> lc_id ` set (location_rows db)"
    "pj_label_location ` set (project_rows db) \<subseteq> lc_id ` set (location_rows db)"
    by (simp_all add: registry_ok_def foreign_keys_hold_def)
  have "ws_location ` set (workstream_rows db) \<subseteq> lc_id ` set (sql_delete_rows P (location_rows db))"
    by (rule delete_covers_key [OF refs(1)]) (use facts(2) in blast)
  moreover have "pj_label_location ` set (project_rows db)
      \<subseteq> lc_id ` set (sql_delete_rows P (location_rows db))"
    by (rule delete_covers_key [OF refs(2)]) (use facts(2) in blast)
  moreover have "\<forall>l \<in> set (sql_delete_rows P (location_rows db)). \<forall>p \<in> set_option (lc_project l).
      p \<in> pj_id ` set (project_rows db)"
    using ok delete_rows_facts(1) [of P "location_rows db"]
    by (auto simp: registry_ok_def foreign_keys_hold_def)
  ultimately show ?thesis
    using ok unfolding facts(1) by (simp add: registry_ok_defs delete_rows_simps)
qed

lemma delete_projects_keeps [keeps]:
  assumes del: "delete_projects P db = Inr (n, db')" and ok: "registry_ok E db"
  shows "registry_ok E db'"
proof -
  note facts = delete_projects_facts [OF del]
  have "(\<Union>l \<in> set (location_rows db). set_option (lc_project l))
      \<subseteq> pj_id ` set (sql_delete_rows P (project_rows db))"
    by (rule delete_covers_key)
      (use ok facts(2) in \<open>auto simp: registry_ok_def foreign_keys_hold_def\<close>)
  then have "\<forall>l \<in> set (location_rows db). \<forall>p \<in> set_option (lc_project l).
      p \<in> pj_id ` set (sql_delete_rows P (project_rows db))"
    by blast
  then show ?thesis
    using ok unfolding facts(1) by (simp add: registry_ok_defs delete_rows_simps)
qed

lemma delete_runtimes_keeps [keeps]:
  assumes del: "delete_runtimes P db = Inr (n, db')" and ok: "registry_ok E db"
  shows "registry_ok E db'"
proof -
  let ?rest = "sql_delete_rows P (runtime_rows db)"
  from del have db': "db' = db\<lparr>runtime_rows := ?rest\<rparr>"
    and free: "rt_id ` set (filter P (runtime_rows db)) \<inter>
      (bd_runtime ` set (binding_rows db) \<union> hd_runtime ` set (handle_rows db)
       \<union> sm_runtime ` set (settled_rows db)) = {}"
    by (simp_all add: delete_runtimes_def Let_def)
  from ok have refs: "bd_runtime ` set (binding_rows db) \<subseteq> rt_id ` set (runtime_rows db)"
    "hd_runtime ` set (handle_rows db) \<subseteq> rt_id ` set (runtime_rows db)"
    "sm_runtime ` set (settled_rows db) \<subseteq> rt_id ` set (runtime_rows db)"
    by (simp_all add: registry_ok_def foreign_keys_hold_def)
  from ok have agree: "(\<lambda>b. (bd_runtime b, bd_provider b)) ` set (binding_rows db)
      \<subseteq> (\<lambda>r. (rt_id r, rt_provider r)) ` set (runtime_rows db)"
    by (simp add: registry_ok_def providers_agree_def)
  have "bd_runtime ` set (binding_rows db) \<subseteq> rt_id ` set ?rest"
    by (rule delete_covers_key [OF refs(1)]) (use free in blast)
  moreover have "hd_runtime ` set (handle_rows db) \<subseteq> rt_id ` set ?rest"
    by (rule delete_covers_key [OF refs(2)]) (use free in blast)
  moreover have "sm_runtime ` set (settled_rows db) \<subseteq> rt_id ` set ?rest"
    by (rule delete_covers_key [OF refs(3)]) (use free in blast)
  moreover have "(\<lambda>b. (bd_runtime b, bd_provider b)) ` set (binding_rows db)
      \<subseteq> (\<lambda>r. (rt_id r, rt_provider r)) ` set ?rest"
    by (rule delete_covers [where key = rt_id, OF agree]) (use free in \<open>auto simp: image_image\<close>)
  ultimately show ?thesis
    using ok unfolding db' by (simp add: registry_ok_defs delete_rows_simps)
qed

lemma delete_workstreams_keeps [keeps]:
  assumes del: "delete_workstreams P db = Inr (n, db')" and ok: "registry_ok E db"
  shows "registry_ok E db'"
proof -
  let ?rest = "sql_delete_rows P (workstream_rows db)"
  let ?gone = "ws_id ` set (filter P (workstream_rows db))"
  from del have db': "db' = db\<lparr>workstream_rows := ?rest\<rparr>"
    and free: "?gone \<inter> (rt_workstream ` set (runtime_rows db) \<union> rq_source ` set (request_rows db)
                       \<union> rq_workstream ` set (request_rows db)) = {}"
    and sources: "\<forall>w \<in> set ?rest. \<forall>s \<in> set_option (ws_source w). s \<notin> ?gone"
    by (simp_all add: delete_workstreams_def Let_def)
  from ok have refs: "rt_workstream ` set (runtime_rows db) \<subseteq> ws_id ` set (workstream_rows db)"
    "rq_source ` set (request_rows db) \<subseteq> ws_id ` set (workstream_rows db)"
    "rq_workstream ` set (request_rows db) \<subseteq> ws_id ` set (workstream_rows db)"
    "\<forall>w \<in> set (workstream_rows db). \<forall>s \<in> set_option (ws_source w). s \<in> ws_id ` set (workstream_rows db)"
    by (simp_all add: registry_ok_def foreign_keys_hold_def)
  from ok have agree: "(\<lambda>r. (rt_workstream r, rt_provider r)) ` set (runtime_rows db)
      \<subseteq> (\<lambda>w. (ws_id w, ws_provider w)) ` set (workstream_rows db)"
    by (simp add: registry_ok_def providers_agree_def)
  have runtimes: "rt_workstream ` set (runtime_rows db) \<subseteq> ws_id ` set ?rest"
    by (rule delete_covers_key [OF refs(1)]) (use free in blast)
  have requests: "rq_source ` set (request_rows db) \<subseteq> ws_id ` set ?rest"
    "rq_workstream ` set (request_rows db) \<subseteq> ws_id ` set ?rest"
    by (rule delete_covers_key [OF refs(2)], use free in blast,
        rule delete_covers_key [OF refs(3)], use free in blast)
  have "(\<Union>w \<in> set ?rest. set_option (ws_source w)) \<subseteq> ws_id ` set (workstream_rows db)"
  proof (rule UN_least)
    fix w
    assume "w \<in> set ?rest"
    then have "w \<in> set (workstream_rows db)" by (rule subsetD [OF delete_rows_facts(1)])
    with refs(4) show "set_option (ws_source w) \<subseteq> ws_id ` set (workstream_rows db)" by blast
  qed
  moreover have "(\<Union>w \<in> set ?rest. set_option (ws_source w)) \<inter> ?gone = {}"
    using sources by blast
  ultimately have "(\<Union>w \<in> set ?rest. set_option (ws_source w)) \<subseteq> ws_id ` set ?rest"
    by (rule delete_covers_key)
  then have lineage: "\<forall>w \<in> set ?rest. \<forall>s \<in> set_option (ws_source w). s \<in> ws_id ` set ?rest"
    by blast
  have agree': "(\<lambda>r. (rt_workstream r, rt_provider r)) ` set (runtime_rows db)
      \<subseteq> (\<lambda>w. (ws_id w, ws_provider w)) ` set ?rest"
    by (rule delete_covers [where key = ws_id, OF agree]) (use free in \<open>auto simp: image_image\<close>)
  have locations: "ws_location ` set ?rest \<subseteq> lc_id ` set (location_rows db)"
    by (rule image_delete_rows) (use ok in \<open>simp add: registry_ok_def foreign_keys_hold_def\<close>)
  have "keys_ok db'"
    using ok unfolding db' by (simp add: registry_ok_def keys_ok_def delete_rows_simps)
  moreover have "rows_ok E db'"
    using ok unfolding db' by (simp add: registry_ok_def rows_ok_def delete_rows_simps)
  moreover have "providers_agree db'"
    using ok agree' unfolding db' by (simp add: registry_ok_def providers_agree_def)
  moreover have "foreign_keys_hold db'"
  proof -
    from ok have "foreign_keys_hold db" by (simp add: registry_ok_def)
    with runtimes requests lineage locations show ?thesis
      unfolding db' foreign_keys_hold_def by (simp del: imp_disjL ball_simps)
  qed
  ultimately show ?thesis by (simp add: registry_ok_def)
qed

lemma delete_operations_keeps [keeps]:
  assumes del: "delete_operations P db = Inr (n, db')" and ok: "registry_ok E db"
  shows "registry_ok E db'"
proof -
  let ?rest = "sql_delete_rows P (operation_rows db)"
  from del have db': "db' = db\<lparr>operation_rows := ?rest\<rparr>"
    and free: "op_id ` set (filter P (operation_rows db)) \<inter> tg_operation ` set (target_rows db) = {}"
    by (simp_all add: delete_operations_def Let_def)
  have "tg_operation ` set (target_rows db) \<subseteq> op_id ` set ?rest"
    by (rule delete_covers_key) (use free ok in \<open>auto simp: registry_ok_def foreign_keys_hold_def\<close>)
  with ok show ?thesis
    unfolding db' by (simp add: registry_ok_defs delete_rows_simps)
qed

section \<open>Histories\<close>

text \<open>
  \<open>progress db db'\<close>: in each versioned table every row of \<open>db\<close> is still there in \<open>db'\<close>, untouched
  or with a greater revision. This is what makes a revision a fence: a record read earlier is
  current exactly when its revision still is. Deletions are the exception; they are named where
  they happen.
\<close>

definition progress :: "registry \<Rightarrow> registry \<Rightarrow> bool" where
  "progress db db' \<longleftrightarrow>
     advances ws_id ws_revision (workstream_rows db) (workstream_rows db') \<and>
     advances rt_id rt_revision (runtime_rows db) (runtime_rows db') \<and>
     advances bd_runtime bd_revision (binding_rows db) (binding_rows db') \<and>
     advances hd_runtime hd_revision (handle_rows db) (handle_rows db') \<and>
     advances op_id op_revision (operation_rows db) (operation_rows db')"

lemma progress_refl [simp, intro]: "progress db db"
  by (simp add: progress_def)

lemma progress_trans [trans]: "progress a b \<Longrightarrow> progress b c \<Longrightarrow> progress a c"
  unfolding progress_def by (blast intro: advances_trans)

lemma update_runtimes_progress [progresses]:
  assumes upd: "update_runtimes P f db = Inr (n, db')"
    and up: "\<And>r. r \<in> set (runtime_rows db) \<Longrightarrow> P r \<Longrightarrow> runtime_check (f r) \<Longrightarrow>
               rt_id (f r) = rt_id r \<and> rt_revision r < rt_revision (f r)"
  shows "progress db db'"
proof -
  have "advances rt_id rt_revision (runtime_rows db) (runtime_rows db')"
    using upd up by (rule rt.upd_advances)
  moreover have "db' = db\<lparr>runtime_rows := sql_update_rows P f (runtime_rows db)\<rparr>"
    using upd by (simp add: updates_Inr)
  ultimately show ?thesis by (simp add: progress_def)
qed

lemma update_workstreams_progress [progresses]:
  assumes upd: "update_workstreams P f db = Inr (n, db')"
    and up: "\<And>w. w \<in> set (workstream_rows db) \<Longrightarrow> P w \<Longrightarrow> workstream_check (f w) \<Longrightarrow>
               ws_id (f w) = ws_id w \<and> ws_revision w < ws_revision (f w)"
  shows "progress db db'"
proof -
  have "advances ws_id ws_revision (workstream_rows db) (workstream_rows db')"
    using upd up by (rule ws.upd_advances)
  moreover have "db' = db\<lparr>workstream_rows := sql_update_rows P f (workstream_rows db)\<rparr>"
    using upd by (simp add: updates_Inr)
  ultimately show ?thesis by (simp add: progress_def)
qed

lemma update_bindings_progress [progresses]:
  assumes upd: "update_bindings P f db = Inr (n, db')"
    and up: "\<And>b. b \<in> set (binding_rows db) \<Longrightarrow> P b \<Longrightarrow> binding_check (f b) \<Longrightarrow>
               bd_runtime (f b) = bd_runtime b \<and> bd_revision b < bd_revision (f b)"
  shows "progress db db'"
proof -
  have "advances bd_runtime bd_revision (binding_rows db) (binding_rows db')"
    using upd up by (rule bd.upd_advances)
  moreover have "db' = db\<lparr>binding_rows := sql_update_rows P f (binding_rows db)\<rparr>"
    using upd by (simp add: updates_Inr)
  ultimately show ?thesis by (simp add: progress_def)
qed

lemma update_handles_progress [progresses]:
  assumes upd: "update_handles P f db = Inr (n, db')"
    and up: "\<And>h. h \<in> set (handle_rows db) \<Longrightarrow> P h \<Longrightarrow> handle_check (f h) \<Longrightarrow>
               hd_runtime (f h) = hd_runtime h \<and> hd_revision h < hd_revision (f h)"
  shows "progress db db'"
proof -
  have "advances hd_runtime hd_revision (handle_rows db) (handle_rows db')"
    using upd up by (rule hn.upd_advances)
  moreover have "db' = db\<lparr>handle_rows := sql_update_rows P f (handle_rows db)\<rparr>"
    using upd by (simp add: updates_Inr)
  ultimately show ?thesis by (simp add: progress_def)
qed

lemma update_operations_progress [progresses]:
  assumes upd: "update_operations P f db = Inr (n, db')"
    and up: "\<And>p. p \<in> set (operation_rows db) \<Longrightarrow> P p \<Longrightarrow> operation_check (f p) \<Longrightarrow>
               op_id (f p) = op_id p \<and> op_revision p < op_revision (f p)"
  shows "progress db db'"
proof -
  have "advances op_id op_revision (operation_rows db) (operation_rows db')"
    using upd up by (rule op.upd_advances)
  moreover have "db' = db\<lparr>operation_rows := sql_update_rows P f (operation_rows db)\<rparr>"
    using upd by (simp add: updates_Inr)
  ultimately show ?thesis by (simp add: progress_def)
qed

lemma update_integrations_progress [progresses]:
  "update_integrations P f db = Inr (n, db') \<Longrightarrow> progress db db'"
  by (auto simp: updates_Inr progress_def)

lemma insert_workstream_progress [progresses]:
  "insert_workstream w db = Inr db' \<Longrightarrow> progress db db'"
  by (simp add: insert_workstream_def progress_def)

lemma insert_request_progress [progresses]:
  "insert_request q db = Inr db' \<Longrightarrow> progress db db'"
  by (simp add: insert_request_def progress_def)

lemma insert_runtime_progress [progresses]:
  "insert_runtime r db = Inr db' \<Longrightarrow> progress db db'"
  by (simp add: insert_runtime_def progress_def)

lemma insert_binding_progress [progresses]:
  "insert_binding b db = Inr db' \<Longrightarrow> progress db db'"
  by (simp add: insert_binding_def progress_def)

lemma insert_handle_progress [progresses]:
  "insert_handle h db = Inr db' \<Longrightarrow> progress db db'"
  by (simp add: insert_handle_def progress_def)

lemma insert_operation_progress [progresses]:
  "insert_operation p db = Inr db' \<Longrightarrow> progress db db'"
  by (simp add: insert_operation_def progress_def)

lemma insert_integration_progress [progresses]:
  "insert_integration g db = Inr db' \<Longrightarrow> progress db db'"
  by (simp add: insert_integration_def progress_def)

lemma insert_or_ignore_operation_progress [progresses]:
  "insert_or_ignore_operation p db = Inr (n, db') \<Longrightarrow> progress db db'"
  by (auto simp: insert_or_ignore_operation_def progress_def split: if_splits)

lemma insert_or_ignore_settled_progress [progresses]:
  "insert_or_ignore_settled i g s m db = Inr (n, db') \<Longrightarrow> progress db db'"
  by (auto simp: insert_or_ignore_settled_def progress_def split: if_splits)

lemma delete_integrations_progress [progresses]:
  "delete_integrations P db = Inr (n, db') \<Longrightarrow> progress db db'"
  by (auto simp: delete_integrations_def progress_def)

lemma other_table_progress [progresses]:
  "update_projects PP pf db = Inr (n, db') \<Longrightarrow> progress db db'"
  "update_locations LP lf db = Inr (n, db') \<Longrightarrow> progress db db'"
  "insert_location l db = Inr db' \<Longrightarrow> progress db db'"
  "insert_project p db = Inr db' \<Longrightarrow> progress db db'"
  "insert_target t db = Inr db' \<Longrightarrow> progress db db'"
  by (auto simp: updates_Inr update_locations_def exec_update_def insert_location_def
      insert_project_def insert_target_def progress_def split: if_splits)

section \<open>The shared helpers\<close>

lemma status_texts [simp]:
  "''starting'' \<in> range runtime_status_text" "''idle'' \<in> range runtime_status_text"
  "''working'' \<in> range runtime_status_text" "''attention'' \<in> range runtime_status_text"
  "''stopped'' \<in> range runtime_status_text" "''unknown'' \<in> range runtime_status_text"
  by (simp_all add: range_text_iff)

lemma lifecycle_texts [simp]:
  "''open'' \<in> range workstream_lifecycle_text" "''parked'' \<in> range workstream_lifecycle_text"
  "''recovery_required'' \<in> range workstream_lifecycle_text"
  by (simp_all add: range_text_iff)

lemma touch_workstream_keeps [keeps]:
  "touch_workstream k t db = Inr db' \<Longrightarrow> registry_ok E db \<Longrightarrow> registry_ok E db'"
  unfolding touch_workstream_def one_row_Inr
  by (erule update_workstreams_keeps) (auto simp: workstream_row_ok_def)

lemma touch_workstream_progress [progresses]:
  "touch_workstream k t db = Inr db' \<Longrightarrow> progress db db'"
  unfolding touch_workstream_def one_row_Inr by (erule update_workstreams_progress) auto

lemma reopen_parked_keeps [keeps]:
  "reopen_parked_workstream E w db = Inr db' \<Longrightarrow> registry_ok E db \<Longrightarrow> registry_ok E db'"
  unfolding reopen_parked_workstream_def one_row_Inr
  by (erule update_workstreams_keeps) (auto simp: workstream_row_ok_def)

lemma reopen_parked_progress [progresses]:
  "reopen_parked_workstream E w db = Inr db' \<Longrightarrow> progress db db'"
  unfolding reopen_parked_workstream_def one_row_Inr by (erule update_workstreams_progress) auto

lemma reopen_recovery_keeps [keeps]:
  "reopen_recovery_workstream E w db = Inr db' \<Longrightarrow> registry_ok E db \<Longrightarrow> registry_ok E db'"
  unfolding reopen_recovery_workstream_def one_row_Inr
  by (erule update_workstreams_keeps) (auto simp: workstream_row_ok_def)

lemma reopen_recovery_progress [progresses]:
  "reopen_recovery_workstream E w db = Inr db' \<Longrightarrow> progress db db'"
  unfolding reopen_recovery_workstream_def one_row_Inr by (erule update_workstreams_progress) auto

lemma update_runtime_lifecycle_keeps [keeps]:
  "update_runtime_lifecycle E i v l db = Inr db' \<Longrightarrow> l \<in> range runtime_status_text \<Longrightarrow>
   registry_ok E db \<Longrightarrow> registry_ok E db'"
  unfolding update_runtime_lifecycle_def one_row_Inr
  by (erule update_runtimes_keeps) (auto simp: runtime_row_ok_def)

lemma update_runtime_lifecycle_progress [progresses]:
  "update_runtime_lifecycle E i v l db = Inr db' \<Longrightarrow> progress db db'"
  unfolding update_runtime_lifecycle_def one_row_Inr by (erule update_runtimes_progress) auto

lemma workstream_to_recovery_step:
  assumes "workstream_to_recovery k f db = Inr db'"
  obtains n where "update_workstreams
         (\<lambda>w. ws_id w = k \<and> ws_lifecycle w \<in> {''open'', ''parked''})
         (\<lambda>w. w\<lparr> ws_lifecycle := ''recovery_required'',
                 ws_activity_seq := next_activity_sequence db,
                 ws_revision := ws_revision w + 1 \<rparr>) db = Inr (n, db')"
  using assms that unfolding workstream_to_recovery_def
  by (auto split: if_splits simp del: insert_iff)

lemma workstream_to_recovery_keeps [keeps]:
  assumes "workstream_to_recovery k f db = Inr db'" and "registry_ok E db"
  shows "registry_ok E db'"
  using assms(1)
proof (rule workstream_to_recovery_step)
  fix n
  assume "update_workstreams
         (\<lambda>w. ws_id w = k \<and> ws_lifecycle w \<in> {''open'', ''parked''})
         (\<lambda>w. w\<lparr> ws_lifecycle := ''recovery_required'',
                 ws_activity_seq := next_activity_sequence db,
                 ws_revision := ws_revision w + 1 \<rparr>) db = Inr (n, db')"
  then show ?thesis
    using assms(2) by (rule update_workstreams_keeps) (auto simp: workstream_row_ok_def)
qed

lemma workstream_to_recovery_progress [progresses]:
  "workstream_to_recovery k f db = Inr db' \<Longrightarrow> progress db db'"
  by (erule workstream_to_recovery_step, erule update_workstreams_progress) auto

end
