(* ===== verification/Preservation.thy ===== *)
theory Preservation
  imports Invariants
begin

text \<open>
  Every operation of the registry keeps the integrity invariant and moves revisions forward:
  one lemma of each kind per operation, from the statement lemmas of \<open>Invariants\<close>.
\<close>

text \<open>The statement lemmas as elimination rules: from the last statement of a chain backwards.\<close>

lemmas progress_elims = progresses [THEN progress_trans [rotated]]

lemmas row_kept = runtime_row_ok_def workstream_row_ok_def

section \<open>The end of a Runtime and its process identity\<close>

lemma mark_runtime_stopped_keeps [keeps]:
  "mark_runtime_stopped E i v db = Inr (x, db') \<Longrightarrow> registry_ok E db \<Longrightarrow> registry_ok E db'"
  unfolding mark_runtime_stopped_def
  by (auto elim!: keeps simp: row_kept split: if_splits option.splits)

lemma mark_runtime_stopped_progress [progresses]:
  "mark_runtime_stopped E i v db = Inr (x, db') \<Longrightarrow> progress db db'"
  unfolding mark_runtime_stopped_def
  by (auto elim!: progress_elims split: if_splits option.splits)

lemma mark_runtime_recovery_required_keeps [keeps]:
  "mark_runtime_recovery_required E i v db = Inr (x, db') \<Longrightarrow> registry_ok E db \<Longrightarrow> registry_ok E db'"
  unfolding mark_runtime_recovery_required_def
  by (auto elim!: keeps simp: row_kept split: if_splits option.splits)

lemma mark_runtime_recovery_required_progress [progresses]:
  "mark_runtime_recovery_required E i v db = Inr (x, db') \<Longrightarrow> progress db db'"
  unfolding mark_runtime_recovery_required_def
  by (auto elim!: progress_elims split: if_splits option.splits)

lemma park_runtime_keeps [keeps]:
  "park_runtime E i v db = Inr (x, db') \<Longrightarrow> registry_ok E db \<Longrightarrow> registry_ok E db'"
  unfolding park_runtime_def
  by (auto elim!: keeps simp: row_kept split: if_splits option.splits)

lemma park_runtime_progress [progresses]:
  "park_runtime E i v db = Inr (x, db') \<Longrightarrow> progress db db'"
  unfolding park_runtime_def
  by (auto elim!: progress_elims split: if_splits option.splits)

lemma record_runtime_process_identity_keeps [keeps]:
  "record_runtime_process_identity E i v p b db = Inr (x, db') \<Longrightarrow> registry_ok E db \<Longrightarrow> registry_ok E db'"
  unfolding record_runtime_process_identity_def
  by (auto elim!: keeps simp: row_kept split: if_splits option.splits)

lemma record_runtime_process_identity_progress [progresses]:
  "record_runtime_process_identity E i v p b db = Inr (x, db') \<Longrightarrow> progress db db'"
  unfolding record_runtime_process_identity_def
  by (auto elim!: progress_elims split: if_splits option.splits)

lemma backfill_runtime_provider_pid_keeps [keeps]:
  "backfill_runtime_provider_pid E i v p b db = Inr (x, db') \<Longrightarrow> registry_ok E db \<Longrightarrow> registry_ok E db'"
  unfolding backfill_runtime_provider_pid_def
  by (auto elim!: keeps simp: row_kept split: if_splits option.splits)

lemma backfill_runtime_provider_pid_progress [progresses]:
  "backfill_runtime_provider_pid E i v p b db = Inr (x, db') \<Longrightarrow> progress db db'"
  unfolding backfill_runtime_provider_pid_def
  by (auto elim!: progress_elims split: if_splits option.splits)

section \<open>Handles and metadata\<close>

lemma record_thread_metadata_keeps [keeps]:
  "record_thread_metadata E i s nm db = Inr (x, db') \<Longrightarrow> registry_ok E db \<Longrightarrow> registry_ok E db'"
  unfolding record_thread_metadata_def
  by (auto elim!: keeps simp: row_kept handle_row_ok_def binding_row_ok_def range_text_iff split: if_splits option.splits)

lemma record_thread_metadata_progress [progresses]:
  "record_thread_metadata E i s nm db = Inr (x, db') \<Longrightarrow> progress db db'"
  unfolding record_thread_metadata_def
  by (auto elim!: progress_elims split: if_splits option.splits)

lemma mark_opencode_observer_unknown_exact_keeps [keeps]:
  "mark_opencode_observer_unknown_exact E i g v p b db = Inr (x, db') \<Longrightarrow> registry_ok E db \<Longrightarrow> registry_ok E db'"
  unfolding mark_opencode_observer_unknown_exact_def
  by (auto elim!: keeps simp: row_kept handle_row_ok_def binding_row_ok_def range_text_iff split: if_splits option.splits)

lemma mark_opencode_observer_unknown_exact_progress [progresses]:
  "mark_opencode_observer_unknown_exact E i g v p b db = Inr (x, db') \<Longrightarrow> progress db db'"
  unfolding mark_opencode_observer_unknown_exact_def
  by (auto elim!: progress_elims split: if_splits option.splits)

lemma mark_opencode_observer_ready_keeps [keeps]:
  "mark_opencode_observer_ready E i g v p b db = Inr (x, db') \<Longrightarrow> registry_ok E db \<Longrightarrow> registry_ok E db'"
  unfolding mark_opencode_observer_ready_def
  by (auto elim!: keeps simp: row_kept handle_row_ok_def binding_row_ok_def range_text_iff split: if_splits option.splits)

lemma mark_opencode_observer_ready_progress [progresses]:
  "mark_opencode_observer_ready E i g v p b db = Inr (x, db') \<Longrightarrow> progress db db'"
  unfolding mark_opencode_observer_ready_def
  by (auto elim!: progress_elims split: if_splits option.splits)

lemma record_opencode_observer_started_keeps [keeps]:
  "record_opencode_observer_started E i g v p b db = Inr (x, db') \<Longrightarrow> registry_ok E db \<Longrightarrow> registry_ok E db'"
  unfolding record_opencode_observer_started_def
  by (auto elim!: keeps simp: row_kept handle_row_ok_def binding_row_ok_def range_text_iff split: if_splits option.splits)

lemma record_opencode_observer_started_progress [progresses]:
  "record_opencode_observer_started E i g v p b db = Inr (x, db') \<Longrightarrow> progress db db'"
  unfolding record_opencode_observer_started_def
  by (auto elim!: progress_elims split: if_splits option.splits)

lemma delete_opencode_runtime_handle_keeps [keeps]:
  "delete_opencode_runtime_handle E i g db = Inr (x, db') \<Longrightarrow> registry_ok E db \<Longrightarrow> registry_ok E db'"
  unfolding delete_opencode_runtime_handle_def by (auto elim!: keeps)

section \<open>Bindings\<close>

lemma provider_decoded: "provider_kind_from_text s = Inr p \<longleftrightarrow> s = provider_kind_text p"
  by (rule provider_codec.dec_iff)

lemma runtime_at_Some:
  "runtime_at db k = Some r \<Longrightarrow> r \<in> set (runtime_rows db) \<and> rt_id r = k"
  unfolding runtime_at_def by (rule find_SomeD)

lemma workstream_at_Some:
  "workstream_at db k = Some w \<Longrightarrow> w \<in> set (workstream_rows db) \<and> ws_id w = k"
  unfolding workstream_at_def by (rule find_SomeD)

lemma binding_at_Some:
  "binding_at db k = Some b \<Longrightarrow> b \<in> set (binding_rows db) \<and> bd_runtime b = k"
  unfolding binding_at_def by (rule find_SomeD)

lemma runtime_at_provider:
  assumes "runtime_at db k = Some r" and "provider_kind_from_text (rt_provider r) = Inr p"
  shows "(k, provider_kind_text p) \<in> (\<lambda>r. (rt_id r, rt_provider r)) ` set (runtime_rows db)"
  using runtime_at_Some [OF assms(1)] assms(2) by (force simp: provider_decoded)

lemma workstream_at_provider:
  assumes "workstream_at db k = Some w" and "provider_kind_from_text (ws_provider w) = Inr p"
  shows "(k, provider_kind_text p) \<in> (\<lambda>w. (ws_id w, ws_provider w)) ` set (workstream_rows db)"
  using workstream_at_Some [OF assms(1)] assms(2) by (force simp: provider_decoded)

lemma new_binding_row_ok:
  "identifier_ok s \<Longrightarrow> generation_ok g \<Longrightarrow> p \<in> range provider_kind_text \<Longrightarrow>
   binding_row_ok E \<lparr> bd_id = k, bd_runtime = uuid_text E i, bd_provider = p,
     bd_session = s, bd_start_source = src, bd_last_turn = None, bd_thread_name = None,
     bd_name_state = ''unavailable'', bd_name_observed = None, bd_predecessor = None,
     bd_predecessor_name = None, bd_generation = g, bd_revision = 1 \<rparr>"
  by (simp add: binding_row_ok_def row_checks range_name_text)

lemma generation_okI: "validate_registry_text ''runtime generation'' g = Inr u \<Longrightarrow> generation_ok g"
  by (simp add: generation_ok_def)

lemma bind_opencode_keeps [keeps]:
  assumes op: "bind_opencode_session_in_transaction E fresh i g s src db = Inr (x, db')"
    and ok: "registry_ok E db" and id: "identifier_ok (ps_native s)"
  shows "registry_ok E db'"
proof -
  from op obtain r where r: "runtime_at db (uuid_text E i) = Some r"
      "provider_kind_from_text (rt_provider r) = Inr OpenCode" and g: "generation_ok g"
    unfolding bind_opencode_session_in_transaction_def
    by (auto split: if_splits option.splits intro: generation_okI)
  have "(uuid_text E i, ''opencode'') \<in> (\<lambda>r. (rt_id r, rt_provider r)) ` set (runtime_rows db)"
    using runtime_at_provider [OF r] by simp
  with op ok id g show ?thesis
    unfolding bind_opencode_session_in_transaction_def
    by (auto elim!: keeps intro!: new_binding_row_ok simp: binding_row_ok_def range_provider_text
        split: if_splits option.splits)
qed

lemma bind_opencode_progress [progresses]:
  "bind_opencode_session_in_transaction E fresh i g s src db = Inr (x, db') \<Longrightarrow> progress db db'"
  unfolding bind_opencode_session_in_transaction_def
  by (auto elim!: progress_elims split: if_splits option.splits)

lemma bind_opencode_session_keeps [keeps]:
  "bind_opencode_session E fresh i g s src db = Inr (x, db') \<Longrightarrow> registry_ok E db \<Longrightarrow>
   identifier_ok (ps_native s) \<Longrightarrow> registry_ok E db'"
  unfolding bind_opencode_session_def by (auto elim!: keeps split: if_splits)

lemma bind_opencode_session_progress [progresses]:
  "bind_opencode_session E fresh i g s src db = Inr (x, db') \<Longrightarrow> progress db db'"
  unfolding bind_opencode_session_def by (auto elim!: progresses split: if_splits)

end
