(* ===== verification/Durability.thy ===== *)
theory Durability
  imports Preservation
begin

text \<open>
  The invariant and the history of the operations that load a record, compute its next revision
  in memory and write it back: the journal, the creation of Workstreams, reservations, archive
  and restore; and of the observations and of the permanent removal.
\<close>

section \<open>Revisions computed in memory\<close>

text \<open>
  Every stored revision is an \<open>i64\<close>. \<open>Revision::next\<close> wraps at the largest one; the CHECK of the
  table then refuses the row, so a statement that succeeds has written a greater revision.
\<close>

definition revisions_fit :: "registry \<Rightarrow> bool" where
  "revisions_fit db \<longleftrightarrow>
     list_all (\<lambda>w. ws_revision w \<le> i64_max) (workstream_rows db) \<and>
     list_all (\<lambda>r. rt_revision r \<le> i64_max) (runtime_rows db) \<and>
     list_all (\<lambda>p. op_revision p \<le> i64_max) (operation_rows db)"

lemma revisions_fit_rows:
  assumes "revisions_fit db"
  shows "w \<in> set (workstream_rows db) \<Longrightarrow> ws_revision w \<le> i64_max"
    and "r \<in> set (runtime_rows db) \<Longrightarrow> rt_revision r \<le> i64_max"
    and "p \<in> set (operation_rows db) \<Longrightarrow> op_revision p \<le> i64_max"
  using assms by (simp_all add: revisions_fit_def list_all_iff)

lemma revision_next_grows:
  "0 < revision_next r \<Longrightarrow> r \<le> i64_max \<Longrightarrow> 0 < r \<Longrightarrow> r < revision_next r"
  by (cases "r = i64_max") (auto simp: revision_next_below_max revision_next_def i64_wrap_def i64_max_def)

section \<open>The journal\<close>

lemma kind_text_range [simp]: "operation_kind_text k \<in> insert ''fork'' (range operation_kind_text)"
  by simp

lemma operation_row_of_ok:
  "0 < co_revision c \<Longrightarrow> operation_row_ok E (operation_row_of E c)"
  by (simp add: operation_row_of_def operation_row_ok_def row_checks)

lemma compound_with_id_Inr:
  "compound_with_id E i k kd x = Inr c \<Longrightarrow>
     co_id c = i \<and> co_request_key c = k \<and> co_kind c = kd \<and> co_revision c = 1"
  by (auto simp: compound_with_id_def revision_initial_def split: if_splits)

lemma compound_transition_Inr:
  "compound_transition E c nxt wm oc = Inr c' \<Longrightarrow>
     co_id c' = co_id c \<and> co_revision c' = revision_next (co_revision c) \<and>
     co_phase c' = nxt \<and> permits_transition (co_phase c) nxt \<and> co_kind c' = co_kind c \<and>
     co_effect_watermark c' = wm \<and> co_outcome c' = oc"
  by (auto simp: compound_transition_def split: if_splits)

lemma row_to_operation_revision:
  "row_to_operation E p = Inr c \<Longrightarrow> co_revision c = op_revision p \<and> 0 < op_revision p"
  by (auto simp: row_to_operation_def)

lemma load_operation_positive:
  "load_operation_by_id E i db = Inr (Some c) \<Longrightarrow> 0 < co_revision c"
  by (auto simp: load_operation_by_id_def transpose_opt_def dest: row_to_operation_revision
      split: option.splits)

lemma load_exact_creation_Inr:
  assumes "load_exact_creation E prepared db = Inr (c, plan)"
  shows "c = cs_operation prepared \<and> public_plan plan c = prepared \<and> 0 < co_revision c \<and>
    load_operation_by_id E (co_id c) db = Inr (Some c)"
  using assms by (auto simp: load_exact_creation_def dest: load_operation_positive split: if_splits)

lemma update_operation_keeps [keeps]:
  "update_operation_in_transaction E c v db = Inr db' \<Longrightarrow> registry_ok E db \<Longrightarrow> registry_ok E db'"
  unfolding update_operation_in_transaction_def one_row_Inr
  by (erule update_operations_keeps) (auto simp: operation_row_ok_def)

lemma update_operation_progress:
  "update_operation_in_transaction E c v db = Inr db' \<Longrightarrow> operation_rows db = operation_rows db0 \<Longrightarrow>
   revisions_fit db0 \<Longrightarrow> co_revision c = revision_next v \<Longrightarrow> 0 < v \<Longrightarrow> progress db db'"
  unfolding update_operation_in_transaction_def one_row_Inr
  by (erule update_operations_progress)
    (auto simp: operation_check_def intro!: revision_next_grows intro: revisions_fit_rows(3) [of db0])

lemma create_or_get_operation_keeps [keeps]:
  "create_or_get_operation E fresh k kd x db = Inr (y, db') \<Longrightarrow> registry_ok E db \<Longrightarrow> registry_ok E db'"
  unfolding create_or_get_operation_def
  by (auto elim!: insert_or_ignore_operation_keeps intro!: operation_row_of_ok
      dest!: compound_with_id_Inr split: if_splits)

lemma create_or_get_operation_progress [progresses]:
  "create_or_get_operation E fresh k kd x db = Inr (y, db') \<Longrightarrow> progress db db'"
  unfolding create_or_get_operation_def
  by (auto dest: insert_or_ignore_operation_progress split: if_splits)

lemma transition_operation_keeps [keeps]:
  "transition_operation E i v nxt wm oc db = Inr (y, db') \<Longrightarrow> registry_ok E db \<Longrightarrow> registry_ok E db'"
  unfolding transition_operation_def by (auto elim!: keeps split: if_splits)

lemma transition_operation_progress:
  "transition_operation E i v nxt wm oc db = Inr (y, db') \<Longrightarrow> revisions_fit db \<Longrightarrow> progress db db'"
  unfolding transition_operation_def
  by (auto dest!: compound_transition_Inr load_operation_positive elim!: update_operation_progress
      split: if_splits)

section \<open>OpenCode session creation\<close>

lemma prepare_creation_keeps [keeps]:
  "prepare_opencode_session_creation E fresh i g db = Inr (y, db') \<Longrightarrow> registry_ok E db \<Longrightarrow>
   registry_ok E db'"
  unfolding prepare_opencode_session_creation_def Let_def
  by (auto elim!: insert_operation_keeps intro!: operation_row_of_ok dest!: compound_with_id_Inr
      split: if_splits option.splits)

lemma prepare_creation_progress [progresses]:
  "prepare_opencode_session_creation E fresh i g db = Inr (y, db') \<Longrightarrow> progress db db'"
  unfolding prepare_opencode_session_creation_def Let_def
  by (auto dest: insert_operation_progress split: if_splits option.splits)

lemma begin_creation_keeps [keeps]:
  "begin_opencode_session_creation E p db = Inr (y, db') \<Longrightarrow> registry_ok E db \<Longrightarrow> registry_ok E db'"
  unfolding begin_opencode_session_creation_def by (auto elim!: keeps split: if_splits)

lemma begin_creation_progress:
  "begin_opencode_session_creation E p db = Inr (y, db') \<Longrightarrow> revisions_fit db \<Longrightarrow> progress db db'"
  unfolding begin_opencode_session_creation_def
  by (auto dest!: compound_transition_Inr load_exact_creation_Inr elim!: update_operation_progress
      split: if_splits)

lemma commit_creation_keeps [keeps]:
  "commit_opencode_session_creation E fresh p s db = Inr (y, db') \<Longrightarrow> registry_ok E db \<Longrightarrow>
   identifier_ok (ps_native s) \<Longrightarrow> registry_ok E db'"
  unfolding commit_opencode_session_creation_def Let_def by (auto elim!: keeps split: if_splits)

lemma fail_creation_keeps [keeps]:
  "fail_opencode_session_creation E p code db = Inr (y, db') \<Longrightarrow> registry_ok E db \<Longrightarrow> registry_ok E db'"
  unfolding fail_opencode_session_creation_def by (auto elim!: keeps split: if_splits)

lemma fail_creation_progress:
  "fail_opencode_session_creation E p code db = Inr (y, db') \<Longrightarrow> revisions_fit db \<Longrightarrow> progress db db'"
  unfolding fail_opencode_session_creation_def
  by (auto dest!: compound_transition_Inr load_exact_creation_Inr elim!: update_operation_progress
      split: if_splits)

lemma mark_recovery_keeps [keeps]:
  "mark_creation_recovery E p ph code db = Inr (y, db') \<Longrightarrow> registry_ok E db \<Longrightarrow> registry_ok E db'"
  unfolding mark_creation_recovery_def
  by (auto elim!: keeps simp: row_kept split: if_splits)


lemma bind_opencode_operations:
  "bind_opencode_session_in_transaction E fresh i g s src db = Inr (x, db') \<Longrightarrow>
   operation_rows db' = operation_rows db"
  unfolding bind_opencode_session_in_transaction_def
  by (auto simp: updates_Inr insert_binding_def split: if_splits option.splits)

lemma workstream_to_recovery_operations:
  "workstream_to_recovery k f db = Inr db' \<Longrightarrow> operation_rows db' = operation_rows db"
  by (erule workstream_to_recovery_step) (simp add: updates_Inr)

lemma commit_creation_progress:
  assumes "commit_opencode_session_creation E fresh p s db = Inr (y, db')" and "revisions_fit db"
  shows "progress db db'"
proof -
  from assms(1) obtain c plan x db1 wm moved where
    load: "load_exact_creation E p db = Inr (c, plan)" and
    bind: "bind_opencode_session_in_transaction E fresh (cp_runtime plan) (cp_generation plan) s ''new'' db
      = Inr (x, db1)" and
    tr: "compound_transition E c Committed (Some wm) None = Inr moved" and
    upd: "update_operation_in_transaction E moved (co_revision (cs_operation p)) db1 = Inr db'"
    unfolding commit_opencode_session_creation_def Let_def by (auto split: if_splits)
  have moved: "co_revision moved = revision_next (co_revision (cs_operation p))"
      "0 < co_revision (cs_operation p)"
    using load_exact_creation_Inr [OF load] compound_transition_Inr [OF tr] by auto
  have "progress db db1" by (rule bind_opencode_progress [OF bind])
  also have "progress db1 db'"
    using upd bind_opencode_operations [OF bind] assms(2) moved by (rule update_operation_progress)
  finally show ?thesis .
qed

lemma mark_recovery_progress:
  assumes "mark_creation_recovery E p ph code db = Inr (y, db')" and "revisions_fit db"
  shows "progress db db'"
proof -
  from assms(1) obtain c plan db1 f k db2 wm oc moved where
    load: "load_exact_creation E p db = Inr (c, plan)" and
    rt: "update_runtimes (\<lambda>r. rt_id r = uuid_text E (cp_runtime plan) \<and>
                rt_generation r = cp_generation plan \<and> rt_lifecycle r = ''starting'')
           (\<lambda>r. r\<lparr> rt_lifecycle := ''unknown'', rt_revision := rt_revision r + 1 \<rparr>) db = Inr (1, db1)" and
    ws: "workstream_to_recovery k f db1 = Inr db2" and
    tr: "compound_transition E c Failed (Some wm) (Some oc) = Inr moved" and
    upd: "update_operation_in_transaction E moved (co_revision (cs_operation p)) db2 = Inr db'"
    unfolding mark_creation_recovery_def by (auto split: if_splits)
  have moved: "co_revision moved = revision_next (co_revision (cs_operation p))"
      "0 < co_revision (cs_operation p)"
    using load_exact_creation_Inr [OF load] compound_transition_Inr [OF tr] by auto
  have "progress db db1" by (rule update_runtimes_progress [OF rt]) auto
  also have "progress db1 db2" by (rule workstream_to_recovery_progress [OF ws])
  also have "progress db2 db'"
    by (rule update_operation_progress [OF upd _ assms(2) moved])
      (use rt in \<open>simp add: workstream_to_recovery_operations [OF ws] updates_Inr\<close>)
  finally show ?thesis .
qed

section \<open>Creation of Workstreams\<close>

lemma sql_max_in: "sql_max xs = Some m \<Longrightarrow> m \<in> set xs"
proof (induction xs arbitrary: m)
  case (Cons y ys)
  then show ?case by (cases "sql_max ys") (auto simp: max_def)
qed simp

lemma next_activity_nonneg:
  assumes "registry_ok E db" shows "0 \<le> next_activity_sequence db"
proof (cases "sql_max (map ws_activity_seq (workstream_rows db))")
  case None
  then show ?thesis by (simp add: next_activity_sequence_def)
next
  case (Some m)
  then have "m \<in> ws_activity_seq ` set (workstream_rows db)"
    by (metis sql_max_in set_map)
  with registry_ok_rows(1) [OF assms] have "0 \<le> m"
    by (auto simp: workstream_row_ok_def row_checks)
  with Some show ?thesis by (simp add: next_activity_sequence_def)
qed

lemma insert_independent_keeps [keeps]:
  "insert_independent E k fresh l s v p db = Inr (y, db') \<Longrightarrow> registry_ok E db \<Longrightarrow> registry_ok E db'"
  unfolding insert_independent_def
  by (auto elim!: keeps simp: workstream_row_ok_def row_checks next_activity_nonneg)

lemma insert_independent_progress [progresses]:
  "insert_independent E k fresh l s v p db = Inr (y, db') \<Longrightarrow> progress db db'"
  unfolding insert_independent_def by (auto elim!: progress_elims)

lemma create_independent_keeps [keeps]:
  "create_independent_workstream E fresh k s v p db = Inr (y, db') \<Longrightarrow> registry_ok E db \<Longrightarrow>
   registry_ok E db'"
  unfolding create_independent_workstream_def
  by (auto elim!: keeps split: if_splits option.splits)

lemma create_independent_progress [progresses]:
  "create_independent_workstream E fresh k s v p db = Inr (y, db') \<Longrightarrow> progress db db'"
  unfolding create_independent_workstream_def
  by (auto elim!: progresses split: if_splits option.splits)

lemma create_at_location_keeps [keeps]:
  "create_independent_workstream_at_location E fresh pr l prev lrev k p db = Inr (y, db') \<Longrightarrow>
   registry_ok E db \<Longrightarrow> registry_ok E db'"
  unfolding create_independent_workstream_at_location_def
  by (auto elim!: keeps split: if_splits option.splits list.splits)

lemma create_at_location_progress [progresses]:
  "create_independent_workstream_at_location E fresh pr l prev lrev k p db = Inr (y, db') \<Longrightarrow>
   progress db db'"
  unfolding create_independent_workstream_at_location_def
  by (auto elim!: progresses split: if_splits option.splits list.splits)


section \<open>Reservations\<close>

lemma transpose_map_option_Inr [simp]:
  "transpose_opt (map_option f x) = Inr (Some y) \<longleftrightarrow> (\<exists>r. x = Some r \<and> f r = Inr y)"
  "transpose_opt (map_option f x) = Inr None \<longleftrightarrow> x = None"
  by (cases x; simp)+

lemma runtime_of_Some:
  "runtime_of db k = Some r \<Longrightarrow> r \<in> set (runtime_rows db) \<and> rt_workstream r = k"
  unfolding runtime_of_def by (rule find_SomeD)

lemma row_to_runtime_Inr:
  assumes "row_to_runtime E r w = Inr x"
  shows "rr_revision x = rt_revision r" "0 < rt_revision r" "rr_workstream x = w"
    "uuid_parse E (rt_id r) = Some (rr_runtime x)" "rr_generation x = rt_generation r"
    "provider_kind_from_text (rt_provider r) = Inr (rr_provider x)"
    "runtime_status_from_text (rt_lifecycle r) = Inr (rr_status x)"
  using assms by (auto simp: row_to_runtime_def row_to_runtime_with_id_def)

lemma next_generation_simps [simp]:
  "rr_runtime (next_generation E g root x) = rr_runtime x"
  "rr_generation (next_generation E g root x) = uuid_text E g"
  "rr_revision (next_generation E g root x) = revision_next (rr_revision x)"
  "rr_status (next_generation E g root x) = Starting"
  "rr_workstream (next_generation E g root x) = rr_workstream x"
  "rr_provider (next_generation E g root x) = rr_provider x"
  "rr_cwd (next_generation E g root x) = root"
  "rr_pid (next_generation E g root x) = None"
  "rr_birth (next_generation E g root x) = None"
  by (simp_all add: next_generation_def)

lemma reserved_row_simps [simp]:
  "rt_id (reserved_row x r) = rt_id r" "rt_workstream (reserved_row x r) = rt_workstream r"
  "rt_provider (reserved_row x r) = rt_provider r" "rt_generation (reserved_row x r) = rr_generation x"
  "rt_lifecycle (reserved_row x r) = ''starting''" "rt_revision (reserved_row x r) = rr_revision x"
  "rt_pid (reserved_row x r) = None" "rt_birth (reserved_row x r) = None"
  "rt_cwd (reserved_row x r) = rr_cwd x" "rt_session (reserved_row x r) = rr_session x"
  by (simp_all add: reserved_row_def)

lemma reserve_runtime_keeps [keeps]:
  assumes op: "reserve_runtime_with_provider_authorized E fresh g w p auth db = Inr (x, db')"
    and "registry_ok E db" "env_ok E"
  shows "registry_ok E db'"
proof -
  from op obtain ws where ws: "workstream_at db (uuid_text E w) = Some ws"
      "provider_kind_from_text (ws_provider ws) = Inr p"
    unfolding reserve_runtime_with_provider_authorized_def by (auto split: if_splits)
  have "(uuid_text E w, provider_kind_text p) \<in> (\<lambda>w. (ws_id w, ws_provider w)) ` set (workstream_rows db)"
    by (rule workstream_at_provider [OF ws])
  with assms ws show ?thesis
    unfolding reserve_runtime_with_provider_authorized_def Let_def
    by (auto elim!: keeps dest: registry_ok_rows(1) simp: row_kept row_checks split: if_splits option.splits)
qed

lemma reserved_grows:
  assumes "row_to_runtime E r' w = Inr cur" and "revisions_fit db"
    and "r \<in> set (runtime_rows db)" and "rt_revision r = rr_revision cur"
    and "runtime_check (reserved_row (next_generation E g root cur) r)"
  shows "rr_revision cur < revision_next (rr_revision cur)"
  using assms revisions_fit_rows(2) [of db r] row_to_runtime_Inr(1,2) [of E r' w cur]
  by (intro revision_next_grows) (auto simp: row_checks)

lemma reserve_runtime_progress:
  assumes op: "reserve_runtime_with_provider_authorized E fresh g w p auth db = Inr (x, db')"
    and fit: "revisions_fit db"
  shows "progress db db'"
  using op unfolding reserve_runtime_with_provider_authorized_def Let_def
  by (auto elim!: progress_elims intro: reserved_grows [OF _ fit] split: if_splits option.splits)

lemma reserve_recovery_keeps [keeps]:
  assumes "reserve_runtime_recovery_authorized E g w p auth db = Inr (x, db')"
    and "registry_ok E db" "env_ok E"
  shows "registry_ok E db'"
  using assms unfolding reserve_runtime_recovery_authorized_def Let_def
  by (auto elim!: keeps simp: row_kept row_checks split: if_splits option.splits)

lemma reserve_recovery_progress:
  assumes op: "reserve_runtime_recovery_authorized E g w p auth db = Inr (x, db')"
    and fit: "revisions_fit db"
  shows "progress db db'"
  using op unfolding reserve_runtime_recovery_authorized_def Let_def
  by (auto elim!: progress_elims intro: reserved_grows [OF _ fit] split: if_splits option.splits)


lemma reconcile_codex_keeps [keeps]:
  "reconcile_codex_recovery_authorized E w wv i rv g b auth db = Inr (x, db') \<Longrightarrow>
   registry_ok E db \<Longrightarrow> registry_ok E db'"
  unfolding reconcile_codex_recovery_authorized_def
  by (auto elim!: keeps simp: workstream_row_ok_def binding_row_ok_def generation_ok_def split: if_splits)

lemma reconcile_codex_progress [progresses]:
  "reconcile_codex_recovery_authorized E w wv i rv g b auth db = Inr (x, db') \<Longrightarrow> progress db db'"
  unfolding reconcile_codex_recovery_authorized_def
  by (auto elim!: progress_elims split: if_splits)

section \<open>Handles\<close>

lemma upsert_handle_keeps [keeps]:
  "upsert_handle h db = Inr db' \<Longrightarrow> registry_ok E db \<Longrightarrow> handle_row_ok E h \<Longrightarrow> registry_ok E db'"
  unfolding upsert_handle_def
  by (auto elim!: keeps simp: handle_row_ok_def range_observer_text split: if_splits)

lemma upsert_handle_progress [progresses]:
  "upsert_handle h db = Inr db' \<Longrightarrow> progress db db'"
  unfolding upsert_handle_def by (auto elim!: progresses split: if_splits)

lemma handle_row_new_ok:
  "generation_ok g \<Longrightarrow> validate_provider_metadata v = Inr () \<Longrightarrow> identifier_ok s \<Longrightarrow> (port :: 16 word) \<noteq> 0 \<Longrightarrow>
   handle_row_ok E \<lparr> hd_runtime = uuid_text E i, hd_generation = g, hd_host = ''127.0.0.1'',
     hd_port = uint port, hd_version = v, hd_session = s, hd_observer_pid = None,
     hd_observer_birth = None, hd_status = ''starting'', hd_revision = 1 \<rparr>"
proof -
  assume a: "generation_ok g" "validate_provider_metadata v = Inr ()" "identifier_ok s" "port \<noteq> 0"
  have "uint port < 2 ^ LENGTH(16)" by (rule unsigned_less)
  moreover have "0 < uint port"
    using a(4) by (metis order_le_less uint_0_iff uint_ge_0)
  ultimately show ?thesis
    using a by (simp add: handle_row_ok_def row_checks range_observer_text)
qed

lemma record_handle_keeps [keeps]:
  "record_opencode_runtime_handle E i g port v s db = Inr (x, db') \<Longrightarrow> registry_ok E db \<Longrightarrow>
   identifier_ok (ps_native s) \<Longrightarrow> registry_ok E db'"
  unfolding record_opencode_runtime_handle_def
  by (auto elim!: upsert_handle_keeps intro!: handle_row_new_ok simp: generation_ok_def split: if_splits)

lemma record_handle_progress [progresses]:
  "record_opencode_runtime_handle E i g port v s db = Inr (x, db') \<Longrightarrow> progress db db'"
  unfolding record_opencode_runtime_handle_def by (auto elim!: progresses split: if_splits)

section \<open>Observations\<close>

lemma session_identifier: "provider_session_new p s = Inr x \<Longrightarrow> identifier_ok (ps_native x) \<and> ps_provider x = p"
  unfolding provider_session_new_def identifier_ok_def by auto

lemma complete_session_start_keeps [keeps]:
  "complete_session_start E c db = Inr db' \<Longrightarrow> registry_ok E db \<Longrightarrow> generation_ok (sc_generation c) \<Longrightarrow>
   registry_ok E db'"
  unfolding complete_session_start_def
  by (auto elim!: keeps simp: binding_row_ok_def split: if_splits)

lemma complete_session_start_progress [progresses]:
  "complete_session_start E c db = Inr db' \<Longrightarrow> progress db db'"
  unfolding complete_session_start_def by (auto elim!: progress_elims split: if_splits)

text \<open>The Runtime of a new binding, and its provider, as the reference of the binding row.\<close>

definition provides :: "registry \<Rightarrow> string \<Rightarrow> string \<Rightarrow> bool" where
  "provides db i p \<longleftrightarrow> (i, p) \<in> (\<lambda>r. (rt_id r, rt_provider r)) ` set (runtime_rows db)"

lemma insert_provided_keeps:
  "insert_binding b db = Inr db' \<Longrightarrow> registry_ok E db \<Longrightarrow> binding_row_ok E b \<Longrightarrow>
   provides db (bd_runtime b) (bd_provider b) \<Longrightarrow> registry_ok E db'"
  unfolding provides_def by (rule insert_binding_keeps)

lemma insert_initial_binding_keeps [keeps]:
  "insert_initial_binding E fresh c s src db = Inr db' \<Longrightarrow> registry_ok E db \<Longrightarrow>
   generation_ok (sc_generation c) \<Longrightarrow>
   provides db (uuid_text E (sc_runtime c)) (provider_kind_text (sc_provider c)) \<Longrightarrow> registry_ok E db'"
  unfolding insert_initial_binding_def
  by (auto elim!: complete_session_start_keeps insert_provided_keeps intro!: new_binding_row_ok
      dest!: session_identifier split: if_splits)

lemma insert_initial_binding_progress [progresses]:
  "insert_initial_binding E fresh c s src db = Inr db' \<Longrightarrow> progress db db'"
  unfolding insert_initial_binding_def
  by (auto elim!: progress_elims complete_session_start_progress [THEN progress_trans [rotated]]
      split: if_splits)


lemma predecessor_identifier:
  "load_binding E i db = Inr (Some b) \<Longrightarrow> identifier_ok (ps_native (pb_session b))"
  by (auto simp: load_binding_def row_to_binding_def dest!: session_identifier split: option.splits if_splits)

lemma apply_session_start_keeps [keeps]:
  assumes op: "apply_session_start E fresh c existing s src db = Inr db'"
    and ok: "registry_ok E db" "generation_ok (sc_generation c)"
    and load: "load_binding E (sc_runtime c) db = Inr existing"
    and p: "provides db (uuid_text E (sc_runtime c)) (provider_kind_text (sc_provider c))"
  shows "registry_ok E db'"
proof -
  from op obtain session where session: "provider_session_new (sc_provider c) s = Inr session"
    by (auto simp: apply_session_start_def)
  show ?thesis
  proof (cases existing)
    case None
    with op session show ?thesis
      by (auto simp: apply_session_start_def intro: insert_initial_binding_keeps [OF _ ok p])
  next
    case (Some b)
    have b: "identifier_ok (ps_native (pb_session b))"
      using load Some by (auto intro: predecessor_identifier)
    have new: "identifier_ok (ps_native session)"
      using session_identifier [OF session] by simp
    consider "complete_session_start E c db = Inr db'" |
      n db1 where "update_bindings
               (\<lambda>x. bd_runtime x = uuid_text E (sc_runtime c)
                    \<and> bd_session x = ps_native (pb_session b) \<and> bd_revision x = pb_revision b)
               (\<lambda>x. x\<lparr> bd_session := ps_native session, bd_start_source := ''clear'',
                       bd_last_turn := None, bd_thread_name := None,
                       bd_name_state := ''unavailable'', bd_name_observed := None,
                       bd_predecessor := Some (ps_native (pb_session b)),
                       bd_predecessor_name := pb_thread_name b,
                       bd_revision := bd_revision x + 1 \<rparr>) db = Inr (n, db1)"
        "update_runtime_lifecycle E (sc_runtime c) (sc_revision c) ''idle'' db1 = Inr db'"
      using op Some session by (auto simp: apply_session_start_def split: if_splits)
    then show ?thesis
    proof cases
      case 1
      then show ?thesis using ok by (rule complete_session_start_keeps)
    next
      case 2
      have "registry_ok E db1"
        using 2(1) ok(1) by (rule update_bindings_keeps)
          (auto simp: binding_row_ok_def range_name_text b new)
      then show ?thesis
        using 2(2) by (auto intro: update_runtime_lifecycle_keeps)
    qed
  qed
qed

lemma apply_session_start_progress [progresses]:
  "apply_session_start E fresh c existing s src db = Inr db' \<Longrightarrow> progress db db'"
  unfolding apply_session_start_def
  by (auto elim!: progress_elims dest: complete_session_start_progress insert_initial_binding_progress
      split: if_splits option.splits)

lemma apply_lifecycle_event_keeps [keeps]:
  "apply_lifecycle_event E fresh c existing obs ob db = Inr db' \<Longrightarrow> registry_ok E db \<Longrightarrow>
   generation_ok (sc_generation c) \<Longrightarrow> load_binding E (sc_runtime c) db = Inr existing \<Longrightarrow>
   provides db (uuid_text E (sc_runtime c)) (provider_kind_text (sc_provider c)) \<Longrightarrow> registry_ok E db'"
  unfolding apply_lifecycle_event_def
  by (auto elim!: keeps simp: binding_row_ok_def split: lifecycle_event.splits)

lemma apply_lifecycle_event_progress [progresses]:
  "apply_lifecycle_event E fresh c existing obs ob db = Inr db' \<Longrightarrow> progress db db'"
  unfolding apply_lifecycle_event_def
  by (auto elim!: progress_elims dest: apply_session_start_progress split: lifecycle_event.splits)

lemma runtime_join_Some:
  "runtime_join db k = Some (r, w) \<Longrightarrow>
     runtime_at db k = Some r \<and> workstream_at db (rt_workstream r) = Some w"
  by (auto simp: runtime_join_def split: option.splits)

lemma observation_keeps [keeps]:
  assumes op: "apply_lifecycle_observation E clock fresh i g ob db = Inr (x, db')"
    and ok: "registry_ok E db"
  shows "registry_ok E db'"
proof -
  from op obtain r ws where join: "runtime_join db (uuid_text E i) = Some (r, ws)"
    and p: "provider_kind_from_text (rt_provider r) = Inr Codex" and g: "rt_generation r = g"
    unfolding apply_lifecycle_observation_def by (auto split: if_splits)
  from join have r: "runtime_at db (uuid_text E i) = Some r" by (blast dest: runtime_join_Some)
  then have "generation_ok g"
    using registry_ok_rows(2) [OF ok] g by (auto dest!: runtime_at_Some simp: runtime_row_ok_def)
  moreover have "provides db (uuid_text E i) (provider_kind_text Codex)"
    unfolding provides_def by (rule runtime_at_provider [OF r p])
  ultimately show ?thesis
    using op ok unfolding apply_lifecycle_observation_def
    by (auto elim!: touch_workstream_keeps apply_lifecycle_event_keeps
        split: if_splits)
qed

lemma observation_progress [progresses]:
  "apply_lifecycle_observation E clock fresh i g ob db = Inr (x, db') \<Longrightarrow> progress db db'"
  unfolding apply_lifecycle_observation_def
  by (auto elim!: progress_elims dest: apply_lifecycle_event_progress split: if_splits)


lemma settled_message_keeps [keeps]:
  "record_opencode_settled_message E i ob m db = Inr (x, db') \<Longrightarrow> registry_ok E db \<Longrightarrow> registry_ok E db'"
  unfolding record_opencode_settled_message_def by (auto elim!: keeps split: if_splits)

lemma settled_message_progress [progresses]:
  "record_opencode_settled_message E i ob m db = Inr (x, db') \<Longrightarrow> progress db db'"
  unfolding record_opencode_settled_message_def by (auto elim!: progresses split: if_splits)

lemma opencode_transition_keeps [keeps]:
  "apply_opencode_lifecycle_transition E i v l w ob db = Inr (x, db') \<Longrightarrow> registry_ok E db \<Longrightarrow>
   registry_ok E db'"
  unfolding apply_opencode_lifecycle_transition_def
  by (auto elim!: update_runtime_lifecycle_keeps reopen_recovery_keeps update_bindings_keeps
        settled_message_keeps simp: binding_row_ok_def split: lifecycle_hint.splits if_splits)

lemma opencode_transition_progress [progresses]:
  "apply_opencode_lifecycle_transition E i v l w ob db = Inr (x, db') \<Longrightarrow> progress db db'"
  unfolding apply_opencode_lifecycle_transition_def
  by (auto elim!: progress_elims dest!: settled_message_progress
      split: lifecycle_hint.splits if_splits intro: progress_trans)

lemma opencode_observation_keeps [keeps]:
  "apply_opencode_lifecycle_observation E clock i ob db = Inr (x, db') \<Longrightarrow> registry_ok E db \<Longrightarrow>
   registry_ok E db'"
  unfolding apply_opencode_lifecycle_observation_def
  by (auto elim!: touch_workstream_keeps opencode_transition_keeps split: if_splits)

lemma opencode_observation_progress [progresses]:
  "apply_opencode_lifecycle_observation E clock i ob db = Inr (x, db') \<Longrightarrow> progress db db'"
  unfolding apply_opencode_lifecycle_observation_def
  by (auto elim!: progress_elims dest!: opencode_transition_progress split: if_splits)

section \<open>Archive and removal\<close>

lemma archive_transition_keeps [keeps]:
  "transition_workstream_archive E w v a db = Inr (x, db') \<Longrightarrow> registry_ok E db \<Longrightarrow> registry_ok E db'"
  unfolding transition_workstream_archive_def Let_def
  by (auto elim!: update_workstreams_keeps simp: workstream_row_ok_def
      dest: workstream_at_Some registry_ok_rows(1) split: if_splits)

lemma archive_transition_progress:
  "transition_workstream_archive E w v a db = Inr (x, db') \<Longrightarrow> revisions_fit db \<Longrightarrow> progress db db'"
  unfolding transition_workstream_archive_def Let_def
  by (auto elim!: update_workstreams_progress intro!: revision_next_grows
      dest: revisions_fit_rows(1) simp: row_checks split: if_splits)

lemma archive_keeps [keeps]:
  "archive_workstream E w v t db = Inr (x, db') \<Longrightarrow> registry_ok E db \<Longrightarrow> registry_ok E db'"
  unfolding archive_workstream_def by (auto elim: archive_transition_keeps)

lemma archive_progress:
  "archive_workstream E w v t db = Inr (x, db') \<Longrightarrow> revisions_fit db \<Longrightarrow> progress db db'"
  unfolding archive_workstream_def by (auto elim: archive_transition_progress)

lemma restore_keeps [keeps]:
  "restore_workstream E w v db = Inr (x, db') \<Longrightarrow> registry_ok E db \<Longrightarrow> registry_ok E db'"
  unfolding restore_workstream_def by (rule archive_transition_keeps)

lemma restore_progress:
  "restore_workstream E w v db = Inr (x, db') \<Longrightarrow> revisions_fit db \<Longrightarrow> progress db db'"
  unfolding restore_workstream_def by (rule archive_transition_progress)

lemma forget_runtime_keeps [keeps]:
  "forget_runtime E w i db = Inr db' \<Longrightarrow> registry_ok E db \<Longrightarrow> registry_ok E db'"
  unfolding forget_runtime_def
  by (auto elim!: delete_settled_keeps delete_handles_keeps delete_bindings_keeps delete_runtimes_keeps)

lemma forget_operations_keeps [keeps]:
  "forget_operations is db = Inr db' \<Longrightarrow> registry_ok E db \<Longrightarrow> registry_ok E db'"
  by (induction "is" arbitrary: db)
    (auto dest!: delete_targets_keeps [where E = E] delete_operations_keeps [where E = E])

lemma forget_workstream_keeps [keeps]:
  "forget_workstream E w v db = Inr (x, db') \<Longrightarrow> registry_ok E db \<Longrightarrow> registry_ok E db'"
  unfolding forget_workstream_def
  by (auto elim!: delete_workstreams_keeps forget_operations_keeps delete_requests_keeps
      delete_attention_keeps forget_runtime_keeps update_workstreams_keeps
      simp: workstream_row_ok_def split: option.splits)

section \<open>The Codex integration\<close>

lemma integration_text_range [simp]: "integration_lifecycle_text l \<in> range integration_lifecycle_text"
  by simp

lemma byte_range [simp]: "0 \<le> uint (s :: 8 word)" "uint (s :: 8 word) < 256"
proof -
  have "uint s < 2 ^ LENGTH(8)" by (rule unsigned_less)
  then show "uint s < 256" by simp
qed simp

lemma insert_integration_checked:
  "insert_integration g db = Inr db' \<Longrightarrow> registry_ok E db \<Longrightarrow>
   (integration_check g \<Longrightarrow> integration_row_ok g) \<Longrightarrow> registry_ok E db'"
  by (rule insert_integration_keeps) (auto simp: insert_integration_def)

lemma record_integration_keeps [keeps]:
  "record_codex_integration E fresh own l db = Inr (x, db') \<Longrightarrow> registry_ok E db \<Longrightarrow> registry_ok E db'"
  unfolding record_codex_integration_def Let_def
  by (auto elim!: update_integrations_keeps insert_integration_checked simp: integration_row_ok_def
      split: if_splits option.splits)

lemma replace_integration_keeps [keeps]:
  "replace_codex_integration old new l db = Inr (x, db') \<Longrightarrow> registry_ok E db \<Longrightarrow> registry_ok E db'"
  unfolding replace_codex_integration_def Let_def
  by (auto elim!: update_integrations_keeps simp: integration_row_ok_def split: if_splits)

lemma set_integration_keeps [keeps]:
  "set_codex_integration_lifecycle c l db = Inr (x, db') \<Longrightarrow> registry_ok E db \<Longrightarrow> registry_ok E db'"
  unfolding set_codex_integration_lifecycle_def Let_def
  by (auto elim!: update_integrations_keeps simp: integration_row_ok_def)

lemma remove_integration_keeps [keeps]:
  "remove_codex_integration own db = Inr (x, db') \<Longrightarrow> registry_ok E db \<Longrightarrow> registry_ok E db'"
  unfolding remove_codex_integration_def by (auto elim!: delete_integrations_keeps split: if_splits)

lemma integration_progress [progresses]:
  "record_codex_integration E fresh own l db = Inr (x, db') \<Longrightarrow> progress db db'"
  "replace_codex_integration old new l db = Inr (x, db') \<Longrightarrow> progress db db'"
  "set_codex_integration_lifecycle c l db = Inr (x, db') \<Longrightarrow> progress db db'"
  "remove_codex_integration own db = Inr (y, db') \<Longrightarrow> progress db db'"
  unfolding record_codex_integration_def replace_codex_integration_def Let_def
    set_codex_integration_lifecycle_def remove_codex_integration_def
  by (auto dest: update_integrations_progress insert_integration_progress
      delete_integrations_progress split: if_splits option.splits)

end
