(* ===== verification/Projects.thy ===== *)
theory Projects
  imports Host
begin

text \<open>
  \<open>src/state/current/projection.rs\<close>: the Project catalog. A Project groups Locations by the
  fingerprint of their repository and takes its label from one of them; the validators check
  that relation, the projection shows it in bounded form.
\<close>

section \<open>Records\<close>

record project_record =
  pr_project :: uuid
  pr_label_location :: uuid
  pr_display :: string
  pr_fingerprint :: "string option"
  pr_revision :: int

record location_projection =
  lp_project :: uuid
  lp_location :: uuid
  lp_revision :: int
  lp_is_label_source :: bool
  lp_display :: string
  lp_fingerprint :: "string option"
  lp_origin_display :: "string option"

record project_projection =
  pp_project :: uuid
  pp_revision :: int
  pp_label_location :: uuid
  pp_display :: string
  pp_fingerprint :: "string option"
  pp_locations :: "location_projection list"

definition max_projection_projects :: nat where "max_projection_projects = 512"
definition max_projection_locations :: nat where "max_projection_locations = 4096"

abbreviation malformed :: "('e, 'a) result \<Rightarrow> (state_error, 'a) result" where
  "malformed r \<equiv> map_err (\<lambda>_. MalformedHostSchema) r"

definition malformed_unless :: "bool \<Rightarrow> (state_error, unit) result" where
  "malformed_unless b = require b MalformedHostSchema"

lemma malformed_unless_Inr [simp]: "malformed_unless b = Inr u \<longleftrightarrow> b"
  by (simp add: malformed_unless_def)

lemma malformed_unless_True [simp]: "malformed_unless True = Inr ()"
  by (simp add: malformed_unless_def)

section \<open>Fingerprints and display texts\<close>

definition nonempty :: "string option \<Rightarrow> string option" where
  "nonempty x = (case x of Some [] \<Rightarrow> None | _ \<Rightarrow> x)"

definition normalize_persisted_fingerprint :: "string option \<Rightarrow> string option" where
  "normalize_persisted_fingerprint value =
     (case nonempty value of
        None \<Rightarrow> None
      | Some v \<Rightarrow>
          (if validate_repository_fingerprint (Some v) = Inr () then Some v else None))"

definition validate_safe_origin_display :: "string option \<Rightarrow> (state_error, unit) result" where
  "validate_safe_origin_display value =
     (if value = Some [] then Inr () else validate_remote_identity_display value)"

definition project_source_fingerprints_compatible :: "string option \<Rightarrow> string option \<Rightarrow> bool" where
  "project_source_fingerprints_compatible project_fingerprint source_fingerprint =
     (case (nonempty project_fingerprint, normalize_persisted_fingerprint source_fingerprint) of
        (_, None) \<Rightarrow> True
      | (Some project, Some source) \<Rightarrow> project = source
      | (None, Some _) \<Rightarrow> False)"

section \<open>Queries\<close>

definition row_to_project :: "env \<Rightarrow> project_row \<Rightarrow> (state_error, project_record) result" where
  "row_to_project E p =
     sqlite_conversion (
       and_then (read_uuid E (pj_id p)) (\<lambda>i.
       and_then (read_uuid E (pj_label_location p)) (\<lambda>l.
       and_then (read_revision (pj_revision p)) (\<lambda>v.
       Inr \<lparr> pr_project = i, pr_label_location = l, pr_display = pj_display p,
             pr_fingerprint = pj_fingerprint p, pr_revision = v \<rparr>))))"

text \<open>The Locations of a Project, and the one that is both in it and has the given identity.\<close>

definition project_members :: "registry \<Rightarrow> string \<Rightarrow> location_row list" where
  "project_members db p = filter (\<lambda>l. lc_project l = Some p) (location_rows db)"

definition project_member_count :: "env \<Rightarrow> uuid \<Rightarrow> registry \<Rightarrow> nat" where
  "project_member_count E p db = length (project_members db (uuid_text E p))"

definition project_sources :: "registry \<Rightarrow> string \<Rightarrow> string \<Rightarrow> location_row list" where
  "project_sources db p l = filter (\<lambda>x. lc_id x = l) (project_members db p)"

definition find_project_by_fingerprint ::
  "env \<Rightarrow> string \<Rightarrow> registry \<Rightarrow> (state_error, project_record option) result" where
  "find_project_by_fingerprint E fingerprint db =
     transpose_opt (map_option (row_to_project E)
       (List.find (\<lambda>p. pj_fingerprint p = Some fingerprint) (project_rows db)))"

section \<open>Statements\<close>

definition create_project ::
  "env \<Rightarrow> uuid \<Rightarrow> uuid \<Rightarrow> string \<Rightarrow> string option \<Rightarrow> registry
     \<Rightarrow> (state_error, project_record \<times> registry) result" where
  "create_project E fresh location display fingerprint db =
     and_then
       (insert_project
         \<lparr> pj_id = uuid_text E fresh, pj_label_location = uuid_text E location,
           pj_display = display, pj_fingerprint = fingerprint, pj_revision = 1 \<rparr> db) (\<lambda>db'.
     Inr (\<lparr> pr_project = fresh, pr_label_location = location, pr_display = display,
            pr_fingerprint = fingerprint, pr_revision = revision_initial \<rparr>, db'))"

definition bump_project_revision :: "env \<Rightarrow> uuid \<Rightarrow> registry \<Rightarrow> (state_error, registry) result" where
  "bump_project_revision E p db =
     one_row ConcurrentWrite
       (update_projects (\<lambda>x. pj_id x = uuid_text E p)
         (\<lambda>x. x\<lparr> pj_revision := pj_revision x + 1 \<rparr>) db)"

section \<open>Validation\<close>

definition validate_location_row :: "env \<Rightarrow> location_row \<Rightarrow> (state_error, unit) result" where
  "validate_location_row E l =
     and_then (malformed_unless (uuid_parse E (lc_id l) \<noteq> None)) (\<lambda>_.
     and_then (ok_or (lc_project l) MalformedHostSchema) (\<lambda>p.
     and_then (malformed_unless (uuid_parse E p \<noteq> None)) (\<lambda>_.
     and_then (malformed (validate_project_display_name (lc_display l))) (\<lambda>_.
     and_then (malformed (validate_safe_origin_display (lc_remote_display l))) (\<lambda>_.
     and_then (malformed (revision_try_from (lc_revision l))) (\<lambda>_.
     Inr ()))))))"

definition validate_project_location_rows :: "env \<Rightarrow> registry \<Rightarrow> (state_error, unit) result" where
  "validate_project_location_rows E db =
     and_then (collect_results (map (validate_location_row E) (sort_key lc_id (location_rows db))))
       (\<lambda>_. Inr ())"

text \<open>The label source must show the Project's own display name and a compatible fingerprint.\<close>

definition validate_label_source ::
  "registry \<Rightarrow> string \<Rightarrow> string \<Rightarrow> string \<Rightarrow> string option \<Rightarrow> (state_error, unit) result" where
  "validate_label_source db p l display fingerprint =
     and_then (malformed_unless (length (project_sources db p l) = 1)) (\<lambda>_.
     and_then (query_row (List.find (\<lambda>_. True) (project_sources db p l))) (\<lambda>source.
     malformed_unless (lc_display source = display
       \<and> project_source_fingerprints_compatible fingerprint (lc_fingerprint source))))"

definition validate_project_row :: "env \<Rightarrow> registry \<Rightarrow> project_row \<Rightarrow> (state_error, unit) result" where
  "validate_project_row E db p =
     and_then (ok_or (uuid_parse E (pj_id p)) MalformedHostSchema) (\<lambda>project.
     and_then (ok_or (uuid_parse E (pj_label_location p)) MalformedHostSchema) (\<lambda>label.
     and_then (malformed (validate_project_display_name (pj_display p))) (\<lambda>_.
     and_then (malformed (validate_repository_fingerprint (pj_fingerprint p))) (\<lambda>_.
     and_then (malformed (revision_try_from (pj_revision p))) (\<lambda>_.
     and_then (malformed_unless (project_members db (uuid_text E project) \<noteq> [])) (\<lambda>_.
     validate_label_source db (uuid_text E project) (uuid_text E label) (pj_display p)
       (pj_fingerprint p)))))))"

definition validate_project_membership :: "env \<Rightarrow> registry \<Rightarrow> (state_error, unit) result" where
  "validate_project_membership E db =
     and_then (collect_results (map (validate_project_row E db) (sort_key pj_id (project_rows db))))
       (\<lambda>_. Inr ())"

definition validate_project_source_transaction ::
  "env \<Rightarrow> project_record \<Rightarrow> registry \<Rightarrow> (state_error, unit) result" where
  "validate_project_source_transaction E p db =
     (if blank_text (pr_display p) then Inl (InvalidPersistedValue ''empty Project display name'')
      else validate_label_source db (uuid_text E (pr_project p)) (uuid_text E (pr_label_location p))
             (pr_display p) (pr_fingerprint p))"

definition validate_project_membership_transaction ::
  "env \<Rightarrow> registry \<Rightarrow> (state_error, unit) result" where
  "validate_project_membership_transaction E db =
     and_then (collect_results (map (row_to_project E) (project_rows db))) (\<lambda>projects.
     and_then (collect_results (map (\<lambda>p.
         and_then (validate_project_source_transaction E p db) (\<lambda>_.
         malformed_unless (project_member_count E (pr_project p) db \<noteq> 0))) projects)) (\<lambda>_.
     Inr ()))"

section \<open>The projection\<close>

definition project_location ::
  "env \<Rightarrow> project_record \<Rightarrow> location_row \<Rightarrow> (state_error, location_projection) result" where
  "project_location E p l =
     and_then (ok_or (uuid_parse E (lc_id l)) MalformedHostSchema) (\<lambda>location.
     and_then (validate_project_display_name (lc_display l)) (\<lambda>_.
     and_then (validate_safe_origin_display (lc_remote_display l)) (\<lambda>_.
     and_then (read_revision (lc_revision l)) (\<lambda>v.
     Inr \<lparr> lp_project = pr_project p, lp_location = location, lp_revision = v,
           lp_is_label_source = (location = pr_label_location p), lp_display = lc_display l,
           lp_fingerprint = normalize_persisted_fingerprint (lc_fingerprint l),
           lp_origin_display = nonempty (lc_remote_display l) \<rparr>))))"

text \<open>The loop over the Projects, with the number of Locations projected so far.\<close>

fun project_loop ::
  "env \<Rightarrow> registry \<Rightarrow> nat \<Rightarrow> project_record list \<Rightarrow> (state_error, project_projection list) result" where
  "project_loop E db so_far [] = Inr []"
| "project_loop E db so_far (p # ps) =
     (let locations = sort_key lc_id (project_members db (uuid_text E (pr_project p)))
      in if locations = [] \<or> length locations > max_projection_locations
         then Inl MalformedHostSchema
         else if so_far + length locations > max_projection_locations
         then Inl (InvalidPersistedValue ''too many Project Location projection rows'')
         else
           and_then (collect_results (map (project_location E p) locations)) (\<lambda>projected.
           and_then (project_loop E db (so_far + length locations) ps) (\<lambda>rest.
           Inr (\<lparr> pp_project = pr_project p, pp_revision = pr_revision p,
                  pp_label_location = pr_label_location p, pp_display = pr_display p,
                  pp_fingerprint = pr_fingerprint p, pp_locations = projected \<rparr> # rest))))"

definition load_project_projections ::
  "env \<Rightarrow> registry \<Rightarrow> (state_error, project_projection list) result" where
  "load_project_projections E db =
     and_then (collect_results (map (row_to_project E) (sort_key pj_id (project_rows db)))) (\<lambda>projects.
     if length projects > max_projection_projects
     then Inl (InvalidPersistedValue ''too many Project projection rows'')
     else project_loop E db 0 projects)"

section \<open>What validation means\<close>

lemma collect_checks:
  "collect_results (map f xs) = Inr us \<Longrightarrow> x \<in> set xs \<Longrightarrow> f x = Inr ()"
  by (induction xs arbitrary: us) auto

lemma all_checked_Inr:
  "(\<exists>us. collect_results (map f xs) = Inr (us :: unit list)) \<longleftrightarrow> (\<forall>x \<in> set xs. f x = Inr ())"
  by (induction xs) auto

lemma validate_locations_Inr:
  "validate_project_location_rows E db = Inr u \<longleftrightarrow>
     (\<forall>l \<in> set (location_rows db). validate_location_row E l = Inr ())"
  by (simp add: validate_project_location_rows_def all_checked_Inr)

lemma validate_membership_Inr:
  "validate_project_membership E db = Inr u \<longleftrightarrow>
     (\<forall>p \<in> set (project_rows db). validate_project_row E db p = Inr ())"
  by (simp add: validate_project_membership_def all_checked_Inr)

lemma validate_label_source_Inr:
  "validate_label_source db p l display fingerprint = Inr u \<longleftrightarrow>
     (\<exists>source. project_sources db p l = [source] \<and> lc_display source = display \<and>
        project_source_fingerprints_compatible fingerprint (lc_fingerprint source))"
proof -
  have "length xs = 1 \<longleftrightarrow> (\<exists>x. xs = [x])" for xs :: "location_row list"
    by (simp add: length_Suc_conv)
  then show ?thesis
    by (auto simp: validate_label_source_def)
qed

lemma validated_location:
  "validate_location_row E l = Inr u \<longleftrightarrow>
     uuid_parse E (lc_id l) \<noteq> None \<and> (\<exists>p. lc_project l = Some p \<and> uuid_parse E p \<noteq> None) \<and>
     validate_project_display_name (lc_display l) = Inr () \<and>
     validate_safe_origin_display (lc_remote_display l) = Inr () \<and> 0 < lc_revision l"
  by (cases "lc_project l") (auto simp: validate_location_row_def)

lemma validated_project:
  "validate_project_row E db p = Inr u \<longleftrightarrow>
     (\<exists>project label source. uuid_parse E (pj_id p) = Some project \<and>
        uuid_parse E (pj_label_location p) = Some label \<and>
        validate_project_display_name (pj_display p) = Inr () \<and>
        validate_repository_fingerprint (pj_fingerprint p) = Inr () \<and> 0 < pj_revision p \<and>
        project_sources db (uuid_text E project) (uuid_text E label) = [source] \<and>
        lc_display source = pj_display p \<and>
        project_source_fingerprints_compatible (pj_fingerprint p) (lc_fingerprint source))"
proof -
  have "project_sources db a b = [source] \<Longrightarrow> project_members db a \<noteq> []" for a b source
    by (auto simp: project_sources_def)
  then show ?thesis
    by (auto simp: validate_project_row_def validate_label_source_Inr)
qed

end
