(* ===== verification/Intent.thy ===== *)
theory Intent
  imports Host
begin

text \<open>
  The bounded intent that the onboarding journal keeps (\<open>PersistedOnboardingIntent\<close> of
  \<open>src/state/current/onboarding.rs\<close>) with its derived JSON codec, and the identity of the
  native executable that an attempt is allowed to become.
\<close>

section \<open>The intent\<close>

record onboarding_intent =
  in_version :: "8 word"
  in_presentation :: uuid
  in_presentation_revision :: int
  in_slot_generation :: uuid
  in_lease_generation :: int
  in_runtime :: uuid
  in_provider :: provider_kind
  in_location :: uuid
  in_workstream :: uuid
  in_generation :: string
  in_registry_generation :: string
  in_argv_digest :: string
  in_boot_provenance :: string
  in_location_created :: bool
  in_project_created :: bool

definition intent_required_fields :: "string list" where
  "intent_required_fields =
     [''version'', ''presentation_id'', ''presentation_revision'', ''slot_generation'',
      ''lease_generation'', ''candidate_runtime_id'', ''provider'', ''location_id'',
      ''workstream_id'', ''runtime_generation'', ''registry_generation'', ''argv_digest'',
      ''boot_provenance'']"

definition intent_field_names :: "string list" where
  "intent_field_names = intent_required_fields @ [''location_created'', ''project_created'']"

definition intent_values :: "env \<Rightarrow> onboarding_intent \<Rightarrow> json list" where
  "intent_values E n =
     [JNumber (JInt (uint (in_version n))), JString (uuid_text E (in_presentation n)),
      JNumber (JInt (in_presentation_revision n)), JString (uuid_text E (in_slot_generation n)),
      JNumber (JInt (in_lease_generation n)), JString (uuid_text E (in_runtime n)),
      JString (provider_kind_text (in_provider n)), JString (uuid_text E (in_location n)),
      JString (uuid_text E (in_workstream n)), JString (in_generation n),
      JString (in_registry_generation n), JString (in_argv_digest n),
      JString (in_boot_provenance n), JBool (in_location_created n),
      JBool (in_project_created n)]"

definition intent_encode :: "env \<Rightarrow> onboarding_intent \<Rightarrow> string" where
  "intent_encode E n = json_text E (JObject (zip intent_field_names (intent_values E n)))"

text \<open>
  The derived \<open>Deserialize\<close> with \<open>deny_unknown_fields\<close>: an object without unknown or duplicate
  fields, or the sequence of the fields; the two creation flags default to false.
\<close>

definition i64_of_json :: "json \<Rightarrow> int option" where
  "i64_of_json j =
     (case j of
        JNumber (JInt n) \<Rightarrow> (if - (2 ^ 63) \<le> n \<and> n \<le> i64_max then Some n else None)
      | _ \<Rightarrow> None)"

definition flag_of_json :: "json option \<Rightarrow> bool option" where
  "flag_of_json x =
     (case x of None \<Rightarrow> Some False | Some (JBool b) \<Rightarrow> Some b | _ \<Rightarrow> None)"

fun all_some :: "'a option list \<Rightarrow> 'a list option" where
  "all_some [] = Some []"
| "all_some (x # xs) =
     (case x of None \<Rightarrow> None | Some y \<Rightarrow> map_option (\<lambda>ys. y # ys) (all_some xs))"

definition intent_fields :: "json \<Rightarrow> json option list option" where
  "intent_fields j =
     (case j of
        JObject kvs \<Rightarrow>
          (if list_all (\<lambda>kv. fst kv \<in> set intent_field_names) kvs
           then all_some (map (struct_field kvs) intent_field_names) else None)
      | JArray js \<Rightarrow>
          (if 13 \<le> length js \<and> length js \<le> 15
           then Some (map Some js @ replicate (15 - length js) None) else None)
      | _ \<Rightarrow> None)"

definition intent_of_fields :: "env \<Rightarrow> json option list \<Rightarrow> onboarding_intent option" where
  "intent_of_fields E fs =
     (case fs of
        [Some a, Some b, Some c, Some d, Some e, Some f, Some g, Some h, Some i, Some j, Some k,
         Some l, Some m, x, y] \<Rightarrow>
          (case (u8_of_json a, uuid_of_json E b, i64_of_json c, uuid_of_json E d, i64_of_json e,
                 uuid_of_json E f, provider_kind_of_json g, uuid_of_json E h, uuid_of_json E i) of
             (Some a', Some b', Some c', Some d', Some e', Some f', Some g', Some h', Some i') \<Rightarrow>
               (case (json_str j, json_str k, json_str l, json_str m, flag_of_json x,
                      flag_of_json y) of
                  (Some j', Some k', Some l', Some m', Some x', Some y') \<Rightarrow>
                    Some \<lparr> in_version = a', in_presentation = b', in_presentation_revision = c',
                           in_slot_generation = d', in_lease_generation = e', in_runtime = f',
                           in_provider = g', in_location = h', in_workstream = i',
                           in_generation = j', in_registry_generation = k',
                           in_argv_digest = l', in_boot_provenance = m',
                           in_location_created = x', in_project_created = y' \<rparr>
                | _ \<Rightarrow> None)
           | _ \<Rightarrow> None)
      | _ \<Rightarrow> None)"

definition intent_of_json :: "env \<Rightarrow> json \<Rightarrow> onboarding_intent option" where
  "intent_of_json E j = Option.bind (intent_fields j) (intent_of_fields E)"

text \<open>\<open>serde_json::from_str(..).map_err(|_| MalformedHostSchema)\<close>, as every reader does.\<close>

definition intent_decode :: "env \<Rightarrow> string \<Rightarrow> (state_error, onboarding_intent) result" where
  "intent_decode E s =
     ok_or (Option.bind (json_parse E s) (intent_of_json E)) MalformedHostSchema"

section \<open>The executable identity\<close>

record executable_identity =
  xi_device :: "64 word"
  xi_inode :: "64 word"

definition i64_try_from_u64 :: "64 word \<Rightarrow> int option" where
  "i64_try_from_u64 w = (if uint w \<le> i64_max then Some (uint w) else None)"

definition executable_identity_new ::
  "64 word \<Rightarrow> 64 word \<Rightarrow> (state_error, executable_identity) result" where
  "executable_identity_new device inode =
     (if inode = 0 \<or> i64_try_from_u64 device = None \<or> i64_try_from_u64 inode = None
      then Inl InvalidOnboardingPreparation
      else Inr \<lparr> xi_device = device, xi_inode = inode \<rparr>)"

definition u64_try_from_i64 :: "int \<Rightarrow> 64 word option" where
  "u64_try_from_i64 n = (if 0 \<le> n then Some (word_of_int n) else None)"

text \<open>Both columns read back, as the exec-target readers do.\<close>

definition read_executable_identity :: "int \<Rightarrow> int \<Rightarrow> (state_error, executable_identity) result" where
  "read_executable_identity device inode =
     and_then (ok_or (u64_try_from_i64 device) MalformedHostSchema) (\<lambda>d.
     and_then (ok_or (u64_try_from_i64 inode) MalformedHostSchema) (\<lambda>i.
     map_err (\<lambda>_. MalformedHostSchema) (executable_identity_new d i)))"

section \<open>Round trips\<close>

lemma struct_field_zip:
  assumes "distinct ks" and "length ks = length vs" and "i < length ks"
  shows "struct_field (zip ks vs) (ks ! i) = Some (Some (vs ! i))"
  using assms
proof (induction ks arbitrary: vs i)
  case Nil
  then show ?case by simp
next
  case (Cons k ks)
  then obtain v vs' where vs: "vs = v # vs'" by (cases vs) auto
  have absent: "filter (\<lambda>kv. fst kv = k) (zip ks vs') = []"
    using Cons.prems(1) by (auto simp: filter_empty_conv dest: set_zip_leftD)
  show ?case
  proof (cases i)
    case 0
    with vs absent show ?thesis by (simp add: struct_field_def)
  next
    case (Suc m)
    with Cons vs have "struct_field (zip ks vs') (ks ! m) = Some (Some (vs' ! m))" by simp
    moreover have "k \<noteq> ks ! m"
      using Cons.prems(1,3) Suc by (metis Suc_less_eq distinct.simps(2) length_Cons nth_mem)
    ultimately show ?thesis
      using Suc vs by (simp add: struct_field_def)
  qed
qed

lemma all_some_map: "all_some (map Some xs) = Some xs"
  by (induction xs) auto

lemma intent_fields_zip:
  assumes "length vs = 15"
  shows "intent_fields (JObject (zip intent_field_names vs)) = Some (map Some vs)"
proof -
  have d: "distinct intent_field_names" and l: "length intent_field_names = 15"
    by (simp_all add: intent_field_names_def intent_required_fields_def)
  have "list_all (\<lambda>kv. fst kv \<in> set intent_field_names) (zip intent_field_names vs)"
    by (auto simp: list_all_iff dest: set_zip_leftD)
  moreover have "map (struct_field (zip intent_field_names vs)) intent_field_names =
      map Some (map Some vs)"
    using assms l struct_field_zip [OF d] by (intro nth_equalityI) auto
  ultimately show ?thesis
    by (simp only: intent_fields_def json.case all_some_map if_True)
qed

lemma uint8_u8: "u8_of_json (JNumber (JInt (uint (v :: 8 word)))) = Some v"
proof -
  have "uint v < 2 ^ LENGTH(8)" by (rule unsigned_less)
  then show ?thesis by (simp add: u8_of_json_def)
qed

definition intent_fits :: "onboarding_intent \<Rightarrow> bool" where
  "intent_fits n \<longleftrightarrow>
     (\<forall>v \<in> {in_presentation_revision n, in_lease_generation n}. - (2 ^ 63) \<le> v \<and> v \<le> i64_max)"

lemma provider_kind_of_text [simp]:
  "provider_kind_of_json (JString (provider_kind_text p)) = Some p"
  by (cases p) (simp_all add: provider_kind_of_json_def provider_kind_parse_def)

lemma intent_json_exact:
  "intent_fits n \<Longrightarrow> json_exact 100 (JObject (zip intent_field_names (intent_values E n)))"
proof -
  assume fits: "intent_fits n"
  have "- (2 ^ 63) \<le> uint (in_version n)"
    by (rule order_trans [OF _ uint_ge_0]) simp
  moreover have "uint (in_version n) < 2 ^ LENGTH(8)" by (rule unsigned_less)
  moreover have "- (2 ^ 63) \<le> v" "v < 2 ^ 63"
    if "v \<in> {in_presentation_revision n, in_lease_generation n}" for v
    using fits that by (auto simp: intent_fits_def i64_max_def)
  ultimately have "json_exact (Suc (Suc k)) (JObject (zip intent_field_names (intent_values E n)))" for k
    by (simp add: intent_values_def intent_field_names_def intent_required_fields_def
)
  from this [of 98] show ?thesis by (simp add: eval_nat_numeral)
qed

lemma intent_round_trip:
  assumes "env_ok E" and "intent_fits n"
  shows "intent_decode E (intent_encode E n) = Inr n"
proof -
  have "intent_of_fields E (map Some (intent_values E n)) = Some n"
    using assms by (simp add: intent_of_fields_def intent_values_def uint8_u8 uuid_of_json_def
        env_ok_uuid i64_of_json_def intent_fits_def flag_of_json_def)
  then have "intent_of_json E (JObject (zip intent_field_names (intent_values E n))) = Some n"
    using intent_fields_zip [of "intent_values E n"]
    by (simp add: intent_of_json_def intent_values_def)
  then show ?thesis
    using env_ok_json [OF assms(1) intent_json_exact [OF assms(2)]]
    by (simp add: intent_decode_def intent_encode_def)
qed

lemma executable_identity_round_trip:
  assumes "executable_identity_new d i = Inr x"
  shows "read_executable_identity (uint (xi_device x)) (uint (xi_inode x)) = Inr x"
proof -
  have "word_of_int (uint w) = w" for w :: "64 word" by simp
  with assms show ?thesis
    by (auto simp: read_executable_identity_def u64_try_from_i64_def executable_identity_new_def
        split: if_splits)
qed

end
