(* ===== verification/Bytes.thy ===== *)
theory Bytes
  imports Provider
begin

text \<open>
  The byte-level standard-library operations that several components share: decimal and
  hexadecimal formatting, big-endian bytes, \<open>str::split_once\<close>, UTF-8 validity of an
  \<open>OsStr\<close>, \<open>Path::components\<close> and \<open>Path::join\<close>. A path is its bytes.
\<close>

section \<open>Formatting\<close>

text \<open>\<open>to_string\<close> of an integer.\<close>

function nat_text :: "nat \<Rightarrow> string" where
  "nat_text n =
     (if n < 10 then [char_of (48 + n)] else nat_text (n div 10) @ [char_of (48 + n mod 10)])"
  by pat_completeness auto
termination
  by (relation "measure id") auto

declare nat_text.simps [simp del]

definition int_text :: "int \<Rightarrow> string" where
  "int_text i = (if i < 0 then CHR ''-'' # nat_text (nat (- i)) else nat_text (nat i))"

text \<open>\<open>{byte:02x}\<close> for each byte, and \<open>u64::to_be_bytes\<close>.\<close>

definition hex_bytes :: "string \<Rightarrow> string" where
  "hex_bytes s =
     concat (map (\<lambda>c. [hex_digit ((of_char c :: nat) div 16), hex_digit (of_char c mod 16)]) s)"

primrec be_bytes :: "nat \<Rightarrow> nat \<Rightarrow> string" where
  "be_bytes 0 n = []"
| "be_bytes (Suc k) n = be_bytes k (n div 256) @ [char_of (n mod 256)]"

definition lower_hex :: "char \<Rightarrow> bool" where
  "lower_hex c = (let n = of_char c :: nat in 48 \<le> n \<and> n \<le> 57 \<or> 97 \<le> n \<and> n \<le> 102)"

lemma digits_value_append: "digits_value (s @ [c]) = 10 * digits_value s + (of_char c - 48)"
  by (simp add: digits_value_def)

lemma digits_value_nat_text: "digits_value (nat_text n) = n"
proof (induction n rule: nat_text.induct)
  case (1 n)
  show ?case
  proof (cases "n < 10")
    case True
    then show ?thesis by (subst nat_text.simps) (simp add: digits_value_def)
  next
    case False
    with 1 have "digits_value (nat_text (n div 10)) = n div 10" by simp
    moreover have "48 + n mod 10 < 256" by (simp add: trans_less_add1)
    ultimately show ?thesis
      using False by (subst nat_text.simps) (simp add: digits_value_append)
  qed
qed

lemma nat_text_inject [simp]: "nat_text m = nat_text n \<longleftrightarrow> m = n"
  by (metis digits_value_nat_text)

lemma nat_text_digits: "c \<in> set (nat_text n) \<Longrightarrow> 48 \<le> (of_char c :: nat) \<and> (of_char c :: nat) \<le> 57"
proof (induction n rule: nat_text.induct)
  case (1 n)
  then show ?case
    by (subst (asm) nat_text.simps) (auto split: if_splits)
qed

lemma nat_text_no_sign: "nat_text m \<noteq> CHR ''-'' # s"
  using nat_text_digits [of "CHR ''-''" m] by auto

lemma int_text_inject [simp]: "int_text i = int_text j \<longleftrightarrow> i = j"
  by (auto simp: int_text_def nat_text_no_sign nat_text_no_sign [symmetric])

lemma length_be_bytes [simp]: "length (be_bytes k n) = k"
  by (induction k arbitrary: n) auto

lemma be_bytes_inject: "m < 256 ^ k \<Longrightarrow> n < 256 ^ k \<Longrightarrow> be_bytes k m = be_bytes k n \<longleftrightarrow> m = n"
proof (induction k arbitrary: m n)
  case 0
  then show ?case by simp
next
  case (Suc k)
  have div: "m div 256 < 256 ^ k" "n div 256 < 256 ^ k"
    using Suc.prems by (simp_all add: less_mult_imp_div_less mult.commute)
  have "m = n" if eq: "be_bytes (Suc k) m = be_bytes (Suc k) n"
  proof -
    from eq have "be_bytes k (m div 256) = be_bytes k (n div 256)"
      and last: "(char_of (m mod 256) :: char) = char_of (n mod 256)"
      by simp_all
    then have "m div 256 = n div 256" using Suc.IH [OF div] by simp
    moreover have "m mod 256 = n mod 256"
      using last by (simp add: char_of_eq_iff of_char_of take_bit_eq_mod)
    ultimately show ?thesis by (metis div_mult_mod_eq)
  qed
  then show ?case by auto
qed

lemma hex_digit_lower: "lower_hex (hex_digit d)"
  using hex_digit_range [of d] unfolding insert_iff empty_iff
  by (elim disjE) (simp_all add: hex_digit_def lower_hex_def)

lemma hex_bytes_simps [simp]:
  "hex_bytes [] = []"
  "hex_bytes (c # s) = hex_digit (of_char c div 16) # hex_digit (of_char c mod 16) # hex_bytes s"
  by (simp_all add: hex_bytes_def)

lemma length_hex_bytes [simp]: "length (hex_bytes s) = 2 * length s"
  by (induction s) auto

lemma hex_bytes_lower [simp]: "list_all lower_hex (hex_bytes s)"
  by (induction s) (auto simp: hex_digit_lower)

lemma hex_digit_inject: "hex_digit a = hex_digit b \<Longrightarrow> a mod 16 = b mod 16"
  by (metis hex_value_digit)

lemma hex_bytes_inject [simp]: "hex_bytes s = hex_bytes t \<longleftrightarrow> s = t"
proof (induction s arbitrary: t)
  case Nil
  then show ?case by (cases t) auto
next
  case (Cons c s)
  have "c = d" if "hex_digit (of_char c div 16) = hex_digit (of_char d div 16)"
    and "hex_digit (of_char c mod 16) = hex_digit (of_char d mod 16)" for d :: char
  proof -
    have small: "(of_char x :: nat) div 16 < 16" for x :: char
      using mod_less_divisor [of 256 "of_char x :: nat"] by (simp add: less_mult_imp_div_less)
    from that(1) have "(of_char c :: nat) div 16 mod 16 = of_char d div 16 mod 16"
      by (rule hex_digit_inject)
    then have "(of_char c :: nat) div 16 = of_char d div 16"
      by (simp only: mod_less [OF small])
    moreover from that(2) have "(of_char c :: nat) mod 16 mod 16 = of_char d mod 16 mod 16"
      by (rule hex_digit_inject)
    then have "(of_char c :: nat) mod 16 = of_char d mod 16"
      by (simp only: mod_mod_trivial)
    ultimately have "(of_char c :: nat) = of_char d" by (metis div_mult_mod_eq)
    then show ?thesis by (simp add: of_char_eq_iff)
  qed
  then show ?case using Cons by (cases t) auto
qed

section \<open>Splitting\<close>

text \<open>\<open>s.split_once(c)\<close> and \<open>s.split(c)\<close>.\<close>

fun split_once :: "char \<Rightarrow> string \<Rightarrow> (string \<times> string) option" where
  "split_once c [] = None"
| "split_once c (x # s) =
     (if x = c then Some ([], s) else map_option (\<lambda>(a, b). (x # a, b)) (split_once c s))"

fun split_on :: "char \<Rightarrow> string \<Rightarrow> string list" where
  "split_on c [] = [[]]"
| "split_on c (x # s) =
     (if x = c then [] # split_on c s
      else (case split_on c s of [] \<Rightarrow> [[x]] | w # ws \<Rightarrow> (x # w) # ws))"

lemma split_once_join: "c \<notin> set a \<Longrightarrow> split_once c (a @ c # b) = Some (a, b)"
  by (induction a) auto

lemma split_once_Some: "split_once c s = Some (a, b) \<Longrightarrow> s = a @ c # b \<and> c \<notin> set a"
  by (induction s arbitrary: a) (auto split: if_splits)

section \<open>Paths\<close>

text \<open>\<open>OsStr::to_str\<close> succeeds: the bytes are well-formed UTF-8.\<close>

definition utf8_width :: "nat list \<Rightarrow> nat" where
  "utf8_width s =
     (case s of
        [] \<Rightarrow> 0
      | a # r \<Rightarrow>
          if a < 128 then 1
          else if 194 \<le> a \<and> a \<le> 223 then
            (case r of b # _ \<Rightarrow> if 128 \<le> b \<and> b \<le> 191 then 2 else 0 | _ \<Rightarrow> 0)
          else if 224 \<le> a \<and> a \<le> 239 then
            (case r of b # c # _ \<Rightarrow>
               if (if a = 224 then 160 else 128) \<le> b \<and> b \<le> (if a = 237 then 159 else 191)
                  \<and> 128 \<le> c \<and> c \<le> 191 then 3 else 0
             | _ \<Rightarrow> 0)
          else if 240 \<le> a \<and> a \<le> 244 then
            (case r of b # c # d # _ \<Rightarrow>
               if (if a = 240 then 144 else 128) \<le> b \<and> b \<le> (if a = 244 then 143 else 191)
                  \<and> 128 \<le> c \<and> c \<le> 191 \<and> 128 \<le> d \<and> d \<le> 191 then 4 else 0
             | _ \<Rightarrow> 0)
          else 0)"

function valid_utf8_bytes :: "nat list \<Rightarrow> bool" where
  "valid_utf8_bytes s =
     (if s = [] then True
      else if utf8_width s = 0 then False
      else valid_utf8_bytes (drop (utf8_width s) s))"
  by pat_completeness auto
termination
  by (relation "measure length") auto

declare valid_utf8_bytes.simps [simp del]

definition valid_utf8 :: "string \<Rightarrow> bool" where
  "valid_utf8 s = valid_utf8_bytes (map of_char s)"

lemma valid_utf8_ascii: "list_all (\<lambda>c. (of_char c :: nat) < 128) s \<Longrightarrow> valid_utf8 s"
  unfolding valid_utf8_def
  by (induction s) (subst valid_utf8_bytes.simps, simp add: utf8_width_def)+

datatype path_component = RootDir | CurDir | ParentDir | NormalDir string

definition path_is_absolute :: "string \<Rightarrow> bool" where
  "path_is_absolute p = starts_with ''/'' p"

text \<open>
  \<open>Path::components\<close>: repeated separators and later \<open>.\<close> components disappear; a leading \<open>.\<close>
  of a relative path is \<open>CurDir\<close>.
\<close>

definition component_of :: "string \<Rightarrow> path_component list" where
  "component_of w =
     (if w = [] \<or> w = ''.'' then [] else if w = ''..'' then [ParentDir] else [NormalDir w])"

definition path_components :: "string \<Rightarrow> path_component list" where
  "path_components p =
     (if path_is_absolute p then RootDir # concat (map component_of (split_on CHR ''/'' p))
      else (case split_on CHR ''/'' p of
              [] \<Rightarrow> []
            | w # ws \<Rightarrow>
                (if w = ''.'' then [CurDir] else component_of w) @ concat (map component_of ws)))"

text \<open>\<open>Path::join\<close>: an absolute right-hand side replaces the path.\<close>

definition path_join :: "string \<Rightarrow> string \<Rightarrow> string" where
  "path_join p q =
     (if path_is_absolute q then q
      else if p = [] \<or> last p = CHR ''/'' then p @ q
      else p @ ''/'' @ q)"

text \<open>The boundary's own path rule: absolute, UTF-8, and no \<open>..\<close> component.\<close>

definition is_normalized_absolute_path :: "string \<Rightarrow> bool" where
  "is_normalized_absolute_path p =
     (path_is_absolute p \<and> valid_utf8 p
      \<and> list_all (\<lambda>c. c \<noteq> CurDir \<and> c \<noteq> ParentDir) (path_components p))"

section \<open>Constant-time comparison\<close>

unbundle bit_operations_syntax

definition constant_time_eq :: "string \<Rightarrow> string \<Rightarrow> bool" where
  "constant_time_eq left right =
     (if length left \<noteq> length right then False
      else foldl (\<lambda>difference (l, r). difference OR ((of_char l :: 8 word) XOR of_char r)) 0
             (zip left right) = 0)"

lemma of_char_word_inject: "(of_char c :: 8 word) = of_char d \<longleftrightarrow> c = d"
proof
  assume "(of_char c :: 8 word) = of_char d"
  then have "(word_of_nat (of_char c) :: 8 word) = word_of_nat (of_char d)"
    by (simp only: of_nat_of_char)
  then have "unat (word_of_nat (of_char c) :: 8 word) = unat (word_of_nat (of_char d) :: 8 word)"
    by (rule arg_cong)
  then have "(of_char c :: nat) mod 256 = of_char d mod 256"
    by (simp only: unsigned_of_nat take_bit_eq_mod of_nat_id) simp
  then show "c = d" by (simp add: of_char_eq_iff)
qed simp

lemma constant_time_eq_iff [simp]: "constant_time_eq s t \<longleftrightarrow> s = t"
proof -
  have zero: "a OR b = 0 \<longleftrightarrow> a = 0 \<and> b = 0" for a b :: "8 word"
    by (rule or_eq_0_iff)
  have fold: "foldl (\<lambda>difference (l, r). difference OR ((of_char l :: 8 word) XOR of_char r)) d
        (zip s t) = 0 \<longleftrightarrow> d = 0 \<and> s = t" if "length s = length t" for d
    using that
  proof (induction s t arbitrary: d rule: list_induct2)
    case Nil
    then show ?case by simp
  next
    case (Cons x xs y ys)
    have "of_char x XOR (of_char y :: 8 word) = 0 \<longleftrightarrow> x = y"
    proof
      assume "of_char x XOR (of_char y :: 8 word) = 0"
      then have "(of_char x XOR of_char y) XOR of_char y = 0 XOR (of_char y :: 8 word)"
        by (rule arg_cong)
      then have "(of_char x :: 8 word) = of_char y"
        by (simp only: xor.assoc xor_self_eq xor.right_neutral xor.left_neutral)
      then show "x = y" by (simp only: of_char_word_inject)
    qed simp
    with Cons show ?case by (simp add: zero)
  qed
  show ?thesis
    by (cases "length s = length t") (auto simp: constant_time_eq_def fold)
qed

end
