(* ===== verification/Capability.thy ===== *)
theory Capability
  imports Bytes
begin

text \<open>
  \<open>src/onboarding.rs\<close> and \<open>RuntimePaths\<close> of \<open>src/runtime/mod.rs\<close>: the classification of a shell
  command into a promotable launch, the claims of one launch capability with their
  length-prefixed digest input, and the issue and verification of the one-shot token.

  \<open>SHA-256\<close> and the simple (unhyphenated) text of a UUID are third-party code: the record
  \<open>crypto\<close> carries them, \<open>crypto_ok\<close> states their output formats. What the code relies on beyond
  that, that two different inputs have different digests, is not assumed: the theorems name the
  colliding inputs instead.
\<close>

section \<open>Third-party parameters\<close>

record crypto =
  sha256 :: "string \<Rightarrow> string"
  uuid_simple :: "uuid \<Rightarrow> string"

definition crypto_ok :: "crypto \<Rightarrow> bool" where
  "crypto_ok K \<longleftrightarrow>
     (\<forall>s. length (sha256 K s) = 32) \<and>
     (\<forall>u. length (uuid_simple K u) = 32 \<and> list_all lower_hex (uuid_simple K u))"

text \<open>Two different byte strings with the same \<open>SHA-256\<close>.\<close>

definition collides :: "crypto \<Rightarrow> string \<Rightarrow> string \<Rightarrow> bool" where
  "collides K a b \<longleftrightarrow> a \<noteq> b \<and> sha256 K a = sha256 K b"

section \<open>Runtime paths\<close>

record runtime_paths =
  rp_directory :: string
  rp_socket :: string
  rp_config :: string
  rp_session_name :: string

definition runtime_directory :: string where "runtime_directory = ''run''"

definition runtime_paths_for :: "env \<Rightarrow> string \<Rightarrow> uuid \<Rightarrow> runtime_paths" where
  "runtime_paths_for E state_root runtime_id =
     (let identifier = uuid_text E runtime_id;
          directory = path_join (path_join state_root runtime_directory) (''runtime-'' @ identifier)
      in \<lparr> rp_directory = directory, rp_socket = path_join directory ''tmux.sock'',
           rp_config = path_join directory ''tmux.conf'',
           rp_session_name = ''wsnav-'' @ identifier \<rparr>)"

datatype runtime_path_error = RuntimeSessionMismatch

definition runtime_paths_for_record ::
  "env \<Rightarrow> string \<Rightarrow> uuid \<Rightarrow> string \<Rightarrow> runtime_path_error + runtime_paths" where
  "runtime_paths_for_record E state_root runtime_id recorded_session =
     (let current = runtime_paths_for E state_root runtime_id
      in if recorded_session = rp_session_name current then Inr current
         else Inl RuntimeSessionMismatch)"

section \<open>Promotable commands\<close>

datatype command_error = NonUtf8Argument | UnpromotableCommand

record fresh_provider_launch =
  fl_provider :: provider_kind
  fl_arguments :: "string list"
  fl_argv_digest :: string

datatype shell_command_decision =
  ManagedLaunch fresh_provider_launch | UnmanagedCommand

definition argument_digest_version :: string where
  "argument_digest_version = ''wsnav-fresh-argv-v1''"

definition versioned_sha256 :: "crypto \<Rightarrow> string \<Rightarrow> string \<Rightarrow> string" where
  "versioned_sha256 K version input = version @ '':sha256:'' @ hex_bytes (sha256 K input)"

definition argument_digest_input :: "provider_kind \<Rightarrow> string list \<Rightarrow> string" where
  "argument_digest_input provider arguments =
     argument_digest_version @ [nul] @ provider_kind_text provider
     @ concat (map (\<lambda>a. nul # a) arguments)"

definition digest_arguments :: "crypto \<Rightarrow> provider_kind \<Rightarrow> string list \<Rightarrow> string" where
  "digest_arguments K provider arguments =
     versioned_sha256 K argument_digest_version (argument_digest_input provider arguments)"

definition classify_shell_command ::
  "crypto \<Rightarrow> provider_kind \<Rightarrow> string list \<Rightarrow> command_error + shell_command_decision" where
  "classify_shell_command K provider arguments =
     and_then (collect_results (map (\<lambda>a. if valid_utf8 a then Inr a else Inl NonUtf8Argument) arguments))
       (\<lambda>args.
     and_then (map_err (\<lambda>_. UnpromotableCommand) (classify provider args)) (\<lambda>c.
     case c of
       ManagedFresh normalized \<Rightarrow>
         Inr (ManagedLaunch \<lparr> fl_provider = provider, fl_arguments = normalized,
                fl_argv_digest = digest_arguments K provider normalized \<rparr>)
     | ExplicitlyUnmanaged \<Rightarrow> Inr UnmanagedCommand))"

section \<open>Claims\<close>

datatype capability_error =
  InvalidClaims | InvalidExpiry | InvalidToken | Expired | ClaimMismatch

record launch_claims =
  cl_operation :: uuid
  cl_presentation :: uuid
  cl_presentation_revision :: int
  cl_slot_generation :: uuid
  cl_lease_generation :: int
  cl_runtime :: uuid
  cl_paths :: runtime_paths
  cl_provider :: provider_kind
  cl_shell_cwd :: string
  cl_worktree_root :: string
  cl_location :: uuid
  cl_runtime_generation :: string
  cl_registry_generation :: string
  cl_shell_pid :: "32 word"
  cl_shell_birth :: string
  cl_process_group :: "32 word"
  cl_session :: "32 word"
  cl_argv_digest :: string
  cl_boot_provenance :: string

definition claim_digest_version :: string where "claim_digest_version = ''wsnav-launch-claims-v1''"
definition token_verifier_version :: string where
  "token_verifier_version = ''wsnav-launch-verifier-v1''"
definition boot_provenance_version :: string where "boot_provenance_version = ''wsnav-boot-v1''"
definition max_capability_lifetime_millis :: int where "max_capability_lifetime_millis = 60000"
definition max_capability_text_bytes :: nat where "max_capability_text_bytes = 256"

definition is_bounded_text :: "string \<Rightarrow> bool" where
  "is_bounded_text v \<longleftrightarrow>
     v \<noteq> [] \<and> length v \<le> max_capability_text_bytes \<and> \<not> contains_control v"

definition is_versioned_sha256 :: "string \<Rightarrow> string \<Rightarrow> bool" where
  "is_versioned_sha256 value version =
     (case strip_prefix (version @ '':sha256:'') value of
        None \<Rightarrow> False
      | Some digest \<Rightarrow> length digest = 64 \<and> list_all lower_hex digest)"

definition claims_new :: "launch_claims \<Rightarrow> capability_error + launch_claims" where
  "claims_new c =
     (if cl_lease_generation c \<le> 0 \<or> cl_shell_pid c = 0 \<or> cl_process_group c = 0
         \<or> cl_session c = 0
         \<or> \<not> is_normalized_absolute_path (rp_directory (cl_paths c))
         \<or> \<not> is_normalized_absolute_path (rp_socket (cl_paths c))
         \<or> \<not> is_normalized_absolute_path (rp_config (cl_paths c))
         \<or> \<not> is_normalized_absolute_path (cl_shell_cwd c)
         \<or> \<not> is_normalized_absolute_path (cl_worktree_root c)
         \<or> \<not> is_bounded_text (rp_session_name (cl_paths c))
         \<or> \<not> is_bounded_text (cl_runtime_generation c)
         \<or> \<not> is_bounded_text (cl_registry_generation c)
         \<or> \<not> is_bounded_text (cl_shell_birth c)
         \<or> \<not> is_versioned_sha256 (cl_argv_digest c) argument_digest_version
         \<or> \<not> is_versioned_sha256 (cl_boot_provenance c) boot_provenance_version
      then Inl InvalidClaims else Inr c)"

text \<open>
  \<open>update_claim\<close>: a zero byte, the name, a zero byte, the length as eight bytes, the value. Paths
  of a validated claim set are UTF-8, so \<open>to_string_lossy\<close> is the path itself.
\<close>

definition update_claim :: "string \<Rightarrow> string \<Rightarrow> string" where
  "update_claim name value =
     [nul] @ name @ [nul] @ be_bytes 8 (min (length value) (2 ^ 64 - 1)) @ value"

definition claim_fields :: "env \<Rightarrow> launch_claims \<Rightarrow> (string \<times> string) list" where
  "claim_fields E c =
     [(''operation'', uuid_text E (cl_operation c)),
      (''presentation'', uuid_text E (cl_presentation c)),
      (''presentation_revision'', int_text (cl_presentation_revision c)),
      (''slot_generation'', uuid_text E (cl_slot_generation c)),
      (''lease_generation'', int_text (cl_lease_generation c)),
      (''candidate_runtime'', uuid_text E (cl_runtime c)),
      (''runtime_directory'', rp_directory (cl_paths c)),
      (''runtime_socket'', rp_socket (cl_paths c)),
      (''runtime_config'', rp_config (cl_paths c)),
      (''runtime_session'', rp_session_name (cl_paths c)),
      (''provider'', provider_kind_text (cl_provider c)),
      (''shell_cwd'', cl_shell_cwd c),
      (''worktree_root'', cl_worktree_root c),
      (''location'', uuid_text E (cl_location c)),
      (''runtime_generation'', cl_runtime_generation c),
      (''registry_generation'', cl_registry_generation c),
      (''shell_pid'', nat_text (unat (cl_shell_pid c))),
      (''shell_birth'', cl_shell_birth c),
      (''shell_process_group'', nat_text (unat (cl_process_group c))),
      (''shell_session'', nat_text (unat (cl_session c))),
      (''argv_digest'', cl_argv_digest c),
      (''boot_provenance'', cl_boot_provenance c)]"

definition claim_digest_input :: "env \<Rightarrow> launch_claims \<Rightarrow> string" where
  "claim_digest_input E c =
     claim_digest_version @ concat (map (\<lambda>(name, value). update_claim name value) (claim_fields E c))"

definition claims_digest :: "env \<Rightarrow> crypto \<Rightarrow> launch_claims \<Rightarrow> string" where
  "claims_digest E K c = versioned_sha256 K claim_digest_version (claim_digest_input E c)"

section \<open>Capabilities\<close>

record capability_metadata =
  cm_token_id :: string
  cm_verifier :: string
  cm_expiry :: int
  cm_claims_digest :: string

record launch_capability =
  cap_token :: string
  cap_metadata :: capability_metadata

definition metadata_from_persisted ::
  "env \<Rightarrow> string \<Rightarrow> string \<Rightarrow> int \<Rightarrow> string \<Rightarrow> capability_error + capability_metadata" where
  "metadata_from_persisted E token_id verifier expiry digest =
     (if uuid_parse E token_id = None \<or> expiry \<le> 0
         \<or> \<not> is_versioned_sha256 verifier token_verifier_version
         \<or> \<not> is_versioned_sha256 digest claim_digest_version
      then Inl InvalidToken
      else Inr \<lparr> cm_token_id = token_id, cm_verifier = verifier, cm_expiry = expiry,
                 cm_claims_digest = digest \<rparr>)"

definition verifier_input :: "string \<Rightarrow> string" where
  "verifier_input token = token_verifier_version @ [nul] @ token"

definition token_verifier :: "crypto \<Rightarrow> string \<Rightarrow> string" where
  "token_verifier K token = versioned_sha256 K token_verifier_version (verifier_input token)"

text \<open>\<open>i64::checked_sub\<close>.\<close>

definition i64_checked_sub :: "int \<Rightarrow> int \<Rightarrow> int option" where
  "i64_checked_sub a b =
     (let d = a - b in if - (2 ^ 63) \<le> d \<and> d \<le> i64_max then Some d else None)"

text \<open>\<open>LaunchCapability::issue\<close>; the three identities come from the generator.\<close>

definition issue_capability ::
  "env \<Rightarrow> crypto \<Rightarrow> launch_claims \<Rightarrow> int \<Rightarrow> int \<Rightarrow> uuid \<Rightarrow> uuid \<Rightarrow> uuid
     \<Rightarrow> capability_error + launch_capability" where
  "issue_capability E K claims now expiry token_id secret1 secret2 =
     and_then (ok_or (i64_checked_sub expiry now) InvalidExpiry) (\<lambda>lifetime.
     if now < 0 \<or> lifetime \<le> 0 \<or> lifetime > max_capability_lifetime_millis
     then Inl InvalidExpiry
     else
       let secret = uuid_simple K secret1 @ uuid_simple K secret2;
           token = uuid_text E token_id @ ''.'' @ secret
       in Inr \<lparr> cap_token = token,
                cap_metadata =
                  \<lparr> cm_token_id = uuid_text E token_id, cm_verifier = token_verifier K token,
                    cm_expiry = expiry, cm_claims_digest = claims_digest E K claims \<rparr> \<rparr>)"

definition valid_launch_capability_token :: "env \<Rightarrow> string \<Rightarrow> bool" where
  "valid_launch_capability_token E token =
     (case split_once CHR ''.'' token of
        None \<Rightarrow> False
      | Some (token_id, secret) \<Rightarrow>
          (case uuid_parse E token_id of
             None \<Rightarrow> False
           | Some parsed \<Rightarrow>
               uuid_text E parsed = token_id \<and> length secret = 64 \<and> list_all lower_hex secret))"

definition verify_launch_capability ::
  "env \<Rightarrow> crypto \<Rightarrow> string \<Rightarrow> capability_metadata \<Rightarrow> launch_claims \<Rightarrow> int
     \<Rightarrow> (capability_error, unit) result" where
  "verify_launch_capability E K token metadata claims now =
     (if now < 0 \<or> now \<ge> cm_expiry metadata then Inl Expired
      else if uuid_parse E (cm_token_id metadata) = None
         \<or> \<not> is_versioned_sha256 (cm_verifier metadata) token_verifier_version
         \<or> \<not> is_versioned_sha256 (cm_claims_digest metadata) claim_digest_version
      then Inl InvalidToken
      else
        and_then (ok_or (split_once CHR ''.'' token) InvalidToken) (\<lambda>(token_id, _).
        if \<not> valid_launch_capability_token E token \<or> token_id \<noteq> cm_token_id metadata
           \<or> \<not> constant_time_eq (token_verifier K token) (cm_verifier metadata)
        then Inl InvalidToken
        else if \<not> constant_time_eq (claims_digest E K claims) (cm_claims_digest metadata)
        then Inl ClaimMismatch
        else Inr ()))"

section \<open>Digest inputs determine what they digest\<close>

lemma versioned_sha256_shape [simp]:
  "crypto_ok K \<Longrightarrow> is_versioned_sha256 (versioned_sha256 K version input) version"
  by (simp add: is_versioned_sha256_def versioned_sha256_def strip_prefix_def starts_with_def
      crypto_ok_def)

lemma versioned_sha256_eq:
  "versioned_sha256 K version a = versioned_sha256 K version b \<Longrightarrow> a = b \<or> collides K a b"
  by (auto simp: versioned_sha256_def collides_def)

text \<open>A value fits its length prefix: every Rust string does.\<close>

abbreviation fits_prefix :: "string \<Rightarrow> bool" where
  "fits_prefix v \<equiv> length v < 2 ^ 64"

lemma update_claim_prefix:
  assumes "fits_prefix v" and "fits_prefix w"
    and "update_claim name v @ rest = update_claim name w @ rest'"
  shows "v = w \<and> rest = rest'"
proof -
  have eq: "be_bytes 8 (length v) @ v @ rest = be_bytes 8 (length w) @ w @ rest'"
    using assms by (simp add: update_claim_def min_def)
  then have "be_bytes 8 (length v) = be_bytes 8 (length w)" and tl: "v @ rest = w @ rest'"
    by (simp_all add: append_eq_append_conv)
  then have "length v = length w"
    using assms(1,2) by (simp add: be_bytes_inject)
  with tl show ?thesis by (simp add: append_eq_append_conv)
qed

lemma claim_sequence_unique:
  assumes "map fst xs = map fst ys"
    and "list_all (\<lambda>(n, v). fits_prefix v) xs" and "list_all (\<lambda>(n, v). fits_prefix v) ys"
    and "concat (map (\<lambda>(n, v). update_claim n v) xs) = concat (map (\<lambda>(n, v). update_claim n v) ys)"
  shows "xs = ys"
  using assms
proof (induction xs arbitrary: ys)
  case Nil
  then show ?case by simp
next
  case (Cons x xs)
  then obtain y ys' where ys: "ys = y # ys'" by (cases ys) auto
  obtain n v where x: "x = (n, v)" by (cases x)
  obtain m w where y: "y = (m, w)" by (cases y)
  from Cons.prems ys x y have "n = m" "fits_prefix v" "fits_prefix w"
    and "update_claim n v @ concat (map (\<lambda>(n, v). update_claim n v) xs) =
      update_claim n w @ concat (map (\<lambda>(n, v). update_claim n v) ys')"
    by simp_all
  with update_claim_prefix have "v = w"
    and "concat (map (\<lambda>(n, v). update_claim n v) xs) = concat (map (\<lambda>(n, v). update_claim n v) ys')"
    by blast+
  with Cons ys x y \<open>n = m\<close> show ?case by simp
qed

lemma provider_kind_text_inject [simp]: "provider_kind_text p = provider_kind_text q \<longleftrightarrow> p = q"
  by (cases p; cases q) auto

lemma claim_fields_determine:
  assumes "env_ok E" and "claim_fields E c = claim_fields E d"
  shows "c = d"
proof -
  from assms have "cl_paths c = cl_paths d"
    by (simp add: claim_fields_def)
  moreover have "unat v = unat w \<longleftrightarrow> v = w" for v w :: "32 word"
    by (simp add: word_unat_eq_iff)
  ultimately show ?thesis
    using assms by (cases c; cases d) (simp add: claim_fields_def uuid_text_inject)
qed

text \<open>Every value of the claim set fits its prefix.\<close>

definition claims_fit :: "env \<Rightarrow> launch_claims \<Rightarrow> bool" where
  "claims_fit E c = list_all (\<lambda>(n, v). fits_prefix v) (claim_fields E c)"

lemma claim_digest_input_determines:
  assumes "env_ok E" and "claims_fit E c" and "claims_fit E d"
    and "claim_digest_input E c = claim_digest_input E d"
  shows "c = d"
proof (rule claim_fields_determine [OF assms(1)])
  show "claim_fields E c = claim_fields E d"
  proof (rule claim_sequence_unique)
    show "map fst (claim_fields E c) = map fst (claim_fields E d)"
      by (simp add: claim_fields_def)
  qed (use assms in \<open>simp_all add: claims_fit_def claim_digest_input_def\<close>)
qed

lemma issued_capability:
  assumes "issue_capability E K claims now expiry i a b = Inr cap"
  shows "0 \<le> now" "now < expiry" "expiry \<le> now + max_capability_lifetime_millis"
    "cap_token cap = uuid_text E i @ ''.'' @ uuid_simple K a @ uuid_simple K b"
    "cap_metadata cap =
       \<lparr> cm_token_id = uuid_text E i, cm_verifier = token_verifier K (cap_token cap),
         cm_expiry = expiry, cm_claims_digest = claims_digest E K claims \<rparr>"
  using assms
  by (auto simp: issue_capability_def i64_checked_sub_def Let_def split: if_splits)

lemma uuid_text_no_dot: "env_ok E \<Longrightarrow> CHR ''.'' \<notin> set (uuid_text E i)"
  using env_ok_uuid_shape(2) [of E "CHR ''.''" i] by (auto simp: uuid_chars_def)

lemma issued_token_split:
  assumes "env_ok E" and "issue_capability E K claims now expiry i a b = Inr cap"
  shows "split_once CHR ''.'' (cap_token cap) =
    Some (uuid_text E i, uuid_simple K a @ uuid_simple K b)"
  unfolding issued_capability(4) [OF assms(2)]
  using split_once_join [OF uuid_text_no_dot [OF assms(1)]] by simp

lemma issued_token_valid:
  assumes "env_ok E" and "crypto_ok K" and "issue_capability E K claims now expiry i a b = Inr cap"
  shows "valid_launch_capability_token E (cap_token cap)"
  using assms(2) env_ok_uuid [OF assms(1), of i]
  by (simp add: valid_launch_capability_token_def issued_token_split [OF assms(1,3)] crypto_ok_def)

lemma verified_token:
  assumes "verify_launch_capability E K token m claims now = Inr ()"
  shows "0 \<le> now" "now < cm_expiry m" "token_verifier K token = cm_verifier m"
    "claims_digest E K claims = cm_claims_digest m"
  using assms by (auto simp: verify_launch_capability_def split: if_splits)

text \<open>The joined arguments determine the argument list: none of them contains a zero byte.\<close>

lemma joined_unique:
  assumes "list_all (\<lambda>a. c \<notin> set a) xs" and "list_all (\<lambda>a. c \<notin> set a) ys"
    and "concat (map (\<lambda>a. c # a) xs) = concat (map (\<lambda>a. c # a) ys)"
  shows "xs = ys"
  using assms
proof (induction xs arbitrary: ys)
  case Nil
  then show ?case by (cases ys) auto
next
  case (Cons x xs)
  then obtain y ys' where ys: "ys = y # ys'" by (cases ys) auto
  have until: "takeWhile (\<lambda>d. d \<noteq> c) (a @ concat (map (\<lambda>a. c # a) as)) = a"
    if "c \<notin> set a" for a and as :: "'a list list"
  proof -
    from that have "takeWhile (\<lambda>d. d \<noteq> c) (a @ r) = a @ takeWhile (\<lambda>d. d \<noteq> c) r" for r
      by (intro takeWhile_append2) auto
    with that show ?thesis by (cases as) (auto simp: takeWhile_eq_all_conv)
  qed
  from Cons.prems(3) ys
  have eq: "x @ concat (map (\<lambda>a. c # a) xs) = y @ concat (map (\<lambda>a. c # a) ys')"
    by simp
  then have "x = y"
    using until [of x xs] until [of y ys'] Cons.prems(1,2) ys by simp
  with eq Cons ys show ?case by simp
qed

lemma nul_is_control: "nul \<in> set s \<Longrightarrow> contains_control s"
  unfolding contains_control_def
proof (induction s)
  case (Cons c s)
  then show ?case
    by (cases "c = nul") (auto simp: leading_control_def nul_def)
qed simp

lemma collect_checked:
  "collect_results (map (\<lambda>a. if P a then Inr a else Inl e) xs) = Inr ys \<longleftrightarrow> ys = xs \<and> list_all P xs"
  by (induction xs arbitrary: ys) auto

lemma managed_launch:
  assumes "classify_shell_command K p args = Inr (ManagedLaunch l)"
  shows "fl_provider l = p" "classify p args = Inr (ManagedFresh (fl_arguments l))"
    "fl_argv_digest l = digest_arguments K p (fl_arguments l)"
    "list_all (\<lambda>a. nul \<notin> set a) (fl_arguments l)"
proof -
  from assms obtain c where c: "classify p args = Inr c"
    and decided: "(case c of
       ManagedFresh normalized \<Rightarrow>
         Inr (ManagedLaunch \<lparr> fl_provider = p, fl_arguments = normalized,
                fl_argv_digest = digest_arguments K p normalized \<rparr>)
     | ExplicitlyUnmanaged \<Rightarrow> Inr UnmanagedCommand) =
     (Inr (ManagedLaunch l) :: command_error + shell_command_decision)"
    unfolding classify_shell_command_def and_then_Inr collect_checked map_err_Inr by blast
  from decided obtain n where "c = ManagedFresh n"
    and l: "l = \<lparr> fl_provider = p, fl_arguments = n, fl_argv_digest = digest_arguments K p n \<rparr>"
    by (cases c) auto
  with c have n: "classify p args = Inr (ManagedFresh n)" by simp
  with l show "fl_provider l = p" "classify p args = Inr (ManagedFresh (fl_arguments l))"
    "fl_argv_digest l = digest_arguments K p (fl_arguments l)"
    by simp_all
  from provider_items_sound [OF n] have "validate_shape n = Inr ()" by blast
  with l show "list_all (\<lambda>a. nul \<notin> set a) (fl_arguments l)"
    by (auto simp: validate_shape_Inr list_all_iff unsafe_argument_def dest: nul_is_control)
qed

section \<open>A concrete digest\<close>

definition sample_crypto :: crypto where
  "sample_crypto =
     \<lparr> sha256 = (\<lambda>s. take 32 (rev s @ replicate 32 nul)),
       uuid_simple = (\<lambda>u. map (uuid_digit u) [0..<32]) \<rparr>"

lemma sample_crypto_ok [simp, intro]: "crypto_ok sample_crypto"
  by (auto simp: crypto_ok_def sample_crypto_def uuid_digit_def hex_digit_lower list_all_iff)

lemma length_versioned_sha256:
  "length (versioned_sha256 sample_crypto version input) = length version + 72"
  by (simp add: versioned_sha256_def sample_crypto_def)

definition sample_claims :: launch_claims where
  "sample_claims =
     \<lparr> cl_operation = 11, cl_presentation = 12, cl_presentation_revision = 1,
       cl_slot_generation = 13, cl_lease_generation = 7, cl_runtime = 14,
       cl_paths = runtime_paths_for sample_env ''/s'' 14, cl_provider = Codex,
       cl_shell_cwd = ''/s/w/n'', cl_worktree_root = ''/s/w'', cl_location = 15,
       cl_runtime_generation = ''g16'', cl_registry_generation = ''r17'', cl_shell_pid = 101,
       cl_shell_birth = ''b'', cl_process_group = 101, cl_session = 101,
       cl_argv_digest = digest_arguments sample_crypto Codex [],
       cl_boot_provenance = versioned_sha256 sample_crypto boot_provenance_version ''boot'' \<rparr>"

section \<open>Properties\<close>

text \<open>C12: A capability lives exactly as long as it was issued for: its token has the grammar the
  transport accepts, its persisted metadata reads back as it was, its life is at most a minute,
  and whatever the time of the check, verification with the same claims succeeds before the
  expiry and is refused as expired from then on.\<close>

theorem issued_capability_lifetime:
  assumes "env_ok E" and "crypto_ok K"
    and "issue_capability E K claims now expiry i a b = Inr cap"
  shows "valid_launch_capability_token E (cap_token cap) \<and>
    (let m = cap_metadata cap
     in metadata_from_persisted E (cm_token_id m) (cm_verifier m) (cm_expiry m)
          (cm_claims_digest m) = Inr m) \<and>
    now < expiry \<and> expiry \<le> now + 60000 \<and>
    verify_launch_capability E K (cap_token cap) (cap_metadata cap) claims t =
      (if 0 \<le> t \<and> t < expiry then Inr () else Inl Expired)"
proof (intro conjI)
  note issued = issued_capability [OF assms(3)]
  show "valid_launch_capability_token E (cap_token cap)"
    using assms by (rule issued_token_valid)
  show "let m = cap_metadata cap
     in metadata_from_persisted E (cm_token_id m) (cm_verifier m) (cm_expiry m)
          (cm_claims_digest m) = Inr m"
    using issued(1,2,5) assms(1,2)
    by (simp add: metadata_from_persisted_def env_ok_uuid token_verifier_def claims_digest_def)
  show "now < expiry" "expiry \<le> now + 60000"
    using issued(2,3) by (simp_all add: max_capability_lifetime_millis_def)
  show "verify_launch_capability E K (cap_token cap) (cap_metadata cap) claims t =
      (if 0 \<le> t \<and> t < expiry then Inr () else Inl Expired)"
    using issued(5) assms(1,2) issued_token_valid [OF assms] issued_token_split [OF assms(1,3)]
    by (simp add: verify_launch_capability_def env_ok_uuid token_verifier_def claims_digest_def)
qed

theorem issued_capability_lifetime_witness:
  "\<exists>cap. issue_capability sample_env sample_crypto sample_claims 5 60005 1 2 3 = Inr cap \<and>
     verify_launch_capability sample_env sample_crypto (cap_token cap) (cap_metadata cap)
       sample_claims 60004 = Inr () \<and>
     verify_launch_capability sample_env sample_crypto (cap_token cap) (cap_metadata cap)
       sample_claims 60005 = Inl Expired"
proof -
  obtain cap where cap: "issue_capability sample_env sample_crypto sample_claims 5 60005 1 2 3 = Inr cap"
    by (simp add: issue_capability_def i64_checked_sub_def i64_max_def
        max_capability_lifetime_millis_def Let_def)
  then show ?thesis
    using issued_capability_lifetime [OF sample_env_ok sample_crypto_ok cap] by simp
qed

text \<open>C13: A capability is bound to its token and to every single claim: when another token or
  other claims pass the verification, they are the issued ones, or two different inputs of
  \<open>SHA-256\<close> with the same digest are at hand.\<close>

theorem capability_bound_to_claims:
  assumes "env_ok E" and "issue_capability E K claims now expiry i a b = Inr cap"
    and "verify_launch_capability E K token (cap_metadata cap) other t = Inr ()"
    and "claims_fit E claims" and "claims_fit E other"
  shows "(token = cap_token cap
          \<or> collides K (verifier_input token) (verifier_input (cap_token cap))) \<and>
    (other = claims
     \<or> collides K (claim_digest_input E other) (claim_digest_input E claims))"
proof
  note verified = verified_token [OF assms(3)] and issued = issued_capability [OF assms(2)]
  have "token_verifier K token = token_verifier K (cap_token cap)"
    using verified(3) issued(5) by simp
  then have "verifier_input token = verifier_input (cap_token cap)
      \<or> collides K (verifier_input token) (verifier_input (cap_token cap))"
    unfolding token_verifier_def by (rule versioned_sha256_eq)
  then show "token = cap_token cap
      \<or> collides K (verifier_input token) (verifier_input (cap_token cap))"
    by (auto simp: verifier_input_def)
  have "claims_digest E K other = claims_digest E K claims"
    using verified(4) issued(5) by simp
  then have "claim_digest_input E other = claim_digest_input E claims
      \<or> collides K (claim_digest_input E other) (claim_digest_input E claims)"
    unfolding claims_digest_def by (rule versioned_sha256_eq)
  then show "other = claims
      \<or> collides K (claim_digest_input E other) (claim_digest_input E claims)"
    using claim_digest_input_determines [OF assms(1,5,4)] by blast
qed

theorem capability_bound_to_claims_witness:
  "\<exists>cap. issue_capability sample_env sample_crypto sample_claims 5 60005 1 2 3 = Inr cap \<and>
     (cap_token cap = cap_token cap
      \<or> collides sample_crypto (verifier_input (cap_token cap)) (verifier_input (cap_token cap)))"
proof -
  obtain cap where cap: "issue_capability sample_env sample_crypto sample_claims 5 60005 1 2 3 = Inr cap"
    by (simp add: issue_capability_def i64_checked_sub_def i64_max_def
        max_capability_lifetime_millis_def Let_def)
  have ok: "verify_launch_capability sample_env sample_crypto (cap_token cap) (cap_metadata cap)
      sample_claims 6 = Inr ()"
    using issued_capability(5) [OF cap] issued_token_valid [OF sample_env_ok sample_crypto_ok cap]
      issued_token_split [OF sample_env_ok cap]
    by (simp add: verify_launch_capability_def token_verifier_def claims_digest_def)
  have fit: "claims_fit sample_env sample_claims"
    by (simp add: claims_fit_def claim_fields_def sample_claims_def env_ok_uuid_shape [OF sample_env_ok]
        runtime_paths_for_def path_join_def path_is_absolute_def starts_with_def Let_def
        int_text_def nat_text.simps runtime_directory_def length_versioned_sha256
        argument_digest_version_def boot_provenance_version_def digest_arguments_def)
  show ?thesis
    using capability_bound_to_claims [OF sample_env_ok cap ok fit fit] cap by blast
qed

text \<open>The digest of a promotable launch pins the exact command: two launches with the same
  digest have the same provider and the same normalized arguments, or two different inputs of
  \<open>SHA-256\<close> with the same digest are at hand. Joining the arguments with zero bytes loses nothing,
  since the grammar admits none inside an argument.\<close>

theorem argv_digest_pins_command:
  assumes "classify_shell_command K p args = Inr (ManagedLaunch l)"
    and "classify_shell_command K q args' = Inr (ManagedLaunch l')"
    and "fl_argv_digest l = fl_argv_digest l'"
  shows "fl_provider l = fl_provider l' \<and> fl_arguments l = fl_arguments l' \<or>
    collides K (argument_digest_input p (fl_arguments l)) (argument_digest_input q (fl_arguments l'))"
proof -
  note l = managed_launch [OF assms(1)] and l' = managed_launch [OF assms(2)]
  have "p = q \<and> fl_arguments l = fl_arguments l'"
    if "argument_digest_input p (fl_arguments l) = argument_digest_input q (fl_arguments l')"
  proof -
    have "nul \<notin> set (provider_kind_text r)" for r
      by (cases r) (simp_all add: nul_def)
    then have "provider_kind_text p # fl_arguments l = provider_kind_text q # fl_arguments l'"
      using l(4) l'(4) that by (intro joined_unique [of nul]) (simp_all add: argument_digest_input_def)
    then show ?thesis by simp
  qed
  then show ?thesis
    using assms(3) l l' by (auto simp: digest_arguments_def dest!: versioned_sha256_eq)
qed

theorem argv_digest_pins_command_witness:
  "\<exists>l. classify_shell_command sample_crypto Codex [''-m'', ''gpt-5''] = Inr (ManagedLaunch l) \<and>
     (fl_arguments l = [''--model'', ''gpt-5''] \<or>
      collides sample_crypto (argument_digest_input Codex (fl_arguments l))
        (argument_digest_input Codex [''--model'', ''gpt-5'']))"
proof -
  define l where "l = \<lparr> fl_provider = Codex, fl_arguments = [''--model'', ''gpt-5''],
    fl_argv_digest = digest_arguments sample_crypto Codex [''--model'', ''gpt-5''] \<rparr>"
  have "classify Codex [''-m'', ''gpt-5''] = Inr (ManagedFresh [''--model'', ''gpt-5''])"
    and "classify Codex [''--model'', ''gpt-5''] = Inr (ManagedFresh [''--model'', ''gpt-5''])"
    by code_simp+
  moreover have "valid_utf8 ''-m''" "valid_utf8 ''--model''" "valid_utf8 ''gpt-5''"
    by (rule valid_utf8_ascii, simp)+
  ultimately have short: "classify_shell_command sample_crypto Codex [''-m'', ''gpt-5''] =
      Inr (ManagedLaunch l)"
    and long: "classify_shell_command sample_crypto Codex [''--model'', ''gpt-5''] =
      Inr (ManagedLaunch l)"
    by (simp_all add: classify_shell_command_def collect_checked l_def)
  from argv_digest_pins_command [OF short long refl] short show ?thesis
    by (auto simp: l_def)
qed

end
