(* ===== verification/Schema15.thy ===== *)
theory Schema15
  imports Projects Intent Capability
begin

text \<open>
  \<open>src/state/current/schema.rs\<close>: the validator that every open and every onboarding transaction
  runs over the whole host database: the shape of the catalog (\<open>sqlite_master\<close> and
  \<open>PRAGMA table_info\<close>, carried by the record \<open>catalog\<close>), the durable identities, the lease
  metadata, and the rows of the onboarding journal.
\<close>

section \<open>The catalog\<close>

record catalog =
  ct_objects :: "(string \<times> string) list"
  ct_columns :: "string \<Rightarrow> string list"

definition required_schema15_tables :: "(string \<times> string list) list" where
  "required_schema15_tables =
     [(''host_identity'', [''singleton'', ''host_id'', ''registry_generation'', ''schema_version'']),
      (''codex_integrations'',
        [''integration_id'', ''profile_name'', ''canonical_profile_path'', ''owner_id'',
         ''profile_schema_version'', ''hook_executable_path'', ''generated_content_hash'',
         ''lifecycle'', ''revision'']),
      (''project_locations'',
        [''location_id'', ''repository_path'', ''repository_display_name'',
         ''remote_identity_fingerprint'', ''remote_identity_display'', ''revision'', ''project_id'']),
      (''workstreams'',
        [''workstream_id'', ''location_id'', ''provider'', ''origin'', ''source_workstream_id'',
         ''lifecycle'', ''archived_at_millis'', ''last_activity_sequence'',
         ''last_activity_at_millis'', ''revision'']),
      (''independent_creation_requests'',
        [''request_key'', ''source_workstream_id'', ''source_revision'', ''workstream_id'']),
      (''runtimes'',
        [''runtime_id'', ''workstream_id'', ''provider'', ''tmux_generation'', ''tmux_session'',
         ''cwd'', ''provider_pid'', ''process_birth'', ''lifecycle'', ''revision'']),
      (''opencode_runtime_handles'',
        [''runtime_id'', ''runtime_generation'', ''endpoint_host'', ''endpoint_port'', ''version'',
         ''native_session_id'', ''observer_pid'', ''observer_birth'', ''observer_status'',
         ''revision'']),
      (''provider_bindings'',
        [''binding_id'', ''runtime_id'', ''provider'', ''native_session_id'', ''start_source'',
         ''last_settled_turn_id'', ''observed_thread_name'', ''name_state'', ''name_observed_at'',
         ''predecessor_native_session_id'', ''predecessor_effective_name'', ''runtime_generation'',
         ''revision'']),
      (''attention_states'',
        [''workstream_id'', ''result_unseen_since_revision'', ''recovery_unseen_since_revision'',
         ''latest_native_session_id'', ''latest_native_session_provider'', ''latest_turn_id'',
         ''revision'']),
      (''compound_operations'',
        [''operation_id'', ''request_key'', ''kind'', ''phase'', ''expected_revisions_json'',
         ''effect_watermark'', ''outcome_json'', ''revision'', ''launch_token_id'',
         ''launch_token_verifier'', ''launch_token_expiry_monotonic'', ''launch_claims_digest'']),
      (''projects'',
        [''project_id'', ''label_location_id'', ''display_name'', ''repository_fingerprint'',
         ''revision'']),
      (''opencode_settled_messages'',
        [''settled_message_id'', ''runtime_id'', ''runtime_generation'', ''native_session_id'',
         ''message_id'']),
      (''host_operational_metadata'',
        [''singleton'', ''bootstrap_host_id'', ''bootstrap_generation'',
         ''provisional_lease_generation'', ''provisional_lock_phase'', ''provisional_lock_device'',
         ''provisional_lock_inode'']),
      (''onboarding_exec_targets'',
        [''operation_id'', ''provider'', ''executable_device'', ''executable_inode'']),
      (''sqlite_sequence'', [''name'', ''seq''])]"

definition allowed_tables :: "string list" where
  "allowed_tables =
     [''host_identity'', ''codex_integrations'', ''project_locations'', ''workstreams'',
      ''independent_creation_requests'', ''runtimes'', ''opencode_runtime_handles'',
      ''provider_bindings'', ''attention_states'', ''compound_operations'', ''projects'',
      ''opencode_settled_messages'', ''host_operational_metadata'', ''onboarding_exec_targets'',
      ''sqlite_sequence'']"

definition required_indexes :: "string list" where
  "required_indexes =
     [''compound_operations_phase_idx'', ''compound_operations_launch_token_id_idx'',
      ''project_repository_fingerprint_idx'', ''opencode_settled_messages_runtime_idx'']"

definition validate_table_columns :: "catalog \<Rightarrow> string \<Rightarrow> string list \<Rightarrow> (state_error, unit) result" where
  "validate_table_columns cat table required =
     (if table = ''sqlite_master'' then Inr ()
      else malformed_unless (list_all (\<lambda>c. c \<in> set (ct_columns cat table)) required))"

definition validate_exact_table_columns ::
  "catalog \<Rightarrow> string \<Rightarrow> string list \<Rightarrow> (state_error, unit) result" where
  "validate_exact_table_columns cat table expected =
     malformed_unless (length (ct_columns cat table) = length expected
       \<and> list_all (\<lambda>(a, b). a = b) (zip (ct_columns cat table) expected))"

definition table_exists :: "catalog \<Rightarrow> string \<Rightarrow> bool" where
  "table_exists cat table = ((''table'', table) \<in> set (ct_objects cat))"

definition table_has_column_readonly :: "catalog \<Rightarrow> string \<Rightarrow> string \<Rightarrow> bool" where
  "table_has_column_readonly cat table column = (column \<in> set (ct_columns cat table))"

definition catalog_object_allowed :: "string \<times> string \<Rightarrow> bool" where
  "catalog_object_allowed x =
     (case x of (kind, name) \<Rightarrow>
        kind = ''table'' \<and> name \<in> set allowed_tables
        \<or> kind = ''index'' \<and> (starts_with ''sqlite_autoindex_'' name \<or> name \<in> set required_indexes))"

definition validate_schema15_catalog :: "catalog \<Rightarrow> (state_error, unit) result" where
  "validate_schema15_catalog cat =
     and_then (malformed_unless (list_all catalog_object_allowed (ct_objects cat))) (\<lambda>_.
     malformed_unless (list_all (\<lambda>i. (''index'', i) \<in> set (ct_objects cat)) required_indexes))"

text \<open>\<open>validate_project_catalog\<close> of \<open>projection.rs\<close>.\<close>

definition validate_project_catalog :: "env \<Rightarrow> catalog \<Rightarrow> registry \<Rightarrow> (state_error, unit) result" where
  "validate_project_catalog E cat db =
     and_then (validate_table_columns cat ''projects''
       [''project_id'', ''label_location_id'', ''display_name'', ''repository_fingerprint'',
        ''revision'']) (\<lambda>_.
     and_then (validate_table_columns cat ''project_locations''
       [''location_id'', ''project_id'', ''repository_path'', ''repository_display_name'',
        ''remote_identity_fingerprint'', ''remote_identity_display'', ''revision'']) (\<lambda>_.
     and_then (validate_table_columns cat ''opencode_settled_messages''
       [''settled_message_id'', ''runtime_id'', ''runtime_generation'', ''native_session_id'',
        ''message_id'']) (\<lambda>_.
     and_then (malformed_unless
       ((''index'', ''project_repository_fingerprint_idx'') \<in> set (ct_objects cat))) (\<lambda>_.
     and_then (malformed_unless
       (sql_count (\<lambda>l. lc_project l = None) (location_rows db) = 0)) (\<lambda>_.
     and_then (validate_foreign_keys db) (\<lambda>_.
     and_then (validate_project_location_rows E db) (\<lambda>_.
     validate_project_membership E db)))))))"

section \<open>Identity, retired effects and lease metadata\<close>

definition reject_unresolved_retired_fork_effect :: "registry \<Rightarrow> (state_error, unit) result" where
  "reject_unresolved_retired_fork_effect db =
     (if list_ex (\<lambda>p. op_kind p = ''fork''
           \<and> op_phase p \<in> {''external_effect_started'', ''awaiting_reconciliation'', ''recovery_required''})
           (operation_rows db)
      then Inl RetiredForkRecoveryRequired else Inr ())"

definition operational_metadata_refused :: "env \<Rightarrow> metadata_row \<Rightarrow> bool" where
  "operational_metadata_refused E m \<longleftrightarrow>
     uuid_parse E (md_host_id m) = None \<or> uuid_parse E (md_generation m) = None
     \<or> md_lease_generation m \<le> 0
     \<or> md_lock_phase m \<notin> {''pending'', ''ready''}
     \<or> md_lock_phase m = ''pending'' \<and> (md_lock_device m \<noteq> None \<or> md_lock_inode m \<noteq> None)
     \<or> md_lock_phase m = ''ready'' \<and> (md_lock_device m = None \<or> md_lock_inode m = None)
     \<or> (case md_lock_device m of None \<Rightarrow> False | Some d \<Rightarrow> d < 0)
     \<or> (case md_lock_inode m of None \<Rightarrow> False | Some i \<Rightarrow> i \<le> 0)"

definition validate_operational_metadata :: "env \<Rightarrow> registry \<Rightarrow> (state_error, unit) result" where
  "validate_operational_metadata E db =
     (case List.find (\<lambda>m. md_singleton m = 1) (metadata_rows db) of
        None \<Rightarrow> Inl MalformedHostSchema
      | Some m \<Rightarrow> malformed_unless (\<not> operational_metadata_refused E m))"

section \<open>The onboarding journal\<close>

definition is_prefixed_sha256 :: "string \<Rightarrow> string \<Rightarrow> bool" where
  "is_prefixed_sha256 value prefix =
     (case strip_prefix prefix value of
        None \<Rightarrow> False
      | Some digest \<Rightarrow> length digest = 64 \<and> list_all lower_hex digest)"

definition capability_absent :: "operation_row \<Rightarrow> bool" where
  "capability_absent p \<longleftrightarrow>
     op_token_id p = None \<and> op_token_verifier p = None \<and> op_token_expiry p = None
     \<and> op_claims_digest p = None"

definition capability_complete :: "operation_row \<Rightarrow> bool" where
  "capability_complete p \<longleftrightarrow>
     op_token_id p \<noteq> None \<and> op_token_verifier p \<noteq> None \<and> op_token_expiry p \<noteq> None
     \<and> op_claims_digest p \<noteq> None"

text \<open>What the phase of an attempt (\<open>None\<close>: committed) demands of the capability columns.\<close>

definition capability_fits_phase :: "onboarding_phase option \<Rightarrow> operation_row \<Rightarrow> bool" where
  "capability_fits_phase phase p =
     (case phase of
        Some onboarding_phase.Prepared \<Rightarrow> capability_absent p
      | Some onboarding_phase.RolledBack \<Rightarrow> capability_absent p \<or> capability_complete p
      | _ \<Rightarrow> capability_complete p)"

definition validate_onboarding_operation :: "env \<Rightarrow> operation_row \<Rightarrow> (state_error, unit) result" where
  "validate_onboarding_operation E p =
     and_then (malformed (operation_phase_from_text (op_phase p))) (\<lambda>operation_phase.
     let committed = (operation_phase = Committed);
         phase = from_operation_phase operation_phase
     in if phase = None \<and> \<not> committed then Inl MalformedHostSchema
        else if committed \<and> op_outcome p \<noteq> Some parked_recovery_resolved_outcome
        then Inl MalformedHostSchema
        else if \<not> capability_fits_phase phase p then Inl MalformedHostSchema
        else
          (case (op_token_id p, op_token_verifier p, op_token_expiry p, op_claims_digest p) of
             (Some token_id, Some verifier, Some expiry, Some digest) \<Rightarrow>
               malformed_unless (\<not> (uuid_parse E token_id = None \<or> expiry \<le> 0
                 \<or> \<not> is_prefixed_sha256 verifier ''wsnav-launch-verifier-v1:sha256:''
                 \<or> \<not> is_prefixed_sha256 digest ''wsnav-launch-claims-v1:sha256:''))
           | _ \<Rightarrow> Inr ()))"

definition validate_operation_columns_row :: "env \<Rightarrow> operation_row \<Rightarrow> (state_error, unit) result" where
  "validate_operation_columns_row E p =
     (if op_kind p = ''onboard'' then validate_onboarding_operation E p
      else malformed_unless (capability_absent p))"

definition launch_columns :: "string list" where
  "launch_columns =
     [''launch_token_id'', ''launch_token_verifier'', ''launch_token_expiry_monotonic'',
      ''launch_claims_digest'']"

definition validate_onboarding_operation_columns ::
  "env \<Rightarrow> catalog \<Rightarrow> registry \<Rightarrow> (state_error, unit) result" where
  "validate_onboarding_operation_columns E cat db =
     and_then (validate_table_columns cat ''compound_operations'' launch_columns) (\<lambda>_.
     and_then (collect_results (map (validate_operation_columns_row E)
       (sort_key op_id (operation_rows db)))) (\<lambda>_. Inr ()))"

definition target_join :: "registry \<Rightarrow> (target_row \<times> operation_row) list" where
  "target_join db =
     concat (map (\<lambda>t. map (Pair t) (filter (\<lambda>p. op_id p = tg_operation t) (operation_rows db)))
       (sort_key tg_operation (target_rows db)))"

definition validate_target_row ::
  "env \<Rightarrow> target_row \<times> operation_row \<Rightarrow> (state_error, unit) result" where
  "validate_target_row E x =
     (case x of (t, p) \<Rightarrow>
        if uuid_parse E (tg_operation t) = None \<or> op_kind p \<noteq> ''onboard''
        then Inl MalformedHostSchema
        else
          and_then (malformed (provider_kind_parse (tg_provider t))) (\<lambda>provider.
          and_then (read_executable_identity (tg_device t) (tg_inode t)) (\<lambda>_.
          and_then (malformed (operation_phase_from_text (op_phase p))) (\<lambda>operation_phase.
          and_then (malformed_unless
             (if operation_phase = Committed
              then op_outcome p = Some parked_recovery_resolved_outcome
              else from_operation_phase operation_phase \<noteq> None)) (\<lambda>_.
          and_then (intent_decode E (op_expected p)) (\<lambda>intent.
          malformed_unless (in_version intent = 1 \<and> in_provider intent = provider)))))))"

definition validate_schema15_onboarding_exec_targets ::
  "env \<Rightarrow> catalog \<Rightarrow> registry \<Rightarrow> (state_error, unit) result" where
  "validate_schema15_onboarding_exec_targets E cat db =
     and_then (validate_table_columns cat ''onboarding_exec_targets''
       [''operation_id'', ''provider'', ''executable_device'', ''executable_inode'']) (\<lambda>_.
     and_then (collect_results (map (validate_target_row E) (target_join db))) (\<lambda>_. Inr ()))"

definition validate_schema15 :: "env \<Rightarrow> catalog \<Rightarrow> registry \<Rightarrow> (state_error, unit) result" where
  "validate_schema15 E cat db =
     and_then (schema_version db) (\<lambda>version.
     and_then (malformed_unless (version = host_schema_version)) (\<lambda>_.
     and_then (validate_host_identity E host_schema_version db) (\<lambda>_.
     and_then (collect_results (map (\<lambda>(table, columns). validate_exact_table_columns cat table columns)
       required_schema15_tables)) (\<lambda>_.
     and_then (malformed_unless (\<not> table_exists cat ''project_browser_settings''
       \<and> table_has_column_readonly cat ''project_locations'' ''project_id'')) (\<lambda>_.
     and_then (validate_schema15_catalog cat) (\<lambda>_.
     and_then (validate_project_catalog E cat db) (\<lambda>_.
     and_then (validate_table_columns cat ''compound_operations'' launch_columns) (\<lambda>_.
     and_then (validate_table_columns cat ''host_operational_metadata''
       [''singleton'', ''bootstrap_host_id'', ''bootstrap_generation'',
        ''provisional_lease_generation'', ''provisional_lock_phase'', ''provisional_lock_device'',
        ''provisional_lock_inode'']) (\<lambda>_.
     and_then (reject_unresolved_retired_fork_effect db) (\<lambda>_.
     and_then (validate_operational_metadata E db) (\<lambda>_.
     and_then (validate_onboarding_operation_columns E cat db) (\<lambda>_.
     and_then (validate_schema15_onboarding_exec_targets E cat db) (\<lambda>_.
     validate_foreign_keys db)))))))))))))"

section \<open>The catalog that the schema script creates\<close>

text \<open>
  The objects of \<open>HOST_SCHEMA_15_SQL\<close>: its tables, its four named indexes, the automatic indexes
  that \<open>SQLite\<close> adds for PRIMARY KEY and UNIQUE columns, and the sequence table of AUTOINCREMENT.
\<close>

definition automatic_indexes :: "string list" where
  "automatic_indexes =
     map (\<lambda>s. ''sqlite_autoindex_'' @ s)
       [''host_identity_1'', ''codex_integrations_1'', ''codex_integrations_2'',
        ''project_locations_1'', ''workstreams_1'', ''independent_creation_requests_1'',
        ''independent_creation_requests_2'', ''runtimes_1'', ''runtimes_2'',
        ''opencode_runtime_handles_1'', ''opencode_runtime_handles_2'', ''provider_bindings_1'', ''provider_bindings_2'',
        ''attention_states_1'', ''compound_operations_1'', ''compound_operations_2'',
        ''projects_1'', ''opencode_settled_messages_1'', ''onboarding_exec_targets_1'']"

definition schema15_catalog :: catalog where
  "schema15_catalog =
     \<lparr> ct_objects = map (Pair ''index'') (required_indexes @ automatic_indexes)
                    @ map (Pair ''table'') allowed_tables,
       ct_columns = (\<lambda>t. case map_of required_schema15_tables t of None \<Rightarrow> [] | Some c \<Rightarrow> c) \<rparr>"

lemma is_versioned_prefixed:
  "is_versioned_sha256 v version = is_prefixed_sha256 v (version @ '':sha256:'')"
  by (simp add: is_versioned_sha256_def is_prefixed_sha256_def)

lemma schema15_catalog_objects:
  "list_all catalog_object_allowed (ct_objects schema15_catalog)"
  "list_all (\<lambda>i. (''index'', i) \<in> set (ct_objects schema15_catalog)) required_indexes"
  by code_simp+

lemma schema15_catalog_columns:
  "collect_results (map (\<lambda>(table, columns). validate_exact_table_columns schema15_catalog table columns)
     required_schema15_tables) = Inr (replicate 15 ())"
  by code_simp

lemma schema15_catalog_valid:
  "validate_schema15_catalog schema15_catalog = Inr ()"
  by (simp add: validate_schema15_catalog_def schema15_catalog_objects)

section \<open>What the validator checks\<close>

text \<open>The part of the validation that only reads the catalog, and the part about the rows.\<close>

definition catalog_valid :: "catalog \<Rightarrow> bool" where
  "catalog_valid cat \<longleftrightarrow>
     (\<exists>us. collect_results (map (\<lambda>(table, columns). validate_exact_table_columns cat table columns)
        required_schema15_tables) = Inr (us :: unit list)) \<and>
     \<not> table_exists cat ''project_browser_settings'' \<and>
     table_has_column_readonly cat ''project_locations'' ''project_id'' \<and>
     validate_schema15_catalog cat = Inr ()"

definition project_rows_valid :: "env \<Rightarrow> registry \<Rightarrow> bool" where
  "project_rows_valid E db \<longleftrightarrow>
     (\<forall>l \<in> set (location_rows db). validate_location_row E l = Inr ()) \<and>
     (\<forall>p \<in> set (project_rows db). validate_project_row E db p = Inr ())"

definition journal_rows_valid :: "env \<Rightarrow> registry \<Rightarrow> bool" where
  "journal_rows_valid E db \<longleftrightarrow>
     reject_unresolved_retired_fork_effect db = Inr () \<and>
     (\<forall>p \<in> set (operation_rows db). validate_operation_columns_row E p = Inr ()) \<and>
     (\<forall>t \<in> set (target_rows db). \<forall>p \<in> set (operation_rows db).
        op_id p = tg_operation t \<longrightarrow> validate_target_row E (t, p) = Inr ())"

definition host_rows_valid :: "env \<Rightarrow> registry \<Rightarrow> bool" where
  "host_rows_valid E db \<longleftrightarrow>
     user_version db = host_schema_version \<and>
     validate_host_identity E host_schema_version db = Inr () \<and>
     validate_operational_metadata E db = Inr ()"

lemma zip_equal_iff: "length xs = length ys \<and> list_all (\<lambda>(a, b). a = b) (zip xs ys) \<longleftrightarrow> xs = ys"
proof (induction xs arbitrary: ys)
  case Nil
  then show ?case by auto
next
  case (Cons x xs)
  then show ?case by (cases ys) auto
qed

lemma validate_exact_Inr [simp]:
  "validate_exact_table_columns cat table columns = Inr u \<longleftrightarrow> ct_columns cat table = columns"
  by (simp add: validate_exact_table_columns_def zip_equal_iff)

lemma exact_columns:
  assumes "catalog_valid cat" and "(table, columns) \<in> set required_schema15_tables"
  shows "ct_columns cat table = columns"
proof -
  from assms(1) obtain us where
    "collect_results (map (\<lambda>(table, columns). validate_exact_table_columns cat table columns)
       required_schema15_tables) = Inr (us :: unit list)"
    by (auto simp: catalog_valid_def)
  from collect_checks [OF this assms(2)] show ?thesis by simp
qed

lemma catalog_columns_valid:
  assumes "catalog_valid cat"
  shows "validate_table_columns cat ''projects''
       [''project_id'', ''label_location_id'', ''display_name'', ''repository_fingerprint'',
        ''revision''] = Inr ()"
    and "validate_table_columns cat ''project_locations''
       [''location_id'', ''project_id'', ''repository_path'', ''repository_display_name'',
        ''remote_identity_fingerprint'', ''remote_identity_display'', ''revision''] = Inr ()"
    and "validate_table_columns cat ''opencode_settled_messages''
       [''settled_message_id'', ''runtime_id'', ''runtime_generation'', ''native_session_id'',
        ''message_id''] = Inr ()"
    and "validate_table_columns cat ''compound_operations'' launch_columns = Inr ()"
    and "validate_table_columns cat ''host_operational_metadata''
       [''singleton'', ''bootstrap_host_id'', ''bootstrap_generation'',
        ''provisional_lease_generation'', ''provisional_lock_phase'', ''provisional_lock_device'',
        ''provisional_lock_inode''] = Inr ()"
    and "validate_table_columns cat ''onboarding_exec_targets''
       [''operation_id'', ''provider'', ''executable_device'', ''executable_inode''] = Inr ()"
  using exact_columns [OF assms]
  by (simp_all add: validate_table_columns_def required_schema15_tables_def launch_columns_def)

lemma validate_columns_Inr:
  assumes "catalog_valid cat"
  shows "validate_onboarding_operation_columns E cat db = Inr u \<longleftrightarrow>
    (\<forall>p \<in> set (operation_rows db). validate_operation_columns_row E p = Inr ())"
  by (simp add: validate_onboarding_operation_columns_def catalog_columns_valid [OF assms]
      all_checked_Inr)

lemma set_target_join:
  "set (target_join db) =
     {(t, p). t \<in> set (target_rows db) \<and> p \<in> set (operation_rows db) \<and> op_id p = tg_operation t}"
  by (auto simp: target_join_def)

lemma validate_targets_Inr:
  assumes "catalog_valid cat"
  shows "validate_schema15_onboarding_exec_targets E cat db = Inr u \<longleftrightarrow>
    (\<forall>t \<in> set (target_rows db). \<forall>p \<in> set (operation_rows db).
       op_id p = tg_operation t \<longrightarrow> validate_target_row E (t, p) = Inr ())"
  by (auto simp: validate_schema15_onboarding_exec_targets_def catalog_columns_valid [OF assms]
      all_checked_Inr set_target_join)

lemma validate_foreign_keys_Inr [simp]: "validate_foreign_keys db = Inr u \<longleftrightarrow> foreign_keys_hold db"
  by (simp add: validate_foreign_keys_def)

lemma catalog_has_index:
  "validate_schema15_catalog cat = Inr u \<Longrightarrow>
   (''index'', ''project_repository_fingerprint_idx'') \<in> set (ct_objects cat)"
  by (simp add: validate_schema15_catalog_def required_indexes_def)

lemma validate_projects_Inr:
  assumes "catalog_valid cat"
  shows "validate_project_catalog E cat db = Inr u \<longleftrightarrow>
    foreign_keys_hold db \<and> project_rows_valid E db"
proof -
  have "validate_location_row E l = Inr () \<Longrightarrow> lc_project l \<noteq> None" for l
    by (auto simp: validated_location)
  then have "project_rows_valid E db \<Longrightarrow>
      sql_count (\<lambda>l. lc_project l = None) (location_rows db) = 0"
    by (auto simp: project_rows_valid_def sql_count_def filter_empty_conv)
  moreover have "(''index'', ''project_repository_fingerprint_idx'') \<in> set (ct_objects cat)"
    using assms catalog_has_index by (auto simp: catalog_valid_def)
  ultimately show ?thesis
    by (auto simp: validate_project_catalog_def catalog_columns_valid [OF assms]
        validate_locations_Inr validate_membership_Inr project_rows_valid_def)
qed

lemma validate_schema15_Inr:
  "validate_schema15 E cat db = Inr u \<longleftrightarrow>
     catalog_valid cat \<and> host_rows_valid E db \<and> foreign_keys_hold db \<and>
     project_rows_valid E db \<and> journal_rows_valid E db"
  (is "?valid \<longleftrightarrow> ?parts")
proof
  assume ?valid
  then have cat: "catalog_valid cat"
    by (auto simp: validate_schema15_def catalog_valid_def)
  with \<open>?valid\<close> show ?parts
    by (auto simp: validate_schema15_def schema_version_def host_rows_valid_def
        journal_rows_valid_def validate_projects_Inr validate_columns_Inr validate_targets_Inr)
next
  assume parts: ?parts
  then have cat: "catalog_valid cat" by blast
  then obtain us where
    "collect_results (map (\<lambda>(table, columns). validate_exact_table_columns cat table columns)
       required_schema15_tables) = Inr (us :: unit list)"
    and "\<not> table_exists cat ''project_browser_settings''"
    and "table_has_column_readonly cat ''project_locations'' ''project_id''"
    and "validate_schema15_catalog cat = Inr ()"
    by (auto simp: catalog_valid_def)
  with parts show ?valid
    by (simp add: validate_schema15_def schema_version_def host_rows_valid_def
        journal_rows_valid_def validate_projects_Inr [OF cat] validate_columns_Inr [OF cat]
        validate_targets_Inr [OF cat] catalog_columns_valid [OF cat])
qed

lemma schema15_catalog_ok [simp]: "catalog_valid schema15_catalog"
proof -
  have "\<not> table_exists schema15_catalog ''project_browser_settings''"
    by (simp add: table_exists_def schema15_catalog_def allowed_tables_def image_iff)
  moreover have "table_has_column_readonly schema15_catalog ''project_locations'' ''project_id''"
    by (simp add: table_has_column_readonly_def schema15_catalog_def required_schema15_tables_def)
  ultimately show ?thesis
    by (simp add: catalog_valid_def schema15_catalog_columns schema15_catalog_valid)
qed

end
