(* ===== verification/Onboarding.thy ===== *)
theory Onboarding
  imports Schema15
begin

text \<open>
  \<open>src/state/current/onboarding.rs\<close>, first part: the request and the claims of an onboarding
  attempt, the reservation of its graph (\<open>prepare\<close>), its cancellation, and the one-shot
  consumption of its capability.

  The lease file and the file system are outside the program: the outcome of the \<open>k\<close>-th
  \<open>revalidate_for_mutation\<close> of an operation is \<open>ls_revalidate k\<close>, and \<open>st_canonicalize\<close> is
  \<open>fs::canonicalize\<close>. An operation returns its result together with the registry: a failure
  before the commit leaves the registry as it was, the revalidation after the commit can still
  turn the result into an error.
\<close>

section \<open>The current state handle\<close>

datatype state_mode = Current

record current_state =
  st_mode :: state_mode
  st_root :: string
  st_catalog :: catalog
  st_canonicalize :: "string \<Rightarrow> string option"

record lease =
  ls_generation :: int
  ls_revalidate :: "nat \<Rightarrow> (state_error, unit) result"

definition ensure_current_mode :: "state_mode \<Rightarrow> (state_error, unit) result" where
  "ensure_current_mode mode = (if mode = Current then Inr () else Inl MalformedHostSchema)"

lemma ensure_current_mode_Inr [simp]: "ensure_current_mode mode = Inr ()"
  by (cases mode) (simp add: ensure_current_mode_def)

text \<open>A transaction and the checks that follow its commit.\<close>

definition committed ::
  "(state_error, 'a \<times> registry) result \<Rightarrow> ('a \<Rightarrow> (state_error, unit) result) \<Rightarrow> registry
     \<Rightarrow> (state_error, 'a) result \<times> registry" where
  "committed body after db =
     (case body of
        Inl e \<Rightarrow> (Inl e, db)
      | Inr (x, db') \<Rightarrow> (and_then (after x) (\<lambda>_. Inr x), db'))"

lemma committed_Inr:
  "committed body after db = (Inr x, db') \<longleftrightarrow> body = Inr (x, db') \<and> after x = Inr ()"
  by (auto simp: committed_def split: sum.splits)

lemma committed_registry:
  "snd (committed body after db) = (case body of Inl _ \<Rightarrow> db | Inr (_, db') \<Rightarrow> db')"
  by (auto simp: committed_def split: sum.splits)

section \<open>Requests\<close>

record repository_discovery =
  rd_root :: string
  rd_display :: string
  rd_fingerprint :: "string option"
  rd_remote_display :: "string option"

record prepare_request =
  pq_request_key :: string
  pq_presentation :: uuid
  pq_presentation_revision :: int
  pq_slot_generation :: uuid
  pq_runtime :: uuid
  pq_paths :: runtime_paths
  pq_provider :: provider_kind
  pq_repository :: repository_discovery
  pq_shell_cwd :: string
  pq_shell_pid :: "32 word"
  pq_shell_birth :: string
  pq_process_group :: "32 word"
  pq_session :: "32 word"
  pq_argv_digest :: string
  pq_boot_provenance :: string
  pq_now :: int
  pq_expiry :: int

text \<open>Paths compare by their components; \<open>Path::starts_with\<close> is a prefix of components.\<close>

definition path_eq :: "string \<Rightarrow> string \<Rightarrow> bool" where
  "path_eq p q \<longleftrightarrow> path_components p = path_components q"

definition path_starts_with :: "string \<Rightarrow> string \<Rightarrow> bool" where
  "path_starts_with p q \<longleftrightarrow>
     take (length (path_components q)) (path_components p) = path_components q"

definition runtime_paths_eq :: "runtime_paths \<Rightarrow> runtime_paths \<Rightarrow> bool" where
  "runtime_paths_eq a b \<longleftrightarrow>
     path_eq (rp_directory a) (rp_directory b) \<and> path_eq (rp_socket a) (rp_socket b)
     \<and> path_eq (rp_config a) (rp_config b) \<and> rp_session_name a = rp_session_name b"

definition canonical_root :: "current_state \<Rightarrow> (state_error, string) result" where
  "canonical_root S = ok_or (st_canonicalize S (st_root S)) InvalidOnboardingPreparation"

definition validate_onboarding_prepare_request ::
  "env \<Rightarrow> current_state \<Rightarrow> prepare_request \<Rightarrow> (state_error, unit) result" where
  "validate_onboarding_prepare_request E S q =
     and_then (validate_registry_text ''onboarding request key'' (pq_request_key q)) (\<lambda>_.
     if pq_presentation q = 0 \<or> pq_slot_generation q = 0 \<or> pq_runtime q = 0
     then Inl InvalidOnboardingPreparation
     else
       and_then (canonical_root S) (\<lambda>root.
       let repository = pq_repository q in
       if \<not> runtime_paths_eq (pq_paths q) (runtime_paths_for E root (pq_runtime q))
          \<or> \<not> is_normalized_absolute_path (rd_root repository)
          \<or> \<not> is_normalized_absolute_path (pq_shell_cwd q)
          \<or> \<not> path_starts_with (pq_shell_cwd q) (rd_root repository)
       then Inl InvalidOnboardingPreparation
       else
         and_then (require (valid_utf8 (rd_root repository)) InvalidOnboardingPreparation) (\<lambda>_.
         and_then (validate_registry_text ''repository path'' (rd_root repository)) (\<lambda>_.
         and_then (validate_project_display_name (rd_display repository)) (\<lambda>_.
         and_then (validate_repository_fingerprint (rd_fingerprint repository)) (\<lambda>_.
         validate_safe_origin_display (rd_remote_display repository)))))))"

definition load_registry_generation :: "registry \<Rightarrow> (state_error, string) result" where
  "load_registry_generation db =
     and_then (query_row (List.find (\<lambda>h. hi_singleton h = 1) (identity_rows db))) (\<lambda>h.
     and_then (validate_registry_text ''registry generation'' (hi_generation h)) (\<lambda>_.
     Inr (hi_generation h)))"

definition load_location_for_repository_path ::
  "env \<Rightarrow> string \<Rightarrow> registry \<Rightarrow> (state_error, uuid option) result" where
  "load_location_for_repository_path E path db =
     (if \<not> valid_utf8 path then Inl InvalidOnboardingPreparation
      else
        (case take 2 (sort_key lc_id (filter (\<lambda>l. lc_path l = path) (location_rows db))) of
           [] \<Rightarrow> Inr None
         | [l] \<Rightarrow> and_then (ok_or (uuid_parse E (lc_id l)) MalformedHostSchema) (\<lambda>i. Inr (Some i))
         | _ \<Rightarrow> Inl MalformedHostSchema))"

section \<open>Claims\<close>

definition onboarding_claims ::
  "uuid \<Rightarrow> uuid \<Rightarrow> string \<Rightarrow> string \<Rightarrow> int \<Rightarrow> prepare_request \<Rightarrow> (state_error, launch_claims) result" where
  "onboarding_claims operation location runtime_generation registry_generation lease_generation q =
     map_err (\<lambda>_. InvalidOnboardingPreparation)
       (claims_new
         \<lparr> cl_operation = operation, cl_presentation = pq_presentation q,
           cl_presentation_revision = pq_presentation_revision q,
           cl_slot_generation = pq_slot_generation q, cl_lease_generation = lease_generation,
           cl_runtime = pq_runtime q, cl_paths = pq_paths q, cl_provider = pq_provider q,
           cl_shell_cwd = pq_shell_cwd q, cl_worktree_root = rd_root (pq_repository q),
           cl_location = location, cl_runtime_generation = runtime_generation,
           cl_registry_generation = registry_generation, cl_shell_pid = pq_shell_pid q,
           cl_shell_birth = pq_shell_birth q, cl_process_group = pq_process_group q,
           cl_session = pq_session q, cl_argv_digest = pq_argv_digest q,
           cl_boot_provenance = pq_boot_provenance q \<rparr>)"

definition map_onboarding_capability_error :: "capability_error \<Rightarrow> state_error" where
  "map_onboarding_capability_error e =
     (case e of Expired \<Rightarrow> OnboardingCapabilityExpired | _ \<Rightarrow> OnboardingCapabilityRejected)"

section \<open>Replays\<close>

record existing_reservation =
  er_operation :: uuid
  er_location :: uuid
  er_workstream :: uuid
  er_runtime :: uuid

text \<open>The request fields that a replay must repeat.\<close>

definition intent_matches_request ::
  "onboarding_intent \<Rightarrow> prepare_request \<Rightarrow> int \<Rightarrow> string \<Rightarrow> bool" where
  "intent_matches_request n q lease_generation registry_generation \<longleftrightarrow>
     in_version n = 1 \<and> in_presentation n = pq_presentation q
     \<and> in_presentation_revision n = pq_presentation_revision q
     \<and> in_slot_generation n = pq_slot_generation q \<and> in_lease_generation n = lease_generation
     \<and> in_runtime n = pq_runtime q \<and> in_provider n = pq_provider q
     \<and> in_registry_generation n = registry_generation \<and> in_argv_digest n = pq_argv_digest q
     \<and> in_boot_provenance n = pq_boot_provenance q"

definition load_existing_onboarding_preparation ::
  "env \<Rightarrow> crypto \<Rightarrow> current_state \<Rightarrow> prepare_request \<Rightarrow> int \<Rightarrow> string \<Rightarrow> registry
     \<Rightarrow> (state_error, existing_reservation option) result" where
  "load_existing_onboarding_preparation E K S q lease_generation registry_generation db =
     (case operation_keyed db (pq_request_key q) of
        None \<Rightarrow> Inr None
      | Some p \<Rightarrow>
          if op_kind p \<noteq> ''onboard'' \<or> op_phase p \<noteq> ''capability_issued''
          then Inl OnboardingOperationUnavailable
          else
            and_then (ok_or (uuid_parse E (op_id p)) MalformedHostSchema) (\<lambda>operation.
            and_then (intent_decode E (op_expected p)) (\<lambda>n.
            if \<not> intent_matches_request n q lease_generation registry_generation
            then Inl OperationRequestMismatch
            else
              and_then (ok_or (runtime_join db (uuid_text E (in_runtime n))) MalformedHostSchema)
                (\<lambda>(r, w).
              and_then (require (valid_utf8 (rd_root (pq_repository q))) InvalidOnboardingPreparation)
                (\<lambda>_.
              and_then
                (or_else
                  (rt_workstream r \<noteq> uuid_text E (in_workstream n)
                   \<or> ws_location w \<noteq> uuid_text E (in_location n)
                   \<or> rt_provider r \<noteq> provider_kind_text (in_provider n)
                   \<or> rt_generation r \<noteq> in_generation n
                   \<or> rt_session r \<noteq> rp_session_name (pq_paths q)
                   \<or> rt_cwd r \<noteq> rd_root (pq_repository q))
                  (and_then (canonical_root S) (\<lambda>root.
                   Inr (\<not> runtime_paths_eq (pq_paths q) (runtime_paths_for E root (in_runtime n))))))
                (\<lambda>changed.
              if changed then Inl MalformedHostSchema
              else
                and_then (onboarding_claims operation (in_location n) (in_generation n)
                  registry_generation lease_generation q) (\<lambda>claims.
                if op_claims_digest p \<noteq> Some (claims_digest E K claims)
                then Inl OperationRequestMismatch
                else Inr (Some \<lparr> er_operation = operation, er_location = in_location n,
                                 er_workstream = in_workstream n, er_runtime = in_runtime n \<rparr>))))))))"

section \<open>Reservation\<close>

text \<open>
  The identities in the order the generator is asked for them: the Location only for a new
  repository path, the Project only when one is created.
\<close>

record prepare_ids =
  pi_location :: uuid
  pi_operation :: uuid
  pi_workstream :: uuid
  pi_generation :: uuid
  pi_token :: uuid
  pi_secret1 :: uuid
  pi_secret2 :: uuid
  pi_project :: uuid

record reservation =
  rv_operation :: uuid
  rv_capability :: launch_capability

datatype preparation = Issued reservation | Existing existing_reservation

text \<open>The Location joins the Project of its fingerprint, or a new Project of its own.\<close>

definition attach_location :: "env \<Rightarrow> uuid \<Rightarrow> uuid \<Rightarrow> registry \<Rightarrow> (state_error, registry) result" where
  "attach_location E project location db =
     and_then (update_locations (\<lambda>l. lc_id l = uuid_text E location)
       (\<lambda>l. l\<lparr> lc_project := Some (uuid_text E project) \<rparr>) db) (\<lambda>(_, db'). Inr db')"

definition insert_onboarding_location ::
  "env \<Rightarrow> prepare_request \<Rightarrow> uuid \<Rightarrow> uuid \<Rightarrow> registry \<Rightarrow> (state_error, registry) result" where
  "insert_onboarding_location E q location fresh_project db =
     (let repository = pq_repository q;
          create = (\<lambda>db'. and_then (create_project E fresh_project location (rd_display repository)
                       (rd_fingerprint repository) db') (\<lambda>(created, db'').
                     attach_location E (pr_project created) location db''))
      in and_then (require (valid_utf8 (rd_root repository)) InvalidOnboardingPreparation) (\<lambda>_.
         and_then
           (insert_location
             \<lparr> lc_id = uuid_text E location, lc_path = rd_root repository,
               lc_display = rd_display repository, lc_fingerprint = rd_fingerprint repository,
               lc_remote_display =
                 Some (case rd_remote_display repository of None \<Rightarrow> [] | Some s \<Rightarrow> s),
               lc_revision = 1, lc_project = None \<rparr> db) (\<lambda>db1.
         case rd_fingerprint repository of
           Some fingerprint \<Rightarrow>
             and_then (find_project_by_fingerprint E fingerprint db1) (\<lambda>found.
             case found of
               Some existing \<Rightarrow>
                 and_then (bump_project_revision E (pr_project existing) db1) (\<lambda>db2.
                 attach_location E (pr_project existing) location db2)
             | None \<Rightarrow> create db1)
         | None \<Rightarrow> create db1)))"

definition location_plan ::
  "env \<Rightarrow> prepare_request \<Rightarrow> prepare_ids \<Rightarrow> registry \<Rightarrow> (state_error, uuid \<times> bool \<times> bool) result" where
  "location_plan E q ids db =
     and_then (load_location_for_repository_path E (rd_root (pq_repository q)) db) (\<lambda>existing.
     case existing of
       Some l \<Rightarrow> Inr (l, False, False)
     | None \<Rightarrow>
         (case rd_fingerprint (pq_repository q) of
            Some fingerprint \<Rightarrow>
              and_then (find_project_by_fingerprint E fingerprint db) (\<lambda>found.
              Inr (pi_location ids, True, found = None))
          | None \<Rightarrow> Inr (pi_location ids, True, True)))"

definition attempt_intent ::
  "env \<Rightarrow> prepare_request \<Rightarrow> prepare_ids \<Rightarrow> int \<Rightarrow> string \<Rightarrow> uuid \<Rightarrow> bool \<Rightarrow> bool \<Rightarrow> onboarding_intent" where
  "attempt_intent E q ids lease_generation registry_generation location location_created project_created =
     \<lparr> in_version = 1, in_presentation = pq_presentation q,
       in_presentation_revision = pq_presentation_revision q,
       in_slot_generation = pq_slot_generation q, in_lease_generation = lease_generation,
       in_runtime = pq_runtime q, in_provider = pq_provider q, in_location = location,
       in_workstream = pi_workstream ids, in_generation = uuid_text E (pi_generation ids),
       in_registry_generation = registry_generation, in_argv_digest = pq_argv_digest q,
       in_boot_provenance = pq_boot_provenance q, in_location_created = location_created,
       in_project_created = project_created \<rparr>"

definition attempt_workstream :: "env \<Rightarrow> prepare_request \<Rightarrow> prepare_ids \<Rightarrow> uuid \<Rightarrow> registry \<Rightarrow> workstream_row" where
  "attempt_workstream E q ids location db =
     \<lparr> ws_id = uuid_text E (pi_workstream ids), ws_location = uuid_text E location,
       ws_provider = provider_kind_text (pq_provider q), ws_origin = ''independent'',
       ws_source = None, ws_lifecycle = ''open'', ws_archived = None,
       ws_activity_seq = next_activity_sequence db, ws_activity_at = 0, ws_revision = 1 \<rparr>"

definition attempt_runtime :: "env \<Rightarrow> prepare_request \<Rightarrow> prepare_ids \<Rightarrow> runtime_row" where
  "attempt_runtime E q ids =
     \<lparr> rt_id = uuid_text E (pq_runtime q), rt_workstream = uuid_text E (pi_workstream ids),
       rt_provider = provider_kind_text (pq_provider q),
       rt_generation = uuid_text E (pi_generation ids),
       rt_session = rp_session_name (pq_paths q), rt_cwd = rd_root (pq_repository q),
       rt_pid = None, rt_birth = None, rt_lifecycle = ''starting'', rt_revision = 1 \<rparr>"

text \<open>The journal row: the operation after its transition, with the capability's metadata.\<close>

definition attempt_operation ::
  "env \<Rightarrow> compound_operation \<Rightarrow> capability_metadata \<Rightarrow> operation_row" where
  "attempt_operation E c m =
     \<lparr> op_id = uuid_text E (co_id c), op_request_key = co_request_key c, op_kind = ''onboard'',
       op_phase = ''capability_issued'', op_expected = co_expected_revisions c,
       op_watermark = None, op_outcome = None, op_revision = co_revision c,
       op_token_id = Some (cm_token_id m), op_token_verifier = Some (cm_verifier m),
       op_token_expiry = Some (cm_expiry m), op_claims_digest = Some (cm_claims_digest m) \<rparr>"

definition reserve_attempt ::
  "env \<Rightarrow> crypto \<Rightarrow> current_state \<Rightarrow> prepare_request \<Rightarrow> prepare_ids \<Rightarrow> int \<Rightarrow> string \<Rightarrow> registry
     \<Rightarrow> (state_error, reservation \<times> registry) result" where
  "reserve_attempt E K S q ids lease_generation registry_generation db =
     and_then (location_plan E q ids db) (\<lambda>(location, location_created, project_created).
     let generation = uuid_text E (pi_generation ids) in
     and_then (validate_registry_text ''runtime generation'' generation) (\<lambda>_.
     let encoded = intent_encode E (attempt_intent E q ids lease_generation registry_generation
           location location_created project_created) in
     and_then (onboarding_claims (pi_operation ids) location generation registry_generation
       lease_generation q) (\<lambda>claims.
     and_then (map_err (\<lambda>_. InvalidOnboardingPreparation)
       (issue_capability E K claims (pq_now q) (pq_expiry q) (pi_token ids) (pi_secret1 ids)
          (pi_secret2 ids))) (\<lambda>capability.
     and_then (domain_result (compound_with_id E (pi_operation ids) (pq_request_key q) Onboard
       encoded)) (\<lambda>prepared.
     and_then (domain_result (compound_transition_onboarding E prepared
       onboarding_phase.CapabilityIssued None None)) (\<lambda>operation.
     and_then (if location_created
               then insert_onboarding_location E q location (pi_project ids) db
               else Inr db) (\<lambda>db1.
     and_then (insert_workstream (attempt_workstream E q ids location db1) db1) (\<lambda>db2.
     and_then (insert_runtime (attempt_runtime E q ids) db2) (\<lambda>db3.
     and_then (insert_operation (attempt_operation E operation (cap_metadata capability)) db3) (\<lambda>db4.
     and_then (validate_project_membership_transaction E db4) (\<lambda>_.
     and_then (validate_schema15 E (st_catalog S) db4) (\<lambda>_.
     Inr (\<lparr> rv_operation = pi_operation ids, rv_capability = capability \<rparr>, db4)))))))))))))"

definition prepare_onboarding_with_zero_timeout ::
  "env \<Rightarrow> crypto \<Rightarrow> current_state \<Rightarrow> lease \<Rightarrow> prepare_request \<Rightarrow> prepare_ids \<Rightarrow> registry
     \<Rightarrow> (state_error, preparation) result \<times> registry" where
  "prepare_onboarding_with_zero_timeout E K S L q ids db =
     committed
       (and_then (ensure_current_mode (st_mode S)) (\<lambda>_.
        and_then (ls_revalidate L 0) (\<lambda>_.
        and_then (validate_schema15 E (st_catalog S) db) (\<lambda>_.
        and_then (validate_onboarding_prepare_request E S q) (\<lambda>_.
        and_then (ensure_current_mode (st_mode S)) (\<lambda>_.
        and_then (ls_revalidate L 1) (\<lambda>_.
        and_then (load_registry_generation db) (\<lambda>registry_generation.
        and_then (load_existing_onboarding_preparation E K S q (ls_generation L)
          registry_generation db) (\<lambda>existing.
        case existing of
          Some found \<Rightarrow> Inr (Existing found, db)
        | None \<Rightarrow>
            if runtime_at db (uuid_text E (pq_runtime q)) \<noteq> None
            then Inl InvalidOnboardingPreparation
            else
              and_then (reserve_attempt E K S q ids (ls_generation L) registry_generation db)
                (\<lambda>(reservation, db').
              and_then (ensure_current_mode (st_mode S)) (\<lambda>_.
              and_then (ls_revalidate L 2) (\<lambda>_.
              Inr (Issued reservation, db')))))))))))))
       (\<lambda>preparation. and_then (ensure_current_mode (st_mode S)) (\<lambda>_.
          ls_revalidate L (case preparation of Existing _ \<Rightarrow> 2 | Issued _ \<Rightarrow> 3)))
       db"

section \<open>Consumption\<close>

record ownership =
  ow_operation :: uuid
  ow_location :: uuid
  ow_workstream :: uuid
  ow_runtime :: uuid
  ow_revision :: int

text \<open>\<open>checked_add\<close> on an \<open>i64\<close> revision.\<close>

definition next_revision :: "int \<Rightarrow> (state_error, int) result" where
  "next_revision v =
     (if v + 1 > i64_max then Inl ConcurrentWrite
      else map_err (\<lambda>_. ConcurrentWrite) (revision_try_from (v + 1)))"

text \<open>A column read as a non-null type: \<open>NULL\<close> is \<open>InvalidColumnType\<close>.\<close>

definition not_null :: "'a option \<Rightarrow> (state_error, 'a) result" where
  "not_null x = ok_or x (Sqlite InvalidColumnType)"

lemma not_null_Inr [simp]: "not_null x = Inr y \<longleftrightarrow> x = Some y"
  by (simp add: not_null_def)

definition consume_onboarding_with_zero_timeout ::
  "env \<Rightarrow> crypto \<Rightarrow> current_state \<Rightarrow> lease \<Rightarrow> prepare_request \<Rightarrow> string \<Rightarrow> int \<Rightarrow> registry
     \<Rightarrow> (state_error, ownership) result \<times> registry" where
  "consume_onboarding_with_zero_timeout E K S L q token now db =
     committed
       (and_then (ensure_current_mode (st_mode S)) (\<lambda>_.
        and_then (ls_revalidate L 0) (\<lambda>_.
        and_then (validate_schema15 E (st_catalog S) db) (\<lambda>_.
        and_then (validate_onboarding_prepare_request E S q) (\<lambda>_.
        and_then (ensure_current_mode (st_mode S)) (\<lambda>_.
        and_then (ls_revalidate L 1) (\<lambda>_.
        and_then (load_registry_generation db) (\<lambda>registry_generation.
        and_then (load_existing_onboarding_preparation E K S q (ls_generation L)
          registry_generation db) (\<lambda>found.
        and_then (ok_or found (MissingOperation (pq_request_key q))) (\<lambda>existing.
        and_then (query_row (List.find (\<lambda>p. op_id p = uuid_text E (er_operation existing)
            \<and> op_kind p = ''onboard'' \<and> op_phase p = ''capability_issued'') (operation_rows db))) (\<lambda>p.
        and_then (not_null (op_token_id p)) (\<lambda>token_id.
        and_then (not_null (op_token_verifier p)) (\<lambda>verifier.
        and_then (not_null (op_token_expiry p)) (\<lambda>expiry.
        and_then (not_null (op_claims_digest p)) (\<lambda>digest.
        and_then (intent_decode E (op_expected p)) (\<lambda>intent.
        and_then (malformed (metadata_from_persisted E token_id verifier expiry digest)) (\<lambda>metadata.
        and_then (onboarding_claims (er_operation existing) (er_location existing)
          (in_generation intent) registry_generation (ls_generation L) q) (\<lambda>claims.
        and_then (map_err map_onboarding_capability_error
          (verify_launch_capability E K token metadata claims now)) (\<lambda>_.
        and_then (domain_result (onboarding_transition onboarding_phase.CapabilityIssued
          onboarding_phase.RuntimeOwnedLaunching)) (\<lambda>_.
        and_then (read_revision (op_revision p)) (\<lambda>operation_revision.
        and_then (next_revision operation_revision) (\<lambda>next.
        and_then (ensure_current_mode (st_mode S)) (\<lambda>_.
        and_then (ls_revalidate L 2) (\<lambda>_.
        and_then (one_row ConcurrentWrite
          (update_operations
            (\<lambda>x. op_id x = uuid_text E (er_operation existing) \<and> op_kind x = ''onboard''
                 \<and> op_phase x = ''capability_issued'' \<and> op_revision x = operation_revision)
            (\<lambda>x. x\<lparr> op_phase := ''runtime_owned_launching'', op_revision := next \<rparr>) db)) (\<lambda>db'.
        and_then (validate_schema15 E (st_catalog S) db') (\<lambda>_.
        and_then (ensure_current_mode (st_mode S)) (\<lambda>_.
        and_then (ls_revalidate L 3) (\<lambda>_.
        Inr (\<lparr> ow_operation = er_operation existing, ow_location = er_location existing,
               ow_workstream = er_workstream existing, ow_runtime = er_runtime existing,
               ow_revision = next \<rparr>, db')))))))))))))))))))))))))))))
       (\<lambda>_. and_then (ensure_current_mode (st_mode S)) (\<lambda>_. ls_revalidate L 4))
       db"

end
