(* ===== verification/Inventory.thy ===== *)
theory Inventory
  imports Onboarding
begin

text \<open>
  \<open>src/state/current/registry.rs\<close> and the journal readers of \<open>onboarding.rs\<close>: bounded pages of
  the onboarding journal, the inventory of attempts with its projection onto Workstreams, the
  marker lookup, the private paths of every Runtime, and the loader of an exec-proof target.
\<close>

section \<open>Pages\<close>

text \<open>\<open>page_parameters\<close>: one row more than a page is asked for, the cursor moves by a page.\<close>

definition page_parameters :: "nat \<Rightarrow> (state_error, nat \<times> nat) result" where
  "page_parameters page_size =
     (if page_size = 0 \<or> page_size > max_navigator_workstreams
      then Inl InvalidNavigatorPageSize else Inr (page_size + 1, page_size))"

definition next_cursor :: "bool \<Rightarrow> nat \<Rightarrow> nat \<Rightarrow> (state_error, nat option) result" where
  "next_cursor has_more cursor cursor_step =
     (if has_more
      then and_then (ok_or (u32_checked_add cursor cursor_step) NavigatorCursorOverflow)
             (\<lambda>c. Inr (Some c))
      else Inr None)"

text \<open>A page of a query's rows, each of its first \<open>page_size\<close> rows converted.\<close>

definition row_page ::
  "('r \<Rightarrow> (state_error, 'a) result) \<Rightarrow> 'r list \<Rightarrow> nat \<Rightarrow> nat
     \<Rightarrow> (state_error, 'a list \<times> nat option) result" where
  "row_page convert rows page_size cursor =
     and_then (page_parameters page_size) (\<lambda>(query_limit, cursor_step).
     let found = take query_limit (drop cursor rows);
         has_more = (length found > page_size)
     in and_then (collect_results (map convert (take page_size found))) (\<lambda>items.
        and_then (next_cursor has_more cursor cursor_step) (\<lambda>nxt.
        Inr (items, nxt))))"

definition onboarding_rows :: "registry \<Rightarrow> operation_row list" where
  "onboarding_rows db =
     sort_key op_id (filter (\<lambda>p. op_kind p = ''onboard'') (operation_rows db))"

section \<open>The inventory\<close>

record inventory_entry =
  oi_operation :: uuid
  oi_workstream :: uuid
  oi_runtime :: uuid
  oi_phase :: onboarding_phase

text \<open>
  One journal row against the Runtime it claims: the Workstream it names and, unless the attempt
  was committed by a parked recovery, the inventory entry.
\<close>

definition runtime_claim :: "env \<Rightarrow> registry \<Rightarrow> onboarding_intent \<Rightarrow> (string \<times> string) option" where
  "runtime_claim E db n =
     map_option (\<lambda>r. (rt_workstream r, rt_provider r)) (runtime_at db (uuid_text E (in_runtime n)))"

definition inventory_row ::
  "env \<Rightarrow> registry \<Rightarrow> operation_row \<Rightarrow> (state_error, uuid \<times> inventory_entry option) result" where
  "inventory_row E db p =
     and_then (read_uuid E (op_id p)) (\<lambda>operation.
     and_then (malformed (operation_phase_from_text (op_phase p))) (\<lambda>operation_phase.
     and_then (intent_decode E (op_expected p)) (\<lambda>n.
     let claim = runtime_claim E db n;
         claimed = Some (uuid_text E (in_workstream n), provider_kind_text (in_provider n));
         entry = (\<lambda>phase. \<lparr> oi_operation = operation, oi_workstream = in_workstream n,
                           oi_runtime = in_runtime n, oi_phase = phase \<rparr>)
     in if in_version n \<noteq> 1 then Inl MalformedHostSchema
        else if operation_phase = Committed then
          (if op_outcome p \<noteq> Some parked_recovery_resolved_outcome \<or> claim \<noteq> claimed
           then Inl MalformedHostSchema else Inr (in_workstream n, None))
        else
          and_then (ok_or (from_operation_phase operation_phase) MalformedHostSchema) (\<lambda>phase.
          if phase = onboarding_phase.RolledBack then
            (if claim \<noteq> None then Inl MalformedHostSchema
             else Inr (in_workstream n, Some (entry phase)))
          else if claim \<noteq> claimed then Inl MalformedHostSchema
          else Inr (in_workstream n, Some (entry phase))))))"

definition onboarding_operation_inventory_page ::
  "env \<Rightarrow> registry \<Rightarrow> nat \<Rightarrow> nat
     \<Rightarrow> (state_error, (uuid \<times> inventory_entry option) list \<times> nat option) result" where
  "onboarding_operation_inventory_page E db page_size cursor =
     row_page (inventory_row E db) (onboarding_rows db) page_size cursor"

text \<open>\<open>BTreeSet::insert\<close> of each identity; \<open>None\<close> when one was there already.\<close>

fun insert_all :: "'a list \<Rightarrow> 'a list \<Rightarrow> 'a list option" where
  "insert_all seen [] = Some seen"
| "insert_all seen (x # xs) = (if x \<in> set seen then None else insert_all (x # seen) xs)"

definition present :: "('b \<times> 'a option) list \<Rightarrow> 'a list" where
  "present xs = concat (map (\<lambda>x. case snd x of None \<Rightarrow> [] | Some y \<Rightarrow> [y]) xs)"

partial_function (option) inventory_loop ::
  "(nat \<Rightarrow> (state_error, ('b \<times> 'a option) list \<times> nat option) result) \<Rightarrow> nat \<Rightarrow> 'b list \<Rightarrow> 'a list
     \<Rightarrow> (state_error, 'a list) result option" where
  "inventory_loop page cursor seen acc =
     (case page cursor of
        Inl e \<Rightarrow> Some (Inl e)
      | Inr (rows, nxt) \<Rightarrow>
          (case insert_all seen (map fst rows) of
             None \<Rightarrow> Some (Inl MalformedHostSchema)
           | Some seen' \<Rightarrow>
               (case nxt of
                  None \<Rightarrow> Some (Inr (acc @ present rows))
                | Some c \<Rightarrow> inventory_loop page c seen' (acc @ present rows))))"

definition onboarding_operation_inventory ::
  "env \<Rightarrow> current_state \<Rightarrow> registry \<Rightarrow> (state_error, inventory_entry list) result option" where
  "onboarding_operation_inventory E S db =
     (case and_then (ensure_current_mode (st_mode S)) (\<lambda>_. validate_schema15 E (st_catalog S) db) of
        Inl e \<Rightarrow> Some (Inl e)
      | Inr _ \<Rightarrow>
          inventory_loop (onboarding_operation_inventory_page E db max_navigator_workstreams) 0 [] [])"

section \<open>The projection onto Workstreams\<close>

datatype visibility = Reserved | ActionFenced | VisibleRecovery

record workstream_projection =
  wp_workstream :: uuid
  wp_runtime :: uuid
  wp_visibility :: visibility

text \<open>\<open>None\<close> skips the operation (\<open>continue\<close>).\<close>

definition phase_visibility :: "onboarding_phase \<Rightarrow> (state_error, visibility option) result" where
  "phase_visibility phase =
     (case phase of
        onboarding_phase.CapabilityIssued \<Rightarrow> Inr (Some Reserved)
      | onboarding_phase.RuntimeOwnedLaunching \<Rightarrow> Inr (Some ActionFenced)
      | onboarding_phase.ProviderPreparation \<Rightarrow> Inr (Some ActionFenced)
      | ProviderExternalEffectStarted \<Rightarrow> Inr (Some ActionFenced)
      | onboarding_phase.ProviderExecStarted \<Rightarrow> Inr (Some ActionFenced)
      | KnownAbsentExec \<Rightarrow> Inr (Some ActionFenced)
      | onboarding_phase.RecoveryRequired \<Rightarrow> Inr (Some VisibleRecovery)
      | onboarding_phase.ProviderExecProven \<Rightarrow> Inr None
      | onboarding_phase.RolledBack \<Rightarrow> Inr None
      | onboarding_phase.Prepared \<Rightarrow> Inl MalformedHostSchema)"

text \<open>The loop over the inventory; \<open>acc\<close> is the map, a second entry for a Workstream refuses.\<close>

fun project_entries ::
  "inventory_entry list \<Rightarrow> workstream_projection list
     \<Rightarrow> (state_error, workstream_projection list) result" where
  "project_entries [] acc = Inr acc"
| "project_entries (x # xs) acc =
     and_then (phase_visibility (oi_phase x)) (\<lambda>v.
     case v of
       None \<Rightarrow> project_entries xs acc
     | Some visibility \<Rightarrow>
         if oi_workstream x \<in> wp_workstream ` set acc then Inl MalformedHostSchema
         else project_entries xs
                (acc @ [\<lparr> wp_workstream = oi_workstream x, wp_runtime = oi_runtime x,
                          wp_visibility = visibility \<rparr>]))"

text \<open>\<open>BTreeMap::into_values\<close>: ordered by the Workstream identity.\<close>

definition onboarding_workstream_projections ::
  "env \<Rightarrow> current_state \<Rightarrow> registry \<Rightarrow> (state_error, workstream_projection list) result option" where
  "onboarding_workstream_projections E S db =
     map_option (\<lambda>inventory.
       and_then inventory (\<lambda>entries.
       and_then (project_entries entries []) (\<lambda>projections.
       Inr (sort_key wp_workstream projections))))
     (onboarding_operation_inventory E S db)"

definition project_projections ::
  "env \<Rightarrow> current_state \<Rightarrow> registry \<Rightarrow> (state_error, project_projection list) result" where
  "project_projections E S db =
     and_then (ensure_current_mode (st_mode S)) (\<lambda>_.
     and_then (validate_schema15 E (st_catalog S) db) (\<lambda>_.
     load_project_projections E db))"

section \<open>The paths of the Runtimes\<close>

definition runtime_paths_row ::
  "env \<Rightarrow> current_state \<Rightarrow> runtime_row \<Rightarrow> (state_error, runtime_paths) result" where
  "runtime_paths_row E S r =
     and_then (read_uuid E (rt_id r)) (\<lambda>i.
     malformed (runtime_paths_for_record E (st_root S) i (rt_session r)))"

definition registered_runtime_paths_page ::
  "env \<Rightarrow> current_state \<Rightarrow> registry \<Rightarrow> nat \<Rightarrow> nat
     \<Rightarrow> (state_error, runtime_paths list \<times> nat option) result" where
  "registered_runtime_paths_page E S db page_size cursor =
     row_page (runtime_paths_row E S) (sort_key rt_id (runtime_rows db)) page_size cursor"

definition registered_runtime_paths ::
  "env \<Rightarrow> current_state \<Rightarrow> registry \<Rightarrow> (state_error, runtime_paths list) result option" where
  "registered_runtime_paths E S db =
     (case and_then (ensure_current_mode (st_mode S)) (\<lambda>_. validate_schema15 E (st_catalog S) db) of
        Inl e \<Rightarrow> Some (Inl e)
      | Inr _ \<Rightarrow>
          page_loop (registered_runtime_paths_page E S db max_navigator_workstreams) 0 [])"

section \<open>The journal of one marker\<close>

definition onboarding_marker_operation_page ::
  "registry \<Rightarrow> nat \<Rightarrow> nat \<Rightarrow> (state_error, operation_row list \<times> nat option) result" where
  "onboarding_marker_operation_page db page_size cursor =
     row_page Inr (onboarding_rows db) page_size cursor"

record marker =
  mk_presentation :: uuid
  mk_presentation_revision :: int
  mk_slot_generation :: uuid
  mk_runtime :: uuid
  mk_handoff :: "uuid option"

text \<open>The rows a marker may belong to: the operation it was handed off to, or every attempt.\<close>

definition marker_rows :: "env \<Rightarrow> marker \<Rightarrow> registry \<Rightarrow> (state_error, operation_row list) result option" where
  "marker_rows E k db =
     (case mk_handoff k of
        Some operation \<Rightarrow>
          Some (Inr (case List.find (\<lambda>p. op_kind p = ''onboard'' \<and> op_id p = uuid_text E operation)
                           (operation_rows db) of None \<Rightarrow> [] | Some p \<Rightarrow> [p]))
      | None \<Rightarrow> page_loop (onboarding_marker_operation_page db max_navigator_workstreams) 0 [])"

definition marker_same_slot :: "marker \<Rightarrow> onboarding_intent \<Rightarrow> bool" where
  "marker_same_slot k n \<longleftrightarrow>
     in_presentation n = mk_presentation k \<and> in_presentation_revision n = mk_presentation_revision k
     \<and> in_slot_generation n = mk_slot_generation k"

text \<open>One row against the marker: \<open>None\<close> when it belongs to another one.\<close>

definition marker_row ::
  "env \<Rightarrow> marker \<Rightarrow> operation_row \<Rightarrow> (state_error, (uuid \<times> onboarding_intent) option) result" where
  "marker_row E k p =
     and_then (ok_or (uuid_parse E (op_id p)) MalformedHostSchema) (\<lambda>operation.
     if mk_handoff k \<noteq> None \<and> mk_handoff k \<noteq> Some operation then Inr None
     else
       and_then (intent_decode E (op_expected p)) (\<lambda>n.
       if in_runtime n = mk_runtime k \<and> \<not> marker_same_slot k n then Inl OperationRequestMismatch
       else if \<not> (marker_same_slot k n \<and> in_runtime n = mk_runtime k) then
         (if mk_handoff k = Some operation then Inl OperationRequestMismatch else Inr None)
       else Inr (Some (operation, n))))"

record marker_operation =
  mo_operation :: uuid
  mo_phase :: onboarding_phase

fun marker_scan ::
  "env \<Rightarrow> marker \<Rightarrow> operation_row list \<Rightarrow> marker_operation option
     \<Rightarrow> (state_error, marker_operation option) result" where
  "marker_scan E k [] found = Inr found"
| "marker_scan E k (p # ps) found =
     and_then (marker_row E k p) (\<lambda>x.
     case x of
       None \<Rightarrow> marker_scan E k ps found
     | Some (operation, _) \<Rightarrow>
         and_then (malformed (operation_phase_from_text (op_phase p))) (\<lambda>operation_phase.
         and_then (ok_or (from_operation_phase operation_phase) OnboardingOperationUnavailable)
           (\<lambda>phase.
         if found \<noteq> None then Inl MalformedHostSchema
         else marker_scan E k ps (Some \<lparr> mo_operation = operation, mo_phase = phase \<rparr>))))"

definition onboarding_marker_operation_current ::
  "env \<Rightarrow> current_state \<Rightarrow> lease \<Rightarrow> marker \<Rightarrow> registry
     \<Rightarrow> (state_error, marker_operation option) result option" where
  "onboarding_marker_operation_current E S L k db =
     (case and_then (ensure_current_mode (st_mode S)) (\<lambda>_.
           and_then (ls_revalidate L 0) (\<lambda>_. validate_schema15 E (st_catalog S) db)) of
        Inl e \<Rightarrow> Some (Inl e)
      | Inr _ \<Rightarrow>
          map_option (\<lambda>rows.
            and_then rows (\<lambda>rows.
            and_then (marker_scan E k rows None) (\<lambda>found.
            and_then (ls_revalidate L 1) (\<lambda>_.
            if mk_handoff k \<noteq> None \<and> found = None then Inl OnboardingOperationUnavailable
            else Inr found))))
          (marker_rows E k db))"

section \<open>Pages are complete\<close>

lemma row_page_reader:
  assumes "0 < page_size" and "page_size \<le> max_navigator_workstreams"
  shows "paged_reader (row_page convert rows page_size) rows convert page_size"
proof
  show "0 < page_size" by fact
  fix cursor
  assume cursor: "cursor + page_size < u32_limit"
  have "length (take (page_size + 1) (drop cursor rows)) > page_size \<longleftrightarrow> cursor + page_size < length rows"
    by (auto simp: min_def)
  moreover have "take page_size (take (page_size + 1) (drop cursor rows)) = take page_size (drop cursor rows)"
    by (simp add: min_def)
  ultimately show "row_page convert rows page_size cursor =
      and_then (collect_results (map convert (take page_size (drop cursor rows)))) (\<lambda>xs.
      Inr (xs, if cursor + page_size < length rows then Some (cursor + page_size) else None))"
    using assms cursor
    by (simp add: row_page_def page_parameters_def next_cursor_def u32_checked_add_def Let_def
        if_distrib [of "\<lambda>r. and_then r _"] cong: if_cong)
qed

lemma max_page: "0 < max_navigator_workstreams" "max_navigator_workstreams \<le> max_navigator_workstreams"
  by (simp_all add: max_navigator_workstreams_def)

interpretation path_pages: paged_reader
  "registered_runtime_paths_page E S db max_navigator_workstreams"
  "sort_key rt_id (runtime_rows db)" "runtime_paths_row E S" max_navigator_workstreams
  for E S db
  unfolding registered_runtime_paths_page_def [abs_def] using max_page by (rule row_page_reader)

interpretation marker_pages: paged_reader
  "onboarding_marker_operation_page db max_navigator_workstreams"
  "onboarding_rows db" Inr max_navigator_workstreams
  for db
  unfolding onboarding_marker_operation_page_def [abs_def] using max_page by (rule row_page_reader)

interpretation inventory_pages: paged_reader
  "onboarding_operation_inventory_page E db max_navigator_workstreams"
  "onboarding_rows db" "inventory_row E db" max_navigator_workstreams
  for E db
  unfolding onboarding_operation_inventory_page_def [abs_def]
  using max_page by (rule row_page_reader)

end
