(* ===== verification/Handoff.thy ===== *)
theory Handoff
  imports Inventory
begin

text \<open>
  \<open>src/state/current/onboarding.rs\<close>, second part: the cancellation of an unconsumed attempt, the
  fences that a Runtime-owned attempt passes on its way to the provider's exec, the proof of that
  exec, and the resolution of a parked recovery.
\<close>

section \<open>Cancellation\<close>

definition onboarding_cancelled_outcome :: string where
  "onboarding_cancelled_outcome =
     [CHR 0x7B, CHR 0x22] @ ''code'' @ [CHR 0x22, CHR '':'', CHR 0x22]
     @ ''onboarding_cancelled_v1'' @ [CHR 0x22, CHR 0x7D]"

fun cancel_scan ::
  "env \<Rightarrow> marker \<Rightarrow> operation_row list \<Rightarrow> (uuid \<times> operation_row \<times> onboarding_intent) option
     \<Rightarrow> (state_error, (uuid \<times> operation_row \<times> onboarding_intent) option) result" where
  "cancel_scan E k [] matched = Inr matched"
| "cancel_scan E k (p # ps) matched =
     and_then (marker_row E k p) (\<lambda>x.
     case x of
       None \<Rightarrow> cancel_scan E k ps matched
     | Some (operation, n) \<Rightarrow>
         if matched \<noteq> None then Inl MalformedHostSchema
         else cancel_scan E k ps (Some (operation, p, n)))"

text \<open>The Runtime of the attempt must be exactly as it was reserved, with nothing attached.\<close>

definition validate_untouched_attempt ::
  "env \<Rightarrow> runtime_paths \<Rightarrow> marker \<Rightarrow> uuid \<Rightarrow> onboarding_intent \<Rightarrow> registry
     \<Rightarrow> (state_error, runtime_row) result" where
  "validate_untouched_attempt E paths k operation n db =
     and_then (ok_or (runtime_join db (uuid_text E (mk_runtime k))) MalformedHostSchema) (\<lambda>(r, w).
     if rt_workstream r \<noteq> uuid_text E (in_workstream n)
        \<or> ws_location w \<noteq> uuid_text E (in_location n)
        \<or> rt_provider r \<noteq> provider_kind_text (in_provider n)
        \<or> rt_generation r \<noteq> in_generation n
        \<or> rt_session r \<noteq> rp_session_name paths
        \<or> rt_pid r \<noteq> None \<or> rt_birth r \<noteq> None
     then Inl OnboardingOperationUnavailable
     else if rt_lifecycle r \<noteq> ''starting'' then Inl OnboardingOperationUnavailable
     else if sql_count (\<lambda>b. bd_runtime b = uuid_text E (mk_runtime k)) (binding_rows db) \<noteq> 0
        \<or> sql_count (\<lambda>h. hd_runtime h = uuid_text E (mk_runtime k)) (handle_rows db) \<noteq> 0
        \<or> sql_count (\<lambda>t. tg_operation t = uuid_text E operation) (target_rows db) \<noteq> 0
     then Inl OnboardingOperationUnavailable
     else Inr r)"

text \<open>The Project that the attempt created goes with its only Location; an older one stays.\<close>

definition detach_attempt_project ::
  "env \<Rightarrow> onboarding_intent \<Rightarrow> location_row \<Rightarrow> registry \<Rightarrow> (state_error, registry) result" where
  "detach_attempt_project E n l db =
     (if \<not> in_location_created n then Inr db
      else if in_project_created n then
        and_then (ok_or (lc_project l) MalformedHostSchema) (\<lambda>text.
        and_then (ok_or (uuid_parse E text) MalformedHostSchema) (\<lambda>project.
        and_then (ok_or (List.find (\<lambda>p. pj_id p = uuid_text E project) (project_rows db))
          MalformedHostSchema) (\<lambda>p.
        if pj_label_location p \<noteq> uuid_text E (in_location n)
           \<or> project_member_count E project db \<noteq> 1
        then Inl OnboardingOperationUnavailable
        else
          and_then (one_row ConcurrentWrite
            (update_locations
              (\<lambda>x. lc_id x = uuid_text E (in_location n) \<and> lc_project x = Some (uuid_text E project))
              (\<lambda>x. x\<lparr> lc_project := None \<rparr>) db)) (\<lambda>db1.
          one_row ConcurrentWrite
            (delete_projects (\<lambda>x. pj_id x = uuid_text E project
               \<and> pj_label_location x = uuid_text E (in_location n)) db1)))))
      else
        (case lc_project l of
           None \<Rightarrow> Inr db
         | Some text \<Rightarrow>
             and_then (query_row (List.find (\<lambda>p. pj_id p = text) (project_rows db))) (\<lambda>p.
             if pj_label_location p = uuid_text E (in_location n)
             then Inl OnboardingOperationUnavailable else Inr db)))"

definition remove_attempt ::
  "env \<Rightarrow> current_state \<Rightarrow> marker \<Rightarrow> uuid \<Rightarrow> operation_row \<Rightarrow> onboarding_intent \<Rightarrow> location_row
     \<Rightarrow> registry \<Rightarrow> (state_error, registry) result" where
  "remove_attempt E S k operation p n l db =
     (let path = lc_path l in
      if in_location_created n
         \<and> (\<not> is_normalized_absolute_path path
            \<or> (case st_canonicalize S path of None \<Rightarrow> True | Some c \<Rightarrow> \<not> path_eq path c))
      then Inl MalformedHostSchema
      else
        and_then (one_row ConcurrentWrite
          (delete_runtimes (\<lambda>r. rt_id r = uuid_text E (mk_runtime k)
             \<and> rt_workstream r = uuid_text E (in_workstream n) \<and> rt_lifecycle r = ''starting''
             \<and> rt_pid r = None \<and> rt_birth r = None) db)) (\<lambda>db1.
        and_then (one_row ConcurrentWrite
          (delete_workstreams (\<lambda>w. ws_id w = uuid_text E (in_workstream n)
             \<and> ws_location w = uuid_text E (in_location n) \<and> ws_lifecycle w = ''open'') db1)) (\<lambda>db2.
        and_then
          (if in_location_created n
           then one_row ConcurrentWrite
             (delete_locations (\<lambda>x. lc_id x = uuid_text E (in_location n) \<and> lc_path x = path) db2)
           else Inr db2) (\<lambda>db3.
        and_then (read_revision (op_revision p)) (\<lambda>operation_revision.
        and_then (next_revision operation_revision) (\<lambda>next.
        one_row ConcurrentWrite
          (update_operations
            (\<lambda>x. op_id x = uuid_text E operation \<and> op_kind x = ''onboard''
                 \<and> op_phase x = ''capability_issued'' \<and> op_revision x = operation_revision
                 \<and> op_watermark x = None \<and> op_outcome x = None)
            (\<lambda>x. x\<lparr> op_phase := ''rolled_back'', op_outcome := Some onboarding_cancelled_outcome,
                    op_revision := next, op_token_id := None, op_token_verifier := None,
                    op_token_expiry := None, op_claims_digest := None \<rparr>) db3)))))))"

text \<open>The cancellation of a matched row; \<open>(False, db)\<close> when there is nothing to cancel.\<close>

definition cancel_matched ::
  "env \<Rightarrow> current_state \<Rightarrow> int \<Rightarrow> runtime_paths \<Rightarrow> marker \<Rightarrow> uuid \<Rightarrow> operation_row \<Rightarrow> onboarding_intent
     \<Rightarrow> registry \<Rightarrow> (state_error, bool \<times> registry) result" where
  "cancel_matched E S lease_generation paths k operation p n db =
     (if op_phase p = ''rolled_back'' then
        (if op_outcome p \<noteq> Some onboarding_cancelled_outcome \<or> op_watermark p \<noteq> None
            \<or> op_token_id p \<noteq> None \<or> op_token_verifier p \<noteq> None \<or> op_claims_digest p \<noteq> None
         then Inl MalformedHostSchema else Inr (False, db))
      else if op_phase p \<noteq> ''capability_issued'' then Inl OnboardingOperationUnavailable
      else
        and_then (ok_or (op_token_expiry p) MalformedHostSchema) (\<lambda>_.
        if op_watermark p \<noteq> None \<or> op_outcome p \<noteq> None then Inl OnboardingOperationUnavailable
        else if op_token_id p = None \<or> op_token_verifier p = None \<or> op_claims_digest p = None
        then Inl MalformedHostSchema
        else if in_version n \<noteq> 1 \<or> in_lease_generation n \<noteq> lease_generation
        then Inl OperationRequestMismatch
        else
          and_then (validate_untouched_attempt E paths k operation n db) (\<lambda>r.
          and_then (ok_or (location_at db (uuid_text E (in_location n))) MalformedHostSchema) (\<lambda>l.
          if rt_cwd r \<noteq> lc_path l then Inl OnboardingOperationUnavailable
          else
            and_then (detach_attempt_project E n l db) (\<lambda>db1.
            and_then (remove_attempt E S k operation p n l db1) (\<lambda>db2.
            and_then (validate_project_membership_transaction E db2) (\<lambda>_.
            and_then (validate_schema15 E (st_catalog S) db2) (\<lambda>_.
            Inr (True, db2)))))))))"

definition cancel_transaction ::
  "env \<Rightarrow> current_state \<Rightarrow> lease \<Rightarrow> runtime_paths \<Rightarrow> marker \<Rightarrow> operation_row list \<Rightarrow> registry
     \<Rightarrow> (state_error, bool \<times> registry) result" where
  "cancel_transaction E S L paths k rows db =
     and_then (cancel_scan E k rows None) (\<lambda>matched.
     case matched of
       None \<Rightarrow>
         if runtime_at db (uuid_text E (mk_runtime k)) \<noteq> None
         then Inl OnboardingOperationUnavailable else Inr (False, db)
     | Some (operation, p, n) \<Rightarrow>
         and_then (cancel_matched E S (ls_generation L) paths k operation p n db) (\<lambda>(cancelled, db').
         and_then (if cancelled then ls_revalidate L 2 else Inr ()) (\<lambda>_.
         Inr (cancelled, db'))))"

definition cancel_onboarding_current ::
  "env \<Rightarrow> current_state \<Rightarrow> lease \<Rightarrow> runtime_paths \<Rightarrow> marker \<Rightarrow> registry
     \<Rightarrow> ((state_error, bool) result \<times> registry) option" where
  "cancel_onboarding_current E S L paths k db =
     (case and_then (ensure_current_mode (st_mode S)) (\<lambda>_.
           and_then (ls_revalidate L 0) (\<lambda>_.
           and_then (validate_schema15 E (st_catalog S) db) (\<lambda>_.
           and_then (canonical_root S) (\<lambda>root.
           and_then (require (runtime_paths_eq paths (runtime_paths_for E root (mk_runtime k)))
             InvalidOnboardingPreparation) (\<lambda>_.
           ls_revalidate L 1))))) of
        Inl e \<Rightarrow> Some (Inl e, db)
      | Inr _ \<Rightarrow>
          map_option (\<lambda>rows.
            committed (and_then rows (\<lambda>rows. cancel_transaction E S L paths k rows db))
              (\<lambda>cancelled. ls_revalidate L (if cancelled then 3 else 2)) db)
          (marker_rows E k db))"

section \<open>An owned attempt\<close>

definition validate_owned_onboarding_transaction ::
  "env \<Rightarrow> crypto \<Rightarrow> prepare_request \<Rightarrow> int \<Rightarrow> string \<Rightarrow> ownership \<Rightarrow> registry
     \<Rightarrow> (state_error, onboarding_phase \<times> int) result" where
  "validate_owned_onboarding_transaction E K q lease_generation registry_generation o1 db =
     and_then (ok_or (operation_at db (uuid_text E (ow_operation o1)))
       (UnknownOperation (ow_operation o1))) (\<lambda>p.
     if op_kind p \<noteq> ''onboard'' then Inl OnboardingOperationUnavailable
     else
       and_then (intent_decode E (op_expected p)) (\<lambda>n.
       if \<not> intent_matches_request n q lease_generation registry_generation
          \<or> in_location n \<noteq> ow_location o1 \<or> in_workstream n \<noteq> ow_workstream o1
          \<or> in_runtime n \<noteq> ow_runtime o1
       then Inl OperationRequestMismatch
       else
         and_then (onboarding_claims (ow_operation o1) (in_location n) (in_generation n)
           registry_generation lease_generation q) (\<lambda>claims.
         if op_claims_digest p \<noteq> Some (claims_digest E K claims)
         then Inl OperationRequestMismatch
         else
           and_then (ok_or (runtime_join db (uuid_text E (ow_runtime o1))) MalformedHostSchema)
             (\<lambda>(r, w).
           and_then (require (valid_utf8 (rd_root (pq_repository q))) InvalidOnboardingPreparation)
             (\<lambda>_.
           if rt_workstream r \<noteq> uuid_text E (ow_workstream o1)
              \<or> ws_location w \<noteq> uuid_text E (ow_location o1)
              \<or> rt_provider r \<noteq> provider_kind_text (pq_provider q)
              \<or> rt_generation r \<noteq> in_generation n
              \<or> rt_session r \<noteq> rp_session_name (pq_paths q)
              \<or> rt_cwd r \<noteq> rd_root (pq_repository q)
           then Inl MalformedHostSchema
           else
             and_then (read_revision (op_revision p)) (\<lambda>revision.
             if revision \<noteq> ow_revision o1 then Inl ConcurrentWrite
             else
               and_then (malformed (operation_phase_from_text (op_phase p))) (\<lambda>operation_phase.
               and_then (ok_or (from_operation_phase operation_phase) MalformedHostSchema) (\<lambda>phase.
               Inr (phase, revision)))))))))"

section \<open>Advancing through the fences\<close>

datatype onboarding_advance =
  NormalAdvance onboarding_phase | OpenCodeExternalEffectStarted | CodexExecFailedKnownAbsent

definition opencode_external_effect_watermark :: string where
  "opencode_external_effect_watermark = ''wsnav-opencode-external-effect-started''"

definition codex_known_absent_watermark :: string where
  "codex_known_absent_watermark = ''wsnav-codex-exec-failed-known-absent''"

fun advance_next :: "onboarding_advance \<Rightarrow> onboarding_phase" where
  "advance_next (NormalAdvance phase) = phase"
| "advance_next OpenCodeExternalEffectStarted = ProviderExternalEffectStarted"
| "advance_next CodexExecFailedKnownAbsent = KnownAbsentExec"

fun effect_watermark :: "onboarding_advance \<Rightarrow> string option" where
  "effect_watermark (NormalAdvance _) = None"
| "effect_watermark OpenCodeExternalEffectStarted = Some opencode_external_effect_watermark"
| "effect_watermark CodexExecFailedKnownAbsent = Some codex_known_absent_watermark"

text \<open>The Runtime of an attempt, selected by both identities.\<close>

definition owned_runtime :: "env \<Rightarrow> ownership \<Rightarrow> registry \<Rightarrow> runtime_row option" where
  "owned_runtime E o1 db =
     List.find (\<lambda>r. rt_id r = uuid_text E (ow_runtime o1)
       \<and> rt_workstream r = uuid_text E (ow_workstream o1)) (runtime_rows db)"

definition validate_codex_known_absence ::
  "env \<Rightarrow> ownership \<Rightarrow> registry \<Rightarrow> (state_error, unit) result" where
  "validate_codex_known_absence E o1 db =
     and_then (query_row (owned_runtime E o1 db)) (\<lambda>r.
     and_then (query_row (operation_at db (uuid_text E (ow_operation o1)))) (\<lambda>p.
     if rt_provider r \<noteq> provider_kind_text Codex \<or> rt_pid r \<noteq> None \<or> rt_birth r \<noteq> None
        \<or> rt_lifecycle r \<noteq> ''starting''
        \<or> sql_count (\<lambda>b. bd_runtime b = uuid_text E (ow_runtime o1)) (binding_rows db) \<noteq> 0
        \<or> op_watermark p \<noteq> None \<or> op_outcome p \<noteq> None
     then Inl OnboardingOperationUnavailable else Inr ()))"

definition validate_opencode_external_effect ::
  "env \<Rightarrow> ownership \<Rightarrow> registry \<Rightarrow> (state_error, unit) result" where
  "validate_opencode_external_effect E o1 db =
     and_then (query_row (owned_runtime E o1 db)) (\<lambda>r.
     if rt_provider r \<noteq> provider_kind_text OpenCode
     then Inl OnboardingOperationUnavailable else Inr ())"

definition validate_provider_exec_start ::
  "env \<Rightarrow> ownership \<Rightarrow> provider_kind \<Rightarrow> registry \<Rightarrow> (state_error, unit) result" where
  "validate_provider_exec_start E o1 provider db =
     and_then (query_row (owned_runtime E o1 db)) (\<lambda>r.
     and_then (query_row (operation_at db (uuid_text E (ow_operation o1)))) (\<lambda>p.
     let valid = (case provider of
           Codex \<Rightarrow> rt_provider r = provider_kind_text Codex \<and> op_watermark p = None
                    \<and> op_outcome p = None
         | OpenCode \<Rightarrow> rt_provider r = provider_kind_text OpenCode
                    \<and> op_watermark p = Some opencode_external_effect_watermark
                    \<and> op_outcome p = None)
     in if \<not> valid then Inl OnboardingOperationUnavailable
        else if map_option tg_provider
                  (List.find (\<lambda>t. tg_operation t = uuid_text E (ow_operation o1)) (target_rows db))
                \<noteq> Some (provider_kind_text provider)
        then Inl OnboardingOperationUnavailable
        else Inr ()))"

text \<open>The UPDATE of the journal row, with or without an effect watermark.\<close>

definition advance_update ::
  "env \<Rightarrow> ownership \<Rightarrow> onboarding_advance \<Rightarrow> onboarding_phase \<Rightarrow> int \<Rightarrow> int \<Rightarrow> registry
     \<Rightarrow> (state_error, nat \<times> registry) result" where
  "advance_update E o1 advance current revision next db =
     (let here = (\<lambda>x. op_id x = uuid_text E (ow_operation o1) \<and> op_kind x = ''onboard''
                      \<and> op_phase x = operation_phase_text (to_operation_phase current)
                      \<and> op_revision x = revision);
          phase = operation_phase_text (to_operation_phase (advance_next advance))
      in case effect_watermark advance of
           Some watermark \<Rightarrow>
             update_operations (\<lambda>x. here x \<and> op_watermark x = None \<and> op_outcome x = None)
               (\<lambda>x. x\<lparr> op_phase := phase, op_watermark := Some watermark, op_revision := next \<rparr>) db
         | None \<Rightarrow>
             update_operations here (\<lambda>x. x\<lparr> op_phase := phase, op_revision := next \<rparr>) db)"

definition insert_exec_target ::
  "env \<Rightarrow> ownership \<Rightarrow> provider_kind \<Rightarrow> executable_identity \<Rightarrow> registry \<Rightarrow> (state_error, registry) result" where
  "insert_exec_target E o1 provider x db =
     and_then (ok_or (i64_try_from_u64 (xi_device x)) InvalidOnboardingPreparation) (\<lambda>device.
     and_then (ok_or (i64_try_from_u64 (xi_inode x)) InvalidOnboardingPreparation) (\<lambda>inode.
     insert_target
       \<lparr> tg_operation = uuid_text E (ow_operation o1), tg_provider = provider_kind_text provider,
         tg_device = device, tg_inode = inode \<rparr> db))"

definition advance_transaction ::
  "env \<Rightarrow> crypto \<Rightarrow> current_state \<Rightarrow> lease \<Rightarrow> prepare_request \<Rightarrow> ownership \<Rightarrow> onboarding_advance
     \<Rightarrow> executable_identity option \<Rightarrow> registry \<Rightarrow> (state_error, ownership \<times> registry) result" where
  "advance_transaction E K S L q o1 advance executable db =
     and_then (load_registry_generation db) (\<lambda>registry_generation.
     and_then (validate_owned_onboarding_transaction E K q (ls_generation L) registry_generation o1 db)
       (\<lambda>(current, revision).
     let nxt = advance_next advance in
     and_then (domain_result (onboarding_transition current nxt)) (\<lambda>_.
     if nxt = onboarding_phase.ProviderPreparation \<and> executable = None
     then Inl InvalidOnboardingPreparation
     else if nxt \<noteq> onboarding_phase.ProviderPreparation \<and> executable \<noteq> None
     then Inl InvalidOnboardingPreparation
     else
       and_then (if advance = CodexExecFailedKnownAbsent
                 then validate_codex_known_absence E o1 db else Inr ()) (\<lambda>_.
       and_then (if advance = OpenCodeExternalEffectStarted
                 then validate_opencode_external_effect E o1 db else Inr ()) (\<lambda>_.
       and_then (if nxt = onboarding_phase.ProviderExecStarted
                 then validate_provider_exec_start E o1 (pq_provider q) db else Inr ()) (\<lambda>_.
       and_then (next_revision revision) (\<lambda>next.
       and_then (ls_revalidate L 2) (\<lambda>_.
       and_then (one_row ConcurrentWrite (advance_update E o1 advance current revision next db))
         (\<lambda>db1.
       and_then (case executable of
                   None \<Rightarrow> Inr db1
                 | Some x \<Rightarrow> insert_exec_target E o1 (pq_provider q) x db1) (\<lambda>db2.
       and_then (validate_schema15 E (st_catalog S) db2) (\<lambda>_.
       and_then (ls_revalidate L 3) (\<lambda>_.
       Inr (o1\<lparr> ow_revision := next \<rparr>, db2)))))))))))))"

text \<open>The opening checks that every request-bearing operation shares.\<close>

definition request_gate ::
  "env \<Rightarrow> current_state \<Rightarrow> lease \<Rightarrow> prepare_request \<Rightarrow> registry \<Rightarrow> (state_error, unit) result" where
  "request_gate E S L q db =
     and_then (ensure_current_mode (st_mode S)) (\<lambda>_.
     and_then (ls_revalidate L 0) (\<lambda>_.
     and_then (validate_schema15 E (st_catalog S) db) (\<lambda>_.
     and_then (validate_onboarding_prepare_request E S q) (\<lambda>_.
     and_then (ensure_current_mode (st_mode S)) (\<lambda>_.
     ls_revalidate L 1)))))"

definition advance_onboarding_with_zero_timeout ::
  "env \<Rightarrow> crypto \<Rightarrow> current_state \<Rightarrow> lease \<Rightarrow> prepare_request \<Rightarrow> ownership \<Rightarrow> onboarding_advance
     \<Rightarrow> executable_identity option \<Rightarrow> registry \<Rightarrow> (state_error, ownership) result \<times> registry" where
  "advance_onboarding_with_zero_timeout E K S L q o1 advance executable db =
     committed
       (and_then (request_gate E S L q db) (\<lambda>_.
        advance_transaction E K S L q o1 advance executable db))
       (\<lambda>_. ls_revalidate L 4) db"

definition record_provider_preparation_current ::
  "env \<Rightarrow> crypto \<Rightarrow> current_state \<Rightarrow> lease \<Rightarrow> prepare_request \<Rightarrow> ownership \<Rightarrow> executable_identity
     \<Rightarrow> registry \<Rightarrow> (state_error, ownership) result \<times> registry" where
  "record_provider_preparation_current E K S L q o1 x db =
     advance_onboarding_with_zero_timeout E K S L q o1
       (NormalAdvance onboarding_phase.ProviderPreparation) (Some x) db"

definition record_provider_external_effect_started_current ::
  "env \<Rightarrow> crypto \<Rightarrow> current_state \<Rightarrow> lease \<Rightarrow> prepare_request \<Rightarrow> ownership \<Rightarrow> registry
     \<Rightarrow> (state_error, ownership) result \<times> registry" where
  "record_provider_external_effect_started_current E K S L q o1 db =
     advance_onboarding_with_zero_timeout E K S L q o1 OpenCodeExternalEffectStarted None db"

definition record_recovery_required_current ::
  "env \<Rightarrow> crypto \<Rightarrow> current_state \<Rightarrow> lease \<Rightarrow> prepare_request \<Rightarrow> ownership \<Rightarrow> registry
     \<Rightarrow> (state_error, ownership) result \<times> registry" where
  "record_recovery_required_current E K S L q o1 db =
     advance_onboarding_with_zero_timeout E K S L q o1
       (NormalAdvance onboarding_phase.RecoveryRequired) None db"

definition record_provider_exec_started_current ::
  "env \<Rightarrow> crypto \<Rightarrow> current_state \<Rightarrow> lease \<Rightarrow> prepare_request \<Rightarrow> ownership \<Rightarrow> registry
     \<Rightarrow> (state_error, ownership) result \<times> registry" where
  "record_provider_exec_started_current E K S L q o1 db =
     advance_onboarding_with_zero_timeout E K S L q o1
       (NormalAdvance onboarding_phase.ProviderExecStarted) None db"

definition record_codex_exec_failed_known_absent_current ::
  "env \<Rightarrow> crypto \<Rightarrow> current_state \<Rightarrow> lease \<Rightarrow> prepare_request \<Rightarrow> ownership \<Rightarrow> registry
     \<Rightarrow> (state_error, ownership) result \<times> registry" where
  "record_codex_exec_failed_known_absent_current E K S L q o1 db =
     advance_onboarding_with_zero_timeout E K S L q o1 CodexExecFailedKnownAbsent None db"

end
