(* ===== verification/ExecProof.thy ===== *)
theory ExecProof
  imports Handoff
begin

text \<open>
  \<open>src/state/current/onboarding.rs\<close>, third part, and the exec-proof loader of
  \<open>src/state/current/registry.rs\<close>: the session and the handle of an OpenCode attempt, the target
  against which an exec is proved, the observed and the proven process identity, and the
  resolution of a parked recovery.
\<close>

section \<open>The OpenCode session of an attempt\<close>

text \<open>The owned attempt at its external-effect boundary, with its intent.\<close>

definition opencode_effect_intent ::
  "env \<Rightarrow> crypto \<Rightarrow> lease \<Rightarrow> prepare_request \<Rightarrow> ownership \<Rightarrow> registry
     \<Rightarrow> (state_error, onboarding_intent) result" where
  "opencode_effect_intent E K L q o1 db =
     and_then (load_registry_generation db) (\<lambda>registry_generation.
     and_then (validate_owned_onboarding_transaction E K q (ls_generation L) registry_generation o1 db)
       (\<lambda>(phase, _).
     if phase \<noteq> ProviderExternalEffectStarted then Inl OnboardingOperationUnavailable
     else
       and_then (query_row (List.find (\<lambda>p. op_id p = uuid_text E (ow_operation o1)
         \<and> op_kind p = ''onboard'') (operation_rows db))) (\<lambda>p.
       and_then (intent_decode E (op_expected p)) (\<lambda>n.
       if in_provider n \<noteq> OpenCode \<or> in_generation n = [] \<or> in_runtime n \<noteq> ow_runtime o1
       then Inl OnboardingOperationUnavailable
       else Inr n))))"

definition session_gate ::
  "env \<Rightarrow> current_state \<Rightarrow> lease \<Rightarrow> prepare_request \<Rightarrow> registry \<Rightarrow> (state_error, unit) result" where
  "session_gate E S L q db =
     and_then (ls_revalidate L 0) (\<lambda>_.
     and_then (validate_schema15 E (st_catalog S) db) (\<lambda>_.
     and_then (validate_onboarding_prepare_request E S q) (\<lambda>_.
     ls_revalidate L 1)))"

definition record_opencode_created_session_current ::
  "env \<Rightarrow> crypto \<Rightarrow> current_state \<Rightarrow> lease \<Rightarrow> prepare_request \<Rightarrow> ownership \<Rightarrow> provider_session_id \<Rightarrow> uuid
     \<Rightarrow> registry \<Rightarrow> (state_error, ownership) result \<times> registry" where
  "record_opencode_created_session_current E K S L q o1 session fresh db =
     committed
       (and_then (ensure_current_mode (st_mode S)) (\<lambda>_.
        if ps_provider session \<noteq> OpenCode then Inl ProviderIdentityMismatch
        else
          and_then (session_gate E S L q db) (\<lambda>_.
          and_then (opencode_effect_intent E K L q o1 db) (\<lambda>n.
          and_then (bind_opencode_session_in_transaction E fresh (ow_runtime o1) (in_generation n)
            session ''new'' db) (\<lambda>(_, db').
          and_then (validate_schema15 E (st_catalog S) db') (\<lambda>_.
          and_then (ls_revalidate L 2) (\<lambda>_.
          Inr (o1, db'))))))))
       (\<lambda>_. ls_revalidate L 3) db"

text \<open>The existing handle of a replay must be the one that would be written.\<close>

definition handle_is_replay ::
  "opencode_runtime_handle \<Rightarrow> string \<Rightarrow> 16 word \<Rightarrow> string \<Rightarrow> provider_session_id \<Rightarrow> bool" where
  "handle_is_replay h generation port version session \<longleftrightarrow>
     oh_generation h = generation \<and> oh_host h = loopback_host \<and> oh_port h = port
     \<and> oh_version h = version \<and> oh_session h = session \<and> oh_status h = ObserverStarting
     \<and> oh_observer_pid h = None \<and> oh_observer_birth h = None"

definition attempt_handle_transaction ::
  "env \<Rightarrow> current_state \<Rightarrow> lease \<Rightarrow> ownership \<Rightarrow> onboarding_intent \<Rightarrow> 16 word \<Rightarrow> string
     \<Rightarrow> provider_session_id \<Rightarrow> registry
     \<Rightarrow> (state_error, (opencode_runtime_handle \<times> bool) \<times> registry) result" where
  "attempt_handle_transaction E S L o1 n port version session db =
     and_then (query_row (owned_runtime E o1 db)) (\<lambda>r.
     and_then (provider_kind_from_text (rt_provider r)) (\<lambda>provider.
     if provider \<noteq> OpenCode \<or> rt_generation r \<noteq> in_generation n \<or> rt_lifecycle r \<noteq> ''starting''
        \<or> rt_pid r \<noteq> None \<or> rt_birth r \<noteq> None
     then Inl HookEvidenceMismatch
     else
       and_then (load_binding E (ow_runtime o1) db) (\<lambda>found.
       and_then (ok_or found HookEvidenceMismatch) (\<lambda>binding.
       if pb_provider binding \<noteq> OpenCode \<or> pb_generation binding \<noteq> in_generation n
          \<or> pb_session binding \<noteq> session
       then Inl ProviderIdentityMismatch
       else
         and_then (load_opencode_handle E (ow_runtime o1) db) (\<lambda>existing.
         case existing of
           Some h \<Rightarrow>
             if handle_is_replay h (in_generation n) port version session
             then Inr ((h, False), db) else Inl ConcurrentWrite
         | None \<Rightarrow>
             and_then (insert_handle
               \<lparr> hd_runtime = uuid_text E (ow_runtime o1), hd_generation = in_generation n,
                 hd_host = ''127.0.0.1'', hd_port = uint port, hd_version = version,
                 hd_session = ps_native session, hd_observer_pid = None,
                 hd_observer_birth = None, hd_status = ''starting'', hd_revision = 1 \<rparr> db) (\<lambda>db'.
             and_then (load_opencode_handle E (ow_runtime o1) db') (\<lambda>written.
             and_then (ok_or written ConcurrentWrite) (\<lambda>h.
             and_then (validate_schema15 E (st_catalog S) db') (\<lambda>_.
             and_then (ls_revalidate L 2) (\<lambda>_.
             Inr ((h, True), db')))))))))))"

definition record_opencode_runtime_handle_current ::
  "env \<Rightarrow> crypto \<Rightarrow> current_state \<Rightarrow> lease \<Rightarrow> prepare_request \<Rightarrow> ownership \<Rightarrow> 16 word \<Rightarrow> string
     \<Rightarrow> provider_session_id \<Rightarrow> registry
     \<Rightarrow> (state_error, opencode_runtime_handle) result \<times> registry" where
  "record_opencode_runtime_handle_current E K S L q o1 port version session db =
     (case committed
        (if port = 0 \<or> ps_provider session \<noteq> OpenCode then Inl ProviderIdentityMismatch
         else
           and_then (validate_provider_metadata version) (\<lambda>_.
           and_then (ensure_current_mode (st_mode S)) (\<lambda>_.
           and_then (session_gate E S L q db) (\<lambda>_.
           and_then (opencode_effect_intent E K L q o1 db) (\<lambda>n.
           attempt_handle_transaction E S L o1 n port version session db)))))
        (\<lambda>(_, written). ls_revalidate L (if written then 3 else 2)) db of
        (outcome, db') \<Rightarrow> (and_then outcome (\<lambda>(h, _). Inr h), db'))"

section \<open>The target of an exec proof\<close>

record exec_target =
  xt_ownership :: ownership
  xt_provider :: provider_kind
  xt_project_root :: string
  xt_generation :: string
  xt_executable :: executable_identity

definition process_identity_matches ::
  "onboarding_phase \<Rightarrow> provider_kind \<Rightarrow> runtime_row \<Rightarrow> (state_error, bool) result" where
  "process_identity_matches required provider r =
     (case required of
        onboarding_phase.ProviderExecStarted \<Rightarrow>
          Inr (case (rt_pid r, rt_birth r) of
                 (None, None) \<Rightarrow> rt_lifecycle r = ''starting''
               | (Some pid, Some birth) \<Rightarrow>
                   provider = OpenCode
                   \<and> (case u32_try_from pid of None \<Rightarrow> False | Some p \<Rightarrow> p > 0)
                   \<and> validate_registry_text ''provider birth'' birth = Inr ()
                   \<and> rt_lifecycle r = ''starting''
               | _ \<Rightarrow> False)
      | onboarding_phase.ProviderExecProven \<Rightarrow>
          Inr (\<not> isl (runtime_status_from_text (rt_lifecycle r))
               \<and> (case Option.bind (rt_pid r) u32_try_from of None \<Rightarrow> False | Some p \<Rightarrow> p > 0)
               \<and> (case rt_birth r of None \<Rightarrow> False
                  | Some birth \<Rightarrow> validate_registry_text ''provider birth'' birth = Inr ()))
      | _ \<Rightarrow> Inl MalformedHostSchema)"

definition load_exec_proof_target ::
  "env \<Rightarrow> current_state \<Rightarrow> uuid \<Rightarrow> onboarding_phase \<Rightarrow> registry \<Rightarrow> (state_error, exec_target) result" where
  "load_exec_proof_target E S operation required db =
     and_then (ok_or (operation_at db (uuid_text E operation)) (UnknownOperation operation)) (\<lambda>p.
     if op_kind p \<noteq> ''onboard''
        \<or> op_phase p \<noteq> operation_phase_text (to_operation_phase required)
     then Inl OnboardingOperationUnavailable
     else
       and_then (intent_decode E (op_expected p)) (\<lambda>n.
       if in_version n \<noteq> 1 then Inl MalformedHostSchema
       else
         and_then (ok_or (List.find (\<lambda>t. tg_operation t = uuid_text E operation) (target_rows db))
           OnboardingOperationUnavailable) (\<lambda>t.
         and_then (malformed (provider_kind_parse (tg_provider t))) (\<lambda>target_provider.
         and_then (read_executable_identity (tg_device t) (tg_inode t)) (\<lambda>executable.
         and_then (ok_or (runtime_join db (uuid_text E (in_runtime n))) MalformedHostSchema) (\<lambda>(r, w).
         and_then (malformed (provider_kind_parse (rt_provider r))) (\<lambda>provider.
         and_then (canonical_root S) (\<lambda>root.
         and_then (process_identity_matches required provider r) (\<lambda>matches.
         if rt_workstream r \<noteq> uuid_text E (in_workstream n)
            \<or> ws_location w \<noteq> uuid_text E (in_location n)
            \<or> provider \<noteq> in_provider n \<or> target_provider \<noteq> in_provider n
            \<or> rt_generation r \<noteq> in_generation n
            \<or> rt_session r \<noteq> rp_session_name (runtime_paths_for E root (in_runtime n))
            \<or> \<not> is_normalized_absolute_path (rt_cwd r)
            \<or> \<not> matches
         then Inl MalformedHostSchema
         else
           and_then (read_revision (op_revision p)) (\<lambda>revision.
           Inr \<lparr> xt_ownership =
                   \<lparr> ow_operation = operation, ow_location = in_location n,
                     ow_workstream = in_workstream n, ow_runtime = in_runtime n,
                     ow_revision = revision \<rparr>,
                 xt_provider = provider, xt_project_root = rt_cwd r,
                 xt_generation = rt_generation r, xt_executable = executable \<rparr>))))))))))"

text \<open>The opening checks of the operations that carry no request.\<close>

definition plain_gate ::
  "env \<Rightarrow> current_state \<Rightarrow> lease \<Rightarrow> registry \<Rightarrow> (state_error, unit) result" where
  "plain_gate E S L db =
     and_then (ensure_current_mode (st_mode S)) (\<lambda>_.
     and_then (ls_revalidate L 0) (\<lambda>_.
     and_then (validate_schema15 E (st_catalog S) db) (\<lambda>_.
     ls_revalidate L 1)))"

definition onboarding_exec_proof_target_current ::
  "env \<Rightarrow> current_state \<Rightarrow> lease \<Rightarrow> uuid \<Rightarrow> registry \<Rightarrow> (state_error, exec_target) result" where
  "onboarding_exec_proof_target_current E S L operation db =
     and_then (plain_gate E S L db) (\<lambda>_.
     and_then (load_exec_proof_target E S operation onboarding_phase.ProviderExecStarted db) (\<lambda>target.
     and_then (ls_revalidate L 2) (\<lambda>_. Inr target)))"

definition onboarding_exec_proven_target_current ::
  "env \<Rightarrow> current_state \<Rightarrow> lease \<Rightarrow> uuid \<Rightarrow> registry \<Rightarrow> (state_error, exec_target) result" where
  "onboarding_exec_proven_target_current E S L operation db =
     and_then (plain_gate E S L db) (\<lambda>_.
     and_then (load_exec_proof_target E S operation onboarding_phase.ProviderExecProven db) (\<lambda>target.
     and_then (ls_revalidate L 2) (\<lambda>_. Inr target)))"

text \<open>The observer of an OpenCode attempt is ready for this generation.\<close>

definition load_ready_observer ::
  "env \<Rightarrow> ownership \<Rightarrow> exec_target \<Rightarrow> registry \<Rightarrow> (state_error, opencode_runtime_handle) result" where
  "load_ready_observer E o1 target db =
     and_then (load_opencode_handle E (ow_runtime o1) db) (\<lambda>found.
     and_then (ok_or found OnboardingOperationUnavailable) (\<lambda>h.
     if oh_generation h \<noteq> xt_generation target \<or> oh_status h \<noteq> ObserverReady
        \<or> oh_observer_pid h = None \<or> oh_observer_birth h = None
     then Inl OnboardingOperationUnavailable else Inr h))"

definition opencode_observer_ready_current ::
  "env \<Rightarrow> current_state \<Rightarrow> lease \<Rightarrow> ownership \<Rightarrow> registry
     \<Rightarrow> (state_error, opencode_runtime_handle) result" where
  "opencode_observer_ready_current E S L o1 db =
     and_then (plain_gate E S L db) (\<lambda>_.
     and_then (load_exec_proof_target E S (ow_operation o1) onboarding_phase.ProviderExecStarted db)
       (\<lambda>target.
     if xt_ownership target \<noteq> o1 \<or> xt_provider target \<noteq> OpenCode
     then Inl OnboardingOperationUnavailable
     else
       and_then (load_ready_observer E o1 target db) (\<lambda>h.
       and_then (ls_revalidate L 2) (\<lambda>_. Inr h))))"

section \<open>The process identity of the exec\<close>

record exec_evidence =
  xe_pid :: pid
  xe_birth :: string

definition exec_evidence_new :: "pid \<Rightarrow> string \<Rightarrow> (state_error, exec_evidence) result" where
  "exec_evidence_new pid birth =
     (if pid = 0 then Inl InvalidOnboardingPreparation
      else
        and_then (map_err (\<lambda>_. InvalidOnboardingPreparation)
          (validate_registry_text ''provider birth'' birth)) (\<lambda>_.
        Inr \<lparr> xe_pid = pid, xe_birth = birth \<rparr>))"

text \<open>The Runtime already carries the evidence, or it is written into a process-free Runtime.\<close>

definition record_exec_identity ::
  "env \<Rightarrow> ownership \<Rightarrow> exec_evidence \<Rightarrow> runtime_row \<Rightarrow> registry \<Rightarrow> (state_error, registry) result" where
  "record_exec_identity E o1 evidence r db =
     (case (rt_pid r, rt_birth r) of
        (Some pid, Some birth) \<Rightarrow>
          if pid = uint (xe_pid evidence) \<and> birth = xe_birth evidence
          then Inr db else Inl ConcurrentWrite
      | (None, None) \<Rightarrow>
          and_then (read_revision (rt_revision r)) (\<lambda>revision.
          and_then (next_revision revision) (\<lambda>next.
          one_row ConcurrentWrite
            (update_runtimes
              (\<lambda>x. rt_id x = uuid_text E (ow_runtime o1)
                   \<and> rt_workstream x = uuid_text E (ow_workstream o1)
                   \<and> rt_pid x = None \<and> rt_birth x = None \<and> rt_lifecycle x = ''starting''
                   \<and> rt_revision x = revision)
              (\<lambda>x. x\<lparr> rt_pid := Some (uint (xe_pid evidence)),
                      rt_birth := Some (xe_birth evidence), rt_revision := next \<rparr>) db)))
      | _ \<Rightarrow> Inl ConcurrentWrite)"

definition record_provider_exec_observed_current ::
  "env \<Rightarrow> current_state \<Rightarrow> lease \<Rightarrow> ownership \<Rightarrow> exec_evidence \<Rightarrow> registry
     \<Rightarrow> (state_error, ownership) result \<times> registry" where
  "record_provider_exec_observed_current E S L o1 evidence db =
     committed
       (and_then (plain_gate E S L db) (\<lambda>_.
        and_then (load_exec_proof_target E S (ow_operation o1) onboarding_phase.ProviderExecStarted db)
          (\<lambda>current.
        if xt_ownership current \<noteq> o1 then Inl ConcurrentWrite
        else
          and_then (query_row (owned_runtime E o1 db)) (\<lambda>r.
          if rt_lifecycle r \<noteq> ''starting'' then Inl MalformedHostSchema
          else
            and_then (record_exec_identity E o1 evidence r db) (\<lambda>db'.
            and_then (validate_schema15 E (st_catalog S) db') (\<lambda>_.
            and_then (ls_revalidate L 2) (\<lambda>_.
            Inr (o1, db'))))))))
       (\<lambda>_. ls_revalidate L 3) db"

definition record_provider_exec_proven_with_zero_timeout ::
  "env \<Rightarrow> current_state \<Rightarrow> lease \<Rightarrow> ownership \<Rightarrow> exec_evidence \<Rightarrow> registry
     \<Rightarrow> (state_error, ownership) result \<times> registry" where
  "record_provider_exec_proven_with_zero_timeout E S L o1 evidence db =
     committed
       (and_then (plain_gate E S L db) (\<lambda>_.
        and_then (load_exec_proof_target E S (ow_operation o1) onboarding_phase.ProviderExecStarted db)
          (\<lambda>current.
        if xt_ownership current \<noteq> o1 then Inl ConcurrentWrite
        else
          and_then (if xt_provider current = OpenCode
                    then and_then (load_ready_observer E o1 current db) (\<lambda>_. Inr ())
                    else Inr ()) (\<lambda>_.
          and_then (next_revision (ow_revision o1)) (\<lambda>next.
          and_then (query_row (owned_runtime E o1 db)) (\<lambda>r.
          and_then (read_revision (rt_revision r)) (\<lambda>_.
          if rt_lifecycle r \<noteq> ''starting'' then Inl MalformedHostSchema
          else
            and_then (record_exec_identity E o1 evidence r db) (\<lambda>db1.
            and_then (one_row ConcurrentWrite
              (update_operations
                (\<lambda>x. op_id x = uuid_text E (ow_operation o1) \<and> op_kind x = ''onboard''
                     \<and> op_phase x = ''provider_exec_started'' \<and> op_revision x = ow_revision o1)
                (\<lambda>x. x\<lparr> op_phase := ''provider_exec_proven'', op_revision := next \<rparr>) db1)) (\<lambda>db2.
            and_then (validate_schema15 E (st_catalog S) db2) (\<lambda>_.
            and_then (ls_revalidate L 2) (\<lambda>_.
            Inr (o1\<lparr> ow_revision := next \<rparr>, db2))))))))))))
       (\<lambda>_. ls_revalidate L 3) db"

section \<open>Parked recoveries\<close>

definition resolve_parked_transaction ::
  "env \<Rightarrow> current_state \<Rightarrow> lease \<Rightarrow> inventory_entry \<Rightarrow> uuid \<Rightarrow> int \<Rightarrow> registry
     \<Rightarrow> (state_error, unit \<times> registry) result" where
  "resolve_parked_transaction E S L x workstream expected db =
     and_then (ls_revalidate L 1) (\<lambda>_.
     and_then (ok_or (List.find (\<lambda>p. op_id p = uuid_text E (oi_operation x)
         \<and> op_kind p = ''onboard'' \<and> op_phase p = ''recovery_required'') (operation_rows db))
       OnboardingOperationUnavailable) (\<lambda>p.
     and_then (read_revision (op_revision p)) (\<lambda>operation_revision.
     and_then (case runtime_join db (uuid_text E (oi_runtime x)) of
                 None \<Rightarrow> Inl OnboardingOperationUnavailable
               | Some (r, w) \<Rightarrow>
                   (if rt_workstream r \<noteq> uuid_text E workstream
                    then Inl OnboardingOperationUnavailable else Inr (r, w))) (\<lambda>(r, w).
     and_then
       (or_else (rt_lifecycle r \<noteq> ''stopped'' \<or> ws_lifecycle w \<noteq> ''parked'')
         (and_then (read_revision (ws_revision w)) (\<lambda>v. Inr (v \<noteq> expected)))) (\<lambda>moved.
     if moved then Inl ConcurrentWrite
     else
       and_then (next_revision operation_revision) (\<lambda>next.
       and_then (one_row ConcurrentWrite
         (update_operations
           (\<lambda>y. op_id y = uuid_text E (oi_operation x) \<and> op_kind y = ''onboard''
                \<and> op_phase y = ''recovery_required'' \<and> op_revision y = operation_revision
                \<and> op_outcome y = None)
           (\<lambda>y. y\<lparr> op_phase := ''committed'', op_outcome := Some parked_recovery_resolved_outcome,
                   op_revision := next \<rparr>) db)) (\<lambda>db'.
       and_then (validate_schema15 E (st_catalog S) db') (\<lambda>_.
       and_then (ls_revalidate L 2) (\<lambda>_.
       Inr ((), db'))))))))))"

definition resolve_parked_recovery_current ::
  "env \<Rightarrow> current_state \<Rightarrow> lease \<Rightarrow> uuid \<Rightarrow> int \<Rightarrow> registry
     \<Rightarrow> ((state_error, unit) result \<times> registry) option" where
  "resolve_parked_recovery_current E S L workstream expected db =
     (case and_then (ensure_current_mode (st_mode S)) (\<lambda>_.
           and_then (ls_revalidate L 0) (\<lambda>_. validate_schema15 E (st_catalog S) db)) of
        Inl e \<Rightarrow> Some (Inl e, db)
      | Inr _ \<Rightarrow>
          map_option (\<lambda>inventory.
            committed
              (and_then inventory (\<lambda>entries.
               and_then (ok_or (List.find (\<lambda>x. oi_workstream x = workstream
                   \<and> oi_phase x = onboarding_phase.RecoveryRequired) entries)
                 OnboardingOperationUnavailable) (\<lambda>x.
               resolve_parked_transaction E S L x workstream expected db)))
              (\<lambda>_. ls_revalidate L 3) db)
          (onboarding_operation_inventory E S db))"

section \<open>The proven target of a Runtime\<close>

text \<open>
  The scan of \<open>onboarding_exec_proven_target_for_runtime\<close>: \<open>proven\<close> is the matching proven
  operation, \<open>other\<close> that a matching one is not proven; both together, or two of either,
  refuse.
\<close>

fun proven_scan ::
  "env \<Rightarrow> uuid \<Rightarrow> uuid \<Rightarrow> string \<Rightarrow> operation_row list \<Rightarrow> uuid option \<times> bool
     \<Rightarrow> (state_error, uuid option \<times> bool) result" where
  "proven_scan E workstream runtime generation [] found = Inr found"
| "proven_scan E workstream runtime generation (p # ps) (proven, other) =
     and_then (ok_or (uuid_parse E (op_id p)) MalformedHostSchema) (\<lambda>operation.
     and_then (malformed (operation_phase_from_text (op_phase p))) (\<lambda>phase.
     and_then (intent_decode E (op_expected p)) (\<lambda>n.
     if in_version n \<noteq> 1 then Inl MalformedHostSchema
     else if in_runtime n \<noteq> runtime
     then proven_scan E workstream runtime generation ps (proven, other)
     else if in_workstream n \<noteq> workstream then Inl OperationRequestMismatch
     else if in_generation n \<noteq> generation
     then proven_scan E workstream runtime generation ps (proven, other)
     else if phase \<noteq> operation_phase.ProviderExecProven then
       (if other \<or> proven \<noteq> None then Inl MalformedHostSchema
        else proven_scan E workstream runtime generation ps (proven, True))
     else if other \<or> proven \<noteq> None then Inl MalformedHostSchema
     else proven_scan E workstream runtime generation ps (Some operation, other))))"

text \<open>One page of the journal and whether more rows follow.\<close>

definition proven_rows :: "registry \<Rightarrow> nat \<Rightarrow> nat \<Rightarrow> nat \<Rightarrow> operation_row list \<times> bool" where
  "proven_rows db query_limit page_size cursor =
     (let found = take query_limit (drop cursor (onboarding_rows db))
      in (take page_size found, length found > page_size))"

text \<open>The loop over the pages; it carries what the scan found so far.\<close>

partial_function (option) proven_loop ::
  "(nat \<Rightarrow> operation_row list \<times> bool)
     \<Rightarrow> (operation_row list \<Rightarrow> uuid option \<times> bool \<Rightarrow> (state_error, uuid option \<times> bool) result)
     \<Rightarrow> nat \<Rightarrow> nat \<Rightarrow> uuid option \<times> bool \<Rightarrow> (state_error, uuid option \<times> bool) result option" where
  "proven_loop page scan cursor_step cursor found =
     (case scan (fst (page cursor)) found of
        Inl e \<Rightarrow> Some (Inl e)
      | Inr found' \<Rightarrow>
          if \<not> snd (page cursor) then Some (Inr found')
          else (case u32_checked_add cursor cursor_step of
                  None \<Rightarrow> Some (Inl NavigatorCursorOverflow)
                | Some c \<Rightarrow> proven_loop page scan cursor_step c found'))"

definition onboarding_exec_proven_target_for_runtime ::
  "env \<Rightarrow> current_state \<Rightarrow> uuid \<Rightarrow> uuid \<Rightarrow> string \<Rightarrow> registry
     \<Rightarrow> (state_error, exec_target option) result option" where
  "onboarding_exec_proven_target_for_runtime E S workstream runtime generation db =
     (case and_then (malformed_unless (generation \<noteq> [])) (\<lambda>_.
           and_then (validate_schema15 E (st_catalog S) db) (\<lambda>_.
           page_parameters max_navigator_workstreams)) of
        Inl e \<Rightarrow> Some (Inl e)
      | Inr (query_limit, cursor_step) \<Rightarrow>
          map_option (\<lambda>found.
            and_then found (\<lambda>(proven, _).
            and_then (transpose_opt (map_option (\<lambda>operation.
              load_exec_proof_target E S operation onboarding_phase.ProviderExecProven db) proven))
              (\<lambda>target.
            if (case target of None \<Rightarrow> False
                | Some t \<Rightarrow> ow_workstream (xt_ownership t) \<noteq> workstream
                            \<or> ow_runtime (xt_ownership t) \<noteq> runtime)
            then Inl OnboardingOperationUnavailable
            else Inr target)))
          (proven_loop (proven_rows db query_limit max_navigator_workstreams)
             (proven_scan E workstream runtime generation) cursor_step 0 (None, False)))"

end
