(* ===== verification/Attempts.thy ===== *)
theory Attempts
  imports ExecProof Durability
begin

text \<open>
  The invariant and the history of the onboarding operations: one lemma of each kind per
  operation, like those of \<open>Preservation\<close> and \<open>Durability\<close>. The cancellation removes rows; every
  other onboarding operation only adds rows or raises revisions.
\<close>

section \<open>Committed transactions\<close>

text \<open>Whatever the checks after the commit say, the registry is the old one or the body's.\<close>

lemma committed_cases:
  assumes "committed body after db = (out, db')" and "R db"
    and "\<And>x db1. body = Inr (x, db1) \<Longrightarrow> R db1"
  shows "R db'"
  using assms by (auto simp: committed_def split: sum.splits)

lemma onboard_kind [simp]: "''onboard'' \<in> range operation_kind_text"
  by (rule range_eqI [of _ _ Onboard]) simp

lemma onboarding_phase_texts [simp]:
  "''capability_issued'' \<in> range operation_phase_text"
  "''runtime_owned_launching'' \<in> range operation_phase_text"
  "''provider_exec_proven'' \<in> range operation_phase_text"
  "''rolled_back'' \<in> range operation_phase_text" "''committed'' \<in> range operation_phase_text"
  by (rule range_eqI [of _ _ operation_phase.CapabilityIssued]
      range_eqI [of _ _ operation_phase.RuntimeOwnedLaunching]
      range_eqI [of _ _ operation_phase.ProviderExecProven]
      range_eqI [of _ _ operation_phase.RolledBack] range_eqI [of _ _ Committed], simp)+

lemma next_revision_grows: "next_revision v = Inr n \<Longrightarrow> v < n \<and> 0 < n"
  by (auto simp: next_revision_def split: if_splits)

section \<open>Reservation\<close>

lemma create_project_keeps [keeps]:
  "create_project E fresh l d f db = Inr (p, db') \<Longrightarrow> registry_ok E db \<Longrightarrow> registry_ok E db'"
  unfolding create_project_def by (auto elim!: keeps)

lemma create_project_progress [progresses]:
  "create_project E fresh l d f db = Inr (p, db') \<Longrightarrow> progress db db'"
  unfolding create_project_def by (auto intro: progresses)

lemma bump_project_keeps [keeps]:
  "bump_project_revision E p db = Inr db' \<Longrightarrow> registry_ok E db \<Longrightarrow> registry_ok E db'"
  unfolding bump_project_revision_def one_row_Inr by (erule update_projects_keeps) auto

lemma bump_project_progress [progresses]:
  "bump_project_revision E p db = Inr db' \<Longrightarrow> progress db db'"
  unfolding bump_project_revision_def one_row_Inr by (rule progresses)

lemma attach_location_keeps [keeps]:
  "attach_location E p l db = Inr db' \<Longrightarrow> registry_ok E db \<Longrightarrow> registry_ok E db'"
  unfolding attach_location_def by (auto elim!: update_locations_keeps)

lemma attach_location_progress [progresses]:
  "attach_location E p l db = Inr db' \<Longrightarrow> progress db db'"
  unfolding attach_location_def by (auto intro: progresses)

lemma insert_onboarding_location_keeps [keeps]:
  "insert_onboarding_location E q l fresh db = Inr db' \<Longrightarrow> registry_ok E db \<Longrightarrow> registry_ok E db'"
  unfolding insert_onboarding_location_def Let_def
  by (auto elim!: keeps split: option.splits)

lemmas location_elims =
  create_project_progress [THEN progress_trans [rotated]]
  bump_project_progress [THEN progress_trans [rotated]]
  attach_location_progress [THEN progress_trans [rotated]]
  other_table_progress [THEN progress_trans [rotated]]

lemma insert_onboarding_location_progress [progresses]:
  "insert_onboarding_location E q l fresh db = Inr db' \<Longrightarrow> progress db db'"
  unfolding insert_onboarding_location_def Let_def
  by (auto elim!: location_elims split: option.splits)

lemma attempt_rows_ok:
  "generation_ok (uuid_text E (pi_generation ids)) \<Longrightarrow> runtime_row_ok E (attempt_runtime E q ids)"
  "0 \<le> next_activity_sequence db \<Longrightarrow> workstream_row_ok E (attempt_workstream E q ids l db)"
  "0 < co_revision c \<Longrightarrow> operation_row_ok E (attempt_operation E c m)"
  by (simp_all add: attempt_runtime_def attempt_workstream_def attempt_operation_def row_ok_defs
      row_checks)

lemma attempt_revision:
  assumes "compound_with_id E i k kd x = Inr c" and "compound_transition_onboarding E c nxt wm oc = Inr c'"
  shows "0 < co_revision c'"
  using assms compound_with_id_Inr [OF assms(1)]
  by (auto simp: compound_transition_onboarding_def revision_next_def i64_wrap_def split: if_splits option.splits)

lemma insert_attempt_keeps:
  assumes "insert_workstream (attempt_workstream E q ids l db1) db1 = Inr db2"
    and "insert_runtime (attempt_runtime E q ids) db2 = Inr db3"
    and "insert_operation (attempt_operation E c m) db3 = Inr db4"
    and "registry_ok E db1" and "generation_ok (uuid_text E (pi_generation ids))" and "0 < co_revision c"
  shows "registry_ok E db4"
proof -
  have "registry_ok E db2"
    using assms(1,4) by (rule insert_workstream_keeps)
      (simp add: attempt_rows_ok next_activity_nonneg [OF assms(4)])
  moreover have "(rt_workstream (attempt_runtime E q ids), rt_provider (attempt_runtime E q ids))
      \<in> (\<lambda>w. (ws_id w, ws_provider w)) ` set (workstream_rows db2)"
    using assms(1) by (auto simp: insert_workstream_def attempt_runtime_def attempt_workstream_def)
  ultimately have "registry_ok E db3"
    using assms(2,5) by (intro insert_runtime_keeps [OF assms(2)]) (simp_all add: attempt_rows_ok)
  then show ?thesis
    using assms(3,6) by (intro insert_operation_keeps [OF assms(3)]) (simp_all add: attempt_rows_ok)
qed

text \<open>The statements of a reservation, in order.\<close>

lemma reserve_attempt_steps:
  assumes "reserve_attempt E K S q ids lg rg db = Inr (v, db')"
  obtains location created project claims capability prepared c db1 db2 db3
  where "location_plan E q ids db = Inr (location, created, project)"
    and "validate_registry_text ''runtime generation'' (uuid_text E (pi_generation ids)) = Inr ()"
    and "onboarding_claims (pi_operation ids) location (uuid_text E (pi_generation ids)) rg lg q
       = Inr claims"
    and "issue_capability E K claims (pq_now q) (pq_expiry q) (pi_token ids) (pi_secret1 ids)
       (pi_secret2 ids) = Inr capability"
    and "compound_with_id E (pi_operation ids) (pq_request_key q) Onboard
       (intent_encode E (attempt_intent E q ids lg rg location created project)) = Inr prepared"
    and "compound_transition_onboarding E prepared onboarding_phase.CapabilityIssued None None = Inr c"
    and "(if created then insert_onboarding_location E q location (pi_project ids) db else Inr db) = Inr db1"
    and "insert_workstream (attempt_workstream E q ids location db1) db1 = Inr db2"
    and "insert_runtime (attempt_runtime E q ids) db2 = Inr db3"
    and "insert_operation (attempt_operation E c (cap_metadata capability)) db3 = Inr db'"
    and "validate_project_membership_transaction E db' = Inr ()"
    and "validate_schema15 E (st_catalog S) db' = Inr ()"
    and "v = \<lparr> rv_operation = pi_operation ids, rv_capability = capability \<rparr>"
  using assms by (auto simp: reserve_attempt_def Let_def)

lemma reserve_attempt_keeps [keeps]:
  assumes "reserve_attempt E K S q ids lg rg db = Inr (v, db')" and "registry_ok E db"
  shows "registry_ok E db'"
  using assms(1)
proof (cases rule: reserve_attempt_steps)
  case (1 location created project claims capability prepared c db1 db2 db3)
  from 1(7) assms(2) have "registry_ok E db1"
    by (auto dest: insert_onboarding_location_keeps split: if_splits)
  then show ?thesis
    using insert_attempt_keeps [OF 1(8-10)] attempt_revision [OF 1(5,6)] 1(2)
    by (simp add: generation_ok_def)
qed

lemma reserve_attempt_progress [progresses]:
  assumes "reserve_attempt E K S q ids lg rg db = Inr (v, db')"
  shows "progress db db'"
  using assms
proof (cases rule: reserve_attempt_steps)
  case (1 location created project claims capability prepared c db1 db2 db3)
  from 1(7) have "progress db db1"
    by (auto dest: insert_onboarding_location_progress split: if_splits)
  with 1(8-10) show ?thesis
    by (blast intro: progress_trans insert_workstream_progress insert_runtime_progress
        insert_operation_progress)
qed

lemma prepare_keeps [keeps]:
  "prepare_onboarding_with_zero_timeout E K S L q ids db = (out, db') \<Longrightarrow> registry_ok E db \<Longrightarrow>
   registry_ok E db'"
  unfolding prepare_onboarding_with_zero_timeout_def
  by (erule committed_cases) (auto intro: reserve_attempt_keeps split: option.splits)

lemma prepare_progress [progresses]:
  "prepare_onboarding_with_zero_timeout E K S L q ids db = (out, db') \<Longrightarrow> progress db db'"
  unfolding prepare_onboarding_with_zero_timeout_def
  by (erule committed_cases) (auto intro: reserve_attempt_progress split: option.splits)

section \<open>Hand-off\<close>

text \<open>The journal row of an attempt moves to another phase with the next revision.\<close>

lemma journal_update_keeps:
  assumes "update_operations P f db = Inr (n, db')" and "registry_ok E db"
    and "\<And>p. P p \<Longrightarrow> op_id (f p) = op_id p \<and> op_request_key (f p) = op_request_key p
           \<and> op_kind (f p) = op_kind p \<and> op_phase (f p) \<in> range operation_phase_text"
  shows "registry_ok E db'"
  using assms by (elim update_operations_keeps) (auto simp: operation_row_ok_def)

lemma journal_update_progress:
  assumes "update_operations P f db = Inr (n, db')"
    and "\<And>p. P p \<Longrightarrow> op_id (f p) = op_id p \<and> op_revision p < op_revision (f p)"
  shows "progress db db'"
  using assms by (blast intro: update_operations_progress)

lemma consume_keeps [keeps]:
  "consume_onboarding_with_zero_timeout E K S L q token now db = (out, db') \<Longrightarrow> registry_ok E db \<Longrightarrow>
   registry_ok E db'"
  unfolding consume_onboarding_with_zero_timeout_def
  by (erule committed_cases) (auto elim!: journal_update_keeps)

lemma consume_progress [progresses]:
  "consume_onboarding_with_zero_timeout E K S L q token now db = (out, db') \<Longrightarrow> progress db db'"
  unfolding consume_onboarding_with_zero_timeout_def
  by (erule committed_cases) (auto elim!: journal_update_progress dest: next_revision_grows)

lemma advance_update_keeps:
  assumes "advance_update E o1 a cur v n db = Inr (k, db')" and "registry_ok E db"
  shows "registry_ok E db'"
  using assms unfolding advance_update_def Let_def
  by (auto elim!: journal_update_keeps split: option.splits)

lemma advance_update_progress:
  assumes "advance_update E o1 a cur v n db = Inr (k, db')" and "v < n"
  shows "progress db db'"
  using assms unfolding advance_update_def Let_def
  by (auto elim!: journal_update_progress split: option.splits)

lemma insert_exec_target_keeps [keeps]:
  "insert_exec_target E o1 p x db = Inr db' \<Longrightarrow> registry_ok E db \<Longrightarrow> registry_ok E db'"
  unfolding insert_exec_target_def by (auto elim!: keeps)

lemma insert_exec_target_progress [progresses]:
  "insert_exec_target E o1 p x db = Inr db' \<Longrightarrow> progress db db'"
  unfolding insert_exec_target_def by (auto intro: progresses)

lemma advance_transaction_steps:
  assumes "advance_transaction E K S L q o1 a x db = Inr (o2, db')"
  obtains rg cur v n db1
  where "load_registry_generation db = Inr rg"
    and "validate_owned_onboarding_transaction E K q (ls_generation L) rg o1 db = Inr (cur, v)"
    and "permits_onboarding_transition cur (advance_next a)"
    and "advance_next a = onboarding_phase.ProviderPreparation \<longleftrightarrow> x \<noteq> None"
    and "(if a = CodexExecFailedKnownAbsent then validate_codex_known_absence E o1 db else Inr ()) = Inr ()"
    and "(if a = OpenCodeExternalEffectStarted then validate_opencode_external_effect E o1 db else Inr ())
       = Inr ()"
    and "(if advance_next a = onboarding_phase.ProviderExecStarted
          then validate_provider_exec_start E o1 (pq_provider q) db else Inr ()) = Inr ()"
    and "next_revision v = Inr n"
    and "advance_update E o1 a cur v n db = Inr (1, db1)"
    and "(case x of None \<Rightarrow> Inr db1 | Some y \<Rightarrow> insert_exec_target E o1 (pq_provider q) y db1) = Inr db'"
    and "validate_schema15 E (st_catalog S) db' = Inr ()"
    and "o2 = o1\<lparr> ow_revision := n \<rparr>"
  using assms unfolding advance_transaction_def Let_def
  by (auto simp: onboarding_transition_Inr intro!: that split del: if_split option.split)

lemma advance_keeps [keeps]:
  assumes "advance_onboarding_with_zero_timeout E K S L q o1 a x db = (out, db')"
    and "registry_ok E db"
  shows "registry_ok E db'"
proof -
  have "registry_ok E db2" if "advance_transaction E K S L q o1 a x db = Inr (o2, db2)" for o2 db2
    using that
  proof (cases rule: advance_transaction_steps)
    case (1 rg cur v n db1)
    have "registry_ok E db1" by (rule advance_update_keeps [OF 1(9) assms(2)])
    then show ?thesis
      using 1(10) by (auto intro: insert_exec_target_keeps split: option.splits)
  qed
  then show ?thesis
    using assms unfolding advance_onboarding_with_zero_timeout_def
    by (elim committed_cases) auto
qed

lemma advance_progress [progresses]:
  assumes "advance_onboarding_with_zero_timeout E K S L q o1 a x db = (out, db')"
  shows "progress db db'"
proof -
  have "progress db db2" if "advance_transaction E K S L q o1 a x db = Inr (o2, db2)" for o2 db2
    using that
  proof (cases rule: advance_transaction_steps)
    case (1 rg cur v n db1)
    have "progress db db1"
      using advance_update_progress [OF 1(9)] next_revision_grows [OF 1(8)] by blast
    then show ?thesis
      using 1(10) by (auto intro: progress_trans insert_exec_target_progress split: option.splits)
  qed
  then show ?thesis
    using assms unfolding advance_onboarding_with_zero_timeout_def
    by (elim committed_cases) auto
qed

section \<open>The OpenCode session of an attempt\<close>

lemma created_session_keeps [keeps]:
  "record_opencode_created_session_current E K S L q o1 s fresh db = (out, db') \<Longrightarrow> registry_ok E db \<Longrightarrow>
   identifier_ok (ps_native s) \<Longrightarrow> registry_ok E db'"
  unfolding record_opencode_created_session_current_def
  by (erule committed_cases) (auto intro: bind_opencode_keeps)

lemma created_session_progress [progresses]:
  "record_opencode_created_session_current E K S L q o1 s fresh db = (out, db') \<Longrightarrow> progress db db'"
  unfolding record_opencode_created_session_current_def
  by (erule committed_cases) (auto intro: bind_opencode_progress)

lemma owned_runtime_Some:
  "owned_runtime E o1 db = Some r \<Longrightarrow> r \<in> set (runtime_rows db) \<and> rt_id r = uuid_text E (ow_runtime o1)
     \<and> rt_workstream r = uuid_text E (ow_workstream o1)"
  unfolding owned_runtime_def by (auto dest: find_SomeD)

text \<open>A handle transaction either leaves the registry as it is or inserts the handle.\<close>

lemma attempt_handle_steps:
  assumes "attempt_handle_transaction E S L o1 n port version s db = Inr (h, db')"
  shows "db' = db \<or> (\<exists>r. owned_runtime E o1 db = Some r \<and> rt_generation r = in_generation n \<and>
    insert_handle
      \<lparr> hd_runtime = uuid_text E (ow_runtime o1), hd_generation = in_generation n,
        hd_host = ''127.0.0.1'', hd_port = uint port, hd_version = version,
        hd_session = ps_native s, hd_observer_pid = None, hd_observer_birth = None,
        hd_status = ''starting'', hd_revision = 1 \<rparr> db = Inr db')"
  using assms unfolding attempt_handle_transaction_def
  by (auto split: option.splits if_splits)

lemma attempt_handle_keeps:
  assumes "attempt_handle_transaction E S L o1 n port version s db = Inr (h, db')"
    and "registry_ok E db" and "validate_provider_metadata version = Inr ()"
    and "identifier_ok (ps_native s)" and "port \<noteq> 0"
  shows "registry_ok E db'"
  using attempt_handle_steps [OF assms(1)]
proof (elim disjE exE conjE)
  fix r
  assume r: "owned_runtime E o1 db = Some r" "rt_generation r = in_generation n"
    and ins: "insert_handle
      \<lparr> hd_runtime = uuid_text E (ow_runtime o1), hd_generation = in_generation n,
        hd_host = ''127.0.0.1'', hd_port = uint port, hd_version = version,
        hd_session = ps_native s, hd_observer_pid = None, hd_observer_birth = None,
        hd_status = ''starting'', hd_revision = 1 \<rparr> db = Inr db'"
  have "generation_ok (in_generation n)"
    using registry_ok_rows(2) [OF assms(2), of r] owned_runtime_Some [OF r(1)] r(2)
    by (simp add: runtime_row_ok_def)
  then show ?thesis
    using insert_handle_keeps [OF ins assms(2)] handle_row_new_ok [OF _ assms(3-5)] by blast
qed (use assms(2) in simp)

lemma attempt_handle_progress:
  "attempt_handle_transaction E S L o1 n port version s db = Inr (h, db') \<Longrightarrow> progress db db'"
  by (drule attempt_handle_steps) (auto dest: insert_handle_progress)

lemma attempt_record_handle_committed:
  assumes "record_opencode_runtime_handle_current E K S L q o1 port version s db = (out, db')"
  obtains "db' = db"
  | n h where "attempt_handle_transaction E S L o1 n port version s db = Inr (h, db')"
      "validate_provider_metadata version = Inr ()" "port \<noteq> 0"
proof -
  from assms obtain out' where
    "committed
        (if port = 0 \<or> ps_provider s \<noteq> OpenCode then Inl ProviderIdentityMismatch
         else
           and_then (validate_provider_metadata version) (\<lambda>_.
           and_then (ensure_current_mode (st_mode S)) (\<lambda>_.
           and_then (session_gate E S L q db) (\<lambda>_.
           and_then (opencode_effect_intent E K L q o1 db) (\<lambda>n.
           attempt_handle_transaction E S L o1 n port version s db)))))
        (\<lambda>(_, written). ls_revalidate L (if written then 3 else 2)) db = (out', db')"
    unfolding record_opencode_runtime_handle_current_def by (auto split: prod.splits)
  then have "db' = db \<or> (\<exists>n h. attempt_handle_transaction E S L o1 n port version s db = Inr (h, db') \<and>
      validate_provider_metadata version = Inr () \<and> port \<noteq> 0)"
    by (rule committed_cases) auto
  then show thesis using that by blast
qed

lemma attempt_record_handle_keeps [keeps]:
  "record_opencode_runtime_handle_current E K S L q o1 port version s db = (out, db') \<Longrightarrow>
   registry_ok E db \<Longrightarrow> identifier_ok (ps_native s) \<Longrightarrow> registry_ok E db'"
  by (erule attempt_record_handle_committed) (auto intro: attempt_handle_keeps)

lemma attempt_record_handle_progress [progresses]:
  "record_opencode_runtime_handle_current E K S L q o1 port version s db = (out, db') \<Longrightarrow> progress db db'"
  by (erule attempt_record_handle_committed) (auto intro: attempt_handle_progress)

section \<open>Exec observation and proof\<close>

lemma record_exec_identity_keeps [keeps]:
  assumes "record_exec_identity E o1 x r db = Inr db'" and "registry_ok E db" and "xe_pid x \<noteq> 0"
  shows "registry_ok E db'"
  using assms unfolding record_exec_identity_def
  by (auto elim!: update_runtimes_keeps simp: runtime_row_ok_def split: option.splits if_splits)

lemma record_exec_identity_progress [progresses]:
  "record_exec_identity E o1 x r db = Inr db' \<Longrightarrow> progress db db'"
  unfolding record_exec_identity_def
  by (auto elim!: update_runtimes_progress dest: next_revision_grows split: option.splits if_splits)

lemma exec_observed_keeps [keeps]:
  "record_provider_exec_observed_current E S L o1 x db = (out, db') \<Longrightarrow> registry_ok E db \<Longrightarrow>
   xe_pid x \<noteq> 0 \<Longrightarrow> registry_ok E db'"
  unfolding record_provider_exec_observed_current_def
  by (erule committed_cases) (auto intro: record_exec_identity_keeps)

lemma exec_observed_progress [progresses]:
  "record_provider_exec_observed_current E S L o1 x db = (out, db') \<Longrightarrow> progress db db'"
  unfolding record_provider_exec_observed_current_def
  by (erule committed_cases) (auto intro: record_exec_identity_progress)

text \<open>The two statements of a proven exec.\<close>

lemma exec_proven_steps:
  assumes "record_provider_exec_proven_with_zero_timeout E S L o1 x db = (out, db')"
  obtains "db' = db" "\<And>o2. out \<noteq> Inr o2"
  | target r db1 v where
      "load_exec_proof_target E S (ow_operation o1) onboarding_phase.ProviderExecStarted db = Inr target"
      "xt_ownership target = o1"
      "(if xt_provider target = OpenCode
        then and_then (load_ready_observer E o1 target db) (\<lambda>_. Inr ()) else Inr ()) = Inr ()"
      "owned_runtime E o1 db = Some r" "rt_lifecycle r = ''starting''"
      "record_exec_identity E o1 x r db = Inr db1" "next_revision (ow_revision o1) = Inr v"
      "update_operations
         (\<lambda>y. op_id y = uuid_text E (ow_operation o1) \<and> op_kind y = ''onboard''
              \<and> op_phase y = ''provider_exec_started'' \<and> op_revision y = ow_revision o1)
         (\<lambda>y. y\<lparr> op_phase := ''provider_exec_proven'', op_revision := v \<rparr>) db1 = Inr (1, db')"
      "validate_schema15 E (st_catalog S) db' = Inr ()"
      "\<And>o2. out = Inr o2 \<Longrightarrow> o2 = o1\<lparr> ow_revision := v \<rparr>"
proof -
  let ?body = "and_then (plain_gate E S L db) (\<lambda>_.
        and_then (load_exec_proof_target E S (ow_operation o1) onboarding_phase.ProviderExecStarted db)
          (\<lambda>current.
        if xt_ownership current \<noteq> o1 then Inl ConcurrentWrite
        else
          and_then (if xt_provider current = OpenCode
                    then and_then (load_ready_observer E o1 current db) (\<lambda>_. Inr ())
                    else Inr ()) (\<lambda>_.
          and_then (next_revision (ow_revision o1)) (\<lambda>next.
          and_then (query_row (owned_runtime E o1 db)) (\<lambda>r.
          and_then (read_revision (rt_revision r)) (\<lambda>_.
          if rt_lifecycle r \<noteq> ''starting'' then Inl MalformedHostSchema
          else
            and_then (record_exec_identity E o1 x r db) (\<lambda>db1.
            and_then (one_row ConcurrentWrite
              (update_operations
                (\<lambda>x. op_id x = uuid_text E (ow_operation o1) \<and> op_kind x = ''onboard''
                     \<and> op_phase x = ''provider_exec_started'' \<and> op_revision x = ow_revision o1)
                (\<lambda>x. x\<lparr> op_phase := ''provider_exec_proven'', op_revision := next \<rparr>) db1)) (\<lambda>db2.
            and_then (validate_schema15 E (st_catalog S) db2) (\<lambda>_.
            and_then (ls_revalidate L 2) (\<lambda>_.
            Inr (o1\<lparr> ow_revision := next \<rparr>, db2)))))))))))"
  have run: "committed ?body (\<lambda>_. ls_revalidate L 3) db = (out, db')"
    using assms unfolding record_provider_exec_proven_with_zero_timeout_def .
  show thesis
  proof (cases ?body)
    case (Inl e)
    with run show thesis by (intro that(1)) (auto simp: committed_def)
  next
    case (Inr y)
    then obtain o2 db2 where body: "?body = Inr (o2, db2)" by (cases y) auto
    with run have "db2 = db'" and "\<And>o3. out = Inr o3 \<Longrightarrow> o3 = o2"
      by (auto simp: committed_def)
    with body show thesis
      by (auto intro!: that(2) split del: if_split)
  qed
qed

lemma exec_proven_keeps [keeps]:
  assumes "record_provider_exec_proven_with_zero_timeout E S L o1 x db = (out, db')"
    and "registry_ok E db" and "xe_pid x \<noteq> 0"
  shows "registry_ok E db'"
  using assms(1)
proof (cases rule: exec_proven_steps)
  case (2 target r db1 v)
  have "registry_ok E db1" by (rule record_exec_identity_keeps [OF 2(6) assms(2,3)])
  with 2(8) show ?thesis by (rule journal_update_keeps) simp
qed (use assms(2) in simp)

lemma exec_proven_progress [progresses]:
  assumes "record_provider_exec_proven_with_zero_timeout E S L o1 x db = (out, db')"
  shows "progress db db'"
  using assms
proof (cases rule: exec_proven_steps)
  case (2 target r db1 v)
  have "progress db db1" by (rule record_exec_identity_progress [OF 2(6)])
  moreover have "progress db1 db'"
    using 2(8) by (rule journal_update_progress) (use next_revision_grows [OF 2(7)] in simp)
  ultimately show ?thesis by (rule progress_trans)
qed simp

section \<open>Parked recoveries\<close>

lemma resolve_parked_transaction_keeps:
  "resolve_parked_transaction E S L x w v db = Inr (u, db') \<Longrightarrow> registry_ok E db \<Longrightarrow> registry_ok E db'"
  unfolding resolve_parked_transaction_def by (auto elim!: journal_update_keeps)

lemma resolve_parked_transaction_progress:
  "resolve_parked_transaction E S L x w v db = Inr (u, db') \<Longrightarrow> progress db db'"
  unfolding resolve_parked_transaction_def
  by (auto elim!: journal_update_progress dest: next_revision_grows)

lemma resolve_parked_recovery_cases:
  assumes "resolve_parked_recovery_current E S L w v db = Some (out, db')"
  obtains "db' = db" | x u where "resolve_parked_transaction E S L x w v db = Inr (u, db')"
proof (cases "and_then (ensure_current_mode (st_mode S)) (\<lambda>_.
           and_then (ls_revalidate L 0) (\<lambda>_. validate_schema15 E (st_catalog S) db))")
  case (Inl e)
  with assms that(1) show thesis by (auto simp: resolve_parked_recovery_current_def)
next
  case (Inr u)
  with assms obtain inventory where
    "committed
        (and_then inventory (\<lambda>entries.
         and_then (ok_or (List.find (\<lambda>x. oi_workstream x = w
             \<and> oi_phase x = onboarding_phase.RecoveryRequired) entries)
           OnboardingOperationUnavailable) (\<lambda>x.
         resolve_parked_transaction E S L x w v db)))
        (\<lambda>_. ls_revalidate L 3) db = (out, db')"
    by (auto simp: resolve_parked_recovery_current_def)
  then have "db' = db \<or> (\<exists>x u. resolve_parked_transaction E S L x w v db = Inr (u, db'))"
    by (rule committed_cases) auto
  then show thesis using that by blast
qed

lemma resolve_parked_recovery_keeps [keeps]:
  "resolve_parked_recovery_current E S L w v db = Some (out, db') \<Longrightarrow> registry_ok E db \<Longrightarrow> registry_ok E db'"
  by (erule resolve_parked_recovery_cases) (auto intro: resolve_parked_transaction_keeps)

lemma resolve_parked_recovery_progress [progresses]:
  "resolve_parked_recovery_current E S L w v db = Some (out, db') \<Longrightarrow> progress db db'"
  by (erule resolve_parked_recovery_cases) (auto intro: resolve_parked_transaction_progress)

section \<open>Cancellation\<close>

lemma detach_attempt_keeps [keeps]:
  "detach_attempt_project E n l db = Inr db' \<Longrightarrow> registry_ok E db \<Longrightarrow> registry_ok E db'"
  unfolding detach_attempt_project_def
  by (auto elim!: keeps split: if_splits option.splits)

lemma remove_attempt_keeps [keeps]:
  "remove_attempt E S k operation p n l db = Inr db' \<Longrightarrow> registry_ok E db \<Longrightarrow> registry_ok E db'"
  unfolding remove_attempt_def Let_def
  by (auto elim!: journal_update_keeps keeps split: if_splits)

lemma cancel_matched_keeps:
  "cancel_matched E S lg paths k operation p n db = Inr (b, db') \<Longrightarrow> registry_ok E db \<Longrightarrow> registry_ok E db'"
  unfolding cancel_matched_def
  by (auto intro: detach_attempt_keeps remove_attempt_keeps split: if_splits)

lemma cancel_transaction_keeps:
  "cancel_transaction E S L paths k rows db = Inr (b, db') \<Longrightarrow> registry_ok E db \<Longrightarrow> registry_ok E db'"
  unfolding cancel_transaction_def
  by (auto intro: cancel_matched_keeps split: option.splits if_splits)

lemma cancel_cases:
  assumes "cancel_onboarding_current E S L paths k db = Some (out, db')"
  obtains e where "out = Inl e" "db' = db"
  | rows b e where "marker_rows E k db = Some (Inr rows)"
      "cancel_transaction E S L paths k rows db = Inr (b, db')" "out = Inr b \<or> out = Inl e"
proof -
  from assms have "(\<exists>e. out = Inl e) \<and> db' = db \<or>
      (\<exists>rows. marker_rows E k db = Some rows \<and>
        committed (and_then rows (\<lambda>rows. cancel_transaction E S L paths k rows db))
              (\<lambda>cancelled. ls_revalidate L (if cancelled then 3 else 2)) db = (out, db'))"
    unfolding cancel_onboarding_current_def by (auto split: sum.splits)
  then show thesis
  proof (elim disjE exE conjE)
    fix rows
    assume rows: "marker_rows E k db = Some rows"
      and run: "committed (and_then rows (\<lambda>rows. cancel_transaction E S L paths k rows db))
              (\<lambda>cancelled. ls_revalidate L (if cancelled then 3 else 2)) db = (out, db')"
    show thesis
    proof (cases "and_then rows (\<lambda>rows. cancel_transaction E S L paths k rows db)")
      case (Inl e)
      with run show thesis by (intro that(1) [of e]) (auto simp: committed_def)
    next
      case (Inr y)
      then obtain rs b db2 where "rows = Inr rs" "cancel_transaction E S L paths k rs db = Inr (b, db2)"
        by (cases y) auto
      with run rows show thesis
        by (cases "ls_revalidate L (if b then 3 else 2)")
          (auto simp: committed_def intro: that(2))
    qed
  qed (use that(1) in blast)
qed

lemma cancel_keeps [keeps]:
  "cancel_onboarding_current E S L paths k db = Some (out, db') \<Longrightarrow> registry_ok E db \<Longrightarrow> registry_ok E db'"
  by (erule cancel_cases) (auto intro: cancel_transaction_keeps)

section \<open>The onboarding transactions as steps\<close>

text \<open>
  What an onboarding transaction leaves, whatever its result. \<open>attempt_update\<close> holds the ones that
  only add rows or raise revisions; the cancellation is the other one.
\<close>

inductive attempt_update :: "env \<Rightarrow> registry \<Rightarrow> registry \<Rightarrow> bool" for E :: env where
  prepared: "prepare_onboarding_with_zero_timeout E K S L q ids db = (prep, db') \<Longrightarrow> attempt_update E db db'"
| consumed: "consume_onboarding_with_zero_timeout E K S L q token now db = (own_out, db') \<Longrightarrow>
    attempt_update E db db'"
| advanced: "advance_onboarding_with_zero_timeout E K S L q o1 adv x db = (own_out, db') \<Longrightarrow>
    attempt_update E db db'"
| session: "record_opencode_created_session_current E K S L q o1 s fresh db = (own_out, db') \<Longrightarrow>
    identifier_ok (ps_native s) \<Longrightarrow> attempt_update E db db'"
| handle: "record_opencode_runtime_handle_current E K S L q o1 port v s db = (handle_out, db') \<Longrightarrow>
    identifier_ok (ps_native s) \<Longrightarrow> attempt_update E db db'"
| observed: "record_provider_exec_observed_current E S L o1 evidence db = (own_out, db') \<Longrightarrow>
    xe_pid evidence \<noteq> 0 \<Longrightarrow> attempt_update E db db'"
| proven: "record_provider_exec_proven_with_zero_timeout E S L o1 evidence db = (own_out, db') \<Longrightarrow>
    xe_pid evidence \<noteq> 0 \<Longrightarrow> attempt_update E db db'"
| resolved: "resolve_parked_recovery_current E S L w rv db = Some (unit_out, db') \<Longrightarrow> attempt_update E db db'"

lemma attempt_update_keeps [keeps]:
  assumes "attempt_update E db db'" and "registry_ok E db"
  shows "registry_ok E db'"
  using assms by (cases rule: attempt_update.cases; blast intro: keeps)

lemma attempt_update_progress [progresses]:
  assumes "attempt_update E db db'" shows "progress db db'"
  using assms by (cases rule: attempt_update.cases; blast intro: progresses)

end
