(* ===== verification/History.thy ===== *)
theory History
  imports Durability Attempts
begin

text \<open>
  The registry as a state machine: one step per transaction of \<open>HostRegistry\<close> and of the
  onboarding journal of \<open>CurrentState\<close>, in two relations. \<open>update_step\<close> holds the operations that
  only add rows or raise revisions, \<open>removal_step\<close> the three that delete versioned rows. An
  operation that fails rolls its transaction back, so it is not a step; the onboarding operations
  carry the registry they leave next to their result, whatever it is. Arguments that the type
  system of the code constrains (a \<open>ProviderSessionId\<close> is validated on construction, and so is
  the evidence of an exec) are constrained in the rule.
\<close>

section \<open>Steps\<close>

inductive update_step :: "env \<Rightarrow> registry \<Rightarrow> registry \<Rightarrow> bool" for E :: env where
  reserve: "reserve_runtime_with_provider_authorized E fresh g w p auth db = Inr (r, db') \<Longrightarrow> update_step E db db'"
| reserve_recovery: "reserve_runtime_recovery_authorized E g w p auth db = Inr (r, db') \<Longrightarrow> update_step E db db'"
| reconcile: "reconcile_codex_recovery_authorized E w wv i rv gen b auth db = Inr (u, db') \<Longrightarrow> update_step E db db'"
| bind: "bind_opencode_session E fresh i gen s src db = Inr (b, db') \<Longrightarrow> identifier_ok (ps_native s) \<Longrightarrow>
    update_step E db db'"
| handle: "record_opencode_runtime_handle E i gen port v s db = Inr (h, db') \<Longrightarrow> identifier_ok (ps_native s) \<Longrightarrow>
    update_step E db db'"
| observer_started: "record_opencode_observer_started E i gen v pid birth db = Inr (h, db') \<Longrightarrow> update_step E db db'"
| observer_ready: "mark_opencode_observer_ready E i gen v pid birth db = Inr (h, db') \<Longrightarrow> update_step E db db'"
| observer_unknown: "mark_opencode_observer_unknown_exact E i gen v pid birth db = Inr (u, db') \<Longrightarrow> update_step E db db'"
| identity: "record_runtime_process_identity E i v pid birth db = Inr (u, db') \<Longrightarrow> update_step E db db'"
| backfill: "backfill_runtime_provider_pid E i v pid birth db = Inr (u, db') \<Longrightarrow> update_step E db db'"
| metadata: "record_thread_metadata E i s name db = Inr (u, db') \<Longrightarrow> update_step E db db'"
| stopped: "mark_runtime_stopped E i v db = Inr (u, db') \<Longrightarrow> update_step E db db'"
| recovery: "mark_runtime_recovery_required E i v db = Inr (u, db') \<Longrightarrow> update_step E db db'"
| park: "park_runtime E i v db = Inr (u, db') \<Longrightarrow> update_step E db db'"
| hook: "apply_lifecycle_observation E clock fresh i gen ob db = Inr (u, db') \<Longrightarrow> update_step E db db'"
| hint: "apply_opencode_lifecycle_observation E clock i oob db = Inr (n, db') \<Longrightarrow> update_step E db db'"
| operation: "create_or_get_operation E fresh key kind exp db = Inr (c, db') \<Longrightarrow> update_step E db db'"
| transition: "transition_operation E k v nxt wm oc db = Inr (c, db') \<Longrightarrow> update_step E db db'"
| prepare: "prepare_opencode_session_creation E fresh i gen db = Inr (c, db') \<Longrightarrow> update_step E db db'"
| started: "begin_opencode_session_creation E p db = Inr (c, db') \<Longrightarrow> update_step E db db'"
| commit: "commit_opencode_session_creation E fresh p s db = Inr (c, db') \<Longrightarrow> identifier_ok (ps_native s) \<Longrightarrow>
    update_step E db db'"
| failed: "fail_opencode_session_creation E p code db = Inr (c, db') \<Longrightarrow> update_step E db db'"
| unknown: "mark_creation_unknown E p db = Inr (c, db') \<Longrightarrow> update_step E db db'"
| cleanup_unknown: "mark_creation_cleanup_unknown E p db = Inr (c, db') \<Longrightarrow> update_step E db db'"
| create: "create_independent_workstream E fresh key s v p db = Inr (c, db') \<Longrightarrow> update_step E db db'"
| create_at: "create_independent_workstream_at_location E fresh project l prev lrev key p db = Inr (c, db') \<Longrightarrow>
    update_step E db db'"
| archive: "archive_workstream E w v t db = Inr (n, db') \<Longrightarrow> update_step E db db'"
| restore: "restore_workstream E w v db = Inr (n, db') \<Longrightarrow> update_step E db db'"
| integration: "record_codex_integration E fresh own l db = Inr (c, db') \<Longrightarrow> update_step E db db'"
| integration_replaced: "replace_codex_integration own own' l db = Inr (c, db') \<Longrightarrow> update_step E db db'"
| integration_moved: "set_codex_integration_lifecycle c l db = Inr (c', db') \<Longrightarrow> update_step E db db'"
| integration_removed: "remove_codex_integration own db = Inr (u, db') \<Longrightarrow> update_step E db db'"
| attempt: "attempt_update E db db' \<Longrightarrow> update_step E db db'"

inductive removal_step :: "env \<Rightarrow> registry \<Rightarrow> registry \<Rightarrow> bool" for E :: env where
  handle_removed: "delete_opencode_runtime_handle E i gen db = Inr (u, db') \<Longrightarrow> removal_step E db db'"
| forgotten: "forget_workstream E w v db = Inr (u, db') \<Longrightarrow> removal_step E db db'"
| attempt_cancelled: "cancel_onboarding_current E S L paths k db = Some (bool_out, db') \<Longrightarrow> removal_step E db db'"

definition registry_step :: "env \<Rightarrow> registry \<Rightarrow> registry \<Rightarrow> bool" where
  "registry_step E db db' \<longleftrightarrow> update_step E db db' \<or> removal_step E db db'"

text \<open>What a run of the program reaches from a registry.\<close>

definition reaches :: "env \<Rightarrow> registry \<Rightarrow> registry \<Rightarrow> bool" where
  "reaches E = (registry_step E)\<^sup>*\<^sup>*"

section \<open>Steps keep the invariant\<close>

lemma mark_creation_keeps [keeps]:
  "mark_creation_unknown E p db = Inr (c, db') \<Longrightarrow> registry_ok E db \<Longrightarrow> registry_ok E db'"
  "mark_creation_cleanup_unknown E p db = Inr (c, db') \<Longrightarrow> registry_ok E db \<Longrightarrow> registry_ok E db'"
  unfolding mark_creation_unknown_def mark_creation_cleanup_unknown_def
  by (rule mark_recovery_keeps, assumption+)+

lemma update_step_keeps:
  assumes "update_step E db db'" and "env_ok E" and "registry_ok E db"
  shows "registry_ok E db'"
  using assms by (cases rule: update_step.cases; blast intro: keeps)

lemma removal_step_keeps:
  assumes "removal_step E db db'" and "registry_ok E db"
  shows "registry_ok E db'"
  using assms by (cases rule: removal_step.cases; blast intro: keeps)

lemma mark_creation_progress:
  "mark_creation_unknown E p db = Inr (c, db') \<Longrightarrow> revisions_fit db \<Longrightarrow> progress db db'"
  "mark_creation_cleanup_unknown E p db = Inr (c, db') \<Longrightarrow> revisions_fit db \<Longrightarrow> progress db db'"
  unfolding mark_creation_unknown_def mark_creation_cleanup_unknown_def
  by (rule mark_recovery_progress, assumption+)+

lemmas fitting_progress =
  reserve_runtime_progress reserve_recovery_progress transition_operation_progress
  begin_creation_progress commit_creation_progress fail_creation_progress
  mark_creation_progress archive_progress restore_progress

lemma update_step_progress:
  assumes "update_step E db db'" and "revisions_fit db"
  shows "progress db db'"
  using assms
  by (cases rule: update_step.cases; blast intro: progresses fitting_progress)

end
