(* ===== verification/Samples.thy ===== *)
theory Samples
  imports History
begin

text \<open>
  Concrete registries on which the properties are instantiated: one Project at one Location, with
  Workstreams, Runtimes, bindings and operations as arguments. The identities are the texts that
  the sample environment prints.
\<close>

abbreviation sid :: "uuid \<Rightarrow> string" where
  "sid \<equiv> uuid_text sample_env"

definition sample_location :: location_row where
  "sample_location =
     \<lparr> lc_id = sid 1, lc_path = ''/work/project'', lc_display = ''project'', lc_fingerprint = None,
       lc_remote_display = None, lc_revision = 1, lc_project = Some (sid 2) \<rparr>"

definition sample_project :: project_row where
  "sample_project =
     \<lparr> pj_id = sid 2, pj_label_location = sid 1, pj_display = ''project'', pj_fingerprint = None,
       pj_revision = 1 \<rparr>"

definition sample_workstream :: "uuid \<Rightarrow> string \<Rightarrow> string \<Rightarrow> int option \<Rightarrow> int \<Rightarrow> workstream_row" where
  "sample_workstream w provider lifecycle archived revision =
     \<lparr> ws_id = sid w, ws_location = sid 1, ws_provider = provider, ws_origin = ''external'',
       ws_source = None, ws_lifecycle = lifecycle, ws_archived = archived, ws_activity_seq = 1,
       ws_activity_at = 0, ws_revision = revision \<rparr>"

definition sample_runtime :: "uuid \<Rightarrow> uuid \<Rightarrow> string \<Rightarrow> string \<Rightarrow> string \<Rightarrow> int \<Rightarrow> runtime_row" where
  "sample_runtime i w provider generation status revision =
     \<lparr> rt_id = sid i, rt_workstream = sid w, rt_provider = provider, rt_generation = generation,
       rt_session = ''wsnav-session'', rt_cwd = ''/work/project'', rt_pid = Some 4711,
       rt_birth = Some ''birth'', rt_lifecycle = status, rt_revision = revision \<rparr>"

definition sample_binding :: "uuid \<Rightarrow> uuid \<Rightarrow> string \<Rightarrow> string \<Rightarrow> string \<Rightarrow> binding_row" where
  "sample_binding b i provider session generation =
     \<lparr> bd_id = sid b, bd_runtime = sid i, bd_provider = provider, bd_session = session,
       bd_start_source = ''new'', bd_last_turn = None, bd_thread_name = None,
       bd_name_state = ''unavailable'', bd_name_observed = None, bd_predecessor = None,
       bd_predecessor_name = None, bd_generation = generation, bd_revision = 1 \<rparr>"

definition sample_handle :: "uuid \<Rightarrow> string \<Rightarrow> string \<Rightarrow> string \<Rightarrow> int \<Rightarrow> handle_row" where
  "sample_handle i session generation status revision =
     \<lparr> hd_runtime = sid i, hd_generation = generation, hd_host = ''127.0.0.1'', hd_port = 4096,
       hd_version = ''1.0.0'', hd_session = session, hd_observer_pid = Some 4712,
       hd_observer_birth = Some ''observer'', hd_status = status, hd_revision = revision \<rparr>"

definition sample_registry ::
  "workstream_row list \<Rightarrow> runtime_row list \<Rightarrow> binding_row list \<Rightarrow> handle_row list
     \<Rightarrow> operation_row list \<Rightarrow> registry" where
  "sample_registry workstreams runtimes bindings handles operations =
     \<lparr> user_version = 15,
       identity_rows = [\<lparr> hi_singleton = 1, hi_host_id = sid 9, hi_generation = ''host'',
                          hi_schema_version = 15 \<rparr>],
       integration_rows = [], location_rows = [sample_location], workstream_rows = workstreams,
       request_rows = [], runtime_rows = runtimes, handle_rows = handles,
       binding_rows = bindings, attention_rows = [], operation_rows = operations,
       project_rows = [sample_project], settled_rows = [], settled_sequence = 0,
       target_rows = [],
       metadata_rows = [\<lparr> md_singleton = 1, md_host_id = sid 9, md_generation = sid 10,
                          md_lease_generation = 3, md_lock_phase = ''ready'',
                          md_lock_device = Some 8, md_lock_inode = Some 99 \<rparr>] \<rparr>"

lemmas sample_defs =
  sample_location_def sample_project_def sample_workstream_def sample_runtime_def
  sample_binding_def sample_handle_def sample_registry_def

lemmas sample_ok_defs =
  registry_ok_defs row_ok_defs row_checks range_text_iff generation_ok_def identifier_ok_def
  validate_registry_text_def pid_ok_def

text \<open>A Codex Workstream with a live Runtime and its binding.\<close>

definition codex_sample :: "string \<Rightarrow> string \<Rightarrow> int option \<Rightarrow> registry" where
  "codex_sample lifecycle status archived =
     sample_registry [sample_workstream 3 ''codex'' lifecycle archived 7]
       [sample_runtime 4 3 ''codex'' ''g1'' status 5]
       [sample_binding 6 4 ''codex'' ''session-1'' ''g1''] [] []"

text \<open>An OpenCode Workstream whose observer is ready.\<close>

definition opencode_sample :: "string \<Rightarrow> string \<Rightarrow> registry" where
  "opencode_sample status generation =
     sample_registry [sample_workstream 3 ''opencode'' ''open'' None 7]
       [sample_runtime 4 3 ''opencode'' ''g1'' status 5]
       [sample_binding 6 4 ''opencode'' ''ses_1'' generation]
       [sample_handle 4 ''ses_1'' ''g1'' ''ready'' 3] []"

lemma sample_session_ok: "identifier_ok ''session-1''" "identifier_ok ''ses_1''"
  "generation_ok ''g1''" "generation_ok ''g0''" "validate_provider_metadata ''1.0.0'' = Inr ()"
  by code_simp+

lemma codex_sample_ok:
  "lifecycle \<in> range workstream_lifecycle_text \<Longrightarrow> status \<in> range runtime_status_text \<Longrightarrow>
   registry_ok sample_env (codex_sample lifecycle status archived)"
  by (simp add: codex_sample_def sample_defs registry_ok_defs row_ok_defs row_checks
      range_text_iff sample_session_ok pid_ok_def)

lemma opencode_sample_ok:
  "status \<in> range runtime_status_text \<Longrightarrow> generation \<in> {''g0'', ''g1''} \<Longrightarrow>
   registry_ok sample_env (opencode_sample status generation)"
  by (auto simp: opencode_sample_def sample_defs registry_ok_defs row_ok_defs row_checks
      range_text_iff sample_session_ok pid_ok_def)

lemma samples_fit [simp]:
  "revisions_fit (codex_sample lifecycle status archived)"
  "revisions_fit (opencode_sample status generation)"
  by (simp_all add: codex_sample_def opencode_sample_def sample_defs revisions_fit_def i64_max_def)

end
