(* ===== verification/Readable.thy ===== *)
theory Readable
  imports Samples
begin

text \<open>
  Reading an intact registry: on a registry that satisfies the invariant the loaders never fail,
  the OFFSET loops return what one unbounded read would, and the one condition under which the
  overview of all Workstreams cannot be read is a Runtime with a binding of another generation.
\<close>

section \<open>Rows and their parents\<close>

lemma find_member:
  assumes "distinct (map key rows)" and "r \<in> set rows" and "key r = k"
  shows "List.find (\<lambda>x. key x = k) rows = Some r"
  using find_Some_iff_distinct [OF assms(1,2)] assms(3) by simp

lemma runtime_parent:
  assumes ok: "registry_ok E db" and r: "r \<in> set (runtime_rows db)"
  obtains w where "workstream_at db (rt_workstream r) = Some w" "ws_provider w = rt_provider r"
    "w \<in> set (workstream_rows db)"
proof -
  have "(rt_workstream r, rt_provider r) \<in> (\<lambda>w. (ws_id w, ws_provider w)) ` set (workstream_rows db)"
    using ok r by (auto simp: registry_ok_def providers_agree_def)
  then obtain w where "w \<in> set (workstream_rows db)" "ws_id w = rt_workstream r"
    "ws_provider w = rt_provider r" by auto
  moreover from this have "workstream_at db (rt_workstream r) = Some w"
    unfolding workstream_at_def by (intro find_member registry_ok_keys(1) [OF ok]) auto
  ultimately show ?thesis using that by blast
qed

lemma binding_parent:
  assumes ok: "registry_ok E db" and b: "b \<in> set (binding_rows db)"
  obtains r where "runtime_at db (bd_runtime b) = Some r" "rt_provider r = bd_provider b"
    "r \<in> set (runtime_rows db)"
proof -
  have "(bd_runtime b, bd_provider b) \<in> (\<lambda>r. (rt_id r, rt_provider r)) ` set (runtime_rows db)"
    using ok b by (auto simp: registry_ok_def providers_agree_def)
  then obtain r where "r \<in> set (runtime_rows db)" "rt_id r = bd_runtime b"
    "rt_provider r = bd_provider b" by auto
  moreover from this have "runtime_at db (bd_runtime b) = Some r"
    unfolding runtime_at_def by (intro find_member registry_ok_keys(2) [OF ok]) auto
  ultimately show ?thesis using that by blast
qed

section \<open>Total loaders\<close>

lemma provider_texts: "provider_kind_from_text (provider_kind_text p) = Inr p"
  by (rule provider_codec.dec_enc)

lemma range_decoded:
  "s \<in> range provider_kind_text \<Longrightarrow> \<exists>p. provider_kind_from_text s = Inr p \<and> s = provider_kind_text p"
  "s \<in> range runtime_status_text \<Longrightarrow> \<exists>q. runtime_status_from_text s = Inr q \<and> s = runtime_status_text q"
  "s \<in> range name_state_text \<Longrightarrow> \<exists>n. name_state_from_text s = Inr n \<and> s = name_state_text n"
  "s \<in> range workstream_lifecycle_text \<Longrightarrow>
     \<exists>l. workstream_lifecycle_from_text s = Inr l \<and> s = workstream_lifecycle_text l"
  by (auto simp: provider_codec.dec_enc status_codec.dec_enc name_codec.dec_enc lifecycle_codec.dec_enc)

lemma decode_pid_total:
  "pid_ok p \<Longrightarrow> \<exists>x. decode_nonzero_pid p = Inr x"
proof (cases p)
  case (Some n)
  assume "pid_ok p"
  with Some have n: "0 < n" "n < 2 ^ 32" by (simp_all add: pid_ok_def)
  have "(word_of_int n :: pid) \<noteq> 0"
  proof
    assume "(word_of_int n :: pid) = 0"
    then have "uint (word_of_int n :: pid) = 0" by simp
    with n show False by (simp add: uint_word_of_int)
  qed
  with Some n show ?thesis
    by (simp add: decode_nonzero_pid_def u32_try_from_def)
qed (simp add: decode_nonzero_pid_def)

lemma row_to_runtime_with_id_total:
  assumes "runtime_row_ok E r"
  obtains x where "row_to_runtime_with_id r i w = Inr x" "rr_runtime x = i" "rr_workstream x = w"
    "provider_kind_text (rr_provider x) = rt_provider r" "rr_generation x = rt_generation r"
    "runtime_status_text (rr_status x) = rt_lifecycle r" "rr_revision x = rt_revision r"
proof -
  from assms obtain p q pid where
    "provider_kind_from_text (rt_provider r) = Inr p" "rt_provider r = provider_kind_text p"
    "runtime_status_from_text (rt_lifecycle r) = Inr q" "rt_lifecycle r = runtime_status_text q"
    "decode_nonzero_pid (rt_pid r) = Inr pid" "0 < rt_revision r"
    using range_decoded(1,2) decode_pid_total
    unfolding runtime_row_ok_def row_checks by metis
  then show ?thesis
    using that by (simp add: row_to_runtime_with_id_def read_revision_def revision_try_from_def)
qed

text \<open>The Runtime of a Workstream, and the Runtime at an identity.\<close>

lemma runtime_for_workstream_total:
  assumes E: "env_ok E" and ok: "registry_ok E db" and r: "runtime_of db (uuid_text E w) = Some r"
  obtains x where "runtime_for_workstream E w db = Inr (Some x)" "uuid_text E (rr_runtime x) = rt_id r"
    "rr_workstream x = w" "provider_kind_text (rr_provider x) = rt_provider r"
    "rr_generation x = rt_generation r" "runtime_status_text (rr_status x) = rt_lifecycle r"
    "rr_revision x = rt_revision r"
proof -
  from r have row: "r \<in> set (runtime_rows db)" "rt_workstream r = uuid_text E w"
    by (auto dest: runtime_of_Some)
  from row(1) have okr: "runtime_row_ok E r" by (rule registry_ok_rows(2) [OF ok])
  then obtain i where i: "rt_id r = uuid_text E i"
    by (auto simp: runtime_row_ok_def elim: canonicalE)
  from okr obtain x where x: "row_to_runtime_with_id r i w = Inr x" "rr_runtime x = i"
    "rr_workstream x = w" "provider_kind_text (rr_provider x) = rt_provider r"
    "rr_generation x = rt_generation r" "runtime_status_text (rr_status x) = rt_lifecycle r"
    "rr_revision x = rt_revision r" by (rule row_to_runtime_with_id_total)
  from ok row(1) obtain ws where ws: "workstream_at db (uuid_text E w) = Some ws"
    "ws_provider ws = provider_kind_text (rr_provider x)"
    unfolding row(2) [symmetric] x(4) by (rule runtime_parent)
  have "runtime_for_workstream E w db = Inr (Some x)"
    using r x(1) ws E i
    by (simp add: runtime_for_workstream_def row_to_runtime_def workstream_provider_def
        read_uuid_def env_ok_uuid provider_texts)
  with x i that show ?thesis by simp
qed

lemma load_binding_total:
  assumes E: "env_ok E" and ok: "registry_ok E db" and b: "binding_at db (uuid_text E i) = Some b"
  obtains x where "load_binding E i db = Inr (Some x)" "pb_runtime x = i"
    "provider_kind_text (pb_provider x) = bd_provider b" "ps_provider (pb_session x) = pb_provider x"
    "ps_native (pb_session x) = bd_session b" "pb_generation x = bd_generation b"
    "pb_revision x = bd_revision b" "pb_last_turn x = bd_last_turn b"
    "pb_start_source x = bd_start_source b"
proof -
  from b have row: "b \<in> set (binding_rows db)" "bd_runtime b = uuid_text E i"
    by (auto dest: binding_at_Some)
  from row(1) have okb: "binding_row_ok E b" by (rule registry_ok_rows(3) [OF ok])
  from okb obtain p n where p: "provider_kind_from_text (bd_provider b) = Inr p"
    "bd_provider b = provider_kind_text p" and n: "name_state_from_text (bd_name_state b) = Inr n"
    using range_decoded(1,3) unfolding binding_row_ok_def by metis
  from okb have session: "provider_session_new p (bd_session b) =
      Inr \<lparr> ps_provider = p, ps_native = bd_session b \<rparr>"
    by (simp add: binding_row_ok_def identifier_ok_def provider_session_new_def)
  have pred: "transpose_opt (map_option (\<lambda>v. domain_result (provider_session_new p v)) (bd_predecessor b))
      = Inr (map_option (\<lambda>v. \<lparr> ps_provider = p, ps_native = v \<rparr>) (bd_predecessor b))"
    using okb by (cases "bd_predecessor b")
      (simp_all add: binding_row_ok_def identifier_ok_def provider_session_new_def)
  from ok row(1) obtain r where r: "runtime_at db (uuid_text E i) = Some r"
    "rt_provider r = provider_kind_text p"
    unfolding row(2) [symmetric] p(2) [symmetric] by (rule binding_parent)
  have valid: "validate_registry_text ''runtime generation'' (bd_generation b) = Inr ()"
    "0 < bd_revision b"
    using okb by (simp_all add: binding_row_ok_def row_checks generation_ok_def)
  define x where "x = \<lparr> pb_runtime = i, pb_provider = p,
    pb_session = \<lparr> ps_provider = p, ps_native = bd_session b \<rparr>,
    pb_start_source = bd_start_source b, pb_last_turn = bd_last_turn b,
    pb_thread_name = bd_thread_name b, pb_name_state = n,
    pb_predecessor = map_option (\<lambda>v. \<lparr> ps_provider = p, ps_native = v \<rparr>) (bd_predecessor b),
    pb_predecessor_name = bd_predecessor_name b, pb_generation = bd_generation b,
    pb_revision = bd_revision b \<rparr>"
  have "row_to_binding i b = Inr x"
    unfolding row_to_binding_def p(1) session pred n valid(1) and_then_simps
    by (simp add: session pred n valid x_def)
  then have "load_binding E i db = Inr (Some x)"
    using b r by (auto simp: load_binding_def provider_texts other_provider_def x_def split: option.splits)
  then show ?thesis by (rule that) (simp_all add: x_def p)
qed


lemma load_binding_predecessor:
  "load_binding E i db = Inr (Some b) \<Longrightarrow> \<not> other_provider (pb_provider b) (pb_predecessor b)"
  by (auto simp: load_binding_def split: option.splits if_splits)

lemma load_binding_exists:
  assumes "env_ok E" and "registry_ok E db"
  shows "\<exists>x. load_binding E i db = Inr x"
proof (cases "binding_at db (uuid_text E i)")
  case None
  then show ?thesis by (simp add: load_binding_def)
next
  case (Some b)
  with assms show ?thesis by (metis load_binding_total)
qed

lemma runtime_for_workstream_exists:
  assumes "env_ok E" and "registry_ok E db"
  shows "\<exists>x. runtime_for_workstream E w db = Inr x"
proof (cases "runtime_of db (uuid_text E w)")
  case None
  then show ?thesis by (simp add: runtime_for_workstream_def)
next
  case (Some r)
  with assms show ?thesis by (metis runtime_for_workstream_total)
qed

lemma runtime_by_id_exists:
  assumes E: "env_ok E" and ok: "registry_ok E db"
  shows "\<exists>x. runtime_by_id E i db = Inr x"
proof (cases "runtime_at db (uuid_text E i)")
  case None
  then show ?thesis by (simp add: runtime_by_id_def)
next
  case (Some r)
  then have row: "r \<in> set (runtime_rows db)" by (auto dest: runtime_at_Some)
  then have okr: "runtime_row_ok E r" by (rule registry_ok_rows(2) [OF ok])
  then obtain w where w: "rt_workstream r = uuid_text E w"
    by (auto simp: runtime_row_ok_def elim: canonicalE)
  from okr obtain x where x: "row_to_runtime_with_id r i w = Inr x" "rr_workstream x = w"
    "provider_kind_text (rr_provider x) = rt_provider r" by (rule row_to_runtime_with_id_total)
  from ok row obtain ws where "workstream_at db (uuid_text E w) = Some ws"
    "ws_provider ws = provider_kind_text (rr_provider x)"
    unfolding w [symmetric] x(3) by (rule runtime_parent)
  with Some x(1,2) w E show ?thesis
    by (simp add: runtime_by_id_def workstream_provider_def read_uuid_def env_ok_uuid provider_texts)
qed

lemma decode_pid_any: "pid_ok p \<Longrightarrow> \<exists>x. decode_pid f p = Inr x"
  by (cases p) (simp_all add: pid_ok_def decode_pid_def u32_try_from_def)

lemma hook_candidate_exists:
  assumes E: "env_ok E" and r: "runtime_row_ok E r"
  shows "\<exists>x. hook_candidate E r = Inr x"
proof -
  from r obtain i w p q pid where "rt_id r = uuid_text E i" "rt_workstream r = uuid_text E w"
    "provider_kind_from_text (rt_provider r) = Inr p" "runtime_status_from_text (rt_lifecycle r) = Inr q"
    "decode_pid ''provider PID'' (rt_pid r) = Inr pid" "0 < rt_revision r"
    unfolding runtime_row_ok_def row_checks
    by (metis range_decoded(1,2) decode_pid_any canonicalE)
  with E show ?thesis
    by (simp add: hook_candidate_def read_uuid_def env_ok_uuid read_revision_def revision_try_from_def)
qed

lemma collect_results_exists:
  "(\<And>x. x \<in> set xs \<Longrightarrow> \<exists>y. f x = Inr y) \<Longrightarrow> \<exists>ys. collect_results (map f xs) = Inr ys"
  by (induction xs) fastforce+

lemma collect_results_fails:
  "x \<in> set xs \<Longrightarrow> f x = Inl e \<Longrightarrow> \<exists>e'. collect_results (map f xs) = Inl e'"
proof (induction xs)
  case (Cons y ys)
  then show ?case by (cases "f y") auto
qed simp

text \<open>C4: On an intact registry no reader of Runtimes or bindings fails: the Runtime of a
  Workstream, the Runtime at an identity, the binding of a Runtime and the candidates of a hook
  are always decoded.\<close>

theorem intact_registry_readable:
  assumes "env_ok E" and "registry_ok E db"
  shows "(\<exists>x. runtime_for_workstream E w db = Inr x) \<and> (\<exists>x. runtime_by_id E i db = Inr x) \<and>
    (\<exists>x. load_binding E i db = Inr x) \<and> (\<exists>x. hook_runtime_candidates E db = Inr x)"
proof (intro conjI)
  show "\<exists>x. hook_runtime_candidates E db = Inr x"
    unfolding hook_runtime_candidates_def
    using hook_candidate_exists [OF assms(1)] registry_ok_rows(2) [OF assms(2)]
    by (intro collect_results_exists) auto
qed (use assms in \<open>simp_all add: runtime_for_workstream_exists runtime_by_id_exists load_binding_exists\<close>)

lemma intact_registry_readable_witness:
  "registry_ok sample_env (codex_sample ''open'' ''idle'' None) \<and>
   (\<exists>x. load_binding sample_env 4 (codex_sample ''open'' ''idle'' None) = Inr x)"
  using intact_registry_readable [OF sample_env_ok, of "codex_sample ''open'' ''idle'' None" 0 4]
  by (simp add: codex_sample_ok range_text_iff)

section \<open>Overviews\<close>

interpretation overview_reader: paged_reader
    "persisted_workstream_overview_page db max_navigator_workstreams" "overview_bases db" Inr
    max_navigator_workstreams for db
proof
  show "0 < max_navigator_workstreams" by (simp add: max_navigator_workstreams_def)
  fix cursor
  let ?size = max_navigator_workstreams and ?rows = "overview_bases db"
  assume lim: "cursor + ?size < u32_limit"
  have all: "collect_results (map Inr xs) = Inr xs" for xs :: "overview_base list"
    by (simp add: collect_results_Inr)
  have full: "length (take ?size (take (?size + 1) (drop cursor ?rows))) = ?size"
    if "length (take (?size + 1) (drop cursor ?rows)) > ?size"
    using that by simp
  show "persisted_workstream_overview_page db ?size cursor =
      and_then (collect_results (map Inr (take ?size (drop cursor ?rows)))) (\<lambda>xs.
      Inr (xs, if cursor + ?size < length ?rows then Some (cursor + ?size) else None))"
    using lim full
    by (auto simp: persisted_workstream_overview_page_def all Let_def u32_checked_add_def min_def
        max_navigator_workstreams_def)
qed

interpretation operation_reader: paged_reader
    "unresolved_operation_overview_page E db max_navigator_workstreams" "unresolved_rows db"
    "operation_overview_of E" max_navigator_workstreams for E db
proof
  show "0 < max_navigator_workstreams" by (simp add: max_navigator_workstreams_def)
  fix cursor
  let ?size = max_navigator_workstreams and ?rows = "unresolved_rows db"
  assume lim: "cursor + ?size < u32_limit"
  show "unresolved_operation_overview_page E db ?size cursor =
      and_then (collect_results (map (operation_overview_of E) (take ?size (drop cursor ?rows)))) (\<lambda>xs.
      Inr (xs, if cursor + ?size < length ?rows then Some (cursor + ?size) else None))"
    using lim
    by (auto simp: unresolved_operation_overview_page_def Let_def u32_checked_add_def min_def
        max_navigator_workstreams_def)
qed


lemma workstream_overviews_all:
  assumes "length (overview_bases db) + max_navigator_workstreams < u32_limit"
  shows "workstream_overviews E db =
    Some (collect_results (map (hydrate_workstream_overview E db) (overview_bases db)))"
proof -
  have "collect_results (map Inr (overview_bases db)) = (Inr (overview_bases db) :: (state_error, _) result)"
    by (simp add: collect_results_Inr)
  with overview_reader.loop_all [OF assms] show ?thesis
    by (simp add: workstream_overviews_def)
qed

text \<open>C5: The two unbounded listings, which read their table in OFFSET pages of 128 rows until a
  page has no next cursor, always end, and yield exactly what one read of all rows would: no
  row is lost, repeated or reordered at a page boundary, and the first row that cannot be
  decoded is the error. The cursor is a \<open>u32\<close>; the hypotheses keep it in range.\<close>

theorem listings_complete:
  assumes "length (overview_bases db) + max_navigator_workstreams < u32_limit"
    and "length (unresolved_rows db) + max_navigator_workstreams < u32_limit"
  shows "workstream_overviews E db =
      Some (collect_results (map (hydrate_workstream_overview E db) (overview_bases db))) \<and>
    unresolved_operation_overviews E db =
      Some (collect_results (map (operation_overview_of E) (unresolved_rows db)))"
  using workstream_overviews_all [OF assms(1)] operation_reader.loop_all [OF assms(2)]
  by (simp_all add: unresolved_operation_overviews_def)

lemma codex_sample_bases:
  "length (overview_bases (codex_sample lifecycle status archived)) = 1"
  "unresolved_rows (codex_sample lifecycle status archived) = []"
  by (simp_all add: overview_bases_def joined_rows_def unresolved_rows_def codex_sample_def sample_defs
      location_at_def)

lemma listings_complete_witness:
  "unresolved_operation_overviews sample_env (codex_sample ''open'' ''idle'' None) = Some (Inr [])"
  using listings_complete [of "codex_sample ''open'' ''idle'' None" sample_env]
  by (simp add: codex_sample_bases u32_limit_def max_navigator_workstreams_def)

section \<open>When the overview can be read\<close>

text \<open>
  A binding that the overview accepts: of the current generation of its Runtime, or left behind
  by a Runtime that is starting, or by a Codex Runtime that is stopped or unknown.
\<close>

definition binding_shown :: "runtime_row \<Rightarrow> binding_row \<Rightarrow> bool" where
  "binding_shown r b \<longleftrightarrow>
     bd_generation b = rt_generation r \<or> rt_lifecycle r = ''starting''
     \<or> rt_provider r = ''codex'' \<and> rt_lifecycle r \<in> {''stopped'', ''unknown''}"

lemma status_text_eq:
  "runtime_status_text q = ''starting'' \<longleftrightarrow> q = Starting"
  "runtime_status_text q = ''stopped'' \<longleftrightarrow> q = Stopped"
  "runtime_status_text q = ''unknown'' \<longleftrightarrow> q = Unknown"
  by (cases q; simp)+

lemma provider_text_eq: "provider_kind_text p = ''codex'' \<longleftrightarrow> p = Codex"
  by (cases p) simp_all

lemma overview_binding_shown:
  assumes E: "env_ok E" and ok: "registry_ok E db" and r: "runtime_of db (uuid_text E w) = Some r"
    and x: "runtime_for_workstream E w db = Inr (Some x)"
  shows "(\<exists>y. overview_binding E (Some x) db = Inr y) \<longleftrightarrow>
    (\<forall>b. binding_at db (rt_id r) = Some b \<longrightarrow> binding_shown r b)"
proof -
  have row: "r \<in> set (runtime_rows db)" "rt_workstream r = uuid_text E w"
    using r by (auto dest: runtime_of_Some)
  have fields: "uuid_text E (rr_runtime x) = rt_id r" "provider_kind_text (rr_provider x) = rt_provider r"
    "runtime_status_text (rr_status x) = rt_lifecycle r" "rr_generation x = rt_generation r"
    using runtime_for_workstream_total [OF E ok r] x by fastforce+
  have at: "runtime_at db (rt_id r) = Some r"
    unfolding runtime_at_def by (rule find_member [OF registry_ok_keys(2) [OF ok] row(1) refl])
  from ok row(1) obtain ws where ws: "workstream_at db (rt_workstream r) = Some ws"
    "ws_provider ws = rt_provider r" by (rule runtime_parent)
  have gen: "validate_registry_text ''runtime generation'' (rt_generation r) = Inr ()"
    using registry_ok_rows(2) [OF ok row(1)] by (simp add: runtime_row_ok_def generation_ok_def)
  have decoded: "provider_kind_from_text (rt_provider r) = Inr (rr_provider x)"
    "runtime_status_from_text (rt_lifecycle r) = Inr (rr_status x)"
    using fields by (metis provider_codec.dec_enc, metis status_codec.dec_enc)
  have join: "runtime_join db (rt_id r) = Some (r, ws)"
    using at ws by (simp add: runtime_join_def)
  show ?thesis
  proof (cases "binding_at db (rt_id r)")
    case None
    then have "load_binding E (rr_runtime x) db = Inr None"
      by (simp add: load_binding_def fields)
    then show ?thesis
      using None join gen decoded ws(2)
      by (auto simp: overview_binding_def retained_codex_binding_for_runtime_def fields
          binding_for_runtime_def load_current_binding_def)
  next
    case (Some b)
    with E ok fields(1) obtain y where y: "load_binding E (rr_runtime x) db = Inr (Some y)"
      "provider_kind_text (pb_provider y) = bd_provider b" "ps_provider (pb_session y) = pb_provider y"
      "pb_generation y = bd_generation b" by (metis load_binding_total)
    from Some have brow: "b \<in> set (binding_rows db)" "bd_runtime b = rt_id r"
      by (auto dest: binding_at_Some)
    from ok brow(1) obtain r' where "runtime_at db (bd_runtime b) = Some r'" "rt_provider r' = bd_provider b"
      by (rule binding_parent)
    with at brow(2) have "bd_provider b = rt_provider r" by simp
    with y(2) fields(2) have py: "pb_provider y = rr_provider x"
      by (metis provider_codec.enc_inject)
    have pred: "\<not> other_provider (rr_provider x) (pb_predecessor y)"
      using load_binding_predecessor [OF y(1)] py by simp
    show ?thesis
      using Some y join gen decoded ws(2) at py pred status_text_eq [of "rr_status x"]
        provider_text_eq [of "rr_provider x"]
      by (auto simp: overview_binding_def retained_codex_binding_for_runtime_def fields
          binding_for_runtime_def load_current_binding_def binding_shown_def)
  qed
qed


lemma collect_results_ex_iff:
  "(\<exists>xs. collect_results (map f ys) = Inr xs) \<longleftrightarrow> (\<forall>y \<in> set ys. \<exists>x. f y = Inr x)"
  by (induction ys) auto

lemma set_overview_bases: "set (overview_bases db) = overview_base_of ` set (joined_rows db)"
  by (simp add: overview_bases_def)

lemma joined_rows_iff:
  "(w, l) \<in> set (joined_rows db) \<longleftrightarrow>
     w \<in> set (workstream_rows db) \<and> location_at db (ws_location w) = Some l"
  by (auto simp: joined_rows_def split: option.splits)

lemma hydrate_ok_iff:
  assumes E: "env_ok E" and ok: "registry_ok E db" and w: "w \<in> set (workstream_rows db)"
  shows "(\<exists>x. hydrate_workstream_overview E db (overview_base_of (w, l)) = Inr x) \<longleftrightarrow>
    (\<forall>r b. runtime_of db (ws_id w) = Some r \<and> binding_at db (rt_id r) = Some b \<longrightarrow> binding_shown r b)"
proof -
  from registry_ok_rows(1) [OF ok w] obtain u v p lc where
    u: "ws_id w = uuid_text E u" and v: "ws_location w = uuid_text E v"
    and p: "provider_kind_from_text (ws_provider w) = Inr p"
    and lc: "workstream_lifecycle_from_text (ws_lifecycle w) = Inr lc" and rev: "0 < ws_revision w"
    unfolding workstream_row_ok_def row_checks by (metis range_decoded(1,4) canonicalE)
  from runtime_for_workstream_exists [OF E ok] obtain x where x: "runtime_for_workstream E u db = Inr x"
    by blast
  have "(\<exists>y. hydrate_workstream_overview E db (overview_base_of (w, l)) = Inr y) \<longleftrightarrow>
      (\<exists>y. overview_binding E x db = Inr y)"
    using u v p lc rev x E
    by (simp add: hydrate_workstream_overview_def overview_base_of_def read_uuid_def env_ok_uuid
        read_revision_def revision_try_from_def)
  also have "\<dots> \<longleftrightarrow> (\<forall>r b. runtime_of db (ws_id w) = Some r \<and> binding_at db (rt_id r) = Some b \<longrightarrow>
      binding_shown r b)"
  proof (cases "runtime_of db (uuid_text E u)")
    case None
    with x u show ?thesis by (simp add: runtime_for_workstream_def overview_binding_def)
  next
    case (Some r)
    with E ok x obtain x' where "x = Some x'" by (metis Inr_inject runtime_for_workstream_total)
    with overview_binding_shown [OF E ok Some] x u Some show ?thesis by simp
  qed
  finally show ?thesis .
qed

lemma shown_everywhere_iff:
  assumes ok: "registry_ok E db"
  shows "(\<forall>w \<in> set (workstream_rows db). \<forall>r b. runtime_of db (ws_id w) = Some r \<and>
      binding_at db (rt_id r) = Some b \<longrightarrow> binding_shown r b) \<longleftrightarrow>
    (\<forall>r \<in> set (runtime_rows db). \<forall>b \<in> set (binding_rows db). bd_runtime b = rt_id r \<longrightarrow> binding_shown r b)"
    (is "?l \<longleftrightarrow> ?r")
proof
  assume l: ?l
  show ?r
  proof (intro ballI impI)
    fix r b
    assume r: "r \<in> set (runtime_rows db)" and b: "b \<in> set (binding_rows db)" "bd_runtime b = rt_id r"
    from ok r obtain w where w: "w \<in> set (workstream_rows db)" "workstream_at db (rt_workstream r) = Some w"
      by (rule runtime_parent)
    from w(2) have "ws_id w = rt_workstream r" by (auto dest: workstream_at_Some)
    then have "runtime_of db (ws_id w) = Some r"
      unfolding runtime_of_def by (intro find_member [OF registry_ok_keys(3) [OF ok] r]) simp
    moreover have "binding_at db (rt_id r) = Some b"
      unfolding binding_at_def by (rule find_member [OF registry_ok_keys(4) [OF ok] b])
    ultimately show "binding_shown r b" using l w(1) by blast
  qed
next
  assume ?r
  then show ?l by (blast dest: runtime_of_Some binding_at_Some)
qed

text \<open>C6: On an intact registry the overview of all Workstreams can be read exactly when every
  binding is of the current generation of its Runtime, or its Runtime is starting, or it is a
  Codex Runtime that is stopped or unknown: one other binding makes the whole listing fail.\<close>

theorem overviews_readable_iff:
  assumes "env_ok E" and "registry_ok E db"
    and "length (overview_bases db) + max_navigator_workstreams < u32_limit"
  shows "(\<exists>os. workstream_overviews E db = Some (Inr os)) \<longleftrightarrow>
    (\<forall>r \<in> set (runtime_rows db). \<forall>b \<in> set (binding_rows db). bd_runtime b = rt_id r \<longrightarrow> binding_shown r b)"
proof -
  have "location_at db (ws_location w) \<noteq> None" if "w \<in> set (workstream_rows db)" for w
  proof
    assume "location_at db (ws_location w) = None"
    then have "ws_location w \<notin> lc_id ` set (location_rows db)"
      unfolding location_at_def by (auto dest: find_NoneD)
    with that assms(2) show False by (auto simp: registry_ok_def foreign_keys_hold_def)
  qed
  then have located: "\<exists>l. (w, l) \<in> set (joined_rows db)" if "w \<in> set (workstream_rows db)" for w
    using that by (auto simp: joined_rows_iff)
  have "(\<exists>os. workstream_overviews E db = Some (Inr os)) \<longleftrightarrow>
      (\<forall>w \<in> set (workstream_rows db). \<forall>r b. runtime_of db (ws_id w) = Some r \<and>
        binding_at db (rt_id r) = Some b \<longrightarrow> binding_shown r b)"
    (is "?l \<longleftrightarrow> ?r")
  proof -
    have "?l \<longleftrightarrow> (\<forall>x \<in> set (joined_rows db). \<exists>y. hydrate_workstream_overview E db (overview_base_of x) = Inr y)"
      by (simp add: workstream_overviews_all [OF assms(3)] collect_results_ex_iff set_overview_bases)
    also have "\<dots> \<longleftrightarrow> ?r"
      using hydrate_ok_iff [OF assms(1,2)] located by (fastforce simp: joined_rows_iff)
    finally show ?thesis .
  qed
  with shown_everywhere_iff [OF assms(2)] show ?thesis by simp
qed

lemma overviews_readable_iff_witness:
  "(\<exists>os. workstream_overviews sample_env (codex_sample ''open'' ''idle'' None) = Some (Inr os))"
  using overviews_readable_iff [OF sample_env_ok, of "codex_sample ''open'' ''idle'' None"]
  by (simp add: codex_sample_bases u32_limit_def max_navigator_workstreams_def codex_sample_ok
      range_text_iff) (simp add: codex_sample_def sample_defs binding_shown_def)


lemma overview_bases_frame:
  "workstream_rows db' = workstream_rows db \<Longrightarrow> location_rows db' = location_rows db \<Longrightarrow>
   overview_bases db' = overview_bases db"
  by (simp add: overview_bases_def joined_rows_def location_at_def)

text \<open>C7: An OpenCode Runtime whose binding is of an earlier generation (its reservation was
  committed, its session was not bound again) blocks the overview of every Workstream as soon as
  it is marked stopped: from then on the listing fails.\<close>

theorem stale_opencode_binding_blocks_overview:
  assumes "env_ok E" and "registry_ok E db"
    and "length (overview_bases db) + max_navigator_workstreams < u32_limit"
    and "runtime_at db (uuid_text E i) = Some r" and "rt_provider r = ''opencode''"
    and "binding_at db (uuid_text E i) = Some b" and "bd_generation b \<noteq> rt_generation r"
    and "mark_runtime_stopped E i v db = Inr (u, db')"
  shows "\<exists>e. workstream_overviews E db' = Some (Inl e)"
proof -
  have upd: "update_runtimes (\<lambda>r. rt_id r = uuid_text E i \<and> rt_revision r = v)
      (\<lambda>r. r\<lparr> rt_lifecycle := ''stopped'', rt_revision := rt_revision r + 1 \<rparr>) db = Inr (1, db')"
    using assms(8) by (simp add: mark_runtime_stopped_def)
  then obtain s where s: "s \<in> set (runtime_rows db)" "rt_id s = uuid_text E i" "rt_revision s = v"
    by (rule rt.upd_one) simp
  have r: "r \<in> set (runtime_rows db)" "rt_id r = uuid_text E i"
    using assms(4) by (auto dest: runtime_at_Some)
  with s have v: "rt_revision r = v"
    by (metis distinct_key_unique registry_ok_keys(2) [OF assms(2)])
  let ?r = "r\<lparr> rt_lifecycle := ''stopped'', rt_revision := rt_revision r + 1 \<rparr>"
  have "?r \<in> set (runtime_rows db')"
    using r v by (force simp: rt.upd_rows [OF upd] set_sql_update_rows)
  moreover have "b \<in> set (binding_rows db')" "bd_runtime b = rt_id ?r"
    using upd assms(6) r(2) by (auto simp: updates_Inr dest: binding_at_Some)
  moreover have "\<not> binding_shown ?r b"
    using assms(5,7) by (simp add: binding_shown_def)
  moreover have "registry_ok E db'" by (rule mark_runtime_stopped_keeps [OF assms(8,2)])
  moreover have bases: "overview_bases db' = overview_bases db"
    using upd by (intro overview_bases_frame) (simp_all add: updates_Inr)
  ultimately have "\<not> (\<exists>os. workstream_overviews E db' = Some (Inr os))"
    using overviews_readable_iff [OF assms(1)] assms(3) by metis
  moreover have "\<exists>x. workstream_overviews E db' = Some x"
    using workstream_overviews_all [of db' E] assms(3) bases by auto
  ultimately show ?thesis by (metis sum.exhaust)
qed

lemma stale_opencode_binding_blocks_overview_witness:
  "\<exists>db' e. mark_runtime_stopped sample_env 4 5 (opencode_sample ''starting'' ''g0'') = Inr ((), db') \<and>
     workstream_overviews sample_env db' = Some (Inl e)"
proof -
  let ?db = "opencode_sample ''starting'' ''g0''"
  have "\<exists>db'. mark_runtime_stopped sample_env 4 5 ?db = Inr ((), db')"
    by (simp add: mark_runtime_stopped_def opencode_sample_def sample_defs rt.upd_Inr sql_count_def row_checks)
  then obtain db' where db': "mark_runtime_stopped sample_env 4 5 ?db = Inr ((), db')" by blast
  have "\<exists>e. workstream_overviews sample_env db' = Some (Inl e)"
    by (rule stale_opencode_binding_blocks_overview [OF sample_env_ok, of ?db 4 "sample_runtime 4 3 ''opencode'' ''g1'' ''starting'' 5"
          "sample_binding 6 4 ''opencode'' ''ses_1'' ''g0''" 5 "()"])
      (simp_all add: db' opencode_sample_ok range_text_iff,
       simp_all add: opencode_sample_def sample_defs overview_bases_def joined_rows_def lookup_defs
         u32_limit_def max_navigator_workstreams_def)
  with db' show ?thesis by blast
qed

end
