(* ===== verification/Ownership.thy ===== *)
theory Ownership
  imports Readable
begin

text \<open>
  The ownership of a Runtime generation: a reservation is refused while a Runtime may be alive,
  reads back as what it returned, and fences every statement that was prepared against an older
  revision; parking, stopping and recovery move a Runtime and its Workstream together.
\<close>

section \<open>What the helpers leave alone\<close>

lemma touch_frame:
  "touch_workstream k t db = Inr db' \<Longrightarrow>
     runtime_rows db' = runtime_rows db \<and> binding_rows db' = binding_rows db \<and>
     handle_rows db' = handle_rows db \<and> operation_rows db' = operation_rows db \<and>
     settled_rows db' = settled_rows db \<and> user_version db' = user_version db"
  by (simp add: touch_workstream_def updates_Inr)

lemma reopen_parked_frame:
  "reopen_parked_workstream E w db = Inr db' \<Longrightarrow> runtime_rows db' = runtime_rows db"
  by (simp add: reopen_parked_workstream_def updates_Inr)

section \<open>Reservations\<close>

lemma runtime_of_cong: "runtime_rows db' = runtime_rows db \<Longrightarrow> runtime_of db' k = runtime_of db k"
  by (simp add: runtime_of_def)

lemma fresh_row_to_runtime:
  assumes "env_ok E"
  shows "row_to_runtime E \<lparr> rt_id = uuid_text E i, rt_workstream = k, rt_provider = provider_kind_text p,
      rt_generation = g, rt_session = s, rt_cwd = c, rt_pid = None, rt_birth = None,
      rt_lifecycle = ''starting'', rt_revision = 1 \<rparr> w =
    Inr \<lparr> rr_runtime = i, rr_workstream = w, rr_provider = p, rr_generation = g, rr_session = s,
      rr_cwd = c, rr_pid = None, rr_birth = None, rr_status = Starting, rr_revision = 1 \<rparr>"
  using status_codec.dec_enc [of Starting] assms
  by (simp add: row_to_runtime_def row_to_runtime_with_id_def read_uuid_def env_ok_uuid provider_texts
      decode_nonzero_pid_def read_revision_def revision_try_from_def)

lemma reserved_row_to_runtime:
  assumes "row_to_runtime E r w = Inr cur"
    and "runtime_check (reserved_row (next_generation E g root cur) r)"
  shows "row_to_runtime E (reserved_row (next_generation E g root cur) r) w =
    Inr (next_generation E g root cur)"
  using assms status_codec.dec_enc [of Starting]
  by (auto simp: row_to_runtime_def row_to_runtime_with_id_def decode_nonzero_pid_def
      read_revision_def revision_try_from_def row_checks reserved_row_def next_generation_def)

lemma find_last:
  "(\<And>x. x \<in> set xs \<Longrightarrow> \<not> P x) \<Longrightarrow> P y \<Longrightarrow> List.find P (xs @ [y]) = Some y"
  by (induction xs) auto

lemma inserted_runtime_found:
  assumes "insert_runtime r db = Inr db'"
  shows "runtime_of db' (rt_workstream r) = Some r"
proof -
  have new: "rt_workstream r \<notin> rt_workstream ` set (runtime_rows db)"
    and db': "runtime_rows db' = runtime_rows db @ [r]"
    using assms by (simp_all add: insert_runtime_def)
  show ?thesis
    unfolding runtime_of_def db' by (rule find_last) (use new in \<open>auto simp: image_iff\<close>)
qed

lemma replaced_runtime_found:
  assumes E: "env_ok E" and ok: "registry_ok E db"
    and r: "runtime_of db (uuid_text E w) = Some r" and cur: "row_to_runtime E r w = Inr cur"
    and upd: "update_runtimes (\<lambda>s. rt_id s = uuid_text E (rr_runtime cur) \<and> rt_revision s = rr_revision cur \<and> Q s)
      (reserved_row (next_generation E g root cur)) db = Inr (n, db')" and Q: "Q r"
  shows "runtime_of db' (uuid_text E w) = Some (reserved_row (next_generation E g root cur) r) \<and>
    row_to_runtime E (reserved_row (next_generation E g root cur) r) w = Inr (next_generation E g root cur)"
proof -
  have row: "r \<in> set (runtime_rows db)" using r by (blast dest: runtime_of_Some)
  then have "canonical E (rt_id r)"
    using registry_ok_rows(2) [OF ok] by (auto simp: runtime_row_ok_def)
  with cur E have match: "rt_id r = uuid_text E (rr_runtime cur)" "rt_revision r = rr_revision cur"
    using row_to_runtime_Inr(1,4) [OF cur] by (auto simp: canonical_parse)
  have "runtime_of db' (uuid_text E w) = Some (reserved_row (next_generation E g root cur) r)"
    unfolding runtime_of_def rt.upd_rows [OF upd] using r match Q
    by (subst find_update_rows) (auto simp: runtime_of_def)
  moreover have "runtime_check (reserved_row (next_generation E g root cur) r)"
    using upd row match Q by (auto simp: rt.upd_Inr list_all_iff)
  ultimately show ?thesis using reserved_row_to_runtime [OF cur] by blast
qed

lemma runtime_for_found:
  assumes "env_ok E" and "registry_ok E db" and "runtime_of db (uuid_text E w) = Some r"
    and "row_to_runtime E r w = Inr x"
  shows "runtime_for_workstream E w db = Inr (Some x)"
proof -
  from assms(1-3) obtain x' where "runtime_for_workstream E w db = Inr (Some x')"
    by (rule runtime_for_workstream_total)
  with assms(3,4) show ?thesis
    by (auto simp: runtime_for_workstream_def split: if_splits)
qed



lemma codex_lookups:
  "workstream_at (codex_sample lc st ar) (sid 3) = Some (sample_workstream 3 ''codex'' lc ar 7)"
  "location_at (codex_sample lc st ar) (sid 1) = Some sample_location"
  "runtime_of (codex_sample lc st ar) (sid 3) = Some (sample_runtime 4 3 ''codex'' ''g1'' st 5)"
  "runtime_at (codex_sample lc st ar) (sid 4) = Some (sample_runtime 4 3 ''codex'' ''g1'' st 5)"
  "workstream_rows (codex_sample lc st ar) = [sample_workstream 3 ''codex'' lc ar 7]"
  "runtime_rows (codex_sample lc st ar) = [sample_runtime 4 3 ''codex'' ''g1'' st 5]"
  by (simp_all add: codex_sample_def sample_defs lookup_defs)


text \<open>While the Runtime of a Workstream may be alive (starting, idle, working or wanting
  attention), a second reservation is refused as already live and changes nothing.\<close>

theorem live_runtime_not_reserved:
  assumes "env_ok E" and "registry_ok E db"
    and "open_workstream_project_root E w auth db = Inr (root, lc, ar)"
    and "runtime_for_workstream E w db = Inr (Some r)"
    and "rr_status r \<in> {Starting, Idle, runtime_status.Working, Attention}"
  shows "reserve_runtime_with_provider_authorized E fresh g w (rr_provider r) auth db =
    Inl (RuntimeAlreadyLive w)"
proof -
  from assms(4) obtain row where row: "runtime_of db (uuid_text E w) = Some row"
    "row_to_runtime E row w = Inr r" "workstream_provider E w db = Inr (rr_provider r)"
    by (auto simp: runtime_for_workstream_def split: option.splits if_splits)
  from row(3) obtain ws where "workstream_at db (uuid_text E w) = Some ws"
    "provider_kind_from_text (ws_provider ws) = Inr (rr_provider r)"
    by (auto simp: workstream_provider_def)
  moreover from this assms(3) have "ar = None \<or> permits_archived auth"
    by (auto simp: open_workstream_project_root_def split: option.splits if_splits)
  ultimately show ?thesis
    using assms(3,5) row(1,2)
    by (auto simp: reserve_runtime_with_provider_authorized_def)
qed

lemma codex_sample_runtime:
  "runtime_for_workstream sample_env 3 (codex_sample lc ''idle'' ar) = Inr (Some
     \<lparr> rr_runtime = 4, rr_workstream = 3, rr_provider = Codex, rr_generation = ''g1'',
       rr_session = ''wsnav-session'', rr_cwd = ''/work/project'', rr_pid = Some 4711,
       rr_birth = Some ''birth'', rr_status = Idle, rr_revision = 5 \<rparr>)"
  using status_codec.dec_enc [of Idle] provider_texts [of Codex]
  by (simp add: runtime_for_workstream_def codex_lookups row_to_runtime_def row_to_runtime_with_id_def
      sample_runtime_def decode_nonzero_pid_def u32_try_from_def read_uuid_def read_revision_def
      revision_try_from_def workstream_provider_def sample_workstream_def)

lemma live_runtime_not_reserved_witness:
  "reserve_runtime_with_provider_authorized sample_env 8 9 3 Codex ActiveOnly
     (codex_sample ''open'' ''idle'' None) = Inl (RuntimeAlreadyLive 3)"
proof -
  have "open_workstream_project_root sample_env 3 ActiveOnly (codex_sample ''open'' ''idle'' None) =
      Inr (''/work/project'', ''open'', None)"
    by (simp add: open_workstream_project_root_def codex_lookups sample_workstream_def sample_location_def)
  from live_runtime_not_reserved [OF sample_env_ok _ this codex_sample_runtime, of 8 9]
  show ?thesis by (simp add: codex_sample_ok range_text_iff)
qed

section \<open>Fencing by revision\<close>

text \<open>A statement prepared against a revision that is no longer stored changes nothing: the end
  of a Runtime, its recovery, its parking and its process identity are all refused as a concurrent
  write.\<close>

theorem stale_runtime_revision_refused:
  assumes "runtime_at_revision E i v db = None"
  shows "mark_runtime_stopped E i v db = Inl ConcurrentWrite \<and>
    mark_runtime_recovery_required E i v db = Inl ConcurrentWrite \<and>
    park_runtime E i v db = Inl ConcurrentWrite \<and>
    (pid \<noteq> 0 \<and> validate_registry_text ''process birth'' birth = Inr () \<longrightarrow>
       record_runtime_process_identity E i v pid birth db = Inl ConcurrentWrite \<and>
       backfill_runtime_provider_pid E i v pid birth db = Inl ConcurrentWrite)"
proof -
  have none: "\<not> (rt_id r = uuid_text E i \<and> rt_revision r = v)" if "r \<in> set (runtime_rows db)" for r
    using find_NoneD [OF assms [unfolded runtime_at_revision_def] that] .
  have upd: "one_row ConcurrentWrite (update_runtimes P f db) = Inl ConcurrentWrite"
    if "\<And>r. P r \<Longrightarrow> rt_id r = uuid_text E i \<and> rt_revision r = v" for P f
    using that none by (subst rt.upd_none) (auto simp: one_row_def)
  have "mark_runtime_stopped E i v db = Inl ConcurrentWrite"
    unfolding mark_runtime_stopped_def by (subst upd) auto
  moreover have "record_runtime_process_identity E i v pid birth db = Inl ConcurrentWrite"
    "backfill_runtime_provider_pid E i v pid birth db = Inl ConcurrentWrite"
    if "pid \<noteq> 0" "validate_registry_text ''process birth'' birth = Inr ()"
    unfolding record_runtime_process_identity_def backfill_runtime_provider_pid_def
    by (simp_all add: that) (subst upd; auto)+
  ultimately show ?thesis
    using assms by (auto simp: mark_runtime_recovery_required_def park_runtime_def)
qed

lemma stale_runtime_revision_refused_witness:
  "park_runtime sample_env 4 6 (codex_sample ''open'' ''idle'' None) = Inl ConcurrentWrite"
  using stale_runtime_revision_refused [of sample_env 4 6 "codex_sample ''open'' ''idle'' None"]
  by (simp add: runtime_at_revision_def codex_lookups sample_runtime_def)


section \<open>Parking and recovery\<close>

text \<open>The two statements that a Runtime and its Workstream go through together.\<close>

lemma lifecycle_cases:
  "workstream_row_ok E w \<Longrightarrow> ws_lifecycle w \<in> {''open'', ''parked'', ''recovery_required''}"
  by (auto simp: workstream_row_ok_def range_lifecycle_text)

lemma runtime_statement:
  fixes l :: string
  assumes ok: "registry_ok E db" and r: "runtime_at_revision E i v db = Some r"
  defines "f \<equiv> \<lambda>x. x\<lparr> rt_lifecycle := l, rt_revision := rt_revision x + 1 \<rparr>"
  defines "db1 \<equiv> db\<lparr>runtime_rows := sql_update_rows (\<lambda>x. rt_id x = uuid_text E i \<and> rt_revision x = v) f (runtime_rows db)\<rparr>"
  shows "update_runtimes (\<lambda>x. rt_id x = uuid_text E i \<and> rt_revision x = v) f db = Inr (1, db1) \<and>
    runtime_at db1 (uuid_text E i) = Some (f r)"
proof -
  from r have row: "r \<in> set (runtime_rows db)" "rt_id r = uuid_text E i" "rt_revision r = v"
    unfolding runtime_at_revision_def by (auto dest: find_SomeD)
  have "runtime_check (f r)"
    using registry_ok_rows(2) [OF ok row(1)] by (simp add: f_def runtime_row_ok_def row_checks)
  then have upd: "update_runtimes (\<lambda>x. rt_id x = uuid_text E i \<and> rt_revision x = v) f db = Inr (1, db1)"
    unfolding db1_def using row
    by (intro rt.upd_keyed [OF registry_ok_keys(2) [OF ok]]) auto
  then have "List.find (\<lambda>x. rt_id x = uuid_text E i) (runtime_rows db1) = Some (f r)"
    using find_member [OF registry_ok_keys(2) [OF ok] row(1,2)] row
    by (subst rt.upd_find [OF upd]) (auto simp: f_def)
  with upd show ?thesis by (simp add: runtime_at_def)
qed

lemma workstream_statement:
  fixes l :: string
  assumes ok: "registry_ok E db" and w: "w \<in> set (workstream_rows db)" "P w"
    and key: "\<And>x. P x \<Longrightarrow> ws_id x = ws_id w"
  defines "f \<equiv> \<lambda>x. x\<lparr> ws_lifecycle := l, ws_activity_seq := next_activity_sequence db,
      ws_revision := ws_revision x + 1 \<rparr>"
  shows "\<exists>db1. update_workstreams P f db = Inr (1, db1) \<and> runtime_rows db1 = runtime_rows db \<and>
    location_rows db1 = location_rows db \<and> workstream_at db1 (ws_id w) = Some (f w)"
proof -
  let ?db1 = "db\<lparr>workstream_rows := sql_update_rows P f (workstream_rows db)\<rparr>"
  have chk: "workstream_check (f w)"
    using registry_ok_rows(1) [OF ok w(1)] next_activity_nonneg [OF ok]
    by (simp add: f_def workstream_row_ok_def row_checks)
  have upd: "update_workstreams P f db = Inr (1, ?db1)"
    by (rule ws.upd_keyed [where r = w]) (fact registry_ok_keys(1) [OF ok] w key chk)+
  moreover have "List.find (\<lambda>x. ws_id x = ws_id w) (workstream_rows ?db1) = Some (f w)"
    using find_Some_iff_distinct [OF registry_ok_keys(1) [OF ok] w(1)] w(2)
    by (subst ws.upd_find [OF upd]) (auto simp: f_def)
  ultimately show ?thesis by (auto simp: workstream_at_def)
qed

text \<open>On an intact registry a Runtime at its current revision can always be parked: the statement
  succeeds, the Runtime is stopped at the next revision, and its Workstream reads as deliberately
  parked.\<close>

theorem park_runtime_parks:
  assumes "env_ok E" and "registry_ok E db"
    and "runtime_at_revision E i v db = Some r" and "rt_workstream r = uuid_text E w"
  shows "\<exists>db'. park_runtime E i v db = Inr ((), db') \<and>
    runtime_at db' (uuid_text E i) = Some (r\<lparr> rt_lifecycle := ''stopped'', rt_revision := v + 1 \<rparr>) \<and>
    runtime_is_deliberately_parked E i w db' = Inr True"
proof -
  let ?f = "\<lambda>x. x\<lparr> rt_lifecycle := ''stopped'', rt_revision := rt_revision x + 1 \<rparr>"
  let ?P = "\<lambda>x. rt_id x = uuid_text E i \<and> rt_revision x = v"
  let ?Q = "\<lambda>x. ws_id x = rt_workstream r \<and> ws_lifecycle x \<in> {''open'', ''parked'', ''recovery_required''}"
  from assms(3) have row: "r \<in> set (runtime_rows db)" "rt_revision r = v"
    unfolding runtime_at_revision_def by (auto dest: find_SomeD)
  obtain db1 where rt: "update_runtimes ?P ?f db = Inr (1, db1)" "runtime_at db1 (uuid_text E i) = Some (?f r)"
    using runtime_statement [OF assms(2,3), of "''stopped''"] by blast
  have ok1: "registry_ok E db1"
    by (rule update_runtimes_keeps [OF rt(1) assms(2)]) (auto simp: row_kept)
  from assms(2) row(1) obtain ws where ws: "workstream_at db (rt_workstream r) = Some ws"
    "ws \<in> set (workstream_rows db)" by (rule runtime_parent)
  then have "ws \<in> set (workstream_rows db1)" "?Q ws"
    using rt(1) lifecycle_cases [OF registry_ok_rows(1) [OF assms(2) ws(2)]]
    by (auto simp: updates_Inr dest: workstream_at_Some)
  then obtain db2 where ws2: "update_workstreams ?Q (\<lambda>x. x\<lparr> ws_lifecycle := ''parked'',
        ws_activity_seq := next_activity_sequence db1, ws_revision := ws_revision x + 1 \<rparr>) db1 = Inr (1, db2)"
    "runtime_rows db2 = runtime_rows db1"
    "workstream_at db2 (ws_id ws) = Some (ws\<lparr> ws_lifecycle := ''parked'',
        ws_activity_seq := next_activity_sequence db1, ws_revision := ws_revision ws + 1 \<rparr>)"
    using workstream_statement [OF ok1, of ws ?Q "''parked''"] by auto
  have park: "park_runtime E i v db = Inr ((), db2)"
    using assms(3) rt(1) ws2(1) by (simp add: park_runtime_def)
  have found: "runtime_at db2 (uuid_text E i) = Some (?f r)"
    using rt(2) ws2(2) by (simp add: runtime_at_def)
  have "runtime_is_deliberately_parked E i w db2 = Inr True"
    using found ws2(3) ws(1) assms(4) status_codec.dec_enc [of Stopped] lifecycle_codec.dec_enc [of Parked]
    by (auto simp: runtime_is_deliberately_parked_def runtime_join_def dest: workstream_at_Some)
  with park found row(2) show ?thesis by auto
qed

lemma park_runtime_parks_witness:
  "\<exists>db'. park_runtime sample_env 4 5 (codex_sample ''open'' ''idle'' None) = Inr ((), db') \<and>
     runtime_is_deliberately_parked sample_env 4 3 db' = Inr True"
  using park_runtime_parks [OF sample_env_ok, of "codex_sample ''open'' ''idle'' None" 4 5
      "sample_runtime 4 3 ''codex'' ''g1'' ''idle'' 5" 3]
  by (auto simp: codex_sample_ok range_text_iff runtime_at_revision_def codex_lookups sample_runtime_def)

text \<open>On an intact registry a Runtime at its current revision can always be handed to recovery:
  afterwards it is unknown, and its Workstream no longer takes ordinary starts, whatever provider
  or authorization asks.\<close>

theorem recovery_blocks_ordinary_start:
  assumes "env_ok E" and "registry_ok E db"
    and "runtime_at_revision E i v db = Some r" and "rt_workstream r = uuid_text E w"
  shows "\<exists>db'. mark_runtime_recovery_required E i v db = Inr ((), db') \<and>
    runtime_at db' (uuid_text E i) = Some (r\<lparr> rt_lifecycle := ''unknown'', rt_revision := v + 1 \<rparr>) \<and>
    reserve_runtime_with_provider_authorized E fresh g w p auth db' = Inl (UnknownOpenWorkstream w)"
proof -
  let ?f = "\<lambda>x. x\<lparr> rt_lifecycle := ''unknown'', rt_revision := rt_revision x + 1 \<rparr>"
  let ?P = "\<lambda>x. rt_id x = uuid_text E i \<and> rt_revision x = v"
  let ?Q = "\<lambda>x. ws_id x = uuid_text E w \<and> ws_lifecycle x \<in> {''open'', ''parked''}"
  let ?lc = "\<lambda>k db'. and_then (query_row (workstream_at db' k)) (\<lambda>ws. Inr (ws_lifecycle ws))"
  from assms(3) have row: "r \<in> set (runtime_rows db)" "rt_revision r = v"
    unfolding runtime_at_revision_def by (auto dest: find_SomeD)
  obtain db1 where rt: "update_runtimes ?P ?f db = Inr (1, db1)" "runtime_at db1 (uuid_text E i) = Some (?f r)"
    using runtime_statement [OF assms(2,3), of "''unknown''"] by blast
  have ok1: "registry_ok E db1"
    by (rule update_runtimes_keeps [OF rt(1) assms(2)]) (auto simp: row_kept)
  from assms(2) row(1) obtain ws where ws: "workstream_at db (uuid_text E w) = Some ws"
    "ws \<in> set (workstream_rows db)" unfolding assms(4) [symmetric] by (rule runtime_parent)
  then have in1: "ws \<in> set (workstream_rows db1)" "workstream_at db1 (uuid_text E w) = Some ws"
    "ws_id ws = uuid_text E w"
    using rt(1) by (auto simp: updates_Inr workstream_at_def dest: find_SomeD)
  obtain db2 where step: "workstream_to_recovery (uuid_text E w) ?lc db1 = Inr db2"
    "runtime_rows db2 = runtime_rows db1"
    "\<exists>ws'. workstream_at db2 (uuid_text E w) = Some ws' \<and> ws_lifecycle ws' = ''recovery_required''"
  proof (cases "ws_lifecycle ws = ''recovery_required''")
    case True
    have "\<not> ?Q x" if "x \<in> set (workstream_rows db1)" for x
      using distinct_key_unique [OF registry_ok_keys(1) [OF ok1] that in1(1)] True in1(3) by auto
    then have "update_workstreams ?Q f db1 = Inr (0, db1)" for f by (rule ws.upd_none)
    with True in1(2) show ?thesis
      by (intro that [of db1]) (auto simp: workstream_to_recovery_def)
  next
    case False
    then have "?Q ws"
      using lifecycle_cases [OF registry_ok_rows(1) [OF assms(2) ws(2)]] in1(3) by auto
    then obtain db2 where "update_workstreams ?Q (\<lambda>x. x\<lparr> ws_lifecycle := ''recovery_required'',
          ws_activity_seq := next_activity_sequence db1, ws_revision := ws_revision x + 1 \<rparr>) db1 = Inr (1, db2)"
      "runtime_rows db2 = runtime_rows db1"
      "workstream_at db2 (ws_id ws) = Some (ws\<lparr> ws_lifecycle := ''recovery_required'',
          ws_activity_seq := next_activity_sequence db1, ws_revision := ws_revision ws + 1 \<rparr>)"
      using workstream_statement [OF ok1 in1(1), of ?Q "''recovery_required''"] in1(3) by auto
    with in1(3) show ?thesis
      by (intro that [of db2]) (auto simp: workstream_to_recovery_def)
  qed
  have parse: "uuid_parse E (rt_workstream r) = Some w"
    using assms(1,4) by (simp add: env_ok_uuid)
  have "mark_runtime_recovery_required E i v db = Inr ((), db2)"
    using assms(3) rt(1) step(1) parse by (simp add: mark_runtime_recovery_required_def)
  moreover have "runtime_at db2 (uuid_text E i) = Some (?f r)"
    using rt(2) step(2) by (simp add: runtime_at_def)
  moreover have "reserve_runtime_with_provider_authorized E fresh g w p auth db2 = Inl (UnknownOpenWorkstream w)"
    using step(3) by (auto simp: reserve_runtime_with_provider_authorized_def
        open_workstream_project_root_def split: option.splits)
  ultimately show ?thesis using row(2) by auto
qed

lemma recovery_blocks_ordinary_start_witness:
  "\<exists>db'. mark_runtime_recovery_required sample_env 4 5 (codex_sample ''open'' ''idle'' None) = Inr ((), db') \<and>
     reserve_runtime_with_provider_authorized sample_env 8 9 3 Codex ActiveOnly db' = Inl (UnknownOpenWorkstream 3)"
  using recovery_blocks_ordinary_start [OF sample_env_ok, of "codex_sample ''open'' ''idle'' None" 4 5
      "sample_runtime 4 3 ''codex'' ''g1'' ''idle'' 5" 3 8 9 Codex ActiveOnly]
  by (auto simp: codex_sample_ok range_text_iff runtime_at_revision_def codex_lookups sample_runtime_def)

end
