(* ===== verification/Takeover.thy ===== *)
theory Takeover
  imports Attempts Samples
begin

text \<open>
  The onboarding journal against its abstract specification: an attempt is absent, at one phase
  of the onboarding graph, or resolved as a parked recovery; every onboarding transaction of
  \<open>src/state/current/onboarding.rs\<close> is at most one step of that machine for every attempt.
\<close>

section \<open>The abstract attempt\<close>

datatype attempt_state = Absent | At onboarding_phase | Resolved | Foreign

definition phase_state :: "operation_phase \<Rightarrow> attempt_state" where
  "phase_state phase =
     (if phase = Committed then Resolved
      else (case from_operation_phase phase of None \<Rightarrow> Foreign | Some a \<Rightarrow> At a))"

definition journal_state :: "env \<Rightarrow> registry \<Rightarrow> uuid \<Rightarrow> attempt_state" where
  "journal_state E db i =
     (case operation_at db (uuid_text E i) of
        None \<Rightarrow> Absent
      | Some p \<Rightarrow>
          if op_kind p \<noteq> ''onboard'' then Foreign
          else (case operation_phase_from_text (op_phase p) of
                  Inl _ \<Rightarrow> Foreign | Inr phase \<Rightarrow> phase_state phase))"

fun attempt_step :: "attempt_state \<Rightarrow> attempt_state \<Rightarrow> bool" where
  "attempt_step Absent (At b) = (b = onboarding_phase.CapabilityIssued)"
| "attempt_step (At a) (At b) = permits_onboarding_transition a b"
| "attempt_step (At a) Resolved = (a = onboarding_phase.RecoveryRequired)"
| "attempt_step _ _ = False"

fun attempt_rank :: "attempt_state \<Rightarrow> nat" where
  "attempt_rank Absent = 0"
| "attempt_rank (At a) = Suc (onboarding_rank a)"
| "attempt_rank Resolved = 10"
| "attempt_rank Foreign = 0"

fun attempt_over :: "attempt_state \<Rightarrow> bool" where
  "attempt_over (At a) = is_terminal (to_operation_phase a)"
| "attempt_over Resolved = True"
| "attempt_over Foreign = True"
| "attempt_over Absent = False"

lemma attempt_step_cases:
  "attempt_step s t \<longleftrightarrow>
     s = Absent \<and> t = At onboarding_phase.CapabilityIssued \<or>
     (\<exists>a b. s = At a \<and> t = At b \<and> permits_onboarding_transition a b) \<or>
     s = At onboarding_phase.RecoveryRequired \<and> t = Resolved"
  by (cases s; cases t) auto

interpretation attempts: phase_graph attempt_step attempt_rank attempt_over 10
proof
  fix s t
  show "attempt_step s t \<Longrightarrow> attempt_rank s < attempt_rank t"
    using onboarding.permits_rank by (auto simp: attempt_step_cases)
  show "attempt_rank s \<le> 10"
    using onboarding.rank_bound by (cases s) (auto intro: le_SucI order_trans)
  show "attempt_over s \<Longrightarrow> \<not> attempt_step s t"
    using onboarding.final_stuck by (auto simp: attempt_step_cases)
qed

lemma attempt_runs_rank: "attempt_step\<^sup>*\<^sup>* s t \<Longrightarrow> attempt_rank s \<le> attempt_rank t"
  by (induction rule: rtranclp_induct) (auto dest: attempts.permits_rank)

section \<open>Every transaction is a step\<close>

lemma phase_state_simps [simp]:
  "phase_state (to_operation_phase a) = At a" "phase_state Committed = Resolved"
  by (cases a) (simp_all add: phase_state_def)

lemma journal_state_rows:
  "operation_rows db' = operation_rows db \<Longrightarrow> journal_state E db' i = journal_state E db i"
  by (simp add: journal_state_def operation_at_def)

lemma journal_moves:
  assumes upd: "update_operations P f db = Inr (n, db')"
    and P: "\<And>p. P p \<Longrightarrow> op_id p = uuid_text E o1 \<and> op_kind p = ''onboard''
              \<and> op_phase p = operation_phase_text (to_operation_phase a)"
    and f: "\<And>p. op_id (f p) = op_id p \<and> op_kind (f p) = op_kind p
              \<and> op_phase (f p) = operation_phase_text b"
  shows "journal_state E db' i = journal_state E db i \<or>
    journal_state E db i = At a \<and> journal_state E db' i = phase_state b"
proof -
  have rows: "operation_rows db' = sql_update_rows P f (operation_rows db)"
    using upd by (auto simp: updates_Inr)
  have "operation_at db' k = map_option (\<lambda>p. if P p then f p else p) (operation_at db k)" for k
    unfolding operation_at_def rows by (rule find_update_rows) (simp add: f)
  note look = this [of "uuid_text E i"]
  show ?thesis
  proof (cases "operation_at db (uuid_text E i)")
    case None
    with look show ?thesis by (simp add: journal_state_def)
  next
    case (Some p)
    show ?thesis
    proof (cases "P p")
      case True
      with Some look P [OF True] f [of p] show ?thesis
        by (simp add: journal_state_def phase_codec.dec_enc)
    next
      case False
      with Some look show ?thesis by (simp add: journal_state_def)
    qed
  qed
qed

lemma journal_state_phase_texts:
  "''capability_issued'' = operation_phase_text (to_operation_phase onboarding_phase.CapabilityIssued)"
  "''runtime_owned_launching'' =
     operation_phase_text (to_operation_phase onboarding_phase.RuntimeOwnedLaunching)"
  "''provider_exec_started'' =
     operation_phase_text (to_operation_phase onboarding_phase.ProviderExecStarted)"
  "''provider_exec_proven'' =
     operation_phase_text (to_operation_phase onboarding_phase.ProviderExecProven)"
  "''recovery_required'' = operation_phase_text (to_operation_phase onboarding_phase.RecoveryRequired)"
  "''rolled_back'' = operation_phase_text (to_operation_phase onboarding_phase.RolledBack)"
  "''committed'' = operation_phase_text Committed"
  by simp_all

text \<open>What a transaction may do to every attempt: nothing, or one step.\<close>

definition refines :: "env \<Rightarrow> registry \<Rightarrow> registry \<Rightarrow> bool" where
  "refines E db db' \<longleftrightarrow>
     (\<forall>i. journal_state E db' i = journal_state E db i \<or>
          attempt_step (journal_state E db i) (journal_state E db' i))"

lemma refines_refl [simp, intro]: "refines E db db"
  by (simp add: refines_def)

lemma refines_rows: "operation_rows db' = operation_rows db \<Longrightarrow> refines E db db'"
  unfolding refines_def by (blast intro: journal_state_rows)

lemma refines_rows_then: "operation_rows db1 = operation_rows db \<Longrightarrow> refines E db1 db' \<Longrightarrow> refines E db db'"
  using journal_state_rows [of db1 db E] by (simp add: refines_def)

lemma refines_then_rows: "refines E db db1 \<Longrightarrow> operation_rows db' = operation_rows db1 \<Longrightarrow> refines E db db'"
  using journal_state_rows [of db' db1 E] by (simp add: refines_def)

lemma update_refines:
  assumes "update_operations P f db = Inr (n, db')"
    and "\<And>p. P p \<Longrightarrow> op_id p = uuid_text E o1 \<and> op_kind p = ''onboard''
              \<and> op_phase p = operation_phase_text (to_operation_phase a)"
    and "\<And>p. op_id (f p) = op_id p \<and> op_kind (f p) = op_kind p
              \<and> op_phase (f p) = operation_phase_text b"
    and "attempt_step (At a) (phase_state b)"
  shows "refines E db db'"
proof -
  have "journal_state E db' i = journal_state E db i \<or>
      attempt_step (journal_state E db i) (journal_state E db' i)" for i
  proof -
    have "journal_state E db' i = journal_state E db i \<or>
        journal_state E db i = At a \<and> journal_state E db' i = phase_state b"
      using assms(1) by (rule journal_moves [where ?o1.0 = o1]) (use assms(2,3) in auto)
    with assms(4) show ?thesis by (elim disjE conjE) simp_all
  qed
  then show ?thesis by (simp add: refines_def)
qed

lemma find_snoc:
  "List.find P (xs @ [y]) = (case List.find P xs of Some x \<Rightarrow> Some x | None \<Rightarrow> if P y then Some y else None)"
  by (induction xs) auto

lemma insert_operation_refines:
  assumes "insert_operation p db = Inr db'" and "op_kind p = ''onboard''"
    and "op_phase p = ''capability_issued''"
  shows "refines E db db'"
proof -
  have rows: "operation_rows db' = operation_rows db @ [p]" and
    fresh: "op_id p \<notin> op_id ` set (operation_rows db)"
    using assms(1) by (auto simp: insert_operation_def)
  have "operation_at db' k = (case operation_at db k of Some q \<Rightarrow> Some q
      | None \<Rightarrow> if op_id p = k then Some p else None)" for k
    unfolding operation_at_def rows by (rule find_snoc)
  then have "journal_state E db' i = journal_state E db i \<or>
      journal_state E db i = Absent \<and> journal_state E db' i = At onboarding_phase.CapabilityIssued" for i
    using assms(2,3) phase_codec.dec_enc [of operation_phase.CapabilityIssued]
    by (cases "operation_at db (uuid_text E i)") (auto simp: journal_state_def phase_state_def)
  then show ?thesis unfolding refines_def by (metis attempt_step.simps(1))
qed

text \<open>The statements on the other tables leave the journal alone.\<close>

lemma statement_journal:
  "update_runtimes RP rf db = Inr (n, db') \<Longrightarrow> operation_rows db' = operation_rows db"
  "update_projects PP pf db = Inr (n, db') \<Longrightarrow> operation_rows db' = operation_rows db"
  "update_locations LP lf db = Inr (n, db') \<Longrightarrow> operation_rows db' = operation_rows db"
  "insert_location l db = Inr db' \<Longrightarrow> operation_rows db' = operation_rows db"
  "insert_project p db = Inr db' \<Longrightarrow> operation_rows db' = operation_rows db"
  "insert_workstream w db = Inr db' \<Longrightarrow> operation_rows db' = operation_rows db"
  "insert_runtime r db = Inr db' \<Longrightarrow> operation_rows db' = operation_rows db"
  "insert_handle h db = Inr db' \<Longrightarrow> operation_rows db' = operation_rows db"
  "insert_target t db = Inr db' \<Longrightarrow> operation_rows db' = operation_rows db"
  "delete_runtimes RP db = Inr (n, db') \<Longrightarrow> operation_rows db' = operation_rows db"
  "delete_workstreams WP db = Inr (n, db') \<Longrightarrow> operation_rows db' = operation_rows db"
  "delete_locations LP db = Inr (n, db') \<Longrightarrow> operation_rows db' = operation_rows db"
  "delete_projects PP db = Inr (n, db') \<Longrightarrow> operation_rows db' = operation_rows db"
  by (auto simp: updates_Inr update_locations_def insert_location_def insert_project_def
      insert_workstream_def insert_runtime_def insert_handle_def insert_target_def
      delete_runtimes_def delete_workstreams_def delete_locations_def delete_projects_def Let_def
      split: if_splits)

lemma insert_onboarding_location_journal:
  "insert_onboarding_location E q l fresh db = Inr db' \<Longrightarrow> operation_rows db' = operation_rows db"
  unfolding insert_onboarding_location_def create_project_def bump_project_revision_def
    attach_location_def Let_def
  by (auto dest!: statement_journal split: option.splits)

lemma record_exec_identity_journal:
  "record_exec_identity E o1 x r db = Inr db' \<Longrightarrow> operation_rows db' = operation_rows db"
  unfolding record_exec_identity_def
  by (auto dest!: statement_journal split: option.splits if_splits)

lemma detach_attempt_journal:
  "detach_attempt_project E n l db = Inr db' \<Longrightarrow> operation_rows db' = operation_rows db"
  unfolding detach_attempt_project_def
  by (auto dest!: statement_journal split: option.splits if_splits)

lemma reserve_attempt_refines:
  assumes "reserve_attempt E K S q ids lg rg db = Inr (v, db')"
  shows "refines E db db'"
  using assms
proof (cases rule: reserve_attempt_steps)
  case (1 location created project claims capability prepared c db1 db2 db3)
  from 1(7) have "operation_rows db1 = operation_rows db"
    by (auto dest: insert_onboarding_location_journal split: if_splits)
  with 1(8,9) have "operation_rows db3 = operation_rows db"
    by (simp add: statement_journal)
  moreover have "refines E db3 db'"
    using 1(10) by (rule insert_operation_refines) (simp_all add: attempt_operation_def)
  ultimately show ?thesis by (rule refines_rows_then)
qed

lemma prepare_refines:
  "prepare_onboarding_with_zero_timeout E K S L q ids db = (out, db') \<Longrightarrow> refines E db db'"
  unfolding prepare_onboarding_with_zero_timeout_def
  by (erule committed_cases) (auto intro: reserve_attempt_refines split: option.splits)

lemma consume_refines:
  "consume_onboarding_with_zero_timeout E K S L q token now db = (out, db') \<Longrightarrow> refines E db db'"
  unfolding consume_onboarding_with_zero_timeout_def
  by (erule committed_cases)
    (auto elim!: update_refines [where a = onboarding_phase.CapabilityIssued
        and b = operation_phase.RuntimeOwnedLaunching]
      simp: permits_onboarding_transition_def phase_state_def)

lemma advance_update_refines:
  assumes "advance_update E o1 a cur v n db = Inr (k, db')"
    and "permits_onboarding_transition cur (advance_next a)"
  shows "refines E db db'"
  using assms unfolding advance_update_def Let_def
  by (auto elim!: update_refines [where a = cur and b = "to_operation_phase (advance_next a)"]
      split: option.splits)

lemma advance_refines:
  assumes "advance_onboarding_with_zero_timeout E K S L q o1 a x db = (out, db')"
  shows "refines E db db'"
proof -
  have "refines E db db2" if "advance_transaction E K S L q o1 a x db = Inr (o2, db2)" for o2 db2
    using that
  proof (cases rule: advance_transaction_steps)
    case (1 rg cur v n db1)
    have "refines E db db1" by (rule advance_update_refines [OF 1(9) 1(3)])
    moreover have "operation_rows db2 = operation_rows db1"
      using 1(10) by (auto simp: insert_exec_target_def dest: statement_journal split: option.splits)
    ultimately show ?thesis by (rule refines_then_rows)
  qed
  then show ?thesis
    using assms unfolding advance_onboarding_with_zero_timeout_def
    by (elim committed_cases) auto
qed

lemma created_session_refines:
  "record_opencode_created_session_current E K S L q o1 s fresh db = (out, db') \<Longrightarrow> refines E db db'"
  unfolding record_opencode_created_session_current_def
  by (erule committed_cases) (auto intro: refines_rows dest: bind_opencode_operations)

lemma record_handle_refines:
  "record_opencode_runtime_handle_current E K S L q o1 port version s db = (out, db') \<Longrightarrow> refines E db db'"
  by (erule attempt_record_handle_committed)
    (auto intro!: refines_rows dest!: attempt_handle_steps dest: statement_journal)

lemma exec_observed_refines:
  "record_provider_exec_observed_current E S L o1 x db = (out, db') \<Longrightarrow> refines E db db'"
  unfolding record_provider_exec_observed_current_def
  by (erule committed_cases) (auto intro: refines_rows dest: record_exec_identity_journal)

lemma exec_proven_refines:
  assumes "record_provider_exec_proven_with_zero_timeout E S L o1 x db = (out, db')"
  shows "refines E db db'"
  using assms
proof (cases rule: exec_proven_steps)
  case (2 target r db1 v)
  have "refines E db1 db'"
    using 2(8) by (rule update_refines [where a = onboarding_phase.ProviderExecStarted
          and b = operation_phase.ProviderExecProven])
      (simp_all add: permits_onboarding_transition_def phase_state_def)
  with record_exec_identity_journal [OF 2(6)] show ?thesis by (rule refines_rows_then)
qed simp

lemma resolve_parked_refines:
  "resolve_parked_recovery_current E S L w v db = Some (out, db') \<Longrightarrow> refines E db db'"
proof (erule resolve_parked_recovery_cases)
  fix x u
  assume "resolve_parked_transaction E S L x w v db = Inr (u, db')"
  then show ?thesis
    unfolding resolve_parked_transaction_def
    by (auto elim!: update_refines [where a = onboarding_phase.RecoveryRequired and b = Committed])
qed simp

text \<open>The statements of a removal, in order.\<close>

lemma remove_attempt_steps:
  assumes "remove_attempt E S k operation p n l db = Inr db'"
  obtains db1 db2 db3 v
  where "delete_runtimes (\<lambda>r. rt_id r = uuid_text E (mk_runtime k)
       \<and> rt_workstream r = uuid_text E (in_workstream n) \<and> rt_lifecycle r = ''starting''
       \<and> rt_pid r = None \<and> rt_birth r = None) db = Inr (1, db1)"
    and "delete_workstreams (\<lambda>w. ws_id w = uuid_text E (in_workstream n)
       \<and> ws_location w = uuid_text E (in_location n) \<and> ws_lifecycle w = ''open'') db1 = Inr (1, db2)"
    and "(if in_location_created n
      then one_row ConcurrentWrite
        (delete_locations (\<lambda>x. lc_id x = uuid_text E (in_location n) \<and> lc_path x = lc_path l) db2)
      else Inr db2) = Inr db3"
    and "next_revision (op_revision p) = Inr v"
    and "update_operations
       (\<lambda>x. op_id x = uuid_text E operation \<and> op_kind x = ''onboard''
            \<and> op_phase x = ''capability_issued'' \<and> op_revision x = op_revision p
            \<and> op_watermark x = None \<and> op_outcome x = None)
       (\<lambda>x. x\<lparr> op_phase := ''rolled_back'', op_outcome := Some onboarding_cancelled_outcome,
               op_revision := v, op_token_id := None, op_token_verifier := None,
               op_token_expiry := None, op_claims_digest := None \<rparr>) db3 = Inr (1, db')"
  using assms unfolding remove_attempt_def Let_def
  by (auto intro!: that split del: if_split)

lemma remove_attempt_refines:
  assumes "remove_attempt E S k operation p n l db = Inr db'"
  shows "refines E db db'"
  using assms
proof (cases rule: remove_attempt_steps)
  case (1 db1 db2 db3 v)
  from 1(3) have "operation_rows db3 = operation_rows db2"
    by (auto dest: statement_journal split: if_splits)
  with 1(1,2) have "operation_rows db3 = operation_rows db"
    by (simp add: statement_journal)
  moreover have "refines E db3 db'"
    using 1(5) by (rule update_refines [where a = onboarding_phase.CapabilityIssued
          and b = operation_phase.RolledBack])
      (simp_all add: permits_onboarding_transition_def phase_state_def)
  ultimately show ?thesis by (rule refines_rows_then)
qed

lemma cancel_transaction_refines:
  assumes "cancel_transaction E S L paths k rows db = Inr (b, db')"
  shows "refines E db db'"
proof -
  have "refines E db db2" if "cancel_matched E S lg paths k operation p n db = Inr (c, db2)"
    for lg operation p n c db2
    using that unfolding cancel_matched_def
    by (auto intro: refines_rows_then [OF detach_attempt_journal remove_attempt_refines]
        split: if_splits)
  with assms show ?thesis
    unfolding cancel_transaction_def by (auto split: option.splits if_splits)
qed

lemma cancel_refines:
  "cancel_onboarding_current E S L paths k db = Some (out, db') \<Longrightarrow> refines E db db'"
  by (erule cancel_cases) (auto intro: cancel_transaction_refines)

section \<open>Onboarding runs\<close>

inductive onboarding_step :: "env \<Rightarrow> registry \<Rightarrow> registry \<Rightarrow> bool" for E :: env where
  update: "attempt_update E db db' \<Longrightarrow> onboarding_step E db db'"
| cancelled: "cancel_onboarding_current E S L paths k db = Some (bool_out, db') \<Longrightarrow> onboarding_step E db db'"

lemma attempt_update_refines:
  assumes "attempt_update E db db'" shows "refines E db db'"
  using assms
  by (cases rule: attempt_update.cases;
      blast intro: prepare_refines consume_refines advance_refines created_session_refines
        record_handle_refines exec_observed_refines exec_proven_refines resolve_parked_refines)

lemma onboarding_step_refines:
  "onboarding_step E db db' \<Longrightarrow> refines E db db'"
  by (erule onboarding_step.cases) (auto intro: attempt_update_refines cancel_refines)

lemma onboarding_step_registry: "onboarding_step E db db' \<Longrightarrow> registry_step E db db'"
  by (erule onboarding_step.cases)
    (auto simp: registry_step_def intro: update_step.attempt removal_step.attempt_cancelled)

text \<open>
  A run in which the attempt of operation \<open>i\<close> takes part: onboarding transactions of any attempt,
  interleaved with any other transaction that does not touch the journal row of \<open>i\<close>.
\<close>

definition attempt_runs :: "env \<Rightarrow> uuid \<Rightarrow> registry \<Rightarrow> registry \<Rightarrow> bool" where
  "attempt_runs E i =
     (\<lambda>a b. onboarding_step E a b \<or>
        registry_step E a b \<and> operation_at b (uuid_text E i) = operation_at a (uuid_text E i))\<^sup>*\<^sup>*"

lemma attempt_run_steps:
  assumes "attempt_runs E i db db'"
  shows "attempt_step\<^sup>*\<^sup>* (journal_state E db i) (journal_state E db' i)"
  using assms unfolding attempt_runs_def
proof (induction rule: rtranclp_induct)
  case (step a b)
  then have "journal_state E b i = journal_state E a i \<or>
      attempt_step (journal_state E a i) (journal_state E b i)"
    using onboarding_step_refines by (auto simp: refines_def journal_state_def)
  with step.IH show ?case by (auto intro: rtranclp.rtrancl_into_rtrancl)
qed simp

lemma attempt_run_keeps:
  assumes "attempt_runs E i db db'" and "env_ok E" and "registry_ok E db"
  shows "registry_ok E db'"
  using assms(1) unfolding attempt_runs_def
proof (induction rule: rtranclp_induct)
  case (step a b)
  then have "registry_step E a b" using onboarding_step_registry by blast
  then show ?case
    unfolding registry_step_def using step.IH assms(2) update_step_keeps removal_step_keeps by blast
qed (use assms(3) in simp)

text \<open>An attempt never returns to a state it has left.\<close>

lemma attempt_run_no_return:
  assumes "attempt_runs E i db db'" and "attempt_step s (journal_state E db i)"
  shows "journal_state E db' i \<noteq> s"
proof -
  have "attempt_rank s < attempt_rank (journal_state E db i)"
    using assms(2) by (rule attempts.permits_rank)
  also have "\<dots> \<le> attempt_rank (journal_state E db' i)"
    by (rule attempt_runs_rank [OF attempt_run_steps [OF assms(1)]])
  finally show ?thesis by auto
qed

section \<open>Where the transactions stand\<close>

lemma row_state:
  assumes "distinct (map op_id (operation_rows db))" and "p \<in> set (operation_rows db)"
    and "op_id p = uuid_text E i" and "op_kind p = ''onboard''"
    and "op_phase p = operation_phase_text (to_operation_phase a)"
  shows "journal_state E db i = At a"
proof -
  have "operation_at db (uuid_text E i) = Some p"
    unfolding operation_at_def using find_Some_iff_distinct [OF assms(1,2)] assms(3) by simp
  with assms(4,5) show ?thesis by (simp add: journal_state_def phase_codec.dec_enc)
qed

text \<open>An UPDATE of exactly one journal row of an attempt crosses from its phase to the next.\<close>

lemma journal_crosses:
  assumes upd: "update_operations P f db = Inr (1, db')"
    and ids: "distinct (map op_id (operation_rows db))"
    and P: "\<And>p. P p \<Longrightarrow> op_id p = uuid_text E i \<and> op_kind p = ''onboard''
              \<and> op_phase p = operation_phase_text (to_operation_phase a)"
    and f: "\<And>p. op_id (f p) = op_id p \<and> op_kind (f p) = op_kind p
              \<and> op_phase (f p) = operation_phase_text b"
  shows "journal_state E db i = At a \<and> journal_state E db' i = phase_state b"
proof -
  from upd have rows: "operation_rows db' = sql_update_rows P f (operation_rows db)"
    and "sql_count P (operation_rows db) = Suc 0"
    by (auto simp: updates_Inr)
  then obtain p where p: "p \<in> set (operation_rows db)" "P p" by (meson sql_count_Suc0D)
  have at: "operation_at db (uuid_text E i) = Some p"
    unfolding operation_at_def using find_Some_iff_distinct [OF ids p(1)] P [OF p(2)] by simp
  have "operation_at db' (uuid_text E i) = Some (f p)"
    using at f p(2) unfolding operation_at_def rows by (simp add: find_update_rows)
  with at P [OF p(2)] f [of p] show ?thesis
    by (simp add: journal_state_def phase_codec.dec_enc)
qed

lemma advance_crosses:
  assumes "advance_onboarding_with_zero_timeout E K S L q o1 a x db = (Inr o2, db')"
    and "registry_ok E db"
  shows "\<exists>cur. journal_state E db (ow_operation o1) = At cur \<and>
    permits_onboarding_transition cur (advance_next a) \<and>
    journal_state E db' (ow_operation o1) = At (advance_next a) \<and>
    o2 = o1\<lparr> ow_revision := ow_revision o2 \<rparr> \<and> ow_revision o2 = ow_revision o1 + 1"
proof -
  from assms(1) have "advance_transaction E K S L q o1 a x db = Inr (o2, db')"
    unfolding advance_onboarding_with_zero_timeout_def committed_Inr by auto
  then show ?thesis
  proof (cases rule: advance_transaction_steps)
    case (1 rg cur v n db1)
    have "v = ow_revision o1"
      using 1(2) by (auto simp: validate_owned_onboarding_transaction_def)
    moreover have "n = v + 1" using 1(8) by (auto simp: next_revision_def split: if_splits)
    moreover have "journal_state E db (ow_operation o1) = At cur \<and>
        journal_state E db1 (ow_operation o1) = phase_state (to_operation_phase (advance_next a))"
    proof (cases "effect_watermark a")
      case None
      from 1(9) [unfolded advance_update_def Let_def None option.case] show ?thesis
        by (rule journal_crosses) (simp_all add: registry_ok_keys(6) [OF assms(2)])
    next
      case (Some w)
      from 1(9) [unfolded advance_update_def Let_def Some option.case] show ?thesis
        by (rule journal_crosses) (simp_all add: registry_ok_keys(6) [OF assms(2)])
    qed
    moreover have "operation_rows db' = operation_rows db1"
      using 1(10) by (auto simp: insert_exec_target_def dest: statement_journal split: option.splits)
    ultimately show ?thesis
      using 1(3,12) journal_state_rows [of db' db1 E] by simp
  qed
qed

lemma exec_proven_crosses:
  assumes "record_provider_exec_proven_with_zero_timeout E S L o1 x db = (Inr o2, db')"
    and "registry_ok E db"
  shows "journal_state E db (ow_operation o1) = At onboarding_phase.ProviderExecStarted \<and>
    journal_state E db' (ow_operation o1) = At onboarding_phase.ProviderExecProven"
  using assms(1)
proof (cases rule: exec_proven_steps)
  case (2 target r db1 v)
  have rows: "operation_rows db1 = operation_rows db" by (rule record_exec_identity_journal [OF 2(6)])
  then have "distinct (map op_id (operation_rows db1))"
    using registry_ok_keys(6) [OF assms(2)] by simp
  then have "journal_state E db1 (ow_operation o1) = At onboarding_phase.ProviderExecStarted \<and>
      journal_state E db' (ow_operation o1) = phase_state (to_operation_phase onboarding_phase.ProviderExecProven)"
    by (rule journal_crosses [OF 2(8)]) auto
  with journal_state_rows [OF rows, of E] show ?thesis by (simp add: phase_state_def)
qed blast

end
