(* ===== verification/Validity.thy ===== *)
theory Validity
  imports Takeover
begin

text \<open>
  What the validator of \<open>src/state/current/schema.rs\<close> demands of a journal row, stated without its
  control flow, and why the transactions that move an attempt from one phase to another keep a
  valid registry valid.
\<close>

section \<open>A valid journal row\<close>

definition capability_sound :: "env \<Rightarrow> operation_row \<Rightarrow> bool" where
  "capability_sound E p \<longleftrightarrow>
     (\<forall>t v x d. op_token_id p = Some t \<and> op_token_verifier p = Some v \<and> op_token_expiry p = Some x
        \<and> op_claims_digest p = Some d \<longrightarrow>
        uuid_parse E t \<noteq> None \<and> 0 < x
        \<and> is_prefixed_sha256 v ''wsnav-launch-verifier-v1:sha256:''
        \<and> is_prefixed_sha256 d ''wsnav-launch-claims-v1:sha256:'')"

lemma validate_onboarding_operation_Inr:
  "validate_onboarding_operation E p = Inr u \<longleftrightarrow>
     (\<exists>phase. operation_phase_from_text (op_phase p) = Inr phase \<and>
        (phase = Committed \<and> op_outcome p = Some parked_recovery_resolved_outcome
         \<or> from_operation_phase phase \<noteq> None) \<and>
        capability_fits_phase (from_operation_phase phase) p \<and> capability_sound E p)"
proof -
  have sound: "(case (op_token_id p, op_token_verifier p, op_token_expiry p, op_claims_digest p) of
             (Some token_id, Some verifier, Some expiry, Some digest) \<Rightarrow>
               malformed_unless (\<not> (uuid_parse E token_id = None \<or> expiry \<le> 0
                 \<or> \<not> is_prefixed_sha256 verifier ''wsnav-launch-verifier-v1:sha256:''
                 \<or> \<not> is_prefixed_sha256 digest ''wsnav-launch-claims-v1:sha256:''))
           | _ \<Rightarrow> Inr ()) = Inr u \<longleftrightarrow> capability_sound E p"
    by (cases "op_token_id p"; cases "op_token_verifier p"; cases "op_token_expiry p";
        cases "op_claims_digest p") (auto simp: capability_sound_def)
  have committed: "from_operation_phase Committed = None" by simp
  show ?thesis
    unfolding validate_onboarding_operation_def Let_def
    using sound by (auto simp: committed split del: if_split)
qed

text \<open>The texts that an issued capability puts on record.\<close>

lemma prefixed_digests:
  assumes "crypto_ok K"
  shows "is_prefixed_sha256 (token_verifier K token) ''wsnav-launch-verifier-v1:sha256:''"
    and "is_prefixed_sha256 (claims_digest E K claims) ''wsnav-launch-claims-v1:sha256:''"
  using versioned_sha256_shape [OF assms, where version = token_verifier_version]
    versioned_sha256_shape [OF assms, where version = claim_digest_version]
  by (simp_all add: token_verifier_def claims_digest_def is_versioned_prefixed
      token_verifier_version_def claim_digest_version_def)

text \<open>The phases in which a capability is on record.\<close>

definition issued_phase :: "onboarding_phase \<Rightarrow> bool" where
  "issued_phase a \<longleftrightarrow> a \<noteq> onboarding_phase.Prepared \<and> a \<noteq> onboarding_phase.RolledBack"

lemma capability_fits_issued:
  "issued_phase a \<Longrightarrow> capability_fits_phase (Some a) p = capability_complete p"
  by (cases a) (simp_all add: issued_phase_def capability_fits_phase_def)

lemma moved_row_valid:
  assumes "validate_operation_columns_row E p = Inr ()" and "op_kind p = ''onboard''"
    and "op_phase p = operation_phase_text (to_operation_phase a)" and "issued_phase a"
    and "issued_phase b"
  shows "validate_operation_columns_row E
    (p\<lparr> op_phase := operation_phase_text (to_operation_phase b), op_watermark := w, op_revision := v \<rparr>)
    = Inr ()"
  using assms
  by (auto simp: validate_operation_columns_row_def validate_onboarding_operation_Inr
      phase_codec.dec_enc capability_fits_issued capability_complete_def capability_sound_def)

lemma moved_target_valid:
  assumes "validate_target_row E (t, p) = Inr ()" and "op_kind p = ''onboard''"
  shows "validate_target_row E
    (t, p\<lparr> op_phase := operation_phase_text (to_operation_phase b), op_watermark := w, op_revision := v \<rparr>)
    = Inr ()"
proof -
  have "to_operation_phase b \<noteq> Committed" by (cases b) auto
  with assms show ?thesis
    unfolding validate_target_row_def prod.case
    by (elim if_Inl_Inr(1) [THEN iffD1, THEN conjE]) (simp add: phase_codec.dec_enc, blast)
qed

text \<open>
  Moving attempts of one issued phase to another keeps a valid registry valid.
\<close>

lemma moved_journal_valid:
  assumes valid: "validate_schema15 E cat db = Inr ()"
    and move: "\<And>p. P p \<Longrightarrow> op_kind p = ''onboard''
       \<and> op_phase p = operation_phase_text (to_operation_phase a)
       \<and> (\<exists>w v. f p = p\<lparr> op_phase := operation_phase_text (to_operation_phase b), op_watermark := w,
                        op_revision := v \<rparr>)"
    and phases: "issued_phase a" "issued_phase b"
    and rows: "db' = db\<lparr> operation_rows := sql_update_rows P f (operation_rows db) \<rparr>"
  shows "validate_schema15 E cat db' = Inr ()"
proof -
  have same: "op_id (f p) = op_id p" "op_kind (f p) = op_kind p" if "P p" for p
    using move [OF that] by auto
  have "map op_id (operation_rows db') = map op_id (operation_rows db)"
    by (simp add: rows map_key_update_rows same)
  then have ids: "op_id ` set (operation_rows db') = op_id ` set (operation_rows db)"
    by (rule image_map_eq)
  have row: "validate_operation_columns_row E (f p) = Inr ()"
    if "P p" "validate_operation_columns_row E p = Inr ()" for p
    using that move [OF that(1)] moved_row_valid [OF that(2)] phases by auto
  have target: "validate_target_row E (t, f p) = Inr ()"
    if "P p" "validate_target_row E (t, p) = Inr ()" for t p
    using that move [OF that(1)] moved_target_valid [OF that(2)] by auto
  have fork: "op_kind (f p) \<noteq> ''fork''" if "P p" for p
    using move [OF that] by auto
  from valid have "journal_rows_valid E db" by (simp add: validate_schema15_Inr)
  then have "journal_rows_valid E db'"
    using row target same fork
    by (auto simp: journal_rows_valid_def rows set_sql_update_rows
        reject_unresolved_retired_fork_effect_def list_ex_iff split: if_splits)
  moreover have "host_rows_valid E db' = host_rows_valid E db"
    by (simp add: rows host_rows_valid_def validate_host_identity_def validate_operational_metadata_def)
  moreover have "project_rows_valid E db' = project_rows_valid E db"
    by (simp add: rows project_rows_valid_def validated_project project_sources_def project_members_def)
  moreover have "foreign_keys_hold db' = foreign_keys_hold db"
    using ids by (simp add: foreign_keys_hold_def rows)
  ultimately show ?thesis using valid by (simp add: validate_schema15_Inr)
qed

end
