(* ===== verification/AttemptSamples.thy ===== *)
theory AttemptSamples
  imports Validity
begin

text \<open>
  A concrete onboarding attempt: a request for a repository the registry does not know yet, the
  identities its reservation draws, and the lease under which it runs.
\<close>

definition sample_base :: registry where
  "sample_base = sample_registry [] [] [] [] []"

definition sample_state :: current_state where
  "sample_state =
     \<lparr> st_mode = Current, st_root = ''/w'', st_catalog = schema15_catalog, st_canonicalize = Some \<rparr>"

definition sample_lease :: lease where
  "sample_lease = \<lparr> ls_generation = 3, ls_revalidate = (\<lambda>_. Inr ()) \<rparr>"

definition sample_request :: prepare_request where
  "sample_request =
     \<lparr> pq_request_key = ''request-1'', pq_presentation = 21, pq_presentation_revision = 1,
       pq_slot_generation = 22, pq_runtime = 23, pq_paths = runtime_paths_for sample_env ''/w'' 23,
       pq_provider = Codex,
       pq_repository = \<lparr> rd_root = ''/work/other'', rd_display = ''other'', rd_fingerprint = None,
                         rd_remote_display = None \<rparr>,
       pq_shell_cwd = ''/work/other'', pq_shell_pid = 101, pq_shell_birth = ''b'',
       pq_process_group = 101, pq_session = 101,
       pq_argv_digest = digest_arguments sample_crypto Codex [],
       pq_boot_provenance = versioned_sha256 sample_crypto boot_provenance_version ''boot'',
       pq_now = 5, pq_expiry = 60005 \<rparr>"

definition sample_ids :: prepare_ids where
  "sample_ids =
     \<lparr> pi_location = 31, pi_operation = 32, pi_workstream = 33, pi_generation = 34, pi_token = 35,
       pi_secret1 = 36, pi_secret2 = 37, pi_project = 38 \<rparr>"

lemma sample_lease_simps [simp]:
  "ls_generation sample_lease = 3" "ls_revalidate sample_lease k = Inr ()"
  by (simp_all add: sample_lease_def)

lemma sample_state_simps [simp]:
  "st_mode sample_state = Current" "st_catalog sample_state = schema15_catalog"
  "canonical_root sample_state = Inr ''/w''"
  by (simp_all add: sample_state_def canonical_root_def)

lemma sample_texts:
  "validate_registry_text ''onboarding request key'' ''request-1'' = Inr ()"
  "validate_registry_text ''repository path'' ''/work/other'' = Inr ()"
  "validate_registry_text ''registry generation'' ''host'' = Inr ()"
  "validate_project_display_name ''other'' = Inr ()" "validate_project_display_name ''project'' = Inr ()"
  "is_normalized_absolute_path ''/work/other''" "path_starts_with ''/work/other'' ''/work/other''"
  "valid_utf8 ''/work/other''"
  by code_simp+

lemma sample_texts_none:
  "validate_repository_fingerprint None = Inr ()" "validate_safe_origin_display None = Inr ()"
  "validate_safe_origin_display (Some []) = Inr ()"
  by code_simp+

lemma runtime_paths_eq_refl [simp]: "runtime_paths_eq p p"
  by (simp add: runtime_paths_eq_def path_eq_def)

lemma sample_request_valid:
  "validate_onboarding_prepare_request sample_env sample_state sample_request = Inr ()"
  by (simp add: validate_onboarding_prepare_request_def sample_request_def sample_texts
      sample_texts_none)

lemma sample_base_valid: "validate_schema15 sample_env schema15_catalog sample_base = Inr ()"
proof -
  have "host_rows_valid sample_env sample_base"
    by (simp add: host_rows_valid_def sample_base_def sample_registry_def host_schema_version_def
        validate_host_identity_def validate_operational_metadata_def operational_metadata_refused_def
        newline_def carriage_return_def)
  moreover have "project_rows_valid sample_env sample_base"
    by (simp add: project_rows_valid_def sample_base_def sample_registry_def sample_location_def
        sample_project_def validated_location validated_project sample_texts sample_texts_none
        project_sources_def project_members_def project_source_fingerprints_compatible_def
        normalize_persisted_fingerprint_def nonempty_def)
  ultimately show ?thesis
    by (simp add: validate_schema15_Inr sample_base_def sample_registry_def sample_location_def
        sample_project_def foreign_keys_hold_def journal_rows_valid_def
        reject_unresolved_retired_fork_effect_def)
qed

text \<open>The claims and the capability of the attempt.\<close>

definition sample_attempt_claims :: launch_claims where
  "sample_attempt_claims =
     \<lparr> cl_operation = 32, cl_presentation = 21, cl_presentation_revision = 1,
       cl_slot_generation = 22, cl_lease_generation = 3, cl_runtime = 23,
       cl_paths = runtime_paths_for sample_env ''/w'' 23, cl_provider = Codex,
       cl_shell_cwd = ''/work/other'', cl_worktree_root = ''/work/other'', cl_location = 31,
       cl_runtime_generation = sid 34, cl_registry_generation = ''host'', cl_shell_pid = 101,
       cl_shell_birth = ''b'', cl_process_group = 101, cl_session = 101,
       cl_argv_digest = digest_arguments sample_crypto Codex [],
       cl_boot_provenance = versioned_sha256 sample_crypto boot_provenance_version ''boot'' \<rparr>"

lemma sample_identity_texts:
  "sid 23 = ''00000000-0000-0000-0000-000000000017''"
  "sid 34 = ''00000000-0000-0000-0000-000000000022''"
  by (simp_all add: sample_env_def sample_uuid_text_def uuid_digit_def upt_rec hex_digit_def)

lemma sample_paths:
  "runtime_paths_for sample_env ''/w'' 23 =
     \<lparr> rp_directory = ''/w/run/runtime-00000000-0000-0000-0000-000000000017'',
       rp_socket = ''/w/run/runtime-00000000-0000-0000-0000-000000000017/tmux.sock'',
       rp_config = ''/w/run/runtime-00000000-0000-0000-0000-000000000017/tmux.conf'',
       rp_session_name = ''wsnav-00000000-0000-0000-0000-000000000017'' \<rparr>"
  by (simp add: runtime_paths_for_def sample_identity_texts runtime_directory_def path_join_def
      path_is_absolute_def starts_with_def Let_def)

lemma sample_path_texts:
  "is_normalized_absolute_path ''/w/run/runtime-00000000-0000-0000-0000-000000000017''"
  "is_normalized_absolute_path ''/w/run/runtime-00000000-0000-0000-0000-000000000017/tmux.sock''"
  "is_normalized_absolute_path ''/w/run/runtime-00000000-0000-0000-0000-000000000017/tmux.conf''"
  "is_bounded_text ''wsnav-00000000-0000-0000-0000-000000000017''"
  "is_bounded_text ''00000000-0000-0000-0000-000000000022''"
  "is_bounded_text ''host''" "is_bounded_text ''b''"
  "validate_registry_text ''runtime generation'' ''00000000-0000-0000-0000-000000000022'' = Inr ()"
  by code_simp+

lemma sample_claims_issued:
  "onboarding_claims 32 31 (sid 34) ''host'' 3 sample_request = Inr sample_attempt_claims"
  by (simp add: onboarding_claims_def sample_request_def sample_attempt_claims_def claims_new_def
      sample_paths sample_path_texts sample_identity_texts sample_texts digest_arguments_def)

definition sample_intent :: onboarding_intent where
  "sample_intent = attempt_intent sample_env sample_request sample_ids 3 ''host'' 31 True True"

text \<open>The Location and the Project of the new repository.\<close>

definition sample_new_location :: location_row where
  "sample_new_location =
     \<lparr> lc_id = sid 31, lc_path = ''/work/other'', lc_display = ''other'', lc_fingerprint = None,
       lc_remote_display = Some [], lc_revision = 1, lc_project = Some (sid 38) \<rparr>"

definition sample_new_project :: project_row where
  "sample_new_project =
     \<lparr> pj_id = sid 38, pj_label_location = sid 31, pj_display = ''other'', pj_fingerprint = None,
       pj_revision = 1 \<rparr>"

lemma sample_location_inserted:
  "insert_onboarding_location sample_env sample_request 31 38 sample_base =
     Inr (sample_base\<lparr> location_rows := [sample_location, sample_new_location],
                       project_rows := [sample_project, sample_new_project] \<rparr>)"
  by (simp add: insert_onboarding_location_def sample_request_def sample_base_def
      sample_registry_def insert_location_def insert_project_def create_project_def
      attach_location_def update_locations_def exec_update_def sql_update_rows_def row_checks
      sample_location_def sample_project_def sample_new_location_def sample_new_project_def
      sample_texts constrained_def)

lemma sample_plan: "location_plan sample_env sample_request sample_ids sample_base = Inr (31, True, True)"
  by (simp add: location_plan_def load_location_for_repository_path_def sample_request_def
      sample_ids_def sample_base_def sample_registry_def sample_location_def sample_texts)

definition sample_operation :: "capability_metadata \<Rightarrow> operation_row" where
  "sample_operation m =
     \<lparr> op_id = sid 32, op_request_key = ''request-1'', op_kind = ''onboard'',
       op_phase = ''capability_issued'', op_expected = intent_encode sample_env sample_intent,
       op_watermark = None, op_outcome = None, op_revision = 2,
       op_token_id = Some (cm_token_id m), op_token_verifier = Some (cm_verifier m),
       op_token_expiry = Some (cm_expiry m), op_claims_digest = Some (cm_claims_digest m) \<rparr>"

definition sample_reserved :: "operation_row \<Rightarrow> registry" where
  "sample_reserved p =
     sample_base\<lparr> location_rows := [sample_location, sample_new_location],
                  project_rows := [sample_project, sample_new_project],
                  workstream_rows := [attempt_workstream sample_env sample_request sample_ids 31 sample_base],
                  runtime_rows := [attempt_runtime sample_env sample_request sample_ids],
                  operation_rows := [p] \<rparr>"

lemma sample_operation_built:
  "\<exists>prepared c. compound_with_id sample_env 32 ''request-1'' Onboard (intent_encode sample_env sample_intent)
       = Inr prepared \<and>
     compound_transition_onboarding sample_env prepared onboarding_phase.CapabilityIssued None None = Inr c \<and>
     attempt_operation sample_env c m = sample_operation m"
proof -
  have "\<not> blank_text ''request-1''" by (rule not_blank_leading) (simp_all add: leading_ws_def)
  then show ?thesis
    by (simp add: compound_with_id_def compound_transition_onboarding_def compound_onboarding_phase_def
        check_outcome_def intent_encode_def onboarding_transition_def permits_onboarding_transition_def
        attempt_operation_def sample_operation_def revision_initial_def revision_next_def i64_wrap_def)
qed

lemma sample_intent_decodes: "intent_decode sample_env (intent_encode sample_env sample_intent) = Inr sample_intent"
  by (rule intent_round_trip)
    (simp_all add: intent_fits_def sample_intent_def attempt_intent_def sample_request_def i64_max_def)

lemma sample_reserved_valid:
  assumes "cm_token_id m = sid 35" and "cm_expiry m = 60005"
    and "cm_verifier m = token_verifier sample_crypto t"
    and "cm_claims_digest m = claims_digest sample_env sample_crypto claims"
  shows "validate_schema15 sample_env schema15_catalog (sample_reserved (sample_operation m)) = Inr ()"
proof -
  let ?db = "sample_reserved (sample_operation m)"
  note base = sample_base_def sample_registry_def sample_reserved_def
  have "host_rows_valid sample_env ?db"
    using sample_base_valid by (simp add: validate_schema15_Inr base host_rows_valid_def
        validate_host_identity_def validate_operational_metadata_def)
  moreover have "project_rows_valid sample_env ?db"
    by (simp add: project_rows_valid_def base sample_location_def sample_new_location_def
        sample_project_def sample_new_project_def validated_location validated_project sample_texts
        sample_texts_none project_sources_def project_members_def
        project_source_fingerprints_compatible_def normalize_persisted_fingerprint_def nonempty_def)
  moreover have "foreign_keys_hold ?db"
    by (simp add: foreign_keys_hold_def base sample_location_def sample_new_location_def
        sample_project_def sample_new_project_def attempt_workstream_def attempt_runtime_def
        sample_request_def sample_ids_def)
  moreover have "journal_rows_valid sample_env ?db"
    using assms by (simp add: journal_rows_valid_def base reject_unresolved_retired_fork_effect_def
        validate_operation_columns_row_def validate_onboarding_operation_Inr sample_operation_def
        capability_sound_def capability_fits_phase_def capability_complete_def prefixed_digests
        phase_codec.dec_enc [of operation_phase.CapabilityIssued, simplified])
  ultimately show ?thesis by (simp add: validate_schema15_Inr)
qed

lemma sample_labels: "\<not> blank_text ''project''" "\<not> blank_text ''other''"
  by (rule not_blank_leading; simp add: leading_ws_def)+

lemma sample_reserved_members:
  "validate_project_membership_transaction sample_env (sample_reserved p) = Inr ()"
  by (simp add: validate_project_membership_transaction_def sample_reserved_def sample_base_def
      sample_registry_def sample_location_def sample_new_location_def sample_project_def
      sample_new_project_def row_to_project_def read_uuid_def
      read_revision_def validate_project_source_transaction_def validate_label_source_Inr
      project_sources_def project_members_def project_member_count_def
      project_source_fingerprints_compatible_def normalize_persisted_fingerprint_def nonempty_def
      validate_label_source_def sample_labels)

definition sample_capability :: launch_capability where
  "sample_capability =
     (case issue_capability sample_env sample_crypto sample_attempt_claims 5 60005 35 36 37 of
        Inr c \<Rightarrow> c | Inl _ \<Rightarrow> undefined)"

lemma sample_capability_issued:
  "issue_capability sample_env sample_crypto sample_attempt_claims 5 60005 35 36 37 = Inr sample_capability"
proof -
  obtain cap where
    "issue_capability sample_env sample_crypto sample_attempt_claims 5 60005 35 36 37 = Inr cap"
    by (simp add: issue_capability_def i64_checked_sub_def i64_max_def
        max_capability_lifetime_millis_def Let_def)
  then show ?thesis by (simp add: sample_capability_def)
qed

definition sample_issued :: registry where
  "sample_issued = sample_reserved (sample_operation (cap_metadata sample_capability))"

lemma sample_reservation:
  "reserve_attempt sample_env sample_crypto sample_state sample_request sample_ids 3 ''host'' sample_base =
     Inr (\<lparr> rv_operation = 32, rv_capability = sample_capability \<rparr>, sample_issued)"
proof -
  obtain prepared c where op:
    "compound_with_id sample_env 32 ''request-1'' Onboard (intent_encode sample_env sample_intent)
       = Inr prepared"
    "compound_transition_onboarding sample_env prepared onboarding_phase.CapabilityIssued None None = Inr c"
    "attempt_operation sample_env c (cap_metadata sample_capability)
       = sample_operation (cap_metadata sample_capability)"
    using sample_operation_built by blast
  have fields: "pq_request_key sample_request = ''request-1''" "pq_now sample_request = 5"
    "pq_expiry sample_request = 60005" "pi_operation sample_ids = 32" "pi_generation sample_ids = 34"
    "pi_token sample_ids = 35" "pi_secret1 sample_ids = 36" "pi_secret2 sample_ids = 37"
    "pi_project sample_ids = 38"
    by (simp_all add: sample_request_def sample_ids_def)
  let ?db1 = "sample_base\<lparr> location_rows := [sample_location, sample_new_location],
                       project_rows := [sample_project, sample_new_project] \<rparr>"
  let ?w = "attempt_workstream sample_env sample_request sample_ids 31 ?db1"
  let ?r = "attempt_runtime sample_env sample_request sample_ids"
  have w: "insert_workstream ?w ?db1 = Inr (?db1\<lparr> workstream_rows := [?w] \<rparr>)"
    by (simp add: insert_workstream_def constrained_def attempt_workstream_def sample_base_def
        sample_registry_def sample_new_location_def row_checks next_activity_sequence_def)
  have r: "insert_runtime ?r (?db1\<lparr> workstream_rows := [?w] \<rparr>) =
      Inr (?db1\<lparr> workstream_rows := [?w], runtime_rows := [?r] \<rparr>)"
    by (simp add: insert_runtime_def constrained_def attempt_workstream_def attempt_runtime_def
        sample_base_def sample_registry_def row_checks)
  have same: "?w = attempt_workstream sample_env sample_request sample_ids 31 sample_base"
    by (simp add: attempt_workstream_def next_activity_sequence_def)
  have p: "insert_operation (sample_operation m) (?db1\<lparr> workstream_rows := [?w], runtime_rows := [?r] \<rparr>) =
      Inr (sample_reserved (sample_operation m))" for m
    unfolding same
    by (simp add: insert_operation_def constrained_def sample_operation_def sample_reserved_def
        sample_base_def sample_registry_def row_checks)
  note cap = issued_capability(5) [OF sample_capability_issued]
  have valid: "validate_schema15 sample_env schema15_catalog
      (sample_reserved (sample_operation (cap_metadata sample_capability))) = Inr ()"
    by (rule sample_reserved_valid) (simp_all add: cap)
  show ?thesis
    unfolding reserve_attempt_def sample_plan fields
    using sample_path_texts(8) [folded sample_identity_texts(2)]
    by (simp add: Let_def sample_claims_issued sample_capability_issued op w r p valid fields
        sample_intent_def [symmetric] sample_location_inserted
        sample_reserved_members sample_issued_def)
qed

lemma sample_generation: "load_registry_generation sample_base = Inr ''host''"
  by (simp add: load_registry_generation_def sample_base_def sample_registry_def query_row_def
      sample_texts)

text \<open>The preparation of the attempt succeeds.\<close>

lemma sample_prepared:
  "prepare_onboarding_with_zero_timeout sample_env sample_crypto sample_state sample_lease sample_request
     sample_ids sample_base =
   (Inr (Issued \<lparr> rv_operation = 32, rv_capability = sample_capability \<rparr>), sample_issued)"
proof -
  have "load_existing_onboarding_preparation sample_env sample_crypto sample_state sample_request 3
      ''host'' sample_base = Inr None"
    by (simp add: load_existing_onboarding_preparation_def operation_keyed_def sample_base_def
        sample_registry_def)
  moreover have "runtime_at sample_base k = None" for k
    by (simp add: runtime_at_def sample_base_def sample_registry_def)
  ultimately show ?thesis
    by (simp add: prepare_onboarding_with_zero_timeout_def sample_base_valid sample_request_valid
        sample_generation sample_reservation committed_def)
qed

lemma sample_base_ok: "registry_ok sample_env sample_base"
  by (simp add: sample_base_def sample_defs sample_ok_defs)

end
