(* ===== verification/Consumption.thy ===== *)
theory Consumption
  imports AttemptSamples
begin

text \<open>
  An issued attempt and its one consumption: what a successful preparation leaves in the registry,
  that its token takes the Runtime over before the expiry, and that nothing else does.
\<close>

section \<open>What a preparation leaves\<close>

lemma prepared_reservation:
  assumes "prepare_onboarding_with_zero_timeout E K S L q ids db = (Inr (Issued v), db1)"
  obtains rg where "validate_onboarding_prepare_request E S q = Inr ()"
    and "load_registry_generation db = Inr rg"
    and "operation_keyed db (pq_request_key q) = None"
    and "runtime_at db (uuid_text E (pq_runtime q)) = None"
    and "reserve_attempt E K S q ids (ls_generation L) rg db = Inr (v, db1)"
proof -
  have none: "load_existing_onboarding_preparation E K S q lg rg db = Inr None \<Longrightarrow>
      operation_keyed db (pq_request_key q) = None" for lg rg
    by (auto simp: load_existing_onboarding_preparation_def split: option.splits if_splits)
  from assms show thesis
    unfolding prepare_onboarding_with_zero_timeout_def committed_Inr
    by (auto intro: that dest: none split: option.splits if_splits)
qed

text \<open>The other tables of an issued attempt: what its reservation appended.\<close>

lemma insert_onboarding_location_rows:
  assumes "insert_onboarding_location E q l fresh db = Inr db'"
  shows "identity_rows db' = identity_rows db" "workstream_rows db' = workstream_rows db"
    "runtime_rows db' = runtime_rows db" "operation_rows db' = operation_rows db"
    "target_rows db' = target_rows db"
  using assms
  unfolding insert_onboarding_location_def create_project_def bump_project_revision_def
    attach_location_def Let_def
  by (auto simp: updates_Inr update_locations_def exec_update_def insert_location_def
      insert_project_def split: option.splits if_splits)

definition issued_row :: "env \<Rightarrow> crypto \<Rightarrow> prepare_request \<Rightarrow> prepare_ids \<Rightarrow> launch_claims
     \<Rightarrow> launch_capability \<Rightarrow> string \<Rightarrow> operation_row" where
  "issued_row E K q ids claims cap expected =
     \<lparr> op_id = uuid_text E (pi_operation ids), op_request_key = pq_request_key q,
       op_kind = ''onboard'', op_phase = ''capability_issued'', op_expected = expected,
       op_watermark = None, op_outcome = None, op_revision = 2,
       op_token_id = Some (uuid_text E (pi_token ids)),
       op_token_verifier = Some (token_verifier K (cap_token cap)),
       op_token_expiry = Some (pq_expiry q),
       op_claims_digest = Some (claims_digest E K claims) \<rparr>"

lemma attempt_operation_issued:
  assumes "compound_with_id E (pi_operation ids) (pq_request_key q) Onboard expected = Inr prepared"
    and "compound_transition_onboarding E prepared onboarding_phase.CapabilityIssued None None = Inr c"
    and "issue_capability E K claims now (pq_expiry q) (pi_token ids) a b = Inr cap"
  shows "attempt_operation E c (cap_metadata cap) = issued_row E K q ids claims cap expected"
proof -
  have "c = prepared\<lparr> co_phase := operation_phase.CapabilityIssued, co_effect_watermark := None,
      co_outcome := None, co_revision := revision_next (co_revision prepared) \<rparr>"
    using assms(2) by (auto simp: compound_transition_onboarding_def)
  moreover have "co_id prepared = pi_operation ids \<and> co_request_key prepared = pq_request_key q
      \<and> co_expected_revisions prepared = expected \<and> co_revision prepared = 1"
    using assms(1) by (auto simp: compound_with_id_def revision_initial_def split: if_splits)
  moreover have "revision_next 1 = 2" by (simp add: revision_next_def i64_wrap_def)
  ultimately show ?thesis
    using issued_capability(5) [OF assms(3)] by (simp add: attempt_operation_def issued_row_def)
qed

lemma issued_attempt:
  assumes "prepare_onboarding_with_zero_timeout E K S L q ids db = (Inr (Issued v), db1)"
  obtains rg location created project claims db0
  where "validate_onboarding_prepare_request E S q = Inr ()"
    and "load_registry_generation db1 = Inr rg"
    and "onboarding_claims (pi_operation ids) location (uuid_text E (pi_generation ids)) rg
       (ls_generation L) q = Inr claims"
    and "issue_capability E K claims (pq_now q) (pq_expiry q) (pi_token ids) (pi_secret1 ids)
       (pi_secret2 ids) = Inr (rv_capability v)"
    and "rv_operation v = pi_operation ids"
    and "operation_rows db1 = operation_rows db @ [issued_row E K q ids claims (rv_capability v)
       (intent_encode E (attempt_intent E q ids (ls_generation L) rg location created project))]"
    and "uuid_text E (pi_operation ids) \<notin> op_id ` set (operation_rows db)"
    and "pq_request_key q \<notin> op_request_key ` set (operation_rows db)"
    and "runtime_join db1 (uuid_text E (pq_runtime q)) =
       Some (attempt_runtime E q ids, attempt_workstream E q ids location db0)"
    and "validate_schema15 E (st_catalog S) db1 = Inr ()"
    and "target_rows db1 = target_rows db"
  using assms
proof (rule prepared_reservation)
  fix rg
  assume q: "validate_onboarding_prepare_request E S q = Inr ()"
    and rg: "load_registry_generation db = Inr rg"
    and key: "operation_keyed db (pq_request_key q) = None"
    and rt: "runtime_at db (uuid_text E (pq_runtime q)) = None"
    and reserve: "reserve_attempt E K S q ids (ls_generation L) rg db = Inr (v, db1)"
  from reserve show thesis
  proof (cases rule: reserve_attempt_steps)
    case (1 location created project claims capability prepared c db0 db2 db3)
    from 1(7) have rows: "identity_rows db0 = identity_rows db"
      "workstream_rows db0 = workstream_rows db" "runtime_rows db0 = runtime_rows db"
      "operation_rows db0 = operation_rows db" "target_rows db0 = target_rows db"
      by (auto dest: insert_onboarding_location_rows split: if_splits)
    note p = attempt_operation_issued [OF 1(5,6,4)]
    from 1(8-10) rows have db1:
      "identity_rows db1 = identity_rows db"
      "workstream_rows db1 = workstream_rows db @ [attempt_workstream E q ids location db0]"
      "runtime_rows db1 = runtime_rows db @ [attempt_runtime E q ids]"
      "operation_rows db1 = operation_rows db @ [attempt_operation E c (cap_metadata capability)]"
      "op_id (attempt_operation E c (cap_metadata capability)) \<notin> op_id ` set (operation_rows db)"
      "uuid_text E (pi_workstream ids) \<notin> ws_id ` set (workstream_rows db)"
      "target_rows db1 = target_rows db"
      by (auto simp: insert_workstream_def insert_runtime_def insert_operation_def attempt_workstream_def)
    have "load_registry_generation db1 = Inr rg"
      using rg by (simp add: load_registry_generation_def db1)
    moreover have "pq_request_key q \<notin> op_request_key ` set (operation_rows db)"
      using key by (auto simp: operation_keyed_def dest: find_NoneD)
    moreover have "runtime_at db1 (uuid_text E (pq_runtime q)) = Some (attempt_runtime E q ids)"
      using rt by (simp add: runtime_at_def db1 find_snoc attempt_runtime_def)
    moreover have "workstream_at db1 (uuid_text E (pi_workstream ids)) =
        Some (attempt_workstream E q ids location db0)"
    proof -
      have "List.find (\<lambda>w. ws_id w = uuid_text E (pi_workstream ids)) (workstream_rows db) = None"
        using db1(6) by (force simp: find_None_iff image_iff)
      then show ?thesis by (simp add: workstream_at_def db1 find_snoc attempt_workstream_def)
    qed
    ultimately show thesis
      using that [OF q _ 1(3)] 1(4,12,13) db1(4,5,7)
      by (simp add: p runtime_join_def attempt_runtime_def issued_row_def)
  qed
qed

section \<open>Taking over\<close>

definition request_fits :: "prepare_request \<Rightarrow> lease \<Rightarrow> bool" where
  "request_fits q L \<longleftrightarrow>
     (\<forall>v \<in> {pq_presentation_revision q, ls_generation L}. - (2 ^ 63) \<le> v \<and> v \<le> i64_max)"

text \<open>The replay of an issued attempt finds it.\<close>

lemma issued_attempt_found:
  assumes "env_ok E" and "request_fits q L"
    and prep: "prepare_onboarding_with_zero_timeout E K S L q ids db = (Inr (Issued v), db1)"
    and rg: "load_registry_generation db1 = Inr rg"
  obtains found where
    "load_existing_onboarding_preparation E K S q (ls_generation L) rg db1 = Inr (Some found)"
    "er_operation found = rv_operation v" "er_runtime found = pq_runtime q"
    "er_workstream found = pi_workstream ids"
    "ws_location (snd (the (runtime_join db1 (uuid_text E (pq_runtime q))))) =
       uuid_text E (er_location found)"
proof -
  from prep show thesis
  proof (cases rule: issued_attempt)
    case (1 rg' location created project claims db0)
    with rg have [simp]: "rg' = rg" by simp
    let ?n = "attempt_intent E q ids (ls_generation L) rg location created project"
    have decode: "intent_decode E (intent_encode E ?n) = Inr ?n"
      using assms(1,2) by (intro intent_round_trip)
        (auto simp: intent_fits_def attempt_intent_def request_fits_def)
    have keyed: "operation_keyed db1 (pq_request_key q) =
        Some (issued_row E K q ids claims (rv_capability v) (intent_encode E ?n))"
    proof -
      have "List.find (\<lambda>p. op_request_key p = pq_request_key q) (operation_rows db) = None"
        using 1(8) by (force simp: find_None_iff image_iff)
      then show ?thesis by (simp add: operation_keyed_def 1(6) find_snoc issued_row_def)
    qed
    have matches: "intent_matches_request ?n q (ls_generation L) rg"
      by (simp add: intent_matches_request_def attempt_intent_def)
    from 1(1) obtain root where root: "canonical_root S = Inr root"
      "runtime_paths_eq (pq_paths q) (runtime_paths_for E root (pq_runtime q))"
      "valid_utf8 (rd_root (pq_repository q))"
      by (auto simp: validate_onboarding_prepare_request_def Let_def)
    have claims: "onboarding_claims (pi_operation ids) location (uuid_text E (pi_generation ids)) rg
        (ls_generation L) q = Inr claims"
      using 1(3) by simp
    have join: "runtime_join db1 (uuid_text E (in_runtime ?n)) =
        Some (attempt_runtime E q ids, attempt_workstream E q ids location db0)"
      using 1(9) by (simp add: attempt_intent_def)
    have "load_existing_onboarding_preparation E K S q (ls_generation L) rg db1 =
        Inr (Some \<lparr> er_operation = pi_operation ids, er_location = location,
                    er_workstream = pi_workstream ids, er_runtime = pq_runtime q \<rparr>)"
      unfolding load_existing_onboarding_preparation_def keyed option.case issued_row_def
      using decode matches join root claims assms(1)
      by (simp add: env_ok_uuid or_else_def attempt_intent_def attempt_runtime_def attempt_workstream_def)
    then show thesis
      by (rule that) (use 1(5,9) in \<open>simp_all add: attempt_workstream_def\<close>)
  qed
qed

text \<open>A consumption, step by step.\<close>

lemma consume_steps:
  assumes "consume_onboarding_with_zero_timeout E K S L q token now db = (Inr o1, db')"
  obtains rg found p token_id verifier expiry digest intent metadata claims v
  where "load_registry_generation db = Inr rg"
    and "load_existing_onboarding_preparation E K S q (ls_generation L) rg db = Inr (Some found)"
    and "List.find (\<lambda>p. op_id p = uuid_text E (er_operation found) \<and> op_kind p = ''onboard''
       \<and> op_phase p = ''capability_issued'') (operation_rows db) = Some p"
    and "op_token_id p = Some token_id" "op_token_verifier p = Some verifier"
    and "op_token_expiry p = Some expiry" "op_claims_digest p = Some digest"
    and "intent_decode E (op_expected p) = Inr intent"
    and "metadata_from_persisted E token_id verifier expiry digest = Inr metadata"
    and "onboarding_claims (er_operation found) (er_location found) (in_generation intent) rg
       (ls_generation L) q = Inr claims"
    and "verify_launch_capability E K token metadata claims now = Inr ()"
    and "next_revision (op_revision p) = Inr v"
    and "update_operations
       (\<lambda>x. op_id x = uuid_text E (er_operation found) \<and> op_kind x = ''onboard''
            \<and> op_phase x = ''capability_issued'' \<and> op_revision x = op_revision p)
       (\<lambda>x. x\<lparr> op_phase := ''runtime_owned_launching'', op_revision := v \<rparr>) db = Inr (1, db')"
    and "validate_schema15 E (st_catalog S) db' = Inr ()"
    and "o1 = \<lparr> ow_operation = er_operation found, ow_location = er_location found,
       ow_workstream = er_workstream found, ow_runtime = er_runtime found, ow_revision = v \<rparr>"
  using assms unfolding consume_onboarding_with_zero_timeout_def committed_Inr
  by (auto simp: query_row_def onboarding_transition_Inr intro!: that)

text \<open>The consumption of an issued token, evaluated.\<close>

lemma issued_token_consumed:
  assumes "env_ok E" and "crypto_ok K" and "request_fits q L"
    and "prepare_onboarding_with_zero_timeout E K S L q ids db = (Inr (Issued v), db1)"
    and "ls_revalidate L = (\<lambda>_. Inr ())" and "0 \<le> now" and "now < pq_expiry q"
  shows "\<exists>o1 db2. consume_onboarding_with_zero_timeout E K S L q (cap_token (rv_capability v)) now db1
       = (Inr o1, db2) \<and>
     ow_operation o1 = rv_operation v \<and> ow_runtime o1 = pq_runtime q \<and>
     ow_workstream o1 = pi_workstream ids \<and> ow_revision o1 = 3 \<and>
     journal_state E db2 (rv_operation v) = At onboarding_phase.RuntimeOwnedLaunching"
  using assms(4)
proof (cases rule: issued_attempt)
  case (1 rg location created project claims db0)
  let ?cap = "rv_capability v"
  let ?n = "attempt_intent E q ids (ls_generation L) rg location created project"
  let ?p = "issued_row E K q ids claims ?cap (intent_encode E ?n)"
  obtain found where found:
    "load_existing_onboarding_preparation E K S q (ls_generation L) rg db1 = Inr (Some found)"
    "er_operation found = pi_operation ids" "er_runtime found = pq_runtime q"
    "er_workstream found = pi_workstream ids" "er_location found = location"
    using issued_attempt_found [OF assms(1,3,4) 1(2)] 1(5,9) assms(1)
    by (auto simp: attempt_workstream_def uuid_text_inject)
  have fresh: "\<And>x. x \<in> set (operation_rows db) \<Longrightarrow> op_id x \<noteq> uuid_text E (pi_operation ids)"
    using 1(7) by force
  have row: "List.find (\<lambda>x. op_id x = uuid_text E (pi_operation ids) \<and> op_kind x = ''onboard''
      \<and> op_phase x = ''capability_issued'') (operation_rows db1) = Some ?p"
  proof -
    have "List.find (\<lambda>x. op_id x = uuid_text E (pi_operation ids) \<and> op_kind x = ''onboard''
      \<and> op_phase x = ''capability_issued'') (operation_rows db) = None"
      using fresh by (auto simp: find_None_iff)
    then show ?thesis by (simp add: 1(6) find_snoc issued_row_def)
  qed
  have meta: "metadata_from_persisted E (uuid_text E (pi_token ids)) (token_verifier K (cap_token ?cap))
      (pq_expiry q) (claims_digest E K claims) = Inr (cap_metadata ?cap)"
    and verified: "verify_launch_capability E K (cap_token ?cap) (cap_metadata ?cap) claims now = Inr ()"
    using issued_capability [OF 1(4)] assms(1,2,6,7) issued_token_valid [OF assms(1,2) 1(4)]
      issued_token_split [OF assms(1) 1(4)]
    by (simp_all add: metadata_from_persisted_def verify_launch_capability_def env_ok_uuid
        token_verifier_def claims_digest_def)
  have decode: "intent_decode E (intent_encode E ?n) = Inr ?n" "in_generation ?n = uuid_text E (pi_generation ids)"
    using assms(1,3) by (auto intro!: intent_round_trip
        simp: intent_fits_def attempt_intent_def request_fits_def)
  let ?P = "\<lambda>x. op_id x = uuid_text E (pi_operation ids) \<and> op_kind x = ''onboard''
      \<and> op_phase x = ''capability_issued'' \<and> op_revision x = 2"
  let ?f = "\<lambda>x. x\<lparr> op_phase := ''runtime_owned_launching'', op_revision := 3 \<rparr>"
  let ?db2 = "db1\<lparr> operation_rows := sql_update_rows ?P ?f (operation_rows db1) \<rparr>"
  have none: "filter ?P (operation_rows db) = []"
    using fresh by (auto simp: filter_empty_conv)
  have upd: "update_operations ?P ?f db1 = Inr (1, ?db2)"
    using none by (simp add: update_operations_def exec_update_def 1(6) issued_row_def sql_count_def
        row_checks)
  have "validate_schema15 E (st_catalog S) ?db2 = Inr ()"
    using 1(10)
  proof (rule moved_journal_valid [where a = onboarding_phase.CapabilityIssued
        and b = onboarding_phase.RuntimeOwnedLaunching])
    show "op_kind x = ''onboard'' \<and>
        op_phase x = operation_phase_text (to_operation_phase onboarding_phase.CapabilityIssued) \<and>
        (\<exists>w v. ?f x = x\<lparr> op_phase :=
           operation_phase_text (to_operation_phase onboarding_phase.RuntimeOwnedLaunching),
           op_watermark := w, op_revision := v \<rparr>)" if "?P x" for x
      using that by (cases x) auto
  qed (simp_all add: issued_phase_def)
  then have run: "consume_onboarding_with_zero_timeout E K S L q (cap_token ?cap) now db1 =
      (Inr \<lparr> ow_operation = pi_operation ids, ow_location = location,
             ow_workstream = pi_workstream ids, ow_runtime = pq_runtime q, ow_revision = 3 \<rparr>, ?db2)"
    unfolding consume_onboarding_with_zero_timeout_def
    using 1(1,2,3,10) found row meta verified decode upd assms(5)
    by (simp add: committed_def query_row_def issued_row_def onboarding_transition_def
        permits_onboarding_transition_def next_revision_def i64_max_def not_null_def
        read_revision_def one_row_def revision_try_from_def)
  have "operation_at ?db2 (uuid_text E (pi_operation ids)) = Some (?f ?p)"
  proof -
    have "List.find (\<lambda>x. op_id x = uuid_text E (pi_operation ids)) (operation_rows db) = None"
      using fresh by (auto simp: find_None_iff)
    then show ?thesis
      unfolding operation_at_def by (simp add: find_update_rows 1(6) find_snoc issued_row_def)
  qed
  then have "journal_state E ?db2 (pi_operation ids) = At onboarding_phase.RuntimeOwnedLaunching"
    using phase_codec.dec_enc [of operation_phase.RuntimeOwnedLaunching]
    by (simp add: journal_state_def issued_row_def phase_state_def)
  with run 1(5) show ?thesis by simp
qed

section \<open>Properties\<close>

text \<open>C16: The token of an issued attempt takes its Runtime over: at any time before the expiry the
  consumption of the token succeeds, hands back exactly the identities that were reserved, and
  moves the journal to the Runtime-owned phase.\<close>

theorem issued_token_takes_over:
  assumes "env_ok E" and "crypto_ok K" and "request_fits q L"
    and "prepare_onboarding_with_zero_timeout E K S L q ids db = (Inr (Issued v), db1)"
    and "ls_revalidate L = (\<lambda>_. Inr ())" and "0 \<le> now" and "now < pq_expiry q"
  shows "\<exists>o1 db2. consume_onboarding_with_zero_timeout E K S L q (cap_token (rv_capability v)) now db1
       = (Inr o1, db2) \<and>
     ow_operation o1 = rv_operation v \<and> ow_runtime o1 = pq_runtime q \<and>
     ow_workstream o1 = pi_workstream ids \<and> ow_revision o1 = 3 \<and>
     journal_state E db2 (rv_operation v) = At onboarding_phase.RuntimeOwnedLaunching"
  by (rule issued_token_consumed [OF assms])

lemma issued_token_takes_over_witness:
  "\<exists>o1 db2. consume_onboarding_with_zero_timeout sample_env sample_crypto sample_state sample_lease
       sample_request (cap_token sample_capability) 60004 sample_issued = (Inr o1, db2) \<and>
     ow_operation o1 = 32 \<and> ow_runtime o1 = 23 \<and>
     journal_state sample_env db2 32 = At onboarding_phase.RuntimeOwnedLaunching"
proof -
  have "request_fits sample_request sample_lease" "ls_revalidate sample_lease = (\<lambda>_. Inr ())"
    "(60004 :: int) < pq_expiry sample_request" "pq_runtime sample_request = 23"
    by (simp_all add: request_fits_def sample_request_def sample_lease_def i64_max_def)
  with issued_token_takes_over [OF sample_env_ok sample_crypto_ok _ sample_prepared, of 60004]
  show ?thesis by force
qed

end
