(* ===== verification/Progression.thy ===== *)
theory Progression
  imports Consumption
begin

text \<open>
  A Runtime-owned attempt and its owner: what the ownership proof of
  \<open>src/state/current/onboarding.rs\<close> establishes, that every advance hands the proof on to the next
  phase, and that an owner whose guards hold does advance.
\<close>

section \<open>The proof of ownership\<close>

lemma owned_transaction_Inr:
  "validate_owned_onboarding_transaction E K q lg rg o1 db = Inr (a, v) \<longleftrightarrow>
     (\<exists>p n claims r w. operation_at db (uuid_text E (ow_operation o1)) = Some p \<and>
        op_kind p = ''onboard'' \<and> op_phase p = operation_phase_text (to_operation_phase a) \<and>
        op_revision p = v \<and> ow_revision o1 = v \<and> 0 < v \<and>
        intent_decode E (op_expected p) = Inr n \<and> intent_matches_request n q lg rg \<and>
        in_location n = ow_location o1 \<and> in_workstream n = ow_workstream o1 \<and>
        in_runtime n = ow_runtime o1 \<and>
        onboarding_claims (ow_operation o1) (in_location n) (in_generation n) rg lg q = Inr claims \<and>
        op_claims_digest p = Some (claims_digest E K claims) \<and>
        runtime_join db (uuid_text E (ow_runtime o1)) = Some (r, w) \<and>
        valid_utf8 (rd_root (pq_repository q)) \<and>
        rt_workstream r = uuid_text E (ow_workstream o1) \<and>
        ws_location w = uuid_text E (ow_location o1) \<and>
        rt_provider r = provider_kind_text (pq_provider q) \<and> rt_generation r = in_generation n \<and>
        rt_session r = rp_session_name (pq_paths q) \<and> rt_cwd r = rd_root (pq_repository q))"
  unfolding validate_owned_onboarding_transaction_def
  by (auto simp: from_operation_phase_Some phase_codec.dec_iff split: prod.splits)

text \<open>The ownership goes with the journal row to another phase.\<close>

lemma owned_moves:
  assumes "validate_owned_onboarding_transaction E K q lg rg o1 db = Inr (a, v)"
    and "operation_at db (uuid_text E (ow_operation o1)) = Some p"
    and "operation_at db' (uuid_text E (ow_operation o1)) =
      Some (p\<lparr> op_phase := operation_phase_text (to_operation_phase b), op_watermark := wm,
              op_revision := n \<rparr>)"
    and "runtime_rows db' = runtime_rows db" and "workstream_rows db' = workstream_rows db"
    and "0 < n"
  shows "validate_owned_onboarding_transaction E K q lg rg (o1\<lparr> ow_revision := n \<rparr>) db' = Inr (b, n)"
proof -
  have "runtime_join db' = runtime_join db"
    by (simp add: fun_eq_iff runtime_join_def runtime_at_def workstream_at_def assms(4,5)
        split: option.split)
  with assms(1-3,6) show ?thesis unfolding owned_transaction_Inr by auto
qed

lemma owned_runtime_joined:
  assumes "runtime_join db (uuid_text E (ow_runtime o1)) = Some (r, w)"
    and "rt_workstream r = uuid_text E (ow_workstream o1)"
    and "distinct (map rt_id (runtime_rows db))"
  shows "owned_runtime E o1 db = Some r"
proof -
  from assms(1) have "runtime_at db (uuid_text E (ow_runtime o1)) = Some r"
    by (auto simp: runtime_join_def split: option.splits)
  then have r: "r \<in> set (runtime_rows db)" "rt_id r = uuid_text E (ow_runtime o1)"
    unfolding runtime_at_def by (auto dest: find_SomeD)
  have one: "\<And>x. x \<in> set (runtime_rows db) \<Longrightarrow> rt_id x = rt_id r \<Longrightarrow> x = r"
    using assms(3) r(1) unfolding distinct_map inj_on_def by blast
  have "\<exists>x. List.find (\<lambda>r. rt_id r = uuid_text E (ow_runtime o1)
       \<and> rt_workstream r = uuid_text E (ow_workstream o1)) (runtime_rows db) = Some x"
    using r assms(2) by (metis (mono_tags, lifting) find_None_iff not_None_eq)
  then show ?thesis
    unfolding owned_runtime_def using one r(2) by (auto dest: find_SomeD)
qed

section \<open>The journal row of an advance\<close>

definition advanced_row :: "operation_row \<Rightarrow> onboarding_advance \<Rightarrow> int \<Rightarrow> operation_row" where
  "advanced_row p a n =
     p\<lparr> op_phase := operation_phase_text (to_operation_phase (advance_next a)),
        op_watermark := (case effect_watermark a of None \<Rightarrow> op_watermark p | Some w \<Rightarrow> Some w),
        op_revision := n \<rparr>"

lemma operation_at_Some:
  assumes "operation_at db k = Some p"
  shows "p \<in> set (operation_rows db)" "op_id p = k"
  using assms by (auto simp: operation_at_def dest: find_SomeD)

lemma single_row_update:
  assumes "distinct (map key rows)" and "p \<in> set rows" and "P p" and "\<And>x. P x \<Longrightarrow> key x = key p"
  shows "sql_count P rows = Suc 0" "filter P rows = [p]"
proof -
  show "filter P rows = [p]"
    using assms
  proof (induction rows)
    case (Cons x rows)
    show ?case
    proof (cases "x = p")
      case True
      have "\<not> P y" if "y \<in> set rows" for y
      proof
        assume "P y"
        then have "key y = key x" using Cons.prems(4) True by blast
        with that Cons.prems(1) show False by (metis imageI list.set_map distinct.simps(2) list.simps(9))
      qed
      then have "filter P rows = []" by (simp add: filter_empty_conv)
      with True Cons.prems(3) show ?thesis by simp
    next
      case False
      with Cons.prems(2) have p: "p \<in> set rows" by simp
      then have "key p \<noteq> key x" using Cons.prems(1) by (auto simp: image_iff)
      with Cons.prems(4) [of x] have "\<not> P x" by auto
      with Cons.IH [OF _ p Cons.prems(3,4)] Cons.prems(1) show ?thesis by simp
    qed
  qed simp
  then show "sql_count P rows = Suc 0" by (simp add: sql_count_def)
qed

lemma advance_update_writes:
  assumes "operation_at db (uuid_text E (ow_operation o1)) = Some p"
    and "distinct (map op_id (operation_rows db))" and "op_kind p = ''onboard''"
    and "op_phase p = operation_phase_text (to_operation_phase a)" and "op_revision p = v"
    and "effect_watermark adv = None \<or> op_watermark p = None \<and> op_outcome p = None"
    and "0 < n"
  obtains P f where "advance_update E o1 adv a v n db =
      Inr (1, db\<lparr> operation_rows := sql_update_rows P f (operation_rows db) \<rparr>)"
    and "\<And>x. P x \<Longrightarrow> op_kind x = ''onboard''
       \<and> op_phase x = operation_phase_text (to_operation_phase a)
       \<and> f x = advanced_row x adv n"
    and "operation_at (db\<lparr> operation_rows := sql_update_rows P f (operation_rows db) \<rparr>)
       (uuid_text E (ow_operation o1)) = Some (advanced_row p adv n)"
proof -
  let ?here = "\<lambda>x. op_id x = uuid_text E (ow_operation o1) \<and> op_kind x = ''onboard''
       \<and> op_phase x = operation_phase_text (to_operation_phase a) \<and> op_revision x = v"
  let ?P = "\<lambda>x. ?here x \<and> (effect_watermark adv = None \<or> op_watermark x = None \<and> op_outcome x = None)"
  let ?f = "\<lambda>x. advanced_row x adv n"
  note p = operation_at_Some [OF assms(1)]
  note one = single_row_update [where key = op_id and P = ?P, OF assms(2) p(1)]
  have hit: "?P p" using p(2) assms(3-6) by simp
  then have upd: "update_operations ?P ?f db =
      Inr (1, db\<lparr> operation_rows := sql_update_rows ?P ?f (operation_rows db) \<rparr>)"
    using one p(2) assms(7)
    by (simp add: update_operations_def exec_update_def advanced_row_def row_checks)
  have "advance_update E o1 adv a v n db = update_operations ?P ?f db"
  proof (cases "effect_watermark adv")
    case None
    then have "advanced_row x adv n = x\<lparr> op_phase :=
        operation_phase_text (to_operation_phase (advance_next adv)), op_revision := n \<rparr>" for x
      by (cases x) (simp add: advanced_row_def)
    with None show ?thesis by (simp add: advance_update_def Let_def)
  next
    case (Some w)
    then show ?thesis by (simp add: advance_update_def Let_def advanced_row_def conj_assoc)
  qed
  moreover have "operation_at (db\<lparr> operation_rows := sql_update_rows ?P ?f (operation_rows db) \<rparr>)
       (uuid_text E (ow_operation o1)) = Some (advanced_row p adv n)"
    using assms(1) hit by (simp add: operation_at_def find_update_rows advanced_row_def)
  ultimately show thesis using upd by (intro that [of ?P ?f]) simp_all
qed

section \<open>The target of the exec\<close>

lemma provider_parse_text [simp]: "provider_kind_parse (provider_kind_text k) = Inr k"
  by (cases k) (simp_all add: provider_kind_parse_def)

text \<open>The target that an owner records is one that the validator accepts.\<close>

lemma inserted_target_valid:
  assumes valid: "validate_schema15 E cat db = Inr ()"
    and at: "operation_at db (uuid_text E i) = Some p" and ids: "distinct (map op_id (operation_rows db))"
    and "env_ok E" and p: "op_kind p = ''onboard''"
      "op_phase p = operation_phase_text (to_operation_phase a)"
      "intent_decode E (op_expected p) = Inr n" "in_version n = 1"
    and t: "tg_operation t = uuid_text E i" "tg_provider t = provider_kind_text (in_provider n)"
      "read_executable_identity (tg_device t) (tg_inode t) = Inr x"
  shows "validate_schema15 E cat (db\<lparr> target_rows := target_rows db @ [t] \<rparr>) = Inr ()"
proof -
  let ?db = "db\<lparr> target_rows := target_rows db @ [t] \<rparr>"
  note row = operation_at_Some [OF at]
  have only: "y = p" if "y \<in> set (operation_rows db)" "op_id y = tg_operation t" for y
    using ids that row t(1) unfolding distinct_map inj_on_def by metis
  have "to_operation_phase a \<noteq> Committed" by (cases a) simp_all
  then have "validate_target_row E (t, p) = Inr ()"
    using p t assms(4)
    by (simp add: validate_target_row_def phase_codec.dec_enc env_ok_uuid from_operation_phase_Some)
  then have "journal_rows_valid E ?db"
    using valid only
    by (auto simp: validate_schema15_Inr journal_rows_valid_def
        reject_unresolved_retired_fork_effect_def)
  moreover have "host_rows_valid E ?db = host_rows_valid E db"
    by (simp add: host_rows_valid_def validate_host_identity_def validate_operational_metadata_def)
  moreover have "project_rows_valid E ?db = project_rows_valid E db"
    by (simp add: project_rows_valid_def validated_project project_sources_def project_members_def)
  moreover have "tg_operation t \<in> op_id ` set (operation_rows db)"
    using row t(1) by force
  then have "foreign_keys_hold ?db"
    using valid by (auto simp: validate_schema15_Inr foreign_keys_hold_def)
  ultimately show ?thesis using valid by (simp add: validate_schema15_Inr)
qed

definition target_of :: "env \<Rightarrow> prepare_request \<Rightarrow> ownership \<Rightarrow> executable_identity option \<Rightarrow> target_row list" where
  "target_of E q o1 x =
     (case x of
        None \<Rightarrow> []
      | Some y \<Rightarrow>
          [\<lparr> tg_operation = uuid_text E (ow_operation o1),
             tg_provider = provider_kind_text (pq_provider q), tg_device = uint (xi_device y),
             tg_inode = uint (xi_inode y) \<rparr>])"

text \<open>An executable is recorded exactly on the way into the provider preparation.\<close>

definition target_fits :: "env \<Rightarrow> ownership \<Rightarrow> onboarding_advance \<Rightarrow> executable_identity option \<Rightarrow> registry \<Rightarrow> bool" where
  "target_fits E o1 adv x db \<longleftrightarrow>
     (case x of
        None \<Rightarrow> advance_next adv \<noteq> onboarding_phase.ProviderPreparation
      | Some y \<Rightarrow> advance_next adv = onboarding_phase.ProviderPreparation
          \<and> executable_identity_new (xi_device y) (xi_inode y) = Inr y
          \<and> uuid_text E (ow_operation o1) \<notin> tg_operation ` set (target_rows db))"

definition advance_guards :: "env \<Rightarrow> prepare_request \<Rightarrow> ownership \<Rightarrow> onboarding_advance \<Rightarrow> registry \<Rightarrow> bool" where
  "advance_guards E q o1 adv db \<longleftrightarrow>
     (adv = CodexExecFailedKnownAbsent \<longrightarrow> validate_codex_known_absence E o1 db = Inr ()) \<and>
     (adv = OpenCodeExternalEffectStarted \<longrightarrow> validate_opencode_external_effect E o1 db = Inr ()) \<and>
     (advance_next adv = onboarding_phase.ProviderExecStarted \<longrightarrow>
        validate_provider_exec_start E o1 (pq_provider q) db = Inr ())"

lemma target_inserted:
  assumes "target_fits E o1 adv x db" and "uuid_text E (ow_operation o1) \<in> op_id ` set (operation_rows db)"
  shows "(case x of None \<Rightarrow> Inr db | Some y \<Rightarrow> insert_exec_target E o1 (pq_provider q) y db) =
    Inr (db\<lparr> target_rows := target_rows db @ target_of E q o1 x \<rparr>)"
  using assms range_provider_text [of "provider_kind_text (pq_provider q)"]
  by (cases x)
    (auto simp: target_fits_def target_of_def insert_exec_target_def insert_target_def constrained_def
      target_check_def executable_identity_new_def i64_try_from_u64_def word_neq_0_conv
      word_less_def split: if_splits)

lemma advance_succeeds:
  assumes ok: "env_ok E" "registry_ok E db" and L: "ls_revalidate L = (\<lambda>_. Inr ())"
    and gate: "request_gate E S L q db = Inr ()" and rg: "load_registry_generation db = Inr rg"
    and own: "validate_owned_onboarding_transaction E K q (ls_generation L) rg o1 db
      = Inr (a, ow_revision o1)"
    and at: "operation_at db (uuid_text E (ow_operation o1)) = Some p"
    and graph: "permits_onboarding_transition a (advance_next adv)" "issued_phase a"
      "issued_phase (advance_next adv)"
    and free: "effect_watermark adv = None \<or> op_watermark p = None \<and> op_outcome p = None"
    and guards: "advance_guards E q o1 adv db" and x: "target_fits E o1 adv x db"
    and v: "ow_revision o1 < i64_max"
  obtains db' where
    "advance_onboarding_with_zero_timeout E K S L q o1 adv x db =
       (Inr (o1\<lparr> ow_revision := ow_revision o1 + 1 \<rparr>), db')"
    and "operation_at db' (uuid_text E (ow_operation o1)) = Some (advanced_row p adv (ow_revision o1 + 1))"
    and "\<exists>rows. db' = db\<lparr> operation_rows := rows, target_rows := target_rows db @ target_of E q o1 x \<rparr>"
    and "request_gate E S L q db' = Inr ()"
proof -
  let ?n = "ow_revision o1 + 1"
  from own at obtain n where p: "op_kind p = ''onboard''"
    "op_phase p = operation_phase_text (to_operation_phase a)" "op_revision p = ow_revision o1"
    "0 < ow_revision o1" "intent_decode E (op_expected p) = Inr n"
    "intent_matches_request n q (ls_generation L) rg"
    by (auto simp: owned_transaction_Inr)
  note keys = registry_ok_keys(6) [OF ok(2)]
  from p(4) have n: "0 < ?n" by simp
  obtain P f where upd: "advance_update E o1 adv a (ow_revision o1) ?n db =
        Inr (1, db\<lparr> operation_rows := sql_update_rows P f (operation_rows db) \<rparr>)"
    and move: "\<And>x. P x \<Longrightarrow> op_kind x = ''onboard''
       \<and> op_phase x = operation_phase_text (to_operation_phase a) \<and> f x = advanced_row x adv ?n"
    and at1: "operation_at (db\<lparr> operation_rows := sql_update_rows P f (operation_rows db) \<rparr>)
       (uuid_text E (ow_operation o1)) = Some (advanced_row p adv ?n)"
    by (rule advance_update_writes [OF at keys p(1-3) free n]) blast
  let ?db1 = "db\<lparr> operation_rows := sql_update_rows P f (operation_rows db) \<rparr>"
  let ?db2 = "?db1\<lparr> target_rows := target_rows ?db1 @ target_of E q o1 x \<rparr>"
  from gate have valid: "validate_schema15 E (st_catalog S) db = Inr ()" by (simp add: request_gate_def)
  have valid1: "validate_schema15 E (st_catalog S) ?db1 = Inr ()"
  proof (rule moved_journal_valid [OF valid _ graph(2,3) refl])
    fix y assume "P y"
    with move [OF this] show "op_kind y = ''onboard''
        \<and> op_phase y = operation_phase_text (to_operation_phase a)
        \<and> (\<exists>w v. f y = y\<lparr> op_phase := operation_phase_text (to_operation_phase (advance_next adv)),
             op_watermark := w, op_revision := v \<rparr>)"
      by (metis advanced_row_def)
  qed
  from operation_at_Some [OF at1] have "uuid_text E (ow_operation o1) \<in> op_id ` set (operation_rows ?db1)" by force
  with x have target: "(case x of None \<Rightarrow> Inr ?db1
      | Some y \<Rightarrow> insert_exec_target E o1 (pq_provider q) y ?db1) = Inr ?db2"
    by (intro target_inserted [where adv = adv]) (simp_all add: target_fits_def split: option.splits)
  have keys1: "distinct (map op_id (operation_rows ?db1))"
    using advance_update_keeps [OF upd ok(2)] registry_ok_keys(6) by blast
  have valid2: "validate_schema15 E (st_catalog S) ?db2 = Inr ()"
  proof (cases x)
    case None
    with valid1 show ?thesis by (simp add: target_of_def)
  next
    case (Some y)
    with x have "executable_identity_new (xi_device y) (xi_inode y) = Inr y"
      by (simp add: target_fits_def)
    from executable_identity_round_trip [OF this] p(1,5,6) show ?thesis
      unfolding Some target_of_def option.case
      by (intro inserted_target_valid [OF valid1 at1 keys1 ok(1), where a = "advance_next adv"
            and n = n and x = y])
        (simp_all add: advanced_row_def intent_matches_request_def)
  qed
  have bodies: "(if adv = CodexExecFailedKnownAbsent then validate_codex_known_absence E o1 db else Inr ()) = Inr ()"
    "(if adv = OpenCodeExternalEffectStarted then validate_opencode_external_effect E o1 db else Inr ()) = Inr ()"
    "(if advance_next adv = onboarding_phase.ProviderExecStarted
      then validate_provider_exec_start E o1 (pq_provider q) db else Inr ()) = Inr ()"
    using guards by (simp_all add: advance_guards_def)
  have shape: "\<not> (advance_next adv = onboarding_phase.ProviderPreparation \<and> x = None)"
    "\<not> (advance_next adv \<noteq> onboarding_phase.ProviderPreparation \<and> x \<noteq> None)"
    using x by (auto simp: target_fits_def split: option.splits)
  have step: "next_revision (ow_revision o1) = Inr ?n"
    using p(4) v by (simp add: next_revision_def revision_try_from_def)
  have "advance_transaction E K S L q o1 adv x db = Inr (o1\<lparr> ow_revision := ?n \<rparr>, ?db2)"
    unfolding advance_transaction_def Let_def rg own and_then_simps prod.case if_not_P [OF shape(1)]
      if_not_P [OF shape(2)] bodies step upd
    using graph(1) target valid2 L by (simp add: onboarding_transition_def)
  with gate L have "advance_onboarding_with_zero_timeout E K S L q o1 adv x db =
      (Inr (o1\<lparr> ow_revision := ?n \<rparr>), ?db2)"
    by (simp add: advance_onboarding_with_zero_timeout_def committed_def)
  moreover have "operation_at ?db2 (uuid_text E (ow_operation o1)) = Some (advanced_row p adv ?n)"
    using at1 by (simp add: operation_at_def)
  moreover have "request_gate E S L q ?db2 = Inr ()"
    using gate valid2 by (simp add: request_gate_def)
  ultimately show thesis by (intro that [of ?db2]) auto
qed

section \<open>The consumer is the owner\<close>

lemma load_existing_Some:
  assumes "load_existing_onboarding_preparation E K S q lg rg db = Inr (Some found)"
  obtains p n r w claims where "operation_keyed db (pq_request_key q) = Some p"
    and "op_kind p = ''onboard''" "op_phase p = ''capability_issued''"
    and "uuid_parse E (op_id p) = Some (er_operation found)"
    and "intent_decode E (op_expected p) = Inr n" "intent_matches_request n q lg rg"
    and "in_location n = er_location found" "in_workstream n = er_workstream found"
    and "in_runtime n = er_runtime found"
    and "runtime_join db (uuid_text E (er_runtime found)) = Some (r, w)"
    and "valid_utf8 (rd_root (pq_repository q))"
    and "rt_workstream r = uuid_text E (er_workstream found)"
    and "ws_location w = uuid_text E (er_location found)"
    and "rt_provider r = provider_kind_text (pq_provider q)" "rt_generation r = in_generation n"
    and "rt_session r = rp_session_name (pq_paths q)" "rt_cwd r = rd_root (pq_repository q)"
    and "onboarding_claims (er_operation found) (er_location found) (in_generation n) rg lg q = Inr claims"
    and "op_claims_digest p = Some (claims_digest E K claims)"
  using assms
  unfolding load_existing_onboarding_preparation_def
  by (auto simp: or_else_def intent_matches_request_def intro!: that
      split: option.splits if_splits prod.splits)

lemma consume_owned:
  assumes "env_ok E" and "registry_ok E db"
    and "consume_onboarding_with_zero_timeout E K S L q token now db = (Inr o1, db')"
  obtains rg p where "load_registry_generation db' = Inr rg"
    and "validate_owned_onboarding_transaction E K q (ls_generation L) rg o1 db' =
      Inr (onboarding_phase.RuntimeOwnedLaunching, ow_revision o1)"
    and "operation_at db (uuid_text E (ow_operation o1)) = Some p"
    and "operation_at db' (uuid_text E (ow_operation o1)) = Some
      (p\<lparr> op_phase := ''runtime_owned_launching'', op_revision := ow_revision o1 \<rparr>)"
    and "\<exists>rows. db' = db\<lparr> operation_rows := rows \<rparr>"
    and "validate_schema15 E (st_catalog S) db' = Inr ()"
    and "validate_onboarding_prepare_request E S q = Inr ()"
  using assms(3)
proof (cases rule: consume_steps)
  case (1 rg found p token_id verifier expiry digest intent metadata claims v)
  from 1(2) obtain p0 n r w cl where ex: "operation_keyed db (pq_request_key q) = Some p0"
    "op_kind p0 = ''onboard''" "op_phase p0 = ''capability_issued''"
    "uuid_parse E (op_id p0) = Some (er_operation found)"
    "intent_decode E (op_expected p0) = Inr n" "intent_matches_request n q (ls_generation L) rg"
    "in_location n = er_location found" "in_workstream n = er_workstream found"
    "in_runtime n = er_runtime found"
    "runtime_join db (uuid_text E (er_runtime found)) = Some (r, w)"
    "valid_utf8 (rd_root (pq_repository q))"
    "rt_workstream r = uuid_text E (er_workstream found)"
    "ws_location w = uuid_text E (er_location found)"
    "rt_provider r = provider_kind_text (pq_provider q)" "rt_generation r = in_generation n"
    "rt_session r = rp_session_name (pq_paths q)" "rt_cwd r = rd_root (pq_repository q)"
    "onboarding_claims (er_operation found) (er_location found) (in_generation n) rg (ls_generation L) q = Inr cl"
    "op_claims_digest p0 = Some (claims_digest E K cl)"
    by (rule load_existing_Some) blast
  have p0: "p0 \<in> set (operation_rows db)"
    using ex(1) by (auto simp: operation_keyed_def dest: find_SomeD)
  have id: "op_id p0 = uuid_text E (er_operation found)"
    using registry_ok_rows(5) [OF assms(2) p0] ex(4) assms(1)
    by (auto simp: operation_row_ok_def canonical_parse)
  have p: "p \<in> set (operation_rows db)" "op_id p = uuid_text E (er_operation found)"
    using 1(3) by (auto dest: find_SomeD)
  have same: "p = p0"
    using registry_ok_keys(6) [OF assms(2)] p p0 id unfolding distinct_map inj_on_def by metis
  have at: "operation_at db (uuid_text E (ow_operation o1)) = Some p"
    unfolding operation_at_def
    using find_Some_iff_distinct [OF registry_ok_keys(6) [OF assms(2)] p(1)] p(2) 1(15) by simp
  have db': "db' = db\<lparr> operation_rows := operation_rows db' \<rparr>"
    using 1(13) by (auto simp: updates_Inr)
  have v: "0 < v" using 1(12) by (auto simp: next_revision_def revision_try_from_def split: if_splits)
  have at': "operation_at db' (uuid_text E (ow_operation o1)) = Some
      (p\<lparr> op_phase := ''runtime_owned_launching'', op_revision := v \<rparr>)"
  proof -
    from 1(13) have rows: "operation_rows db' = sql_update_rows
       (\<lambda>x. op_id x = uuid_text E (er_operation found) \<and> op_kind x = ''onboard''
            \<and> op_phase x = ''capability_issued'' \<and> op_revision x = op_revision p)
       (\<lambda>x. x\<lparr> op_phase := ''runtime_owned_launching'', op_revision := v \<rparr>) (operation_rows db)"
      by (auto simp: updates_Inr)
    show ?thesis
      using at p(2) ex(2,3) same unfolding operation_at_def rows by (simp add: find_update_rows)
  qed
  have "runtime_join db' = runtime_join db"
    by (subst db') (simp add: fun_eq_iff runtime_join_def runtime_at_def workstream_at_def
        split: option.split)
  then have own: "validate_owned_onboarding_transaction E K q (ls_generation L) rg o1 db' =
      Inr (onboarding_phase.RuntimeOwnedLaunching, ow_revision o1)"
    unfolding owned_transaction_Inr using at' ex same 1(15) v by simp
  have generation: "load_registry_generation db' = Inr rg"
    using 1(1) by (subst db') (simp add: load_registry_generation_def)
  have request: "validate_onboarding_prepare_request E S q = Inr ()"
    using assms(3) unfolding consume_onboarding_with_zero_timeout_def committed_Inr by auto
  have journal: "\<exists>rows. db' = db\<lparr> operation_rows := rows \<rparr>" using db' by blast
  show thesis
    by (rule that [OF generation own at _ journal 1(14) request]) (use at' 1(15) in simp)
qed

end
