(* ===== verification/Launch.thy ===== *)
theory Launch
  imports Progression
begin

text \<open>
  A Codex attempt from its issued token to the proven exec: every transaction of the hand-off, run
  in order on the registry that the previous one left, succeeds.
\<close>

section \<open>The exec proof of an owned attempt\<close>

lemma exec_target_owned:
  assumes "env_ok E"
    and own: "validate_owned_onboarding_transaction E K q lg rg o1 db =
      Inr (onboarding_phase.ProviderExecStarted, ow_revision o1)"
    and q: "validate_onboarding_prepare_request E S q = Inr ()"
    and t: "List.find (\<lambda>t. tg_operation t = uuid_text E (ow_operation o1)) (target_rows db) = Some t"
      "tg_provider t = provider_kind_text (pq_provider q)"
      "read_executable_identity (tg_device t) (tg_inode t) = Inr x"
    and r: "runtime_join db (uuid_text E (ow_runtime o1)) = Some (r, w)"
      "rt_pid r = None" "rt_birth r = None" "rt_lifecycle r = ''starting''"
  obtains target where
    "load_exec_proof_target E S (ow_operation o1) onboarding_phase.ProviderExecStarted db = Inr target"
    "xt_ownership target = o1" "xt_provider target = pq_provider q"
proof -
  from q obtain root where root: "canonical_root S = Inr root"
    "runtime_paths_eq (pq_paths q) (runtime_paths_for E root (pq_runtime q))"
    "is_normalized_absolute_path (rd_root (pq_repository q))"
    by (auto simp: validate_onboarding_prepare_request_def Let_def)
  from own r(1) obtain p n where p: "operation_at db (uuid_text E (ow_operation o1)) = Some p"
    "op_kind p = ''onboard''"
    "op_phase p = operation_phase_text (to_operation_phase onboarding_phase.ProviderExecStarted)"
    "op_revision p = ow_revision o1" "0 < ow_revision o1"
    "intent_decode E (op_expected p) = Inr n" "intent_matches_request n q lg rg"
    "in_location n = ow_location o1" "in_workstream n = ow_workstream o1"
    "in_runtime n = ow_runtime o1" "rt_workstream r = uuid_text E (ow_workstream o1)"
    "ws_location w = uuid_text E (ow_location o1)"
    "rt_provider r = provider_kind_text (pq_provider q)" "rt_generation r = in_generation n"
    "rt_session r = rp_session_name (pq_paths q)" "rt_cwd r = rd_root (pq_repository q)"
    unfolding owned_transaction_Inr by force
  have matches: "process_identity_matches onboarding_phase.ProviderExecStarted k r = Inr True" for k
    using r(2-4) by (simp add: process_identity_matches_def)
  have names: "rp_session_name (pq_paths q) = rp_session_name (runtime_paths_for E root (pq_runtime q))"
    using root(2) by (simp add: runtime_paths_eq_def)
  show thesis
    by (rule that [of "\<lparr> xt_ownership = o1, xt_provider = pq_provider q,
          xt_project_root = rt_cwd r, xt_generation = rt_generation r, xt_executable = x \<rparr>"])
      (use p root t r(1) matches names in
        \<open>simp_all add: load_exec_proof_target_def intent_matches_request_def read_revision_def revision_try_from_def\<close>)
qed

lemma exec_proven_succeeds:
  assumes ok: "env_ok E" "registry_ok E db" and L: "ls_revalidate L = (\<lambda>_. Inr ())"
    and gate: "plain_gate E S L db = Inr ()"
    and target: "load_exec_proof_target E S (ow_operation o1) onboarding_phase.ProviderExecStarted db
      = Inr target" "xt_ownership target = o1" "xt_provider target = Codex"
    and at: "operation_at db (uuid_text E (ow_operation o1)) = Some p" "op_kind p = ''onboard''"
      "op_phase p = ''provider_exec_started''" "op_revision p = ow_revision o1"
    and r: "owned_runtime E o1 db = Some r" "rt_pid r = None" "rt_birth r = None"
      "rt_lifecycle r = ''starting''"
    and v: "0 < ow_revision o1" "ow_revision o1 < i64_max" "rt_revision r < i64_max"
  obtains db' where
    "record_provider_exec_proven_with_zero_timeout E S L o1 x db =
       (Inr (o1\<lparr> ow_revision := ow_revision o1 + 1 \<rparr>), db')"
proof -
  note row = owned_runtime_Some [OF r(1)]
  have rv: "0 < rt_revision r"
    using registry_ok_rows(2) [OF ok(2) conjunct1 [OF row]] by (simp add: runtime_row_ok_def runtime_check_def)
  let ?R = "\<lambda>x. rt_id x = uuid_text E (ow_runtime o1) \<and> rt_workstream x = uuid_text E (ow_workstream o1)
       \<and> rt_pid x = None \<and> rt_birth x = None \<and> rt_lifecycle x = ''starting''
       \<and> rt_revision x = rt_revision r"
  let ?g = "\<lambda>y. y\<lparr> rt_pid := Some (uint (xe_pid x)), rt_birth := Some (xe_birth x),
       rt_revision := rt_revision r + 1 \<rparr>"
  let ?db1 = "db\<lparr> runtime_rows := sql_update_rows ?R ?g (runtime_rows db) \<rparr>"
  note oneR = single_row_update [where key = rt_id and P = ?R and p = r,
      OF registry_ok_keys(2) [OF ok(2)] conjunct1 [OF row]]
  have "update_runtimes ?R ?g db = Inr (1, ?db1)"
    using oneR row r(2-4) rv by (simp add: update_runtimes_def exec_update_def row_checks)
  then have identity: "record_exec_identity E o1 x r db = Inr ?db1"
    using r(2,3) rv v(3)
    by (simp add: record_exec_identity_def read_revision_def next_revision_def revision_try_from_def)
  let ?P = "\<lambda>y. op_id y = uuid_text E (ow_operation o1) \<and> op_kind y = ''onboard''
       \<and> op_phase y = ''provider_exec_started'' \<and> op_revision y = ow_revision o1"
  let ?f = "\<lambda>y. y\<lparr> op_phase := ''provider_exec_proven'', op_revision := ow_revision o1 + 1 \<rparr>"
  let ?db2 = "?db1\<lparr> operation_rows := sql_update_rows ?P ?f (operation_rows ?db1) \<rparr>"
  note p = operation_at_Some [OF at(1)]
  note oneP = single_row_update [where key = op_id and P = ?P and p = p,
      OF registry_ok_keys(6) [OF ok(2)] p(1)]
  have journal: "update_operations ?P ?f ?db1 = Inr (1, ?db2)"
    using oneP p at v(1) by (simp add: update_operations_def exec_update_def row_checks)
  from gate have valid: "validate_schema15 E (st_catalog S) db = Inr ()" by (simp add: plain_gate_def)
  have "map rt_id (runtime_rows ?db1) = map rt_id (runtime_rows db)"
    "map rt_workstream (runtime_rows ?db1) = map rt_workstream (runtime_rows db)"
    by (simp_all add: map_key_update_rows)
  note ids = this [THEN image_map_eq]
  have "foreign_keys_hold ?db1 = foreign_keys_hold db"
    using ids by (simp add: foreign_keys_hold_def)
  moreover have "host_rows_valid E ?db1 = host_rows_valid E db"
    by (simp add: host_rows_valid_def validate_host_identity_def validate_operational_metadata_def)
  moreover have "project_rows_valid E ?db1 = project_rows_valid E db"
    by (simp add: project_rows_valid_def validated_project project_sources_def project_members_def)
  moreover have "journal_rows_valid E ?db1 = journal_rows_valid E db"
    by (simp add: journal_rows_valid_def reject_unresolved_retired_fork_effect_def)
  ultimately have valid1: "validate_schema15 E (st_catalog S) ?db1 = Inr ()"
    using valid by (simp add: validate_schema15_Inr)
  have valid2: "validate_schema15 E (st_catalog S) ?db2 = Inr ()"
    using valid1
  proof (rule moved_journal_valid [where a = onboarding_phase.ProviderExecStarted
        and b = onboarding_phase.ProviderExecProven])
    show "op_kind y = ''onboard'' \<and>
        op_phase y = operation_phase_text (to_operation_phase onboarding_phase.ProviderExecStarted) \<and>
        (\<exists>w v. ?f y = y\<lparr> op_phase :=
           operation_phase_text (to_operation_phase onboarding_phase.ProviderExecProven),
           op_watermark := w, op_revision := v \<rparr>)" if "?P y" for y
      using that by (cases y) auto
  qed (simp_all add: issued_phase_def)
  have step: "next_revision (ow_revision o1) = Inr (ow_revision o1 + 1)"
    using v(1,2) by (simp add: next_revision_def revision_try_from_def)
  have "record_provider_exec_proven_with_zero_timeout E S L o1 x db =
      (Inr (o1\<lparr> ow_revision := ow_revision o1 + 1 \<rparr>), ?db2)"
    unfolding record_provider_exec_proven_with_zero_timeout_def
    using gate target r(1,4) identity journal valid2 L step rv
    by (simp add: committed_def read_revision_def revision_try_from_def one_row_def)
  then show thesis by (rule that)
qed

section \<open>The hand-off of an issued attempt\<close>

text \<open>Nothing of an issued attempt exists before it: its exec target is still to be recorded.\<close>

lemma issued_attempt_untargeted:
  assumes "registry_ok E db"
    and "prepare_onboarding_with_zero_timeout E K S L q ids db = (Inr (Issued v), db1)"
  shows "uuid_text E (rv_operation v) \<notin> tg_operation ` set (target_rows db1)"
    and "\<exists>p. operation_at db1 (uuid_text E (rv_operation v)) = Some p \<and> op_watermark p = None
      \<and> op_outcome p = None"
    and "\<exists>w. runtime_join db1 (uuid_text E (pq_runtime q)) = Some (attempt_runtime E q ids, w)"
proof -
  from assms(2) show "uuid_text E (rv_operation v) \<notin> tg_operation ` set (target_rows db1)"
    using assms(1) by (cases rule: issued_attempt) (auto simp: registry_ok_def foreign_keys_hold_def)
  from assms(2) show "\<exists>p. operation_at db1 (uuid_text E (rv_operation v)) = Some p \<and>
      op_watermark p = None \<and> op_outcome p = None"
  proof (cases rule: issued_attempt)
    case (1 rg location created project claims db0)
    have "List.find (\<lambda>p. op_id p = uuid_text E (pi_operation ids)) (operation_rows db) = None"
      using 1(7) by (force simp: find_None_iff image_iff)
    with 1(5,6) show ?thesis by (simp add: operation_at_def find_snoc issued_row_def)
  qed
  from assms(2) show "\<exists>w. runtime_join db1 (uuid_text E (pq_runtime q)) = Some (attempt_runtime E q ids, w)"
    by (cases rule: issued_attempt) blast
qed

lemma runtime_join_journal:
  "runtime_join (db\<lparr> operation_rows := ps, target_rows := ts \<rparr>) k = runtime_join db k"
  "runtime_join (db\<lparr> operation_rows := ps \<rparr>) k = runtime_join db k"
  by (simp_all add: runtime_join_def runtime_at_def workstream_at_def split: option.split)

lemma load_registry_generation_journal:
  "load_registry_generation (db\<lparr> operation_rows := ps, target_rows := ts \<rparr>) = load_registry_generation db"
  "load_registry_generation (db\<lparr> operation_rows := ps \<rparr>) = load_registry_generation db"
  by (simp_all add: load_registry_generation_def)

text \<open>
  The owner of an attempt stands at a phase: the ownership holds, nothing was noted in the journal
  row, the Runtime row is \<open>r\<close>, and \<open>ts\<close> are the exec targets recorded so far.
\<close>

definition stands :: "env \<Rightarrow> crypto \<Rightarrow> current_state \<Rightarrow> lease \<Rightarrow> prepare_request \<Rightarrow> ownership
     \<Rightarrow> onboarding_phase \<Rightarrow> runtime_row \<Rightarrow> target_row list \<Rightarrow> registry \<Rightarrow> bool" where
  "stands E K S L q o1 a r ts db \<longleftrightarrow>
     registry_ok E db \<and> request_gate E S L q db = Inr () \<and>
     (\<exists>rg. load_registry_generation db = Inr rg \<and>
        validate_owned_onboarding_transaction E K q (ls_generation L) rg o1 db = Inr (a, ow_revision o1)) \<and>
     (\<exists>p. operation_at db (uuid_text E (ow_operation o1)) = Some p \<and> op_watermark p = None
        \<and> op_outcome p = None) \<and>
     (\<exists>w. runtime_join db (uuid_text E (ow_runtime o1)) = Some (r, w)) \<and>
     filter (\<lambda>t. tg_operation t = uuid_text E (ow_operation o1)) (target_rows db) = ts"

lemma stands_ok: "stands E K S L q o1 a r ts db \<Longrightarrow> registry_ok E db"
  by (simp add: stands_def)

lemma stands_runtime:
  assumes "stands E K S L q o1 a r ts db"
  shows "owned_runtime E o1 db = Some r"
proof -
  from assms obtain w where w: "runtime_join db (uuid_text E (ow_runtime o1)) = Some (r, w)"
    and "rt_workstream r = uuid_text E (ow_workstream o1)" and "registry_ok E db"
    by (auto simp: stands_def owned_transaction_Inr)
  then show ?thesis using owned_runtime_joined registry_ok_keys(2) by blast
qed

lemma find_filter: "List.find P xs = (case filter P xs of [] \<Rightarrow> None | x # _ \<Rightarrow> Some x)"
  by (induction xs) auto

lemma stands_advances:
  assumes "stands E K S L q o1 a r ts db" and "env_ok E" and L: "ls_revalidate L = (\<lambda>_. Inr ())"
    and "permits_onboarding_transition a b" "issued_phase a" "issued_phase b"
    and "advance_guards E q o1 (NormalAdvance b) db"
    and x: "(case x of None \<Rightarrow> b \<noteq> onboarding_phase.ProviderPreparation
       | Some y \<Rightarrow> b = onboarding_phase.ProviderPreparation
           \<and> executable_identity_new (xi_device y) (xi_inode y) = Inr y \<and> ts = [])"
    and "ow_revision o1 < i64_max"
  obtains db' where "advance_onboarding_with_zero_timeout E K S L q o1 (NormalAdvance b) x db =
       (Inr (o1\<lparr> ow_revision := ow_revision o1 + 1 \<rparr>), db')"
    and "stands E K S L q (o1\<lparr> ow_revision := ow_revision o1 + 1 \<rparr>) b r (ts @ target_of E q o1 x) db'"
proof -
  from assms(1) obtain rg p w where ok: "registry_ok E db" and gate: "request_gate E S L q db = Inr ()"
    and rg: "load_registry_generation db = Inr rg"
    and own: "validate_owned_onboarding_transaction E K q (ls_generation L) rg o1 db =
      Inr (a, ow_revision o1)"
    and at: "operation_at db (uuid_text E (ow_operation o1)) = Some p"
    and p: "op_watermark p = None" "op_outcome p = None"
    and r: "runtime_join db (uuid_text E (ow_runtime o1)) = Some (r, w)"
    and ts: "filter (\<lambda>t. tg_operation t = uuid_text E (ow_operation o1)) (target_rows db) = ts"
    by (auto simp: stands_def)
  have fits: "target_fits E o1 (NormalAdvance b) x db"
    using x ts by (auto simp: target_fits_def filter_empty_conv image_iff split: option.splits)
  have edge: "permits_onboarding_transition a (advance_next (NormalAdvance b))"
    "issued_phase (advance_next (NormalAdvance b))"
    "effect_watermark (NormalAdvance b) = None \<or> op_watermark p = None \<and> op_outcome p = None"
    using assms(4,6) by simp_all
  obtain db' where adv: "advance_onboarding_with_zero_timeout E K S L q o1 (NormalAdvance b) x db =
       (Inr (o1\<lparr> ow_revision := ow_revision o1 + 1 \<rparr>), db')"
    and at': "operation_at db' (uuid_text E (ow_operation o1)) =
      Some (advanced_row p (NormalAdvance b) (ow_revision o1 + 1))"
    and rows: "\<exists>rows. db' = db\<lparr> operation_rows := rows, target_rows := target_rows db @ target_of E q o1 x \<rparr>"
    and gate': "request_gate E S L q db' = Inr ()"
    by (rule advance_succeeds [OF assms(2) ok L gate rg own at edge(1) assms(5) edge(2,3) assms(7) fits assms(9)])
  from rows obtain rows where
    db': "db' = db\<lparr> operation_rows := rows, target_rows := target_rows db @ target_of E q o1 x \<rparr>" ..
  have v: "0 < ow_revision o1 + 1" using own by (auto simp: owned_transaction_Inr)
  have row: "advanced_row p (NormalAdvance b) n =
      p\<lparr> op_phase := operation_phase_text (to_operation_phase b), op_watermark := None,
         op_revision := n \<rparr>" for n
    using p(1) by (simp add: advanced_row_def)
  have "validate_owned_onboarding_transaction E K q (ls_generation L) rg
      (o1\<lparr> ow_revision := ow_revision o1 + 1 \<rparr>) db' = Inr (b, ow_revision o1 + 1)"
    by (rule owned_moves [OF own at at' [unfolded row] _ _ v]) (simp_all add: db')
  moreover have "load_registry_generation db' = Inr rg"
    using rg by (simp add: db' load_registry_generation_journal)
  moreover have "runtime_join db' (uuid_text E (ow_runtime o1)) = Some (r, w)"
    using r by (simp add: db' runtime_join_journal)
  moreover have "filter (\<lambda>t. tg_operation t = uuid_text E (ow_operation o1)) (target_rows db') =
      ts @ target_of E q o1 x"
    using ts by (simp add: db' target_of_def split: option.split)
  ultimately have "stands E K S L q (o1\<lparr> ow_revision := ow_revision o1 + 1 \<rparr>) b r
      (ts @ target_of E q o1 x) db'"
    using advance_keeps [OF adv ok] gate' at' p by (auto simp: stands_def advanced_row_def)
  with adv show thesis by (rule that)
qed

lemma consumed_stands:
  assumes ok: "env_ok E" "crypto_ok K" "registry_ok E db" and "request_fits q L"
    and prep: "prepare_onboarding_with_zero_timeout E K S L q ids db = (Inr (Issued v), db1)"
    and L: "ls_revalidate L = (\<lambda>_. Inr ())" and "0 \<le> now" "now < pq_expiry q"
  obtains o1 db2 where
    "consume_onboarding_with_zero_timeout E K S L q (cap_token (rv_capability v)) now db1 = (Inr o1, db2)"
    "ow_operation o1 = rv_operation v" "ow_revision o1 = 3"
    "stands E K S L q o1 onboarding_phase.RuntimeOwnedLaunching (attempt_runtime E q ids) [] db2"
proof -
  obtain o1 db2 where con:
    "consume_onboarding_with_zero_timeout E K S L q (cap_token (rv_capability v)) now db1 = (Inr o1, db2)"
    "ow_operation o1 = rv_operation v" "ow_runtime o1 = pq_runtime q" "ow_revision o1 = 3"
    using issued_token_consumed [OF ok(1,2) assms(4) prep L assms(7,8)] by blast
  have ok1: "registry_ok E db1" by (rule prepare_keeps [OF prep ok(3)])
  note fresh = issued_attempt_untargeted [OF ok(3) prep]
  obtain rg rows2 p where rg: "load_registry_generation db2 = Inr rg"
    and own2: "validate_owned_onboarding_transaction E K q (ls_generation L) rg o1 db2 =
      Inr (onboarding_phase.RuntimeOwnedLaunching, ow_revision o1)"
    and at1: "operation_at db1 (uuid_text E (ow_operation o1)) = Some p"
    and at2: "operation_at db2 (uuid_text E (ow_operation o1)) = Some
      (p\<lparr> op_phase := ''runtime_owned_launching'', op_revision := ow_revision o1 \<rparr>)"
    and db2: "db2 = db1\<lparr> operation_rows := rows2 \<rparr>"
    and valid2: "validate_schema15 E (st_catalog S) db2 = Inr ()"
    and q: "validate_onboarding_prepare_request E S q = Inr ()"
    by (rule consume_owned [OF ok(1) ok1 con(1)]) blast
  have "request_gate E S L q db2 = Inr ()" using valid2 q L by (simp add: request_gate_def)
  moreover have "\<exists>w. runtime_join db2 (uuid_text E (ow_runtime o1)) = Some (attempt_runtime E q ids, w)"
    using fresh(3) con(3) by (simp add: db2 runtime_join_journal)
  moreover have "filter (\<lambda>t. tg_operation t = uuid_text E (ow_operation o1)) (target_rows db2) = []"
    using fresh(1) con(2) by (auto simp: filter_empty_conv db2 image_iff)
  ultimately have "stands E K S L q o1 onboarding_phase.RuntimeOwnedLaunching (attempt_runtime E q ids) [] db2"
    using consume_keeps [OF con(1) ok1] rg own2 at2 at1 fresh(2) con(2) by (auto simp: stands_def)
  with con show thesis by (intro that)
qed

lemma stands_proven:
  assumes "stands E K S L q o1 onboarding_phase.ProviderExecStarted r [t] db"
    and "env_ok E" and L: "ls_revalidate L = (\<lambda>_. Inr ())" and "pq_provider q = Codex"
    and t: "tg_provider t = provider_kind_text Codex"
      "read_executable_identity (tg_device t) (tg_inode t) = Inr x"
    and r: "rt_pid r = None" "rt_birth r = None" "rt_lifecycle r = ''starting''" "rt_revision r < i64_max"
    and v: "ow_revision o1 < i64_max"
  obtains db' where "record_provider_exec_proven_with_zero_timeout E S L o1 y db =
       (Inr (o1\<lparr> ow_revision := ow_revision o1 + 1 \<rparr>), db')"
proof -
  from assms(1) obtain rg p w where ok: "registry_ok E db" and gate: "request_gate E S L q db = Inr ()"
    and own: "validate_owned_onboarding_transaction E K q (ls_generation L) rg o1 db =
      Inr (onboarding_phase.ProviderExecStarted, ow_revision o1)"
    and at: "operation_at db (uuid_text E (ow_operation o1)) = Some p"
    and join: "runtime_join db (uuid_text E (ow_runtime o1)) = Some (r, w)"
    and ts: "filter (\<lambda>t. tg_operation t = uuid_text E (ow_operation o1)) (target_rows db) = [t]"
    by (auto simp: stands_def)
  have p: "op_kind p = ''onboard''" "op_phase p = ''provider_exec_started''"
    "op_revision p = ow_revision o1" "0 < ow_revision o1"
    using own at by (auto simp: owned_transaction_Inr)
  have gates: "plain_gate E S L db = Inr ()" "validate_onboarding_prepare_request E S q = Inr ()"
    using gate L by (simp_all add: request_gate_def plain_gate_def)
  obtain target where target:
    "load_exec_proof_target E S (ow_operation o1) onboarding_phase.ProviderExecStarted db = Inr target"
    "xt_ownership target = o1" "xt_provider target = Codex"
    by (rule exec_target_owned [OF assms(2) own gates(2) _ _ t(2) join r(1-3)])
      (use ts t(1) assms(4) in \<open>auto simp: find_filter\<close>)
  show thesis
    by (rule exec_proven_succeeds [OF assms(2) ok L gates(1) target at p(1-3)
          stands_runtime [OF assms(1)] r(1-3) p(4) v r(4)]) (rule that)
qed

lemma codex_hand_off:
  assumes ok: "env_ok E" "crypto_ok K" "registry_ok E db" and "request_fits q L"
    and prep: "prepare_onboarding_with_zero_timeout E K S L q ids db = (Inr (Issued v), db1)"
    and L: "ls_revalidate L = (\<lambda>_. Inr ())" and "0 \<le> now" "now < pq_expiry q"
    and codex: "pq_provider q = Codex" and x: "executable_identity_new device inode = Inr x"
  obtains o1 db2 db3 db4 db5 where
    "consume_onboarding_with_zero_timeout E K S L q (cap_token (rv_capability v)) now db1 = (Inr o1, db2)"
    "ow_operation o1 = rv_operation v" "ow_revision o1 = 3"
    "record_provider_preparation_current E K S L q o1 x db2 = (Inr (o1\<lparr> ow_revision := 4 \<rparr>), db3)"
    "record_provider_exec_started_current E K S L q (o1\<lparr> ow_revision := 4 \<rparr>) db3 =
       (Inr (o1\<lparr> ow_revision := 5 \<rparr>), db4)"
    "record_provider_exec_proven_with_zero_timeout E S L (o1\<lparr> ow_revision := 5 \<rparr>) y db4 =
       (Inr (o1\<lparr> ow_revision := 6 \<rparr>), db5)"
    "registry_ok E db1" "registry_ok E db2" "registry_ok E db3" "registry_ok E db4"
proof -
  let ?r = "attempt_runtime E q ids" and ?o2 = "o1\<lparr> ow_revision := 4 \<rparr>"
  obtain o1 db2 where con:
    "consume_onboarding_with_zero_timeout E K S L q (cap_token (rv_capability v)) now db1 = (Inr o1, db2)"
    "ow_operation o1 = rv_operation v" "ow_revision o1 = 3"
    and st2: "stands E K S L q o1 onboarding_phase.RuntimeOwnedLaunching ?r [] db2"
    by (rule consumed_stands [OF assms(1-8)])
  have xi: "executable_identity_new (xi_device x) (xi_inode x) = Inr x"
    using x by (auto simp: executable_identity_new_def split: if_splits)
  note graph = permits_onboarding_transition_def issued_phase_def
  obtain db3 where adv3: "advance_onboarding_with_zero_timeout E K S L q o1
       (NormalAdvance onboarding_phase.ProviderPreparation) (Some x) db2 = (Inr (o1\<lparr> ow_revision := 4 \<rparr>), db3)"
    and st3: "stands E K S L q (o1\<lparr> ow_revision := 4 \<rparr>) onboarding_phase.ProviderPreparation ?r
       (target_of E q o1 (Some x)) db3"
    by (rule stands_advances [OF st2 ok(1) L, where x = "Some x" and b = onboarding_phase.ProviderPreparation])
      (use xi con(3) in \<open>simp_all add: graph advance_guards_def i64_max_def\<close>)
  have guards: "advance_guards E q (o1\<lparr> ow_revision := 4 \<rparr>)
      (NormalAdvance onboarding_phase.ProviderExecStarted) db3"
    using st3 stands_runtime [OF st3] codex
    by (auto simp: advance_guards_def validate_provider_exec_start_def stands_def attempt_runtime_def
        target_of_def find_filter)
  obtain db4 where adv4: "advance_onboarding_with_zero_timeout E K S L q (o1\<lparr> ow_revision := 4 \<rparr>)
       (NormalAdvance onboarding_phase.ProviderExecStarted) None db3 = (Inr (o1\<lparr> ow_revision := 5 \<rparr>), db4)"
    and st4: "stands E K S L q (o1\<lparr> ow_revision := 5 \<rparr>) onboarding_phase.ProviderExecStarted ?r
       (target_of E q o1 (Some x)) db4"
    by (rule stands_advances [OF st3 ok(1) L _ _ _ guards, where x = None])
      (simp_all add: graph i64_max_def target_of_def)
  obtain db5 where proven: "record_provider_exec_proven_with_zero_timeout E S L (o1\<lparr> ow_revision := 5 \<rparr>) y db4 =
      (Inr (o1\<lparr> ow_revision := 6 \<rparr>), db5)"
    by (rule stands_proven [OF st4 [unfolded target_of_def option.case] ok(1) L codex, where x = x and y = y])
      (use executable_identity_round_trip [OF xi] codex in \<open>simp_all add: attempt_runtime_def i64_max_def\<close>)
  show thesis
    by (rule that [OF con adv3 [folded record_provider_preparation_current_def]
          adv4 [folded record_provider_exec_started_current_def] proven prepare_keeps [OF prep ok(3)]
          stands_ok [OF st2] stands_ok [OF st3] stands_ok [OF st4]])
qed

text \<open>The hand-off of the sample attempt, for the proofs that need one.\<close>

lemma sample_request_facts:
  "request_fits sample_request sample_lease" "ls_revalidate sample_lease = (\<lambda>_. Inr ())"
  "pq_expiry sample_request = 60005" "pq_runtime sample_request = 23" "pq_provider sample_request = Codex"
  by (simp_all add: request_fits_def sample_request_def sample_lease_def i64_max_def)

definition sample_executable :: executable_identity where
  "sample_executable = \<lparr> xi_device = 7, xi_inode = 8 \<rparr>"

lemma sample_executable_new: "executable_identity_new 7 8 = Inr sample_executable"
  by (simp add: sample_executable_def executable_identity_new_def i64_try_from_u64_def i64_max_def)

lemma sample_hand_off:
  obtains o1 db2 db3 db4 db5 where
    "consume_onboarding_with_zero_timeout sample_env sample_crypto sample_state sample_lease sample_request
       (cap_token sample_capability) 60004 sample_issued = (Inr o1, db2)"
    "record_provider_preparation_current sample_env sample_crypto sample_state sample_lease sample_request
       o1 sample_executable db2 = (Inr (o1\<lparr> ow_revision := 4 \<rparr>), db3)"
    "record_provider_exec_started_current sample_env sample_crypto sample_state sample_lease sample_request
       (o1\<lparr> ow_revision := 4 \<rparr>) db3 = (Inr (o1\<lparr> ow_revision := 5 \<rparr>), db4)"
    "record_provider_exec_proven_with_zero_timeout sample_env sample_state sample_lease
       (o1\<lparr> ow_revision := 5 \<rparr>) y db4 = (Inr (o1\<lparr> ow_revision := 6 \<rparr>), db5)"
    "registry_ok sample_env sample_issued" "registry_ok sample_env db2" "registry_ok sample_env db3"
    "registry_ok sample_env db4"
proof -
  have now: "0 \<le> (60004 :: int)" "60004 < pq_expiry sample_request"
    by (simp_all add: sample_request_facts(3))
  show thesis
    by (rule codex_hand_off [OF sample_env_ok sample_crypto_ok sample_base_ok sample_request_facts(1)
          sample_prepared sample_request_facts(2) now sample_request_facts(5) sample_executable_new,
          where y = y])
      (simp only: reservation.simps, rule that, assumption+)
qed

section \<open>Property\<close>

text \<open>C15: A Codex onboarding runs through: the token of a reserved attempt takes the Runtime over before
  the expiry, and the owner it names then records the executable, starts the exec and proves it, each
  transaction succeeding on the registry that the previous one left and raising the revision by one,
  until the journal says that the exec is proven.\<close>

theorem codex_onboarding_completes:
  assumes "env_ok E" "crypto_ok K" "registry_ok E db" and "request_fits q L"
    and "prepare_onboarding_with_zero_timeout E K S L q ids db = (Inr (Issued v), db1)"
    and "ls_revalidate L = (\<lambda>_. Inr ())" and "0 \<le> now" "now < pq_expiry q"
    and "pq_provider q = Codex" and "executable_identity_new device inode = Inr x"
  shows "\<exists>o1 db2 db3 db4 db5.
    consume_onboarding_with_zero_timeout E K S L q (cap_token (rv_capability v)) now db1 = (Inr o1, db2) \<and>
    ow_operation o1 = rv_operation v \<and> ow_revision o1 = 3 \<and>
    record_provider_preparation_current E K S L q o1 x db2 = (Inr (o1\<lparr> ow_revision := 4 \<rparr>), db3) \<and>
    record_provider_exec_started_current E K S L q (o1\<lparr> ow_revision := 4 \<rparr>) db3 =
      (Inr (o1\<lparr> ow_revision := 5 \<rparr>), db4) \<and>
    record_provider_exec_proven_with_zero_timeout E S L (o1\<lparr> ow_revision := 5 \<rparr>) y db4 =
      (Inr (o1\<lparr> ow_revision := 6 \<rparr>), db5) \<and>
    journal_state E db5 (rv_operation v) = At onboarding_phase.ProviderExecProven"
proof -
  obtain o1 db2 db3 db4 db5 where run:
    "consume_onboarding_with_zero_timeout E K S L q (cap_token (rv_capability v)) now db1 = (Inr o1, db2)"
    "ow_operation o1 = rv_operation v" "ow_revision o1 = 3"
    "record_provider_preparation_current E K S L q o1 x db2 = (Inr (o1\<lparr> ow_revision := 4 \<rparr>), db3)"
    "record_provider_exec_started_current E K S L q (o1\<lparr> ow_revision := 4 \<rparr>) db3 =
       (Inr (o1\<lparr> ow_revision := 5 \<rparr>), db4)"
    "record_provider_exec_proven_with_zero_timeout E S L (o1\<lparr> ow_revision := 5 \<rparr>) y db4 =
       (Inr (o1\<lparr> ow_revision := 6 \<rparr>), db5)"
    "registry_ok E db4"
    by (rule codex_hand_off [OF assms, where y = y])
  with exec_proven_crosses [OF run(6,7)] show ?thesis by auto
qed

lemma codex_onboarding_completes_witness:
  "\<exists>o1 db2 db3 db4 db5.
    consume_onboarding_with_zero_timeout sample_env sample_crypto sample_state sample_lease sample_request
      (cap_token sample_capability) 60004 sample_issued = (Inr o1, db2) \<and>
    ow_revision o1 = 3 \<and>
    record_provider_exec_proven_with_zero_timeout sample_env sample_state sample_lease
      (o1\<lparr> ow_revision := 5 \<rparr>) \<lparr> xe_pid = 9, xe_birth = ''b'' \<rparr> db4 = (Inr (o1\<lparr> ow_revision := 6 \<rparr>), db5) \<and>
    journal_state sample_env db5 32 = At onboarding_phase.ProviderExecProven"
proof -
  have now: "0 \<le> (60004 :: int)" "60004 < pq_expiry sample_request"
    by (simp_all add: sample_request_facts(3))
  from codex_onboarding_completes [OF sample_env_ok sample_crypto_ok sample_base_ok
      sample_request_facts(1) sample_prepared sample_request_facts(2) now sample_request_facts(5)
      sample_executable_new, of "\<lparr> xe_pid = 9, xe_birth = ''b'' \<rparr>"]
  show ?thesis unfolding reservation.simps by blast
qed

end
