(* ===== verification/Boundaries.thy ===== *)
theory Boundaries
  imports Launch
begin

text \<open>
  The boundaries of an onboarding attempt, crossed at most once: the take-over, each fence on the
  way to the provider's exec, and the proof of that exec.
\<close>

section \<open>Where the transactions stand\<close>

lemma consume_crosses:
  assumes "consume_onboarding_with_zero_timeout E K S L q token now db = (Inr o1, db')"
    and "registry_ok E db"
  shows "journal_state E db (ow_operation o1) = At onboarding_phase.CapabilityIssued \<and>
    journal_state E db' (ow_operation o1) = At onboarding_phase.RuntimeOwnedLaunching"
  using assms(1)
proof (cases rule: consume_steps)
  case (1 rg found p token_id verifier expiry digest intent metadata claims v)
  have "journal_state E db (er_operation found) = At onboarding_phase.CapabilityIssued \<and>
      journal_state E db' (er_operation found)
        = phase_state (to_operation_phase onboarding_phase.RuntimeOwnedLaunching)"
    by (rule journal_crosses [OF 1(13)]) (simp_all add: registry_ok_keys(6) [OF assms(2)])
  with 1(15) show ?thesis by (simp add: phase_state_def)
qed

text \<open>The next transaction on the same attempt finds another phase.\<close>

lemma not_crossed_twice:
  assumes "env_ok E" and "registry_ok E db" and "registry_ok E db \<Longrightarrow> registry_ok E db1"
    and "journal_state E db i = s" and "journal_state E db1 i = t" and "attempt_step s t"
    and "attempt_runs E i db1 db2"
  shows "registry_ok E db2 \<and> journal_state E db2 i \<noteq> s"
  using attempt_run_keeps [OF assms(7,1) assms(3) [OF assms(2)]]
    attempt_run_no_return [OF assms(7)] assms(4-6) by simp

lemma attempt_runs_refl: "attempt_runs E i db db"
  by (simp add: attempt_runs_def)

section \<open>Properties\<close>

text \<open>C14: Every transaction of an onboarding is at most one step of the abstract attempt, for every
  operation identity: the journal row is created as an issued attempt, moves along one edge of the
  onboarding graph, is resolved out of a parked recovery, or stays where it is.\<close>

theorem onboarding_refines_attempt:
  assumes "onboarding_step E db db'"
  shows "journal_state E db' i = journal_state E db i
    \<or> attempt_step (journal_state E db i) (journal_state E db' i)"
  using onboarding_step_refines [OF assms] by (auto simp: refines_def)

lemma onboarding_refines_attempt_witness:
  "journal_state sample_env sample_base 32 = Absent \<and>
   journal_state sample_env sample_issued 32 = At onboarding_phase.CapabilityIssued"
proof -
  have "onboarding_step sample_env sample_base sample_issued"
    using sample_prepared by (blast intro: onboarding_step.update attempt_update.prepared)
  moreover have "journal_state sample_env sample_base 32 = Absent"
    by (simp add: journal_state_def operation_at_def sample_base_def sample_registry_def)
  moreover have "journal_state sample_env sample_issued 32 \<noteq> Absent"
    by (simp add: journal_state_def operation_at_def sample_issued_def sample_reserved_def
        sample_operation_def phase_state_def split: sum.splits option.splits)
  ultimately show ?thesis
    using onboarding_refines_attempt [of sample_env sample_base sample_issued 32]
    by (auto simp: attempt_step_cases)
qed

text \<open>C17: A Runtime is taken over at most once: after a consumption, whatever transactions of the
  registry run in between, no consumption of any token by any request takes the same attempt
  again.\<close>

theorem taken_over_once:
  assumes "env_ok E" and "registry_ok E db"
    and "consume_onboarding_with_zero_timeout E K S L q token now db = (Inr o1, db1)"
    and "attempt_runs E (ow_operation o1) db1 db2"
  shows "fst (consume_onboarding_with_zero_timeout E K' S' L' q' token' now' db2)
    \<noteq> Inr (o2\<lparr> ow_operation := ow_operation o1 \<rparr>)"
proof -
  note first = consume_crosses [OF assms(3,2)]
  have "registry_ok E db2 \<and>
      journal_state E db2 (ow_operation o1) \<noteq> At onboarding_phase.CapabilityIssued"
    using not_crossed_twice [OF assms(1,2) consume_keeps [OF assms(3)] conjunct1 [OF first]
        conjunct2 [OF first] _ assms(4)]
    by (simp add: permits_onboarding_transition_def)
  with consume_crosses [of E K' S' L' q' token' now' db2] show ?thesis
    by (metis ownership.select_convs(1) ownership.surjective ownership.update_convs(1) prod.collapse)
qed

lemma taken_over_once_witness:
  "\<exists>o1 db2. consume_onboarding_with_zero_timeout sample_env sample_crypto sample_state sample_lease
       sample_request (cap_token sample_capability) 60004 sample_issued = (Inr o1, db2) \<and>
     fst (consume_onboarding_with_zero_timeout sample_env sample_crypto sample_state sample_lease
       sample_request (cap_token sample_capability) 60004 db2) \<noteq> Inr (o1\<lparr> ow_operation := ow_operation o1 \<rparr>)"
proof (rule sample_hand_off)
  fix o1 db2
  assume "consume_onboarding_with_zero_timeout sample_env sample_crypto sample_state sample_lease
       sample_request (cap_token sample_capability) 60004 sample_issued = (Inr o1, db2)"
    and "registry_ok sample_env sample_issued"
  with taken_over_once [OF sample_env_ok _ _ attempt_runs_refl] show ?thesis by blast
qed

text \<open>Each fence of the hand-off is passed at most once: after an attempt has advanced to a
  phase, no later advance, by whichever owner and after whatever transactions, enters that phase
  again for the same attempt; in particular the provider's exec is started at most once.\<close>

theorem fence_passed_once:
  assumes "env_ok E" and "registry_ok E db"
    and "advance_onboarding_with_zero_timeout E K S L q o1 a x db = (Inr o2, db1)"
    and "attempt_runs E (ow_operation o1) db1 db2"
    and "advance_next a' = advance_next a"
  shows "\<nexists>o3. fst (advance_onboarding_with_zero_timeout E K' S' L' q'
    (o1'\<lparr> ow_operation := ow_operation o1 \<rparr>) a' x' db2) = Inr o3"
proof
  let ?o = "o1'\<lparr> ow_operation := ow_operation o1 \<rparr>"
  assume "\<exists>o3. fst (advance_onboarding_with_zero_timeout E K' S' L' q' ?o a' x' db2) = Inr o3"
  then obtain o3 db3 where
    again: "advance_onboarding_with_zero_timeout E K' S' L' q' ?o a' x' db2 = (Inr o3, db3)"
    by (metis prod.collapse)
  from advance_crosses [OF assms(3,2)] obtain cur where
    "journal_state E db (ow_operation o1) = At cur" "attempt_step (At cur) (At (advance_next a))"
    "journal_state E db1 (ow_operation o1) = At (advance_next a)" by auto
  moreover have "registry_ok E db2"
    using attempt_run_keeps [OF assms(4,1)] advance_keeps [OF assms(3,2)] by simp
  with advance_crosses [OF again] assms(5) obtain cur' where
    "journal_state E db2 (ow_operation o1) = At cur'" "attempt_step (At cur') (At (advance_next a))"
    by auto
  ultimately show False
    using attempt_runs_rank [OF attempt_run_steps [OF assms(4)]]
    by (metis attempts.permits_rank leD)
qed

lemma fence_passed_once_witness:
  "\<exists>o1 db2 db3. advance_onboarding_with_zero_timeout sample_env sample_crypto sample_state sample_lease
       sample_request o1 (NormalAdvance onboarding_phase.ProviderPreparation) (Some sample_executable) db2
       = (Inr (o1\<lparr> ow_revision := 4 \<rparr>), db3) \<and>
     (\<nexists>o3. fst (advance_onboarding_with_zero_timeout sample_env sample_crypto sample_state sample_lease
       sample_request (o1\<lparr> ow_operation := ow_operation o1 \<rparr>)
       (NormalAdvance onboarding_phase.ProviderPreparation) (Some sample_executable) db3) = Inr o3)"
proof (rule sample_hand_off)
  fix o1 db2 db3
  assume "record_provider_preparation_current sample_env sample_crypto sample_state sample_lease
       sample_request o1 sample_executable db2 = (Inr (o1\<lparr> ow_revision := 4 \<rparr>), db3)"
    and ok: "registry_ok sample_env db2"
  then have run: "advance_onboarding_with_zero_timeout sample_env sample_crypto sample_state sample_lease
       sample_request o1 (NormalAdvance onboarding_phase.ProviderPreparation) (Some sample_executable) db2
       = (Inr (o1\<lparr> ow_revision := 4 \<rparr>), db3)"
    by (simp add: record_provider_preparation_current_def)
  from fence_passed_once [OF sample_env_ok ok run attempt_runs_refl refl] run show ?thesis by blast
qed

text \<open>The exec of an attempt is proven at most once, and never after the attempt has been
  rolled back or resolved: the proof finds the attempt with its exec started, and no run of
  transactions brings it back there.\<close>

theorem exec_proven_once:
  assumes "env_ok E" and "registry_ok E db"
    and "record_provider_exec_proven_with_zero_timeout E S L o1 x db = (Inr o2, db1)"
    and "attempt_runs E (ow_operation o1) db1 db2"
    and "xe_pid x \<noteq> 0"
  shows "\<nexists>o3. fst (record_provider_exec_proven_with_zero_timeout E S' L'
    (o1'\<lparr> ow_operation := ow_operation o1 \<rparr>) x' db2) = Inr o3"
proof
  let ?o = "o1'\<lparr> ow_operation := ow_operation o1 \<rparr>"
  assume "\<exists>o3. fst (record_provider_exec_proven_with_zero_timeout E S' L' ?o x' db2) = Inr o3"
  then obtain o3 db3 where
    again: "record_provider_exec_proven_with_zero_timeout E S' L' ?o x' db2 = (Inr o3, db3)"
    by (metis prod.collapse)
  note first = exec_proven_crosses [OF assms(3,2)]
  have "registry_ok E db2 \<and>
      journal_state E db2 (ow_operation o1) \<noteq> At onboarding_phase.ProviderExecStarted"
    using not_crossed_twice [OF assms(1,2) exec_proven_keeps [OF assms(3) _ assms(5)]
        conjunct1 [OF first] conjunct2 [OF first] _ assms(4)]
    by (simp add: permits_onboarding_transition_def)
  with exec_proven_crosses [OF again] show False by simp
qed

lemma exec_proven_once_witness:
  "\<exists>o1 db4 db5. record_provider_exec_proven_with_zero_timeout sample_env sample_state sample_lease
       o1 \<lparr> xe_pid = 9, xe_birth = ''b'' \<rparr> db4 = (Inr (o1\<lparr> ow_revision := 6 \<rparr>), db5) \<and>
     (\<nexists>o3. fst (record_provider_exec_proven_with_zero_timeout sample_env sample_state sample_lease
       (o1\<lparr> ow_operation := ow_operation o1 \<rparr>) \<lparr> xe_pid = 9, xe_birth = ''b'' \<rparr> db5) = Inr o3)"
proof (rule sample_hand_off [where y = "\<lparr> xe_pid = 9, xe_birth = ''b'' \<rparr>"])
  fix o1 :: ownership and db4 db5 :: registry
  let ?o = "o1\<lparr> ow_revision := 5 \<rparr>"
  assume "record_provider_exec_proven_with_zero_timeout sample_env sample_state sample_lease
       ?o \<lparr> xe_pid = 9, xe_birth = ''b'' \<rparr> db4 = (Inr (o1\<lparr> ow_revision := 6 \<rparr>), db5)"
    and ok: "registry_ok sample_env db4"
  then have run: "record_provider_exec_proven_with_zero_timeout sample_env sample_state sample_lease
       ?o \<lparr> xe_pid = 9, xe_birth = ''b'' \<rparr> db4 = (Inr (?o\<lparr> ow_revision := 6 \<rparr>), db5)"
    by simp
  have "xe_pid \<lparr> xe_pid = 9, xe_birth = ''b'' \<rparr> \<noteq> 0" by simp
  from exec_proven_once [OF sample_env_ok ok run attempt_runs_refl this] run show ?thesis by blast
qed

end
