(* ===== verification/Snapshot.thy ===== *)
theory Snapshot
  imports Inventory Catalog Creation
begin

text \<open>
  \<open>src/snapshot.rs\<close>: the passive projection of the registry that the Navigator and the command line
  show. The registry is the one that \<open>open_current\<close> opened; a value \<open>None\<close> of the readers is an
  unbounded page loop, which \<open>listings_complete\<close> excludes.
\<close>

section \<open>The projected rows\<close>

record location_snapshot =
  ln_location :: uuid
  ln_display :: string
  ln_revision :: int
  ln_is_label_source :: bool

record project_snapshot =
  pn_project :: uuid
  pn_display :: string
  pn_locations :: "location_snapshot list"

record runtime_snapshot =
  rn_runtime :: uuid
  rn_status :: runtime_status
  rn_revision :: int

datatype onboarding_status = StatusActionFenced | StatusRecoveryRequired

record workstream_snapshot =
  wn_project :: uuid
  wn_location :: uuid
  wn_workstream :: uuid
  wn_provider :: provider_kind
  wn_lifecycle :: workstream_lifecycle
  wn_archived :: bool
  wn_activity_seq :: int
  wn_activity_at :: "int option"
  wn_revision :: int
  wn_runtime :: "runtime_snapshot option"
  wn_onboarding :: "onboarding_status option"
  wn_native_name :: "string option"

record operation_snapshot =
  on_operation :: uuid
  on_kind :: operation_kind
  on_provider :: provider_kind
  on_phase :: operation_phase
  on_revision :: int

record snapshot =
  sn_projects :: "project_snapshot list"
  sn_workstreams :: "workstream_snapshot list"
  sn_unresolved :: "operation_snapshot list"

datatype snapshot_error =
    SnapshotState state_error
  | ProjectMembership
  | ProviderIdentity
  | OnboardingOwnership

section \<open>The projection\<close>

definition operation_shown :: "operation_overview \<Rightarrow> operation_snapshot" where
  "operation_shown o1 =
     \<lparr> on_operation = ov_operation o1, on_kind = ov_kind o1, on_provider = ov_provider o1,
       on_phase = ov_phase o1, on_revision = ov_revision o1 \<rparr>"

definition location_shown :: "location_projection \<Rightarrow> location_snapshot" where
  "location_shown l =
     \<lparr> ln_location = lp_location l, ln_display = lp_display l, ln_revision = lp_revision l,
       ln_is_label_source = lp_is_label_source l \<rparr>"

definition project_shown :: "project_projection \<Rightarrow> project_snapshot" where
  "project_shown p =
     \<lparr> pn_project = pp_project p, pn_display = pp_display p,
       pn_locations = map location_shown (pp_locations p) \<rparr>"

text \<open>\<open>BTreeMap::insert\<close> for every Location of every Project, in order.\<close>

definition project_for_location :: "project_projection list \<Rightarrow> (uuid \<rightharpoonup> uuid)" where
  "project_for_location ps =
     fold (\<lambda>p m. fold (\<lambda>l m. m(lp_location l \<mapsto> pp_project p)) (pp_locations p) m) ps (\<lambda>_. None)"

definition runtime_shown :: "runtime_record \<Rightarrow> runtime_snapshot" where
  "runtime_shown r =
     \<lparr> rn_runtime = rr_runtime r, rn_status = rr_status r, rn_revision = rr_revision r \<rparr>"

text \<open>
  One Workstream against the onboarding entry that was removed for it; \<open>Inr None\<close> is the reserved
  attempt, which has no card.
\<close>

definition workstream_status ::
  "workstream_overview \<Rightarrow> workstream_projection option
     \<Rightarrow> (snapshot_error, onboarding_status option option) result" where
  "workstream_status w entry =
     (case entry of
        None \<Rightarrow> Inr (Some None)
      | Some x \<Rightarrow>
          if map_option rr_runtime (wo_runtime w) \<noteq> Some (wp_runtime x) then Inl OnboardingOwnership
          else (case wp_visibility x of
                  Reserved \<Rightarrow> Inr None
                | ActionFenced \<Rightarrow> Inr (Some (Some StatusActionFenced))
                | VisibleRecovery \<Rightarrow> Inr (Some (Some StatusRecoveryRequired))))"

definition workstream_shown ::
  "workstream_overview \<Rightarrow> uuid \<Rightarrow> onboarding_status option \<Rightarrow> workstream_snapshot" where
  "workstream_shown w project status =
     \<lparr> wn_project = project, wn_location = wo_location w, wn_workstream = wo_workstream w,
       wn_provider = wo_provider w, wn_lifecycle = wo_lifecycle w,
       wn_archived = (wo_archived w \<noteq> None), wn_activity_seq = wo_activity_seq w,
       wn_activity_at = wo_activity_at w, wn_revision = wo_revision w,
       wn_runtime = map_option runtime_shown (wo_runtime w), wn_onboarding = status,
       wn_native_name = nonempty (Option.bind (wo_binding w) pb_thread_name) \<rparr>"

definition shown_workstream ::
  "(uuid \<rightharpoonup> uuid) \<Rightarrow> (uuid \<rightharpoonup> workstream_projection) \<Rightarrow> workstream_overview
     \<Rightarrow> (snapshot_error, workstream_snapshot option) result" where
  "shown_workstream projects onboarding w =
     and_then (ok_or (projects (wo_location w)) ProjectMembership) (\<lambda>project.
     if (case wo_runtime w of None \<Rightarrow> False | Some r \<Rightarrow> rr_provider r \<noteq> wo_provider w)
     then Inl ProviderIdentity
     else
       and_then (workstream_status w (onboarding (wo_workstream w))) (\<lambda>status.
       Inr (map_option (workstream_shown w project) status)))"

text \<open>The iterator: every entry is removed from the map by the Workstream it belongs to.\<close>

fun shown_workstreams ::
  "(uuid \<rightharpoonup> uuid) \<Rightarrow> (uuid \<rightharpoonup> workstream_projection) \<Rightarrow> workstream_overview list
     \<Rightarrow> (snapshot_error, workstream_snapshot list \<times> (uuid \<rightharpoonup> workstream_projection)) result" where
  "shown_workstreams projects onboarding [] = Inr ([], onboarding)"
| "shown_workstreams projects onboarding (w # ws) =
     and_then (shown_workstream projects onboarding w) (\<lambda>shown.
     and_then (shown_workstreams projects (onboarding(wo_workstream w := None)) ws) (\<lambda>(rest, left).
     Inr ((case shown of None \<Rightarrow> rest | Some x \<Rightarrow> x # rest), left)))"

definition onboarding_map :: "workstream_projection list \<Rightarrow> (uuid \<rightharpoonup> workstream_projection)" where
  "onboarding_map xs = fold (\<lambda>x m. m(wp_workstream x \<mapsto> x)) xs (\<lambda>_. None)"

definition project_snapshot_of ::
  "project_projection list \<Rightarrow> workstream_projection list \<Rightarrow> workstream_overview list
     \<Rightarrow> operation_overview list \<Rightarrow> (snapshot_error, snapshot) result" where
  "project_snapshot_of projects onboarding workstreams operations =
     and_then (shown_workstreams (project_for_location projects) (onboarding_map onboarding) workstreams)
       (\<lambda>(shown, left).
     if \<exists>x \<in> set onboarding. left (wp_workstream x) \<noteq> None then Inl OnboardingOwnership
     else
       Inr \<lparr> sn_projects = map project_shown projects, sn_workstreams = shown,
             sn_unresolved = map operation_shown operations \<rparr>)"

definition snapshot_read :: "(state_error, 'a) result option \<Rightarrow> (snapshot_error, 'a) result option" where
  "snapshot_read = map_option (map_err SnapshotState)"

text \<open>\<open>into_host_registry\<close>: the mode and one more validation.\<close>

definition into_host_registry :: "env \<Rightarrow> current_state \<Rightarrow> registry \<Rightarrow> (state_error, unit) result" where
  "into_host_registry E S db =
     (if st_mode S \<noteq> Current then Inl MalformedHostSchema else validate_schema15 E (st_catalog S) db)"

fun lazily :: "(snapshot_error, 'a) result option \<Rightarrow> ('a \<Rightarrow> (snapshot_error, 'b) result option)
     \<Rightarrow> (snapshot_error, 'b) result option" where
  "lazily None k = None"
| "lazily (Some (Inl e)) k = Some (Inl e)"
| "lazily (Some (Inr x)) k = k x"

definition read_snapshot ::
  "env \<Rightarrow> current_state \<Rightarrow> registry \<Rightarrow> (snapshot_error, snapshot) result option" where
  "read_snapshot E S db =
     lazily (snapshot_read (Some (project_projections E S db))) (\<lambda>projects.
     lazily (snapshot_read (onboarding_workstream_projections E S db)) (\<lambda>onboarding.
     lazily (snapshot_read (Some (into_host_registry E S db))) (\<lambda>_.
     lazily (snapshot_read (workstream_overviews E db)) (\<lambda>workstreams.
     lazily (snapshot_read (unresolved_operation_overviews E db)) (\<lambda>operations.
     Some (project_snapshot_of projects onboarding workstreams operations))))))"

section \<open>What the projection shows\<close>

lemma fold_upd_Some:
  "fold (\<lambda>x m. m(f x \<mapsto> g x)) xs m k = Some v \<Longrightarrow> m k = Some v \<or> (\<exists>x \<in> set xs. f x = k \<and> g x = v)"
proof (induction xs arbitrary: m)
  case (Cons x xs)
  have "(m(f x \<mapsto> g x)) k = Some v \<or> (\<exists>y \<in> set xs. f y = k \<and> g y = v)"
    by (rule Cons.IH) (rule Cons.prems [unfolded fold_simps])
  then show ?case by (auto split: if_splits)
qed simp

lemma project_for_location_flat:
  "project_for_location ps =
     fold (\<lambda>x m. m(fst x \<mapsto> snd x))
       (concat (map (\<lambda>p. map (\<lambda>l. (lp_location l, pp_project p)) (pp_locations p)) ps)) (\<lambda>_. None)"
proof -
  have "fold (\<lambda>p m. fold (\<lambda>l m. m(lp_location l \<mapsto> pp_project p)) (pp_locations p) m) ps m =
     fold (\<lambda>x m. m(fst x \<mapsto> snd x))
       (concat (map (\<lambda>p. map (\<lambda>l. (lp_location l, pp_project p)) (pp_locations p)) ps)) m" for m
    by (induction ps arbitrary: m) (simp_all add: fold_map comp_def)
  then show ?thesis by (simp add: project_for_location_def)
qed

lemma project_for_location_Some:
  assumes "project_for_location ps l = Some k"
  shows "\<exists>p \<in> set ps. pp_project p = k \<and> l \<in> lp_location ` set (pp_locations p)"
  using fold_upd_Some [OF assms [unfolded project_for_location_flat]] by auto

text \<open>The card of an overview, once the onboarding entry of its Workstream is known.\<close>

definition card_shows :: "workstream_overview \<Rightarrow> workstream_projection option \<Rightarrow> workstream_snapshot \<Rightarrow> bool" where
  "card_shows w entry c \<longleftrightarrow>
     c = workstream_shown w (wn_project c) (wn_onboarding c) \<and>
     (case wo_runtime w of None \<Rightarrow> True | Some r \<Rightarrow> rr_provider r = wo_provider w) \<and>
     (case entry of
        None \<Rightarrow> wn_onboarding c = None
      | Some x \<Rightarrow> map_option rn_runtime (wn_runtime c) = Some (wp_runtime x) \<and>
          (wp_visibility x = ActionFenced \<and> wn_onboarding c = Some StatusActionFenced \<or>
           wp_visibility x = VisibleRecovery \<and> wn_onboarding c = Some StatusRecoveryRequired))"

lemma workstream_shown_ids [simp]:
  "wn_project (workstream_shown w k s) = k" "wn_onboarding (workstream_shown w k s) = s"
  "wn_workstream (workstream_shown w k s) = wo_workstream w"
  "wn_location (workstream_shown w k s) = wo_location w"
  "wn_runtime (workstream_shown w k s) = map_option runtime_shown (wo_runtime w)"
  by (simp_all add: workstream_shown_def)

lemma shown_workstream_cases:
  assumes "shown_workstream projects onboarding w = Inr x"
  shows "(x = None \<longleftrightarrow> map_option wp_visibility (onboarding (wo_workstream w)) = Some Reserved) \<and>
    (\<forall>c. x = Some c \<longrightarrow> card_shows w (onboarding (wo_workstream w)) c \<and>
       projects (wo_location w) = Some (wn_project c))"
  using assms
  by (auto simp: shown_workstream_def workstream_status_def card_shows_def runtime_shown_def
      option.map_comp comp_def split: option.splits if_splits visibility.splits)

definition carded :: "(uuid \<rightharpoonup> workstream_projection) \<Rightarrow> workstream_overview \<Rightarrow> bool" where
  "carded onboarding w \<longleftrightarrow> map_option wp_visibility (onboarding (wo_workstream w)) \<noteq> Some Reserved"

lemma shown_workstreams_spec:
  assumes "shown_workstreams projects onboarding ws = Inr (cs, left)"
    and "distinct (map wo_workstream ws)"
  shows "list_all2 (\<lambda>w c. card_shows w (onboarding (wo_workstream w)) c \<and>
      projects (wo_location w) = Some (wn_project c)) (filter (carded onboarding) ws) cs \<and>
    left = onboarding |` (- wo_workstream ` set ws)"
  using assms
proof (induction ws arbitrary: onboarding cs left)
  case (Cons w ws)
  let ?o = "onboarding(wo_workstream w := None)"
  from Cons.prems(1) obtain shown rest where
    w: "shown_workstream projects onboarding w = Inr shown"
    and rest: "shown_workstreams projects ?o ws = Inr (rest, left)"
    and cs: "cs = (case shown of None \<Rightarrow> rest | Some x \<Rightarrow> x # rest)"
    by auto
  have other: "?o (wo_workstream x) = onboarding (wo_workstream x)" if "x \<in> set ws" for x
    using Cons.prems(2) that by (auto simp: image_iff)
  then have "filter (carded ?o) ws = filter (carded onboarding) ws"
    by (intro filter_cong) (simp_all add: carded_def)
  moreover have dist: "distinct (map wo_workstream ws)" using Cons.prems(2) by simp
  note IH = Cons.IH [OF rest dist]
  have "list_all2 (\<lambda>w c. card_shows w (?o (wo_workstream w)) c \<and>
      projects (wo_location w) = Some (wn_project c)) (filter (carded ?o) ws) rest"
    and left: "left = ?o |` (- wo_workstream ` set ws)"
    using conjunct1 [OF IH] conjunct2 [OF IH] by blast+
  ultimately have tail: "list_all2 (\<lambda>w c. card_shows w (onboarding (wo_workstream w)) c \<and>
      projects (wo_location w) = Some (wn_project c)) (filter (carded onboarding) ws) rest"
    using other by (auto elim!: list.rel_mono_strong)
  have "left = onboarding |` (- wo_workstream ` set (w # ws))"
    unfolding left by (auto simp: restrict_map_def fun_eq_iff)
  moreover have "carded onboarding w \<longleftrightarrow> shown \<noteq> None"
    using shown_workstream_cases [OF w] by (auto simp: carded_def)
  ultimately show ?case
    using shown_workstream_cases [OF w] tail cs by (cases shown) auto
qed (simp add: fun_eq_iff restrict_map_def)

end
