(* ===== verification/Unicode.thy ===== *)
theory Unicode
  imports Bytes
begin

text \<open>
  Characters of a UTF-8 string: Rust strings are byte strings here, \<open>chars()\<close> splits them before
  every byte that does not continue a character.
\<close>

section \<open>Characters\<close>

definition continuation :: "char \<Rightarrow> bool" where
  "continuation c \<longleftrightarrow> 128 \<le> (of_char c :: nat) \<and> (of_char c :: nat) < 192"

function utf8_chars :: "string \<Rightarrow> string list" where
  "utf8_chars [] = []"
| "utf8_chars (c # cs) = (c # takeWhile continuation cs) # utf8_chars (dropWhile continuation cs)"
  by pat_completeness auto
termination by (relation "measure length") (auto simp: less_Suc_eq_le length_dropWhile_le)

lemma concat_utf8_chars [simp]: "concat (utf8_chars s) = s"
  by (induction s rule: utf8_chars.induct) simp_all

text \<open>The code point of one character.\<close>

fun code_point :: "string \<Rightarrow> nat" where
  "code_point [a] = of_char a"
| "code_point [a, b] = (of_char a mod 32) * 64 + of_char b mod 64"
| "code_point [a, b, c] = (of_char a mod 16) * 4096 + (of_char b mod 64) * 64 + of_char c mod 64"
| "code_point [a, b, c, d] =
     (of_char a mod 8) * 262144 + (of_char b mod 64) * 4096 + (of_char c mod 64) * 64 + of_char d mod 64"
| "code_point _ = 0"

text \<open>\<open>char::is_control\<close>.\<close>

definition is_control_point :: "nat \<Rightarrow> bool" where
  "is_control_point n \<longleftrightarrow> n < 32 \<or> 127 \<le> n \<and> n < 160"

definition ellipsis :: string where
  "ellipsis = [CHR 0xE2, CHR 0x80, CHR 0xA6]"

text \<open>\<open>str::split_whitespace\<close>: \<open>w\<close> is the word that is being read.\<close>

fun words_from :: "string \<Rightarrow> string list \<Rightarrow> string list" where
  "words_from w [] = (if w = [] then [] else [w])"
| "words_from w (c # cs) =
     (if leading_ws c > 0 then (if w = [] then words_from [] cs else w # words_from [] cs)
      else words_from (w @ c) cs)"

definition split_whitespace :: "string \<Rightarrow> string list" where
  "split_whitespace s = words_from [] (utf8_chars s)"

text \<open>Machine arithmetic on \<open>usize\<close> and \<open>u16\<close>: the saturating operations.\<close>

definition usize_max :: nat where "usize_max = 2 ^ 64 - 1"
definition u16_max :: nat where "u16_max = 65535"

definition usize_saturating_add :: "nat \<Rightarrow> nat \<Rightarrow> nat" where
  "usize_saturating_add a b = min (a + b) usize_max"

definition u16_saturating_add :: "nat \<Rightarrow> nat \<Rightarrow> nat" where
  "u16_saturating_add a b = min (a + b) u16_max"

definition u16_of_usize :: "nat \<Rightarrow> nat" where
  "u16_of_usize n = (if n \<le> u16_max then n else u16_max)"

section \<open>Lists of characters\<close>

lemma utf8_chars_Nil_iff [simp]: "utf8_chars s = [] \<longleftrightarrow> s = []"
  by (cases s) simp_all

lemma utf8_chars_nonempty: "c \<in> set (utf8_chars s) \<Longrightarrow> c \<noteq> []"
  by (induction s rule: utf8_chars.induct) auto

end
