(* ===== verification/Navigator.thy ===== *)
theory Navigator
  imports Snapshot Unicode "HOL-Library.Product_Lexorder"
begin

text \<open>
  The interaction model of \<open>src/navigator/view.rs\<close>: pages, rows, the cursor, the confirmation
  dialogs and the commands that a key requests. It has no effect of its own: a \<open>Command\<close> is what the
  controller is asked to do.
\<close>

section \<open>Data\<close>

datatype page = Workstreams | Archived

record shell_location =
  sl_cwd :: string

datatype row_id = ProvisionalShellId | WorkstreamId uuid

datatype row =
    ProvisionalShell shell_location
  | ProjectHeader string
  | WorkstreamRow workstream_snapshot

datatype observer_setup_kind = SetupCreate | SetupUpdate | TrustReview

datatype key = KChar char | KEsc | KEnter | KUp | KDown | KOther

datatype command =
    NoCommand
  | Quit
  | MaterializeProvisionalShell
  | Attach uuid int uuid int
  | NewAtSameLocation uuid int provider_kind
  | Start uuid int provider_kind
  | Recover uuid int provider_kind
  | Archive uuid int
  | Restore uuid int
  | Forget uuid int
  | AcceptObserverSetup observer_setup_kind
  | CancelObserverSetup
  | ShowGuidance string

datatype modal =
    ConfirmArchive uuid int
  | ConfirmForget uuid int
  | ObserverConsent observer_setup_kind

record model =
  md_snapshot :: snapshot
  md_shell :: shell_location
  md_page :: page
  md_selected :: "row_id option"
  md_guidance :: "string option"
  md_modal :: "modal option"
  md_help :: bool

record navigator =
  nv_model :: model
  nv_focused :: bool

fun row_identity :: "row \<Rightarrow> row_id option" where
  "row_identity (ProvisionalShell _) = Some ProvisionalShellId"
| "row_identity (ProjectHeader _) = None"
| "row_identity (WorkstreamRow w) = Some (WorkstreamId (wn_workstream w))"

fun render_height :: "row \<Rightarrow> nat" where
  "render_height (ProjectHeader _) = 1"
| "render_height (ProvisionalShell _) = 2"
| "render_height (WorkstreamRow _) = 2"

section \<open>The label of the shell card\<close>

definition is_unicode_format :: "nat \<Rightarrow> bool" where
  "is_unicode_format n \<longleftrightarrow>
     n = 0xAD \<or> 0x600 \<le> n \<and> n \<le> 0x605 \<or> n = 0x61C \<or> n = 0x6DD \<or> n = 0x70F
     \<or> 0x890 \<le> n \<and> n \<le> 0x891 \<or> n = 0x8E2 \<or> n = 0x180E \<or> 0x200B \<le> n \<and> n \<le> 0x200F
     \<or> 0x202A \<le> n \<and> n \<le> 0x202E \<or> 0x2060 \<le> n \<and> n \<le> 0x2064 \<or> 0x2066 \<le> n \<and> n \<le> 0x206F
     \<or> n = 0xFEFF \<or> 0xFFF9 \<le> n \<and> n \<le> 0xFFFB \<or> n = 0x110BD \<or> n = 0x110CD
     \<or> 0x13430 \<le> n \<and> n \<le> 0x1343F \<or> 0x1BCA0 \<le> n \<and> n \<le> 0x1BCA3 \<or> 0x13 \<le> n \<and> n \<le> 0x1A
     \<or> n = 0xE0001 \<or> 0xE0020 \<le> n \<and> n \<le> 0xE007F"

definition safe_shell_location_label :: "string \<Rightarrow> string" where
  "safe_shell_location_label s =
     (if s = [] \<or> (\<exists>c \<in> set (utf8_chars s). is_control_point (code_point c)
                                     \<or> is_unicode_format (code_point c))
      then ''unavailable''
      else
        let bounded = concat (take 256 (utf8_chars s)) in
        if length bounded < length s then bounded @ ellipsis else bounded)"

definition shell_location_cwd :: "string \<Rightarrow> shell_location" where
  "shell_location_cwd label = \<lparr> sl_cwd = safe_shell_location_label label \<rparr>"

section \<open>The order of the cards\<close>

definition by_activity :: "workstream_snapshot list \<Rightarrow> workstream_snapshot list" where
  "by_activity = sort_key (\<lambda>w. (- wn_activity_seq w, wn_workstream w))"

definition newest_activity :: "workstream_snapshot list \<Rightarrow> int" where
  "newest_activity ws = (case ws of [] \<Rightarrow> 0 | w # _ \<Rightarrow> wn_activity_seq w)"

text \<open>The \<open>BTreeMap\<close> of the Projects, in the order of its keys, each with its sorted members.\<close>

definition project_groups :: "workstream_snapshot list \<Rightarrow> (uuid \<times> int \<times> workstream_snapshot list) list" where
  "project_groups ws =
     map (\<lambda>k. let members = by_activity (filter (\<lambda>w. wn_project w = k) ws)
              in (k, newest_activity members, members))
       (sort (remdups (map wn_project ws)))"

definition workstreams_in_visual_order :: "snapshot \<Rightarrow> bool \<Rightarrow> workstream_snapshot list" where
  "workstreams_in_visual_order s archived =
     concat (map (\<lambda>(_, _, members). members)
       (sort_key (\<lambda>(k, newest, _). (- newest, k))
         (project_groups (filter (\<lambda>w. wn_archived w = archived) (sn_workstreams s)))))"

fun rows_from :: "snapshot \<Rightarrow> uuid set \<Rightarrow> workstream_snapshot list \<Rightarrow> row list" where
  "rows_from s seen [] = []"
| "rows_from s seen (w # ws) =
     (if wn_project w \<in> seen then []
      else (case List.find (\<lambda>p. pn_project p = wn_project w) (sn_projects s) of
              None \<Rightarrow> [] | Some p \<Rightarrow> [ProjectHeader (pn_display p)]))
     @ WorkstreamRow w # rows_from s (insert (wn_project w) seen) ws"

definition rows_for :: "snapshot \<Rightarrow> page \<Rightarrow> shell_location \<Rightarrow> row list" where
  "rows_for s p location =
     (if p = Workstreams then [ProvisionalShell location] else [])
     @ rows_from s {} (workstreams_in_visual_order s (p = Archived))"

definition rows :: "model \<Rightarrow> row list" where
  "rows m = rows_for (md_snapshot m) (md_page m) (md_shell m)"

section \<open>The model\<close>

definition model_new :: "snapshot \<Rightarrow> model" where
  "model_new s =
     \<lparr> md_snapshot = s, md_shell = shell_location_cwd ''unavailable'', md_page = Workstreams,
       md_selected = Some ProvisionalShellId, md_guidance = None, md_modal = None, md_help = False \<rparr>"

definition set_guidance :: "string \<Rightarrow> model \<Rightarrow> model" where
  "set_guidance g m = m\<lparr> md_guidance := Some g \<rparr>"

definition clear_guidance_if :: "string \<Rightarrow> model \<Rightarrow> model" where
  "clear_guidance_if g m = (if md_guidance m = Some g then m\<lparr> md_guidance := None \<rparr> else m)"

definition request_observer_setup :: "observer_setup_kind \<Rightarrow> model \<Rightarrow> model" where
  "request_observer_setup kind m =
     m\<lparr> md_guidance := None, md_modal := Some (ObserverConsent kind) \<rparr>"

definition set_shell_location :: "shell_location \<Rightarrow> model \<Rightarrow> model" where
  "set_shell_location location m = m\<lparr> md_shell := location \<rparr>"

text \<open>\<open>find_map\<close> over the rows.\<close>

definition identities :: "row list \<Rightarrow> row_id list" where
  "identities rs = concat (map (\<lambda>r. case row_identity r of None \<Rightarrow> [] | Some i \<Rightarrow> [i]) rs)"

definition first_identity :: "row list \<Rightarrow> row_id option" where
  "first_identity rs = (case identities rs of [] \<Rightarrow> None | i # _ \<Rightarrow> Some i)"

definition replace_snapshot :: "snapshot \<Rightarrow> model \<Rightarrow> model" where
  "replace_snapshot s m =
     (let m1 = m\<lparr> md_snapshot := s \<rparr>;
          kept = (case md_selected m1 of
                    None \<Rightarrow> None
                  | Some i \<Rightarrow> if i \<in> set (identities (rows m1)) then Some i else None)
      in m1\<lparr> md_selected :=
           (case kept of
              Some i \<Rightarrow> Some i
            | None \<Rightarrow>
                if md_page m1 = Workstreams then Some ProvisionalShellId
                else first_identity (rows m1)) \<rparr>)"

definition index_of :: "'a \<Rightarrow> 'a list \<Rightarrow> nat option" where
  "index_of x xs = (let n = length (takeWhile (\<lambda>y. y \<noteq> x) xs) in if n < length xs then Some n else None)"

definition select_offset :: "int \<Rightarrow> model \<Rightarrow> model" where
  "select_offset offset m =
     (let actionable = identities (rows m);
          first = (case actionable of [] \<Rightarrow> None | i # _ \<Rightarrow> Some i)
      in case md_selected m of
           None \<Rightarrow> m\<lparr> md_selected := first \<rparr>
         | Some current \<Rightarrow>
             (case index_of current actionable of
                None \<Rightarrow> m\<lparr> md_selected := first \<rparr>
              | Some i \<Rightarrow>
                  if actionable = [] then m\<lparr> md_selected := None \<rparr>
                  else m\<lparr> md_selected :=
                    Some (actionable ! nat ((int i + offset) mod int (length actionable))) \<rparr>))"

definition select_next :: "model \<Rightarrow> model" where
  "select_next m = (if md_help m \<or> md_modal m \<noteq> None then m else select_offset 1 m)"

definition select_previous :: "model \<Rightarrow> model" where
  "select_previous m = (if md_help m \<or> md_modal m \<noteq> None then m else select_offset (- 1) m)"

definition selected_workstream :: "model \<Rightarrow> uuid \<Rightarrow> workstream_snapshot option" where
  "selected_workstream m i = List.find (\<lambda>w. wn_workstream w = i) (sn_workstreams (md_snapshot m))"

section \<open>Actions of the selected card\<close>

definition onboarding_in_progress_guidance :: string where
  "onboarding_in_progress_guidance =
     ''Managed session onboarding is still in progress; wait for exact provider proof''"

definition onboarding_recovery_guidance :: string where
  "onboarding_recovery_guidance =
     ''Managed session requires onboarding recovery; archive is available after exact cleanup''"

definition primary_workstream_action :: "model \<Rightarrow> uuid \<Rightarrow> command" where
  "primary_workstream_action m i =
     (case selected_workstream m i of
        None \<Rightarrow> NoCommand
      | Some w \<Rightarrow>
          (case wn_onboarding w of
             Some StatusActionFenced \<Rightarrow> ShowGuidance onboarding_in_progress_guidance
           | Some StatusRecoveryRequired \<Rightarrow> ShowGuidance onboarding_recovery_guidance
           | None \<Rightarrow>
               if wn_lifecycle w = workstream_lifecycle.RecoveryRequired
               then Recover i (wn_revision w) (wn_provider w)
               else if wn_lifecycle w = Parked
                  \<or> (case wn_runtime w of
                       None \<Rightarrow> True | Some r \<Rightarrow> rn_status r = Stopped \<or> rn_status r = Unknown)
               then Start i (wn_revision w) (wn_provider w)
               else (case wn_runtime w of
                       None \<Rightarrow> NoCommand
                     | Some r \<Rightarrow> Attach i (wn_revision w) (rn_runtime r) (rn_revision r))))"

definition activate_selected :: "model \<Rightarrow> command" where
  "activate_selected m =
     (case md_selected m of
        Some ProvisionalShellId \<Rightarrow>
          if md_page m = Workstreams then MaterializeProvisionalShell else NoCommand
      | Some (WorkstreamId i) \<Rightarrow> primary_workstream_action m i
      | None \<Rightarrow> NoCommand)"

definition activate_row :: "row_id \<Rightarrow> model \<Rightarrow> model \<times> command" where
  "activate_row i m =
     (if md_help m \<or> md_modal m \<noteq> None then (m, NoCommand)
      else if i \<notin> set (identities (rows m)) then (m, NoCommand)
      else (let m1 = m\<lparr> md_selected := Some i \<rparr> in (m1, activate_selected m1)))"

definition new_from_selected :: "model \<Rightarrow> command" where
  "new_from_selected m =
     (case md_selected m of
        Some (WorkstreamId i) \<Rightarrow>
          (case selected_workstream m i of
             None \<Rightarrow> NoCommand
           | Some w \<Rightarrow>
               if \<not> wn_archived w \<and> wn_onboarding w = None
                  \<and> wn_lifecycle w \<noteq> workstream_lifecycle.RecoveryRequired
               then NewAtSameLocation (wn_workstream w) (wn_revision w) (wn_provider w)
               else NoCommand)
      | _ \<Rightarrow> NoCommand)"

definition archive_selected :: "model \<Rightarrow> model \<times> command" where
  "archive_selected m =
     (if md_page m \<noteq> Workstreams then (m, NoCommand)
      else case md_selected m of
        Some (WorkstreamId i) \<Rightarrow>
          (case selected_workstream m i of
             None \<Rightarrow> (m, NoCommand)
           | Some w \<Rightarrow>
               (case wn_onboarding w of
                  Some StatusActionFenced \<Rightarrow> (m, ShowGuidance onboarding_in_progress_guidance)
                | Some StatusRecoveryRequired \<Rightarrow>
                    (m\<lparr> md_modal := Some (ConfirmArchive i (wn_revision w)) \<rparr>, NoCommand)
                | None \<Rightarrow>
                    if \<not> wn_archived w
                    then (m\<lparr> md_modal := Some (ConfirmArchive i (wn_revision w)) \<rparr>, NoCommand)
                    else (m, NoCommand)))
      | _ \<Rightarrow> (m, NoCommand))"

definition restore_selected :: "model \<Rightarrow> command" where
  "restore_selected m =
     (if md_page m \<noteq> Archived then NoCommand
      else case md_selected m of
        Some (WorkstreamId i) \<Rightarrow>
          (case selected_workstream m i of
             None \<Rightarrow> NoCommand
           | Some w \<Rightarrow> if wn_archived w then Restore i (wn_revision w) else NoCommand)
      | _ \<Rightarrow> NoCommand)"

definition forget_selected :: "model \<Rightarrow> model \<times> command" where
  "forget_selected m =
     (if md_page m \<noteq> Archived then (m, NoCommand)
      else case md_selected m of
        Some (WorkstreamId i) \<Rightarrow>
          (case selected_workstream m i of
             None \<Rightarrow> (m, NoCommand)
           | Some w \<Rightarrow>
               if \<not> wn_archived w then (m, NoCommand)
               else (m\<lparr> md_modal := Some (ConfirmForget i (wn_revision w)) \<rparr>, NoCommand))
      | _ \<Rightarrow> (m, NoCommand))"

section \<open>Selecting an exact card\<close>

definition select_runtime :: "uuid \<Rightarrow> model \<Rightarrow> model \<times> bool" where
  "select_runtime i m =
     (case List.find (\<lambda>w. \<not> wn_archived w \<and> map_option rn_runtime (wn_runtime w) = Some i)
             (sn_workstreams (md_snapshot m)) of
        None \<Rightarrow> (m, False)
      | Some w \<Rightarrow>
          (m\<lparr> md_page := Workstreams, md_selected := Some (WorkstreamId (wn_workstream w)) \<rparr>, True))"

definition select_workstream :: "uuid \<Rightarrow> model \<Rightarrow> model \<times> bool" where
  "select_workstream i m =
     (if \<exists>w \<in> set (sn_workstreams (md_snapshot m)). \<not> wn_archived w \<and> wn_workstream w = i
      then (m\<lparr> md_page := Workstreams, md_selected := Some (WorkstreamId i) \<rparr>, True)
      else (m, False))"

definition select_catalog_workstream :: "uuid \<Rightarrow> model \<Rightarrow> model \<times> bool" where
  "select_catalog_workstream i m =
     (case selected_workstream m i of
        None \<Rightarrow> (m, False)
      | Some w \<Rightarrow>
          (m\<lparr> md_page := (if wn_archived w then Archived else Workstreams),
             md_selected := Some (WorkstreamId i) \<rparr>, True))"

text \<open>One rendered line of the list: \<open>cursor\<close> is the first line of the remaining rows.\<close>

fun identity_at_line :: "nat \<Rightarrow> nat \<Rightarrow> row list \<Rightarrow> row_id option" where
  "identity_at_line line cursor [] = None"
| "identity_at_line line cursor (r # rs) =
     (if cursor \<le> line \<and> line < usize_saturating_add cursor (render_height r) then row_identity r
      else identity_at_line line (usize_saturating_add cursor (render_height r)) rs)"

definition row_id_at_render_line :: "model \<Rightarrow> nat \<Rightarrow> row_id option" where
  "row_id_at_render_line m line = identity_at_line line 0 (rows m)"

section \<open>Keys\<close>

definition set_page :: "page \<Rightarrow> model \<Rightarrow> model" where
  "set_page p m =
     (let m1 = m\<lparr> md_page := p \<rparr> in
      m1\<lparr> md_selected := (if p = Workstreams then Some ProvisionalShellId else first_identity (rows m1)) \<rparr>)"

definition confirm_modal :: "model \<Rightarrow> model \<times> command" where
  "confirm_modal m =
     (case md_modal m of
        None \<Rightarrow> (m, NoCommand)
      | Some x \<Rightarrow>
          (m\<lparr> md_modal := None \<rparr>,
           case x of
             ObserverConsent kind \<Rightarrow> AcceptObserverSetup kind
           | ConfirmArchive i v \<Rightarrow> Archive i v
           | ConfirmForget i v \<Rightarrow> Forget i v))"

fun is_confirmation :: "modal option \<Rightarrow> bool" where
  "is_confirmation (Some (ConfirmArchive _ _)) = True"
| "is_confirmation (Some (ConfirmForget _ _)) = True"
| "is_confirmation _ = False"

definition handle_modal_key :: "key \<Rightarrow> model \<Rightarrow> model \<times> command" where
  "handle_modal_key k m =
     (case md_modal m of
        Some (ObserverConsent kind) \<Rightarrow>
          if k = KEsc \<or> k = KChar CHR ''n'' then (m\<lparr> md_modal := None \<rparr>, CancelObserverSetup)
          else if k = KEnter \<or> k = KChar CHR ''y''
          then (m\<lparr> md_modal := None \<rparr>, AcceptObserverSetup kind)
          else (m, NoCommand)
      | _ \<Rightarrow>
          if k = KEsc then (m\<lparr> md_modal := None \<rparr>, NoCommand)
          else if k = KChar CHR ''n'' \<and> is_confirmation (md_modal m)
          then (m\<lparr> md_modal := None \<rparr>, NoCommand)
          else if k = KChar CHR ''y'' \<and> is_confirmation (md_modal m) then confirm_modal m
          else if k = KEnter then confirm_modal m
          else (m, NoCommand))"

definition handle_key :: "key \<Rightarrow> model \<Rightarrow> model \<times> command" where
  "handle_key k m =
     (if md_help m then
        (if k = KChar CHR ''q'' \<or> k = KEsc then (m\<lparr> md_help := False \<rparr>, NoCommand) else (m, NoCommand))
      else if md_modal m \<noteq> None then handle_modal_key k m
      else if k = KChar CHR ''q'' then (m, Quit)
      else if k = KChar CHR ''?'' then (m\<lparr> md_help := True \<rparr>, NoCommand)
      else if k = KChar CHR ''.'' then
        (set_page (case md_page m of Workstreams \<Rightarrow> Archived | Archived \<Rightarrow> Workstreams) m, NoCommand)
      else if k = KChar CHR ''w'' \<or> k = KEsc then (set_page Workstreams m, NoCommand)
      else if k = KUp \<or> k = KChar CHR ''k'' then (select_previous m, NoCommand)
      else if k = KDown \<or> k = KChar CHR ''j'' then (select_next m, NoCommand)
      else if k = KEnter then (m, activate_selected m)
      else if k = KChar CHR ''n'' then (m, new_from_selected m)
      else if k = KChar CHR ''x'' then
        (case md_page m of Workstreams \<Rightarrow> archive_selected m | Archived \<Rightarrow> forget_selected m)
      else if k = KChar CHR ''u'' then (m, restore_selected m)
      else (m, NoCommand))"

end
