(* ===== verification/Cards.thy ===== *)
theory Cards
  imports Navigator "HOL-Library.Multiset"
begin

text \<open>
  The cards of the Navigator: their order, the lines they occupy, and the cursor, which stays on a
  visible card whatever the user and the controller do.
\<close>

section \<open>The order of the cards\<close>

text \<open>One key instead of two sorts: the Project's newest activity, the Project, the own activity.\<close>

definition project_newest :: "workstream_snapshot list \<Rightarrow> uuid \<Rightarrow> int" where
  "project_newest ws k = newest_activity (by_activity (filter (\<lambda>w. wn_project w = k) ws))"

definition card_key ::
  "workstream_snapshot list \<Rightarrow> workstream_snapshot \<Rightarrow> int \<times> uuid \<times> int \<times> uuid" where
  "card_key ws w =
     (- project_newest ws (wn_project w), wn_project w, - wn_activity_seq w, wn_workstream w)"

definition project_order :: "workstream_snapshot list \<Rightarrow> uuid list" where
  "project_order ws =
     sort_key (\<lambda>k. (- project_newest ws k, k)) (sort (remdups (map wn_project ws)))"

definition members :: "workstream_snapshot list \<Rightarrow> uuid \<Rightarrow> workstream_snapshot list" where
  "members ws k = by_activity (filter (\<lambda>w. wn_project w = k) ws)"

lemma map_insort_key: "map f (insort_key (\<lambda>x. g (f x)) x xs) = insort_key g (f x) (map f xs)"
  by (induction xs) auto

lemma sort_key_map: "map f (sort_key (\<lambda>x. g (f x)) xs) = sort_key g (map f xs)"
  by (induction xs) (simp_all add: map_insort_key)

text \<open>A list that agrees with another one on every class of equal keys and is sorted is its stable sort.\<close>

lemma stable_sortI:
  assumes "\<And>k. filter (\<lambda>x. f k = f x) ys = filter (\<lambda>x. f k = f x) xs" and "sorted (map f ys)"
  shows "ys = sort_key f xs"
proof -
  have "mset ys = mset xs"
  proof (rule multiset_eqI)
    fix x
    have count: "count (mset (filter (\<lambda>y. f x = f y) zs)) x = count (mset zs) x" for zs
      by (simp add: mset_filter)
    show "count (mset ys) x = count (mset xs) x"
      unfolding count [of ys, symmetric] count [of xs, symmetric] assms(1) ..
  qed
  then have "sort_key f xs = ys"
    by (rule properties_for_sort_key) (rule assms(1), rule assms(2))
  then show ?thesis ..
qed

lemma set_members: "set (members ws k) = {w \<in> set ws. wn_project w = k}"
  by (simp add: members_def by_activity_def)

lemma project_groups_members:
  "map (\<lambda>(_, _, xs). xs) (sort_key (\<lambda>(k, newest, _). (- newest, k)) (project_groups ws)) =
     map (members ws) (project_order ws)"
proof -
  let ?g = "\<lambda>k. (k, project_newest ws k, members ws k)"
  have groups: "project_groups ws = map ?g (sort (remdups (map wn_project ws)))"
    by (simp add: project_groups_def members_def project_newest_def Let_def)
  have "sort_key (\<lambda>(k, newest, _). (- newest, k)) (map ?g ks) =
      map ?g (sort_key (\<lambda>k. (- project_newest ws k, k)) ks)" for ks
    using sort_key_map [of ?g "\<lambda>(k, newest, _). (- newest, k)" ks] by simp
  then show ?thesis by (simp add: groups project_order_def comp_def)
qed

lemma concat_filter_one:
  assumes "distinct ks" and "\<And>k. k \<noteq> j \<Longrightarrow> filter P (g k) = []"
  shows "filter P (concat (map g ks)) = (if j \<in> set ks then filter P (g j) else [])"
  using assms(1)
proof (induction ks)
  case (Cons k ks)
  then show ?case using assms(2) [of k] by (cases "k = j") auto
qed simp

lemma sorted_grouped:
  assumes "sorted (map h ks)" and "distinct ks" and "inj_on h (set ks)"
    and "\<And>k. sorted (map f (g k))"
    and "\<And>k k' x y. k \<in> set ks \<Longrightarrow> k' \<in> set ks \<Longrightarrow> h k < h k' \<Longrightarrow> x \<in> set (g k) \<Longrightarrow> y \<in> set (g k') \<Longrightarrow> f x \<le> f y"
  shows "sorted (map f (concat (map g ks)))"
  using assms(1-3,5)
proof (induction ks)
  case (Cons k ks)
  have less: "h k < h k'" if "k' \<in> set ks" for k'
  proof -
    from that Cons.prems(1) have "h k \<le> h k'" by simp
    moreover have "h k \<noteq> h k'" using that Cons.prems(2,3) by (auto simp: inj_on_def)
    ultimately show ?thesis by simp
  qed
  have "sorted (map f (concat (map g ks)))"
    by (rule Cons.IH) (use Cons.prems in auto)
  moreover have "f x \<le> f y" if "x \<in> set (g k)" "y \<in> set (g k')" "k' \<in> set ks" for x y k'
    using Cons.prems(4) [of k k' x y] less [OF that(3)] that by simp
  ultimately show ?case using assms(4) [of k] by (auto simp: sorted_append)
qed simp

lemma visual_order_sorted:
  "workstreams_in_visual_order s a =
     (let ws = filter (\<lambda>w. wn_archived w = a) (sn_workstreams s) in sort_key (card_key ws) ws)"
proof -
  define ws where "ws = filter (\<lambda>w. wn_archived w = a) (sn_workstreams s)"
  let ?ks = "project_order ws" and ?K = "card_key ws"
  let ?h = "\<lambda>k. (- project_newest ws k, k)"
  have ks: "distinct ?ks" "set ?ks = wn_project ` set ws" "sorted (map ?h ?ks)"
    by (simp_all add: project_order_def)
  have "concat (map (members ws) ?ks) = sort_key ?K ws"
  proof (rule stable_sortI)
    fix w
    let ?P = "\<lambda>x. ?K w = ?K x"
    have other: "filter ?P (members ws k) = []" if "k \<noteq> wn_project w" for k
      using that by (auto simp: filter_empty_conv set_members card_key_def)
    have "filter ?P (members ws (wn_project w)) =
        filter (\<lambda>x. (- wn_activity_seq x, wn_workstream x) = (- wn_activity_seq w, wn_workstream w))
          (members ws (wn_project w))"
      by (rule filter_cong) (auto simp: set_members card_key_def)
    also have "\<dots> = filter ?P ws"
      unfolding members_def by_activity_def sort_key_stable filter_filter
      by (rule filter_cong) (auto simp: card_key_def)
    finally have same: "filter ?P (members ws (wn_project w)) = filter ?P ws" .
    show "filter ?P (concat (map (members ws) ?ks)) = filter ?P ws"
    proof (cases "wn_project w \<in> set ?ks")
      case True
      then show ?thesis using concat_filter_one [OF ks(1), where j = "wn_project w" and P = ?P] other same by simp
    next
      case False
      then have "filter ?P ws = []" using ks(2) by (auto simp: filter_empty_conv card_key_def)
      then show ?thesis
        using concat_filter_one [OF ks(1), where j = "wn_project w" and P = ?P] other False by simp
    qed
  next
    have inner: "sorted (map ?K (members ws k))" for k
    proof -
      have "sorted (map (\<lambda>w. (- wn_activity_seq w, wn_workstream w)) (members ws k))"
        by (simp add: members_def by_activity_def)
      then show ?thesis
        unfolding sorted_map by (rule sorted_wrt_mono_rel [rotated]) (auto simp: set_members card_key_def)
    qed
    show "sorted (map ?K (concat (map (members ws) ?ks)))"
      by (rule sorted_grouped [OF ks(3,1) _ inner])
        (auto simp: inj_on_def set_members card_key_def less_prod_def)
  qed
  then show ?thesis
    unfolding workstreams_in_visual_order_def ws_def [symmetric] Let_def
    by (simp add: project_groups_members)
qed

lemma set_visual_order [simp]:
  "set (workstreams_in_visual_order s a) = {w \<in> set (sn_workstreams s). wn_archived w = a}"
  by (simp add: visual_order_sorted Let_def)

section \<open>Rows and identities\<close>

lemma identities_append [simp]: "identities (xs @ ys) = identities xs @ identities ys"
  by (simp add: identities_def)

lemma identities_Cons [simp]:
  "identities (ProvisionalShell l # rs) = ProvisionalShellId # identities rs"
  "identities (ProjectHeader h # rs) = identities rs"
  "identities (WorkstreamRow w # rs) = WorkstreamId (wn_workstream w) # identities rs"
  "identities [] = []"
  by (simp_all add: identities_def)

lemma identities_rows_from [simp]:
  "identities (rows_from s seen ws) = map (\<lambda>w. WorkstreamId (wn_workstream w)) ws"
  by (induction ws arbitrary: seen) (auto split: option.split)

lemma identities_rows:
  "identities (rows m) =
     (if md_page m = Workstreams then [ProvisionalShellId] else [])
     @ map (\<lambda>w. WorkstreamId (wn_workstream w))
         (workstreams_in_visual_order (md_snapshot m) (md_page m = Archived))"
  by (simp add: rows_def rows_for_def)

text \<open>The lines that the rows occupy, one identity per line.\<close>

definition row_lines :: "row list \<Rightarrow> row_id option list" where
  "row_lines rs = concat (map (\<lambda>r. replicate (render_height r) (row_identity r)) rs)"

lemma identity_at_line_lines:
  assumes "cursor \<le> line" and "cursor + length (row_lines rs) \<le> usize_max"
  shows "identity_at_line line cursor rs =
    (if line - cursor < length (row_lines rs) then row_lines rs ! (line - cursor) else None)"
  using assms
proof (induction rs arbitrary: cursor)
  case (Cons r rs)
  have here: "usize_saturating_add cursor (render_height r) = cursor + render_height r"
    using Cons.prems(2) by (simp add: usize_saturating_add_def row_lines_def)
  show ?case
  proof (cases "line < cursor + render_height r")
    case True
    then show ?thesis using Cons.prems(1) here by (auto simp: row_lines_def nth_append)
  next
    case False
    have "identity_at_line line cursor (r # rs) = identity_at_line line (cursor + render_height r) rs"
      using False here by simp
    also have "\<dots> = (if line - (cursor + render_height r) < length (row_lines rs)
        then row_lines rs ! (line - (cursor + render_height r)) else None)"
      by (rule Cons.IH) (use False Cons.prems(2) in \<open>simp_all add: row_lines_def\<close>)
    also have "\<dots> = (if line - cursor < length (row_lines (r # rs))
        then row_lines (r # rs) ! (line - cursor) else None)"
      using False by (auto simp: row_lines_def nth_append)
    finally show ?thesis .
  qed
qed (simp add: row_lines_def)

section \<open>Everything that happens to the model\<close>

datatype nav_event =
    KeyPressed key
  | ScrolledUp
  | ScrolledDown
  | CardClicked row_id
  | SnapshotArrived snapshot
  | ShellMoved shell_location
  | RuntimePromoted uuid
  | WorkstreamChosen uuid
  | CatalogChosen uuid
  | GuidanceShown string
  | GuidanceRetired string
  | SetupRequested observer_setup_kind

fun nav_step :: "nav_event \<Rightarrow> model \<Rightarrow> model \<times> command" where
  "nav_step (KeyPressed k) m = handle_key k m"
| "nav_step ScrolledUp m = (select_previous m, NoCommand)"
| "nav_step ScrolledDown m = (select_next m, NoCommand)"
| "nav_step (CardClicked i) m = activate_row i m"
| "nav_step (SnapshotArrived s) m = (replace_snapshot s m, NoCommand)"
| "nav_step (ShellMoved l) m = (set_shell_location l m, NoCommand)"
| "nav_step (RuntimePromoted i) m = (fst (select_runtime i m), NoCommand)"
| "nav_step (WorkstreamChosen i) m = (fst (select_workstream i m), NoCommand)"
| "nav_step (CatalogChosen i) m = (fst (select_catalog_workstream i m), NoCommand)"
| "nav_step (GuidanceShown g) m = (set_guidance g m, NoCommand)"
| "nav_step (GuidanceRetired g) m = (clear_guidance_if g m, NoCommand)"
| "nav_step (SetupRequested k) m = (request_observer_setup k m, NoCommand)"

definition nav_run :: "nav_event list \<Rightarrow> model \<Rightarrow> model" where
  "nav_run es m = fold (\<lambda>e m. fst (nav_step e m)) es m"

lemma nav_run_simps [simp]:
  "nav_run [] m = m" "nav_run (es @ [e]) m = fst (nav_step e (nav_run es m))"
  by (simp_all add: nav_run_def)

lemmas key_defs = handle_key_def handle_modal_key_def confirm_modal_def archive_selected_def
  forget_selected_def Let_def

section \<open>The cursor\<close>

definition cursor_visible :: "model \<Rightarrow> bool" where
  "cursor_visible m \<longleftrightarrow>
     (\<forall>i. md_selected m = Some i \<longrightarrow> i \<in> set (identities (rows m))) \<and>
     (md_selected m = None \<longrightarrow> identities (rows m) = [])"

lemma rows_cong:
  assumes "md_snapshot m' = md_snapshot m" and "md_page m' = md_page m"
  shows "identities (rows m') = identities (rows m)"
  using assms by (simp add: identities_rows)

lemma identities_selected [simp]:
  "identities (rows (m\<lparr> md_selected := i \<rparr>)) = identities (rows m)"
  "identities (rows (m\<lparr> md_modal := x \<rparr>)) = identities (rows m)"
  "identities (rows (m\<lparr> md_help := h \<rparr>)) = identities (rows m)"
  by (simp_all add: identities_rows)

lemma cursor_visible_cong:
  assumes "cursor_visible m" and "md_snapshot m' = md_snapshot m" and "md_page m' = md_page m"
    and "md_selected m' = md_selected m"
  shows "cursor_visible m'"
  using assms rows_cong [of m' m] by (simp add: cursor_visible_def)

lemma first_identity_visible:
  "(first_identity rs = Some i \<longrightarrow> i \<in> set (identities rs)) \<and>
   (first_identity rs = None \<longrightarrow> identities rs = [])"
  by (auto simp: first_identity_def split: list.split)

lemma set_page_visible: "cursor_visible (set_page p m)"
proof (cases p)
  case Workstreams
  then show ?thesis by (simp add: set_page_def cursor_visible_def identities_rows)
next
  case Archived
  then show ?thesis
    using first_identity_visible [of "rows (m\<lparr> md_page := Archived \<rparr>)"]
    by (simp add: set_page_def cursor_visible_def Let_def)
qed

lemma replace_snapshot_visible: "cursor_visible (replace_snapshot s m)"
proof -
  let ?m = "m\<lparr> md_snapshot := s \<rparr>"
  have "identities (rows (replace_snapshot s m)) = identities (rows ?m)"
    by (rule rows_cong) (simp_all add: replace_snapshot_def Let_def)
  then show ?thesis
    using first_identity_visible [of "rows ?m"]
    by (auto simp: cursor_visible_def replace_snapshot_def Let_def identities_rows split: option.splits)
qed

lemma select_offset_visible: "cursor_visible (select_offset d m)"
proof -
  let ?ids = "identities (rows m)"
  have same: "identities (rows (select_offset d m)) = ?ids"
    by (rule rows_cong) (simp_all add: select_offset_def Let_def split: option.split)
  show ?thesis
  proof (cases "?ids = []")
    case True
    then show ?thesis
      using same by (auto simp: cursor_visible_def select_offset_def Let_def index_of_def split: option.splits)
  next
    case False
    then have "nat ((int i + d) mod int (length ?ids)) < length ?ids" for i
      by (simp add: nat_less_iff)
    with False same show ?thesis
      by (auto simp: cursor_visible_def select_offset_def Let_def split: option.splits list.splits)
  qed
qed

lemma selected_workstream_Some:
  "selected_workstream m i = Some w \<Longrightarrow> w \<in> set (sn_workstreams (md_snapshot m)) \<and> wn_workstream w = i"
  unfolding selected_workstream_def by (auto dest: find_SomeD)

lemma handle_key_visible:
  assumes "cursor_visible m" shows "cursor_visible (fst (handle_key k m))"
proof -
  have "cursor_visible (select_next m)" "cursor_visible (select_previous m)"
    using assms by (simp_all add: select_next_def select_previous_def select_offset_visible)
  moreover have "cursor_visible (m\<lparr> md_modal := x \<rparr>)" "cursor_visible (m\<lparr> md_help := h \<rparr>)" for x h
    using assms by (auto intro: cursor_visible_cong)
  ultimately show ?thesis
    using assms set_page_visible
    by (auto simp: key_defs split: page.split option.split modal.split row_id.split onboarding_status.split)
qed

lemma nav_step_visible:
  assumes "cursor_visible m" shows "cursor_visible (fst (nav_step e m))"
proof (cases e)
  case (CardClicked i)
  then show ?thesis
    using assms rows_cong [of "m\<lparr> md_selected := Some i \<rparr>" m]
    by (auto simp: activate_row_def Let_def cursor_visible_def)
next
  case (RuntimePromoted i)
  then show ?thesis
    using assms by (auto simp: select_runtime_def cursor_visible_def identities_rows
        dest!: find_SomeD split: option.split)
next
  case (WorkstreamChosen i)
  then show ?thesis using assms by (auto simp: select_workstream_def cursor_visible_def identities_rows)
next
  case (CatalogChosen i)
  then show ?thesis
    using assms by (auto simp: select_catalog_workstream_def cursor_visible_def identities_rows
        dest!: selected_workstream_Some split: option.split)
qed (use assms in \<open>auto simp: handle_key_visible replace_snapshot_visible set_shell_location_def
    select_next_def select_previous_def select_offset_visible
    set_guidance_def clear_guidance_if_def request_observer_setup_def intro: cursor_visible_cong\<close>)

lemma model_new_visible: "cursor_visible (model_new s)"
  by (simp add: model_new_def cursor_visible_def identities_rows)

end
