(* ===== verification/Rendering.thy ===== *)
theory Rendering
  imports Cards
begin

text \<open>
  What \<open>src/navigator/view.rs\<close> draws: the lines of a card, the key hints, the footer and the
  overlays, and the card under a mouse position. The number of terminal cells of a text
  (\<open>display_width\<close>, ratatui over the unicode-width tables) is a parameter \<open>W\<close>.
\<close>

section \<open>Styled text\<close>

datatype color = Green | Magenta | Cyan | White | Blue | Yellow | Gray | Red | DarkGray | Indexed nat

record style =
  sty_fg :: "color option"
  sty_bold :: bool

type_synonym span = "string \<times> style"

definition plain :: style where "plain = \<lparr> sty_fg = None, sty_bold = False \<rparr>"

definition colored :: "color \<Rightarrow> style" where "colored c = \<lparr> sty_fg = Some c, sty_bold = False \<rparr>"

definition bold :: "color \<Rightarrow> style" where "bold c = \<lparr> sty_fg = Some c, sty_bold = True \<rparr>"

definition spaces :: "nat \<Rightarrow> string" where "spaces n = replicate n CHR '' ''"

section \<open>Truncation\<close>

fun take_width :: "(string \<Rightarrow> nat) \<Rightarrow> nat \<Rightarrow> nat \<Rightarrow> string list \<Rightarrow> string" where
  "take_width W budget width [] = []"
| "take_width W budget width (c # cs) =
     (if usize_saturating_add width (W c) > budget then []
      else c @ take_width W budget (usize_saturating_add width (W c)) cs)"

definition truncate_display :: "(string \<Rightarrow> nat) \<Rightarrow> string \<Rightarrow> nat \<Rightarrow> string" where
  "truncate_display W value maximum =
     (if maximum = 0 then []
      else if W value \<le> maximum then value
      else if maximum = 1 then ellipsis
      else take_width W (maximum - 1) 0 (utf8_chars value) @ ellipsis)"

section \<open>The lines of a card\<close>

fun provider_label :: "provider_kind \<Rightarrow> string" where
  "provider_label Codex = ''Codex''"
| "provider_label OpenCode = ''OpenCode''"

fun provider_color :: "provider_kind \<Rightarrow> style" where
  "provider_color Codex = bold Blue"
| "provider_color OpenCode = bold Yellow"

text \<open>The UTF-8 texts of the markers and of the tree.\<close>

definition square_mark :: string where "square_mark = [CHR 0xE2, CHR 0x96, CHR 0xA0]"
definition circle_mark :: string where "circle_mark = [CHR 0xE2, CHR 0x97, CHR 0x8F]"
definition check_mark :: string where "check_mark = [CHR 0xE2, CHR 0x9C, CHR 0x93]"
definition last_branch :: string where "last_branch = [CHR 0xE2, CHR 0x94, CHR 0x94, CHR '' '']"
definition inner_branch :: string where "inner_branch = [CHR 0xE2, CHR 0x94, CHR 0x9C, CHR '' '']"
definition trunk :: string where "trunk = [CHR 0xE2, CHR 0x94, CHR 0x82, CHR '' '']"

definition runtime_marker :: "runtime_status option \<Rightarrow> span" where
  "runtime_marker status =
     (case status of
        None \<Rightarrow> ('' '', plain)
      | Some s \<Rightarrow>
          (case s of
             runtime_status.Working \<Rightarrow> (circle_mark, colored Yellow)
           | runtime_status.Starting \<Rightarrow> (ellipsis, colored Cyan)
           | runtime_status.Unknown \<Rightarrow> (''?'', colored Red)
           | runtime_status.Attention \<Rightarrow> (check_mark, colored Green)
           | runtime_status.Stopped \<Rightarrow> (square_mark, colored Gray)
           | runtime_status.Idle \<Rightarrow> ('' '', plain)))"

definition workstream_marker :: "workstream_snapshot \<Rightarrow> span" where
  "workstream_marker w =
     (if wn_onboarding w = Some StatusRecoveryRequired
         \<or> wn_lifecycle w = workstream_lifecycle.RecoveryRequired
      then (''!'', colored Red)
      else if wn_onboarding w = Some StatusActionFenced then (ellipsis, colored Cyan)
      else if wn_lifecycle w = Parked then (square_mark, colored Gray)
      else runtime_marker (map_option rn_status (wn_runtime w)))"

text \<open>The first eight hexadecimal digits of the identity.\<close>

definition short_id :: "uuid \<Rightarrow> string" where
  "short_id i = take 8 (hex_bytes (be_bytes 16 (unat i)))"

definition workstream_name :: "workstream_snapshot \<Rightarrow> string" where
  "workstream_name w =
     (case nonempty (wn_native_name w) of Some name \<Rightarrow> name | None \<Rightarrow> short_id (wn_workstream w))"

definition context_line ::
  "(string \<Rightarrow> nat) \<Rightarrow> string \<Rightarrow> provider_kind \<Rightarrow> string \<Rightarrow> style \<Rightarrow> nat \<Rightarrow> span list" where
  "context_line W prefix kind age age_style available =
     (let prefix = truncate_display W prefix available;
          content_width = available - W prefix;
          provider = truncate_display W (provider_label kind) content_width;
          age_budget = content_width - W provider - (if provider = [] then 0 else 1);
          age = truncate_display W age age_budget;
          padding = available
            - usize_saturating_add (usize_saturating_add (W prefix) (W provider)) (W age)
      in [(prefix, colored (Indexed 245)), (provider, provider_color kind), (spaces padding, plain),
          (age, age_style)])"

definition thread_line ::
  "(string \<Rightarrow> nat) \<Rightarrow> string \<Rightarrow> span \<Rightarrow> string \<Rightarrow> nat \<Rightarrow> span list" where
  "thread_line W prefix marker title available =
     (let prefix = truncate_display W prefix available;
          indicator = truncate_display W (fst marker) (available - W prefix);
          separator_budget = available - W prefix - W indicator;
          separator = (if separator_budget > 0 then '' '' else []);
          title_budget = separator_budget - W separator
      in [(prefix, colored (Indexed 245)), (indicator, snd marker), (separator, plain),
          (truncate_display W title title_budget, colored White)])"

definition shell_context_line :: "(string \<Rightarrow> nat) \<Rightarrow> string \<Rightarrow> nat \<Rightarrow> color \<Rightarrow> span list" where
  "shell_context_line W value available c =
     (let indent = min available 2
      in [(spaces indent, plain), (truncate_display W value (available - indent), colored c)])"

section \<open>The age of the last activity\<close>

definition i64_saturating_sub :: "int \<Rightarrow> int \<Rightarrow> int" where
  "i64_saturating_sub a b = max (- (2 ^ 63)) (min i64_max (a - b))"

definition activity_elapsed_seconds :: "int option \<Rightarrow> int option \<Rightarrow> int option" where
  "activity_elapsed_seconds seen now =
     Option.bind now (\<lambda>n. map_option (\<lambda>l. max (i64_saturating_sub n l) 0 div 1000) seen)"

definition relative_activity_age :: "int option \<Rightarrow> int option \<Rightarrow> string option" where
  "relative_activity_age seen now =
     map_option (\<lambda>s.
       if s \<le> 59 then ''now''
       else if s \<le> 3599 then int_text (s div 60) @ '' min ago''
       else if s \<le> 86399 then int_text (s div 3600) @ '' hr ago''
       else if s \<le> 172799 then ''1 day ago''
       else int_text (s div 86400) @ '' days ago'') (activity_elapsed_seconds seen now)"

definition activity_label :: "int option \<Rightarrow> int option \<Rightarrow> string" where
  "activity_label seen now =
     (case relative_activity_age seen now of Some s \<Rightarrow> s | None \<Rightarrow> ''activity unknown'')"

definition activity_age_color :: "int option \<Rightarrow> int option \<Rightarrow> color" where
  "activity_age_color seen now =
     (case activity_elapsed_seconds seen now of
        None \<Rightarrow> Indexed 244
      | Some s \<Rightarrow>
          if s \<le> 59 then Indexed 255
          else if s \<le> 3599 then Indexed 251
          else if s \<le> 86399 then Indexed 247
          else if s \<le> 604799 then Indexed 244
          else Indexed 241)"

fun row_lines_at ::
  "(string \<Rightarrow> nat) \<Rightarrow> row \<Rightarrow> bool \<Rightarrow> nat \<Rightarrow> int option \<Rightarrow> span list list" where
  "row_lines_at W (ProvisionalShell location) tree_last available now =
     [[(''Shell'', bold Green)], shell_context_line W (sl_cwd location) available Cyan]"
| "row_lines_at W (ProjectHeader display) tree_last available now = [[(display, bold Magenta)]]"
| "row_lines_at W (WorkstreamRow w) tree_last available now =
     [context_line W (if tree_last then last_branch else inner_branch) (wn_provider w)
        (activity_label (wn_activity_at w) now)
        (colored (activity_age_color (wn_activity_at w) now)) available,
      thread_line W (if tree_last then ''  '' else trunk) (workstream_marker w) (workstream_name w)
        available]"

fun same_project_workstream :: "row \<Rightarrow> row \<Rightarrow> bool" where
  "same_project_workstream (WorkstreamRow a) (WorkstreamRow b) \<longleftrightarrow> wn_project a = wn_project b"
| "same_project_workstream _ _ \<longleftrightarrow> False"

text \<open>The items of the list, each with whether its row is selected.\<close>

fun drawn_items ::
  "(string \<Rightarrow> nat) \<Rightarrow> row_id option \<Rightarrow> nat \<Rightarrow> int option \<Rightarrow> row list \<Rightarrow> (span list list \<times> bool) list" where
  "drawn_items W selected available now [] = []"
| "drawn_items W selected available now (r # rs) =
     (row_lines_at W r
        (case rs of [] \<Rightarrow> True | nxt # _ \<Rightarrow> \<not> same_project_workstream r nxt) available now,
      row_identity r = selected) # drawn_items W selected available now rs"

section \<open>Widths\<close>

text \<open>
  What the proofs need of the width of a text: an empty text has none, a blank and the ellipsis have
  one cell, and the blanks of a terminal line add up. For a truncated text moreover that its width is not more than the
  widths of its characters; some emoji sequences are wider, \<open>narrow\<close> names the texts that are not.
\<close>

definition width_ok :: "(string \<Rightarrow> nat) \<Rightarrow> bool" where
  "width_ok W \<longleftrightarrow> (\<forall>n. n \<le> u16_max \<longrightarrow> W (spaces n) = n) \<and> W ellipsis = 1 \<and> (\<forall>s. W s < usize_max)"

definition narrow :: "(string \<Rightarrow> nat) \<Rightarrow> string \<Rightarrow> bool" where
  "narrow W s \<longleftrightarrow>
     (\<forall>n. W (concat (take n (utf8_chars s)) @ ellipsis)
        \<le> sum_list (map W (take n (utf8_chars s))) + W ellipsis)"

lemma width_okD:
  assumes "width_ok W"
  shows "n \<le> u16_max \<Longrightarrow> W (spaces n) = n" "W [] = 0" "W '' '' = 1" "W ellipsis = 1" "W s < usize_max"
proof -
  show blanks: "W (spaces n) = n" if "n \<le> u16_max" for n using assms that by (simp add: width_ok_def)
  show "W ellipsis = 1" "W s < usize_max" using assms by (simp_all add: width_ok_def)
  have "W (spaces 0) = 0" "W (spaces 1) = 1" by (rule blanks, simp add: u16_max_def)+
  then show "W [] = 0" "W '' '' = 1" by (simp_all add: spaces_def)
qed

lemma take_width_prefix:
  assumes "width \<le> budget" and "budget < usize_max"
  shows "\<exists>n. take_width W budget width cs = concat (take n cs) \<and>
    width + sum_list (map W (take n cs)) \<le> budget"
  using assms(1)
proof (induction cs arbitrary: width)
  case (Cons c cs)
  show ?case
  proof (cases "usize_saturating_add width (W c) > budget")
    case True
    then show ?thesis using Cons.prems by (intro exI [of _ 0]) simp
  next
    case False
    then have added: "usize_saturating_add width (W c) = width + W c" and le: "width + W c \<le> budget"
      using assms(2) by (auto simp: usize_saturating_add_def min_def split: if_splits)
    from Cons.IH [OF le] obtain n where "take_width W budget (width + W c) cs = concat (take n cs)"
      "width + W c + sum_list (map W (take n cs)) \<le> budget" by blast
    with False added show ?thesis by (intro exI [of _ "Suc n"]) simp
  qed
qed simp

lemma truncate_fits:
  assumes "width_ok W" and "narrow W s"
  shows "W (truncate_display W s n) \<le> n"
proof (cases "n \<le> 1 \<or> W s \<le> n")
  case True
  then show ?thesis using width_okD [OF assms(1)] by (auto simp: truncate_display_def)
next
  case False
  then have "n - 1 < usize_max" using width_okD(5) [OF assms(1), of s] by linarith
  from take_width_prefix [OF _ this, of 0 W "utf8_chars s"] obtain k where
    k: "take_width W (n - 1) 0 (utf8_chars s) = concat (take k (utf8_chars s))"
      "sum_list (map W (take k (utf8_chars s))) \<le> n - 1" by auto
  have "W (concat (take k (utf8_chars s)) @ ellipsis) \<le> (n - 1) + 1"
    using assms k(2) width_okD(4) [OF assms(1)] unfolding narrow_def by (metis add_le_mono1 le_trans)
  with False k(1) show ?thesis by (simp add: truncate_display_def)
qed

definition line_width :: "(string \<Rightarrow> nat) \<Rightarrow> span list \<Rightarrow> nat" where
  "line_width W line = sum_list (map (\<lambda>x. W (fst x)) line)"

lemma context_line_fills:
  assumes "width_ok W" and "narrow W prefix" and "narrow W (provider_label kind)" and "narrow W age"
    and "available \<le> u16_max"
  shows "line_width W (context_line W prefix kind age sty available) = available"
proof -
  define p where "p = truncate_display W prefix available"
  define v where "v = truncate_display W (provider_label kind) (available - W p)"
  define g where "g = truncate_display W age (available - W p - W v - (if v = [] then 0 else 1))"
  have "W p \<le> available" unfolding p_def by (rule truncate_fits [OF assms(1,2)])
  moreover have "W v \<le> available - W p" unfolding v_def by (rule truncate_fits [OF assms(1,3)])
  moreover have "W g \<le> available - W p - W v - (if v = [] then 0 else 1)"
    unfolding g_def by (rule truncate_fits [OF assms(1,4)])
  ultimately have total: "W p + W v + W g \<le> available" by simp
  then have "usize_saturating_add (usize_saturating_add (W p) (W v)) (W g) = W p + W v + W g"
    using assms(5) by (simp add: usize_saturating_add_def usize_max_def u16_max_def)
  moreover have "context_line W prefix kind age sty available = [(p, colored (Indexed 245)),
      (v, provider_color kind), (spaces (available
        - usize_saturating_add (usize_saturating_add (W p) (W v)) (W g)), plain), (g, sty)]"
    unfolding context_line_def Let_def p_def v_def g_def ..
  ultimately show ?thesis
    using total assms(5) width_okD(1) [OF assms(1)] by (simp add: line_width_def)
qed

lemma thread_line_fits:
  assumes "width_ok W" and "narrow W prefix" and "narrow W (fst marker)" and "narrow W title"
  shows "line_width W (thread_line W prefix marker title available) \<le> available"
proof -
  define p where "p = truncate_display W prefix available"
  define i where "i = truncate_display W (fst marker) (available - W p)"
  define sep where "sep = (if available - W p - W i > 0 then '' '' else [])"
  define t where "t = truncate_display W title (available - W p - W i - W sep)"
  have "W p \<le> available" "W i \<le> available - W p" "W t \<le> available - W p - W i - W sep"
    unfolding p_def i_def t_def by (rule truncate_fits [OF assms(1)], rule assms)+
  moreover have "W sep \<le> available - W p - W i"
    unfolding sep_def using width_okD(2,3) [OF assms(1)] by auto
  ultimately have "W p + W i + W sep + W t \<le> available" by simp
  moreover have "thread_line W prefix marker title available =
      [(p, colored (Indexed 245)), (i, snd marker), (sep, plain), (t, colored White)]"
    unfolding thread_line_def Let_def p_def i_def sep_def t_def ..
  ultimately show ?thesis by (simp add: line_width_def)
qed

lemma shell_context_fits:
  assumes "width_ok W" and "narrow W value" and "available \<le> u16_max"
  shows "line_width W (shell_context_line W value available c) \<le> available"
  using truncate_fits [OF assms(1,2), of "available - min available 2"] assms(3)
    width_okD(1) [OF assms(1), of "min available 2"]
  by (simp add: shell_context_line_def line_width_def Let_def)

lemma row_lines_height: "length (row_lines_at W r t available now) = render_height r"
  by (cases r) simp_all

end
