(* ===== verification/Controller.thy ===== *)
theory Controller
  imports Navigator
begin

text \<open>
  The pure decisions of \<open>src/navigator/controller.rs\<close>: the preflight of a managed action against a
  fresh snapshot, the intents that survive an observer review, the guidance of a provider-exec
  reconciliation, and the label of the shell card.
\<close>

section \<open>Preflight\<close>

datatype navigator_error =
    SnapshotFailed snapshot_error
  | ProvisionalShellUnavailable
  | SameLocationSessionUnavailable
  | ManagedActionUnavailable

definition found_unfenced ::
  "(workstream_snapshot \<Rightarrow> bool) \<Rightarrow> snapshot \<Rightarrow> (navigator_error, unit) result" where
  "found_unfenced P s =
     and_then (ok_or (List.find P (sn_workstreams s)) ManagedActionUnavailable) (\<lambda>w.
     if wn_onboarding w \<noteq> None then Inl ManagedActionUnavailable else Inr ())"

definition require_catalog_workstream ::
  "snapshot \<Rightarrow> uuid \<Rightarrow> int \<Rightarrow> provider_kind option \<Rightarrow> catalog_authorization \<Rightarrow> (navigator_error, unit) result" where
  "require_catalog_workstream s i v provider authorization =
     found_unfenced (\<lambda>w. wn_workstream w = i \<and> (permits_archived authorization \<or> \<not> wn_archived w)
       \<and> wn_revision w = v \<and> (case provider of None \<Rightarrow> True | Some p \<Rightarrow> wn_provider w = p)) s"

definition require_active_workstream ::
  "snapshot \<Rightarrow> uuid \<Rightarrow> int \<Rightarrow> provider_kind option \<Rightarrow> (navigator_error, unit) result" where
  "require_active_workstream s i v provider = require_catalog_workstream s i v provider ActiveOnly"

definition require_forgettable_workstream ::
  "snapshot \<Rightarrow> uuid \<Rightarrow> int \<Rightarrow> (navigator_error, unit) result" where
  "require_forgettable_workstream s i v =
     found_unfenced (\<lambda>w. wn_workstream w = i \<and> wn_archived w \<and> wn_revision w = v) s"

definition require_archivable_workstream ::
  "snapshot \<Rightarrow> uuid \<Rightarrow> int \<Rightarrow> (navigator_error, unit) result" where
  "require_archivable_workstream s i v =
     and_then (ok_or (List.find (\<lambda>w. wn_workstream w = i \<and> \<not> wn_archived w \<and> wn_revision w = v)
       (sn_workstreams s)) ManagedActionUnavailable) (\<lambda>w.
     if wn_onboarding w = Some StatusActionFenced then Inl ManagedActionUnavailable else Inr ())"

section \<open>Managed actions\<close>

datatype managed_action =
    ManagedStart uuid int provider_kind
  | ManagedRecover uuid int provider_kind
  | ManagedArchive uuid int
  | ManagedRestore uuid int
  | ManagedForget uuid int

datatype pending_observer_intent =
    Managed managed_action
  | PendingNew uuid int provider_kind

fun into_command :: "pending_observer_intent \<Rightarrow> command" where
  "into_command (Managed (ManagedStart i v p)) = Start i v p"
| "into_command (Managed (ManagedRecover i v p)) = Recover i v p"
| "into_command (Managed (ManagedArchive i v)) = Archive i v"
| "into_command (Managed (ManagedRestore i v)) = Restore i v"
| "into_command (Managed (ManagedForget i v)) = Forget i v"
| "into_command (PendingNew i v p) = NewAtSameLocation i v p"

text \<open>The managed action of a command, as \<open>execute_command\<close> builds it.\<close>

fun managed_command :: "command \<Rightarrow> managed_action option" where
  "managed_command (Start i v p) = Some (ManagedStart i v p)"
| "managed_command (Recover i v p) = Some (ManagedRecover i v p)"
| "managed_command (Archive i v) = Some (ManagedArchive i v)"
| "managed_command (Restore i v) = Some (ManagedRestore i v)"
| "managed_command (Forget i v) = Some (ManagedForget i v)"
| "managed_command _ = None"

text \<open>The preflight of \<open>apply_managed_action\<close>.\<close>

fun managed_preflight :: "snapshot \<Rightarrow> managed_action \<Rightarrow> (navigator_error, unit) result" where
  "managed_preflight s (ManagedStart i v p) =
     require_catalog_workstream s i v (Some p) ArchivedAllowed"
| "managed_preflight s (ManagedRecover i v p) =
     require_catalog_workstream s i v (Some p) ArchivedAllowed"
| "managed_preflight s (ManagedArchive i v) = require_archivable_workstream s i v"
| "managed_preflight s (ManagedRestore i v) =
     found_unfenced (\<lambda>w. wn_workstream w = i \<and> wn_archived w \<and> wn_revision w = v) s"
| "managed_preflight s (ManagedForget i v) = require_forgettable_workstream s i v"

definition resolves_onboarding_recovery :: "snapshot \<Rightarrow> uuid \<Rightarrow> bool" where
  "resolves_onboarding_recovery s i \<longleftrightarrow>
     (\<exists>w \<in> set (sn_workstreams s). wn_workstream w = i \<and> wn_onboarding w = Some StatusRecoveryRequired)"

text \<open>The fresh attachment of a card after its action.\<close>

definition navigator_attachment_for :: "snapshot \<Rightarrow> uuid \<Rightarrow> (int \<times> uuid \<times> int) option" where
  "navigator_attachment_for s i =
     Option.bind (List.find (\<lambda>w. wn_workstream w = i \<and> wn_onboarding w = None) (sn_workstreams s)) (\<lambda>w.
     map_option (\<lambda>r. (wn_revision w, rn_runtime r, rn_revision r)) (wn_runtime w))"

section \<open>Refreshes\<close>

datatype attachment_phase = AttachPending | AttachRunning | AttachCompleted | AttachFailed
datatype attachment_purpose = OrdinaryAttach | ProviderCycle

record attachment_status =
  as_attempt :: uuid
  as_workstream :: uuid
  as_phase :: attachment_phase
  as_purpose :: attachment_purpose

definition cycle_selection_attempt :: "attachment_status \<Rightarrow> uuid option \<Rightarrow> uuid option" where
  "cycle_selection_attempt a seen =
     (if as_purpose a = ProviderCycle \<and> as_phase a = AttachRunning \<and> seen \<noteq> Some (as_attempt a)
      then Some (as_attempt a) else None)"

text \<open>\<open>status\<close> is what the presentation reads back, \<open>None\<close> when it cannot.\<close>

definition sync_cycle_selection ::
  "attachment_status option \<Rightarrow> uuid option \<Rightarrow> model \<Rightarrow> model \<times> uuid option" where
  "sync_cycle_selection status seen m =
     (case status of
        None \<Rightarrow> (m, seen)
      | Some a \<Rightarrow>
          (case cycle_selection_attempt a seen of
             None \<Rightarrow> (m, seen)
           | Some attempt \<Rightarrow>
               (case select_workstream (as_workstream a) m of
                  (m', True) \<Rightarrow> (m', Some attempt)
                | (m', False) \<Rightarrow> (m', seen))))"

datatype provider_exec_refresh = RefreshIdle | RefreshOwned uuid bool | RefreshUnavailable

definition managed_session_reconciliation_guidance :: string where
  "managed_session_reconciliation_guidance =
     ''Managed session reconciliation is unavailable; exact recovery required''"

fun apply_provider_exec_refresh :: "provider_exec_refresh \<Rightarrow> model \<Rightarrow> model" where
  "apply_provider_exec_refresh RefreshIdle m =
     clear_guidance_if managed_session_reconciliation_guidance m"
| "apply_provider_exec_refresh (RefreshOwned _ reconciled) m =
     (if reconciled then clear_guidance_if managed_session_reconciliation_guidance m
      else set_guidance managed_session_reconciliation_guidance m)"
| "apply_provider_exec_refresh RefreshUnavailable m =
     set_guidance managed_session_reconciliation_guidance m"

section \<open>The label of the shell card\<close>

definition safe_path_component :: "string \<Rightarrow> string option" where
  "safe_path_component c =
     (if valid_utf8 c \<and> c \<noteq> [] \<and> \<not> contains_control c then Some c else None)"

definition abbreviated_path_component :: "string \<Rightarrow> string" where
  "abbreviated_path_component c =
     (case utf8_chars c of
        [] \<Rightarrow> []
      | first # rest \<Rightarrow>
          if first = ''.'' then (case rest of [] \<Rightarrow> ''.'' | x # _ \<Rightarrow> CHR ''.'' # x) else first)"

fun safe_components :: "path_component list \<Rightarrow> string list option" where
  "safe_components [] = Some []"
| "safe_components (NormalDir c # cs) =
     Option.bind (safe_path_component c) (\<lambda>x. map_option (Cons x) (safe_components cs))"
| "safe_components (RootDir # cs) = safe_components cs"
| "safe_components (CurDir # cs) = None"
| "safe_components (ParentDir # cs) = None"

fun join_with :: "string \<Rightarrow> string list \<Rightarrow> string" where
  "join_with sep [] = []"
| "join_with sep [x] = x"
| "join_with sep (x # y # ys) = x @ sep @ join_with sep (y # ys)"

text \<open>The path is given by its components; it is absolute when they start at the root.\<close>

definition abbreviated_path :: "path_component list \<Rightarrow> string option" where
  "abbreviated_path cs =
     (let absolute = (cs \<noteq> [] \<and> hd cs = RootDir) in
      Option.bind (safe_components cs) (\<lambda>components.
        if components = [] then (if absolute then Some ''/'' else None)
        else
          let display = join_with ''/''
            (map abbreviated_path_component (butlast components) @ [last components])
          in Some (if absolute then CHR ''/'' # display else display)))"

fun strip_components :: "path_component list \<Rightarrow> path_component list \<Rightarrow> path_component list option" where
  "strip_components [] cs = Some cs"
| "strip_components (h # hs) (c # cs) = (if h = c then strip_components hs cs else None)"
| "strip_components (h # hs) [] = None"

definition describe_shell_location :: "string \<Rightarrow> string option \<Rightarrow> shell_location" where
  "describe_shell_location cwd home =
     (let under = Option.bind home (\<lambda>h. strip_components (path_components h) (path_components cwd));
          relative = Option.bind under (\<lambda>r.
            if r = [] then Some ''~''
            else map_option (\<lambda>x. CHR ''~'' # CHR ''/'' # x) (abbreviated_path r));
          label = (case relative of
                     Some x \<Rightarrow> x
                   | None \<Rightarrow> (case abbreviated_path (path_components cwd) of
                                Some x \<Rightarrow> x | None \<Rightarrow> ''unavailable''))
      in shell_location_cwd label)"

text \<open>\<open>observed\<close> is the directory of the last refresh.\<close>

definition refresh_shell_location ::
  "string option \<Rightarrow> string option \<Rightarrow> string option \<Rightarrow> model \<Rightarrow> model \<times> string option" where
  "refresh_shell_location cwd home observed m =
     (if cwd = observed then (m, observed)
      else (set_shell_location
              (case cwd of None \<Rightarrow> shell_location_cwd ''unavailable''
                         | Some c \<Rightarrow> describe_shell_location c home) m, cwd))"

end
