(* ===== verification/Selection.thy ===== *)
theory Selection
  imports Cards Controller
begin

text \<open>
  What the Navigator promises to its user: the order of the cards, a cursor that is always on a
  card, clicks that hit the card that is drawn there, commands that name exactly the revision that
  was shown, and dialogs that confirm exactly what they asked.
\<close>

section \<open>The order\<close>

lemma project_newest_Max:
  assumes "w \<in> set ws"
  shows "project_newest ws (wn_project w) =
    Max (wn_activity_seq ` {x \<in> set ws. wn_project x = wn_project w})"
proof -
  let ?xs = "by_activity (filter (\<lambda>x. wn_project x = wn_project w) ws)"
  let ?f = "\<lambda>x. (- wn_activity_seq x, wn_workstream x)"
  have xs: "set ?xs = {x \<in> set ws. wn_project x = wn_project w}" "sorted (map ?f ?xs)"
    by (simp_all add: by_activity_def)
  from assms xs(1) obtain y ys where cons: "?xs = y # ys" by (cases ?xs) auto
  have "wn_activity_seq x \<le> wn_activity_seq y" if "x \<in> set ?xs" for x
    using xs(2) that unfolding cons by auto
  then have "Max (wn_activity_seq ` set ?xs) = wn_activity_seq y"
    by (intro Max_eqI) (auto simp: cons)
  then show ?thesis by (simp add: project_newest_def newest_activity_def cons xs(1) [symmetric])
qed

lemma insort_key_cong:
  "(\<And>z. z \<in> insert y (set zs) \<Longrightarrow> f z = g z) \<Longrightarrow> insort_key f y zs = insort_key g y zs"
  by (induction zs) auto

lemma sort_key_cong:
  assumes "\<And>x. x \<in> set xs \<Longrightarrow> f x = g x"
  shows "sort_key f xs = sort_key g xs"
  using assms
proof (induction xs)
  case (Cons x xs)
  then have "sort_key f xs = sort_key g xs" by simp
  moreover have "insort_key f x (sort_key g xs) = insort_key g x (sort_key g xs)"
    by (rule insort_key_cong) (use Cons.prems in simp)
  ultimately show ?case by simp
qed simp

text \<open>The cards of a page are one stable sort of the Workstreams that belong on it: first the
  Project with the latest activity of any of its Workstreams, Projects with the same activity by
  their identity, and inside a Project the Workstreams by their own activity, the latest first,
  then by identity. The two levels of grouping and sorting that build the page lose, repeat and
  displace no card.\<close>

theorem visual_order_is_one_sort:
  "workstreams_in_visual_order s archived =
     (let ws = filter (\<lambda>w. wn_archived w = archived) (sn_workstreams s);
          newest = (\<lambda>k. Max (wn_activity_seq ` {x \<in> set ws. wn_project x = k}))
      in sort_key (\<lambda>w. (- newest (wn_project w), wn_project w, - wn_activity_seq w, wn_workstream w)) ws)"
  unfolding visual_order_sorted Let_def
  by (rule sort_key_cong) (simp add: card_key_def project_newest_Max)

section \<open>The cursor\<close>

lemma nav_run_visible: "cursor_visible (nav_run es (model_new s))"
  by (induction es rule: rev_induct) (simp_all add: model_new_visible nav_step_visible)

text \<open>C19: Whatever keys, clicks, scrolls, refreshes and promotions reach the model, in whatever
  order, the cursor is on a card that the current page shows, and it is absent only when the page
  shows no card at all.\<close>

theorem cursor_stays_visible:
  "case md_selected (nav_run es (model_new s)) of
     Some i \<Rightarrow> i \<in> set (identities (rows (nav_run es (model_new s))))
   | None \<Rightarrow> identities (rows (nav_run es (model_new s))) = []"
  using nav_run_visible [of es s] by (auto simp: cursor_visible_def split: option.split)

lemma index_of_Some: "index_of x xs = Some n \<Longrightarrow> n < length xs \<and> xs ! n = x"
  unfolding index_of_def Let_def by (auto split: if_splits dest: nth_length_takeWhile)

lemma index_of_member:
  assumes "x \<in> set xs" shows "index_of x xs \<noteq> None"
proof -
  from assms obtain ys zs where "xs = ys @ x # zs" "x \<notin> set ys" by (auto dest: split_list_first)
  then have "takeWhile (\<lambda>y. y \<noteq> x) xs = ys" by (auto simp: takeWhile_append)
  with \<open>xs = ys @ x # zs\<close> show ?thesis by (simp add: index_of_def)
qed

lemma index_of_nth: "distinct xs \<Longrightarrow> n < length xs \<Longrightarrow> index_of (xs ! n) xs = Some n"
  using index_of_member [of "xs ! n" xs] index_of_Some [of "xs ! n" xs]
  by (auto simp: nth_eq_iff_index_eq)

definition card_ids_distinct :: "snapshot \<Rightarrow> bool" where
  "card_ids_distinct s \<longleftrightarrow> distinct (map wn_workstream (sn_workstreams s))"

lemma distinct_identities:
  assumes "card_ids_distinct (md_snapshot m)"
  shows "distinct (identities (rows m))"
proof -
  have "distinct (map (\<lambda>w. WorkstreamId (wn_workstream w)) (workstreams_in_visual_order s a))"
    if "distinct (map wn_workstream (sn_workstreams s))" for s a
  proof -
    let ?ws = "filter (\<lambda>w. wn_archived w = a) (sn_workstreams s)"
    from that have "distinct ?ws" "inj_on wn_workstream (set ?ws)"
      by (auto simp: distinct_map inj_on_def)
    then show ?thesis by (auto simp: visual_order_sorted Let_def distinct_map inj_on_def)
  qed
  then show ?thesis using assms by (auto simp: identities_rows card_ids_distinct_def)
qed

lemma select_offset_index:
  assumes "index_of i (identities (rows m)) = Some n" and "md_selected m = Some i"
  shows "select_offset d m = m\<lparr> md_selected :=
    Some (identities (rows m) ! nat ((int n + d) mod int (length (identities (rows m))))) \<rparr>"
  using assms index_of_Some [OF assms(1)] by (auto simp: select_offset_def Let_def split: list.splits)

text \<open>Moving the cursor down and up again restores the model, also across the ends of the list,
  where the cursor wraps around.\<close>

theorem previous_undoes_next:
  assumes "card_ids_distinct (md_snapshot m)" and "cursor_visible m" and "md_selected m \<noteq> None"
    and "\<not> md_help m" and "md_modal m = None"
  shows "select_previous (select_next m) = m \<and> select_next (select_previous m) = m"
proof -
  let ?ids = "identities (rows m)"
  from assms(3) obtain i where i: "md_selected m = Some i" by auto
  with assms(2) have "i \<in> set ?ids" by (simp add: cursor_visible_def)
  then obtain n where n: "index_of i ?ids = Some n" using index_of_member by fastforce
  note n' = index_of_Some [OF n]
  have dist: "distinct ?ids" using assms(1) by (rule distinct_identities)
  have there_and_back: "select_offset (- d) (select_offset d m) = m" for d
  proof -
    let ?j = "nat ((int n + d) mod int (length ?ids))"
    from n' have "0 < length ?ids" by linarith
    then have j: "?j < length ?ids" by (simp add: nat_less_iff)
    have ids: "identities (rows (select_offset d m)) = ?ids"
      by (simp add: select_offset_index [OF n i])
    have sel: "md_selected (select_offset d m) = Some (?ids ! ?j)"
      by (simp add: select_offset_index [OF n i])
    have "select_offset (- d) (select_offset d m) = (select_offset d m)\<lparr> md_selected :=
        Some (?ids ! nat ((int ?j + - d) mod int (length ?ids))) \<rparr>"
      by (subst select_offset_index [OF _ sel, of ?j])
        (simp_all add: ids index_of_nth [OF dist j])
    moreover have "int ?j = (int n + d) mod int (length ?ids)"
      using \<open>0 < length ?ids\<close> by simp
    then have "(int ?j + - d) mod int (length ?ids) = int n"
      using n' by (simp add: mod_diff_left_eq)
    ultimately show ?thesis using n' i by (simp add: select_offset_index [OF n i])
  qed
  have "\<not> md_help (select_offset d m)" "md_modal (select_offset d m) = None" for d
    using assms(4,5) by (simp_all add: select_offset_index [OF n i])
  then show ?thesis
    using assms(4,5) there_and_back [of 1] there_and_back [of "- 1"]
    by (simp add: select_next_def select_previous_def)
qed

text \<open>Two cards of one Project, the second one with an interrupted onboarding.\<close>

definition sample_card :: "uuid \<Rightarrow> int \<Rightarrow> onboarding_status option \<Rightarrow> workstream_snapshot" where
  "sample_card i activity status =
     \<lparr> wn_project = 2, wn_location = 1, wn_workstream = i, wn_provider = Codex,
       wn_lifecycle = workstream_lifecycle.Open, wn_archived = False, wn_activity_seq = activity,
       wn_activity_at = None, wn_revision = 7,
       wn_runtime = Some \<lparr> rn_runtime = 4, rn_status = Stopped, rn_revision = 5 \<rparr>,
       wn_onboarding = status, wn_native_name = None \<rparr>"

definition sample_cards :: snapshot where
  "sample_cards =
     \<lparr> sn_projects = [\<lparr> pn_project = 2, pn_display = ''project'', pn_locations = [] \<rparr>],
       sn_workstreams = [sample_card 3 1 None, sample_card 8 4 (Some StatusRecoveryRequired)],
       sn_unresolved = [] \<rparr>"

lemmas sample_card_defs = sample_cards_def sample_card_def model_new_def

lemma previous_undoes_next_witness:
  "select_previous (select_next (model_new sample_cards)) = model_new sample_cards"
proof -
  have "card_ids_distinct (md_snapshot (model_new sample_cards))"
    by (simp add: card_ids_distinct_def sample_card_defs)
  then show ?thesis
    using previous_undoes_next [of "model_new sample_cards"] model_new_visible [of sample_cards]
    by (simp add: model_new_def)
qed

section \<open>Clicks\<close>

lemma row_id_at_lines:
  assumes "length (row_lines (rows m)) \<le> usize_max"
  shows "row_id_at_render_line m line =
    (if line < length (row_lines (rows m)) then row_lines (rows m) ! line else None)"
  unfolding row_id_at_render_line_def
  using identity_at_line_lines [of 0 line "rows m"] assms by simp

lemma sample_rows:
  "rows (model_new sample_cards) =
     [ProvisionalShell (shell_location_cwd ''unavailable''), ProjectHeader ''project'',
      WorkstreamRow (sample_card 8 4 (Some StatusRecoveryRequired)),
      WorkstreamRow (sample_card 3 1 None)]"
  by (simp add: rows_def rows_for_def visual_order_sorted Let_def sample_card_defs card_key_def
      project_newest_def newest_activity_def by_activity_def)

section \<open>Preflight\<close>

lemma find_exact:
  assumes "card_ids_distinct s"
  shows "List.find (\<lambda>w. wn_workstream w = i \<and> P w) (sn_workstreams s) =
    Option.bind (List.find (\<lambda>w. wn_workstream w = i) (sn_workstreams s)) (\<lambda>w. if P w then Some w else None)"
proof -
  have "List.find (\<lambda>w. wn_workstream w = i \<and> P w) ws =
      Option.bind (List.find (\<lambda>w. wn_workstream w = i) ws) (\<lambda>w. if P w then Some w else None)"
    if "distinct (map wn_workstream ws)" for ws
    using that
  proof (induction ws)
    case (Cons w ws)
    have "List.find (\<lambda>x. wn_workstream x = i \<and> P x) ws = None" if "wn_workstream w = i"
      using Cons.prems that by (auto simp: find_None_iff image_iff)
    then show ?case using Cons by auto
  qed simp
  then show ?thesis using assms by (simp add: card_ids_distinct_def)
qed

lemma find_card:
  assumes "card_ids_distinct s"
  shows "List.find (\<lambda>w. wn_workstream w = i) (sn_workstreams s) = Some w \<longleftrightarrow>
    w \<in> set (sn_workstreams s) \<and> wn_workstream w = i"
proof -
  have "List.find (\<lambda>w. wn_workstream w = i) ws = Some w \<longleftrightarrow> w \<in> set ws \<and> wn_workstream w = i"
    if "distinct (map wn_workstream ws)" for ws
    using that by (induction ws) force+
  then show ?thesis using assms by (simp add: card_ids_distinct_def)
qed

text \<open>What an action needs of the card it names.\<close>

fun action_workstream :: "managed_action \<Rightarrow> uuid" where
  "action_workstream (ManagedStart i v p) = i"
| "action_workstream (ManagedRecover i v p) = i"
| "action_workstream (ManagedArchive i v) = i"
| "action_workstream (ManagedRestore i v) = i"
| "action_workstream (ManagedForget i v) = i"

fun action_fits :: "managed_action \<Rightarrow> workstream_snapshot \<Rightarrow> bool" where
  "action_fits (ManagedStart i v p) w =
     (wn_revision w = v \<and> wn_provider w = p \<and> wn_onboarding w = None)"
| "action_fits (ManagedRecover i v p) w =
     (wn_revision w = v \<and> wn_provider w = p \<and> wn_onboarding w = None)"
| "action_fits (ManagedArchive i v) w =
     (wn_revision w = v \<and> \<not> wn_archived w \<and> wn_onboarding w \<noteq> Some StatusActionFenced)"
| "action_fits (ManagedRestore i v) w =
     (wn_revision w = v \<and> wn_archived w \<and> wn_onboarding w = None)"
| "action_fits (ManagedForget i v) w =
     (wn_revision w = v \<and> wn_archived w \<and> wn_onboarding w = None)"

lemmas preflight_defs = require_catalog_workstream_def require_active_workstream_def
  require_forgettable_workstream_def require_archivable_workstream_def found_unfenced_def

lemma preflight_exact:
  assumes "card_ids_distinct s"
  shows "managed_preflight s a =
    (case List.find (\<lambda>w. wn_workstream w = action_workstream a) (sn_workstreams s) of
       None \<Rightarrow> Inl ManagedActionUnavailable
     | Some w \<Rightarrow> if action_fits a w then Inr () else Inl ManagedActionUnavailable)"
  by (cases a)
    (auto simp: preflight_defs permits_archived_def find_exact [OF assms] conj_assoc split: option.split bind_splits)

text \<open>C20: The preflight of a managed action against a fresh snapshot succeeds exactly when the card
  of the action is there with the revision the action names, the provider it names, the archive
  state it is for, and without the onboarding fence it must respect; everything else is one and
  the same refusal.\<close>

theorem preflight_accepts_exactly:
  assumes "card_ids_distinct s"
  shows "managed_preflight s a =
    (if \<exists>w. w \<in> set (sn_workstreams s) \<and> wn_workstream w = action_workstream a \<and> action_fits a w
     then Inr () else Inl ManagedActionUnavailable)"
proof (cases "List.find (\<lambda>w. wn_workstream w = action_workstream a) (sn_workstreams s)")
  case None
  then have "wn_workstream w \<noteq> action_workstream a" if "w \<in> set (sn_workstreams s)" for w
    using that by (auto simp: find_None_iff)
  then show ?thesis unfolding preflight_exact [OF assms] None by auto
next
  case (Some w)
  have here: "w \<in> set (sn_workstreams s)" "wn_workstream w = action_workstream a"
    using Some find_card [OF assms] by auto
  have "w' = w" if "w' \<in> set (sn_workstreams s)" "wn_workstream w' = action_workstream a" for w'
    using that find_card [OF assms, of "action_workstream a" w'] Some by simp
  with here have "(\<exists>w. w \<in> set (sn_workstreams s) \<and> wn_workstream w = action_workstream a \<and> action_fits a w)
      \<longleftrightarrow> action_fits a w" by metis
  then show ?thesis unfolding preflight_exact [OF assms] Some by simp
qed

lemma preflight_accepts_exactly_witness:
  "managed_preflight sample_cards (ManagedArchive 3 7) = Inr () \<and>
   managed_preflight sample_cards (ManagedArchive 3 6) = Inl ManagedActionUnavailable"
proof -
  have "card_ids_distinct sample_cards" by (simp add: card_ids_distinct_def sample_card_defs)
  note exact = preflight_accepts_exactly [OF this]
  have "action_fits (ManagedArchive 3 7) (sample_card 3 1 None)" by (simp add: sample_card_def)
  moreover have "sample_card 3 1 None \<in> set (sn_workstreams sample_cards)"
    "wn_workstream (sample_card 3 1 None) = 3"
    by (simp_all add: sample_cards_def sample_card_def)
  ultimately have "managed_preflight sample_cards (ManagedArchive 3 7) = Inr ()"
    using exact [of "ManagedArchive 3 7"] by auto
  moreover have "wn_revision w = 7" if "w \<in> set (sn_workstreams sample_cards)" for w
    using that by (auto simp: sample_cards_def sample_card_def)
  then have "managed_preflight sample_cards (ManagedArchive 3 6) = Inl ManagedActionUnavailable"
    using exact [of "ManagedArchive 3 6"] by auto
  ultimately show ?thesis ..
qed

section \<open>Commands\<close>

lemma primary_action_fits:
  assumes "managed_command (primary_workstream_action m i) = Some a"
  shows "\<exists>w. selected_workstream m i = Some w \<and> action_fits a w \<and> action_workstream a = i"
proof (cases "selected_workstream m i")
  case None
  with assms show ?thesis by (simp add: primary_workstream_action_def)
next
  case (Some w)
  with assms show ?thesis
    by (auto simp: primary_workstream_action_def split: option.splits onboarding_status.splits if_splits)
qed

text \<open>The card that an offered action names; the key \<open>u\<close> does not look at the onboarding of its card.\<close>

definition offered_for :: "model \<Rightarrow> managed_action \<Rightarrow> workstream_snapshot \<Rightarrow> bool" where
  "offered_for m a w \<longleftrightarrow>
     selected_workstream m (action_workstream a) = Some w \<and>
     md_selected m = Some (WorkstreamId (action_workstream a)) \<and>
     (action_fits a w \<or> a = ManagedRestore (wn_workstream w) (wn_revision w) \<and> wn_onboarding w \<noteq> None)"

lemma activate_offers:
  assumes "managed_command (activate_selected m) = Some a"
  shows "\<exists>w. offered_for m a w"
proof -
  from assms obtain i where "md_selected m = Some (WorkstreamId i)"
    "managed_command (primary_workstream_action m i) = Some a"
    by (auto simp: activate_selected_def split: option.splits row_id.splits if_splits)
  with primary_action_fits show ?thesis by (fastforce simp: offered_for_def)
qed

lemma restore_offers:
  assumes "managed_command (restore_selected m) = Some a"
  shows "\<exists>w. offered_for m a w"
proof -
  from assms obtain i w where "md_selected m = Some (WorkstreamId i)"
    "selected_workstream m i = Some w" "a = ManagedRestore i (wn_revision w)" "wn_archived w"
    by (auto simp: restore_selected_def split: option.splits row_id.splits if_splits)
  then show ?thesis by (auto simp: offered_for_def dest: selected_workstream_Some)
qed

lemma no_managed_command [simp]:
  "managed_command (new_from_selected m) = None"
  "managed_command (snd (archive_selected m)) = None" "managed_command (snd (forget_selected m)) = None"
  by (auto simp: new_from_selected_def archive_selected_def forget_selected_def
      split: option.split row_id.split onboarding_status.split)

lemma nav_step_offers:
  assumes "md_modal m = None" and "managed_command (snd (nav_step e m)) = Some a"
  shows "\<exists>w. offered_for (fst (nav_step e m)) a w"
proof (cases e)
  case (KeyPressed k)
  from assms KeyPressed have "\<not> md_help m" by (auto simp: handle_key_def split: if_splits)
  with assms KeyPressed have "fst (nav_step e m) = m \<and>
      (managed_command (activate_selected m) = Some a \<or> managed_command (restore_selected m) = Some a)"
    by (auto simp: handle_key_def split: if_splits page.splits)
  then show ?thesis using activate_offers restore_offers by auto
next
  case (CardClicked i)
  with assms activate_offers show ?thesis
    by (auto simp: activate_row_def Let_def split: if_splits)
qed (use assms in simp_all)

lemma snapshot_kept [simp]:
  "md_snapshot (select_offset d m) = md_snapshot m" "md_snapshot (set_page p m) = md_snapshot m"
  "md_snapshot (select_next m) = md_snapshot m" "md_snapshot (select_previous m) = md_snapshot m"
  "md_snapshot (fst (activate_row r m)) = md_snapshot m" "md_snapshot (fst (confirm_modal m)) = md_snapshot m"
  by (simp_all add: select_offset_def set_page_def select_next_def select_previous_def activate_row_def
      confirm_modal_def Let_def split: option.split)

lemma dialog_snapshot [simp]:
  "md_snapshot (fst (archive_selected m)) = md_snapshot m"
  "md_snapshot (fst (forget_selected m)) = md_snapshot m"
  "md_snapshot (fst (handle_modal_key k m)) = md_snapshot m"
  by (auto simp: archive_selected_def forget_selected_def handle_modal_key_def
      split: option.split row_id.split onboarding_status.split modal.split)

lemma handle_key_snapshot [simp]: "md_snapshot (fst (handle_key k m)) = md_snapshot m"
  by (simp add: handle_key_def split: page.split)

lemma nav_step_snapshot:
  assumes "managed_command (snd (nav_step e m)) = Some a"
  shows "md_snapshot (fst (nav_step e m)) = md_snapshot m"
  using assms by (cases e) simp_all



section \<open>Dialogs\<close>

text \<open>The dialog that a command answers, and when the key \<open>x\<close> may open it.\<close>

fun dialog_of :: "command \<Rightarrow> modal option" where
  "dialog_of (Archive i v) = Some (ConfirmArchive i v)"
| "dialog_of (Forget i v) = Some (ConfirmForget i v)"
| "dialog_of _ = None"

definition shows_card :: "model \<Rightarrow> uuid \<Rightarrow> (workstream_snapshot \<Rightarrow> bool) \<Rightarrow> bool" where
  "shows_card m i P \<longleftrightarrow>
     md_selected m = Some (WorkstreamId i) \<and> (\<exists>w. selected_workstream m i = Some w \<and> P w)"

fun may_ask :: "model \<Rightarrow> modal \<Rightarrow> bool" where
  "may_ask m (ConfirmArchive i v) =
     (md_page m = Workstreams \<and> shows_card m i (\<lambda>w. wn_revision w = v \<and>
       wn_onboarding w \<noteq> Some StatusActionFenced \<and> (wn_onboarding w = None \<longrightarrow> \<not> wn_archived w)))"
| "may_ask m (ConfirmForget i v) =
     (md_page m = Archived \<and> shows_card m i (\<lambda>w. wn_revision w = v \<and> wn_archived w))"
| "may_ask m (ObserverConsent kind) = False"

definition asked :: "snapshot \<Rightarrow> nav_event list \<Rightarrow> modal \<Rightarrow> bool" where
  "asked s es d \<longleftrightarrow>
     (\<exists>es1 es2. es = es1 @ KeyPressed (KChar CHR ''x'') # es2 \<and>
        md_modal (nav_run es1 (model_new s)) = None \<and> may_ask (nav_run es1 (model_new s)) d \<and>
        (\<forall>n. md_modal (nav_run (es1 @ KeyPressed (KChar CHR ''x'') # take n es2) (model_new s)) = Some d))"

lemma modal_kept [simp]:
  "md_modal (select_offset d m) = md_modal m" "md_modal (set_page p m) = md_modal m"
  "md_modal (replace_snapshot s m) = md_modal m" "md_modal (set_shell_location l m) = md_modal m"
  "md_modal (select_next m) = md_modal m" "md_modal (select_previous m) = md_modal m"
  "md_modal (fst (activate_row r m)) = md_modal m" "md_modal (fst (select_runtime i m)) = md_modal m"
  "md_modal (fst (select_workstream i m)) = md_modal m"
  "md_modal (fst (select_catalog_workstream i m)) = md_modal m"
  "md_modal (set_guidance g m) = md_modal m" "md_modal (clear_guidance_if g m) = md_modal m"
  by (simp_all add: select_offset_def set_page_def replace_snapshot_def set_shell_location_def
      select_next_def select_previous_def activate_row_def select_runtime_def select_workstream_def
      select_catalog_workstream_def set_guidance_def clear_guidance_if_def Let_def split: option.split)

lemma nav_step_modal:
  assumes "md_modal (fst (nav_step e m)) = Some d" and "\<And>k. d \<noteq> ObserverConsent k"
  shows "md_modal m = Some d \<or> e = KeyPressed (KChar CHR ''x'') \<and> md_modal m = None \<and> may_ask m d"
proof (cases e)
  case (KeyPressed k)
  with assms show ?thesis
    by (cases "md_modal m")
      (auto simp: key_defs shows_card_def
        split: if_splits option.splits row_id.splits page.splits onboarding_status.splits modal.splits)
next
  case (SetupRequested k)
  with assms show ?thesis by (auto simp: request_observer_setup_def)
qed (use assms in simp_all)

lemma take_snoc: "n \<le> length xs \<Longrightarrow> take n (xs @ [x]) = take n xs" "length xs < n \<Longrightarrow> take n (xs @ [x]) = xs @ [x]"
  by simp_all

lemma nav_run_asked:
  assumes "md_modal (nav_run es (model_new s)) = Some d" and "\<And>k. d \<noteq> ObserverConsent k"
  shows "asked s es d"
  using assms(1)
proof (induction es rule: rev_induct)
  case Nil
  then show ?case by (simp add: model_new_def)
next
  case (snoc e es)
  let ?x = "KeyPressed (KChar CHR ''x'')" and ?m = "model_new s"
  from snoc.prems have now: "md_modal (nav_run (es @ [e]) ?m) = Some d" .
  from nav_step_modal [of e "nav_run es ?m" d] snoc.prems assms(2)
  consider "md_modal (nav_run es ?m) = Some d"
    | "e = ?x" "md_modal (nav_run es ?m) = None" "may_ask (nav_run es ?m) d"
    by auto
  then show ?case
  proof cases
    case 1
    from snoc.IH [OF 1] obtain es1 es2 where es: "es = es1 @ ?x # es2"
      and opened: "md_modal (nav_run es1 ?m) = None" "may_ask (nav_run es1 ?m) d"
      and kept: "\<And>n. md_modal (nav_run (es1 @ ?x # take n es2) ?m) = Some d"
      unfolding asked_def by blast
    have "md_modal (nav_run (es1 @ ?x # take n (es2 @ [e])) ?m) = Some d" for n
      using kept [of n] now es by (cases "n \<le> length es2") (simp_all add: take_snoc)
    with es opened show ?thesis unfolding asked_def by (intro exI [of _ es1] exI [of _ "es2 @ [e]"]) simp
  next
    case 2
    with now show ?thesis unfolding asked_def by (intro exI [of _ es] exI [of _ "[]"]) simp
  qed
qed

lemma no_dialog [simp]:
  "dialog_of (snd (archive_selected m)) = None" "dialog_of (snd (forget_selected m)) = None"
  "dialog_of (new_from_selected m) = None" "dialog_of (restore_selected m) = None"
  "dialog_of (activate_selected m) = None" "dialog_of (snd (activate_row r m)) = None"
proof -
  have primary: "dialog_of (primary_workstream_action m i) = None" for i m
    by (simp add: primary_workstream_action_def split: option.split onboarding_status.split)
  have activate: "dialog_of (activate_selected m) = None" for m
    by (simp add: activate_selected_def primary split: option.split row_id.split)
  then show "dialog_of (activate_selected m) = None" "dialog_of (snd (activate_row r m)) = None"
    by (simp_all add: activate_row_def Let_def)
  show "dialog_of (snd (archive_selected m)) = None" "dialog_of (snd (forget_selected m)) = None"
    "dialog_of (new_from_selected m) = None" "dialog_of (restore_selected m) = None"
    by (simp_all add: archive_selected_def forget_selected_def new_from_selected_def restore_selected_def
        split: option.split row_id.split onboarding_status.split)
qed

lemma dialog_answered:
  assumes "dialog_of (snd (nav_step e m)) = Some d"
  shows "(e = KeyPressed KEnter \<or> e = KeyPressed (KChar CHR ''y'')) \<and> md_modal m = Some d \<and>
    md_modal (fst (nav_step e m)) = None"
proof (cases e)
  case (KeyPressed k)
  with assms show ?thesis
    by (cases "md_modal m")
      (auto simp: handle_key_def handle_modal_key_def confirm_modal_def
        split: if_splits page.splits modal.splits)
qed (use assms in simp_all)

text \<open>C22: A Workstream is archived or forgotten only by an answer to a dialog, given with Enter or
  \<open>y\<close>, which closes it; the dialog was opened by the key \<open>x\<close> on exactly this Workstream, selected
  and shown at exactly this revision, not fenced by a running onboarding, archived when it is to be
  forgotten; and this same dialog, no other one, stayed open from then to the answer, whatever
  snapshots arrived meanwhile.\<close>

theorem confirmed_as_asked:
  assumes "snd (nav_step e (nav_run es (model_new s))) = c" and "dialog_of c = Some d"
  shows "(e = KeyPressed KEnter \<or> e = KeyPressed (KChar CHR ''y'')) \<and> asked s es d \<and>
    md_modal (fst (nav_step e (nav_run es (model_new s)))) = None"
proof -
  from assms(2) have "d \<noteq> ObserverConsent k" for k by (cases c) auto
  with dialog_answered [of e "nav_run es (model_new s)" d] nav_run_asked [of es s d] assms show ?thesis
    by simp
qed

lemma confirmed_as_asked_witness:
  "asked sample_cards [KeyPressed KDown, KeyPressed (KChar CHR ''x'')] (ConfirmArchive 8 7)"
proof -
  let ?es = "[KeyPressed KDown, KeyPressed (KChar CHR ''x'')]" and ?m = "model_new sample_cards"
  let ?n = "?m\<lparr> md_selected := Some (WorkstreamId 8) \<rparr>"
  have ids: "identities (rows ?m) = [ProvisionalShellId, WorkstreamId 8, WorkstreamId 3]"
    by (simp add: sample_rows) (simp add: sample_card_def)
  have "select_next ?m = ?n"
    by (simp add: select_next_def select_offset_def ids) (simp add: model_new_def Let_def index_of_def)
  then have "nav_run ?es ?m = ?n\<lparr> md_modal := Some (ConfirmArchive 8 7) \<rparr>"
    by (simp add: nav_run_def handle_key_def model_new_def) (simp add: archive_selected_def
        selected_workstream_def sample_card_defs)
  then have "snd (nav_step (KeyPressed KEnter) (nav_run ?es ?m)) = Archive 8 7"
    by (simp add: handle_key_def handle_modal_key_def confirm_modal_def model_new_def)
  from confirmed_as_asked [OF this] show ?thesis by simp
qed

end
