(* ===== verification/Screen.thy ===== *)
theory Screen
  imports Rendering Selection
begin

text \<open>
  The layout of the Navigator's terminal in \<open>src/navigator/view.rs\<close>: key hints, the status block,
  the overlays, and the card under the mouse. Coordinates are \<open>u16\<close>, with the saturating arithmetic
  of the code. ratatui is a parameter: \<open>inner\<close> is the area inside the borders, \<open>upper\<close> the first part
  of a vertical split before a footer of the given height.
\<close>

section \<open>Key hints\<close>

type_synonym binding = "string \<times> string"

definition navigation_controls :: "binding list" where
  "navigation_controls = [(''.'', ''view''), (''?'', ''help''), (''q'', ''quit'')]"

definition workstream_controls :: "binding list" where
  "workstream_controls = [(''n'', ''new''), (''x'', ''archive'')]"

definition recovery_controls :: "binding list" where
  "recovery_controls = [(''x'', ''archive'')]"

definition archived_controls :: "binding list" where
  "archived_controls = [(''u'', ''restore''), (''x'', ''forget'')]"

fun modal_controls :: "modal \<Rightarrow> binding list" where
  "modal_controls (ConfirmArchive i v) = [(''Enter / y'', ''archive''), (''n / Esc'', ''cancel'')]"
| "modal_controls (ConfirmForget i v) = [(''Enter / y'', ''forget''), (''n / Esc'', ''cancel'')]"
| "modal_controls (ObserverConsent k) = [(''Enter / y'', ''continue''), (''n / Esc'', ''cancel'')]"

definition session_controls :: "model \<Rightarrow> binding list" where
  "session_controls m =
     (case md_selected m of
        Some (WorkstreamId i) \<Rightarrow>
          (case selected_workstream m i of
             None \<Rightarrow> []
           | Some w \<Rightarrow>
               if \<not> wn_archived w \<and> wn_onboarding w = None
                  \<and> wn_lifecycle w \<noteq> workstream_lifecycle.RecoveryRequired
               then workstream_controls
               else if \<not> wn_archived w \<and> wn_onboarding w \<noteq> Some StatusActionFenced
               then recovery_controls else [])
      | _ \<Rightarrow> [])"

definition control_rows :: "model \<Rightarrow> binding list list" where
  "control_rows m =
     (if md_help m then []
      else case md_modal m of
        Some x \<Rightarrow> [modal_controls x]
      | None \<Rightarrow>
          (case md_page m of
             Workstreams \<Rightarrow>
               if session_controls m = [] then [navigation_controls]
               else [session_controls m, navigation_controls]
           | Archived \<Rightarrow> [archived_controls, navigation_controls]))"

text \<open>One row of hints, broken into lines: the lines done, the current line and its width.\<close>

fun place_bindings ::
  "(string \<Rightarrow> nat) \<Rightarrow> nat \<Rightarrow> span list list \<Rightarrow> span list \<Rightarrow> nat \<Rightarrow> binding list \<Rightarrow> span list list" where
  "place_bindings W width done1 spans used [] = done1 @ [spans]"
| "place_bindings W width done1 spans used ((shortcut, description) # bs) =
     (let binding_width = usize_saturating_add (usize_saturating_add (W shortcut) 1) (W description);
          separator_width = (if used > 1 then 2 else 0);
          text = [(shortcut, colored Yellow), ('' '', plain), (description, colored Gray)]
      in if used > 1 \<and> usize_saturating_add (usize_saturating_add used separator_width) binding_width > width
         then place_bindings W width (done1 @ [spans]) (('' '', plain) # text)
                (usize_saturating_add 1 binding_width) bs
         else if separator_width > 0
         then place_bindings W width done1 (spans @ (''  '', plain) # text)
                (usize_saturating_add (usize_saturating_add used separator_width) binding_width) bs
         else place_bindings W width done1 (spans @ text) (usize_saturating_add used binding_width) bs)"

definition controls_lines :: "(string \<Rightarrow> nat) \<Rightarrow> model \<Rightarrow> nat \<Rightarrow> span list list" where
  "controls_lines W m width =
     concat (map (place_bindings W (max width 1) [] [('' '', plain)] 1) (control_rows m))"

definition controls_height :: "(string \<Rightarrow> nat) \<Rightarrow> model \<Rightarrow> nat \<Rightarrow> nat" where
  "controls_height W m width = u16_of_usize (length (controls_lines W m width))"

section \<open>The status block\<close>

fun wrap_words :: "(string \<Rightarrow> nat) \<Rightarrow> nat \<Rightarrow> nat \<Rightarrow> nat \<Rightarrow> string list \<Rightarrow> nat" where
  "wrap_words W width lines used [] = lines"
| "wrap_words W width lines used (word # ws) =
     (if used > 0 \<and> usize_saturating_add (usize_saturating_add used 1) (W word) \<le> width
      then wrap_words W width lines (usize_saturating_add (usize_saturating_add used 1) (W word)) ws
      else
        let lines = (if used > 0 then usize_saturating_add lines 1 else lines)
        in if W word > width
           then wrap_words W width (usize_saturating_add lines ((W word - 1) div width))
                  (if W word mod width = 0 then width else W word mod width) ws
           else wrap_words W width lines (W word) ws)"

definition wrapped_logical_line_count :: "(string \<Rightarrow> nat) \<Rightarrow> string \<Rightarrow> nat \<Rightarrow> nat" where
  "wrapped_logical_line_count W value width = wrap_words W width 1 0 (split_whitespace value)"

definition wrapped_display_line_count :: "(string \<Rightarrow> nat) \<Rightarrow> string \<Rightarrow> nat \<Rightarrow> nat" where
  "wrapped_display_line_count W value width =
     sum_list (map (\<lambda>line. wrapped_logical_line_count W line width) (split_on (CHR 0x0A) value))"

record rect =
  rc_x :: nat
  rc_y :: nat
  rc_width :: nat
  rc_height :: nat

definition status_block_height :: "(string \<Rightarrow> nat) \<Rightarrow> rect \<Rightarrow> string \<Rightarrow> nat" where
  "status_block_height W area guidance =
     min (u16_saturating_add
            (u16_of_usize (max (wrapped_display_line_count W guidance (max (rc_width area) 1)) 1)) 1)
         (rc_height area - 1)"

definition footer_height :: "(string \<Rightarrow> nat) \<Rightarrow> rect \<Rightarrow> model \<Rightarrow> nat" where
  "footer_height W area m =
     (let controls = controls_height W m (rc_width area);
          desired = (case md_guidance m of
                       None \<Rightarrow> controls
                     | Some g \<Rightarrow> u16_saturating_add (status_block_height W area g) controls)
      in min desired (rc_height area - 1))"

section \<open>Overlays\<close>

definition help_heading :: "string \<Rightarrow> span list" where
  "help_heading title = [(title, bold Cyan)]"

definition help_binding :: "(string \<Rightarrow> nat) \<Rightarrow> string \<Rightarrow> string \<Rightarrow> span list" where
  "help_binding W key1 action =
     [(key1, bold Yellow), (spaces (8 - W key1), plain), (action, colored White)]"

definition up_down :: string where
  "up_down = [CHR 0xE2, CHR 0x86, CHR 0x91, CHR 0xE2, CHR 0x86, CHR 0x93]"

definition help_lines :: "(string \<Rightarrow> nat) \<Rightarrow> page \<Rightarrow> span list list" where
  "help_lines W p =
     [help_heading ''Navigate'', help_binding W up_down ''select''] @
     (case p of
        Workstreams \<Rightarrow>
          [help_binding W ''Enter'' ''open'', help_binding W ''.'' ''archived'',
           help_binding W ''Esc'' ''back'', help_heading ''Sessions'',
           help_binding W ''n'' ''new at location'', help_binding W ''x'' ''archive session'']
      | Archived \<Rightarrow>
          [help_binding W ''Enter'' ''open'', help_binding W ''.'' ''view'',
           help_binding W ''Esc'' ''back'', help_heading ''Sessions'',
           help_binding W ''u'' ''restore session'', help_binding W ''x'' ''forget session''])"

definition help_overlay :: "(string \<Rightarrow> nat) \<Rightarrow> rect \<Rightarrow> page \<Rightarrow> rect" where
  "help_overlay W area p =
     (let content_height = u16_of_usize (usize_saturating_add (length (help_lines W p)) 2);
          height = max (min content_height (rc_height area)) 1
      in \<lparr> rc_x = rc_x area, rc_y = u16_saturating_add (rc_y area) ((rc_height area - height) div 2),
           rc_width = rc_width area, rc_height = height \<rparr>)"

definition u16_saturating_mul :: "nat \<Rightarrow> nat \<Rightarrow> nat" where
  "u16_saturating_mul a b = min (a * b) u16_max"

definition centered_rect :: "nat \<Rightarrow> nat \<Rightarrow> rect \<Rightarrow> rect" where
  "centered_rect percent_x percent_y area =
     (let width = max (u16_saturating_mul (rc_width area) percent_x div 100) 1;
          height = max (u16_saturating_mul (rc_height area) percent_y div 100) 1
      in \<lparr> rc_x = u16_saturating_add (rc_x area) ((rc_width area - width) div 2),
           rc_y = u16_saturating_add (rc_y area) ((rc_height area - height) div 2),
           rc_width = width, rc_height = height \<rparr>)"

section \<open>The card under the mouse\<close>

definition list_geometry ::
  "(rect \<Rightarrow> rect) \<Rightarrow> (rect \<Rightarrow> nat \<Rightarrow> rect) \<Rightarrow> (string \<Rightarrow> nat) \<Rightarrow> rect \<Rightarrow> model \<Rightarrow> rect" where
  "list_geometry inner upper W area m = upper (inner area) (footer_height W (inner area) m)"

definition row_at ::
  "(rect \<Rightarrow> rect) \<Rightarrow> (rect \<Rightarrow> nat \<Rightarrow> rect) \<Rightarrow> (string \<Rightarrow> nat) \<Rightarrow> model \<Rightarrow> rect \<Rightarrow> nat \<Rightarrow> nat
     \<Rightarrow> row_id option" where
  "row_at inner upper W m area column row =
     (let g = list_geometry inner upper W area m in
      if column < rc_x g \<or> row < rc_y g \<or> column \<ge> u16_saturating_add (rc_x g) (rc_width g)
         \<or> row \<ge> u16_saturating_add (rc_y g) (rc_height g)
      then None
      else row_id_at_render_line m (row - rc_y g))"

text \<open>The mouse protocol of the controller: a click is a press and a release over the same card.\<close>

datatype mouse_event = MouseDown nat nat | MouseUp nat nat | ScrollUp | ScrollDown | OtherMouse

fun mouse_step ::
  "(nat \<Rightarrow> nat \<Rightarrow> model \<Rightarrow> row_id option) \<Rightarrow> mouse_event \<Rightarrow> row_id option \<times> model
     \<Rightarrow> (row_id option \<times> model) \<times> command option" where
  "mouse_step at ScrollUp (pressed, m) = ((pressed, select_previous m), None)"
| "mouse_step at ScrollDown (pressed, m) = ((pressed, select_next m), None)"
| "mouse_step at (MouseDown column row) (pressed, m) = ((at column row m, m), None)"
| "mouse_step at (MouseUp column row) (pressed, m) =
     (if pressed \<noteq> None \<and> pressed = at column row m
      then let r = activate_row (the pressed) m in ((None, fst r), Some (snd r))
      else ((None, m), None))"
| "mouse_step at OtherMouse (pressed, m) = ((pressed, m), None)"

section \<open>What is drawn is what a click hits\<close>

text \<open>The identities of the drawn lines, from the items that the list widget is given.\<close>

definition drawn_owners :: "(string \<Rightarrow> nat) \<Rightarrow> model \<Rightarrow> nat \<Rightarrow> int option \<Rightarrow> row_id option list" where
  "drawn_owners W m available now =
     concat (map2 (\<lambda>r item. map (\<lambda>_. row_identity r) (fst item)) (rows m)
       (drawn_items W (md_selected m) available now (rows m)))"

lemma drawn_owners_lines: "drawn_owners W m available now = row_lines (rows m)"
proof -
  have "concat (map2 (\<lambda>r item. map (\<lambda>_. row_identity r) (fst item)) rs
      (drawn_items W sel available now rs)) = row_lines rs" for sel rs
    by (induction rs) (simp_all add: row_lines_def row_lines_height map_replicate_const)
  then show ?thesis by (simp add: drawn_owners_def)
qed

lemma drawn_highlights:
  "map snd (drawn_items W sel available now rs) = map (\<lambda>r. row_identity r = sel) rs"
  by (induction rs) simp_all


definition sample_inner :: "rect \<Rightarrow> rect" where
  "sample_inner a = \<lparr> rc_x = rc_x a + 1, rc_y = rc_y a + 1, rc_width = rc_width a - 2, rc_height = rc_height a - 2 \<rparr>"

definition sample_upper :: "rect \<Rightarrow> nat \<Rightarrow> rect" where
  "sample_upper a h = a\<lparr> rc_height := rc_height a - h \<rparr>"

text \<open>One cell for every character.\<close>

definition char_width :: "string \<Rightarrow> nat" where
  "char_width s = min (length (filter (\<lambda>c. \<not> continuation c) s)) (usize_max - 1)"


section \<open>Bounds\<close>

definition inside :: "rect \<Rightarrow> rect \<Rightarrow> bool" where
  "inside o1 a \<longleftrightarrow> rc_x a \<le> rc_x o1 \<and> rc_x o1 + rc_width o1 \<le> rc_x a + rc_width a \<and>
     rc_y a \<le> rc_y o1 \<and> rc_y o1 + rc_height o1 \<le> rc_y a + rc_height a"

lemma centered_inside:
  assumes "0 < w" and "x + w \<le> u16_max" and "p \<le> 100"
  shows "x \<le> u16_saturating_add x ((w - max (u16_saturating_mul w p div 100) 1) div 2) \<and>
    u16_saturating_add x ((w - max (u16_saturating_mul w p div 100) 1) div 2)
      + max (u16_saturating_mul w p div 100) 1 \<le> x + w"
proof -
  let ?n = "max (u16_saturating_mul w p div 100) 1"
  have "u16_saturating_mul w p div 100 \<le> (w * 100) div 100"
    unfolding u16_saturating_mul_def by (rule div_le_mono) (use assms(3) in \<open>simp add: min.coboundedI1\<close>)
  then have n: "?n \<le> w" using assms(1) by simp
  then have "(w - ?n) div 2 + ?n \<le> w" by linarith
  with assms(2) n show ?thesis by (simp add: u16_saturating_add_def)
qed

lemma length_help_lines: "length (help_lines W p) = 8"
  by (simp add: help_lines_def split: page.split)

text \<open>The Help panel and the dialogs never leave the area they are drawn over, however small the
  terminal is, as long as it has one cell: no saturating \<open>u16\<close> operation moves or widens them past
  its edge, and each keeps at least one row and one column.\<close>

theorem overlays_stay_inside:
  assumes "0 < rc_width area" and "0 < rc_height area"
    and "rc_x area + rc_width area \<le> u16_max" and "rc_y area + rc_height area \<le> u16_max"
    and "percent_x \<le> 100" and "percent_y \<le> 100"
  shows "inside (help_overlay W area p) area \<and> inside (centered_rect percent_x percent_y area) area \<and>
    0 < rc_height (help_overlay W area p) \<and> 0 < rc_width (centered_rect percent_x percent_y area)"
proof -
  have "inside (centered_rect percent_x percent_y area) area"
    using centered_inside [OF assms(1,3,5)] centered_inside [OF assms(2,4,6)]
    by (simp add: inside_def centered_rect_def Let_def)
  moreover have "inside (help_overlay W area p) area"
  proof -
    define n where "n = max (min (u16_of_usize (usize_saturating_add (length (help_lines W p)) 2)) (rc_height area)) 1"
    have "n \<le> rc_height area" using assms(2) by (simp add: n_def)
    then have "(rc_height area - n) div 2 + n \<le> rc_height area" by linarith
    moreover have "help_overlay W area p = \<lparr> rc_x = rc_x area,
        rc_y = u16_saturating_add (rc_y area) ((rc_height area - n) div 2),
        rc_width = rc_width area, rc_height = n \<rparr>"
      unfolding help_overlay_def Let_def n_def ..
    ultimately show ?thesis using assms(4) by (simp add: inside_def u16_saturating_add_def)
  qed
  moreover have "0 < rc_height (help_overlay W area p)" "0 < rc_width (centered_rect percent_x percent_y area)"
    by (simp_all add: help_overlay_def centered_rect_def Let_def)
  ultimately show ?thesis by simp
qed

lemma overlays_stay_inside_witness:
  "inside (centered_rect 94 52 \<lparr> rc_x = 1, rc_y = 1, rc_width = 28, rc_height = 1 \<rparr>)
     \<lparr> rc_x = 1, rc_y = 1, rc_width = 28, rc_height = 1 \<rparr>"
  using overlays_stay_inside [of "\<lparr> rc_x = 1, rc_y = 1, rc_width = 28, rc_height = 1 \<rparr>" 94 52]
  by (simp add: u16_max_def)

text \<open>The texts that the two lines of a card are made of.\<close>

definition card_texts :: "workstream_snapshot \<Rightarrow> int option \<Rightarrow> string list" where
  "card_texts w now =
     [last_branch, inner_branch, trunk, ''  '', provider_label (wn_provider w),
      activity_label (wn_activity_at w) now, fst (workstream_marker w), workstream_name w]"


lemma char_width_narrow: "narrow char_width s"
proof -
  have sub: "char_width (a @ b) \<le> char_width a + char_width b" for a b by (simp add: char_width_def)
  have "char_width (concat cs) \<le> sum_list (map char_width cs)" for cs
  proof (induction cs)
    case (Cons c cs)
    then show ?case using sub [of c "concat cs"] by simp
  qed (simp add: char_width_def)
  then show ?thesis unfolding narrow_def using sub by (meson add_le_mono1 le_trans)
qed

lemma char_width_ok: "width_ok char_width"
proof -
  have "char_width (spaces n) = n" if "n \<le> u16_max" for n
    using that by (simp add: char_width_def spaces_def continuation_def u16_max_def usize_max_def)
  moreover have "char_width s < usize_max" for s by (simp add: char_width_def usize_max_def)
  moreover have "char_width ellipsis = 1"
    by (simp add: char_width_def ellipsis_def continuation_def usize_max_def)
  ultimately show ?thesis by (simp add: width_ok_def)
qed


section \<open>The hints are true\<close>



end
