(* ===== verification/Projection.thy ===== *)
theory Projection
  imports Snapshot Readable AttemptSamples
begin

text \<open>
  What a snapshot shows of the registry: one card for every Workstream but those that an onboarding
  attempt still reserves, each as its rows are.
\<close>

lemma collect_results_all2:
  "collect_results (map f xs) = Inr ys \<Longrightarrow> list_all2 (\<lambda>x y. f x = Inr y) xs ys"
  by (induction xs arbitrary: ys) (auto split: sum.splits)

lemma overview_ids:
  assumes "env_ok E" and "registry_ok E db"
  shows "distinct (map vb_workstream (overview_bases db)) \<and>
    (\<forall>b \<in> set (overview_bases db). canonical E (vb_workstream b))"
proof -
  from assms(2) have ws: "distinct (map ws_id (workstream_rows db))"
    "\<forall>w \<in> set (workstream_rows db). canonical E (ws_id w)"
    using registry_ok_keys [OF assms(2)] registry_ok_rows(1) [OF assms(2)]
    by (simp_all add: workstream_row_ok_def)
  have joined: "map (vb_workstream \<circ> overview_base_of)
      (concat (map (\<lambda>w. case location_at db (ws_location w) of None \<Rightarrow> [] | Some l \<Rightarrow> [(w, l)]) rows)) =
    map ws_id (filter (\<lambda>w. location_at db (ws_location w) \<noteq> None) rows)" for rows
    by (induction rows) (auto simp: overview_base_of_def split: option.split)
  have "distinct (map (vb_workstream \<circ> overview_base_of) (joined_rows db))"
    unfolding joined_rows_def joined using ws(1) by (rule distinct_map_filter)
  moreover have "(vb_workstream \<circ> overview_base_of) ` set (joined_rows db) \<subseteq> ws_id ` set (workstream_rows db)"
    by (subst set_map [symmetric], unfold joined_rows_def joined) auto
  ultimately have "distinct (map vb_workstream (map overview_base_of (joined_rows db)))"
    "vb_workstream ` set (map overview_base_of (joined_rows db)) \<subseteq> ws_id ` set (workstream_rows db)"
    by (simp_all add: image_comp)
  then have "distinct (map vb_workstream (overview_bases db))"
    "vb_workstream ` set (overview_bases db) \<subseteq> ws_id ` set (workstream_rows db)"
    by (auto simp: overview_bases_def distinct_map inj_on_def)
  with ws(2) show ?thesis by auto
qed

lemma overviews_distinct:
  assumes "env_ok E" and "registry_ok E db" and "workstream_overviews E db = Some (Inr ws)"
    and "length (overview_bases db) + max_navigator_workstreams < u32_limit"
  shows "distinct (map wo_workstream ws)"
proof -
  have "collect_results (map (hydrate_workstream_overview E db) (overview_bases db)) = Inr ws"
    using assms(3) by (simp add: workstream_overviews_all [OF assms(4)])
  from collect_results_all2 [OF this]
  have all2: "list_all2 (\<lambda>b w. hydrate_workstream_overview E db b = Inr w) (overview_bases db) ws" .
  have same: "uuid_text E (wo_workstream w) = vb_workstream b"
    if "b \<in> set (overview_bases db)" "hydrate_workstream_overview E db b = Inr w" for b w
  proof -
    from that(2) have "read_uuid E (vb_workstream b) = Inr (wo_workstream w)"
      by (auto simp: hydrate_workstream_overview_def)
    moreover have "canonical E (vb_workstream b)" using overview_ids [OF assms(1,2)] that(1) by blast
    ultimately show ?thesis using canonical_parse [OF assms(1)] by (auto simp: read_uuid_def)
  qed
  from all2 same have "map (uuid_text E \<circ> wo_workstream) ws = map vb_workstream (overview_bases db)"
    by (induction rule: list_all2_induct) auto
  then have "distinct (map (uuid_text E) (map wo_workstream ws))"
    using overview_ids [OF assms(1,2)] by simp
  then show ?thesis by (auto simp: distinct_map inj_on_def)
qed

lemma onboarding_map_dom: "dom (onboarding_map xs) = wp_workstream ` set xs"
proof -
  have "dom (fold (\<lambda>x m. m(wp_workstream x \<mapsto> x)) xs m) = dom m \<union> wp_workstream ` set xs" for m
    by (induction xs arbitrary: m) auto
  from this [of "\<lambda>_. None"] show ?thesis by (simp add: onboarding_map_def)
qed

text \<open>What a card shows of the registry.\<close>

definition card_of :: "project_projection list \<Rightarrow> workstream_projection list \<Rightarrow> workstream_overview
    \<Rightarrow> workstream_snapshot \<Rightarrow> bool" where
  "card_of projects onboarding w c \<longleftrightarrow>
     card_shows w (onboarding_map onboarding (wo_workstream w)) c \<and>
     (\<exists>p \<in> set projects. pp_project p = wn_project c \<and> wo_location w \<in> lp_location ` set (pp_locations p))"


section \<open>A registry with one card\<close>

abbreviation sample_shown :: registry where
  "sample_shown \<equiv> codex_sample ''open'' ''idle'' None"

lemma sample_shown_valid: "validate_schema15 sample_env schema15_catalog sample_shown = Inr ()"
proof -
  have "host_rows_valid sample_env sample_shown"
    by (simp add: host_rows_valid_def codex_sample_def sample_registry_def host_schema_version_def
        validate_host_identity_def validate_operational_metadata_def operational_metadata_refused_def
        newline_def carriage_return_def)
  moreover have "project_rows_valid sample_env sample_shown"
    by (simp add: project_rows_valid_def codex_sample_def sample_registry_def sample_location_def
        sample_project_def validated_location validated_project sample_texts sample_texts_none
        project_sources_def project_members_def project_source_fingerprints_compatible_def
        normalize_persisted_fingerprint_def nonempty_def)
  moreover have "foreign_keys_hold sample_shown" using codex_sample_ok [of "''open''" "''idle''" None]
    by (simp add: registry_ok_def range_text_iff)
  ultimately show ?thesis
    by (simp add: validate_schema15_Inr codex_sample_def sample_registry_def sample_location_def
        sample_project_def journal_rows_valid_def reject_unresolved_retired_fork_effect_def)
qed

lemma sample_shown_projects:
  "\<exists>p. project_projections sample_env sample_state sample_shown = Inr [p] \<and>
     map lp_location (pp_locations p) = [1] \<and> pp_project p = 2"
proof -
  let ?p = "\<lparr> pr_project = 2, pr_label_location = 1, pr_display = ''project'', pr_fingerprint = None, pr_revision = 1 \<rparr>"
  let ?l = "\<lparr> lp_project = 2, lp_location = 1, lp_revision = 1, lp_is_label_source = True, lp_display = ''project'',
      lp_fingerprint = None, lp_origin_display = None \<rparr>"
  have "row_to_project sample_env sample_project = Inr ?p"
    by (simp add: row_to_project_def sample_project_def)
  moreover have "project_location sample_env ?p sample_location = Inr ?l"
    by (simp add: project_location_def sample_location_def sample_texts sample_texts_none ok_or_def
        nonempty_def normalize_persisted_fingerprint_def)
  moreover have "project_members sample_shown (sid 2) = [sample_location]"
    by (simp add: project_members_def codex_sample_def sample_registry_def sample_location_def)
  moreover have "project_rows sample_shown = [sample_project]"
    by (simp add: codex_sample_def sample_registry_def)
  ultimately show ?thesis
    by (simp add: project_projections_def sample_shown_valid ensure_current_mode_def load_project_projections_def
        max_projection_projects_def max_projection_locations_def Let_def)
qed

lemma sample_shown_onboarding:
  "onboarding_workstream_projections sample_env sample_state sample_shown = Some (Inr [])"
proof -
  have "onboarding_rows sample_shown = []"
    by (simp add: onboarding_rows_def codex_sample_def sample_registry_def)
  then have "onboarding_operation_inventory_page sample_env sample_shown max_navigator_workstreams 0 = Inr ([], None)"
    by (simp add: onboarding_operation_inventory_page_def row_page_def page_parameters_def next_cursor_def
        max_navigator_workstreams_def u32_limit_def)
  then have "inventory_loop (onboarding_operation_inventory_page sample_env sample_shown
      max_navigator_workstreams) 0 [] [] = Some (Inr [])"
    by (subst inventory_loop.simps) (simp add: present_def)
  then show ?thesis
    by (simp add: onboarding_workstream_projections_def onboarding_operation_inventory_def sample_shown_valid
        ensure_current_mode_def)
qed

lemma sample_shown_overviews:
  "\<exists>w. workstream_overviews sample_env sample_shown = Some (Inr [w]) \<and> wo_location w = 1 \<and> wo_workstream w = 3 \<and>
     (\<forall>r. wo_runtime w = Some r \<longrightarrow> rr_provider r = wo_provider w)"
proof -
  let ?w = "sample_workstream 3 ''codex'' ''open'' None 7"
  have bases: "overview_bases sample_shown = [overview_base_of (?w, sample_location)]"
    by (simp add: overview_bases_def joined_rows_def codex_sample_def sample_defs location_at_def)
  have "registry_ok sample_env sample_shown"
    by (simp add: codex_sample_ok range_text_iff)
  moreover have "?w \<in> set (workstream_rows sample_shown)" by (simp add: codex_sample_def sample_registry_def)
  ultimately obtain x where x: "hydrate_workstream_overview sample_env sample_shown
      (overview_base_of (?w, sample_location)) = Inr x"
    using hydrate_ok_iff [OF sample_env_ok, of sample_shown ?w sample_location]
    by (auto simp: codex_sample_def sample_defs lookup_defs binding_shown_def)
  moreover have codex: "provider_kind_from_text ''codex'' = Inr Codex" by code_simp
  ultimately have "wo_location x = 1" "wo_workstream x = 3" "wo_provider x = Codex"
    by (auto simp: hydrate_workstream_overview_def overview_base_of_def sample_workstream_def)
  moreover have "rr_provider r = Codex" if "wo_runtime x = Some r" for r
  proof -
    from x that have "runtime_for_workstream sample_env 3 sample_shown = Inr (Some r)"
      by (auto simp: hydrate_workstream_overview_def overview_base_of_def sample_workstream_def)
    moreover have "workstream_provider sample_env 3 sample_shown = Inr Codex"
      using codex by (simp add: workstream_provider_def codex_sample_def sample_defs lookup_defs)
    ultimately show ?thesis
      by (auto simp: runtime_for_workstream_def split: option.splits if_splits)
  qed
  ultimately show ?thesis
    using x by (simp add: workstream_overviews_all codex_sample_bases u32_limit_def max_navigator_workstreams_def bases)
qed


end
