(* ===== verification/Host_Calls.thy ===== *)
theory Host_Calls
  imports Unicode
begin

text \<open>
  The operating system as the process code of \<open>src/runtime/mod.rs\<close> meets it. Every call of the code
  is an event of a history, with the answer it got; the host is any function from the history so far
  to the next answer, so that a process may exit, be replaced by another one or change its group
  between any two calls. What the code does is a function on histories.
\<close>

section \<open>Answers\<close>

type_synonym pid32 = "32 word"

datatype io_kind = NotFound | PermissionDenied | OtherKind

record io_error =
  io_kind :: io_kind
  io_errno :: "int option"
  io_text :: string

datatype errno = ESRCH | OtherErrno string

datatype probe_error = ProbeInaccessible | ProbeIo string | ProbeMalformed | ProbeTooLarge

datatype bounded_error = BoundedTooLarge | OtherBounded string

datatype posix_signal = SigTerm | SigKill | SigStop | SigCont

type_synonym pidfd = nat

text \<open>
  An external command, run to its end with bounded output (\<open>output_bounded\<close> of \<open>src/process.rs\<close>): the
  program, the variables that are removed from its environment, and its arguments.
\<close>

record command_call =
  cc_program :: string
  cc_unset :: "string list"
  cc_arguments :: "string list"

record command_output =
  co_success :: bool
  co_stdout :: string
  co_stderr :: string

text \<open>The calls on files; the answer is true or false for the three questions, and true for the others.\<close>

datatype file_call =
    PathExists string
  | IsDirectory string
  | IsPlainFile string
  | RemoveTree string
  | RemoveFile string
  | CreateTree string
  | CreateDirectory string
  | SetMode string nat
  | WriteFile string string
  | CreateFresh string nat

datatype event =
    StatRead pid32 "(io_error, string) result"
  | ProcListed "(io_error, (io_error, string option) result list) result"
  | ExeRead pid32 "(io_error, string) result"
  | CommandLineRead pid32 "(io_error, (io_error, string) result) result"
  | PidfdOpened pid32 "(errno, pidfd) result"
  | PidfdSignalled pidfd posix_signal "(errno, unit) result"
  | GroupSignalled pid32 posix_signal "(errno, unit) result"
  | ClockRead nat
  | Slept nat
  | CommandRun command_call "(bounded_error, command_output) result"
  | FileCalled file_call "(io_error, bool) result"
  | ClientSpawned command_call "(io_error, unit) result"
  | ClientPolled "(io_error, int option) result"

type_synonym history = "event list"

text \<open>The answer for a command line is that of its opening, and then that of its reading.\<close>

record host =
  h_stat :: "history \<Rightarrow> pid32 \<Rightarrow> (io_error, string) result"
  h_list :: "history \<Rightarrow> (io_error, (io_error, string option) result list) result"
  h_exe :: "history \<Rightarrow> pid32 \<Rightarrow> (io_error, string) result"
  h_cmdline :: "history \<Rightarrow> pid32 \<Rightarrow> (io_error, (io_error, string) result) result"
  h_open :: "history \<Rightarrow> pid32 \<Rightarrow> (errno, pidfd) result"
  h_send :: "history \<Rightarrow> pidfd \<Rightarrow> posix_signal \<Rightarrow> (errno, unit) result"
  h_kill_group :: "history \<Rightarrow> pid32 \<Rightarrow> posix_signal \<Rightarrow> (errno, unit) result"
  h_now :: "history \<Rightarrow> nat"
  h_run :: "history \<Rightarrow> command_call \<Rightarrow> (bounded_error, command_output) result"
  h_file :: "history \<Rightarrow> file_call \<Rightarrow> (io_error, bool) result"
  h_spawn :: "history \<Rightarrow> command_call \<Rightarrow> (io_error, unit) result"
  h_poll :: "history \<Rightarrow> (io_error, int option) result"

section \<open>Calls\<close>

type_synonym 'a act = "history \<Rightarrow> 'a \<times> history"

definition read_stat :: "host \<Rightarrow> pid32 \<Rightarrow> (io_error, string) result act" where
  "read_stat H p tr = (let a = h_stat H tr p in (a, tr @ [StatRead p a]))"

definition list_proc :: "host \<Rightarrow> (io_error, (io_error, string option) result list) result act" where
  "list_proc H tr = (let a = h_list H tr in (a, tr @ [ProcListed a]))"

definition read_exe :: "host \<Rightarrow> pid32 \<Rightarrow> (io_error, string) result act" where
  "read_exe H p tr = (let a = h_exe H tr p in (a, tr @ [ExeRead p a]))"

definition read_cmdline :: "host \<Rightarrow> pid32 \<Rightarrow> (io_error, (io_error, string) result) result act" where
  "read_cmdline H p tr = (let a = h_cmdline H tr p in (a, tr @ [CommandLineRead p a]))"

definition pidfd_open :: "host \<Rightarrow> pid32 \<Rightarrow> (errno, pidfd) result act" where
  "pidfd_open H p tr = (let a = h_open H tr p in (a, tr @ [PidfdOpened p a]))"

definition pidfd_send_signal :: "host \<Rightarrow> pidfd \<Rightarrow> posix_signal \<Rightarrow> (errno, unit) result act" where
  "pidfd_send_signal H fd s tr = (let a = h_send H tr fd s in (a, tr @ [PidfdSignalled fd s a]))"

definition kill_process_group :: "host \<Rightarrow> pid32 \<Rightarrow> posix_signal \<Rightarrow> (errno, unit) result act" where
  "kill_process_group H g s tr = (let a = h_kill_group H tr g s in (a, tr @ [GroupSignalled g s a]))"

definition clock_now :: "host \<Rightarrow> nat act" where
  "clock_now H tr = (let a = h_now H tr in (a, tr @ [ClockRead a]))"

definition thread_sleep :: "nat \<Rightarrow> unit act" where
  "thread_sleep n tr = ((), tr @ [Slept n])"

definition run_command :: "host \<Rightarrow> command_call \<Rightarrow> (bounded_error, command_output) result act" where
  "run_command H c tr = (let a = h_run H tr c in (a, tr @ [CommandRun c a]))"

definition file_call :: "host \<Rightarrow> file_call \<Rightarrow> (io_error, bool) result act" where
  "file_call H f tr = (let a = h_file H tr f in (a, tr @ [FileCalled f a]))"

definition spawn_client :: "host \<Rightarrow> command_call \<Rightarrow> (io_error, unit) result act" where
  "spawn_client H c tr = (let a = h_spawn H tr c in (a, tr @ [ClientSpawned c a]))"

definition poll_client :: "host \<Rightarrow> (io_error, int option) result act" where
  "poll_client H tr = (let a = h_poll H tr in (a, tr @ [ClientPolled a]))"

text \<open>\<open>let x = m?; k(x)\<close>, the mapping of an error, and a result that needs no call.\<close>

definition then_do :: "('e, 'a) result act \<Rightarrow> ('a \<Rightarrow> ('e, 'b) result act) \<Rightarrow> ('e, 'b) result act" where
  "then_do m k tr = (case m tr of (r, tr') \<Rightarrow> (case r of Inl e \<Rightarrow> (Inl e, tr') | Inr x \<Rightarrow> k x tr'))"

definition mapped :: "('a \<Rightarrow> 'b) \<Rightarrow> 'a act \<Rightarrow> 'b act" where
  "mapped f m tr = (case m tr of (r, tr') \<Rightarrow> (f r, tr'))"

definition give :: "'a \<Rightarrow> 'a act" where
  "give x tr = (x, tr)"

definition and_do :: "'a act \<Rightarrow> ('a \<Rightarrow> 'b act) \<Rightarrow> 'b act" where
  "and_do m k tr = (case m tr of (r, tr') \<Rightarrow> k r tr')"

section \<open>What a call adds to the history\<close>

text \<open>Everything an action adds satisfies \<open>P\<close>.\<close>

definition adds :: "(event \<Rightarrow> bool) \<Rightarrow> 'a act \<Rightarrow> bool" where
  "adds P m \<longleftrightarrow> (\<forall>tr. \<exists>es. snd (m tr) = tr @ es \<and> list_all P es)"

named_theorems added

lemma adds_calls [added]:
  "adds P (read_stat H p)" if "\<And>a. P (StatRead p a)" for P H p
  using that by (auto simp: adds_def read_stat_def Let_def)

lemma adds_list [added]: "adds P (list_proc H)" if "\<And>a. P (ProcListed a)" for P H
  using that by (auto simp: adds_def list_proc_def Let_def)

lemma adds_exe [added]: "adds P (read_exe H p)" if "\<And>a. P (ExeRead p a)" for P H p
  using that by (auto simp: adds_def read_exe_def Let_def)

lemma adds_cmdline [added]: "adds P (read_cmdline H p)" if "\<And>a. P (CommandLineRead p a)" for P H p
  using that by (auto simp: adds_def read_cmdline_def Let_def)

lemma adds_open [added]: "adds P (pidfd_open H p)" if "\<And>a. P (PidfdOpened p a)" for P H p
  using that by (auto simp: adds_def pidfd_open_def Let_def)

lemma adds_send [added]: "adds P (pidfd_send_signal H fd s)" if "\<And>a. P (PidfdSignalled fd s a)" for P H fd s
  using that by (auto simp: adds_def pidfd_send_signal_def Let_def)

lemma adds_kill [added]: "adds P (kill_process_group H g s)" if "\<And>a. P (GroupSignalled g s a)" for P H g s
  using that by (auto simp: adds_def kill_process_group_def Let_def)

lemma adds_clock [added]: "adds P (clock_now H)" if "\<And>a. P (ClockRead a)" for P H
  using that by (auto simp: adds_def clock_now_def Let_def)

lemma adds_sleep [added]: "adds P (thread_sleep n)" if "P (Slept n)" for P n
  using that by (auto simp: adds_def thread_sleep_def)

lemma adds_run [added]: "adds P (run_command H c)" if "\<And>a. P (CommandRun c a)" for P H c
  using that by (auto simp: adds_def run_command_def Let_def)

lemma adds_file [added]: "adds P (file_call H f)" if "\<And>a. P (FileCalled f a)" for P H f
  using that by (auto simp: adds_def file_call_def Let_def)

lemma adds_spawn [added]: "adds P (spawn_client H c)" if "\<And>a. P (ClientSpawned c a)" for P H c
  using that by (auto simp: adds_def spawn_client_def Let_def)

lemma adds_poll [added]: "adds P (poll_client H)" if "\<And>a. P (ClientPolled a)" for P H
  using that by (auto simp: adds_def poll_client_def Let_def)

lemma adds_give [added]: "adds P (give x)"
  by (simp add: adds_def give_def)

lemma adds_mapped [added]: "adds P m \<Longrightarrow> adds P (mapped f m)"
  by (simp add: adds_def mapped_def case_prod_beta)

lemma adds_and_do [added]:
  assumes "adds P m" and "\<And>x. adds P (k x)"
  shows "adds P (and_do m k)"
  unfolding adds_def
proof
  fix tr
  obtain es where "snd (m tr) = tr @ es" "list_all P es" using assms(1) by (auto simp: adds_def)
  moreover obtain fs where "snd (k (fst (m tr)) (tr @ es)) = (tr @ es) @ fs" "list_all P fs"
    using assms(2) unfolding adds_def by blast
  ultimately show "\<exists>es. snd (and_do m k tr) = tr @ es \<and> list_all P es"
    by (intro exI [of _ "es @ fs"]) (simp add: and_do_def case_prod_beta)
qed

lemma then_do_and_do:
  "then_do m k = and_do m (\<lambda>r. case r of Inl e \<Rightarrow> give (Inl e) | Inr x \<Rightarrow> k x)"
  by (auto simp: then_do_def and_do_def give_def fun_eq_iff split: prod.split sum.split)

lemma adds_then_do [added]:
  assumes "adds P m" and "\<And>x. adds P (k x)"
  shows "adds P (then_do m k)"
  unfolding then_do_and_do using assms by (intro adds_and_do) (auto intro: adds_give split: sum.split)

lemma addsD: "adds P m \<Longrightarrow> m tr = (x, tr') \<Longrightarrow> \<exists>es. tr' = tr @ es \<and> list_all P es"
  unfolding adds_def by (metis snd_conv)

lemma adds_mono: "adds P m \<Longrightarrow> (\<And>e. P e \<Longrightarrow> Q e) \<Longrightarrow> adds Q m"
  unfolding adds_def by (meson list.pred_mono_strong)

end
