(* ===== verification/Proc_Fs.thy ===== *)
theory Proc_Fs
  imports Host_Calls
begin

text \<open>
  The process evidence of \<open>src/runtime/mod.rs\<close>: the parser of \<open>/proc/<pid>/stat\<close>, the Linux process
  and process-group probes over it, the command line of a process, and the exit status that a
  zombie retains.
\<close>

section \<open>Integers\<close>

text \<open>\<open>str::parse\<close> for \<open>u32\<close> and \<open>i32\<close>: an optional sign, at least one digit, no overflow.\<close>

definition all_digits :: "string \<Rightarrow> bool" where
  "all_digits s \<longleftrightarrow> s \<noteq> [] \<and> list_all (\<lambda>c. 48 \<le> (of_char c :: nat) \<and> (of_char c :: nat) \<le> 57) s"

definition parse_u32 :: "string \<Rightarrow> pid32 option" where
  "parse_u32 s =
     (let d = (case s of [] \<Rightarrow> [] | c # cs \<Rightarrow> if c = CHR ''+'' then cs else s)
      in if all_digits d \<and> digits_value d < 2 ^ 32 then Some (of_nat (digits_value d)) else None)"

definition parse_i32 :: "string \<Rightarrow> int option" where
  "parse_i32 s =
     (let negative = (s \<noteq> [] \<and> hd s = CHR ''-'');
          d = (case s of [] \<Rightarrow> [] | c # cs \<Rightarrow> if c = CHR ''+'' \<or> c = CHR ''-'' then cs else s)
      in if \<not> all_digits d then None
         else if negative then
           (if digits_value d \<le> 2 ^ 31 then Some (- int (digits_value d)) else None)
         else if digits_value d < 2 ^ 31 then Some (int (digits_value d)) else None)"

section \<open>The record of a process\<close>

datatype signal_error = AlreadyGoneSignal | SignalFailed string

datatype runtime_error =
    EmptyProgram
  | StartupUnavailable
  | InvalidWorkingDirectory string
  | InvalidRuntimePath string
  | InvalidLaunchBarrier string
  | LaunchBarrierTimedOut
  | RuntimeSessionMismatchError
  | TerminalGeometryUnavailable
  | InvalidTerminalGeometry
  | RuntimeIo string io_error
  | OutputTooLarge
  | RuntimeAlreadyOwned string
  | InvalidTopology
  | TmuxRejected string
  | TmuxOutput bounded_error
  | InvalidProcessIdentity
  | ProcessShutdownTimedOut
  | ProcessProbeFailed probe_error
  | ProcessGroupProbeFailed probe_error
  | ProcessGroupIdentityMismatch
  | ProcessIdentityChanged
  | ProcessSignalFailed signal_error
  | ProcessGroupSignalFailed signal_error

record proc_stat =
  ps_state :: string
  ps_birth :: string
  ps_group :: pid32
  ps_session_id :: pid32
  ps_exit :: int

datatype read_scope = DirectIdentity | GroupEnumeration

definition entry_vanished :: "read_scope \<Rightarrow> io_error \<Rightarrow> bool" where
  "entry_vanished scope e \<longleftrightarrow> io_kind e = NotFound \<or> (scope = GroupEnumeration \<and> io_errno e = Some 3)"

text \<open>\<open>rfind\<close> and \<open>get(i..)\<close>, which needs a character boundary.\<close>

definition text_after_last :: "char \<Rightarrow> string \<Rightarrow> string option" where
  "text_after_last c s = (if c \<in> set s then Some (rev (takeWhile (\<lambda>x. x \<noteq> c) (rev s))) else None)"

definition get_from :: "nat \<Rightarrow> string \<Rightarrow> string option" where
  "get_from i s =
     (if i \<le> length s \<and> (i = length s \<or> \<not> continuation (s ! i)) then Some (drop i s) else None)"

definition field :: "nat \<Rightarrow> string list \<Rightarrow> (probe_error, string) result" where
  "field n parts = (if n < length parts then Inr (parts ! n) else Inl ProbeMalformed)"

definition parse_stat :: "string \<Rightarrow> (probe_error, proc_stat) result" where
  "parse_stat stat =
     and_then (ok_or (text_after_last (CHR '')'') stat) ProbeMalformed) (\<lambda>rest.
     and_then (ok_or (get_from (length stat - length rest + 1) stat) ProbeMalformed) (\<lambda>tail_text.
     let parts = split_whitespace tail_text
     in and_then (field 19 parts) (\<lambda>birth.
        and_then (field 0 parts) (\<lambda>first.
        and_then (ok_or (case utf8_chars first of [] \<Rightarrow> None | c # _ \<Rightarrow> Some c) ProbeMalformed) (\<lambda>state.
        and_then (and_then (field 2 parts) (\<lambda>x. ok_or (parse_u32 x) ProbeMalformed)) (\<lambda>group.
        and_then (and_then (field 3 parts) (\<lambda>x. ok_or (parse_u32 x) ProbeMalformed)) (\<lambda>session.
        and_then (and_then (field 49 parts) (\<lambda>x. ok_or (parse_i32 x) ProbeMalformed)) (\<lambda>exit.
        Inr \<lparr> ps_state = state, ps_birth = birth, ps_group = group, ps_session_id = session,
              ps_exit = exit \<rparr>))))))))"

definition stat_result ::
  "read_scope \<Rightarrow> (io_error, string) result \<Rightarrow> (probe_error, proc_stat option) result" where
  "stat_result scope r =
     (case r of
        Inl e \<Rightarrow>
          if entry_vanished scope e then Inr None
          else if io_kind e = PermissionDenied then Inl ProbeInaccessible
          else Inl (ProbeIo (io_text e))
      | Inr s \<Rightarrow> and_then (parse_stat s) (\<lambda>x. Inr (Some x)))"

definition read_linux_process_stat_with_scope ::
  "host \<Rightarrow> read_scope \<Rightarrow> pid32 \<Rightarrow> (probe_error, proc_stat option) result act" where
  "read_linux_process_stat_with_scope H scope p = mapped (stat_result scope) (read_stat H p)"

abbreviation read_linux_process_stat :: "host \<Rightarrow> pid32 \<Rightarrow> (probe_error, proc_stat option) result act" where
  "read_linux_process_stat H \<equiv> read_linux_process_stat_with_scope H DirectIdentity"

definition process_group_stat_read_attempts :: nat where "process_group_stat_read_attempts = 3"

text \<open>The retry of the enumeration; \<open>left\<close> counts the attempts that remain. A duration is in nanoseconds.\<close>

fun read_for_group :: "host \<Rightarrow> pid32 \<Rightarrow> nat \<Rightarrow> (probe_error, proc_stat option) result act" where
  "read_for_group H p left =
     and_do (read_linux_process_stat_with_scope H GroupEnumeration p) (\<lambda>r.
       if r = Inl ProbeMalformed \<and> 1 < left
       then and_do (thread_sleep 1000000) (\<lambda>_. read_for_group H p (left - 1))
       else give r)"

declare read_for_group.simps [simp del]

definition read_linux_process_stat_for_group ::
  "host \<Rightarrow> pid32 \<Rightarrow> (probe_error, proc_stat option) result act" where
  "read_linux_process_stat_for_group H p = read_for_group H p process_group_stat_read_attempts"

section \<open>Probes\<close>

datatype process_state = Running | Zombie

record observation =
  ob_birth :: string
  ob_state :: process_state

record group_info =
  gi_group :: pid32
  gi_session :: pid32

definition process_birth_checked :: "host \<Rightarrow> pid32 \<Rightarrow> (probe_error, string option) result act" where
  "process_birth_checked H p =
     mapped (\<lambda>r. and_then r (\<lambda>x. Inr (map_option ps_birth x))) (read_linux_process_stat H p)"

definition observation_of :: "proc_stat \<Rightarrow> observation" where
  "observation_of s =
     \<lparr> ob_birth = ps_birth s, ob_state = (if ps_state s = ''Z'' then Zombie else Running) \<rparr>"

definition process_observation_checked ::
  "host \<Rightarrow> pid32 \<Rightarrow> (probe_error, observation option) result act" where
  "process_observation_checked H p =
     mapped (\<lambda>r. and_then r (\<lambda>x. Inr (map_option observation_of x))) (read_linux_process_stat H p)"

definition process_group_checked :: "host \<Rightarrow> pid32 \<Rightarrow> (probe_error, group_info option) result act" where
  "process_group_checked H p =
     mapped (\<lambda>r. and_then r (\<lambda>x. Inr (map_option
         (\<lambda>s. \<lparr> gi_group = ps_group s, gi_session = ps_session_id s \<rparr>) x)))
       (read_linux_process_stat H p)"

definition in_group :: "pid32 \<Rightarrow> pid32 option \<Rightarrow> proc_stat \<Rightarrow> bool" where
  "in_group g session s \<longleftrightarrow>
     ps_group s = g \<and> (case session of None \<Rightarrow> True | Some x \<Rightarrow> ps_session_id s = x) \<and> ps_state s \<noteq> ''Z''"

text \<open>The loop over the entries of \<open>/proc\<close>; entries that are not a process id are skipped.\<close>

fun group_members_loop ::
  "host \<Rightarrow> pid32 \<Rightarrow> pid32 option \<Rightarrow> (io_error, string option) result list \<Rightarrow> pid32 list
     \<Rightarrow> (probe_error, pid32 list) result act" where
  "group_members_loop H g session [] members = give (Inr members)"
| "group_members_loop H g session (entry # entries) members =
     (case entry of
        Inl e \<Rightarrow> give (Inl (ProbeIo (io_text e)))
      | Inr name \<Rightarrow>
          (case Option.bind name parse_u32 of
             None \<Rightarrow> group_members_loop H g session entries members
           | Some p \<Rightarrow>
               then_do (read_linux_process_stat_for_group H p) (\<lambda>stat.
               case stat of
                 Some s \<Rightarrow>
                   if in_group g session s
                   then group_members_loop H g session entries (members @ [p])
                   else group_members_loop H g session entries members
               | None \<Rightarrow> group_members_loop H g session entries members)))"

definition list_error :: "io_error \<Rightarrow> probe_error" where
  "list_error e = (if io_kind e = PermissionDenied then ProbeInaccessible else ProbeIo (io_text e))"

definition linux_process_group_members ::
  "host \<Rightarrow> pid32 \<Rightarrow> pid32 option \<Rightarrow> (probe_error, pid32 list) result act" where
  "linux_process_group_members H g session =
     (if g = 0 then give (Inl ProbeMalformed)
      else
        then_do (mapped (map_err list_error) (list_proc H)) (\<lambda>entries.
        then_do (group_members_loop H g session entries []) (\<lambda>members.
        give (Inr (sort members)))))"

definition process_group_members_checked :: "host \<Rightarrow> group_info \<Rightarrow> (probe_error, pid32 list) result act" where
  "process_group_members_checked H g =
     (if gi_group g = 0 \<or> gi_session g = 0 then give (Inl ProbeMalformed)
      else linux_process_group_members H (gi_group g) (Some (gi_session g)))"

definition process_group_members_by_id_checked :: "host \<Rightarrow> pid32 \<Rightarrow> (probe_error, pid32 list) result act" where
  "process_group_members_by_id_checked H g =
     (if g = 0 then give (Inl ProbeMalformed) else linux_process_group_members H g None)"

section \<open>The command of a process\<close>

record process_command =
  pc_executable :: string
  pc_argv :: "string list"

definition max_process_command_bytes :: nat where "max_process_command_bytes = 16384"

definition command_read :: "(io_error, 'a) result \<Rightarrow> (probe_error, 'a option) result" where
  "command_read r =
     (case r of
        Inr x \<Rightarrow> Inr (Some x)
      | Inl e \<Rightarrow>
          if io_kind e = NotFound then Inr None
          else if io_kind e = PermissionDenied then Inl ProbeInaccessible
          else Inl (ProbeIo (io_text e)))"

text \<open>The bytes of \<open>/proc/<pid>/cmdline\<close>: arguments that each end with a zero byte.\<close>

definition parse_cmdline :: "string \<Rightarrow> (probe_error, string list) result" where
  "parse_cmdline bytes =
     (if length bytes > max_process_command_bytes then Inl ProbeTooLarge
      else if bytes = [] \<or> last bytes \<noteq> nul then Inl ProbeMalformed
      else
        let argv = split_on nul (butlast bytes)
        in if argv = [] \<or> [] \<in> set argv then Inl ProbeMalformed else Inr argv)"

definition read_linux_process_command ::
  "host \<Rightarrow> pid32 \<Rightarrow> (probe_error, process_command option) result act" where
  "read_linux_process_command H p =
     then_do (mapped command_read (read_exe H p)) (\<lambda>executable.
     case executable of
       None \<Rightarrow> give (Inr None)
     | Some exe \<Rightarrow>
         mapped (\<lambda>r. and_then (command_read r) (\<lambda>bytes.
           case bytes of
             None \<Rightarrow> Inr None
           | Some content \<Rightarrow>
               and_then (map_err (\<lambda>e. ProbeIo (io_text e)) content) (\<lambda>b.
               and_then (parse_cmdline (take (max_process_command_bytes + 1) b)) (\<lambda>argv.
               Inr (Some \<lparr> pc_executable = exe, pc_argv = argv \<rparr>))))) (read_cmdline H p))"

section \<open>Hooks\<close>

text \<open>\<open>process_parent\<close>: any failure is \<open>None\<close>.\<close>

definition process_parent :: "host \<Rightarrow> pid32 \<Rightarrow> pid32 option act" where
  "process_parent H p =
     mapped (\<lambda>r. case r of
         Inl e \<Rightarrow> None
       | Inr stat \<Rightarrow>
           Option.bind (text_after_last (CHR '')'') stat) (\<lambda>rest.
           Option.bind (get_from (length stat - length rest + 1) stat) (\<lambda>tail_text.
           let parts = split_whitespace tail_text
           in if 1 < length parts then parse_u32 (parts ! 1) else None)))
       (read_stat H p)"

text \<open>\<open>own\<close> is the id of the calling process.\<close>

definition is_direct_provider_hook :: "host \<Rightarrow> pid32 \<Rightarrow> pid32 \<Rightarrow> string \<Rightarrow> bool act" where
  "is_direct_provider_hook H own provider birth =
     and_do (process_birth_checked H provider) (\<lambda>r.
       if r \<noteq> Inr (Some birth) then give False
       else mapped (\<lambda>parent. parent = Some provider) (process_parent H own))"

section \<open>The exit status of a retained zombie\<close>

definition decode_linux_wait_exit_status :: "int \<Rightarrow> int option" where
  "decode_linux_wait_exit_status raw =
     (if raw < 0 \<or> and raw (not 0xffff) \<noteq> 0 \<or> and raw 0x7f \<noteq> 0 then None
      else Some (and (drop_bit 8 raw) 0xff))"

record zombie_evidence =
  ze_birth :: string
  ze_raw :: int
  ze_exit :: int

definition retained_zombie_exit_evidence_from_stat ::
  "proc_stat option \<Rightarrow> (runtime_error, zombie_evidence option) result" where
  "retained_zombie_exit_evidence_from_stat stat =
     (case stat of
        None \<Rightarrow> Inr None
      | Some s \<Rightarrow>
          if ps_state s \<noteq> ''Z'' \<or> ps_birth s = [] then Inl InvalidTopology
          else
            and_then (ok_or (decode_linux_wait_exit_status (ps_exit s)) InvalidTopology) (\<lambda>status.
            Inr (Some \<lparr> ze_birth = ps_birth s, ze_raw = ps_exit s, ze_exit = status \<rparr>)))"

definition retained_zombie_exit_evidence ::
  "host \<Rightarrow> pid32 \<Rightarrow> (runtime_error, zombie_evidence option) result act" where
  "retained_zombie_exit_evidence H p =
     mapped (\<lambda>r. and_then (map_err ProcessProbeFailed r) retained_zombie_exit_evidence_from_stat)
       (read_linux_process_stat H p)"

definition reconcile_missing_tmux_exit_evidence ::
  "zombie_evidence \<Rightarrow> int option \<Rightarrow> zombie_evidence option \<Rightarrow> (runtime_error, int \<times> bool) result" where
  "reconcile_missing_tmux_exit_evidence first status zombie =
     (case (status, zombie) of
        (Some x, None) \<Rightarrow> if x = ze_exit first then Inr (x, True) else Inl InvalidTopology
      | (None, Some z) \<Rightarrow> if z = first then Inr (ze_exit first, False) else Inl InvalidTopology
      | _ \<Rightarrow> Inl InvalidTopology)"

section \<open>Integers and their texts\<close>

lemma all_digits_nat_text: "all_digits (nat_text n)"
proof -
  have "nat_text n \<noteq> []" by (subst nat_text.simps) simp
  then show ?thesis using nat_text_digits by (auto simp: all_digits_def list_all_iff)
qed

lemma nat_text_hd: "nat_text n = c # cs \<Longrightarrow> c \<noteq> CHR ''+'' \<and> c \<noteq> CHR ''-''"
  using nat_text_digits [of c n] by auto

lemma parse_u32_nat_text: "parse_u32 (nat_text (unat (p :: pid32))) = Some p"
proof -
  have "(case nat_text (unat p) of [] \<Rightarrow> [] | c # cs \<Rightarrow> if c = CHR ''+'' then cs else nat_text (unat p)) = nat_text (unat p)"
    using nat_text_hd [of "unat p"] by (auto split: list.split)
  moreover have "unat p < 2 ^ 32" using unsigned_less [of p, where ?'a = nat] by simp
  ultimately show ?thesis
    by (simp add: parse_u32_def all_digits_nat_text digits_value_nat_text)
qed

lemma parse_i32_int_text:
  assumes "- (2 ^ 31) \<le> i" and "i < 2 ^ 31"
  shows "parse_i32 (int_text i) = Some i"
proof (cases "i < 0")
  case True
  then show ?thesis
    using assms by (simp add: parse_i32_def int_text_def all_digits_nat_text digits_value_nat_text nat_le_iff)
next
  case False
  obtain c cs where digits: "nat_text (nat i) = c # cs"
    using all_digits_nat_text [of "nat i"] by (cases "nat_text (nat i)") (auto simp: all_digits_def)
  note hd = nat_text_hd [OF digits]
  have "parse_i32 (int_text i) = parse_i32 (c # cs)" using False by (simp add: int_text_def digits)
  also have "\<dots> = Some i"
    using assms(2) False hd all_digits_nat_text [of "nat i"] digits_value_nat_text [of "nat i"]
    by (simp add: parse_i32_def digits)
  finally show ?thesis .
qed

section \<open>The fields of a record\<close>

definition stat_word :: "string \<Rightarrow> bool" where
  "stat_word w \<longleftrightarrow> w \<noteq> [] \<and> list_all (\<lambda>c. 32 < (of_char c :: nat) \<and> (of_char c :: nat) < 127 \<and> c \<noteq> CHR '')'') w"

fun stat_fields :: "string list \<Rightarrow> string" where
  "stat_fields [] = []"
| "stat_fields [w] = w"
| "stat_fields (w # v # ws) = w @ CHR '' '' # stat_fields (v # ws)"

lemma utf8_chars_ascii:
  assumes "list_all (\<lambda>c. (of_char c :: nat) < 128) s"
  shows "utf8_chars s = map (\<lambda>c. [c]) s"
  using assms
proof (induction s)
  case (Cons c cs)
  have "takeWhile continuation cs = []" "dropWhile continuation cs = cs"
    using Cons.prems by (cases cs; simp add: continuation_def)+
  with Cons show ?case by simp
qed simp

lemma leading_ws_plain:
  "32 < (of_char c :: nat) \<Longrightarrow> (of_char c :: nat) < 128 \<Longrightarrow> leading_ws [c] = 0" "leading_ws '' '' = 1"
  by (simp_all add: leading_ws_def)

lemma words_from_word:
  assumes "list_all (\<lambda>c. 32 < (of_char c :: nat) \<and> (of_char c :: nat) < 128) w"
  shows "words_from v (map (\<lambda>c. [c]) w @ cs) = words_from (v @ w) cs"
  using assms by (induction w arbitrary: v) (simp_all add: leading_ws_plain)

lemma split_stat_fields:
  assumes "list_all stat_word ws"
  shows "split_whitespace (CHR '' '' # stat_fields ws) = ws \<and> split_whitespace (stat_fields ws) = ws"
proof -
  have ascii: "list_all (\<lambda>c. (of_char c :: nat) < 128) (stat_fields ws)" if "list_all stat_word ws" for ws
    using that
    by (induction ws rule: stat_fields.induct) (auto simp: stat_word_def elim: list.pred_mono_strong)
  have "words_from [] (map (\<lambda>c. [c]) (stat_fields ws)) = ws" if "list_all stat_word ws" for ws
    using that
  proof (induction ws rule: stat_fields.induct)
    case (2 w)
    then have "list_all (\<lambda>c. 32 < (of_char c :: nat) \<and> (of_char c :: nat) < 128) w"
      by (auto simp: stat_word_def elim: list.pred_mono_strong)
    from words_from_word [OF this, of "[]" "[]"] 2 show ?case by (simp add: stat_word_def)
  next
    case (3 w v ws)
    then have "list_all (\<lambda>c. 32 < (of_char c :: nat) \<and> (of_char c :: nat) < 128) w"
      by (auto simp: stat_word_def elim: list.pred_mono_strong)
    from words_from_word [OF this, of "[]"] 3 show ?case by (simp add: stat_word_def leading_ws_plain)
  qed simp
  moreover have "utf8_chars (CHR '' '' # stat_fields ws) = map (\<lambda>c. [c]) (CHR '' '' # stat_fields ws)"
    by (rule utf8_chars_ascii) (use ascii [OF assms] in simp)
  ultimately show ?thesis
    using assms ascii [OF assms] unfolding split_whitespace_def
    by (simp add: utf8_chars_ascii leading_ws_plain del: utf8_chars.simps)
qed

lemma get_from_append: "b = [] \<or> \<not> continuation (hd b) \<Longrightarrow> get_from (length a) (a @ b) = Some b"
  by (cases b) (simp_all add: get_from_def nth_append)

lemma stat_fields_hd: "list_all stat_word fs \<Longrightarrow> stat_fields fs = [] \<or> \<not> continuation (hd (stat_fields fs))"
  by (cases fs rule: stat_fields.cases) (auto simp: stat_word_def continuation_def neq_Nil_conv)

lemma no_paren: "list_all stat_word ws \<Longrightarrow> CHR '')'' \<notin> set (stat_fields ws)"
  by (induction ws rule: stat_fields.induct) (auto simp: stat_word_def list_all_iff)

lemma text_after_last_append: "c \<notin> set b \<Longrightarrow> text_after_last c (a @ c # b) = Some b"
proof -
  assume "c \<notin> set b"
  then have "takeWhile (\<lambda>x. x \<noteq> c) (rev b @ c # rev a) = rev b"
    by (subst takeWhile_append2) (auto simp: set_rev)
  then show ?thesis by (simp add: text_after_last_def)
qed

text \<open>The line that the kernel prints: the id and the name of the process, then its fields.\<close>

definition stat_line :: "string \<Rightarrow> string \<Rightarrow> string list \<Rightarrow> string" where
  "stat_line pid_text comm fs = pid_text @ '' ('' @ comm @ '') '' @ stat_fields fs"

lemma parse_stat_line:
  assumes "list_all stat_word fs"
  shows "parse_stat (stat_line pid_text comm fs) =
     and_then (field 19 fs) (\<lambda>birth.
        and_then (field 0 fs) (\<lambda>first.
        and_then (ok_or (case utf8_chars first of [] \<Rightarrow> None | c # _ \<Rightarrow> Some c) ProbeMalformed) (\<lambda>state.
        and_then (and_then (field 2 fs) (\<lambda>x. ok_or (parse_u32 x) ProbeMalformed)) (\<lambda>group.
        and_then (and_then (field 3 fs) (\<lambda>x. ok_or (parse_u32 x) ProbeMalformed)) (\<lambda>session.
        and_then (and_then (field 49 fs) (\<lambda>x. ok_or (parse_i32 x) ProbeMalformed)) (\<lambda>exit.
        Inr \<lparr> ps_state = state, ps_birth = birth, ps_group = group, ps_session_id = session,
              ps_exit = exit \<rparr>))))))"
proof -
  let ?s = "stat_line pid_text comm fs" and ?rest = "CHR '' '' # stat_fields fs"
  have line: "?s = (pid_text @ '' ('' @ comm) @ CHR '')'' # ?rest" by (simp add: stat_line_def)
  have "text_after_last (CHR '')'') ?s = Some ?rest"
    unfolding line by (rule text_after_last_append) (use no_paren [OF assms] in simp)
  moreover have "length ?s - length ?rest + 1 = length (pid_text @ '' ('' @ comm @ '') '')"
    by (simp add: stat_line_def)
  moreover have "get_from (length (pid_text @ '' ('' @ comm @ '') '')) ?s = Some (stat_fields fs)"
    using get_from_append [OF stat_fields_hd [OF assms], of "pid_text @ '' ('' @ comm @ '') ''"]
    by (simp add: stat_line_def)
  ultimately show ?thesis
    using split_stat_fields [OF assms] by (simp add: parse_stat_def Let_def)
qed

lemma stat_line_parsed:
  assumes "list_all stat_word fs" and "50 \<le> length fs"
    and "fs ! 0 = [state]" and "fs ! 2 = nat_text (unat g)" and "fs ! 3 = nat_text (unat session)"
    and "fs ! 49 = int_text exit" and "- (2 ^ 31) \<le> exit" and "exit < 2 ^ 31"
  shows "parse_stat (stat_line pid_text comm fs) =
    Inr \<lparr> ps_state = [state], ps_birth = fs ! 19, ps_group = g, ps_session_id = session, ps_exit = exit \<rparr>"
proof -
  have "0 < length fs" using assms(2) by linarith
  with assms(2-) show ?thesis
    unfolding parse_stat_line [OF assms(1)]
    by (simp add: field_def parse_u32_nat_text parse_i32_int_text del: length_greater_0_conv)
qed


definition sample_stat_fields :: "string list" where
  "sample_stat_fields = [''S'', ''1'', ''41'', ''40''] @ replicate 15 ''0'' @ [''777''] @ replicate 29 ''0'' @ [''256'']"

lemma sample_texts_stat:
  "nat_text 41 = ''41''" "nat_text 40 = ''40''" "int_text 256 = ''256''"
  by code_simp+

lemma sample_fields:
  "list_all stat_word sample_stat_fields" "length sample_stat_fields = 50"
  "sample_stat_fields ! 0 = ''S''" "sample_stat_fields ! 2 = ''41''" "sample_stat_fields ! 3 = ''40''"
  "sample_stat_fields ! 19 = ''777''" "sample_stat_fields ! 49 = ''256''"
  by (simp_all add: sample_stat_fields_def stat_word_def list_all_iff nth_append)


lemma sample_stat_parsed:
  "parse_stat (stat_line ''41'' name sample_stat_fields) =
    Inr \<lparr> ps_state = ''S'', ps_birth = ''777'', ps_group = 41, ps_session_id = 40, ps_exit = 256 \<rparr>"
  using stat_line_parsed [of sample_stat_fields "CHR ''S''" 41 40 256 "''41''" name]
  by (simp add: sample_fields sample_texts_stat)

section \<open>The exit status\<close>

lemma decode_exit:
  "decode_linux_wait_exit_status raw = Some x \<longleftrightarrow>
     0 \<le> raw \<and> raw < 65536 \<and> raw mod 128 = 0 \<and> x = raw div 256"
proof -
  have high: "and raw (not 0xffff) = 0 \<longleftrightarrow> raw < 65536" if "0 \<le> raw"
  proof -
    have "(0xffff :: int) = mask 16" by (simp add: mask_eq_exp_minus_1)
    moreover have "and raw (not (mask 16)) = push_bit 16 (drop_bit 16 raw)"
      by (rule bit_eqI) (auto simp: bit_simps)
    ultimately have "and raw (not 0xffff) = push_bit 16 (drop_bit 16 raw)" by simp
    also have "\<dots> = 0 \<longleftrightarrow> raw div 65536 = 0" by (simp add: push_bit_eq_mult drop_bit_eq_div)
    also have "\<dots> \<longleftrightarrow> raw < 65536" using that by (auto simp: zdiv_eq_0_iff)
    finally show ?thesis .
  qed
  have masked: "and x (mask n) = x mod 2 ^ n" for x :: int and n
    unfolding take_bit_eq_mask [symmetric] by (rule take_bit_eq_mod)
  have low: "and raw 0x7f = raw mod 128"
    using masked [of raw 7] by (simp add: mask_eq_exp_minus_1)
  have status: "and (drop_bit 8 raw) 0xff = raw div 256" if "0 \<le> raw" "raw < 65536"
    using masked [of "drop_bit 8 raw" 8] that by (simp add: mask_eq_exp_minus_1 drop_bit_eq_div)
  show ?thesis using high low status by (auto simp: decode_linux_wait_exit_status_def)
qed

end
