(* ===== verification/Shutdown.thy ===== *)
theory Shutdown
  imports Proc_Fs
begin

text \<open>
  The bounded shutdown of processes in \<open>src/runtime/mod.rs\<close>: the Linux signalers, which bind a
  signal to a process through its pidfd, the proof of a process group, and the phases TERM, wait,
  KILL, wait for a single helper and for a provider's group. The boundaries that the code injects
  (\<open>ProcessProbe\<close>, \<open>ProcessSignaler\<close>, \<dots>) are records of functions, and the production ones instances.
\<close>

section \<open>Signals\<close>

datatype owned_signal = Term | Kill

record owned_group =
  og_leader :: pid32
  og_birth :: string
  og_group :: pid32
  og_session :: pid32

fun posix :: "owned_signal \<Rightarrow> posix_signal" where
  "posix Term = SigTerm"
| "posix Kill = SigKill"

text \<open>\<open>i32::try_from\<close> and \<open>Pid::from_raw\<close>.\<close>

definition checked_pid :: "string \<Rightarrow> string \<Rightarrow> pid32 \<Rightarrow> (signal_error, pid32) result" where
  "checked_pid range_text zero_text p =
     (if unat p \<ge> 2 ^ 31 then Inl (SignalFailed range_text)
      else if p = 0 then Inl (SignalFailed zero_text) else Inr p)"

definition errno_error :: "string \<Rightarrow> errno \<Rightarrow> signal_error" where
  "errno_error what e = (case e of ESRCH \<Rightarrow> AlreadyGoneSignal | OtherErrno t \<Rightarrow> SignalFailed (what @ t))"

fun probe_text :: "probe_error \<Rightarrow> string" where
  "probe_text ProbeInaccessible = ''process metadata is inaccessible''"
| "probe_text (ProbeIo t) = ''process metadata read failed: '' @ t"
| "probe_text ProbeMalformed = ''process metadata is malformed''"
| "probe_text ProbeTooLarge = ''process command metadata exceeded the bound''"

definition birth_matches ::
  "string \<Rightarrow> (probe_error, string option) result \<Rightarrow> (signal_error, unit) result" where
  "birth_matches birth r =
     (case r of
        Inl e \<Rightarrow> Inl (SignalFailed (''could not corroborate pidfd target: '' @ probe_text e))
      | Inr actual \<Rightarrow> if actual = Some birth then Inr () else Inl AlreadyGoneSignal)"

text \<open>\<open>SystemProcessSignaler::signal\<close>.\<close>

definition system_signal :: "host \<Rightarrow> pid32 \<Rightarrow> string \<Rightarrow> owned_signal \<Rightarrow> (signal_error, unit) result act" where
  "system_signal H p birth s =
     then_do (give (checked_pid ''PID is out of range'' ''PID is zero'' p)) (\<lambda>p.
     then_do (mapped (map_err (errno_error ''pidfd_open failed: '')) (pidfd_open H p)) (\<lambda>fd.
     then_do (mapped (birth_matches birth) (process_birth_checked H p)) (\<lambda>_.
     mapped (map_err (errno_error ''pidfd_send_signal failed: '')) (pidfd_send_signal H fd (posix s)))))"

definition leader_birth_matches ::
  "owned_group \<Rightarrow> (probe_error, string option) result \<Rightarrow> (signal_error, unit) result" where
  "leader_birth_matches g r =
     (case r of
        Inl e \<Rightarrow> Inl (SignalFailed (''could not corroborate process-group leader: '' @ probe_text e))
      | Inr None \<Rightarrow> Inl AlreadyGoneSignal
      | Inr (Some actual) \<Rightarrow>
          if actual = og_birth g then Inr ()
          else Inl (SignalFailed ''process-group leader birth changed''))"

definition leader_group_matches ::
  "owned_group \<Rightarrow> (probe_error, group_info option) result \<Rightarrow> (signal_error, unit) result" where
  "leader_group_matches g r =
     (case r of
        Inl e \<Rightarrow> Inl (SignalFailed (''could not corroborate process-group membership: '' @ probe_text e))
      | Inr None \<Rightarrow> Inl AlreadyGoneSignal
      | Inr (Some actual) \<Rightarrow>
          if gi_group actual = og_group g \<and> gi_session actual = og_session g then Inr ()
          else Inl (SignalFailed ''process-group leader changed groups''))"

definition verify_linux_group_leader :: "host \<Rightarrow> owned_group \<Rightarrow> (signal_error, unit) result act" where
  "verify_linux_group_leader H g =
     then_do (mapped (leader_birth_matches g) (process_birth_checked H (og_leader g))) (\<lambda>_.
     mapped (leader_group_matches g) (process_group_checked H (og_leader g)))"

definition stop_and_verify_linux_group_leader ::
  "host \<Rightarrow> pidfd \<Rightarrow> owned_group \<Rightarrow> bool \<Rightarrow> (signal_error, bool) result act" where
  "stop_and_verify_linux_group_leader H fd g allow_leader_gone =
     and_do (verify_linux_group_leader H g) (\<lambda>verified.
     case verified of
       Inl e \<Rightarrow>
         if allow_leader_gone \<and> e = AlreadyGoneSignal then give (Inr False) else give (Inl e)
     | Inr _ \<Rightarrow>
         and_do (pidfd_send_signal H fd SigStop) (\<lambda>stopped.
         case stopped of
           Inl e \<Rightarrow>
             if e = ESRCH \<and> allow_leader_gone then give (Inr False)
             else give (Inl (errno_error ''pidfd_stop failed: '' e))
         | Inr _ \<Rightarrow>
             and_do (verify_linux_group_leader H g) (\<lambda>again.
             case again of
               Inl e \<Rightarrow> and_do (pidfd_send_signal H fd SigCont) (\<lambda>_. give (Inl e))
             | Inr _ \<Rightarrow> give (Inr True))))"

text \<open>\<open>fd\<close> is the pidfd of the leader when it could be stopped.\<close>

definition send_linux_group_signal ::
  "host \<Rightarrow> owned_group \<Rightarrow> owned_signal \<Rightarrow> pidfd option \<Rightarrow> (signal_error, unit) result act" where
  "send_linux_group_signal H g s stopped =
     then_do (give (checked_pid ''process-group ID is out of range'' ''process-group ID is zero'' (og_group g)))
       (\<lambda>group.
     and_do (mapped (map_err (errno_error ''process-group signal failed: '')) (kill_process_group H group (posix s)))
       (\<lambda>result.
     case stopped of
       None \<Rightarrow> give result
     | Some fd \<Rightarrow>
         and_do (mapped (map_err (errno_error ''pidfd_continue failed: '')) (pidfd_send_signal H fd SigCont))
           (\<lambda>continued.
         case continued of
           Inl (SignalFailed message) \<Rightarrow> give (Inl (SignalFailed message))
         | _ \<Rightarrow> give result)))"

definition group_identity_invalid :: "owned_group \<Rightarrow> bool" where
  "group_identity_invalid g \<longleftrightarrow>
     og_leader g = 0 \<or> og_group g = 0 \<or> og_group g \<noteq> og_leader g \<or> og_session g = 0 \<or> og_birth g = []"

definition open_leader ::
  "bool \<Rightarrow> (errno, pidfd) result \<Rightarrow> (signal_error, pidfd option) result" where
  "open_leader allow_leader_gone r =
     (case r of
        Inr fd \<Rightarrow> Inr (Some fd)
      | Inl e \<Rightarrow>
          if e = ESRCH \<and> allow_leader_gone then Inr None
          else Inl (errno_error ''pidfd_open failed: '' e))"

text \<open>\<open>SystemProcessGroupSignaler::signal_group\<close>.\<close>

definition system_signal_group ::
  "host \<Rightarrow> owned_group \<Rightarrow> owned_signal \<Rightarrow> bool \<Rightarrow> (signal_error, unit) result act" where
  "system_signal_group H g s allow_leader_gone =
     (if group_identity_invalid g
      then give (Inl (SignalFailed ''owned process-group identity was invalid''))
      else
        then_do (give (checked_pid ''PID is out of range'' ''PID is zero'' (og_leader g))) (\<lambda>leader.
        then_do (mapped (open_leader allow_leader_gone) (pidfd_open H leader)) (\<lambda>fd.
        then_do (case fd of
                   None \<Rightarrow> give (Inr False)
                 | Some x \<Rightarrow> stop_and_verify_linux_group_leader H x g allow_leader_gone) (\<lambda>stopped.
        send_linux_group_signal H g s (if stopped then fd else None)))))"

section \<open>The injected boundaries\<close>

record process_probe =
  pp_birth :: "pid32 \<Rightarrow> (probe_error, string option) result act"
  pp_observation :: "pid32 \<Rightarrow> (probe_error, observation option) result act"

record group_probe =
  gp_group :: "pid32 \<Rightarrow> (probe_error, group_info option) result act"
  gp_members :: "group_info \<Rightarrow> (probe_error, pid32 list) result act"
  gp_members_by_id :: "pid32 \<Rightarrow> (probe_error, pid32 list) result act"

type_synonym signaler = "pid32 \<Rightarrow> string \<Rightarrow> owned_signal \<Rightarrow> (signal_error, unit) result act"
type_synonym group_signaler = "owned_group \<Rightarrow> owned_signal \<Rightarrow> bool \<Rightarrow> (signal_error, unit) result act"

definition linux_process_probe :: "host \<Rightarrow> process_probe" where
  "linux_process_probe H =
     \<lparr> pp_birth = process_birth_checked H, pp_observation = process_observation_checked H \<rparr>"

definition linux_group_probe :: "host \<Rightarrow> group_probe" where
  "linux_group_probe H =
     \<lparr> gp_group = process_group_checked H, gp_members = process_group_members_checked H,
       gp_members_by_id = process_group_members_by_id_checked H \<rparr>"

section \<open>Outcomes\<close>

datatype termination_outcome = AlreadyGone | TerminatedByTerm | TerminatedByKill

text \<open>The calls that may loop: \<open>None\<close> is a loop that never ends.\<close>

type_synonym 'a run = "history \<Rightarrow> ((runtime_error, 'a) result \<times> history) option"

definition once :: "(runtime_error, 'a) result act \<Rightarrow> 'a run" where
  "once m tr = Some (m tr)"

definition and_run :: "'a run \<Rightarrow> ('a \<Rightarrow> 'b run) \<Rightarrow> 'b run" where
  "and_run m k tr =
     (case m tr of
        None \<Rightarrow> None
      | Some (r, tr') \<Rightarrow> (case r of Inl e \<Rightarrow> Some (Inl e, tr') | Inr x \<Rightarrow> k x tr'))"

abbreviation ret :: "'a \<Rightarrow> 'a run" where "ret x \<equiv> once (give (Inr x))"
abbreviation refuse :: "runtime_error \<Rightarrow> 'a run" where "refuse e \<equiv> once (give (Inl e))"

section \<open>One helper process\<close>

definition exact_process_identity ::
  "process_probe \<Rightarrow> pid32 \<Rightarrow> string \<Rightarrow> (runtime_error, bool) result act" where
  "exact_process_identity P p birth =
     mapped (\<lambda>r. map_err ProcessProbeFailed (and_then r (\<lambda>b. Inr (b = Some birth)))) (pp_birth P p)"

definition exact_zombie_identity ::
  "process_probe \<Rightarrow> pid32 \<Rightarrow> string \<Rightarrow> (runtime_error, bool) result act" where
  "exact_zombie_identity P p birth =
     mapped (\<lambda>r. map_err ProcessProbeFailed (and_then r (\<lambda>ob. Inr (
         case ob of None \<Rightarrow> False | Some x \<Rightarrow> ob_birth x = birth \<and> ob_state x = Zombie))))
       (pp_observation P p)"

text \<open>One look of the waiting loop.\<close>

definition exit_seen ::
  "process_probe \<Rightarrow> pid32 \<Rightarrow> string \<Rightarrow> bool \<Rightarrow> (runtime_error, bool) result act" where
  "exit_seen P p birth accept_zombie =
     then_do (if accept_zombie then exact_zombie_identity P p birth else give (Inr False)) (\<lambda>zombie.
     if zombie then give (Inr True)
     else then_do (exact_process_identity P p birth) (\<lambda>exact. give (Inr (\<not> exact))))"

text \<open>The loop until the deadline, over one look \<open>seen\<close>.\<close>

partial_function (option) wait_until ::
  "host \<Rightarrow> (runtime_error, bool) result act \<Rightarrow> nat \<Rightarrow> nat \<Rightarrow> history
     \<Rightarrow> ((runtime_error, bool) result \<times> history) option" where
  "wait_until H seen deadline poll tr =
     (case seen tr of (r, tr1) \<Rightarrow>
        (case r of
           Inl e \<Rightarrow> Some (Inl e, tr1)
         | Inr gone \<Rightarrow>
             if gone then Some (Inr True, tr1)
             else
               (case clock_now H tr1 of (now, tr2) \<Rightarrow>
                  if deadline \<le> now then Some (Inr False, tr2)
                  else wait_until H seen deadline poll (snd (thread_sleep (max poll 1000000) tr2)))))"

definition wait_for ::
  "host \<Rightarrow> (runtime_error, bool) result act \<Rightarrow> nat \<Rightarrow> nat \<Rightarrow> bool run" where
  "wait_for H seen timeout poll tr =
     (case clock_now H tr of (start, tr1) \<Rightarrow> wait_until H seen (start + timeout) poll tr1)"

definition wait_for_process_exit ::
  "host \<Rightarrow> process_probe \<Rightarrow> pid32 \<Rightarrow> string \<Rightarrow> nat \<Rightarrow> nat \<Rightarrow> bool \<Rightarrow> bool run" where
  "wait_for_process_exit H P p birth timeout poll accept_zombie =
     wait_for H (exit_seen P p birth accept_zombie) timeout poll"

text \<open>From KILL on, and from the end of the first wait on.\<close>

definition kill_signal_phase ::
  "host \<Rightarrow> process_probe \<Rightarrow> signaler \<Rightarrow> pid32 \<Rightarrow> string \<Rightarrow> nat \<Rightarrow> nat \<Rightarrow> bool \<Rightarrow> termination_outcome run" where
  "kill_signal_phase H P S p birth timeout poll accept_zombie =
     and_run (once (mapped Inr (S p birth Kill))) (\<lambda>killed.
     case killed of
       Inl (SignalFailed t) \<Rightarrow> refuse (ProcessSignalFailed (SignalFailed t))
     | _ \<Rightarrow>
         and_run (wait_for_process_exit H P p birth timeout poll accept_zombie) (\<lambda>gone.
         if gone then ret TerminatedByKill else refuse ProcessShutdownTimedOut))"

definition kill_phase ::
  "host \<Rightarrow> process_probe \<Rightarrow> signaler \<Rightarrow> pid32 \<Rightarrow> string \<Rightarrow> nat \<Rightarrow> nat \<Rightarrow> bool \<Rightarrow> termination_outcome run" where
  "kill_phase H P S p birth timeout poll accept_zombie =
     and_run (once (if accept_zombie then exact_zombie_identity P p birth else give (Inr False))) (\<lambda>zombie.
     if zombie then ret TerminatedByTerm
     else
       and_run (once (exact_process_identity P p birth)) (\<lambda>exact.
       if \<not> exact then ret AlreadyGone
       else kill_signal_phase H P S p birth timeout poll accept_zombie))"

definition terminate_owned_process_inner ::
  "host \<Rightarrow> process_probe \<Rightarrow> signaler \<Rightarrow> pid32 \<Rightarrow> string \<Rightarrow> nat \<Rightarrow> nat \<Rightarrow> bool \<Rightarrow> termination_outcome run" where
  "terminate_owned_process_inner H P S p birth timeout poll accept_zombie =
     and_run (once (exact_process_identity P p birth)) (\<lambda>exact.
     if \<not> exact then ret AlreadyGone
     else
       and_run (once (mapped Inr (S p birth Term))) (\<lambda>signalled.
       case signalled of
         Inl AlreadyGoneSignal \<Rightarrow> ret AlreadyGone
       | Inl (SignalFailed t) \<Rightarrow> refuse (ProcessSignalFailed (SignalFailed t))
       | Inr _ \<Rightarrow>
           and_run (wait_for_process_exit H P p birth timeout poll accept_zombie) (\<lambda>gone.
           if gone then ret TerminatedByTerm
           else kill_phase H P S p birth timeout poll accept_zombie)))"

definition terminate_owned_process_with_options ::
  "host \<Rightarrow> process_probe \<Rightarrow> signaler \<Rightarrow> pid32 \<Rightarrow> string \<Rightarrow> nat \<Rightarrow> nat \<Rightarrow> bool \<Rightarrow> termination_outcome run" where
  "terminate_owned_process_with_options H P S p birth timeout poll accept_zombie =
     (if p = 0 \<or> birth = [] then refuse InvalidProcessIdentity
      else
        and_run (once (if accept_zombie then exact_zombie_identity P p birth else give (Inr False))) (\<lambda>zombie.
        if zombie then ret AlreadyGone
        else terminate_owned_process_inner H P S p birth timeout poll accept_zombie))"

definition terminate_owned_process ::
  "host \<Rightarrow> process_probe \<Rightarrow> signaler \<Rightarrow> pid32 \<Rightarrow> string \<Rightarrow> nat \<Rightarrow> nat \<Rightarrow> termination_outcome run" where
  "terminate_owned_process H P S p birth timeout poll =
     terminate_owned_process_with_options H P S p birth timeout poll False"

definition provider_shutdown_poll_interval :: nat where "provider_shutdown_poll_interval = 10000000"

definition terminate_owned_observer_process :: "host \<Rightarrow> pid32 \<Rightarrow> string \<Rightarrow> nat \<Rightarrow> termination_outcome run" where
  "terminate_owned_observer_process H p birth timeout =
     terminate_owned_process_with_options H (linux_process_probe H) (system_signal H) p birth timeout
       provider_shutdown_poll_interval True"

end
