(* ===== verification/Group_Shutdown.thy ===== *)
theory Group_Shutdown
  imports Shutdown
begin

text \<open>
  The process group of a provider in \<open>src/runtime/mod.rs\<close>: its proof while the leader lives, and its
  bounded shutdown, with the leader live, exited, or replaced by another process.
\<close>

section \<open>The proof of a group\<close>

definition prove_owned_process_group_after_identity ::
  "group_probe \<Rightarrow> pid32 \<Rightarrow> string \<Rightarrow> (runtime_error, owned_group) result act" where
  "prove_owned_process_group_after_identity G p birth =
     then_do (mapped (map_err ProcessGroupProbeFailed) (gp_group G p)) (\<lambda>group.
     case group of
       None \<Rightarrow> give (Inl ProcessGroupIdentityMismatch)
     | Some g \<Rightarrow>
         if gi_group g \<noteq> p \<or> gi_session g = 0 then give (Inl ProcessGroupIdentityMismatch)
         else
           then_do (mapped (map_err ProcessGroupProbeFailed)
               (gp_members G \<lparr> gi_group = gi_group g, gi_session = gi_session g \<rparr>)) (\<lambda>members.
           if p \<notin> set members then give (Inl ProcessGroupIdentityMismatch)
           else give (Inr \<lparr> og_leader = p, og_birth = birth, og_group = gi_group g,
                            og_session = gi_session g \<rparr>)))"

definition prove_owned_process_group ::
  "process_probe \<Rightarrow> group_probe \<Rightarrow> pid32 \<Rightarrow> string \<Rightarrow> (runtime_error, owned_group) result act" where
  "prove_owned_process_group P G p birth =
     (if p = 0 \<or> birth = [] then give (Inl InvalidProcessIdentity)
      else
        then_do (exact_process_identity P p birth) (\<lambda>exact.
        if \<not> exact then give (Inl ProcessIdentityChanged)
        else prove_owned_process_group_after_identity G p birth))"

section \<open>Phases\<close>

definition group_of :: "owned_group \<Rightarrow> group_info" where
  "group_of g = \<lparr> gi_group = og_group g, gi_session = og_session g \<rparr>"

definition group_empty :: "group_probe \<Rightarrow> owned_group \<Rightarrow> (runtime_error, bool) result act" where
  "group_empty G g =
     mapped (\<lambda>r. map_err ProcessGroupProbeFailed (and_then r (\<lambda>members. Inr (members = []))))
       (gp_members G (group_of g))"

definition wait_for_process_group_exit ::
  "host \<Rightarrow> group_probe \<Rightarrow> owned_group \<Rightarrow> nat \<Rightarrow> nat \<Rightarrow> bool run" where
  "wait_for_process_group_exit H G g timeout poll = wait_for H (group_empty G g) timeout poll"

text \<open>\<open>Ok(())\<close> and \<open>AlreadyGone\<close> alike go on.\<close>

definition signal_phase :: "group_signaler \<Rightarrow> owned_group \<Rightarrow> owned_signal \<Rightarrow> bool \<Rightarrow> (runtime_error, unit) result act" where
  "signal_phase S g s allow_leader_gone =
     mapped (\<lambda>r. case r of
         Inl (SignalFailed t) \<Rightarrow> Inl (ProcessGroupSignalFailed (SignalFailed t))
       | _ \<Rightarrow> Inr ()) (S g s allow_leader_gone)"

text \<open>The leader of a captured group: \<open>Inr False\<close> live and exact, \<open>Inr True\<close> exited.\<close>

definition leader_gone ::
  "process_probe \<Rightarrow> group_probe \<Rightarrow> owned_group \<Rightarrow> (runtime_error, bool) result act" where
  "leader_gone P G g =
     then_do (mapped (map_err ProcessProbeFailed) (pp_birth P (og_leader g))) (\<lambda>actual.
     case actual of
       None \<Rightarrow> give (Inr True)
     | Some b \<Rightarrow>
         if b \<noteq> og_birth g then give (Inl ProcessIdentityChanged)
         else
           then_do (mapped (map_err ProcessGroupProbeFailed) (gp_group G (og_leader g))) (\<lambda>group.
           case group of
             None \<Rightarrow> give (Inl ProcessGroupIdentityMismatch)
           | Some a \<Rightarrow>
               if gi_group a \<noteq> og_group g \<or> gi_session a \<noteq> og_session g
               then give (Inl ProcessGroupIdentityMismatch) else give (Inr False)))"

definition kill_group_phase ::
  "host \<Rightarrow> group_probe \<Rightarrow> group_signaler \<Rightarrow> owned_group \<Rightarrow> bool \<Rightarrow> nat \<Rightarrow> nat \<Rightarrow> termination_outcome run" where
  "kill_group_phase H G S g gone timeout poll =
     and_run (once (signal_phase S g Kill gone)) (\<lambda>_.
     and_run (wait_for_process_group_exit H G g timeout poll) (\<lambda>exited.
     if exited then ret TerminatedByKill else refuse ProcessShutdownTimedOut))"

definition terminate_live_proven_process_group ::
  "host \<Rightarrow> process_probe \<Rightarrow> group_probe \<Rightarrow> group_signaler \<Rightarrow> owned_group \<Rightarrow> nat \<Rightarrow> nat \<Rightarrow> termination_outcome run" where
  "terminate_live_proven_process_group H P G S g timeout poll =
     and_run (once (signal_phase S g Term False)) (\<lambda>_.
     and_run (wait_for_process_group_exit H G g timeout poll) (\<lambda>exited.
     if exited then ret TerminatedByTerm
     else
       and_run (once (leader_gone P G g)) (\<lambda>gone.
       and_run (once (if gone then group_empty G g else give (Inr False))) (\<lambda>none_left.
       if none_left then ret TerminatedByTerm
       else kill_group_phase H G S g gone timeout poll))))"

definition terminate_owned_process_group ::
  "host \<Rightarrow> process_probe \<Rightarrow> group_probe \<Rightarrow> group_signaler \<Rightarrow> pid32 \<Rightarrow> string \<Rightarrow> nat \<Rightarrow> nat \<Rightarrow> termination_outcome run" where
  "terminate_owned_process_group H P G S p birth timeout poll =
     (if p = 0 \<or> birth = [] then refuse InvalidProcessIdentity
      else
        and_run (once (mapped (map_err ProcessProbeFailed) (pp_birth P p))) (\<lambda>actual.
        case actual of
          Some b \<Rightarrow>
            if b \<noteq> birth then refuse ProcessIdentityChanged
            else
              and_run (once (prove_owned_process_group_after_identity G p birth)) (\<lambda>g.
              terminate_live_proven_process_group H P G S g timeout poll)
        | None \<Rightarrow>
            and_run (once (mapped (map_err ProcessGroupProbeFailed) (gp_members_by_id G p))) (\<lambda>members.
            if members = [] then ret AlreadyGone else refuse ProcessGroupIdentityMismatch)))"

definition terminate_preproven_process_group ::
  "host \<Rightarrow> process_probe \<Rightarrow> group_probe \<Rightarrow> group_signaler \<Rightarrow> owned_group \<Rightarrow> nat \<Rightarrow> nat \<Rightarrow> termination_outcome run" where
  "terminate_preproven_process_group H P G S g timeout poll =
     (if group_identity_invalid g then refuse InvalidProcessIdentity
      else
        and_run (once (leader_gone P G g)) (\<lambda>gone.
        and_run (once (if gone then group_empty G g else give (Inr False))) (\<lambda>none_left.
        if none_left then ret AlreadyGone
        else if gone then kill_group_phase H G S g True timeout poll
        else terminate_live_proven_process_group H P G S g timeout poll)))"

definition terminate_owned_provider_process :: "host \<Rightarrow> pid32 \<Rightarrow> string \<Rightarrow> nat \<Rightarrow> termination_outcome run" where
  "terminate_owned_provider_process H p birth timeout =
     terminate_owned_process_group H (linux_process_probe H) (linux_group_probe H) (system_signal_group H)
       p birth timeout provider_shutdown_poll_interval"

end
