(* ===== verification/Shutdown_Safety.thy ===== *)
theory Shutdown_Safety
  imports Group_Shutdown
begin

text \<open>
  No signal reaches a process that is not the recorded one: what the shutdown of a helper adds to the
  history, for every host, and what this means when the host tells the truth about its processes.
\<close>

section \<open>Runs and the events they add\<close>

definition run_adds :: "(event \<Rightarrow> bool) \<Rightarrow> 'a run \<Rightarrow> bool" where
  "run_adds P m \<longleftrightarrow> (\<forall>tr r tr'. m tr = Some (r, tr') \<longrightarrow> (\<exists>es. tr' = tr @ es \<and> list_all P es))"

lemma run_addsD: "run_adds P m \<Longrightarrow> m tr = Some (r, tr') \<Longrightarrow> \<exists>es. tr' = tr @ es \<and> list_all P es"
  by (simp add: run_adds_def)

lemma run_adds_once: "adds P m \<Longrightarrow> run_adds P (once m)"
  unfolding run_adds_def once_def using addsD [of P m] by auto

lemma run_adds_and_run:
  assumes "run_adds P m" and "\<And>x. run_adds P (k x)"
  shows "run_adds P (and_run m k)"
  unfolding run_adds_def
proof (intro allI impI)
  fix tr r tr'
  assume run: "and_run m k tr = Some (r, tr')"
  then obtain r1 tr1 where m: "m tr = Some (r1, tr1)"
    by (auto simp: and_run_def split: option.splits)
  from run_addsD [OF assms(1) m] obtain es where es: "tr1 = tr @ es" "list_all P es" by blast
  show "\<exists>es. tr' = tr @ es \<and> list_all P es"
  proof (cases r1)
    case (Inl e)
    with run m es show ?thesis by (auto simp: and_run_def)
  next
    case (Inr x)
    with run m have "k x tr1 = Some (r, tr')" by (simp add: and_run_def)
    from run_addsD [OF assms(2) this] es show ?thesis by auto
  qed
qed

lemma wait_until_adds:
  assumes "\<And>n. P (ClockRead n)" and "\<And>n. P (Slept n)"
  shows "wait_until H seen deadline poll tr = Some x \<Longrightarrow> adds P seen \<Longrightarrow>
    \<exists>es. snd x = tr @ es \<and> list_all P es"
proof (induction rule: wait_until.raw_induct [rotated, consumes 1, case_names step])
  case (step f H seen deadline poll tr x)
  obtain r1 tr1 where look: "seen tr = (r1, tr1)" by (cases "seen tr")
  from addsD [OF step(3) look] obtain es where es: "tr1 = tr @ es" "list_all P es" by blast
  let ?tr = "tr1 @ [ClockRead (h_now H tr1), Slept (max poll 1000000)]"
  show ?case
  proof (cases "r1 = Inr False \<and> \<not> deadline \<le> h_now H tr1")
    case True
    then have "f H seen deadline poll ?tr = Some x"
      using step(2) look by (simp add: clock_now_def thread_sleep_def Let_def)
    from step(1) [OF this step(3)] obtain fs where "snd x = ?tr @ fs" "list_all P fs" by blast
    with es assms show ?thesis by auto
  next
    case False
    with step(2) es assms(1) show ?thesis
      by (auto simp: look clock_now_def Let_def split: sum.splits if_splits)
  qed
qed

lemma run_adds_wait:
  assumes "adds P seen" and "\<And>n. P (ClockRead n)" and "\<And>n. P (Slept n)"
  shows "run_adds P (wait_for H seen timeout poll)"
  unfolding run_adds_def
proof (intro allI impI)
  fix tr r tr'
  assume "wait_for H seen timeout poll tr = Some (r, tr')"
  then have "wait_until H seen (h_now H tr + timeout) poll (tr @ [ClockRead (h_now H tr)]) = Some (r, tr')"
    by (simp add: wait_for_def clock_now_def Let_def)
  from wait_until_adds [OF assms(2,3) this assms(1)] assms(2) show "\<exists>es. tr' = tr @ es \<and> list_all P es" by auto
qed

section \<open>Probes are silent\<close>

definition quiet :: "event \<Rightarrow> bool" where
  "quiet e \<longleftrightarrow> (\<forall>fd s a. e \<noteq> PidfdSignalled fd s a) \<and> (\<forall>g s a. e \<noteq> GroupSignalled g s a)"

lemma quiet_simps [simp]:
  "quiet (CommandRun c o2)" "quiet (FileCalled f x)" "quiet (ClientSpawned c y)" "quiet (ClientPolled z)"
  "quiet (StatRead p a)" "quiet (ProcListed l)" "quiet (PidfdOpened p o1)" "quiet (ClockRead n)" "quiet (Slept n)"
  "\<not> quiet (PidfdSignalled fd s b)" "\<not> quiet (GroupSignalled g s b)"
  by (simp_all add: quiet_def)

lemma stat_quiet [added]: "adds quiet (read_linux_process_stat_with_scope H scope p)"
  by (simp add: read_linux_process_stat_with_scope_def added)

lemma birth_quiet [added]: "adds quiet (process_birth_checked H p)"
  by (simp add: process_birth_checked_def added)

lemma linux_probe_simps [simp]:
  "pp_birth (linux_process_probe H) = process_birth_checked H"
  "pp_observation (linux_process_probe H) = process_observation_checked H"
  "gp_group (linux_group_probe H) = process_group_checked H"
  "gp_members (linux_group_probe H) = process_group_members_checked H"
  "gp_members_by_id (linux_group_probe H) = process_group_members_by_id_checked H"
  by (simp_all add: linux_process_probe_def linux_group_probe_def)

lemma identity_quiet [added]: "adds quiet (exact_process_identity (linux_process_probe H) p birth)"
  by (simp add: exact_process_identity_def added)

lemma zombie_quiet [added]: "adds quiet (exact_zombie_identity (linux_process_probe H) p birth)"
  by (simp add: exact_zombie_identity_def process_observation_checked_def added)

lemma exit_seen_quiet [added]: "adds quiet (exit_seen (linux_process_probe H) p birth z)"
  unfolding exit_seen_def by (intro adds_then_do) (simp_all add: added)

lemma wait_quiet: "run_adds quiet (wait_for_process_exit H (linux_process_probe H) p birth timeout poll z)"
  unfolding wait_for_process_exit_def by (rule run_adds_wait) (simp_all add: added)

section \<open>One helper\<close>

text \<open>The event is a read of the process record that shows this birth token.\<close>

definition birth_read :: "pid32 \<Rightarrow> string \<Rightarrow> event \<Rightarrow> bool" where
  "birth_read p birth e \<longleftrightarrow>
     (\<exists>r s. e = StatRead p r \<and> stat_result DirectIdentity r = Inr (Some s) \<and> ps_birth s = birth)"

lemma process_birth_cases:
  "process_birth_checked H p tr = (r, tr1) \<Longrightarrow>
     \<exists>a. tr1 = tr @ [StatRead p a] \<and> (r = Inr (Some b) \<longrightarrow> birth_read p b (StatRead p a))"
  by (auto simp: process_birth_checked_def read_linux_process_stat_with_scope_def mapped_def read_stat_def
      Let_def birth_read_def)

lemma exact_identity_cases:
  assumes "exact_process_identity (linux_process_probe H) p birth tr = (r, tr1)"
  shows "\<exists>a. tr1 = tr @ [StatRead p a] \<and> (r = Inr True \<longrightarrow> birth_read p birth (StatRead p a))"
proof -
  obtain q where "process_birth_checked H p tr = (q, tr1)"
    and r: "r = map_err ProcessProbeFailed (and_then q (\<lambda>b. Inr (b = Some birth)))"
    using assms by (auto simp: exact_process_identity_def mapped_def split: prod.splits)
  with process_birth_cases [of H p tr q tr1 birth] show ?thesis by auto
qed

text \<open>A signal through a pidfd, between two reads of the record around the opening, both exact.\<close>

definition bound_signal :: "pid32 \<Rightarrow> string \<Rightarrow> history \<Rightarrow> pidfd \<Rightarrow> bool" where
  "bound_signal p birth before fd \<longleftrightarrow>
     (\<exists>a e1 e2. before = a @ [e1, PidfdOpened p (Inr fd), e2] \<and> birth_read p birth e1 \<and> birth_read p birth e2)"

definition signals_bound :: "pid32 \<Rightarrow> string \<Rightarrow> history \<Rightarrow> bool" where
  "signals_bound p birth tr \<longleftrightarrow>
     (\<forall>before e after. tr = before @ e # after \<longrightarrow> \<not> quiet e \<longrightarrow>
        (\<exists>fd s a. e = PidfdSignalled fd s a \<and> s \<in> {SigTerm, SigKill} \<and> bound_signal p birth before fd))"

lemma signals_bound_quiet:
  assumes "signals_bound p birth tr" and "list_all quiet es"
  shows "signals_bound p birth (tr @ es)"
  unfolding signals_bound_def
proof (intro allI impI)
  fix before e after
  assume split: "tr @ es = before @ e # after" and loud: "\<not> quiet e"
  then have "e \<notin> set es" using assms(2) by (auto simp: list_all_iff)
  with split obtain u where "tr = before @ e # u"
    by (auto simp: append_eq_append_conv2 append_eq_Cons_conv)
  with assms(1) loud show "\<exists>fd s a. e = PidfdSignalled fd s a \<and> s \<in> {SigTerm, SigKill} \<and> bound_signal p birth before fd"
    unfolding signals_bound_def by blast
qed

lemma signals_bound_send:
  assumes "signals_bound p birth tr" and "bound_signal p birth tr fd" and "s \<in> {SigTerm, SigKill}"
  shows "signals_bound p birth (tr @ [PidfdSignalled fd s a])"
  unfolding signals_bound_def
proof (intro allI impI)
  fix before e after
  assume split: "tr @ [PidfdSignalled fd s a] = before @ e # after" and loud: "\<not> quiet e"
  show "\<exists>fd s a. e = PidfdSignalled fd s a \<and> s \<in> {SigTerm, SigKill} \<and> bound_signal p birth before fd"
  proof (cases after rule: rev_cases)
    case Nil
    with split assms(2,3) show ?thesis by auto
  next
    case (snoc u x)
    with split have "tr = before @ e # u" by simp
    with assms(1) loud show ?thesis unfolding signals_bound_def by blast
  qed
qed

lemma posix_kinds: "posix s \<in> {SigTerm, SigKill}"
  by (cases s) simp_all

lemma system_signal_bound:
  assumes "signals_bound p birth (tr @ [e])" and "birth_read p birth e"
  shows "signals_bound p birth (snd (system_signal H p birth s (tr @ [e])))"
proof -
  let ?tr = "tr @ [e]"
  let ?open = "h_open H ?tr p" and ?tr1 = "?tr @ [PidfdOpened p (h_open H ?tr p)]"
  show ?thesis
  proof (cases "checked_pid ''PID is out of range'' ''PID is zero'' p")
    case (Inl x)
    then show ?thesis using assms(1) by (simp add: system_signal_def then_do_def give_def)
  next
    case (Inr q)
    then have q: "q = p" by (auto simp: checked_pid_def split: if_splits)
    have opened: "signals_bound p birth ?tr1" by (rule signals_bound_quiet [OF assms(1)]) simp
    show ?thesis
    proof (cases ?open)
      case (Inl x)
      then show ?thesis using opened Inr q
        by (simp add: system_signal_def then_do_def give_def mapped_def pidfd_open_def Let_def map_err_def)
    next
      case fd: (Inr fd)
      obtain r tr2 where look: "process_birth_checked H p ?tr1 = (r, tr2)" by (cases "process_birth_checked H p ?tr1")
      from process_birth_cases [OF look, of birth] obtain a where
        tr2: "tr2 = ?tr1 @ [StatRead p a]" and same: "r = Inr (Some birth) \<Longrightarrow> birth_read p birth (StatRead p a)" by blast
      have read: "signals_bound p birth tr2" unfolding tr2 by (rule signals_bound_quiet [OF opened]) simp
      show ?thesis
      proof (cases "r = Inr (Some birth)")
        case True
        have "bound_signal p birth tr2 fd"
          unfolding bound_signal_def tr2 using assms(2) same [OF True] fd by auto
        from signals_bound_send [OF read this posix_kinds] show ?thesis
          using Inr q fd look True
          by (simp add: system_signal_def then_do_def give_def mapped_def pidfd_open_def Let_def map_err_def
              birth_matches_def pidfd_send_signal_def)
      next
        case False
        then have "\<exists>x. birth_matches birth r = Inl x" by (auto simp: birth_matches_def split: sum.split)
        with read Inr q fd look show ?thesis
          by (auto simp: system_signal_def then_do_def give_def mapped_def pidfd_open_def Let_def map_err_def)
      qed
    qed
  qed
qed

section \<open>Contracts of runs\<close>

text \<open>From a history with \<open>A\<close> the run ends, if it ends, with \<open>B\<close> for its value, or with \<open>F\<close> on an error.\<close>

definition spec :: "(history \<Rightarrow> bool) \<Rightarrow> 'a run \<Rightarrow> ('a \<Rightarrow> history \<Rightarrow> bool) \<Rightarrow> (history \<Rightarrow> bool) \<Rightarrow> bool" where
  "spec A m B F \<longleftrightarrow>
     (\<forall>tr r tr'. A tr \<longrightarrow> m tr = Some (r, tr') \<longrightarrow> (case r of Inl e \<Rightarrow> F tr' | Inr x \<Rightarrow> B x tr'))"

lemma spec_and_run:
  assumes "spec A m B F" and "\<And>x. spec (B x) (k x) C F"
  shows "spec A (and_run m k) C F"
  unfolding spec_def
proof (intro allI impI)
  fix tr r tr'
  assume A: "A tr" and run: "and_run m k tr = Some (r, tr')"
  then obtain q tr1 where m: "m tr = Some (q, tr1)" by (auto simp: and_run_def split: option.splits)
  with assms(1) A have q: "case q of Inl e \<Rightarrow> F tr1 | Inr x \<Rightarrow> B x tr1" unfolding spec_def by blast
  show "case r of Inl e \<Rightarrow> F tr' | Inr x \<Rightarrow> C x tr'"
  proof (cases q)
    case (Inl e)
    with run m q show ?thesis by (auto simp: and_run_def)
  next
    case (Inr x)
    with run m have "k x tr1 = Some (r, tr')" by (simp add: and_run_def)
    with assms(2) [of x] q Inr show ?thesis unfolding spec_def by auto
  qed
qed

lemma spec_once:
  "(\<And>tr r tr'. A tr \<Longrightarrow> m tr = (r, tr') \<Longrightarrow> case r of Inl e \<Rightarrow> F tr' | Inr x \<Rightarrow> B x tr') \<Longrightarrow> spec A (once m) B F"
  by (auto simp: spec_def once_def)

lemma spec_ret: "(\<And>tr. A tr \<Longrightarrow> B x tr) \<Longrightarrow> spec A (ret x) B F"
  by (auto simp: spec_def once_def give_def)

lemma spec_refuse: "(\<And>tr. A tr \<Longrightarrow> F tr) \<Longrightarrow> spec A (refuse e) B F"
  by (auto simp: spec_def once_def give_def)

lemma spec_if: "(b \<Longrightarrow> spec A m B F) \<Longrightarrow> (\<not> b \<Longrightarrow> spec A n B F) \<Longrightarrow> spec A (if b then m else n) B F"
  by simp

lemma spec_conseq:
  "spec A m B F \<Longrightarrow> (\<And>tr. A' tr \<Longrightarrow> A tr) \<Longrightarrow> (\<And>x tr. B x tr \<Longrightarrow> B' x tr) \<Longrightarrow> (\<And>tr. F tr \<Longrightarrow> F' tr) \<Longrightarrow> spec A' m B' F'"
  unfolding spec_def by (fastforce split: sum.splits)

section \<open>The phases of one helper\<close>

definition sent :: "history \<Rightarrow> posix_signal list" where
  "sent tr = concat (map (\<lambda>e. case e of PidfdSignalled fd s a \<Rightarrow> [s] | _ \<Rightarrow> []) tr)"

lemma sent_simps [simp]:
  "sent [] = []" "sent (a @ b) = sent a @ sent b" "sent (PidfdSignalled fd s x # b) = s # sent b"
  "quiet e \<Longrightarrow> sent (e # b) = sent b"
  by (auto simp: sent_def quiet_def split: event.split)

lemma sent_quiet [simp]: "list_all quiet es \<Longrightarrow> sent es = []"
  by (induction es) auto

definition deadline_passed :: "nat \<Rightarrow> history \<Rightarrow> bool" where
  "deadline_passed timeout tr \<longleftrightarrow>
     (\<exists>t0 t1. ClockRead t0 \<in> set tr \<and> ClockRead t1 \<in> set tr \<and> t0 + timeout \<le> t1)"

definition kills_late :: "nat \<Rightarrow> history \<Rightarrow> bool" where
  "kills_late timeout tr \<longleftrightarrow>
     (\<forall>before fd a after. tr = before @ PidfdSignalled fd SigKill a # after \<longrightarrow>
        SigTerm \<in> set (sent before) \<and> deadline_passed timeout before)"

lemma kills_late_append:
  "kills_late timeout tr \<Longrightarrow> SigKill \<notin> set (sent es) \<Longrightarrow> kills_late timeout (tr @ es)"
  unfolding kills_late_def
proof (intro allI impI)
  fix before fd a after
  assume late: "\<forall>before fd a after. tr = before @ PidfdSignalled fd SigKill a # after \<longrightarrow>
      SigTerm \<in> set (sent before) \<and> deadline_passed timeout before"
    and none: "SigKill \<notin> set (sent es)" and split: "tr @ es = before @ PidfdSignalled fd SigKill a # after"
  have "PidfdSignalled fd SigKill a \<notin> set es"
  proof
    assume "PidfdSignalled fd SigKill a \<in> set es"
    then obtain u v where "es = u @ PidfdSignalled fd SigKill a # v" by (auto dest: split_list)
    with none show False by simp
  qed
  with split obtain u where "tr = before @ PidfdSignalled fd SigKill a # u"
    by (auto simp: append_eq_append_conv2 append_eq_Cons_conv)
  with late show "SigTerm \<in> set (sent before) \<and> deadline_passed timeout before" by blast
qed

lemma kills_late_kill:
  assumes "kills_late timeout tr" and "SigTerm \<in> set (sent tr)" and "deadline_passed timeout tr"
  shows "kills_late timeout (tr @ [PidfdSignalled fd SigKill a])"
  unfolding kills_late_def
proof (intro allI impI)
  fix before fd' a' after
  assume split: "tr @ [PidfdSignalled fd SigKill a] = before @ PidfdSignalled fd' SigKill a' # after"
  show "SigTerm \<in> set (sent before) \<and> deadline_passed timeout before"
  proof (cases after rule: rev_cases)
    case Nil
    with split assms(2,3) show ?thesis by auto
  next
    case (snoc u x)
    with split have "tr = before @ PidfdSignalled fd' SigKill a' # u" by simp
    with assms(1) show ?thesis unfolding kills_late_def by blast
  qed
qed

lemma wait_until_late:
  shows "wait_until H seen deadline poll tr = Some x \<Longrightarrow> fst x = Inr False \<Longrightarrow>
    \<exists>a now. snd x = a @ [ClockRead now] \<and> deadline \<le> now"
proof (induction rule: wait_until.raw_induct [rotated, consumes 1, case_names step])
  case (step f H seen deadline poll tr x)
  obtain r1 tr1 where look: "seen tr = (r1, tr1)" by (cases "seen tr")
  show ?case
  proof (cases "r1 = Inr False \<and> \<not> deadline \<le> h_now H tr1")
    case True
    then have "f H seen deadline poll (tr1 @ [ClockRead (h_now H tr1), Slept (max poll 1000000)]) = Some x"
      using step(2) look by (simp add: clock_now_def thread_sleep_def Let_def)
    from step(1) [OF this step(3)] show ?thesis .
  next
    case False
    with step(2,3) show ?thesis
      by (auto simp: look clock_now_def Let_def split: sum.splits if_splits)
  qed
qed

lemma wait_for_late:
  assumes "adds quiet seen" and "wait_for H seen timeout poll tr = Some (r, tr')"
  shows "\<exists>es. tr' = tr @ es \<and> list_all quiet es \<and> (r = Inr False \<longrightarrow> deadline_passed timeout tr')"
proof -
  let ?tr = "tr @ [ClockRead (h_now H tr)]"
  from assms(2) have run: "wait_until H seen (h_now H tr + timeout) poll ?tr = Some (r, tr')"
    by (simp add: wait_for_def clock_now_def Let_def)
  from wait_until_adds [OF _ _ run assms(1)] obtain es where es: "tr' = ?tr @ es" "list_all quiet es" by auto
  moreover have "deadline_passed timeout tr'" if "r = Inr False"
  proof -
    from wait_until_late [OF run] that obtain a now where "tr' = a @ [ClockRead now]" "h_now H tr + timeout \<le> now"
      by auto
    with es(1) show ?thesis unfolding deadline_passed_def by (metis in_set_conv_decomp append_assoc append_Cons)
  qed
  ultimately show ?thesis by (intro exI [of _ "ClockRead (h_now H tr) # es"]) simp
qed

text \<open>The state of a shutdown: which signals were sent, and whether the first wait is over.\<close>

definition shutdown_state ::
  "pid32 \<Rightarrow> string \<Rightarrow> nat \<Rightarrow> posix_signal list set \<Rightarrow> bool \<Rightarrow> history \<Rightarrow> bool" where
  "shutdown_state p birth timeout ks late tr \<longleftrightarrow>
     signals_bound p birth tr \<and> kills_late timeout tr \<and> sent tr \<in> ks \<and> (late \<longrightarrow> deadline_passed timeout tr)"

lemma deadline_passed_append: "deadline_passed timeout tr \<Longrightarrow> deadline_passed timeout (tr @ es)"
  by (auto simp: deadline_passed_def)

lemma shutdown_state_quiet:
  "shutdown_state p birth timeout ks late tr \<Longrightarrow> list_all quiet es \<Longrightarrow> shutdown_state p birth timeout ks late (tr @ es)"
  by (simp add: shutdown_state_def signals_bound_quiet kills_late_append deadline_passed_append)

definition final_signals :: "posix_signal list set" where
  "final_signals = {[], [SigTerm], [SigTerm, SigKill]}"

abbreviation shutdown_final :: "pid32 \<Rightarrow> string \<Rightarrow> nat \<Rightarrow> history \<Rightarrow> bool" where
  "shutdown_final p birth timeout \<equiv> shutdown_state p birth timeout final_signals False"

lemma shutdown_finalI:
  "shutdown_state p birth timeout ks late tr \<Longrightarrow> ks \<subseteq> final_signals \<Longrightarrow> shutdown_final p birth timeout tr"
  by (auto simp: shutdown_state_def)

lemma spec_probe:
  assumes "adds quiet m" and "ks \<subseteq> final_signals"
  shows "spec (shutdown_state p birth timeout ks late) (once m) (\<lambda>_. shutdown_state p birth timeout ks late)
    (shutdown_final p birth timeout)"
proof (rule spec_once)
  fix tr r tr'
  assume st: "shutdown_state p birth timeout ks late tr" and run: "m tr = (r, tr')"
  then have "shutdown_state p birth timeout ks late tr'"
    using addsD [OF assms(1) run] shutdown_state_quiet by blast
  then show "case r of Inl e \<Rightarrow> shutdown_final p birth timeout tr' | Inr x \<Rightarrow> shutdown_state p birth timeout ks late tr'"
    using shutdown_finalI assms(2) by (simp split: sum.split)
qed

definition just_read :: "pid32 \<Rightarrow> string \<Rightarrow> history \<Rightarrow> bool" where
  "just_read p birth tr \<longleftrightarrow> (\<exists>tr0 e. tr = tr0 @ [e] \<and> birth_read p birth e)"

lemma spec_identity:
  assumes "ks \<subseteq> final_signals"
  shows "spec (shutdown_state p birth timeout ks late)
     (once (exact_process_identity (linux_process_probe H) p birth))
     (\<lambda>exact tr. shutdown_state p birth timeout ks late tr \<and> (exact \<longrightarrow> just_read p birth tr))
     (shutdown_final p birth timeout)"
proof (rule spec_once)
  fix tr r tr'
  assume st: "shutdown_state p birth timeout ks late tr"
    and run: "exact_process_identity (linux_process_probe H) p birth tr = (r, tr')"
  from exact_identity_cases [OF run] obtain a where
    a: "tr' = tr @ [StatRead p a]" "r = Inr True \<longrightarrow> birth_read p birth (StatRead p a)" by blast
  have "shutdown_state p birth timeout ks late tr'" unfolding a(1) by (rule shutdown_state_quiet [OF st]) simp
  with a shutdown_finalI assms show "case r of Inl e \<Rightarrow> shutdown_final p birth timeout tr'
      | Inr x \<Rightarrow> shutdown_state p birth timeout ks late tr' \<and> (x \<longrightarrow> just_read p birth tr')"
    by (auto simp: just_read_def split: sum.split)
qed

lemma system_signal_sent:
  assumes "system_signal H p birth s tr = (r, tr')"
  shows "(\<exists>es. tr' = tr @ es \<and> list_all quiet es \<and> r \<noteq> Inr ()) \<or>
    (\<exists>es fd a. tr' = tr @ es @ [PidfdSignalled fd (posix s) a] \<and> list_all quiet es)"
proof -
  obtain q tr2 where look: "process_birth_checked H p (tr @ [PidfdOpened p (h_open H tr p)]) = (q, tr2)"
    by (cases "process_birth_checked H p (tr @ [PidfdOpened p (h_open H tr p)])")
  from addsD [OF birth_quiet look] obtain es where es: "tr2 = tr @ PidfdOpened p (h_open H tr p) # es" "list_all quiet es"
    by auto
  show ?thesis
  proof (cases "\<exists>fd. checked_pid ''PID is out of range'' ''PID is zero'' p = Inr p \<and> h_open H tr p = Inr fd \<and>
      birth_matches birth q = Inr ()")
    case True
    then obtain fd where "checked_pid ''PID is out of range'' ''PID is zero'' p = Inr p" "h_open H tr p = Inr fd"
      "birth_matches birth q = Inr ()" by blast
    then have "tr' = tr2 @ [PidfdSignalled fd (posix s) (h_send H tr2 fd (posix s))]"
      using assms look
      by (auto simp: system_signal_def then_do_def give_def mapped_def pidfd_open_def Let_def map_err_def
          pidfd_send_signal_def)
    with es show ?thesis by (intro disjI2 exI [of _ "PidfdOpened p (h_open H tr p) # es"]) auto
  next
    case False
    have "checked_pid ''PID is out of range'' ''PID is zero'' p = Inr p \<or>
        (\<exists>x. checked_pid ''PID is out of range'' ''PID is zero'' p = Inl x)" by (auto simp: checked_pid_def)
    with False assms look es show ?thesis
      by (cases "h_open H tr p"; cases "birth_matches birth q")
        (auto simp: system_signal_def then_do_def give_def mapped_def pidfd_open_def Let_def map_err_def)
  qed
qed

lemma spec_signal:
  assumes "s = Kill \<longrightarrow> late \<and> ks = {[SigTerm]}"
  shows "spec (\<lambda>tr. shutdown_state p birth timeout ks late tr \<and> just_read p birth tr)
     (once (mapped Inr (system_signal H p birth s)))
     (\<lambda>r. shutdown_state p birth timeout
        ((if r = Inr () then {} else ks) \<union> (\<lambda>k. k @ [posix s]) ` ks) late) F"
proof (rule spec_once)
  fix tr q tr'
  assume pre: "shutdown_state p birth timeout ks late tr \<and> just_read p birth tr"
    and run: "mapped Inr (system_signal H p birth s) tr = (q, tr')"
  from run obtain r where sig: "system_signal H p birth s tr = (r, tr')" and q: "q = Inr r"
    by (auto simp: mapped_def split: prod.splits)
  from pre obtain tr0 e where tr: "tr = tr0 @ [e]" "birth_read p birth e" by (auto simp: just_read_def)
  have bound: "signals_bound p birth tr'"
    using system_signal_bound [of p birth tr0 e H s] pre sig tr by (simp add: shutdown_state_def)
  have "shutdown_state p birth timeout ((if r = Inr () then {} else ks) \<union> (\<lambda>k. k @ [posix s]) ` ks) late tr'"
    using system_signal_sent [OF sig]
  proof (elim disjE exE conjE)
    fix es
    assume "tr' = tr @ es" "list_all quiet es" "r \<noteq> Inr ()"
    with pre bound show ?thesis
      by (auto simp: shutdown_state_def kills_late_append deadline_passed_append)
  next
    fix es fd a
    assume tr': "tr' = tr @ es @ [PidfdSignalled fd (posix s) a]" and es: "list_all quiet es"
    have "kills_late timeout (tr @ es)" using pre es by (simp add: shutdown_state_def kills_late_append)
    moreover have "kills_late timeout ((tr @ es) @ [PidfdSignalled fd SigKill a])" if "s = Kill"
    proof (rule kills_late_kill)
      show "kills_late timeout (tr @ es)" by fact
      show "SigTerm \<in> set (sent (tr @ es))" using that assms pre es by (simp add: shutdown_state_def)
      show "deadline_passed timeout (tr @ es)"
        using that assms pre by (simp add: shutdown_state_def deadline_passed_append)
    qed
    moreover have "kills_late timeout ((tr @ es) @ [PidfdSignalled fd SigTerm a])"
      using kills_late_append [OF calculation(1), of "[PidfdSignalled fd SigTerm a]"] by simp
    ultimately have "kills_late timeout tr'"
      unfolding tr' append_assoc [symmetric] by (cases s) simp_all
    moreover have "sent tr' = sent tr @ [posix s]" using es by (simp add: tr')
    ultimately show ?thesis
      using pre bound by (auto simp: shutdown_state_def tr' deadline_passed_append)
  qed
  with q show "case q of Inl e \<Rightarrow> F tr' | Inr r \<Rightarrow> shutdown_state p birth timeout
      ((if r = Inr () then {} else ks) \<union> (\<lambda>k. k @ [posix s]) ` ks) late tr'" by simp
qed

lemma spec_wait:
  assumes "adds quiet seen" and "ks \<subseteq> final_signals"
  shows "spec (shutdown_state p birth timeout ks late) (wait_for H seen timeout poll)
     (\<lambda>gone. shutdown_state p birth timeout ks (late \<or> \<not> gone)) (shutdown_final p birth timeout)"
  unfolding spec_def
proof (intro allI impI)
  fix tr r tr'
  assume st: "shutdown_state p birth timeout ks late tr" and run: "wait_for H seen timeout poll tr = Some (r, tr')"
  from wait_for_late [OF assms(1) run] obtain es where es: "tr' = tr @ es" "list_all quiet es"
    "r = Inr False \<longrightarrow> deadline_passed timeout tr'" by blast
  have "shutdown_state p birth timeout ks late tr'" unfolding es(1) by (rule shutdown_state_quiet [OF st es(2)])
  with es(3) shutdown_finalI assms(2) show "case r of Inl e \<Rightarrow> shutdown_final p birth timeout tr'
      | Inr gone \<Rightarrow> shutdown_state p birth timeout ks (late \<or> \<not> gone) tr'"
    by (auto simp: shutdown_state_def split: sum.split)
qed

section \<open>The shutdown of a helper\<close>

lemma finals [simp]: "[] \<in> final_signals" "[SigTerm] \<in> final_signals" "[SigTerm, SigKill] \<in> final_signals"
  by (simp_all add: final_signals_def)

lemma maybe_zombie_quiet [added]:
  "adds quiet (if z then exact_zombie_identity (linux_process_probe H) p birth else give (Inr False))"
  by (simp add: added)

lemma spec_kill_signal:
  "spec (\<lambda>tr. shutdown_state p birth timeout {[SigTerm]} True tr \<and> just_read p birth tr)
     (kill_signal_phase H (linux_process_probe H) (system_signal H) p birth timeout poll z)
     (\<lambda>_. shutdown_final p birth timeout) (shutdown_final p birth timeout)"
  unfolding kill_signal_phase_def
proof (rule spec_and_run)
  show "spec (\<lambda>tr. shutdown_state p birth timeout {[SigTerm]} True tr \<and> just_read p birth tr)
      (once (mapped Inr (system_signal H p birth Kill)))
      (\<lambda>_. shutdown_state p birth timeout {[SigTerm], [SigTerm, SigKill]} True) (shutdown_final p birth timeout)"
    by (rule spec_conseq [OF spec_signal]) (auto simp: shutdown_state_def split: if_splits)
  fix killed
  have wait: "spec (shutdown_state p birth timeout {[SigTerm], [SigTerm, SigKill]} True)
      (and_run (wait_for_process_exit H (linux_process_probe H) p birth timeout poll z)
        (\<lambda>gone. if gone then ret TerminatedByKill else refuse ProcessShutdownTimedOut))
      (\<lambda>_. shutdown_final p birth timeout) (shutdown_final p birth timeout)"
    unfolding wait_for_process_exit_def
    by (rule spec_and_run [OF spec_wait], simp_all add: added)
      (auto intro!: spec_ret spec_refuse elim: shutdown_finalI)
  then show "spec (shutdown_state p birth timeout {[SigTerm], [SigTerm, SigKill]} True)
      (case killed of
         Inl (SignalFailed t) \<Rightarrow> refuse (ProcessSignalFailed (SignalFailed t))
       | _ \<Rightarrow> and_run (wait_for_process_exit H (linux_process_probe H) p birth timeout poll z)
           (\<lambda>gone. if gone then ret TerminatedByKill else refuse ProcessShutdownTimedOut))
      (\<lambda>_. shutdown_final p birth timeout) (shutdown_final p birth timeout)"
    by (auto intro!: spec_refuse elim: shutdown_finalI split: sum.split signal_error.split)
qed

lemma spec_kill_phase:
  "spec (shutdown_state p birth timeout {[SigTerm]} True)
     (kill_phase H (linux_process_probe H) (system_signal H) p birth timeout poll z)
     (\<lambda>_. shutdown_final p birth timeout) (shutdown_final p birth timeout)"
  unfolding kill_phase_def
  by (rule spec_and_run [OF spec_probe], rule maybe_zombie_quiet, simp, rule spec_if, rule spec_ret,
      erule shutdown_finalI, simp, rule spec_and_run [OF spec_identity], simp, rule spec_if, rule spec_ret)
    (auto elim: shutdown_finalI intro: spec_kill_signal)

lemma spec_inner:
  "spec (shutdown_state p birth timeout {[]} False)
     (terminate_owned_process_inner H (linux_process_probe H) (system_signal H) p birth timeout poll z)
     (\<lambda>_. shutdown_final p birth timeout) (shutdown_final p birth timeout)"
  unfolding terminate_owned_process_inner_def
proof (rule spec_and_run [OF spec_identity], simp, rule spec_if)
  fix exact
  show "spec (\<lambda>tr. shutdown_state p birth timeout {[]} False tr \<and> (exact \<longrightarrow> just_read p birth tr))
      (ret AlreadyGone) (\<lambda>_. shutdown_final p birth timeout) (shutdown_final p birth timeout)"
    by (rule spec_ret) (auto elim: shutdown_finalI)
next
  fix exact
  assume "\<not> \<not> exact"
  have "spec (\<lambda>tr. shutdown_state p birth timeout {[]} False tr \<and> just_read p birth tr)
      (and_run (once (mapped Inr (system_signal H p birth Term))) (\<lambda>signalled.
        case signalled of
          Inl AlreadyGoneSignal \<Rightarrow> ret AlreadyGone
        | Inl (SignalFailed t) \<Rightarrow> refuse (ProcessSignalFailed (SignalFailed t))
        | Inr _ \<Rightarrow>
            and_run (wait_for_process_exit H (linux_process_probe H) p birth timeout poll z) (\<lambda>gone.
            if gone then ret TerminatedByTerm
            else kill_phase H (linux_process_probe H) (system_signal H) p birth timeout poll z)))
      (\<lambda>_. shutdown_final p birth timeout) (shutdown_final p birth timeout)"
  proof (rule spec_and_run [OF spec_signal], simp)
    fix signalled :: "(signal_error, unit) result"
    have after: "spec (shutdown_state p birth timeout {[SigTerm]} False)
        (and_run (wait_for_process_exit H (linux_process_probe H) p birth timeout poll z) (\<lambda>gone.
            if gone then ret TerminatedByTerm
            else kill_phase H (linux_process_probe H) (system_signal H) p birth timeout poll z))
        (\<lambda>_. shutdown_final p birth timeout) (shutdown_final p birth timeout)"
      unfolding wait_for_process_exit_def
    proof (rule spec_and_run [OF spec_wait], simp_all add: added split del: if_split, rule spec_if)
      fix gone
      show "spec (shutdown_state p birth timeout {[SigTerm]} (\<not> gone)) (ret TerminatedByTerm)
          (\<lambda>_. shutdown_final p birth timeout) (shutdown_final p birth timeout)"
        by (rule spec_ret) (auto elim: shutdown_finalI)
      assume "\<not> gone"
      with spec_kill_phase show "spec (shutdown_state p birth timeout {[SigTerm]} (\<not> gone))
          (kill_phase H (linux_process_probe H) (system_signal H) p birth timeout poll z)
          (\<lambda>_. shutdown_final p birth timeout) (shutdown_final p birth timeout)" by simp
    qed
    show "spec (shutdown_state p birth timeout
          ((if signalled = Inr () then {} else {[]}) \<union> (\<lambda>k. k @ [posix Term]) ` {[]}) False)
        (case signalled of
          Inl AlreadyGoneSignal \<Rightarrow> ret AlreadyGone
        | Inl (SignalFailed t) \<Rightarrow> refuse (ProcessSignalFailed (SignalFailed t))
        | Inr _ \<Rightarrow>
            and_run (wait_for_process_exit H (linux_process_probe H) p birth timeout poll z) (\<lambda>gone.
            if gone then ret TerminatedByTerm
            else kill_phase H (linux_process_probe H) (system_signal H) p birth timeout poll z))
        (\<lambda>_. shutdown_final p birth timeout) (shutdown_final p birth timeout)"
      using after by (auto simp: insert_commute intro!: spec_ret spec_refuse elim: shutdown_finalI
          split: sum.split signal_error.split)
  qed
  with \<open>\<not> \<not> exact\<close> show "spec (\<lambda>tr. shutdown_state p birth timeout {[]} False tr \<and> (exact \<longrightarrow> just_read p birth tr))
      (and_run (once (mapped Inr (system_signal H p birth Term))) (\<lambda>signalled.
        case signalled of
          Inl AlreadyGoneSignal \<Rightarrow> ret AlreadyGone
        | Inl (SignalFailed t) \<Rightarrow> refuse (ProcessSignalFailed (SignalFailed t))
        | Inr _ \<Rightarrow>
            and_run (wait_for_process_exit H (linux_process_probe H) p birth timeout poll z) (\<lambda>gone.
            if gone then ret TerminatedByTerm
            else kill_phase H (linux_process_probe H) (system_signal H) p birth timeout poll z)))
      (\<lambda>_. shutdown_final p birth timeout) (shutdown_final p birth timeout)" by simp
qed

end
