(* ===== verification/Shutdown_Outcome.thy ===== *)
theory Shutdown_Outcome
  imports Shutdown_Safety
begin

text \<open>
  The shutdown of a helper as its caller sees it: the signals it may have sent and to whom, what a
  success proves, and that it returns.
\<close>

section \<open>Success is proven\<close>

text \<open>An answer of the host from which the recorded process cannot be running any more.\<close>

definition gone_evidence :: "pid32 \<Rightarrow> string \<Rightarrow> event \<Rightarrow> bool" where
  "gone_evidence p birth e \<longleftrightarrow>
     (\<exists>x o1. e = StatRead p x \<and> stat_result DirectIdentity x = Inr o1 \<and>
        (\<forall>s. o1 = Some s \<longrightarrow> ps_birth s \<noteq> birth \<or> ps_state s = ''Z'')) \<or>
     e = PidfdOpened p (Inl ESRCH) \<or> (\<exists>fd s. e = PidfdSignalled fd s (Inl ESRCH))"

definition ends_gone :: "pid32 \<Rightarrow> string \<Rightarrow> history \<Rightarrow> bool" where
  "ends_gone p birth tr \<longleftrightarrow> tr \<noteq> [] \<and> gone_evidence p birth (last tr)"

abbreviation anything :: "history \<Rightarrow> bool" where "anything \<equiv> \<lambda>_. True"

lemma identity_gone:
  assumes "exact_process_identity (linux_process_probe H) p birth tr = (Inr False, tr')"
  shows "ends_gone p birth tr'"
proof -
  from assms have tr': "tr' = tr @ [StatRead p (h_stat H tr p)]"
    and "\<exists>q. stat_result DirectIdentity (h_stat H tr p) = Inr q \<and> map_option ps_birth q \<noteq> Some birth"
    by (auto simp: exact_process_identity_def process_birth_checked_def read_linux_process_stat_with_scope_def
        mapped_def read_stat_def Let_def map_err_def and_then_def split: sum.splits)
  then show ?thesis unfolding tr' by (auto simp: ends_gone_def gone_evidence_def)
qed

lemma zombie_gone:
  assumes "exact_zombie_identity (linux_process_probe H) p birth tr = (Inr True, tr')"
  shows "ends_gone p birth tr'"
proof -
  from assms have tr': "tr' = tr @ [StatRead p (h_stat H tr p)]"
    and "\<exists>s. stat_result DirectIdentity (h_stat H tr p) = Inr (Some s) \<and> ps_state s = ''Z''"
    by (auto simp: exact_zombie_identity_def process_observation_checked_def observation_of_def
        read_linux_process_stat_with_scope_def mapped_def read_stat_def Let_def map_err_def and_then_def
        split: sum.splits option.splits if_splits)
  then show ?thesis unfolding tr' by (auto simp: ends_gone_def gone_evidence_def)
qed

lemma spec_identity_gone:
  "spec A (once (exact_process_identity (linux_process_probe H) p birth))
     (\<lambda>exact tr. \<not> exact \<longrightarrow> ends_gone p birth tr) anything"
  by (rule spec_once) (auto split: sum.split dest: identity_gone)

lemma spec_zombie_gone:
  "spec A (once (if z then exact_zombie_identity (linux_process_probe H) p birth else give (Inr False)))
     (\<lambda>zombie tr. zombie \<longrightarrow> ends_gone p birth tr) anything"
  by (rule spec_once) (auto simp: give_def split: sum.split if_splits dest: zombie_gone)

lemma exit_seen_gone:
  assumes "exit_seen (linux_process_probe H) p birth z tr = (Inr True, tr')"
  shows "ends_gone p birth tr'"
proof -
  let ?zombie = "if z then exact_zombie_identity (linux_process_probe H) p birth else give (Inr False)"
  from assms obtain x tr1 where x: "?zombie tr = (Inr x, tr1)"
    and rest: "(if x then give (Inr True)
      else then_do (exact_process_identity (linux_process_probe H) p birth) (\<lambda>exact. give (Inr (\<not> exact)))) tr1
      = (Inr True, tr')"
    by (auto simp: exit_seen_def then_do_def split: prod.splits sum.splits)
  show ?thesis
  proof (cases x)
    case True
    with rest x show ?thesis by (auto simp: give_def split: if_splits dest: zombie_gone)
  next
    case False
    with rest have "exact_process_identity (linux_process_probe H) p birth tr1 = (Inr False, tr')"
      by (auto simp: then_do_def give_def split: prod.splits sum.splits)
    then show ?thesis by (rule identity_gone)
  qed
qed

lemma wait_until_gone:
  "wait_until H seen deadline poll tr = Some x \<Longrightarrow> fst x = Inr True \<Longrightarrow>
    \<exists>tr0. seen tr0 = (Inr True, snd x)"
proof (induction rule: wait_until.raw_induct [rotated, consumes 1, case_names step])
  case (step f H seen deadline poll tr x)
  obtain r1 tr1 where look: "seen tr = (r1, tr1)" by (cases "seen tr")
  show ?case
  proof (cases "r1 = Inr False \<and> \<not> deadline \<le> h_now H tr1")
    case True
    then have "f H seen deadline poll (tr1 @ [ClockRead (h_now H tr1), Slept (max poll 1000000)]) = Some x"
      using step(2) look by (simp add: clock_now_def thread_sleep_def Let_def)
    from step(1) [OF this step(3)] show ?thesis .
  next
    case False
    with step(2,3) have "r1 = Inr True" "snd x = tr1"
      by (auto simp: look clock_now_def Let_def split: sum.splits if_splits)
    with look show ?thesis by blast
  qed
qed

lemma spec_wait_gone:
  "spec A (wait_for_process_exit H (linux_process_probe H) p birth timeout poll z)
     (\<lambda>gone tr. gone \<longrightarrow> ends_gone p birth tr) anything"
  unfolding spec_def wait_for_process_exit_def
proof (intro allI impI)
  fix tr r tr'
  assume "wait_for H (exit_seen (linux_process_probe H) p birth z) timeout poll tr = Some (r, tr')"
  then have run: "wait_until H (exit_seen (linux_process_probe H) p birth z) (h_now H tr + timeout) poll
      (tr @ [ClockRead (h_now H tr)]) = Some (r, tr')"
    by (simp add: wait_for_def clock_now_def Let_def)
  show "case r of Inl e \<Rightarrow> True | Inr gone \<Rightarrow> gone \<longrightarrow> ends_gone p birth tr'"
    using wait_until_gone [OF run] exit_seen_gone by (auto split: sum.split)
qed

lemma spec_signal_gone:
  "spec A (once (mapped Inr (system_signal H p birth s)))
     (\<lambda>r tr. r = Inl AlreadyGoneSignal \<longrightarrow> ends_gone p birth tr) anything"
proof (rule spec_once)
  fix tr q tr'
  assume "mapped Inr (system_signal H p birth s) tr = (q, tr')"
  then obtain r where q: "q = Inr r" and sig: "system_signal H p birth s tr = (r, tr')"
    by (auto simp: mapped_def split: prod.splits)
  have "ends_gone p birth tr'" if gone: "r = Inl AlreadyGoneSignal"
  proof -
    let ?tr1 = "tr @ [PidfdOpened p (h_open H tr p)]"
    let ?tr2 = "?tr1 @ [StatRead p (h_stat H ?tr1 p)]"
    have checked: "checked_pid a b p = Inr p" for a b
      using sig gone by (auto simp: system_signal_def then_do_def give_def checked_pid_def split: if_splits)
    show ?thesis
    proof (cases "h_open H tr p")
      case (Inl e)
      with sig gone checked have "e = ESRCH" "tr' = ?tr1"
        by (auto simp: system_signal_def then_do_def give_def mapped_def pidfd_open_def Let_def map_err_def
            errno_error_def split: errno.splits)
      with Inl show ?thesis by (simp add: ends_gone_def gone_evidence_def)
    next
      case (Inr fd)
      let ?b = "and_then (stat_result DirectIdentity (h_stat H ?tr1 p)) (\<lambda>x. Inr (map_option ps_birth x))"
      show ?thesis
      proof (cases "birth_matches birth ?b")
        case (Inl e)
        with sig gone checked Inr have e: "e = AlreadyGoneSignal" "tr' = ?tr2"
          by (auto simp: system_signal_def then_do_def give_def mapped_def pidfd_open_def Let_def map_err_def
              process_birth_checked_def read_linux_process_stat_with_scope_def read_stat_def)
        with Inl obtain o1 where "stat_result DirectIdentity (h_stat H ?tr1 p) = Inr o1"
          "map_option ps_birth o1 \<noteq> Some birth"
          by (auto simp: birth_matches_def and_then_def split: sum.splits if_splits)
        with e(2) show ?thesis by (auto simp: ends_gone_def gone_evidence_def)
      next
        case ok: (Inr u)
        with sig gone checked Inr have "h_send H ?tr2 fd (posix s) = Inl ESRCH"
          "tr' = ?tr2 @ [PidfdSignalled fd (posix s) (h_send H ?tr2 fd (posix s))]"
          by (auto simp: system_signal_def then_do_def give_def mapped_def pidfd_open_def Let_def map_err_def
              process_birth_checked_def read_linux_process_stat_with_scope_def read_stat_def
              pidfd_send_signal_def errno_error_def split: sum.splits errno.splits)
        then show ?thesis by (simp add: ends_gone_def gone_evidence_def)
      qed
    qed
  qed
  with q show "case q of Inl e \<Rightarrow> True | Inr r \<Rightarrow> r = Inl AlreadyGoneSignal \<longrightarrow> ends_gone p birth tr'" by simp
qed

lemma spec_any: "spec anything m (\<lambda>_. anything) anything"
  by (simp add: spec_def split: sum.split)

lemma spec_kill_signal_gone:
  "spec A (kill_signal_phase H (linux_process_probe H) (system_signal H) p birth timeout poll z)
     (\<lambda>_. ends_gone p birth) anything"
proof -
  have wait: "spec B (and_run (wait_for_process_exit H (linux_process_probe H) p birth timeout poll z)
      (\<lambda>gone. if gone then ret TerminatedByKill else refuse ProcessShutdownTimedOut))
      (\<lambda>_. ends_gone p birth) anything" for B
    by (rule spec_and_run [OF spec_wait_gone], rule spec_if) (auto intro!: spec_ret spec_refuse)
  show ?thesis
    unfolding kill_signal_phase_def
    by (rule spec_and_run [OF spec_signal_gone])
      (auto intro!: wait spec_refuse split: sum.split signal_error.split)
qed

lemma spec_kill_phase_gone:
  "spec A (kill_phase H (linux_process_probe H) (system_signal H) p birth timeout poll z)
     (\<lambda>_. ends_gone p birth) anything"
  unfolding kill_phase_def
  by (rule spec_and_run [OF spec_zombie_gone], rule spec_if, rule spec_ret, simp,
      rule spec_and_run [OF spec_identity_gone], rule spec_if, rule spec_ret, simp, rule spec_kill_signal_gone)

lemma spec_inner_gone:
  "spec A (terminate_owned_process_inner H (linux_process_probe H) (system_signal H) p birth timeout poll z)
     (\<lambda>_. ends_gone p birth) anything"
proof -
  have wait: "spec B (and_run (wait_for_process_exit H (linux_process_probe H) p birth timeout poll z)
      (\<lambda>gone. if gone then ret TerminatedByTerm
        else kill_phase H (linux_process_probe H) (system_signal H) p birth timeout poll z))
      (\<lambda>_. ends_gone p birth) anything" for B
    by (rule spec_and_run [OF spec_wait_gone], rule spec_if, rule spec_ret, simp, rule spec_kill_phase_gone)
  have signalled: "spec B (and_run (once (mapped Inr (system_signal H p birth Term))) (\<lambda>signalled.
        case signalled of
          Inl AlreadyGoneSignal \<Rightarrow> ret AlreadyGone
        | Inl (SignalFailed t) \<Rightarrow> refuse (ProcessSignalFailed (SignalFailed t))
        | Inr _ \<Rightarrow>
            and_run (wait_for_process_exit H (linux_process_probe H) p birth timeout poll z) (\<lambda>gone.
            if gone then ret TerminatedByTerm
            else kill_phase H (linux_process_probe H) (system_signal H) p birth timeout poll z)))
      (\<lambda>_. ends_gone p birth) anything" for B
    by (rule spec_and_run [OF spec_signal_gone])
      (auto intro!: wait spec_ret spec_refuse split: sum.split signal_error.split)
  show ?thesis
    unfolding terminate_owned_process_inner_def
    by (rule spec_and_run [OF spec_identity_gone], rule spec_if, rule spec_ret, simp, rule signalled)
qed

section \<open>Who is signalled\<close>

lemma observer_shutdown_spec:
  "spec (\<lambda>tr. tr = []) (terminate_owned_observer_process H p birth timeout)
     (\<lambda>_ tr. shutdown_final p birth timeout tr) (shutdown_final p birth timeout)"
proof -
  have start: "shutdown_state p birth timeout {[]} False []"
    by (simp add: shutdown_state_def signals_bound_def kills_late_def)
  have "spec (shutdown_state p birth timeout {[]} False) (terminate_owned_observer_process H p birth timeout)
     (\<lambda>_ tr. shutdown_final p birth timeout tr) (shutdown_final p birth timeout)"
    unfolding terminate_owned_observer_process_def terminate_owned_process_with_options_def
    by (rule spec_if, rule spec_refuse, erule shutdown_finalI, simp, rule spec_and_run [OF spec_probe],
        rule maybe_zombie_quiet, simp, rule spec_if, rule spec_ret, erule shutdown_finalI, simp, rule spec_inner)
  then show ?thesis by (rule spec_conseq) (simp_all add: start)
qed

lemma observer_shutdown_gone:
  "spec A (terminate_owned_observer_process H p birth timeout) (\<lambda>_. ends_gone p birth) anything"
  unfolding terminate_owned_observer_process_def terminate_owned_process_with_options_def
  by (rule spec_if, rule spec_refuse, simp, rule spec_and_run [OF spec_zombie_gone], rule spec_if, rule spec_ret,
      simp, rule spec_inner_gone)

text \<open>C27: The shutdown of a helper process, whatever the host answers and however the processes change
  between two calls: every signal goes through a pidfd that was opened for the recorded id between
  two reads of the process record that both showed the recorded birth token; at most one TERM and
  then at most one KILL is sent, the KILL only after the deadline of the TERM has passed; no process
  group is ever signalled; and a success ends with evidence that the recorded process is gone.\<close>

theorem helper_shutdown_is_fenced:
  assumes "terminate_owned_observer_process H p birth timeout [] = Some (r, tr)"
  shows "signals_bound p birth tr \<and> sent tr \<in> {[], [SigTerm], [SigTerm, SigKill]} \<and> kills_late timeout tr \<and>
    (case r of Inl e \<Rightarrow> True | Inr outcome \<Rightarrow> ends_gone p birth tr)"
proof -
  have "case r of Inl e \<Rightarrow> shutdown_final p birth timeout tr | Inr x \<Rightarrow> shutdown_final p birth timeout tr"
    using observer_shutdown_spec assms unfolding spec_def by blast
  moreover have "case r of Inl e \<Rightarrow> True | Inr x \<Rightarrow> ends_gone p birth tr"
    using observer_shutdown_gone [of anything] assms unfolding spec_def by blast
  ultimately show ?thesis by (auto simp: shutdown_state_def final_signals_def split: sum.splits)
qed

text \<open>A host on which the helper exits after the TERM: its record reads three times, then it is gone.\<close>

definition absent_error :: io_error where
  "absent_error = \<lparr> io_kind = NotFound, io_errno = Some 2, io_text = ''absent'' \<rparr>"

definition sample_host :: host where
  "sample_host =
     \<lparr> h_stat = (\<lambda>tr p. if length tr < 5 then Inr (stat_line ''41'' ''helper'' sample_stat_fields)
        else Inl absent_error),
       h_list = (\<lambda>tr. Inr []), h_exe = (\<lambda>tr p. Inr ''exe''), h_cmdline = (\<lambda>tr p. Inr (Inr ''arg'')),
       h_open = (\<lambda>tr p. Inr 7), h_send = (\<lambda>tr fd s. Inr ()), h_kill_group = (\<lambda>tr g s. Inr ()),
       h_now = (\<lambda>tr. length tr),
       h_run = (\<lambda>tr c. Inr \<lparr> co_success = True, co_stdout = [], co_stderr = [] \<rparr>),
       h_file = (\<lambda>tr f. Inr True), h_spawn = (\<lambda>tr c. Inr ()), h_poll = (\<lambda>tr. Inr (Some 0)) \<rparr>"

abbreviation sample_line :: "(io_error, string) result" where
  "sample_line \<equiv> Inr (stat_line ''41'' ''helper'' sample_stat_fields)"

definition sample_history :: history where
  "sample_history =
     [StatRead 41 sample_line, StatRead 41 sample_line, PidfdOpened 41 (Inr 7), StatRead 41 sample_line,
      PidfdSignalled 7 SigTerm (Inr ()), ClockRead 5, StatRead 41 (Inl absent_error),
      StatRead 41 (Inl absent_error)]"

lemma sample_reads:
  "length tr < 5 \<Longrightarrow> read_linux_process_stat sample_host 41 tr =
    (Inr (Some \<lparr> ps_state = ''S'', ps_birth = ''777'', ps_group = 41, ps_session_id = 40, ps_exit = 256 \<rparr>),
     tr @ [StatRead 41 sample_line])"
  "\<not> length tr < 5 \<Longrightarrow> read_linux_process_stat sample_host 41 tr = (Inr None, tr @ [StatRead 41 (Inl absent_error)])"
  by (simp_all add: read_linux_process_stat_with_scope_def mapped_def read_stat_def Let_def sample_host_def
      stat_result_def sample_stat_parsed entry_vanished_def absent_error_def)

lemma sample_probes:
  "length tr < 5 \<Longrightarrow> exact_process_identity (linux_process_probe sample_host) 41 ''777'' tr =
    (Inr True, tr @ [StatRead 41 sample_line])"
  "\<not> length tr < 5 \<Longrightarrow> exact_process_identity (linux_process_probe sample_host) 41 ''777'' tr =
    (Inr False, tr @ [StatRead 41 (Inl absent_error)])"
  "length tr < 5 \<Longrightarrow> exact_zombie_identity (linux_process_probe sample_host) 41 ''777'' tr =
    (Inr False, tr @ [StatRead 41 sample_line])"
  "\<not> length tr < 5 \<Longrightarrow> exact_zombie_identity (linux_process_probe sample_host) 41 ''777'' tr =
    (Inr False, tr @ [StatRead 41 (Inl absent_error)])"
  by (simp_all add: exact_process_identity_def exact_zombie_identity_def process_birth_checked_def
      process_observation_checked_def mapped_def sample_reads map_err_def observation_of_def)

lemma sample_term:
  "system_signal sample_host 41 ''777'' Term [StatRead 41 sample_line, StatRead 41 sample_line] =
    (Inr (), take 5 sample_history)"
proof -
  have "checked_pid ''PID is out of range'' ''PID is zero'' (41 :: pid32) = Inr 41" by (simp add: checked_pid_def)
  moreover have "h_open sample_host tr p = Inr 7" "h_send sample_host tr fd s = Inr ()" for tr p fd s
    by (simp_all add: sample_host_def)
  ultimately show ?thesis
    by (simp add: system_signal_def then_do_def give_def mapped_def pidfd_open_def pidfd_send_signal_def Let_def
        map_err_def process_birth_checked_def sample_reads birth_matches_def sample_history_def)
qed

lemma sample_wait:
  "wait_for_process_exit sample_host (linux_process_probe sample_host) 41 ''777'' 50
     provider_shutdown_poll_interval True (take 5 sample_history) = Some (Inr True, sample_history)"
proof -
  have "exit_seen (linux_process_probe sample_host) 41 ''777'' True (take 5 sample_history @ [ClockRead 5]) =
      (Inr True, sample_history)"
    by (simp add: exit_seen_def then_do_def give_def sample_probes sample_history_def)
  moreover have "h_now sample_host (take 5 sample_history) = 5" by (simp add: sample_host_def sample_history_def)
  ultimately show ?thesis
    by (simp add: wait_for_process_exit_def wait_for_def clock_now_def Let_def) (subst wait_until.simps, simp)
qed

lemma sample_shutdown:
  "terminate_owned_observer_process sample_host 41 ''777'' 50 [] = Some (Inr TerminatedByTerm, sample_history)"
  by (simp add: terminate_owned_observer_process_def terminate_owned_process_with_options_def
      terminate_owned_process_inner_def and_run_def once_def sample_probes mapped_def sample_term sample_wait give_def)

lemma helper_shutdown_is_fenced_witness:
  "signals_bound 41 ''777'' sample_history \<and> ends_gone 41 ''777'' sample_history"
  using helper_shutdown_is_fenced [OF sample_shutdown] by simp

end
