(* ===== verification/Signal_Reach.thy ===== *)
theory Signal_Reach
  imports Shutdown_Outcome
begin

text \<open>
  What the fences of a helper's shutdown are for: ids are reused, birth tokens are not. On a host
  whose process records are true, a signal of the shutdown is sent through a pidfd of the recorded
  process itself, never of a process that took over its id.
\<close>

section \<open>True records\<close>

text \<open>\<open>born\<close> says which process has an id at a moment of the history, by its birth token.\<close>

type_synonym births = "history \<Rightarrow> pid32 \<Rightarrow> string option"

definition records_true :: "births \<Rightarrow> history \<Rightarrow> bool" where
  "records_true born tr \<longleftrightarrow>
     (\<forall>before p r s after. tr = before @ StatRead p r # after \<longrightarrow>
        stat_result DirectIdentity r = Inr (Some s) \<longrightarrow> born before p = Some (ps_birth s))"

text \<open>A process that is gone does not come back under its id and birth token.\<close>

definition births_unique :: "births \<Rightarrow> bool" where
  "births_unique born \<longleftrightarrow>
     (\<forall>a b c p x. born a p = Some x \<longrightarrow> born (a @ b @ c) p = Some x \<longrightarrow> born (a @ b) p = Some x)"

definition opened_on :: "births \<Rightarrow> pid32 \<Rightarrow> string \<Rightarrow> pidfd \<Rightarrow> history \<Rightarrow> bool" where
  "opened_on born p birth fd before \<longleftrightarrow>
     (\<exists>a b. before = a @ PidfdOpened p (Inr fd) # b \<and> born a p = Some birth)"

lemma bound_opened_on:
  assumes "bound_signal p birth before fd" and "records_true born (before @ rest)" and "births_unique born"
  shows "opened_on born p birth fd before"
proof -
  from assms(1) obtain a e1 e2 where before: "before = a @ [e1, PidfdOpened p (Inr fd), e2]"
    and e: "birth_read p birth e1" "birth_read p birth e2" by (auto simp: bound_signal_def)
  from e obtain r1 s1 r2 s2 where r:
    "e1 = StatRead p r1" "stat_result DirectIdentity r1 = Inr (Some s1)" "ps_birth s1 = birth"
    "e2 = StatRead p r2" "stat_result DirectIdentity r2 = Inr (Some s2)" "ps_birth s2 = birth"
    by (auto simp: birth_read_def)
  have "born a p = Some birth"
    using assms(2) r(1-3) unfolding records_true_def before
    by (metis append_Cons append_assoc)
  moreover have "born (a @ [e1] @ [PidfdOpened p (Inr fd)]) p = Some birth"
    using assms(2) r(4-6) unfolding records_true_def before
    by (metis append_Cons append_Nil append_assoc)
  ultimately have "born (a @ [e1]) p = Some birth"
    using assms(3) unfolding births_unique_def by blast
  then show ?thesis
    unfolding opened_on_def before by (intro exI [of _ "a @ [e1]"] exI [of _ "[e2]"]) simp
qed

text \<open>C30: If the process records that the host shows are true, and no process comes back under an id
  and birth token that it had before, then every signal that the shutdown of a helper sends goes
  through a pidfd that was opened while the id belonged to the recorded process.\<close>

theorem signal_reaches_recorded_process:
  assumes "terminate_owned_observer_process H p birth timeout [] = Some (r, before @ PidfdSignalled fd s a # after)"
    and "records_true born (before @ PidfdSignalled fd s a # after)" and "births_unique born"
  shows "opened_on born p birth fd before"
proof -
  let ?tr = "before @ PidfdSignalled fd s a # after"
  have "case r of Inl e \<Rightarrow> shutdown_final p birth timeout ?tr | Inr x \<Rightarrow> shutdown_final p birth timeout ?tr"
    using observer_shutdown_spec assms(1) unfolding spec_def by blast
  then have "signals_bound p birth ?tr" by (auto simp: shutdown_state_def split: sum.splits)
  then have "bound_signal p birth before fd" unfolding signals_bound_def by fastforce
  from bound_opened_on [OF this assms(2,3)] show ?thesis .
qed

text \<open>Process 41 was born as 777 and keeps its id until the host does not show it any more.\<close>

definition sample_births :: births where
  "sample_births tr p = (if p = 41 \<and> length tr < 5 then Some ''777'' else None)"

lemma sample_births_unique: "births_unique sample_births"
  by (simp add: births_unique_def sample_births_def)

lemma sample_records_true: "records_true sample_births sample_history"
proof -
  have parsed: "stat_result DirectIdentity sample_line = Inr (Some s) \<Longrightarrow> ps_birth s = ''777''" for s
    by (auto simp: stat_result_def sample_stat_parsed)
  have gone: "stat_result DirectIdentity (Inl absent_error) = Inr None"
    by (simp add: stat_result_def entry_vanished_def absent_error_def)
  have "\<forall>i < length sample_history. \<forall>p r s. sample_history ! i = StatRead p r \<longrightarrow>
      stat_result DirectIdentity r = Inr (Some s) \<longrightarrow> p = 41 \<and> i < 5 \<and> ps_birth s = ''777''"
    by (auto simp: sample_history_def less_Suc_eq gone dest: parsed)
  then show ?thesis
    unfolding records_true_def sample_births_def
    by (metis length_append length_Cons less_add_Suc1 nth_append_length add_Suc_right)
qed

lemma signal_reaches_recorded_process_witness:
  "opened_on sample_births 41 ''777'' 7 (take 4 sample_history)"
proof -
  have split: "sample_history = take 4 sample_history @ PidfdSignalled 7 SigTerm (Inr ()) # drop 5 sample_history"
    by (simp add: sample_history_def)
  show ?thesis
    using signal_reaches_recorded_process [OF _ _ sample_births_unique, of sample_host 41 "''777''" 50
        "Inr TerminatedByTerm" "take 4 sample_history" 7 SigTerm "Inr ()" "drop 5 sample_history"]
      sample_shutdown sample_records_true by (simp add: split [symmetric])
qed

end
