(* ===== verification/Group_Safety.thy ===== *)
theory Group_Safety
  imports Shutdown_Outcome
begin

text \<open>
  The shutdown of a provider's process group: a group is signalled only while its leader is stopped
  and verified, or, to kill what a dead leader left, while the captured group still has members.
\<close>

section \<open>Reads\<close>

definition group_read :: "pid32 \<Rightarrow> pid32 \<Rightarrow> event \<Rightarrow> bool" where
  "group_read p session e \<longleftrightarrow>
     (\<exists>r s. e = StatRead p r \<and> stat_result DirectIdentity r = Inr (Some s) \<and>
        ps_group s = p \<and> ps_session_id s = session)"

definition member_read :: "pid32 \<Rightarrow> pid32 \<Rightarrow> event \<Rightarrow> bool" where
  "member_read p session e \<longleftrightarrow>
     (\<exists>q r s. e = StatRead q r \<and> stat_result GroupEnumeration r = Inr (Some s) \<and> in_group p (Some session) s)"

text \<open>Nothing is waited for in such events.\<close>

definition unhurried :: "event \<Rightarrow> bool" where
  "unhurried e \<longleftrightarrow> (\<exists>n. e = ClockRead n)"

lemma unhurried_simps [simp]:
  "unhurried (ClockRead n)" "\<not> unhurried (StatRead p r)" "\<not> unhurried (PidfdOpened p o1)" "\<not> unhurried (Slept n)"
  "\<not> unhurried (PidfdSignalled fd s a)" "\<not> unhurried (GroupSignalled g s a)" "\<not> unhurried (ProcListed l)"
  by (simp_all add: unhurried_def)

section \<open>When a group may be signalled\<close>

text \<open>The leader is stopped, and was verified since.\<close>

definition leader_held :: "pid32 \<Rightarrow> string \<Rightarrow> pid32 \<Rightarrow> history \<Rightarrow> bool" where
  "leader_held p birth session before \<longleftrightarrow>
     (\<exists>a fd e1 e2. before = a @ [PidfdSignalled fd SigStop (Inr ()), e1, e2] \<and>
        PidfdOpened p (Inr fd) \<in> set a \<and> birth_read p birth e1 \<and> group_read p session e2)"

text \<open>The group was proven while its leader lived, and since the last wait it had a member.\<close>

definition proven :: "pid32 \<Rightarrow> string \<Rightarrow> pid32 \<Rightarrow> history \<Rightarrow> bool" where
  "proven p birth session tr \<longleftrightarrow>
     (\<exists>e \<in> set tr. birth_read p birth e) \<and> (\<exists>e \<in> set tr. group_read p session e)"

definition group_left :: "pid32 \<Rightarrow> pid32 \<Rightarrow> history \<Rightarrow> bool" where
  "group_left p session before \<longleftrightarrow>
     (\<exists>a e b. before = a @ e # b \<and> member_read p session e \<and> (\<forall>x \<in> set b. \<not> unhurried x))"

definition event_ok :: "pid32 \<Rightarrow> string \<Rightarrow> pid32 \<Rightarrow> history \<Rightarrow> event \<Rightarrow> bool" where
  "event_ok p birth session before e \<longleftrightarrow>
     (case e of
        PidfdSignalled fd s a \<Rightarrow> (s = SigStop \<or> s = SigCont) \<and> PidfdOpened p (Inr fd) \<in> set before
      | GroupSignalled g s a \<Rightarrow>
          g = p \<and> (leader_held p birth session before \<and> (s = SigTerm \<or> s = SigKill)
            \<or> s = SigKill \<and> proven p birth session before \<and> group_left p session before)
      | _ \<Rightarrow> True)"

definition group_fenced :: "pid32 \<Rightarrow> string \<Rightarrow> pid32 \<Rightarrow> history \<Rightarrow> bool" where
  "group_fenced p birth session tr \<longleftrightarrow>
     (\<forall>before e after. tr = before @ e # after \<longrightarrow> event_ok p birth session before e)"

lemma group_fenced_Nil [simp]: "group_fenced p birth session []"
  by (simp add: group_fenced_def)

lemma group_fenced_snoc [simp]:
  "group_fenced p birth session (tr @ [e]) \<longleftrightarrow> group_fenced p birth session tr \<and> event_ok p birth session tr e"
proof
  assume l: "group_fenced p birth session (tr @ [e])"
  have "event_ok p birth session before x" if "tr = before @ x # after" for before x after
    using l that unfolding group_fenced_def by (metis append_Cons append_assoc)
  with l show "group_fenced p birth session tr \<and> event_ok p birth session tr e"
    unfolding group_fenced_def by blast
next
  assume r: "group_fenced p birth session tr \<and> event_ok p birth session tr e"
  show "group_fenced p birth session (tr @ [e])"
    unfolding group_fenced_def
  proof (intro allI impI)
    fix before x after
    assume split: "tr @ [e] = before @ x # after"
    show "event_ok p birth session before x"
    proof (cases after rule: rev_cases)
      case Nil
      with split r show ?thesis by simp
    next
      case (snoc u y)
      with split have "tr = before @ x # u" by simp
      with r show ?thesis unfolding group_fenced_def by blast
    qed
  qed
qed

lemma quiet_ok [simp]: "quiet e \<Longrightarrow> event_ok p birth session before e"
  by (cases e) (simp_all add: event_ok_def)

lemma group_fenced_quiet:
  "group_fenced p birth session tr \<Longrightarrow> list_all quiet es \<Longrightarrow> group_fenced p birth session (tr @ es)"
proof (induction es rule: rev_induct)
  case (snoc e es)
  then show ?case by (simp add: append_assoc [symmetric] del: append_assoc)
qed simp

lemma proven_append: "proven p birth session tr \<Longrightarrow> proven p birth session (tr @ es)"
  by (auto simp: proven_def)

lemma group_left_append:
  "group_left p session tr \<Longrightarrow> \<forall>x \<in> set es. \<not> unhurried x \<Longrightarrow> group_left p session (tr @ es)"
  unfolding group_left_def
proof (elim exE conjE)
  fix a e b
  assume "\<forall>x \<in> set es. \<not> unhurried x" "tr = a @ e # b" "member_read p session e" "\<forall>x \<in> set b. \<not> unhurried x"
  then show "\<exists>a e b'. tr @ es = a @ e # b' \<and> member_read p session e \<and> (\<forall>x \<in> set b'. \<not> unhurried x)"
    by (intro exI [of _ a] exI [of _ e] exI [of _ "b @ es"]) auto
qed

section \<open>The signaler\<close>

definition plain_reads :: "pid32 \<Rightarrow> history \<Rightarrow> bool" where
  "plain_reads p es \<longleftrightarrow> (\<forall>x \<in> set es. \<exists>r. x = StatRead p r)"

lemma plain_reads_quiet: "plain_reads p es \<Longrightarrow> list_all quiet es \<and> (\<forall>x \<in> set es. \<not> unhurried x)"
  by (auto simp: plain_reads_def list_all_iff)

lemma verify_cases:
  assumes "verify_linux_group_leader H g tr = (r, tr')" and "og_leader g = p" and "og_group g = p"
  shows "\<exists>es. tr' = tr @ es \<and> plain_reads p es \<and>
    (r = Inr () \<longrightarrow> (\<exists>e1 e2. es = [e1, e2] \<and> birth_read p (og_birth g) e1 \<and> group_read p (og_session g) e2))"
proof -
  let ?e1 = "StatRead p (h_stat H tr p)"
  let ?e2 = "StatRead p (h_stat H (tr @ [?e1]) p)"
  let ?b = "and_then (stat_result DirectIdentity (h_stat H tr p)) (\<lambda>x. Inr (map_option ps_birth x))"
  let ?g = "and_then (stat_result DirectIdentity (h_stat H (tr @ [?e1]) p)) (\<lambda>x. Inr (map_option
      (\<lambda>s. \<lparr> gi_group = ps_group s, gi_session = ps_session_id s \<rparr>) x))"
  note run = verify_linux_group_leader_def process_birth_checked_def process_group_checked_def
    read_linux_process_stat_with_scope_def read_stat_def mapped_def then_do_def Let_def
  show ?thesis
  proof (cases "leader_birth_matches g ?b")
    case (Inl e)
    with assms have "r = Inl e" "tr' = tr @ [?e1]" by (auto simp: run)
    then show ?thesis by (intro exI [of _ "[?e1]"]) (simp add: plain_reads_def)
  next
    case (Inr u)
    with assms have rest: "r = leader_group_matches g ?g" "tr' = tr @ [?e1, ?e2]" by (auto simp: run)
    have "birth_read p (og_birth g) ?e1"
      using Inr by (auto simp: leader_birth_matches_def birth_read_def and_then_def split: sum.splits option.splits if_splits)
    moreover have "r = Inr () \<longrightarrow> group_read p (og_session g) ?e2"
      using rest(1) assms(3)
      by (auto simp: leader_group_matches_def group_read_def and_then_def split: sum.splits option.splits if_splits)
    ultimately show ?thesis using rest(2) by (intro exI [of _ "[?e1, ?e2]"]) (simp add: plain_reads_def)
  qed
qed

text \<open>What holds between the phases.\<close>

definition group_state :: "owned_group \<Rightarrow> history \<Rightarrow> bool" where
  "group_state g tr \<longleftrightarrow>
     group_fenced (og_leader g) (og_birth g) (og_session g) tr \<and> proven (og_leader g) (og_birth g) (og_session g) tr"

lemma group_state_quiet: "group_state g tr \<Longrightarrow> list_all quiet es \<Longrightarrow> group_state g (tr @ es)"
  by (simp add: group_state_def group_fenced_quiet proven_append)

lemma group_state_event:
  "group_state g tr \<Longrightarrow> event_ok (og_leader g) (og_birth g) (og_session g) tr e \<Longrightarrow> group_state g (tr @ [e])"
  by (simp add: group_state_def proven_append)

lemma send_keeps:
  assumes "group_state g tr" and "og_group g = og_leader g"
    and "event_ok (og_leader g) (og_birth g) (og_session g) tr (GroupSignalled (og_leader g) (posix s)
      (h_kill_group H tr (og_leader g) (posix s)))"
    and "\<And>fd. stopped = Some fd \<Longrightarrow> PidfdOpened (og_leader g) (Inr fd) \<in> set tr"
  shows "group_state g (snd (send_linux_group_signal H g s stopped tr))"
proof -
  let ?p = "og_leader g"
  let ?e = "GroupSignalled ?p (posix s) (h_kill_group H tr ?p (posix s))"
  have one: "group_state g (tr @ [?e])" using assms(1,3) by (rule group_state_event)
  have two: "group_state g (tr @ [?e, PidfdSignalled fd SigCont a])" if "stopped = Some fd" for fd a
    using group_state_event [OF one, of "PidfdSignalled fd SigCont a"] assms(4) [OF that]
    by (simp add: event_ok_def)
  show ?thesis
  proof (cases "checked_pid ''process-group ID is out of range'' ''process-group ID is zero'' ?p")
    case (Inl x)
    then show ?thesis using assms(1,2) by (simp add: send_linux_group_signal_def then_do_def give_def)
  next
    case (Inr q)
    then have "q = ?p" by (auto simp: checked_pid_def split: if_splits)
    with Inr one two assms(2) show ?thesis
      by (cases stopped) (auto simp: send_linux_group_signal_def then_do_def give_def and_do_def mapped_def
          kill_process_group_def pidfd_send_signal_def Let_def split: sum.split signal_error.split)
  qed
qed

lemma extends_unhurried:
  "plain_reads p es \<Longrightarrow> \<forall>x \<in> set es. \<not> unhurried x"
  by (simp add: plain_reads_quiet)

lemma sigstop_ok: "PidfdOpened p (Inr fd) \<in> set tr \<Longrightarrow> event_ok p birth session tr (PidfdSignalled fd SigStop a)"
  and sigcont_ok: "PidfdOpened p (Inr fd) \<in> set tr \<Longrightarrow> event_ok p birth session tr (PidfdSignalled fd SigCont a)"
  by (simp_all add: event_ok_def)

text \<open>The stop of the leader: afterwards it is held, or it is gone and nothing was waited for.\<close>

lemma stop_keeps:
  assumes "stop_and_verify_linux_group_leader H fd g allow tr = (r, tr')" and "group_state g tr"
    and "og_group g = og_leader g" and "PidfdOpened (og_leader g) (Inr fd) \<in> set tr"
  shows "group_state g tr' \<and> (\<exists>es. tr' = tr @ es \<and> (r = Inr False \<longrightarrow> allow \<and> (\<forall>x \<in> set es. \<not> unhurried x))) \<and>
    (r = Inr True \<longrightarrow> leader_held (og_leader g) (og_birth g) (og_session g) tr')"
proof -
  let ?p = "og_leader g"
  obtain v tr1 where first: "verify_linux_group_leader H g tr = (v, tr1)" by (cases "verify_linux_group_leader H g tr")
  from verify_cases [OF first refl assms(3)] obtain es where es: "tr1 = tr @ es" "plain_reads ?p es" by blast
  have st1: "group_state g tr1" using assms(2) es plain_reads_quiet by (simp add: group_state_quiet)
  have open1: "PidfdOpened ?p (Inr fd) \<in> set tr1" using assms(4) es by simp
  show ?thesis
  proof (cases v)
    case (Inl e)
    with assms(1) first have "tr' = tr1" "r = Inr False \<longrightarrow> allow" "r \<noteq> Inr True"
      by (auto simp: stop_and_verify_linux_group_leader_def and_do_def give_def split: if_splits)
    with es st1 extends_unhurried show ?thesis by blast
  next
    case (Inr u)
    let ?stop = "h_send H tr1 fd SigStop"
    let ?tr2 = "tr1 @ [PidfdSignalled fd SigStop ?stop]"
    have st2: "group_state g ?tr2" by (rule group_state_event [OF st1 sigstop_ok [OF open1]])
    show ?thesis
    proof (cases ?stop)
      case stop: (Inl e)
      with assms(1) first Inr have "tr' = ?tr2" "r = Inr False \<longrightarrow> allow" "r \<noteq> Inr True"
        by (auto simp: stop_and_verify_linux_group_leader_def and_do_def give_def pidfd_send_signal_def Let_def
            split: if_splits)
      with es st2 extends_unhurried [OF es(2)] show ?thesis
        by (intro conjI exI [of _ "es @ [PidfdSignalled fd SigStop ?stop]"]) auto
    next
      case stop: (Inr w)
      obtain v2 tr3 where second: "verify_linux_group_leader H g ?tr2 = (v2, tr3)"
        by (cases "verify_linux_group_leader H g ?tr2")
      from verify_cases [OF second refl assms(3)] obtain fs where fs: "tr3 = ?tr2 @ fs" "plain_reads ?p fs"
        "v2 = Inr () \<longrightarrow> (\<exists>e1 e2. fs = [e1, e2] \<and> birth_read ?p (og_birth g) e1 \<and> group_read ?p (og_session g) e2)"
        by blast
      have st3: "group_state g tr3" unfolding fs(1) using st2 fs(2) plain_reads_quiet by (blast intro: group_state_quiet)
      have open3: "PidfdOpened ?p (Inr fd) \<in> set tr3" using open1 fs by simp
      show ?thesis
      proof (cases v2)
        case v2: (Inl e)
        with assms(1) first Inr stop second
        have "tr' = tr3 @ [PidfdSignalled fd SigCont (h_send H tr3 fd SigCont)]" "r = Inl e"
          by (auto simp: stop_and_verify_linux_group_leader_def and_do_def give_def pidfd_send_signal_def Let_def)
        with group_state_event [OF st3 sigcont_ok [OF open3]] es fs show ?thesis by auto
      next
        case v2: (Inr u2)
        with assms(1) first Inr stop second have "tr' = tr3" "r = Inr True"
          by (auto simp: stop_and_verify_linux_group_leader_def and_do_def give_def pidfd_send_signal_def Let_def)
        moreover have "leader_held ?p (og_birth g) (og_session g) tr3"
          using fs v2 stop open1 unfolding leader_held_def by fastforce
        ultimately show ?thesis using st3 es fs by auto
      qed
    qed
  qed
qed

section \<open>The group signaler\<close>

lemma signal_keeps:
  assumes "group_state g tr"
    and "allow \<longrightarrow> s = Kill \<and> group_left (og_leader g) (og_session g) tr"
  shows "group_state g (snd (system_signal_group H g s allow tr))"
proof (cases "group_identity_invalid g")
  case True
  with assms(1) show ?thesis by (simp add: system_signal_group_def give_def)
next
  case False
  let ?p = "og_leader g"
  let ?fd = "h_open H tr ?p"
  let ?tr1 = "tr @ [PidfdOpened ?p ?fd]"
  have same: "og_group g = ?p" and nz: "?p \<noteq> 0" using False by (auto simp: group_identity_invalid_def)
  have st1: "group_state g ?tr1" by (rule group_state_event [OF assms(1)]) (simp add: event_ok_def)
  have kill: "event_ok ?p (og_birth g) (og_session g) tr2 (GroupSignalled ?p (posix s) a)"
    if "allow" "tr2 = tr @ es" "\<forall>x \<in> set es. \<not> unhurried x" "group_state g tr2" for tr2 es a
    using that assms(2) group_left_append by (auto simp: event_ok_def group_state_def)
  have plain: "group_state g (snd (send_linux_group_signal H g s None tr2))"
    if "allow" "tr2 = tr @ es" "\<forall>x \<in> set es. \<not> unhurried x" "group_state g tr2" for tr2 es
    by (rule send_keeps [OF that(4) same kill [OF that]]) simp
  have held: "group_state g (snd (send_linux_group_signal H g s (Some x) tr2))"
    if "leader_held ?p (og_birth g) (og_session g) tr2" "group_state g tr2" "PidfdOpened ?p (Inr x) \<in> set tr2" for tr2 x
    by (rule send_keeps [OF that(2) same]) (use that in \<open>cases s; simp add: event_ok_def\<close>)+
  show ?thesis
  proof (cases "checked_pid ''PID is out of range'' ''PID is zero'' ?p")
    case (Inl x)
    with assms(1) False show ?thesis by (simp add: system_signal_group_def then_do_def give_def)
  next
    case (Inr q)
    then have q: "q = ?p" by (auto simp: checked_pid_def split: if_splits)
    note start = system_signal_group_def then_do_def give_def mapped_def pidfd_open_def Let_def
    show ?thesis
    proof (cases ?fd)
      case fd: (Inl e)
      show ?thesis
      proof (cases "e = ESRCH \<and> allow")
        case True
        then have "system_signal_group H g s allow tr = send_linux_group_signal H g s None ?tr1"
          using False Inr q fd by (simp add: start open_leader_def)
        with plain [of ?tr1 "[PidfdOpened ?p ?fd]"] True st1 show ?thesis by simp
      next
        case no: False
        with False Inr q fd st1 show ?thesis by (auto simp: start open_leader_def)
      qed
    next
      case fd: (Inr x)
      obtain r tr2 where stop: "stop_and_verify_linux_group_leader H x g allow ?tr1 = (r, tr2)"
        by (cases "stop_and_verify_linux_group_leader H x g allow ?tr1")
      from stop_keeps [OF stop st1 same] fd obtain es where tr2: "group_state g tr2" "tr2 = ?tr1 @ es"
        and gone: "r = Inr False \<Longrightarrow> allow \<and> (\<forall>x \<in> set es. \<not> unhurried x)"
        and live: "r = Inr True \<Longrightarrow> leader_held ?p (og_birth g) (og_session g) tr2" by auto
      have run: "system_signal_group H g s allow tr = (case r of Inl e \<Rightarrow> (Inl e, tr2)
          | Inr b \<Rightarrow> send_linux_group_signal H g s (if b then Some x else None) tr2)"
        using False Inr q fd stop by (auto simp: start open_leader_def split: sum.split)
      show ?thesis
      proof (cases r)
        case (Inl e)
        with run tr2 show ?thesis by simp
      next
        case (Inr b)
        then show ?thesis
          using run tr2 fd held [OF live tr2(1)] plain [of tr2 "PidfdOpened ?p ?fd # es"] gone
          by (cases b) auto
      qed
    qed
  qed
qed

section \<open>The members of a group\<close>

definition calm :: "event \<Rightarrow> bool" where
  "calm e \<longleftrightarrow> quiet e \<and> \<not> unhurried e"

lemma calm_simps [simp]: "calm (StatRead p r)" "calm (Slept n)" "calm (ProcListed l)"
  by (simp_all add: calm_def)

lemma stat_calm [added]: "adds calm (read_linux_process_stat_with_scope H scope p)"
  by (simp add: read_linux_process_stat_with_scope_def added)

lemma read_for_group_calm [added]: "adds calm (read_for_group H p n)"
proof (induction H p n rule: read_for_group.induct)
  case (1 H p left)
  show ?case
    by (subst read_for_group.simps) (use 1 in \<open>auto intro!: added split: if_splits\<close>)
qed

text \<open>A read for the enumeration ends with the record it is about; the retries before it showed none.\<close>

definition unread :: "event \<Rightarrow> bool" where
  "unread e \<longleftrightarrow> calm e \<and> (\<forall>q r. e = StatRead q r \<longrightarrow> stat_result GroupEnumeration r = Inl ProbeMalformed)"

lemma unread_simps [simp]:
  "unread (Slept n)" "unread (StatRead p r) \<longleftrightarrow> stat_result GroupEnumeration r = Inl ProbeMalformed"
  by (auto simp: unread_def)

lemma read_for_group_cases:
  "read_for_group H p n tr = (r, tr') \<Longrightarrow>
     \<exists>es a. tr' = tr @ es @ [StatRead p a] \<and> list_all unread es \<and> r = stat_result GroupEnumeration a"
proof (induction H p n arbitrary: tr rule: read_for_group.induct)
  case (1 H p left)
  let ?r = "h_stat H tr p"
  note run = and_do_def read_linux_process_stat_with_scope_def mapped_def read_stat_def Let_def
  show ?case
  proof (cases "stat_result GroupEnumeration ?r = Inl ProbeMalformed \<and> 1 < left")
    case True
    with 1(2) have "read_for_group H p (left - 1) (tr @ [StatRead p ?r, Slept 1000000]) = (r, tr')"
      by (subst (asm) read_for_group.simps) (simp add: run thread_sleep_def)
    from 1(1) [OF _ this] True obtain es a where "tr' = tr @ [StatRead p ?r, Slept 1000000] @ es @ [StatRead p a]"
      "list_all unread es" "r = stat_result GroupEnumeration a" by auto
    then show ?thesis
      using True by (intro exI [of _ "[StatRead p ?r, Slept 1000000] @ es"] exI [of _ a]) simp
  next
    case False
    with 1(2) have "r = stat_result GroupEnumeration ?r \<and> tr' = tr @ [StatRead p ?r]"
      by (subst (asm) read_for_group.simps) (auto simp: run give_def split: if_splits)
    then show ?thesis by (intro exI [of _ "[]"] exI [of _ ?r]) simp
  qed
qed

definition looked_at :: "(io_error, string option) result list \<Rightarrow> event list \<Rightarrow> bool" where
  "looked_at entries es \<longleftrightarrow>
     (\<forall>name q. Inr (Some name) \<in> set entries \<longrightarrow> parse_u32 name = Some q \<longrightarrow> (\<exists>a. StatRead q a \<in> set es))"

lemma member_read_stat: "member_read g session (StatRead p a) \<longleftrightarrow>
    (\<exists>s. stat_result GroupEnumeration a = Inr (Some s) \<and> in_group g (Some session) s)"
  by (auto simp: member_read_def)

lemma unread_no_member: "unread e \<Longrightarrow> \<not> member_read g session e"
  by (auto simp: unread_def member_read_def)

lemma members_loop_cases:
  "group_members_loop H g so entries members tr = (Inr ms, tr') \<Longrightarrow>
     (\<And>s. in_group g (Some session) s \<Longrightarrow> in_group g so s) \<Longrightarrow>
     (\<exists>es extra. tr' = tr @ es \<and> ms = members @ extra \<and> list_all calm es \<and>
        (extra = [] \<longrightarrow> (\<forall>e \<in> set es. \<not> member_read g session e) \<and> looked_at entries es) \<and>
        (extra \<noteq> [] \<longrightarrow> so = Some session \<longrightarrow> (\<exists>e \<in> set es. member_read g session e)))"
proof (induction entries arbitrary: members tr)
  case Nil
  then show ?case by (simp add: give_def looked_at_def)
next
  case (Cons entry entries)
  show ?case
  proof (cases "\<exists>name q. entry = Inr (Some name) \<and> parse_u32 name = Some q")
    case False
    then have "group_members_loop H g so entries members tr = (Inr ms, tr')"
      using Cons.prems(1) by (cases entry) (auto simp: give_def bind_eq_Some_conv split: option.splits)
    from Cons.IH [OF this Cons.prems(2)] show ?thesis using False by (auto simp: looked_at_def)
  next
    case True
    then obtain name q where name: "entry = Inr (Some name)" "parse_u32 name = Some q" by blast
    obtain r tr1 where look: "read_for_group H q process_group_stat_read_attempts tr = (r, tr1)"
      by (cases "read_for_group H q process_group_stat_read_attempts tr")
    from read_for_group_cases [OF look] obtain es a where
      es: "tr1 = tr @ es @ [StatRead q a]" "list_all unread es" "r = stat_result GroupEnumeration a" by blast
    from Cons.prems(1) name look obtain stat where stat: "r = Inr stat"
      by (cases r) (simp_all add: then_do_def read_linux_process_stat_for_group_def)
    from es(3) stat have shown: "stat_result GroupEnumeration a = Inr stat" by simp
    let ?in = "case stat of Some s \<Rightarrow> in_group g so s | None \<Rightarrow> False"
    let ?members = "if ?in then members @ [q] else members"
    have rest: "group_members_loop H g so entries ?members tr1 = (Inr ms, tr')"
      using Cons.prems(1) name look stat
      by (auto simp: then_do_def read_linux_process_stat_for_group_def split: option.splits)
    from Cons.IH [OF rest Cons.prems(2)] obtain fs extra where fs: "tr' = tr1 @ fs" "ms = ?members @ extra" "list_all calm fs"
      "extra = [] \<longrightarrow> (\<forall>e \<in> set fs. \<not> member_read g session e) \<and> looked_at entries fs"
      "extra \<noteq> [] \<longrightarrow> so = Some session \<longrightarrow> (\<exists>e \<in> set fs. member_read g session e)" by blast
    let ?es = "es @ StatRead q a # fs"
    have "list_all calm es" using es(2) by (auto simp: list_all_iff unread_def)
    moreover have "\<not> member_read g session e" if "e \<in> set es" for e
      using that es(2) by (auto simp: list_all_iff unread_no_member)
    moreover have "member_read g session (StatRead q a) \<Longrightarrow> ?in"
      using shown Cons.prems(2) by (auto simp: member_read_stat)
    moreover have "?in \<Longrightarrow> so = Some session \<Longrightarrow> member_read g session (StatRead q a)"
      using shown by (auto simp: member_read_stat split: option.splits)
    moreover have "looked_at entries fs \<Longrightarrow> looked_at (entry # entries) ?es"
      using name by (auto simp: looked_at_def)
    ultimately show ?thesis
      using fs es(1) by (intro exI [of _ ?es] exI [of _ "if ?in then q # extra else extra"]) auto
  qed
qed

text \<open>The enumeration found nobody: every listed process was looked at, and none was a member.\<close>

definition scanned_empty :: "pid32 \<Rightarrow> pid32 \<Rightarrow> history \<Rightarrow> bool" where
  "scanned_empty g session tr \<longleftrightarrow>
     (\<exists>a entries es. tr = a @ ProcListed (Inr entries) # es \<and>
        (\<forall>e \<in> set es. \<not> member_read g session e) \<and> looked_at entries es)"

lemma sort_Nil_iff: "sort xs = [] \<longleftrightarrow> xs = []"
  by (metis length_0_conv length_sort)

lemma members_cases:
  assumes "linux_process_group_members H g so tr = (Inr ms, tr')"
    and "\<And>s. in_group g (Some session) s \<Longrightarrow> in_group g so s"
  shows "(ms = [] \<longrightarrow> scanned_empty g session tr') \<and> (ms \<noteq> [] \<longrightarrow> so = Some session \<longrightarrow> group_left g session tr')"
proof -
  from assms(1) obtain l where l: "h_list H tr = Inr l"
    by (auto simp: linux_process_group_members_def then_do_def mapped_def list_proc_def give_def Let_def
        split: if_splits sum.splits prod.splits)
  obtain r tr1 where loop: "group_members_loop H g so l [] (tr @ [ProcListed (Inr l)]) = (r, tr1)"
    by (cases "group_members_loop H g so l [] (tr @ [ProcListed (Inr l)])")
  with assms(1) l obtain ms0 where r: "r = Inr ms0" "ms = sort ms0" "tr' = tr1"
    by (auto simp: linux_process_group_members_def then_do_def mapped_def list_proc_def give_def Let_def
        split: if_splits sum.splits)
  from members_loop_cases [OF loop [unfolded r(1)] assms(2)] obtain es where
    es: "tr1 = tr @ ProcListed (Inr l) # es" "list_all calm es"
      "ms0 = [] \<longrightarrow> (\<forall>e \<in> set es. \<not> member_read g session e) \<and> looked_at l es"
      "ms0 \<noteq> [] \<longrightarrow> so = Some session \<longrightarrow> (\<exists>e \<in> set es. member_read g session e)" by auto
  have "group_left g session tr1" if "e \<in> set es" "member_read g session e" for e
  proof -
    from that(1) obtain u v where "es = u @ e # v" by (auto dest: split_list)
    with that(2) es(1,2) show ?thesis
      unfolding group_left_def
      by (intro exI [of _ "tr @ ProcListed (Inr l) # u"] exI [of _ e] exI [of _ v]) (auto simp: list_all_iff calm_def)
  qed
  with es r sort_Nil_iff [of ms0] show ?thesis unfolding scanned_empty_def by auto
qed

lemma members_calm [added]: "adds calm (group_members_loop H g so entries members)"
proof (induction entries arbitrary: members)
  case Nil
  then show ?case by (simp add: added)
next
  case (Cons entry entries)
  then show ?case
    by (auto intro!: added split: sum.split option.split simp: read_linux_process_stat_for_group_def)
qed

lemma members_quiet [added]:
  "adds quiet (linux_process_group_members H g so)"
proof -
  have "adds quiet (group_members_loop H g so entries [])" for entries
    by (rule adds_mono [OF members_calm]) (simp add: calm_def)
  then show ?thesis by (simp add: linux_process_group_members_def added)
qed

lemma probes_quiet [added]:
  "adds quiet (process_group_checked H p)"
  "adds quiet (process_group_members_checked H info)"
  "adds quiet (process_group_members_by_id_checked H p)"
  by (simp_all add: process_group_checked_def process_group_members_checked_def
      process_group_members_by_id_checked_def added)

lemma group_empty_quiet [added]: "adds quiet (group_empty (linux_group_probe H) g)"
  by (simp add: group_empty_def added)

lemma group_empty_cases:
  assumes "group_empty (linux_group_probe H) g tr = (Inr none, tr')"
  shows "(none \<longrightarrow> scanned_empty (og_group g) (og_session g) tr') \<and>
    (\<not> none \<longrightarrow> group_left (og_group g) (og_session g) tr')"
proof -
  from assms obtain ms where
    "linux_process_group_members H (og_group g) (Some (og_session g)) tr = (Inr ms, tr')" "none = (ms = [])"
    by (auto simp: group_empty_def mapped_def process_group_members_checked_def group_of_def give_def map_err_def
        and_then_def split: prod.splits sum.splits if_splits)
  from members_cases [OF this(1), of "og_session g"] this(2) show ?thesis by auto
qed

end
