(* ===== verification/Group_Outcome.thy ===== *)
theory Group_Outcome
  imports Group_Safety
begin

text \<open>
  The shutdown of a provider's process group as its caller sees it: whom it may have signalled, and
  what a success proves.
\<close>

section \<open>Phases\<close>

lemma spec_group_probe:
  assumes "adds quiet m"
  shows "spec (group_state g) (once m) (\<lambda>_. group_state g) (group_state g)"
proof (rule spec_once)
  fix tr r tr'
  assume "group_state g tr" "m tr = (r, tr')"
  with addsD [OF assms] group_state_quiet have "group_state g tr'" by blast
  then show "case r of Inl e \<Rightarrow> group_state g tr' | Inr x \<Rightarrow> group_state g tr'" by (simp split: sum.split)
qed

lemma spec_group_signal:
  "spec (\<lambda>tr. group_state g tr \<and> (allow \<longrightarrow> s = Kill \<and> group_left (og_leader g) (og_session g) tr))
     (once (signal_phase (system_signal_group H) g s allow)) (\<lambda>_. group_state g) (group_state g)"
proof (rule spec_once)
  fix tr r tr'
  assume pre: "group_state g tr \<and> (allow \<longrightarrow> s = Kill \<and> group_left (og_leader g) (og_session g) tr)"
    and run: "signal_phase (system_signal_group H) g s allow tr = (r, tr')"
  from run have "tr' = snd (system_signal_group H g s allow tr)"
    by (auto simp: signal_phase_def mapped_def split: prod.splits)
  with signal_keeps [of g tr allow s H] pre have "group_state g tr'" by blast
  then show "case r of Inl e \<Rightarrow> group_state g tr' | Inr x \<Rightarrow> group_state g tr'" by (simp split: sum.split)
qed

lemma spec_group_wait:
  "spec (group_state g) (wait_for_process_group_exit H (linux_group_probe H) g timeout poll)
     (\<lambda>gone tr. group_state g tr \<and> (gone \<longrightarrow> scanned_empty (og_group g) (og_session g) tr)) (group_state g)"
  unfolding spec_def
proof (intro allI impI)
  fix tr r tr'
  assume st: "group_state g tr"
    and run: "wait_for_process_group_exit H (linux_group_probe H) g timeout poll tr = Some (r, tr')"
  let ?seen = "group_empty (linux_group_probe H) g" and ?tr0 = "tr @ [ClockRead (h_now H tr)]"
  from run have loop: "wait_until H ?seen (h_now H tr + timeout) poll ?tr0 = Some (r, tr')"
    by (simp add: wait_for_process_group_exit_def wait_for_def clock_now_def Let_def)
  from wait_until_adds [OF _ _ loop group_empty_quiet] obtain es where "tr' = ?tr0 @ es" "list_all quiet es" by auto
  with st have "group_state g tr'" using group_state_quiet [of g tr "ClockRead (h_now H tr) # es"] by simp
  moreover have "scanned_empty (og_group g) (og_session g) tr'" if "r = Inr True"
    using wait_until_gone [OF loop] that group_empty_cases [of H g] by fastforce
  ultimately show "case r of Inl e \<Rightarrow> group_state g tr'
      | Inr gone \<Rightarrow> group_state g tr' \<and> (gone \<longrightarrow> scanned_empty (og_group g) (og_session g) tr')"
    by (auto split: sum.split)
qed

lemma leader_gone_quiet [added]: "adds quiet (leader_gone (linux_process_probe H) (linux_group_probe H) g)"
  unfolding leader_gone_def by (intro adds_then_do) (auto intro!: added split: option.split)

lemma spec_left:
  "spec (group_state g) (once (if gone then group_empty (linux_group_probe H) g else give (Inr False)))
     (\<lambda>none_left tr. group_state g tr \<and> (none_left \<longrightarrow> scanned_empty (og_group g) (og_session g) tr) \<and>
        (\<not> none_left \<and> gone \<longrightarrow> group_left (og_group g) (og_session g) tr)) (group_state g)"
proof (rule spec_once)
  fix tr r tr'
  assume st: "group_state g tr"
    and run: "(if gone then group_empty (linux_group_probe H) g else give (Inr False)) tr = (r, tr')"
  have "group_state g tr'"
    using run st addsD [OF group_empty_quiet] group_state_quiet by (fastforce simp: give_def split: if_splits)
  with run show "case r of Inl e \<Rightarrow> group_state g tr' | Inr none_left \<Rightarrow> group_state g tr' \<and>
      (none_left \<longrightarrow> scanned_empty (og_group g) (og_session g) tr') \<and>
      (\<not> none_left \<and> gone \<longrightarrow> group_left (og_group g) (og_session g) tr')"
    using group_empty_cases [of H g tr] by (auto simp: give_def split: if_splits sum.split)
qed

text \<open>The end of a shutdown: the group is empty.\<close>

abbreviation ended :: "owned_group \<Rightarrow> termination_outcome \<Rightarrow> history \<Rightarrow> bool" where
  "ended g \<equiv> \<lambda>_ tr. group_state g tr \<and> scanned_empty (og_group g) (og_session g) tr"

lemma spec_kill_group:
  assumes "og_group g = og_leader g"
  shows "spec (\<lambda>tr. group_state g tr \<and> (gone \<longrightarrow> group_left (og_group g) (og_session g) tr))
     (kill_group_phase H (linux_group_probe H) (system_signal_group H) g gone timeout poll) (ended g) (group_state g)"
  unfolding kill_group_phase_def
proof (rule spec_and_run)
  show "spec (\<lambda>tr. group_state g tr \<and> (gone \<longrightarrow> group_left (og_group g) (og_session g) tr))
      (once (signal_phase (system_signal_group H) g Kill gone)) (\<lambda>_. group_state g) (group_state g)"
    by (rule spec_conseq [OF spec_group_signal]) (auto simp: assms)
next
  fix x :: unit
  show "spec (group_state g) (and_run (wait_for_process_group_exit H (linux_group_probe H) g timeout poll)
      (\<lambda>exited. if exited then ret TerminatedByKill else refuse ProcessShutdownTimedOut)) (ended g) (group_state g)"
    by (rule spec_and_run [OF spec_group_wait], rule spec_if) (auto intro!: spec_ret spec_refuse)
qed

lemma spec_live_group:
  assumes "og_group g = og_leader g"
  shows "spec (group_state g) (terminate_live_proven_process_group H (linux_process_probe H) (linux_group_probe H)
      (system_signal_group H) g timeout poll) (ended g) (group_state g)"
  unfolding terminate_live_proven_process_group_def
proof (rule spec_and_run [OF spec_conseq [OF spec_group_signal]], simp, assumption, assumption,
    rule spec_and_run [OF spec_group_wait], rule spec_if, rule spec_ret, simp,
    rule spec_and_run [OF spec_conseq [OF spec_group_probe [OF leader_gone_quiet]]], simp, assumption, assumption,
    rule spec_and_run [OF spec_left], rule spec_if, rule spec_ret, simp)
  fix gone none_left
  assume "\<not> none_left"
  then show "spec (\<lambda>tr. group_state g tr \<and> (none_left \<longrightarrow> scanned_empty (og_group g) (og_session g) tr) \<and>
        (\<not> none_left \<and> gone \<longrightarrow> group_left (og_group g) (og_session g) tr))
      (kill_group_phase H (linux_group_probe H) (system_signal_group H) g gone timeout poll) (ended g) (group_state g)"
    by (intro spec_conseq [OF spec_kill_group [OF assms]]) auto
qed

section \<open>The proof of the group\<close>

definition birth_seen :: "pid32 \<Rightarrow> string \<Rightarrow> history \<Rightarrow> bool" where
  "birth_seen p birth tr \<longleftrightarrow> list_all quiet tr \<and> (\<exists>e \<in> set tr. birth_read p birth e)"

lemma fenced_quiet: "list_all quiet tr \<Longrightarrow> group_fenced p birth session tr"
  using group_fenced_quiet [of p birth session "[]" tr] by simp

lemma group_checked_cases:
  assumes "process_group_checked H p tr = (Inr (Some info), tr')" and "gi_group info = p"
  shows "\<exists>e. tr' = tr @ [e] \<and> group_read p (gi_session info) e"
  using assms
  by (auto simp: process_group_checked_def read_linux_process_stat_with_scope_def mapped_def read_stat_def Let_def
      group_read_def and_then_def split: sum.splits)

lemma prove_quiet [added]:
  "adds quiet (prove_owned_process_group_after_identity (linux_group_probe H) p birth)"
  unfolding prove_owned_process_group_after_identity_def
  by (intro adds_then_do) (auto intro!: added split: option.split)

lemma prove_cases:
  assumes "prove_owned_process_group_after_identity (linux_group_probe H) p birth tr = (Inr g, tr')"
  shows "og_leader g = p \<and> og_birth g = birth \<and> og_group g = p \<and> (\<exists>e \<in> set tr'. group_read p (og_session g) e)"
proof -
  from assms obtain info tr1 where info: "process_group_checked H p tr = (Inr (Some info), tr1)"
    and same: "gi_group info = p"
    and g: "g = \<lparr> og_leader = p, og_birth = birth, og_group = p, og_session = gi_session info \<rparr>"
    and rest: "\<exists>ms i. process_group_members_checked H i tr1 = (Inr ms, tr')"
    by (cases "fst (process_group_checked H p tr)")
      (auto simp: prove_owned_process_group_after_identity_def then_do_def mapped_def give_def map_err_def
        split: prod.splits sum.splits option.splits if_splits)
  from group_checked_cases [OF info same] obtain e where "tr1 = tr @ [e]" "group_read p (gi_session info) e" by blast
  moreover obtain es where "tr' = tr1 @ es" using rest addsD [OF probes_quiet(2)] by blast
  ultimately show ?thesis using g by simp
qed

lemma spec_prove:
  "spec (birth_seen p birth) (once (prove_owned_process_group_after_identity (linux_group_probe H) p birth))
     (\<lambda>g tr. group_state g tr \<and> og_leader g = p \<and> og_birth g = birth \<and> og_group g = p) (list_all quiet)"
proof (rule spec_once)
  fix tr r tr'
  assume seen: "birth_seen p birth tr"
    and run: "prove_owned_process_group_after_identity (linux_group_probe H) p birth tr = (r, tr')"
  from addsD [OF prove_quiet run] obtain es where es: "tr' = tr @ es" "list_all quiet es" by blast
  with seen have quiet: "list_all quiet tr'" by (simp add: birth_seen_def)
  show "case r of Inl e \<Rightarrow> list_all quiet tr'
      | Inr g \<Rightarrow> group_state g tr' \<and> og_leader g = p \<and> og_birth g = birth \<and> og_group g = p"
  proof (cases r)
    case (Inl e)
    with quiet show ?thesis by simp
  next
    case (Inr g)
    with prove_cases run have "og_leader g = p \<and> og_birth g = birth \<and> og_group g = p \<and>
        (\<exists>e \<in> set tr'. group_read p (og_session g) e)" by blast
    with quiet seen es Inr show ?thesis by (auto simp: group_state_def proven_def birth_seen_def fenced_quiet)
  qed
qed

section \<open>The shutdown of a provider\<close>

definition fenced_end :: "pid32 \<Rightarrow> string \<Rightarrow> history \<Rightarrow> bool" where
  "fenced_end p birth tr \<longleftrightarrow> (\<exists>session. group_fenced p birth session tr \<and> scanned_empty p session tr)"

definition fenced :: "pid32 \<Rightarrow> string \<Rightarrow> history \<Rightarrow> bool" where
  "fenced p birth tr \<longleftrightarrow> (\<exists>session. group_fenced p birth session tr)"

lemma fenced_quietI: "list_all quiet tr \<Longrightarrow> fenced p birth tr"
  by (simp add: fenced_def fenced_quiet)

lemma spec_birth:
  "spec (list_all quiet) (once (mapped (map_err ProcessProbeFailed) (process_birth_checked H p)))
     (\<lambda>actual tr. list_all quiet tr \<and> (actual = Some birth \<longrightarrow> birth_seen p birth tr)) (list_all quiet)"
proof (rule spec_once)
  fix tr r tr'
  assume quiet: "list_all quiet tr" and run: "mapped (map_err ProcessProbeFailed) (process_birth_checked H p) tr = (r, tr')"
  then obtain q where q: "process_birth_checked H p tr = (q, tr')" "r = map_err ProcessProbeFailed q"
    by (auto simp: mapped_def split: prod.splits)
  from process_birth_cases [OF q(1), of birth] obtain a where
    "tr' = tr @ [StatRead p a]" "q = Inr (Some birth) \<longrightarrow> birth_read p birth (StatRead p a)" by blast
  with quiet q(2) show "case r of Inl e \<Rightarrow> list_all quiet tr'
      | Inr actual \<Rightarrow> list_all quiet tr' \<and> (actual = Some birth \<longrightarrow> birth_seen p birth tr')"
    by (auto simp: birth_seen_def map_err_def split: sum.splits)
qed

lemma spec_by_id:
  "spec (list_all quiet) (once (mapped (map_err ProcessGroupProbeFailed) (process_group_members_by_id_checked H p)))
     (\<lambda>members tr. list_all quiet tr \<and> (members = [] \<longrightarrow> fenced_end p birth tr)) (list_all quiet)"
proof (rule spec_once)
  fix tr r tr'
  assume quiet: "list_all quiet tr"
    and run: "mapped (map_err ProcessGroupProbeFailed) (process_group_members_by_id_checked H p) tr = (r, tr')"
  then obtain q where q: "process_group_members_by_id_checked H p tr = (q, tr')" "r = map_err ProcessGroupProbeFailed q"
    by (auto simp: mapped_def split: prod.splits)
  from addsD [OF probes_quiet(3) q(1)] quiet have quiet': "list_all quiet tr'" by auto
  have "fenced_end p birth tr'" if "q = Inr []"
    using members_cases [of H p None tr "[]" tr' 1] q(1) that fenced_quiet [OF quiet']
    by (auto simp: process_group_members_by_id_checked_def give_def in_group_def fenced_end_def split: if_splits)
  with quiet' q(2) show "case r of Inl e \<Rightarrow> list_all quiet tr'
      | Inr members \<Rightarrow> list_all quiet tr' \<and> (members = [] \<longrightarrow> fenced_end p birth tr')"
    by (auto simp: map_err_def split: sum.splits)
qed

lemma state_fenced: "group_state g tr \<Longrightarrow> og_leader g = p \<Longrightarrow> og_birth g = birth \<Longrightarrow> fenced p birth tr"
  by (auto simp: group_state_def fenced_def)

lemma spec_fix: "(C \<Longrightarrow> spec A m B F) \<Longrightarrow> spec (\<lambda>tr. A tr \<and> C) m B F"
  by (auto simp: spec_def)

lemma provider_group_spec:
  "spec (list_all quiet) (terminate_owned_process_group H (linux_process_probe H) (linux_group_probe H)
      (system_signal_group H) p birth timeout poll) (\<lambda>_. fenced_end p birth) (fenced p birth)"
proof -
  let ?prove = "prove_owned_process_group_after_identity (linux_group_probe H) p birth"
  let ?live = "\<lambda>g. terminate_live_proven_process_group H (linux_process_probe H) (linux_group_probe H)
      (system_signal_group H) g timeout poll"
  have live: "spec (\<lambda>tr. group_state g tr \<and> og_leader g = p \<and> og_birth g = birth \<and> og_group g = p) (?live g)
      (\<lambda>_. fenced_end p birth) (fenced p birth)" for g
    by (rule spec_fix, rule spec_conseq [OF spec_live_group]) (auto simp: state_fenced group_state_def fenced_end_def)
  have proved: "spec (birth_seen p birth) (and_run (once ?prove) ?live) (\<lambda>_. fenced_end p birth) (fenced p birth)"
    by (rule spec_and_run [OF spec_conseq [OF spec_prove] live]) (simp_all add: fenced_quietI)
  have by_id: "spec (list_all quiet)
      (and_run (once (mapped (map_err ProcessGroupProbeFailed) (process_group_members_by_id_checked H p)))
        (\<lambda>members. if members = [] then ret AlreadyGone else refuse ProcessGroupIdentityMismatch))
      (\<lambda>_. fenced_end p birth) (fenced p birth)"
    by (rule spec_and_run [OF spec_conseq [OF spec_by_id]], assumption, assumption, erule fenced_quietI, rule spec_if)
      (auto intro!: spec_ret spec_refuse fenced_quietI)
  have found: "spec (\<lambda>tr. list_all quiet tr \<and> (Some b = Some birth \<longrightarrow> birth_seen p birth tr))
      (if b \<noteq> birth then refuse ProcessIdentityChanged else and_run (once ?prove) ?live)
      (\<lambda>_. fenced_end p birth) (fenced p birth)" for b
    using proved by (intro spec_if spec_refuse) (auto simp: fenced_quietI elim: spec_conseq)
  have after: "spec (\<lambda>tr. list_all quiet tr \<and> (actual = Some birth \<longrightarrow> birth_seen p birth tr))
      (case actual of
         Some b \<Rightarrow> if b \<noteq> birth then refuse ProcessIdentityChanged else and_run (once ?prove) ?live
       | None \<Rightarrow> and_run (once (mapped (map_err ProcessGroupProbeFailed) (process_group_members_by_id_checked H p)))
           (\<lambda>members. if members = [] then ret AlreadyGone else refuse ProcessGroupIdentityMismatch))
      (\<lambda>_. fenced_end p birth) (fenced p birth)" for actual
    using by_id found by (cases actual) (auto elim: spec_conseq)
  show ?thesis
    unfolding terminate_owned_process_group_def linux_probe_simps
    by (rule spec_if, rule spec_refuse, erule fenced_quietI,
        rule spec_and_run [OF spec_conseq [OF spec_birth [of H p birth]] after]) (auto simp: fenced_quietI)
qed


text \<open>A host on which the group consists of its leader, which exits after the TERM.\<close>

definition group_host :: host where
  "group_host = sample_host
     \<lparr> h_stat := (\<lambda>tr p. if length tr < 13 then sample_line else Inl absent_error),
       h_list := (\<lambda>tr. Inr [Inr (Some ''41'')]) \<rparr>"

definition group_history :: history where
  "group_history =
     [StatRead 41 sample_line, StatRead 41 sample_line, ProcListed (Inr [Inr (Some ''41'')]), StatRead 41 sample_line,
      PidfdOpened 41 (Inr 7), StatRead 41 sample_line, StatRead 41 sample_line, PidfdSignalled 7 SigStop (Inr ()),
      StatRead 41 sample_line, StatRead 41 sample_line, GroupSignalled 41 SigTerm (Inr ()),
      PidfdSignalled 7 SigCont (Inr ()), ClockRead 12, ProcListed (Inr [Inr (Some ''41'')]),
      StatRead 41 (Inl absent_error)]"

lemma group_host_reads:
  "length tr < 13 \<Longrightarrow> read_linux_process_stat_with_scope group_host scope 41 tr =
    (Inr (Some \<lparr> ps_state = ''S'', ps_birth = ''777'', ps_group = 41, ps_session_id = 40, ps_exit = 256 \<rparr>),
     tr @ [StatRead 41 sample_line])"
  "\<not> length tr < 13 \<Longrightarrow> read_linux_process_stat_with_scope group_host scope 41 tr =
    (Inr None, tr @ [StatRead 41 (Inl absent_error)])"
  by (simp_all add: read_linux_process_stat_with_scope_def mapped_def read_stat_def Let_def group_host_def
      stat_result_def sample_stat_parsed entry_vanished_def absent_error_def)

lemma group_host_probes:
  "length tr < 13 \<Longrightarrow> process_birth_checked group_host 41 tr = (Inr (Some ''777''), tr @ [StatRead 41 sample_line])"
  "length tr < 13 \<Longrightarrow> process_group_checked group_host 41 tr =
    (Inr (Some \<lparr> gi_group = 41, gi_session = 40 \<rparr>), tr @ [StatRead 41 sample_line])"
  by (simp_all add: process_birth_checked_def process_group_checked_def mapped_def group_host_reads)

lemma group_host_members:
  "process_group_members_checked group_host \<lparr> gi_group = 41, gi_session = 40 \<rparr> tr =
    (if length tr < 12
     then (Inr [41], tr @ [ProcListed (Inr [Inr (Some ''41'')]), StatRead 41 sample_line])
     else (Inr [], tr @ [ProcListed (Inr [Inr (Some ''41'')]), StatRead 41 (Inl absent_error)]))"
proof -
  have pid: "parse_u32 ''41'' = Some 41" using parse_u32_nat_text [of 41] by (simp add: sample_texts_stat)
  have listed: "h_list group_host tr = Inr [Inr (Some ''41'')]" by (simp add: group_host_def)
  note run = process_group_members_checked_def linux_process_group_members_def list_proc_def listed pid Let_def
    then_do_def give_def mapped_def map_err_def read_linux_process_stat_for_group_def and_do_def
    read_for_group.simps group_host_reads in_group_def
  show ?thesis by (cases "length tr < 12") (simp_all add: run)
qed

lemma group_host_answers:
  "h_open group_host tr p = Inr 7" "h_send group_host tr fd s = Inr ()" "h_kill_group group_host tr g s = Inr ()"
  "h_now group_host tr = length tr"
  by (simp_all add: group_host_def sample_host_def)

abbreviation sample_group :: owned_group where
  "sample_group \<equiv> \<lparr> og_leader = 41, og_birth = ''777'', og_group = 41, og_session = 40 \<rparr>"

lemma group_host_verify:
  "length tr < 12 \<Longrightarrow> verify_linux_group_leader group_host sample_group tr =
    (Inr (), tr @ [StatRead 41 sample_line, StatRead 41 sample_line])"
  by (simp add: verify_linux_group_leader_def then_do_def mapped_def group_host_probes leader_birth_matches_def
      leader_group_matches_def)

lemma group_host_term:
  "system_signal_group group_host sample_group Term False (take 4 group_history) = (Inr (), take 12 group_history)"
proof -
  have checked: "checked_pid a b (41 :: pid32) = Inr 41" for a b by (simp add: checked_pid_def)
  show ?thesis
    by (simp add: system_signal_group_def group_identity_invalid_def checked then_do_def give_def mapped_def
        pidfd_open_def group_host_answers open_leader_def stop_and_verify_linux_group_leader_def and_do_def Let_def
        group_host_verify group_history_def pidfd_send_signal_def send_linux_group_signal_def map_err_def
        kill_process_group_def)
qed

lemma group_host_wait:
  "wait_for_process_group_exit group_host (linux_group_probe group_host) sample_group 50
     provider_shutdown_poll_interval (take 12 group_history) = Some (Inr True, group_history)"
proof -
  have "group_empty (linux_group_probe group_host) sample_group (take 12 group_history @ [ClockRead 12]) =
      (Inr True, group_history)"
    by (simp add: group_empty_def mapped_def group_of_def group_host_members map_err_def group_history_def)
  moreover have "h_now group_host (take 12 group_history) = 12"
    by (simp add: group_host_answers group_history_def)
  ultimately show ?thesis
    by (simp add: wait_for_process_group_exit_def wait_for_def clock_now_def Let_def)
      (subst wait_until.simps, simp)
qed

lemma group_host_shutdown:
  "terminate_owned_provider_process group_host 41 ''777'' 50 [] = Some (Inr TerminatedByTerm, group_history)"
proof -
  have prove: "prove_owned_process_group_after_identity (linux_group_probe group_host) 41 ''777''
      [StatRead 41 sample_line] = (Inr sample_group, take 4 group_history)"
    by (simp add: prove_owned_process_group_after_identity_def then_do_def mapped_def give_def map_err_def
        group_host_probes group_host_members group_history_def)
  show ?thesis
    by (simp add: terminate_owned_provider_process_def terminate_owned_process_group_def and_run_def once_def
        mapped_def map_err_def group_host_probes prove terminate_live_proven_process_group_def signal_phase_def
        group_host_term group_host_wait give_def)
qed


end
