(* ===== verification/Shutdown_Returns.thy ===== *)
theory Shutdown_Returns
  imports Group_Outcome
begin

text \<open>
  Every shutdown returns, whatever processes do: the waiting loops end at their deadline, as long as
  the clock does not run backwards and a sleep takes the time it was asked to take.
\<close>

section \<open>Clocks and runs that return\<close>

definition ticking :: "host \<Rightarrow> bool" where
  "ticking H \<longleftrightarrow>
     (\<forall>tr es. h_now H tr \<le> h_now H (tr @ es)) \<and> (\<forall>tr n. h_now H tr + n \<le> h_now H (tr @ [Slept n]))"

lemma ticking_sleep:
  assumes "ticking H"
  shows "h_now H tr + n \<le> h_now H (tr @ [e, Slept n])"
proof -
  have "h_now H tr \<le> h_now H (tr @ [e])" using assms by (simp add: ticking_def)
  moreover have "h_now H (tr @ [e]) + n \<le> h_now H ((tr @ [e]) @ [Slept n])" using assms unfolding ticking_def by blast
  ultimately show ?thesis by simp
qed

definition returns :: "'a run \<Rightarrow> bool" where
  "returns m \<longleftrightarrow> (\<forall>tr. m tr \<noteq> None)"

named_theorems returning

lemma returns_once [returning]: "returns (once m)"
  by (simp add: returns_def once_def)

lemma returns_and_run [returning]: "returns m \<Longrightarrow> (\<And>x. returns (k x)) \<Longrightarrow> returns (and_run m k)"
  by (auto simp: returns_def and_run_def split: option.split sum.split)

lemma returns_if [returning]: "(b \<Longrightarrow> returns m) \<Longrightarrow> (\<not> b \<Longrightarrow> returns n) \<Longrightarrow> returns (if b then m else n)"
  by simp

text \<open>The loop: the time that is left shrinks with every sleep.\<close>

lemma wait_until_returns:
  assumes "ticking H" and "adds (\<lambda>_. True) seen"
  shows "wait_until H seen deadline poll tr \<noteq> None"
proof (induction "deadline - h_now H tr" arbitrary: tr rule: less_induct)
  case less
  obtain r tr1 where look: "seen tr = (r, tr1)" by (cases "seen tr")
  from addsD [OF assms(2) look] obtain es where tr1: "tr1 = tr @ es" by blast
  let ?tr = "tr1 @ [ClockRead (h_now H tr1), Slept (max poll 1000000)]"
  have later: "h_now H tr \<le> h_now H tr1" using assms(1) by (simp add: tr1 ticking_def)
  have "h_now H tr1 + 1000000 \<le> h_now H ?tr"
    using ticking_sleep [OF assms(1), of tr1 "max poll 1000000"] by (meson add_le_mono le_trans max.cobounded2 order_refl)
  then have "deadline - h_now H ?tr < deadline - h_now H tr" if "\<not> deadline \<le> h_now H tr1"
    using that later by linarith
  then have "wait_until H seen deadline poll ?tr \<noteq> None" if "\<not> deadline \<le> h_now H tr1"
    using less that by blast
  then show ?case
    by (subst wait_until.simps) (auto simp: look clock_now_def thread_sleep_def Let_def split: sum.split)
qed

lemma wait_for_returns:
  "ticking H \<Longrightarrow> adds (\<lambda>_. True) seen \<Longrightarrow> returns (wait_for H seen timeout poll)"
  by (simp add: returns_def wait_for_def clock_now_def Let_def wait_until_returns)

section \<open>What the shutdown needs of its probes\<close>

text \<open>A probe may answer anything, but it answers, and it leaves the history of calls as it was.\<close>

locale process_boundary =
  fixes P :: process_probe
  assumes birth_extends: "adds (\<lambda>_. True) (pp_birth P p)"
    and observation_extends: "adds (\<lambda>_. True) (pp_observation P p)"
begin

lemma look_extends: "adds (\<lambda>_. True) (exit_seen P p birth z)"
  unfolding exit_seen_def exact_process_identity_def exact_zombie_identity_def
  by (intro adds_then_do) (auto intro!: adds_mapped adds_give adds_then_do birth_extends observation_extends)

lemma wait_returns: "ticking H \<Longrightarrow> returns (wait_for_process_exit H P p birth timeout poll z)"
  unfolding wait_for_process_exit_def by (rule wait_for_returns [OF _ look_extends])

lemma inner_returns:
  assumes "ticking H"
  shows "returns (terminate_owned_process_inner H P S p birth timeout poll z)"
  unfolding terminate_owned_process_inner_def kill_phase_def kill_signal_phase_def
  by (auto intro!: returning wait_returns [OF assms] split: sum.split signal_error.split)

lemma process_shutdown_returns:
  "ticking H \<Longrightarrow> returns (terminate_owned_process_with_options H P S p birth timeout poll z)"
  unfolding terminate_owned_process_with_options_def by (auto intro!: returning inner_returns)

end

locale group_boundary = process_boundary P for P :: process_probe +
  fixes G :: group_probe
  assumes members_extends: "adds (\<lambda>_. True) (gp_members G info)"
begin

lemma group_wait_returns: "ticking H \<Longrightarrow> returns (wait_for_process_group_exit H G g timeout poll)"
  unfolding wait_for_process_group_exit_def group_empty_def
  by (rule wait_for_returns) (auto intro!: adds_mapped members_extends)

lemma live_returns:
  "ticking H \<Longrightarrow> returns (terminate_live_proven_process_group H P G S g timeout poll)"
  unfolding terminate_live_proven_process_group_def kill_group_phase_def
  by (auto intro!: returning group_wait_returns)

lemma group_shutdown_returns:
  "ticking H \<Longrightarrow> returns (terminate_owned_process_group H P G S p birth timeout poll)"
  unfolding terminate_owned_process_group_def
  by (auto intro!: returning live_returns split: option.split)

lemma preproven_shutdown_returns:
  "ticking H \<Longrightarrow> returns (terminate_preproven_process_group H P G S g timeout poll)"
  unfolding terminate_preproven_process_group_def kill_group_phase_def
  by (auto intro!: returning live_returns group_wait_returns)

end

interpretation linux: group_boundary "linux_process_probe H" "linux_group_probe H" for H
proof
  have any: "adds quiet m \<Longrightarrow> adds (\<lambda>_. True) m" for m :: "'a act" by (erule adds_mono) simp
  show "adds (\<lambda>_. True) (pp_birth (linux_process_probe H) p)" for p
    by (simp add: any [OF birth_quiet])
  show "adds (\<lambda>_. True) (pp_observation (linux_process_probe H) p)" for p
  proof -
    have "adds quiet (process_observation_checked H p)" by (simp add: process_observation_checked_def added)
    from any [OF this] show ?thesis by simp
  qed
  show "adds (\<lambda>_. True) (gp_members (linux_group_probe H) info)" for info
    using adds_mono [OF probes_quiet(2)] by simp
qed

section \<open>The shutdowns of the program\<close>

text \<open>C29: On a host whose clock never runs backwards and whose sleeps last, the shutdown of a helper, of a
  provider's process group and of a group that was proven before always return, from every history
  and whatever the host answers, be it a process that ignores every signal.\<close>

theorem shutdowns_return:
  assumes "ticking H"
  shows "terminate_owned_observer_process H p birth timeout tr \<noteq> None \<and>
    terminate_owned_provider_process H p birth timeout tr \<noteq> None \<and>
    terminate_preproven_process_group H (linux_process_probe H) (linux_group_probe H) (system_signal_group H) g
      timeout poll tr \<noteq> None"
  using linux.process_shutdown_returns [OF assms] linux.group_shutdown_returns [OF assms]
    linux.preproven_shutdown_returns [OF assms]
  unfolding returns_def terminate_owned_observer_process_def terminate_owned_provider_process_def
  by (simp del: not_None_eq)

text \<open>A host on which nobody ever exits, and time passes in sleeps only.\<close>

definition stubborn_host :: host where
  "stubborn_host = sample_host
     \<lparr> h_stat := (\<lambda>tr p. sample_line), h_list := (\<lambda>tr. Inr [Inr (Some ''41'')]),
       h_now := (\<lambda>tr. sum_list (map (\<lambda>e. case e of Slept n \<Rightarrow> n | _ \<Rightarrow> 0) tr)) \<rparr>"

lemma stubborn_host_ticking: "ticking stubborn_host"
  by (simp add: ticking_def stubborn_host_def)

lemma shutdowns_return_witness:
  "terminate_owned_observer_process stubborn_host 41 ''777'' 50000000 [] \<noteq> None \<and>
   terminate_owned_provider_process stubborn_host 41 ''777'' 50000000 [] \<noteq> None"
  using shutdowns_return [OF stubborn_host_ticking] by blast

end
