(* ===== verification/Tmux.thy ===== *)
theory Tmux
  imports Shutdown_Safety Onboarding
begin

text \<open>
  The private tmux server in \<open>src/runtime/mod.rs\<close> and \<open>src/private_tmux.rs\<close>: the system adapter, the
  text it returns, the readers of one pane fact, the fixed key bindings, and the configuration file.
  A tmux client is any function from an invocation to an effectful answer, as the trait of the code.
\<close>

section \<open>Text\<close>

text \<open>\<open>String::from_utf8_lossy\<close>: a maximal invalid sequence becomes one replacement character.\<close>

definition broken_width :: "nat list \<Rightarrow> nat" where
  "broken_width s =
     (case s of
        a # b # r \<Rightarrow>
          if 224 \<le> a \<and> a \<le> 239 then
            (if (if a = 224 then 160 else 128) \<le> b \<and> b \<le> (if a = 237 then 159 else 191) then 2 else 1)
          else if 240 \<le> a \<and> a \<le> 244 then
            (if (if a = 240 then 144 else 128) \<le> b \<and> b \<le> (if a = 244 then 143 else 191)
             then (case r of c # _ \<Rightarrow> if 128 \<le> c \<and> c \<le> 191 then 3 else 2 | [] \<Rightarrow> 2) else 1)
          else 1
      | _ \<Rightarrow> 1)"

definition replacement_character :: string where
  "replacement_character = [CHR 0xEF, CHR 0xBF, CHR 0xBD]"

function from_utf8_lossy :: "string \<Rightarrow> string" where
  "from_utf8_lossy s =
     (if s = [] then []
      else
        let w = utf8_width (map of_char s)
        in if w = 0 then replacement_character @ from_utf8_lossy (drop (broken_width (map of_char s)) s)
           else take w s @ from_utf8_lossy (drop w s))"
  by pat_completeness auto
termination
proof (relation "measure length"; clarsimp)
  fix s :: string
  assume "s \<noteq> []"
  moreover have "0 < broken_width (map of_char s)" for s :: string
    by (simp add: broken_width_def split: list.split)
  ultimately show "length s - broken_width (map of_char s) < length s"
    by (metis diff_less length_greater_0_conv)
qed

declare from_utf8_lossy.simps [simp del]

text \<open>\<open>str::lines\<close>: a line ends with LF or CR LF, the last one may be without.\<close>

definition without_cr :: "string \<Rightarrow> string" where
  "without_cr l = (if l \<noteq> [] \<and> last l = carriage_return then butlast l else l)"

definition text_lines :: "string \<Rightarrow> string list" where
  "text_lines s =
     (let parts = split_on newline s
      in map without_cr (butlast parts) @ (if last parts = [] then [] else [last parts]))"

definition line_break :: "char \<Rightarrow> bool" where
  "line_break c \<longleftrightarrow> c = carriage_return \<or> c = newline"

definition trim_end_breaks :: "string \<Rightarrow> string" where
  "trim_end_breaks s = rev (dropWhile line_break (rev s))"

definition trim_diagnostic :: "string \<Rightarrow> string" where
  "trim_diagnostic s =
     concat (take 256 (filter (\<lambda>c. \<not> is_control_point (code_point c) \<or> c = '' '') (utf8_chars s)))"

definition is_missing_server :: "string \<Rightarrow> bool" where
  "is_missing_server s \<longleftrightarrow> contains_text ''no server running'' s \<or> contains_text ''No such file'' s"

section \<open>The adapter\<close>

record tmux_invocation =
  ti_socket :: string
  ti_config :: "string option"
  ti_arguments :: "string list"

record tmux_response =
  tr_success :: bool
  tr_stdout :: string
  tr_stderr :: string

type_synonym tmux_client = "tmux_invocation \<Rightarrow> (runtime_error, tmux_response) result act"

definition max_tmux_output_bytes :: nat where "max_tmux_output_bytes = 16 * 1024"

definition tmux_command :: "string \<Rightarrow> tmux_invocation \<Rightarrow> command_call" where
  "tmux_command executable v =
     \<lparr> cc_program = executable, cc_unset = [''TMUX''],
       cc_arguments = (case ti_config v of None \<Rightarrow> [] | Some c \<Rightarrow> [''-f'', c])
         @ [''-S'', ti_socket v] @ ti_arguments v \<rparr>"

definition from_bounded_tmux :: "bounded_error \<Rightarrow> runtime_error" where
  "from_bounded_tmux e = (if e = BoundedTooLarge then OutputTooLarge else TmuxOutput e)"

definition response_from_output :: "command_output \<Rightarrow> (runtime_error, tmux_response) result" where
  "response_from_output a =
     (if length (co_stdout a) > max_tmux_output_bytes \<or> length (co_stderr a) > max_tmux_output_bytes
      then Inl OutputTooLarge
      else Inr \<lparr> tr_success = co_success a, tr_stdout = from_utf8_lossy (co_stdout a),
                 tr_stderr = from_utf8_lossy (co_stderr a) \<rparr>)"

definition system_tmux :: "host \<Rightarrow> string \<Rightarrow> tmux_client" where
  "system_tmux H executable v =
     mapped (\<lambda>r. and_then (map_err from_bounded_tmux r) response_from_output)
       (run_command H (tmux_command executable v))"

section \<open>One pane fact\<close>

definition on_socket :: "string \<Rightarrow> string list \<Rightarrow> tmux_invocation" where
  "on_socket socket arguments = \<lparr> ti_socket = socket, ti_config = None, ti_arguments = arguments \<rparr>"

definition parse_single_pane_fact :: "string \<Rightarrow> string option" where
  "parse_single_pane_fact s =
     (let t = trim_end_breaks s in if t = [] \<or> list_ex line_break t then None else Some t)"

text \<open>The inner result is a fact or a diagnostic.\<close>

definition read_pane_field ::
  "tmux_client \<Rightarrow> string \<Rightarrow> string \<Rightarrow> string \<Rightarrow> string \<Rightarrow> (runtime_error, (string, string) result) result act" where
  "read_pane_field T socket pane_target format label =
     then_do (T (on_socket socket [''display-message'', ''-p'', ''-t'', pane_target, format])) (\<lambda>response.
     if \<not> tr_success response then give (Inr (Inl (trim_diagnostic (tr_stderr response))))
     else
       (case parse_single_pane_fact (tr_stdout response) of
          None \<Rightarrow> give (Inr (Inl (''private tmux '' @ label @ '' was malformed'')))
        | Some x \<Rightarrow> give (Inr (Inr x))))"

definition read_optional_pane_field ::
  "tmux_client \<Rightarrow> string \<Rightarrow> string \<Rightarrow> string \<Rightarrow> (runtime_error, string option) result act" where
  "read_optional_pane_field T socket pane_target format =
     then_do (T (on_socket socket [''display-message'', ''-p'', ''-t'', pane_target, format])) (\<lambda>response.
     if \<not> tr_success response then give (Inl InvalidTopology)
     else
       let t = trim_end_breaks (tr_stdout response)
       in if list_ex line_break t then give (Inl InvalidTopology)
          else give (Inr (if t = [] then None else Some t)))"

definition read_exact_pane_field ::
  "tmux_client \<Rightarrow> string \<Rightarrow> string \<Rightarrow> string \<Rightarrow> string \<Rightarrow> (runtime_error, string) result act" where
  "read_exact_pane_field T socket pane_target format label =
     mapped (\<lambda>r. and_then r (map_err (\<lambda>_. InvalidTopology))) (read_pane_field T socket pane_target format label)"

definition retained_pane_exit_status ::
  "tmux_client \<Rightarrow> string \<Rightarrow> string \<Rightarrow> (runtime_error, int option) result act" where
  "retained_pane_exit_status T socket pane_target =
     then_do (read_optional_pane_field T socket pane_target ''#{pane_dead_status}'') (\<lambda>status.
     then_do (read_optional_pane_field T socket pane_target ''#{pane_dead_signal}'') (\<lambda>signal.
     case (status, signal) of
       (_, Some _) \<Rightarrow> give (Inl InvalidTopology)
     | (Some s, None) \<Rightarrow>
         (case parse_i32 s of
            Some x \<Rightarrow> if 0 \<le> x \<and> x \<le> 255 then give (Inr (Some x)) else give (Inl InvalidTopology)
          | None \<Rightarrow> give (Inl InvalidTopology))
     | (None, None) \<Rightarrow> give (Inr None)))"

section \<open>Fixed settings\<close>

record scroll_binding =
  sb_table :: string
  sb_key :: string
  sb_direction :: string

definition scroll_arguments :: "scroll_binding \<Rightarrow> string list" where
  "scroll_arguments b =
     [''bind-key'', ''-T'', sb_table b, sb_key b, ''send-keys'', ''-X'', ''-N'', ''1'', sb_direction b]"

fun joined :: "string \<Rightarrow> string list \<Rightarrow> string" where
  "joined sep [] = []"
| "joined sep [w] = w"
| "joined sep (w # v # ws) = w @ sep @ joined sep (v # ws)"

definition config_line :: "scroll_binding \<Rightarrow> string" where
  "config_line b = joined '' '' (scroll_arguments b) @ [newline]"

definition copy_mode_scroll_bindings :: "scroll_binding list" where
  "copy_mode_scroll_bindings =
     [\<lparr> sb_table = ''copy-mode'', sb_key = ''WheelUpPane'', sb_direction = ''scroll-up'' \<rparr>,
      \<lparr> sb_table = ''copy-mode'', sb_key = ''WheelDownPane'', sb_direction = ''scroll-down'' \<rparr>,
      \<lparr> sb_table = ''copy-mode-vi'', sb_key = ''WheelUpPane'', sb_direction = ''scroll-up'' \<rparr>,
      \<lparr> sb_table = ''copy-mode-vi'', sb_key = ''WheelDownPane'', sb_direction = ''scroll-down'' \<rparr>]"

definition copy_mode_scroll_config :: string where
  "copy_mode_scroll_config = concat (map config_line copy_mode_scroll_bindings)"

definition terminal_capability_config :: string where
  "terminal_capability_config = concat (map (\<lambda>l. l @ [newline])
     [''set -g default-terminal tmux-256color'',
      ''set-environment -g COLORTERM truecolor'',
      ''set -g extended-keys always'',
      ''set -q -g extended-keys-format csi-u'',
      ''set -as terminal-features '' @ [CHR 0x27] @ '',xterm-ghostty:RGB:extkeys'' @ [CHR 0x27],
      ''set -as terminal-features '' @ [CHR 0x27] @ '',tmux-256color:RGB:extkeys'' @ [CHR 0x27]])"

definition runtime_tmux_config_prefix :: string where
  "runtime_tmux_config_prefix = concat (map (\<lambda>l. l @ [newline])
     [''set -g status off'', ''set -g mouse on'', ''set -g remain-on-exit on'', ''set -g prefix C-b'',
      ''set -g prefix2 None'', ''bind-key -T prefix F12 display-message '' @ [CHR 0x22, CHR 0x22],
      ''bind-key -T root F12 display-message '' @ [CHR 0x22, CHR 0x22], ''unbind-key -a -T prefix'',
      ''unbind-key -a -T root''])"

definition quoted :: "string \<Rightarrow> string" where "quoted s = CHR 0x22 # s @ [CHR 0x22]"

definition runtime_help :: string where
  "runtime_help = ''Ctrl+b: d detach | Ctrl+b Ctrl+b literal | Ctrl+b [ copy mode | ? help''"

definition mouse_condition :: string where
  "mouse_condition = ''#{||:#{pane_in_mode},#{mouse_any_flag}}''"

definition wheel_condition :: string where
  "wheel_condition = ''#{||:#{alternate_on},#{pane_in_mode},#{mouse_any_flag}}''"

definition runtime_tmux_config_suffix :: string where
  "runtime_tmux_config_suffix = concat (map (\<lambda>l. l @ [newline])
     [''bind-key -T prefix d detach-client'',
      ''bind-key -T prefix ? display-message '' @ quoted runtime_help,
      ''bind-key -T prefix C-b send-prefix'', ''bind-key -T prefix [ copy-mode'',
      ''bind-key -T root MouseDown1Pane send-keys -M'', ''bind-key -T root MouseUp1Pane send-keys -M'',
      ''bind-key -T root MouseDrag1Pane if-shell -F '' @ quoted mouse_condition @ '' '' @ quoted ''send-keys -M''
        @ '' '' @ quoted ''copy-mode -M'',
      ''bind-key -T root WheelUpPane if-shell -F ''
        @ quoted wheel_condition @ '' '' @ quoted ''send-keys -M''
        @ '' '' @ quoted ''copy-mode -e'',
      ''bind-key -T root WheelDownPane if-shell -F ''
        @ quoted wheel_condition @ '' '' @ quoted ''send-keys -M''
        @ '' '' @ quoted ''send-keys -M''])"

definition runtime_tmux_config :: "string \<Rightarrow> string" where
  "runtime_tmux_config session_name =
     runtime_tmux_config_prefix
     @ (''set-hook -g pane-died '' @ [CHR 0x27] @ ''detach-client -s '' @ session_name @ [CHR 0x27, newline])
     @ terminal_capability_config @ copy_mode_scroll_config @ runtime_tmux_config_suffix"

text \<open>The bindings that are applied again before an attach.\<close>

definition runtime_bindings :: "string list list" where
  "runtime_bindings =
     [[''prefix'', ''d'', ''detach-client''],
      [''prefix'', ''?'', ''display-message'', runtime_help],
      [''prefix'', ''C-b'', ''send-prefix''],
      [''prefix'', ''['', ''copy-mode''],
      [''root'', ''MouseDown1Pane'', ''send-keys'', ''-M''],
      [''root'', ''MouseUp1Pane'', ''send-keys'', ''-M''],
      [''root'', ''MouseDrag1Pane'', ''if-shell'', ''-F'', mouse_condition, ''send-keys -M'', ''copy-mode -M''],
      [''root'', ''WheelUpPane'', ''if-shell'', ''-F'', wheel_condition, ''send-keys -M'', ''copy-mode -e''],
      [''root'', ''WheelDownPane'', ''if-shell'', ''-F'', wheel_condition, ''send-keys -M'', ''send-keys -M'']]"

end
