(* ===== verification/Private_Runtime.thy ===== *)
theory Private_Runtime
  imports Tmux
begin

text \<open>
  \<open>PrivateRuntime\<close> of \<open>src/runtime/mod.rs\<close>: the owner of one private tmux server, its start, its probe,
  the attachment of a client, the proof of a clean exit of the provider, and its end; and the barrier
  that holds the launched process until its identity is recorded.
\<close>

record private_runtime =
  pr_tmux :: tmux_client
  pr_probe :: process_probe
  pr_paths :: runtime_paths

definition provider_window :: string where "provider_window = ''provider''"

abbreviation pr_socket :: "private_runtime \<Rightarrow> string" where "pr_socket R \<equiv> rp_socket (pr_paths R)"
abbreviation pr_session :: "private_runtime \<Rightarrow> string" where "pr_session R \<equiv> rp_session_name (pr_paths R)"

text \<open>A command on the own socket, and one that must succeed.\<close>

definition invoke :: "private_runtime \<Rightarrow> string list \<Rightarrow> (runtime_error, tmux_response) result act" where
  "invoke R arguments = pr_tmux R (on_socket (pr_socket R) arguments)"

definition accepted :: "tmux_response \<Rightarrow> (runtime_error, unit) result" where
  "accepted a = (if tr_success a then Inr () else Inl (TmuxRejected (trim_diagnostic (tr_stderr a))))"

definition invoke_runtime_tmux :: "private_runtime \<Rightarrow> string list \<Rightarrow> (runtime_error, unit) result act" where
  "invoke_runtime_tmux R arguments = then_do (invoke R arguments) (\<lambda>a. give (accepted a))"

text \<open>A loop whose body may fail.\<close>

fun each_do :: "('a \<Rightarrow> ('e, unit) result act) \<Rightarrow> 'a list \<Rightarrow> ('e, unit) result act" where
  "each_do f [] = give (Inr ())"
| "each_do f (x # xs) = then_do (f x) (\<lambda>_. each_do f xs)"

section \<open>Files\<close>

definition io_call :: "host \<Rightarrow> string \<Rightarrow> file_call \<Rightarrow> (runtime_error, unit) result act" where
  "io_call H path c = mapped (\<lambda>r. and_then (map_err (RuntimeIo path) r) (\<lambda>_. Inr ())) (file_call H c)"

definition path_exists :: "host \<Rightarrow> string \<Rightarrow> bool act" where
  "path_exists H p = mapped (\<lambda>r. r = Inr True) (file_call H (PathExists p))"

text \<open>The modes \<open>0o700\<close> and \<open>0o600\<close>.\<close>

definition private_directory_mode :: nat where "private_directory_mode = 7 * 64"
definition private_file_mode :: nat where "private_file_mode = 6 * 64"

definition set_mode :: "host \<Rightarrow> string \<Rightarrow> nat \<Rightarrow> (runtime_error, unit) result act" where
  "set_mode H p mode = io_call H p (SetMode p mode)"

text \<open>\<open>Path::parent\<close>: the last component goes, with the separators and \<open>.\<close> components before it.\<close>

fun trim_path_end :: "string \<Rightarrow> string" where
  "trim_path_end [] = []"
| "trim_path_end [x] = [x]"
| "trim_path_end (x # y # r) =
     (if x = CHR ''/'' \<or> x = CHR ''.'' \<and> y = CHR ''/'' then trim_path_end (y # r) else x # y # r)"

definition path_parent :: "string \<Rightarrow> string option" where
  "path_parent p =
     (if path_components p = [] \<or> last (path_components p) = RootDir then None
      else Some (rev (trim_path_end (dropWhile (\<lambda>c. c \<noteq> CHR ''/'') (trim_path_end (rev p))))))"

definition create_private_runtime_directory :: "host \<Rightarrow> string \<Rightarrow> (runtime_error, unit) result act" where
  "create_private_runtime_directory H path =
     (case path_parent path of
        None \<Rightarrow> give (Inl (InvalidRuntimePath path))
      | Some parent \<Rightarrow>
          then_do (io_call H parent (CreateTree parent)) (\<lambda>_.
          then_do (set_mode H parent private_directory_mode) (\<lambda>_.
          then_do (io_call H path (CreateDirectory path)) (\<lambda>_.
          set_mode H path private_directory_mode))))"

definition write_tmux_config :: "host \<Rightarrow> string \<Rightarrow> string \<Rightarrow> (runtime_error, unit) result act" where
  "write_tmux_config H path session_name =
     then_do (io_call H path (WriteFile path (runtime_tmux_config session_name))) (\<lambda>_.
     set_mode H path private_file_mode)"

section \<open>Start\<close>

text \<open>The environment is a \<open>BTreeMap\<close>, here the list of its entries in the order of the keys.\<close>

record native_launch =
  nl_cwd :: string
  nl_program :: "string list"
  nl_environment :: "(string \<times> string) list"

definition validate_launch :: "host \<Rightarrow> native_launch \<Rightarrow> (runtime_error, unit) result act" where
  "validate_launch H l =
     (if nl_program l = [] then give (Inl EmptyProgram)
      else mapped (\<lambda>r. require (r = Inr True) (InvalidWorkingDirectory (nl_cwd l)))
             (file_call H (IsDirectory (nl_cwd l))))"

type_synonym runtime_startup = "runtime_paths \<Rightarrow> (runtime_error, unit) result act"

definition no_runtime_startup :: runtime_startup where
  "no_runtime_startup paths = give (Inr ())"

definition start_arguments :: "runtime_paths \<Rightarrow> native_launch \<Rightarrow> string list" where
  "start_arguments paths l =
     [''new-session'', ''-d'', ''-s'', rp_session_name paths, ''-n'', provider_window, ''-c'', nl_cwd l]
     @ concat (map (\<lambda>(k, v). [''-e'', from_utf8_lossy k @ ''='' @ from_utf8_lossy v]) (nl_environment l))
     @ nl_program l"

definition start_with_startup ::
  "host \<Rightarrow> private_runtime \<Rightarrow> native_launch \<Rightarrow> runtime_startup \<Rightarrow> (runtime_error, unit) result act" where
  "start_with_startup H R l startup =
     (let paths = pr_paths R in
      then_do (validate_launch H l) (\<lambda>_.
      and_do (path_exists H (rp_directory paths)) (\<lambda>exists.
      if exists then give (Inl (RuntimeAlreadyOwned (rp_directory paths)))
      else
        then_do (create_private_runtime_directory H (rp_directory paths)) (\<lambda>_.
        then_do (startup paths) (\<lambda>_.
        then_do (write_tmux_config H (rp_config paths) (rp_session_name paths)) (\<lambda>_.
        then_do (pr_tmux R \<lparr> ti_socket = rp_socket paths, ti_config = Some (rp_config paths),
                            ti_arguments = start_arguments paths l \<rparr>) (\<lambda>a.
        give (accepted a))))))))"

definition start :: "host \<Rightarrow> private_runtime \<Rightarrow> native_launch \<Rightarrow> (runtime_error, unit) result act" where
  "start H R l = start_with_startup H R l no_runtime_startup"

section \<open>Probe\<close>

datatype runtime_probe =
    ProbeMissing
  | ProbeLive string pid32 string "string option"
  | ProbeUnknown string

definition process_birth :: "process_probe \<Rightarrow> pid32 \<Rightarrow> string option act" where
  "process_birth P p = mapped (\<lambda>r. case r of Inl _ \<Rightarrow> None | Inr b \<Rightarrow> b) (pp_birth P p)"

definition probe_unavailable :: "string \<Rightarrow> string" where
  "probe_unavailable stderr =
     (if trim_diagnostic stderr = [] then ''private tmux session probe was unavailable''
      else trim_diagnostic stderr)"

definition pane_field ::
  "private_runtime \<Rightarrow> string \<Rightarrow> string \<Rightarrow> (string \<Rightarrow> (runtime_error, runtime_probe) result act)
     \<Rightarrow> (runtime_error, runtime_probe) result act" where
  "pane_field R format label k =
     then_do (read_pane_field (pr_tmux R) (pr_socket R) (pr_session R @ '':0.0'') format label) (\<lambda>value.
     case value of Inl diagnostic \<Rightarrow> give (Inr (ProbeUnknown diagnostic)) | Inr x \<Rightarrow> k x)"

definition probe_pane :: "private_runtime \<Rightarrow> (runtime_error, runtime_probe) result act" where
  "probe_pane R =
     pane_field R ''#{pane_id}'' ''pane ID'' (\<lambda>pane.
     pane_field R ''#{pane_pid}'' ''pane PID'' (\<lambda>pid_text.
     pane_field R ''#{pane_current_path}'' ''pane current path'' (\<lambda>cwd.
     case parse_u32 pid_text of
       None \<Rightarrow> give (Inr (ProbeUnknown ''private tmux pane PID was malformed''))
     | Some p \<Rightarrow>
         mapped (\<lambda>birth. Inr (ProbeLive pane p cwd birth)) (process_birth (pr_probe R) p))))"

definition probe :: "host \<Rightarrow> private_runtime \<Rightarrow> (runtime_error, runtime_probe) result act" where
  "probe H R =
     then_do (invoke R [''has-session'', ''-t'', pr_session R]) (\<lambda>found.
     if tr_success found then probe_pane R
     else
       mapped (\<lambda>exists.
           if \<not> exists \<or> is_missing_server (tr_stderr found) then Inr ProbeMissing
           else Inr (ProbeUnknown (probe_unavailable (tr_stderr found))))
         (path_exists H (pr_socket R)))"

section \<open>Topology\<close>

definition answers_exactly :: "string list \<Rightarrow> tmux_response \<Rightarrow> (runtime_error, unit) result" where
  "answers_exactly expected a = require (tr_success a \<and> text_lines (tr_stdout a) = expected) InvalidTopology"

definition topology_questions :: "runtime_paths \<Rightarrow> bool \<Rightarrow> (string list \<times> string list) list" where
  "topology_questions paths pane_dead =
     [([''list-sessions'', ''-F'', ''#{session_name}''], [rp_session_name paths]),
      ([''list-windows'', ''-t'', rp_session_name paths, ''-F'', ''#{window_index}|#{window_name}|#{window_panes}''],
       [''0|provider|1'']),
      ([''list-panes'', ''-t'', rp_session_name paths @ '':'' @ provider_window, ''-F'', ''#{pane_index}|#{pane_dead}''],
       [if pane_dead then ''0|1'' else ''0|0''])]"

definition validate_exact_topology_with_pane_state ::
  "private_runtime \<Rightarrow> bool \<Rightarrow> (runtime_error, unit) result act" where
  "validate_exact_topology_with_pane_state R pane_dead =
     each_do (\<lambda>(question, expected). then_do (invoke R question) (\<lambda>a. give (answers_exactly expected a)))
       (topology_questions (pr_paths R) pane_dead)"

abbreviation validate_exact_topology :: "private_runtime \<Rightarrow> (runtime_error, unit) result act" where
  "validate_exact_topology R \<equiv> validate_exact_topology_with_pane_state R False"

section \<open>Attachment\<close>

definition attach_command :: "runtime_paths \<Rightarrow> command_call" where
  "attach_command paths =
     \<lparr> cc_program = ''tmux'', cc_unset = [''TMUX''],
       cc_arguments = [''-u'', ''-S'', rp_socket paths, ''attach-session'', ''-t'', rp_session_name paths] \<rparr>"

definition detach_clients_if_provider_pane_dead :: "private_runtime \<Rightarrow> (runtime_error, bool) result act" where
  "detach_clients_if_provider_pane_dead R =
     then_do (invoke R [''list-panes'', ''-t'', pr_session R @ '':'' @ provider_window, ''-F'',
         ''#{session_name}|#{window_index}|#{window_name}|#{window_panes}|#{pane_index}|#{pane_dead}'']) (\<lambda>a.
     let shape = pr_session R @ ''|0|'' @ provider_window @ ''|1|0|'';
         observed = trim_end_breaks (tr_stdout a)
     in if \<not> tr_success a then give (Inl InvalidTopology)
        else if observed = shape @ ''0'' then give (Inr False)
        else if observed = shape @ ''1'' then
          then_do (invoke R [''detach-client'', ''-s'', pr_session R]) (\<lambda>d.
          give (and_then (accepted d) (\<lambda>_. Inr True)))
        else give (Inl InvalidTopology))"

definition provider_exited :: "private_runtime \<Rightarrow> pid32 \<Rightarrow> string \<Rightarrow> bool act" where
  "provider_exited R p birth =
     mapped (\<lambda>r. case r of
         Inl _ \<Rightarrow> False
       | Inr None \<Rightarrow> True
       | Inr (Some ob) \<Rightarrow> ob_birth ob = birth \<and> ob_state ob = Zombie)
       (pp_observation (pr_probe R) p)"

definition attach_exit_poll_interval :: nat where "attach_exit_poll_interval = 100000000"

text \<open>One round of the attachment while the client is still there; a failed detach is dropped.\<close>

definition attach_round :: "private_runtime \<Rightarrow> pid32 \<Rightarrow> string \<Rightarrow> unit act" where
  "attach_round R p birth =
     and_do (provider_exited R p birth) (\<lambda>exited.
     and_do (if exited then mapped (\<lambda>_. ()) (detach_clients_if_provider_pane_dead R) else give ()) (\<lambda>_.
     thread_sleep attach_exit_poll_interval))"

partial_function (option) attach_loop ::
  "host \<Rightarrow> private_runtime \<Rightarrow> pid32 \<Rightarrow> string \<Rightarrow> history \<Rightarrow> ((runtime_error, int) result \<times> history) option" where
  "attach_loop H R p birth tr =
     (case poll_client H tr of (polled, tr1) \<Rightarrow>
        (case polled of
           Inl e \<Rightarrow> Some (Inl (RuntimeIo ''tmux'' e), tr1)
         | Inr status \<Rightarrow>
             (case status of
                Some s \<Rightarrow> Some (Inr s, tr1)
              | None \<Rightarrow> attach_loop H R p birth (snd (attach_round R p birth tr1)))))"

definition attach :: "host \<Rightarrow> private_runtime \<Rightarrow> int run" where
  "attach H R =
     and_run (once (probe H R)) (\<lambda>seen.
     case seen of
       ProbeLive _ p _ (Some birth) \<Rightarrow>
         and_run (once (mapped (map_err (RuntimeIo ''tmux'')) (spawn_client H (attach_command (pr_paths R))))) (\<lambda>_.
         attach_loop H R p birth)
     | _ \<Rightarrow> refuse InvalidTopology)"

section \<open>Sizes and controls\<close>

type_synonym u16 = "16 word"

definition validate_terminal_geometry :: "u16 \<Rightarrow> u16 \<Rightarrow> (runtime_error, u16 \<times> u16) result" where
  "validate_terminal_geometry columns rows =
     (if columns = 0 \<or> rows = 0 then Inl InvalidTerminalGeometry else Inr (columns, rows))"

definition reset_runtime_key_table :: "private_runtime \<Rightarrow> string \<Rightarrow> (runtime_error, unit) result act" where
  "reset_runtime_key_table R table =
     then_do (invoke_runtime_tmux R [''bind-key'', ''-T'', table, ''F12'', ''display-message'', '''']) (\<lambda>_.
     invoke_runtime_tmux R [''unbind-key'', ''-a'', ''-T'', table])"

definition runtime_options :: "(string \<times> string) list" where
  "runtime_options =
     [(''status'', ''off''), (''mouse'', ''on''), (''remain-on-exit'', ''on''), (''prefix'', ''C-b''),
      (''prefix2'', ''None'')]"

definition reconcile_private_controls :: "private_runtime \<Rightarrow> (runtime_error, unit) result act" where
  "reconcile_private_controls R =
     then_do (validate_exact_topology R) (\<lambda>_.
     then_do (each_do (reset_runtime_key_table R) [''prefix'', ''root'']) (\<lambda>_.
     then_do (each_do (\<lambda>(option, v). invoke_runtime_tmux R [''set-option'', ''-g'', option, v]) runtime_options) (\<lambda>_.
     then_do (invoke_runtime_tmux R
         [''set-hook'', ''-g'', ''pane-died'', ''detach-client -s '' @ pr_session R]) (\<lambda>_.
     then_do (each_do (\<lambda>b. invoke_runtime_tmux R ([''bind-key'', ''-T''] @ b)) runtime_bindings) (\<lambda>_.
     each_do (\<lambda>b. invoke_runtime_tmux R (scroll_arguments b)) copy_mode_scroll_bindings)))))"

definition prepare_attach_with_size :: "private_runtime \<Rightarrow> u16 \<Rightarrow> u16 \<Rightarrow> (runtime_error, unit) result act" where
  "prepare_attach_with_size R columns rows =
     then_do (give (validate_terminal_geometry columns rows)) (\<lambda>(columns, rows).
     then_do (reconcile_private_controls R) (\<lambda>_.
     let target = pr_session R @ '':'' @ provider_window in
     then_do (invoke_runtime_tmux R [''resize-window'', ''-t'', target, ''-x'', nat_text (unat columns),
         ''-y'', nat_text (unat rows)]) (\<lambda>_.
     invoke_runtime_tmux R [''set-window-option'', ''-t'', target, ''window-size'', ''latest''])))"

text \<open>The size of the terminal is the answer of \<open>crossterm\<close>.\<close>

definition prepare_attach :: "(u16 \<times> u16) option \<Rightarrow> private_runtime \<Rightarrow> (runtime_error, unit) result act" where
  "prepare_attach terminal R =
     then_do (give (ok_or terminal TerminalGeometryUnavailable)) (\<lambda>(columns, rows).
     prepare_attach_with_size R columns rows)"

definition send_literal_ctrl_b :: "private_runtime \<Rightarrow> (runtime_error, unit) result act" where
  "send_literal_ctrl_b R =
     invoke_runtime_tmux R [''send-keys'', ''-t'', pr_session R @ '':'' @ provider_window @ ''.0'', ''C-b'']"

section \<open>The proof of a clean exit\<close>

definition exact_pane_pid :: "private_runtime \<Rightarrow> string \<Rightarrow> (runtime_error, pid32) result act" where
  "exact_pane_pid R pane_target =
     mapped (\<lambda>r. and_then r (\<lambda>t. ok_or (parse_u32 t) InvalidTopology))
       (read_exact_pane_field (pr_tmux R) (pr_socket R) pane_target ''#{pane_pid}'' ''pane PID'')"

definition exact_pane_start_path :: "private_runtime \<Rightarrow> string \<Rightarrow> (runtime_error, string) result act" where
  "exact_pane_start_path R pane_target =
     read_exact_pane_field (pr_tmux R) (pr_socket R) pane_target ''#{pane_start_path}'' ''pane start path''"

text \<open>The second look at a pane for which tmux retained no status.\<close>

definition zombie_exit_status ::
  "host \<Rightarrow> private_runtime \<Rightarrow> pid32 \<Rightarrow> string \<Rightarrow> string option \<Rightarrow> string
     \<Rightarrow> (runtime_error, int \<times> bool) result act" where
  "zombie_exit_status H R expected_pid expected_cwd promoted pane_target =
     then_do (mapped (\<lambda>r. and_then r (\<lambda>z. ok_or z InvalidTopology)) (retained_zombie_exit_evidence H expected_pid)) (\<lambda>first.
     then_do (validate_exact_topology_with_pane_state R True) (\<lambda>_.
     then_do (exact_pane_pid R pane_target) (\<lambda>p.
     then_do (exact_pane_start_path R pane_target) (\<lambda>path.
     if p \<noteq> expected_pid \<or> \<not> path_is_absolute path \<or> (promoted = None \<and> \<not> path_eq path expected_cwd)
     then give (Inl InvalidTopology)
     else
       then_do (retained_pane_exit_status (pr_tmux R) (pr_socket R) pane_target) (\<lambda>status.
       then_do (retained_zombie_exit_evidence H expected_pid) (\<lambda>zombie.
       give (reconcile_missing_tmux_exit_evidence first status zombie)))))))"

definition provider_exit_status_with_cwd_proof ::
  "host \<Rightarrow> private_runtime \<Rightarrow> pid32 \<Rightarrow> string \<Rightarrow> string option \<Rightarrow> (runtime_error, int) result act" where
  "provider_exit_status_with_cwd_proof H R expected_pid expected_cwd promoted =
     (let pane_target = pr_session R @ '':'' @ provider_window @ ''.0'' in
      then_do (validate_exact_topology_with_pane_state R True) (\<lambda>_.
      then_do (exact_pane_pid R pane_target) (\<lambda>p.
      then_do (exact_pane_start_path R pane_target) (\<lambda>path.
      if (case promoted of None \<Rightarrow> False | Some c \<Rightarrow> \<not> path_eq c expected_cwd) \<or> \<not> path_is_absolute path
      then give (Inl InvalidTopology)
      else if p \<noteq> expected_pid \<or> (promoted = None \<and> \<not> path_eq path expected_cwd)
      then give (Inl InvalidTopology)
      else
        then_do (then_do (retained_pane_exit_status (pr_tmux R) (pr_socket R) pane_target) (\<lambda>status.
            case status of
              Some s \<Rightarrow> give (Inr (s, True))
            | None \<Rightarrow> zombie_exit_status H R expected_pid expected_cwd promoted pane_target))
          (\<lambda>(status, requires_absence).
        then_do (if requires_absence
            then mapped (\<lambda>r. and_then (map_err ProcessProbeFailed r) (\<lambda>b. require (b = None) InvalidTopology))
              (pp_birth (pr_probe R) expected_pid)
            else give (Inr ())) (\<lambda>_.
        then_do (validate_exact_topology_with_pane_state R True) (\<lambda>_.
        give (Inr status))))))))"

definition provider_exit_status ::
  "host \<Rightarrow> private_runtime \<Rightarrow> pid32 \<Rightarrow> string \<Rightarrow> (runtime_error, int) result act" where
  "provider_exit_status H R p cwd = provider_exit_status_with_cwd_proof H R p cwd None"

definition provider_exit_status_with_promoted_cwd ::
  "host \<Rightarrow> private_runtime \<Rightarrow> pid32 \<Rightarrow> string \<Rightarrow> string \<Rightarrow> (runtime_error, int) result act" where
  "provider_exit_status_with_promoted_cwd H R p cwd promoted =
     provider_exit_status_with_cwd_proof H R p cwd (Some promoted)"

section \<open>The end of the server\<close>

definition stop_server :: "private_runtime \<Rightarrow> (runtime_error, unit) result act" where
  "stop_server R =
     then_do (invoke R [''kill-server'']) (\<lambda>a.
     if tr_success a \<or> is_missing_server (tr_stderr a) then give (Inr ())
     else give (Inl (TmuxRejected (trim_diagnostic (tr_stderr a)))))"

definition park_server :: "host \<Rightarrow> private_runtime \<Rightarrow> (runtime_error, unit) result act" where
  "park_server H R =
     then_do (stop_server R) (\<lambda>_.
     and_do (path_exists H (rp_directory (pr_paths R))) (\<lambda>exists.
     if exists then io_call H (rp_directory (pr_paths R)) (RemoveTree (rp_directory (pr_paths R)))
     else give (Inr ())))"

section \<open>The launch barrier\<close>

definition launch_barrier :: "runtime_paths \<Rightarrow> string" where
  "launch_barrier paths = path_join (rp_directory paths) ''launch.ready''"

definition create_launch_barrier :: "host \<Rightarrow> string \<Rightarrow> (runtime_error, unit) result act" where
  "create_launch_barrier H path =
     then_do (io_call H path (CreateFresh path private_file_mode)) (\<lambda>_. set_mode H path private_file_mode)"

definition release_launch :: "host \<Rightarrow> private_runtime \<Rightarrow> (runtime_error, unit) result act" where
  "release_launch H R = create_launch_barrier H (launch_barrier (pr_paths R))"

definition launch_barrier_poll_interval :: nat where "launch_barrier_poll_interval = 10000000"
definition launch_barrier_timeout :: nat where "launch_barrier_timeout = 30000000000"

partial_function (option) await_release ::
  "host \<Rightarrow> string \<Rightarrow> nat \<Rightarrow> history \<Rightarrow> ((runtime_error, unit) result \<times> history) option" where
  "await_release H barrier deadline tr =
     (case file_call H (IsPlainFile barrier) tr of (metadata, tr1) \<Rightarrow>
        (case metadata of
           Inr is_file \<Rightarrow>
             if is_file then Some (io_call H barrier (RemoveFile barrier) tr1)
             else Some (Inl (InvalidLaunchBarrier barrier), tr1)
         | Inl e \<Rightarrow>
             if io_kind e \<noteq> NotFound then Some (Inl (RuntimeIo barrier e), tr1)
             else
               (case clock_now H tr1 of (now, tr2) \<Rightarrow>
                  if deadline \<le> now then Some (Inl LaunchBarrierTimedOut, tr2)
                  else await_release H barrier deadline (snd (thread_sleep launch_barrier_poll_interval tr2)))))"

definition await_launch_release_with_timeout :: "host \<Rightarrow> runtime_paths \<Rightarrow> nat \<Rightarrow> unit run" where
  "await_launch_release_with_timeout H paths timeout tr =
     (case clock_now H tr of (now, tr1) \<Rightarrow> await_release H (launch_barrier paths) (now + timeout) tr1)"

definition await_launch_release :: "host \<Rightarrow> runtime_paths \<Rightarrow> unit run" where
  "await_launch_release H paths = await_launch_release_with_timeout H paths launch_barrier_timeout"

end
