(* ===== verification/Private_Safety.thy ===== *)
theory Private_Safety
  imports Private_Runtime Shutdown_Returns
begin

text \<open>
  What the owner of a private tmux server may touch, and what its proof of a clean exit rests on.
\<close>

definition system_runtime :: "host \<Rightarrow> runtime_paths \<Rightarrow> private_runtime" where
  "system_runtime H paths =
     \<lparr> pr_tmux = system_tmux H ''tmux'', pr_probe = linux_process_probe H, pr_paths = paths \<rparr>"

lemma system_runtime_simps [simp]:
  "pr_tmux (system_runtime H paths) = system_tmux H ''tmux''"
  "pr_probe (system_runtime H paths) = linux_process_probe H"
  "pr_paths (system_runtime H paths) = paths"
  by (simp_all add: system_runtime_def)

section \<open>Only the own server and directory\<close>

definition own_tmux :: "runtime_paths \<Rightarrow> command_call \<Rightarrow> bool" where
  "own_tmux paths c \<longleftrightarrow>
     cc_program c = ''tmux'' \<and> cc_unset c = [''TMUX''] \<and>
     (take 2 (cc_arguments c) = [''-S'', rp_socket paths] \<or>
      take 4 (cc_arguments c) = [''-f'', rp_config paths, ''-S'', rp_socket paths])"

primrec own_file :: "runtime_paths \<Rightarrow> file_call \<Rightarrow> bool" where
  "own_file paths (PathExists p) \<longleftrightarrow> True"
| "own_file paths (IsDirectory p) \<longleftrightarrow> True"
| "own_file paths (IsPlainFile p) \<longleftrightarrow> True"
| "own_file paths (RemoveTree p) \<longleftrightarrow> p = rp_directory paths"
| "own_file paths (RemoveFile p) \<longleftrightarrow> p = launch_barrier paths"
| "own_file paths (CreateTree p) \<longleftrightarrow> path_parent (rp_directory paths) = Some p"
| "own_file paths (CreateDirectory p) \<longleftrightarrow> p = rp_directory paths"
| "own_file paths (SetMode p mode) \<longleftrightarrow>
     mode = private_directory_mode \<and> (p = rp_directory paths \<or> path_parent (rp_directory paths) = Some p) \<or>
     mode = private_file_mode \<and> (p = rp_config paths \<or> p = launch_barrier paths)"
| "own_file paths (WriteFile p s) \<longleftrightarrow> p = rp_config paths \<and> s = runtime_tmux_config (rp_session_name paths)"
| "own_file paths (CreateFresh p mode) \<longleftrightarrow> p = launch_barrier paths \<and> mode = private_file_mode"

primrec private_call :: "runtime_paths \<Rightarrow> event \<Rightarrow> bool" where
  "private_call paths (StatRead p a) \<longleftrightarrow> True"
| "private_call paths (ProcListed l) \<longleftrightarrow> True"
| "private_call paths (ExeRead p b) \<longleftrightarrow> True"
| "private_call paths (CommandLineRead p c) \<longleftrightarrow> True"
| "private_call paths (PidfdOpened p d) \<longleftrightarrow> False"
| "private_call paths (PidfdSignalled fd s e) \<longleftrightarrow> False"
| "private_call paths (GroupSignalled p s f) \<longleftrightarrow> False"
| "private_call paths (ClockRead n) \<longleftrightarrow> True"
| "private_call paths (Slept n) \<longleftrightarrow> True"
| "private_call paths (CommandRun c g) \<longleftrightarrow> own_tmux paths c"
| "private_call paths (FileCalled f h) \<longleftrightarrow> own_file paths f"
| "private_call paths (ClientSpawned c i) \<longleftrightarrow> c = attach_command paths"
| "private_call paths (ClientPolled j) \<longleftrightarrow> True"

text \<open>No call but \<open>release_launch\<close> creates the launch barrier.\<close>

fun no_release :: "event \<Rightarrow> bool" where
  "no_release (FileCalled (CreateFresh p mode) v) \<longleftrightarrow> False"
| "no_release e \<longleftrightarrow> True"

definition closed_call :: "runtime_paths \<Rightarrow> event \<Rightarrow> bool" where
  "closed_call paths e \<longleftrightarrow> private_call paths e \<and> no_release e"

abbreviation keeps_private :: "runtime_paths \<Rightarrow> 'a act \<Rightarrow> bool" where
  "keeps_private paths m \<equiv> adds (closed_call paths) m"

lemma closed_calls [simp]:
  "closed_call paths (StatRead p a)" "closed_call paths (ProcListed l)" "closed_call paths (ExeRead p b)"
  "closed_call paths (CommandLineRead p cl)" "closed_call paths (ClockRead n)" "closed_call paths (Slept n)"
  "closed_call paths (ClientPolled j)"
  "closed_call paths (CommandRun c g) \<longleftrightarrow> own_tmux paths c"
  "closed_call paths (ClientSpawned c i) \<longleftrightarrow> c = attach_command paths"
  by (simp_all add: closed_call_def)

lemma closed_file [simp]:
  "closed_call paths (FileCalled f h) \<longleftrightarrow> own_file paths f \<and> (\<forall>p mode. f \<noteq> CreateFresh p mode)"
  by (cases f) (simp_all add: closed_call_def)

named_theorems kept

lemma stat_kept [kept]: "keeps_private paths (read_linux_process_stat_with_scope H scope p)"
  by (simp add: read_linux_process_stat_with_scope_def added)

lemma probe_calls_kept [kept]:
  "keeps_private paths (process_birth_checked H p)" "keeps_private paths (process_observation_checked H p)"
  by (simp_all add: process_birth_checked_def process_observation_checked_def kept added)

lemma tmux_kept [kept]:
  "ti_socket v = rp_socket paths \<Longrightarrow> ti_config v \<in> {None, Some (rp_config paths)} \<Longrightarrow>
    keeps_private paths (system_tmux H ''tmux'' v)"
  by (auto simp: system_tmux_def tmux_command_def own_tmux_def intro!: adds_mapped adds_run)

lemma invoke_kept [kept]: "keeps_private paths (invoke (system_runtime H paths) q)"
  by (simp add: invoke_def on_socket_def tmux_kept)

lemma invoke_runtime_kept [kept]: "keeps_private paths (invoke_runtime_tmux (system_runtime H paths) q)"
  by (simp add: invoke_runtime_tmux_def kept added)

lemma each_kept [kept]: "(\<And>x. keeps_private paths (f x)) \<Longrightarrow> keeps_private paths (each_do f xs)"
  by (induction xs) (simp_all add: added)

lemma io_kept [kept]:
  "own_file paths c \<Longrightarrow> (\<And>q mode. c \<noteq> CreateFresh q mode) \<Longrightarrow> keeps_private paths (io_call H p c)"
  by (simp add: io_call_def added)

lemma exists_kept [kept]: "keeps_private paths (path_exists H p)"
  by (simp add: path_exists_def added)

lemma topology_kept [kept]: "keeps_private paths (validate_exact_topology_with_pane_state (system_runtime H paths) d)"
  unfolding validate_exact_topology_with_pane_state_def
  by (rule each_kept) (auto intro!: adds_then_do adds_give invoke_kept split: prod.split)

lemma fields_kept [kept]:
  "keeps_private paths (read_pane_field (system_tmux H ''tmux'') (rp_socket paths) t f l)"
  "keeps_private paths (read_optional_pane_field (system_tmux H ''tmux'') (rp_socket paths) t f)"
  "keeps_private paths (read_exact_pane_field (system_tmux H ''tmux'') (rp_socket paths) t f l)"
  "keeps_private paths (exact_pane_pid (system_runtime H paths) t)"
  "keeps_private paths (exact_pane_start_path (system_runtime H paths) t)"
proof -
  show a: "keeps_private paths (read_pane_field (system_tmux H ''tmux'') (rp_socket paths) t f l)" for f l
    unfolding read_pane_field_def
    by (intro adds_then_do) (auto intro!: adds_give tmux_kept simp: on_socket_def split: option.split)
  show "keeps_private paths (read_optional_pane_field (system_tmux H ''tmux'') (rp_socket paths) t f)"
    unfolding read_optional_pane_field_def
    by (intro adds_then_do) (auto intro!: adds_give tmux_kept simp: on_socket_def Let_def)
  show b: "keeps_private paths (read_exact_pane_field (system_tmux H ''tmux'') (rp_socket paths) t f l)" for f l
    by (simp add: read_exact_pane_field_def adds_mapped a)
  show "keeps_private paths (exact_pane_pid (system_runtime H paths) t)"
    by (simp add: exact_pane_pid_def adds_mapped b)
  show "keeps_private paths (exact_pane_start_path (system_runtime H paths) t)"
    by (simp add: exact_pane_start_path_def b)
qed

lemma status_kept [kept]:
  "keeps_private paths (retained_pane_exit_status (system_tmux H ''tmux'') (rp_socket paths) t)"
  unfolding retained_pane_exit_status_def
  by (intro adds_then_do) (auto intro!: kept adds_give split: option.split)

lemma zombie_kept [kept]: "keeps_private paths (retained_zombie_exit_evidence H p)"
  by (simp add: retained_zombie_exit_evidence_def kept added)

lemma probe_kept [kept]: "keeps_private paths (probe H (system_runtime H paths))"
proof -
  have field: "(\<And>x. keeps_private paths (k x)) \<Longrightarrow> keeps_private paths (pane_field (system_runtime H paths) f l k)" for k f l
    unfolding pane_field_def by (intro adds_then_do) (auto intro!: kept adds_give split: sum.split)
  have "keeps_private paths (process_birth (linux_process_probe H) p)" for p
    by (simp add: process_birth_def kept added)
  then have "keeps_private paths (probe_pane (system_runtime H paths))"
    unfolding probe_pane_def by (intro field) (auto intro!: adds_give adds_mapped split: option.split)
  then show ?thesis unfolding probe_def by (auto intro!: adds_then_do adds_mapped kept)
qed

lemma exit_status_kept [kept]:
  "keeps_private paths (provider_exit_status_with_cwd_proof H (system_runtime H paths) p cwd promoted)"
proof -
  have "keeps_private paths (zombie_exit_status H (system_runtime H paths) p cwd promoted t)" for t
    unfolding zombie_exit_status_def by (auto intro!: adds_then_do adds_mapped adds_give kept)
  then show ?thesis
    unfolding provider_exit_status_with_cwd_proof_def Let_def
    by (auto intro!: adds_then_do adds_mapped kept simp: adds_give split: option.split prod.split)
qed

lemma controls_kept [kept]: "keeps_private paths (reconcile_private_controls (system_runtime H paths))"
  unfolding reconcile_private_controls_def reset_runtime_key_table_def
  by (auto intro!: adds_then_do kept simp: adds_give split: prod.split)

lemma size_kept [kept]: "keeps_private paths (prepare_attach_with_size (system_runtime H paths) c r)"
  unfolding prepare_attach_with_size_def Let_def by (auto intro!: adds_then_do adds_give kept split: prod.split)

lemma start_kept [kept]: "keeps_private paths (start H (system_runtime H paths) l)"
proof -
  have "keeps_private paths (create_private_runtime_directory H (rp_directory paths))"
    unfolding create_private_runtime_directory_def set_mode_def
    by (auto intro!: adds_then_do adds_give kept split: option.split)
  moreover have "keeps_private paths (write_tmux_config H (rp_config paths) (rp_session_name paths))"
    unfolding write_tmux_config_def set_mode_def by (auto intro!: adds_then_do kept)
  moreover have "keeps_private paths (validate_launch H l)"
    by (simp add: validate_launch_def added)
  ultimately show ?thesis
    unfolding start_def start_with_startup_def no_runtime_startup_def Let_def
    by (auto intro!: adds_then_do adds_and_do adds_give kept)
qed

lemma end_kept [kept]:
  "keeps_private paths (stop_server (system_runtime H paths))"
  "keeps_private paths (park_server H (system_runtime H paths))"
  "adds (private_call paths) (release_launch H (system_runtime H paths))"
  "keeps_private paths (send_literal_ctrl_b (system_runtime H paths))"
proof -
  show a: "keeps_private paths (stop_server (system_runtime H paths))"
    unfolding stop_server_def by (auto intro!: adds_then_do adds_give kept)
  then show "keeps_private paths (park_server H (system_runtime H paths))"
    unfolding park_server_def by (auto intro!: adds_then_do adds_and_do adds_give kept)
  have io: "own_file paths c \<Longrightarrow> adds (private_call paths) (io_call H p c)" for p c
    by (simp add: io_call_def added)
  have "adds (private_call paths) (path_exists H p)" for p
    by (simp add: path_exists_def added)
  then show "adds (private_call paths) (release_launch H (system_runtime H paths))"
    unfolding release_launch_def create_launch_barrier_def set_mode_def by (auto intro!: adds_then_do adds_give io)
  show "keeps_private paths (send_literal_ctrl_b (system_runtime H paths))"
    by (simp add: send_literal_ctrl_b_def kept)
qed

section \<open>Attachment\<close>

lemma detach_kept [kept]: "keeps_private paths (detach_clients_if_provider_pane_dead (system_runtime H paths))"
  unfolding detach_clients_if_provider_pane_dead_def Let_def by (auto intro!: adds_then_do kept simp: adds_give)

lemma round_kept: "keeps_private paths (attach_round (system_runtime H paths) p birth)"
proof -
  have "keeps_private paths (provider_exited (system_runtime H paths) p birth)"
    by (simp add: provider_exited_def linux_process_probe_def adds_mapped kept)
  then show ?thesis
    unfolding attach_round_def by (auto intro!: adds_and_do adds_mapped adds_sleep kept simp: adds_give)
qed

lemma attach_loop_adds:
  assumes "attach_loop H R p birth tr = Some x" and "adds P (poll_client H)" and "adds P (attach_round R p birth)"
  shows "\<exists>es. snd x = tr @ es \<and> list_all P es"
  using assms
proof (induction rule: attach_loop.raw_induct [rotated, consumes 1, case_names step])
  case (step f H R p birth tr x)
  obtain polled tr1 where poll: "poll_client H tr = (polled, tr1)" by (cases "poll_client H tr")
  from addsD [OF step(3) poll] obtain es where es: "tr1 = tr @ es" "list_all P es" by blast
  show ?case
  proof (cases "polled = Inr None")
    case True
    obtain tr2 where rnd: "attach_round R p birth tr1 = ((), tr2)" by (cases "attach_round R p birth tr1") simp
    from addsD [OF step(4) rnd] obtain es2 where es2: "tr2 = tr1 @ es2" "list_all P es2" by blast
    from step(2) True poll rnd have "f H R p birth tr2 = Some x" by simp
    from step(1) [OF this step(3,4)] es es2 show ?thesis by auto
  next
    case False
    with step(2) poll have "snd x = tr1" by (auto split: sum.splits option.splits)
    with es show ?thesis by blast
  qed
qed

lemma attach_kept: "run_adds (closed_call paths) (attach H (system_runtime H paths))"
proof -
  have "run_adds (closed_call paths) (attach_loop H (system_runtime H paths) p birth)" for p birth
    unfolding run_adds_def using attach_loop_adds [OF _ adds_poll round_kept] by fastforce
  then show ?thesis
    unfolding attach_def
    by (auto intro!: run_adds_and_run run_adds_once adds_mapped adds_spawn kept simp: adds_give
        split: runtime_probe.split option.split)
qed

section \<open>The launch barrier\<close>

definition released :: "string \<Rightarrow> history \<Rightarrow> bool" where
  "released barrier tr \<longleftrightarrow>
     (\<exists>before v. tr = before @ [FileCalled (IsPlainFile barrier) (Inr True), FileCalled (RemoveFile barrier) (Inr v)])"

definition barrier_event :: "string \<Rightarrow> event \<Rightarrow> bool" where
  "barrier_event barrier e \<longleftrightarrow>
     (\<exists>a. e = FileCalled (IsPlainFile barrier) a) \<or> (\<exists>a. e = FileCalled (RemoveFile barrier) a) \<or>
     (\<exists>n. e = ClockRead n) \<or> (\<exists>n. e = Slept n)"

lemma remove_barrier:
  assumes "io_call H barrier (RemoveFile barrier) tr = x"
  shows "\<exists>a. snd x = tr @ [FileCalled (RemoveFile barrier) a] \<and> (fst x = Inr () \<longrightarrow> (\<exists>v. a = Inr v))"
  using assms by (auto simp: io_call_def mapped_def file_call_def Let_def)

lemma await_release_spec:
  assumes "await_release H barrier deadline tr = Some x"
  shows "(\<exists>es. snd x = tr @ es \<and> list_all (barrier_event barrier) es) \<and> (fst x = Inr () \<longrightarrow> released barrier (snd x))"
  using assms
proof (induction rule: await_release.raw_induct [rotated, consumes 1, case_names step])
  case (step f H barrier deadline tr x)
  let ?a = "h_file H tr (IsPlainFile barrier)"
  let ?tr1 = "tr @ [FileCalled (IsPlainFile barrier) ?a]"
  have look: "file_call H (IsPlainFile barrier) tr = (?a, ?tr1)" by (simp add: file_call_def Let_def)
  consider (gone) e where "?a = Inl e" "io_kind e = NotFound" "\<not> deadline \<le> h_now H ?tr1"
    | (found) "?a = Inr True"
    | (ended) "fst x \<noteq> Inr ()" "snd x = ?tr1 \<or> snd x = ?tr1 @ [ClockRead (h_now H ?tr1)]"
    using step(2) by (cases ?a) (auto simp: look clock_now_def Let_def split: if_splits)
  then show ?case
  proof cases
    case gone
    then have "f H barrier deadline (?tr1 @ [ClockRead (h_now H ?tr1), Slept launch_barrier_poll_interval]) = Some x"
      using step(2) by (simp add: look clock_now_def thread_sleep_def Let_def)
    from step(1) [OF this] show ?thesis by (auto simp: barrier_event_def)
  next
    case found
    then have "io_call H barrier (RemoveFile barrier) ?tr1 = x" using step(2) by (simp add: look)
    from remove_barrier [OF this] found show ?thesis
      by (fastforce simp: released_def barrier_event_def)
  next
    case ended
    then show ?thesis by (auto simp: barrier_event_def)
  qed
qed

lemma await_release_returns:
  assumes "ticking H"
  shows "await_release H barrier deadline tr \<noteq> None"
proof (induction "deadline - h_now H tr" arbitrary: tr rule: less_induct)
  case less
  let ?tr1 = "tr @ [FileCalled (IsPlainFile barrier) (h_file H tr (IsPlainFile barrier))]"
  let ?tr = "?tr1 @ [ClockRead (h_now H ?tr1), Slept launch_barrier_poll_interval]"
  have later: "h_now H tr \<le> h_now H ?tr1" using assms by (simp add: ticking_def)
  have "h_now H ?tr1 + launch_barrier_poll_interval \<le> h_now H ?tr" using ticking_sleep [OF assms] by blast
  then have "deadline - h_now H ?tr < deadline - h_now H tr" if "\<not> deadline \<le> h_now H ?tr1"
    using that later by (simp add: launch_barrier_poll_interval_def)
  then have "await_release H barrier deadline ?tr \<noteq> None" if "\<not> deadline \<le> h_now H ?tr1"
    using less that by blast
  then show ?case
    by (subst await_release.simps)
      (auto simp: file_call_def clock_now_def thread_sleep_def Let_def split: sum.split)
qed

text \<open>C37: The launched process waits behind its barrier, but not for ever: on a host whose clock goes on,
  the wait returns, and if it returns without an error then the very last calls saw the barrier as a
  plain file and removed it, so the provider starts only after the owner has released it.\<close>

theorem launch_waits_for_release:
  assumes "ticking H"
  shows "\<exists>r tr'. await_launch_release H paths tr = Some (r, tr') \<and>
    (r = Inr () \<longrightarrow> released (launch_barrier paths) tr')"
proof -
  let ?tr = "tr @ [ClockRead (h_now H tr)]"
  obtain r tr' where run: "await_release H (launch_barrier paths) (h_now H tr + launch_barrier_timeout) ?tr = Some (r, tr')"
    using await_release_returns [OF assms] by (metis not_None_eq surj_pair)
  then have "await_launch_release H paths tr = Some (r, tr')"
    by (simp add: await_launch_release_def await_launch_release_with_timeout_def clock_now_def Let_def)
  with await_release_spec [OF run] show ?thesis by auto
qed

definition sample_paths :: runtime_paths where
  "sample_paths = \<lparr> rp_directory = ''/s/run/runtime-1'', rp_socket = ''/s/run/runtime-1/tmux.sock'',
     rp_config = ''/s/run/runtime-1/tmux.conf'', rp_session_name = ''wsnav-1'' \<rparr>"

lemma stubborn_host_files [simp]: "h_file stubborn_host tr f = Inr True"
  by (simp add: stubborn_host_def sample_host_def)

lemma launch_waits_for_release_witness:
  "\<exists>tr'. await_launch_release stubborn_host sample_paths [] = Some (Inr (), tr') \<and>
     released (launch_barrier sample_paths) tr'"
proof -
  obtain r tr' where run: "await_launch_release stubborn_host sample_paths [] = Some (r, tr')"
    "r = Inr () \<longrightarrow> released (launch_barrier sample_paths) tr'"
    using launch_waits_for_release [OF stubborn_host_ticking, of sample_paths "[]"] by blast
  have "r = Inr ()"
    using run(1)
    by (simp add: await_launch_release_def await_launch_release_with_timeout_def clock_now_def Let_def
        await_release.simps [of stubborn_host] file_call_def io_call_def mapped_def)
  with run show ?thesis by blast
qed

section \<open>A whole lifetime\<close>

datatype server_request =
    StartServer native_launch
  | ReleaseLaunch
  | ProbeServer
  | PrepareClient "(u16 \<times> u16) option"
  | AttachClient
  | ReadExitStatus pid32 string "string option"
  | SendCtrlB
  | StopServer
  | ParkServer
  | AwaitRelease

abbreviation unit_run :: "'a run \<Rightarrow> unit run" where "unit_run m \<equiv> and_run m (\<lambda>_. ret ())"

primrec serve :: "host \<Rightarrow> private_runtime \<Rightarrow> server_request \<Rightarrow> unit run" where
  "serve H R (StartServer l) = once (start H R l)"
| "serve H R ReleaseLaunch = once (release_launch H R)"
| "serve H R ProbeServer = unit_run (once (probe H R))"
| "serve H R (PrepareClient terminal) = once (prepare_attach terminal R)"
| "serve H R AttachClient = unit_run (attach H R)"
| "serve H R (ReadExitStatus p cwd promoted) =
     unit_run (once (provider_exit_status_with_cwd_proof H R p cwd promoted))"
| "serve H R SendCtrlB = once (send_literal_ctrl_b R)"
| "serve H R StopServer = once (stop_server R)"
| "serve H R ParkServer = once (park_server H R)"
| "serve H R AwaitRelease = await_launch_release H (pr_paths R)"

text \<open>Requests in any order, each served whatever became of those before.\<close>

fun serve_all :: "host \<Rightarrow> private_runtime \<Rightarrow> server_request list \<Rightarrow> history \<Rightarrow> history option" where
  "serve_all H R [] tr = Some tr"
| "serve_all H R (q # qs) tr =
     (case serve H R q tr of None \<Rightarrow> None | Some (r, tr') \<Rightarrow> serve_all H R qs tr')"

lemma await_kept: "run_adds (closed_call paths) (await_launch_release H paths)"
  unfolding run_adds_def
proof (intro allI impI)
  fix tr r tr'
  assume run: "await_launch_release H paths tr = Some (r, tr')"
  have weaker: "list_all (closed_call paths) es" if "list_all (barrier_event (launch_barrier paths)) es" for es
    using that by (rule list.pred_mono_strong) (auto simp: barrier_event_def)
  from run have "await_release H (launch_barrier paths) (h_now H tr + launch_barrier_timeout)
      (tr @ [ClockRead (h_now H tr)]) = Some (r, tr')"
    by (simp add: await_launch_release_def await_launch_release_with_timeout_def clock_now_def Let_def)
  from await_release_spec [OF this] show "\<exists>es. tr' = tr @ es \<and> list_all (closed_call paths) es"
    using weaker by auto
qed

lemma closed_private: "adds (closed_call paths) m \<Longrightarrow> adds (private_call paths) m"
  by (erule adds_mono) (simp add: closed_call_def)

lemma closed_private_run: "run_adds (closed_call paths) m \<Longrightarrow> run_adds (private_call paths) m"
  unfolding run_adds_def by (metis (mono_tags, lifting) closed_call_def list.pred_mono_strong)

lemma serve_kept: "run_adds (private_call paths) (serve H (system_runtime H paths) q)"
proof (cases q)
  case ReleaseLaunch
  then show ?thesis by (simp add: run_adds_once end_kept)
next
  case (PrepareClient terminal)
  have "keeps_private paths (prepare_attach terminal (system_runtime H paths))"
    unfolding prepare_attach_def by (auto intro!: adds_then_do kept simp: adds_give split: prod.split)
  then show ?thesis by (simp add: PrepareClient run_adds_once closed_private)
qed (auto intro!: run_adds_and_run run_adds_once closed_private_run attach_kept await_kept kept simp: adds_give)


lemma lossy_Nil [simp]: "from_utf8_lossy [] = []"
  by (subst from_utf8_lossy.simps) simp


end
