(* ===== verification/Clean_Exit.thy ===== *)
theory Clean_Exit
  imports Private_Safety
begin

text \<open>
  What the proof of a clean exit of the provider rests on: the answers of tmux and of \<open>/proc\<close> that the
  host gave, in order. A success is split into the calls that it is made of.
\<close>

section \<open>Successful calls\<close>

lemma then_do_Inr:
  "then_do m k tr = (Inr y, tr') \<longleftrightarrow> (\<exists>x tr1. m tr = (Inr x, tr1) \<and> k x tr1 = (Inr y, tr'))"
  by (auto simp: then_do_def split: prod.splits sum.splits)

lemma mapped_eq: "mapped f m tr = (y, tr') \<longleftrightarrow> (\<exists>x. m tr = (x, tr') \<and> f x = y)"
  by (auto simp: mapped_def split: prod.splits)

lemma give_eq: "give x tr = (y, tr') \<longleftrightarrow> x = y \<and> tr = tr'"
  by (auto simp: give_def)

lemma unit_ex: "(\<exists>u :: unit. P u) \<longleftrightarrow> P ()"
  by (metis (full_types) old.unit.exhaust)

lemma guard_Inr:
  "(if c then give (Inl e) else m) tr = (Inr y, tr') \<longleftrightarrow> \<not> c \<and> m tr = (Inr y, tr')"
  by (simp add: give_eq)

lemmas success = then_do_Inr mapped_eq give_eq

lemma each_do_Inr:
  assumes "\<And>x tr tr'. f x tr = (Inr (), tr') \<Longrightarrow> \<exists>e. tr' = tr @ [e] \<and> P x e"
  shows "each_do f xs tr = (Inr (), tr') \<Longrightarrow> \<exists>es. tr' = tr @ es \<and> list_all2 P xs es"
proof (induction xs arbitrary: tr)
  case (Cons x xs)
  from Cons.prems obtain tr1 where x: "f x tr = (Inr (), tr1)" and xs: "each_do f xs tr1 = (Inr (), tr')"
    by (auto simp: then_do_Inr)
  obtain e where e: "tr1 = tr @ [e]" "P x e" using assms [OF x] by blast
  obtain es where "tr' = tr1 @ es" "list_all2 P xs es" using Cons.IH [OF xs] by blast
  with e show ?case by (intro exI [of _ "e # es"]) simp
qed (simp add: give_eq)

section \<open>Answers of tmux\<close>

definition answered :: "runtime_paths \<Rightarrow> string list \<Rightarrow> tmux_response \<Rightarrow> event \<Rightarrow> bool" where
  "answered paths question a e \<longleftrightarrow>
     (\<exists>out. e = CommandRun (tmux_command ''tmux'' (on_socket (rp_socket paths) question)) (Inr out) \<and>
        response_from_output out = Inr a)"

lemma system_answers:
  assumes "system_tmux H ''tmux'' (on_socket (rp_socket paths) question) tr = (Inr a, tr')"
  shows "\<exists>e. tr' = tr @ [e] \<and> answered paths question a e"
  using assms by (auto simp: system_tmux_def mapped_eq run_command_def Let_def answered_def)

definition topology_shown :: "runtime_paths \<Rightarrow> bool \<Rightarrow> history \<Rightarrow> bool" where
  "topology_shown paths pane_dead =
     list_all2 (\<lambda>(question, expected) e. \<exists>a. answered paths question a e \<and> tr_success a \<and>
       text_lines (tr_stdout a) = expected) (topology_questions paths pane_dead)"

lemma topology_Inr:
  assumes "validate_exact_topology_with_pane_state (system_runtime H paths) d tr = (Inr (), tr')"
  shows "\<exists>es. tr' = tr @ es \<and> topology_shown paths d es"
  unfolding topology_shown_def
  using assms unfolding validate_exact_topology_with_pane_state_def system_runtime_simps
  by (rule each_do_Inr [rotated])
    (fastforce simp: success invoke_def answers_exactly_def dest!: system_answers)

abbreviation pane_question :: "string \<Rightarrow> string \<Rightarrow> string list" where
  "pane_question pane_target format \<equiv> [''display-message'', ''-p'', ''-t'', pane_target, format]"

definition pane_fact :: "runtime_paths \<Rightarrow> string \<Rightarrow> string \<Rightarrow> string \<Rightarrow> event \<Rightarrow> bool" where
  "pane_fact paths pane_target format x e \<longleftrightarrow>
     (\<exists>a. answered paths (pane_question pane_target format) a e \<and> tr_success a \<and>
        parse_single_pane_fact (tr_stdout a) = Some x)"

definition pane_text :: "runtime_paths \<Rightarrow> string \<Rightarrow> string \<Rightarrow> string \<Rightarrow> event \<Rightarrow> bool" where
  "pane_text paths pane_target format x e \<longleftrightarrow>
     (\<exists>a. answered paths (pane_question pane_target format) a e \<and> tr_success a \<and>
        trim_end_breaks (tr_stdout a) = x)"

lemma exact_field_Inr:
  assumes "read_exact_pane_field (system_tmux H ''tmux'') (rp_socket paths) t format label tr = (Inr x, tr')"
  shows "\<exists>e. tr' = tr @ [e] \<and> pane_fact paths t format x e"
  using assms unfolding read_exact_pane_field_def read_pane_field_def
  by (auto simp: success pane_fact_def split: if_splits option.splits dest!: system_answers)

lemma optional_field_Inr:
  assumes "read_optional_pane_field (system_tmux H ''tmux'') (rp_socket paths) t format tr = (Inr x, tr')"
  shows "\<exists>e. tr' = tr @ [e] \<and> pane_text paths t format (case x of None \<Rightarrow> [] | Some s \<Rightarrow> s) e"
  using assms unfolding read_optional_pane_field_def
  by (fastforce simp: success pane_text_def Let_def split: if_splits option.splits dest!: system_answers)

section \<open>The pane and its status\<close>

definition provider_pane :: "runtime_paths \<Rightarrow> string" where
  "provider_pane paths = rp_session_name paths @ '':'' @ provider_window @ ''.0''"

definition pane_placed :: "runtime_paths \<Rightarrow> pid32 \<Rightarrow> string \<Rightarrow> string option \<Rightarrow> history \<Rightarrow> bool" where
  "pane_placed paths p cwd promoted es \<longleftrightarrow>
     (\<exists>e1 e2 t path. es = [e1, e2] \<and>
        pane_fact paths (provider_pane paths) ''#{pane_pid}'' t e1 \<and> parse_u32 t = Some p \<and>
        pane_fact paths (provider_pane paths) ''#{pane_start_path}'' path e2 \<and> path_is_absolute path \<and>
        (promoted = None \<longrightarrow> path_eq path cwd))"

definition status_told :: "runtime_paths \<Rightarrow> int option \<Rightarrow> history \<Rightarrow> bool" where
  "status_told paths s es \<longleftrightarrow>
     (\<exists>e1 e2 t. es = [e1, e2] \<and> pane_text paths (provider_pane paths) ''#{pane_dead_status}'' t e1 \<and>
        pane_text paths (provider_pane paths) ''#{pane_dead_signal}'' [] e2 \<and>
        (case s of None \<Rightarrow> t = [] | Some x \<Rightarrow> parse_i32 t = Some x \<and> 0 \<le> x \<and> x \<le> 255))"

lemma status_Inr:
  assumes "retained_pane_exit_status (system_tmux H ''tmux'') (rp_socket paths) (provider_pane paths) tr = (Inr s, tr')"
  shows "\<exists>es. tr' = tr @ es \<and> status_told paths s es"
proof -
  from assms obtain status signal tr1 tr2 where
    r: "read_optional_pane_field (system_tmux H ''tmux'') (rp_socket paths) (provider_pane paths) ''#{pane_dead_status}'' tr = (Inr status, tr1)"
    "read_optional_pane_field (system_tmux H ''tmux'') (rp_socket paths) (provider_pane paths) ''#{pane_dead_signal}'' tr1 = (Inr signal, tr2)"
    and k: "(case (status, signal) of
       (_, Some _) \<Rightarrow> give (Inl InvalidTopology)
     | (Some s, None) \<Rightarrow>
         (case parse_i32 s of
            Some x \<Rightarrow> if 0 \<le> x \<and> x \<le> 255 then give (Inr (Some x)) else give (Inl InvalidTopology)
          | None \<Rightarrow> give (Inl InvalidTopology))
     | (None, None) \<Rightarrow> give (Inr None)) tr2 = (Inr s, tr')"
    unfolding retained_pane_exit_status_def then_do_Inr by blast
  from k have rest: "tr' = tr2" "signal = None" "case s of None \<Rightarrow> status = None
      | Some x \<Rightarrow> \<exists>t. status = Some t \<and> parse_i32 t = Some x \<and> 0 \<le> x \<and> x \<le> 255"
    by (cases status; cases signal; auto simp: give_eq split: option.splits if_splits)+
  from optional_field_Inr [OF r(1)] optional_field_Inr [OF r(2)] rest show ?thesis
    by (fastforce simp: status_told_def split: option.splits)
qed

lemma pane_pid_Inr:
  assumes "exact_pane_pid (system_runtime H paths) (provider_pane paths) tr = (Inr p, tr')"
  shows "\<exists>e t. tr' = tr @ [e] \<and> pane_fact paths (provider_pane paths) ''#{pane_pid}'' t e \<and> parse_u32 t = Some p"
  using assms unfolding exact_pane_pid_def by (auto simp: success dest!: exact_field_Inr)

lemma start_path_Inr:
  assumes "exact_pane_start_path (system_runtime H paths) (provider_pane paths) tr = (Inr x, tr')"
  shows "\<exists>e. tr' = tr @ [e] \<and> pane_fact paths (provider_pane paths) ''#{pane_start_path}'' x e"
  using assms unfolding exact_pane_start_path_def by (auto dest!: exact_field_Inr)

section \<open>The process\<close>

definition absent_read :: "pid32 \<Rightarrow> event \<Rightarrow> bool" where
  "absent_read p e \<longleftrightarrow> (\<exists>x. e = StatRead p x \<and> stat_result DirectIdentity x = Inr None)"

definition zombie_read :: "pid32 \<Rightarrow> string \<Rightarrow> int \<Rightarrow> event \<Rightarrow> bool" where
  "zombie_read p birth raw e \<longleftrightarrow>
     (\<exists>x s. e = StatRead p x \<and> stat_result DirectIdentity x = Inr (Some s) \<and> ps_state s = ''Z'' \<and>
        ps_birth s = birth \<and> ps_exit s = raw)"

lemma zombie_Inr:
  assumes "retained_zombie_exit_evidence H p tr = (Inr z, tr')"
  shows "\<exists>e. tr' = tr @ [e] \<and> (case z of None \<Rightarrow> absent_read p e
    | Some v \<Rightarrow> zombie_read p (ze_birth v) (ze_raw v) e \<and> decode_linux_wait_exit_status (ze_raw v) = Some (ze_exit v))"
  using assms
  by (auto simp: retained_zombie_exit_evidence_def mapped_eq read_linux_process_stat_with_scope_def read_stat_def
      Let_def retained_zombie_exit_evidence_from_stat_def absent_read_def zombie_read_def split: option.splits if_splits)

lemma absent_Inr:
  assumes "mapped (\<lambda>r. and_then (map_err ProcessProbeFailed r) (\<lambda>b. require (b = None) InvalidTopology))
    (process_birth_checked H p) tr = (Inr (), tr')"
  shows "\<exists>e. tr' = tr @ [e] \<and> absent_read p e"
  using assms
  by (auto simp: process_birth_checked_def mapped_eq read_linux_process_stat_with_scope_def read_stat_def
      Let_def absent_read_def)

section \<open>The proof of the exit\<close>

text \<open>Either tmux retained the status and the process is gone, or the same zombie was read twice, with the
  pane proven again in between.\<close>

definition exit_proven :: "runtime_paths \<Rightarrow> pid32 \<Rightarrow> string \<Rightarrow> string option \<Rightarrow> int \<Rightarrow> history \<Rightarrow> bool" where
  "exit_proven paths p cwd promoted s es \<longleftrightarrow>
     (\<exists>told e. es = told @ [e] \<and> status_told paths (Some s) told \<and> absent_read p e) \<or>
     (\<exists>birth raw missing z shape placed again rest.
        es = missing @ [z] @ shape @ placed @ again @ rest \<and> status_told paths None missing \<and>
        zombie_read p birth raw z \<and> decode_linux_wait_exit_status raw = Some s \<and>
        topology_shown paths True shape \<and> pane_placed paths p cwd promoted placed \<and>
        (status_told paths None again \<and> (\<exists>z2. rest = [z2] \<and> zombie_read p birth raw z2) \<or>
         status_told paths (Some s) again \<and> (\<exists>e1 e2. rest = [e1, e2] \<and> absent_read p e1 \<and> absent_read p e2)))"

lemma zombie_status_Inr:
  assumes "zombie_exit_status H (system_runtime H paths) p cwd promoted (provider_pane paths) tr = (Inr (s, b), tr')"
  shows "\<exists>birth raw z shape placed again e. tr' = tr @ [z] @ shape @ placed @ again @ [e] \<and>
    zombie_read p birth raw z \<and> decode_linux_wait_exit_status raw = Some s \<and>
    topology_shown paths True shape \<and> pane_placed paths p cwd promoted placed \<and>
    (if b then status_told paths (Some s) again \<and> absent_read p e
     else status_told paths None again \<and> zombie_read p birth raw e)"
proof -
  let ?R = "system_runtime H paths" and ?t = "provider_pane paths"
  from assms obtain z1 tr1 tr2 q tr3 path tr4 status tr5 z2 where
    calls: "retained_zombie_exit_evidence H p tr = (Inr (Some z1), tr1)"
    "validate_exact_topology_with_pane_state ?R True tr1 = (Inr (), tr2)"
    "exact_pane_pid ?R ?t tr2 = (Inr q, tr3)" "exact_pane_start_path ?R ?t tr3 = (Inr path, tr4)"
    and guard: "q = p" "path_is_absolute path" "promoted = None \<longrightarrow> path_eq path cwd"
    and more: "retained_pane_exit_status (system_tmux H ''tmux'') (rp_socket paths) ?t tr4 = (Inr status, tr5)"
    "retained_zombie_exit_evidence H p tr5 = (Inr z2, tr')"
    and final: "reconcile_missing_tmux_exit_evidence z1 status z2 = Inr (s, b)"
    unfolding zombie_exit_status_def by (auto simp: success split: if_splits)
  from zombie_Inr [OF calls(1)] obtain e1 where e1: "tr1 = tr @ [e1]" "zombie_read p (ze_birth z1) (ze_raw z1) e1"
    "decode_linux_wait_exit_status (ze_raw z1) = Some (ze_exit z1)" by auto
  from topology_Inr [OF calls(2)] obtain shape where shape: "tr2 = tr1 @ shape" "topology_shown paths True shape" by blast
  from pane_pid_Inr [OF calls(3)] start_path_Inr [OF calls(4)] guard
  obtain placed where placed: "tr4 = tr2 @ placed" "pane_placed paths p cwd promoted placed"
    by (fastforce simp: pane_placed_def)
  from status_Inr [OF more(1)] obtain again where again: "tr5 = tr4 @ again" "status_told paths status again" by blast
  from zombie_Inr [OF more(2)] obtain e2 where e2: "tr' = tr5 @ [e2]" "case z2 of None \<Rightarrow> absent_read p e2
    | Some v \<Rightarrow> zombie_read p (ze_birth v) (ze_raw v) e2 \<and> decode_linux_wait_exit_status (ze_raw v) = Some (ze_exit v)"
    by blast
  have s: "s = ze_exit z1" and last: "if b then status_told paths (Some s) again \<and> absent_read p e2
     else status_told paths None again \<and> zombie_read p (ze_birth z1) (ze_raw z1) e2"
    using final again(2) e2(2)
    by (auto simp: reconcile_missing_tmux_exit_evidence_def split: option.splits if_splits)
  from e1 shape placed again(1) e2(1) s last show ?thesis
    by (intro exI [of _ "ze_birth z1"] exI [of _ "ze_raw z1"] exI [of _ e1] exI [of _ shape] exI [of _ placed]
        exI [of _ again] exI [of _ e2]) simp
qed

lemma exit_status_Inr:
  assumes "provider_exit_status_with_cwd_proof H (system_runtime H paths) p cwd promoted tr = (Inr s, tr')"
  shows "\<exists>shape placed evidence shape'. tr' = tr @ shape @ placed @ evidence @ shape' \<and>
    topology_shown paths True shape \<and> pane_placed paths p cwd promoted placed \<and>
    exit_proven paths p cwd promoted s evidence \<and> topology_shown paths True shape'"
proof -
  let ?R = "system_runtime H paths" and ?t = "provider_pane paths"
  from assms obtain tr1 q tr2 path tr3 status tr4 s' b tr5 tr6 tr7 where
    calls: "validate_exact_topology_with_pane_state ?R True tr = (Inr (), tr1)"
    "exact_pane_pid ?R ?t tr1 = (Inr q, tr2)" "exact_pane_start_path ?R ?t tr2 = (Inr path, tr3)"
    and placing: "path_is_absolute path" "q = p" "\<not> (promoted = None \<and> \<not> path_eq path cwd)"
    and told: "retained_pane_exit_status (system_tmux H ''tmux'') (rp_socket paths) ?t tr3 = (Inr status, tr4)"
    "(case status of Some s \<Rightarrow> give (Inr (s, True))
       | None \<Rightarrow> zombie_exit_status H ?R p cwd promoted ?t) tr4 = (Inr (s', b), tr5)"
    and absent: "(if b then mapped (\<lambda>r. and_then (map_err ProcessProbeFailed r) (\<lambda>b. require (b = None) InvalidTopology))
              (process_birth_checked H p) else give (Inr ())) tr5 = (Inr (), tr6)"
    and final: "validate_exact_topology_with_pane_state ?R True tr6 = (Inr (), tr7)"
    and same: "s' = s" "tr7 = tr'"
    unfolding provider_exit_status_with_cwd_proof_def Let_def then_do_Inr guard_Inr
      system_runtime_simps linux_probe_simps provider_pane_def [symmetric]
      split_paired_Ex case_prod_conv give_eq prod.inject sum.inject unit_ex de_Morgan_disj not_not
    by (elim exE conjE) (rule that)
  note told = told [unfolded same] and final = final [unfolded same]
  have guard: "q = p" "path_is_absolute path" "promoted = None \<longrightarrow> path_eq path cwd" using placing by blast+
  from topology_Inr [OF calls(1)] obtain shape where shape: "tr1 = tr @ shape" "topology_shown paths True shape" by blast
  from pane_pid_Inr [OF calls(2)] start_path_Inr [OF calls(3)] guard
  obtain placed where placed: "tr3 = tr1 @ placed" "pane_placed paths p cwd promoted placed"
    by (fastforce simp: pane_placed_def)
  from status_Inr [OF told(1)] obtain es where es: "tr4 = tr3 @ es" "status_told paths status es" by blast
  have gone: "\<exists>e. tr6 = tr5 @ [e] \<and> absent_read p e" if b using absent that absent_Inr by simp
  have "\<exists>evidence. tr6 = tr3 @ evidence \<and> exit_proven paths p cwd promoted s evidence"
  proof (cases status)
    case (Some x)
    with told(2) have x: "x = s" "b" "tr5 = tr4" by (auto simp: give_eq)
    with gone obtain e where "tr6 = tr4 @ [e]" "absent_read p e" by blast
    with es Some x show ?thesis unfolding exit_proven_def by auto
  next
    case None
    with told(2) have "zombie_exit_status H ?R p cwd promoted ?t tr4 = (Inr (s, b), tr5)" by simp
    from zombie_status_Inr [OF this] obtain birth raw z sh pl again e where
      z: "tr5 = tr4 @ [z] @ sh @ pl @ again @ [e]" "zombie_read p birth raw z"
      "decode_linux_wait_exit_status raw = Some s" "topology_shown paths True sh" "pane_placed paths p cwd promoted pl"
      "if b then status_told paths (Some s) again \<and> absent_read p e
       else status_told paths None again \<and> zombie_read p birth raw e" by blast
    have "\<exists>rest. tr6 = tr4 @ [z] @ sh @ pl @ again @ rest \<and>
        (status_told paths None again \<and> (\<exists>z2. rest = [z2] \<and> zombie_read p birth raw z2) \<or>
         status_told paths (Some s) again \<and> (\<exists>e1 e2. rest = [e1, e2] \<and> absent_read p e1 \<and> absent_read p e2))"
    proof (cases b)
      case True
      with gone z(1,6) show ?thesis by auto
    next
      case False
      with absent z(1,6) show ?thesis by (auto simp: give_eq)
    qed
    then obtain rest where rest: "tr6 = tr4 @ [z] @ sh @ pl @ again @ rest"
      "status_told paths None again \<and> (\<exists>z2. rest = [z2] \<and> zombie_read p birth raw z2) \<or>
       status_told paths (Some s) again \<and> (\<exists>e1 e2. rest = [e1, e2] \<and> absent_read p e1 \<and> absent_read p e2)" by blast
    have "exit_proven paths p cwd promoted s (es @ [z] @ sh @ pl @ again @ rest)"
      unfolding exit_proven_def using es(2) None z(2-5) rest(2) by blast
    with es(1) rest(1) show ?thesis by auto
  qed
  then obtain evidence where "tr6 = tr3 @ evidence" "exit_proven paths p cwd promoted s evidence" by blast
  moreover from topology_Inr [OF final] obtain shape' where "tr' = tr6 @ shape'" "topology_shown paths True shape'" by blast
  ultimately show ?thesis using shape placed
    by (intro exI [of _ shape] exI [of _ placed] exI [of _ evidence] exI [of _ shape']) simp
qed

text \<open>C38: If the program takes a provider's exit status for proven, then the host answered so, in this order:
  the private server had exactly its one session, window and dead pane; the pane has the recorded
  process id and start path; and either tmux retained the status, no signal, and the process is gone,
  or tmux retained nothing and two readings of \<open>/proc\<close> around a second look at the whole pane show the
  same zombie with that wait status (or show it reaped and tmux then agrees); and at the end the dead
  topology again. The status is within 0 and 255.\<close>

theorem clean_exit_is_proven:
  assumes "provider_exit_status_with_cwd_proof H (system_runtime H paths) p cwd promoted tr = (Inr s, tr')"
  shows "\<exists>shape placed evidence shape'. tr' = tr @ shape @ placed @ evidence @ shape' \<and>
    topology_shown paths True shape \<and> pane_placed paths p cwd promoted placed \<and>
    exit_proven paths p cwd promoted s evidence \<and> topology_shown paths True shape'"
  using exit_status_Inr [OF assms] .

text \<open>A host on which the provider 41 ended with status 0 and was reaped.\<close>

definition exited_answer :: "string \<Rightarrow> string" where
  "exited_answer format =
     (if format = ''#{session_name}'' then ''wsnav-1'' @ [newline]
      else if format = ''#{window_index}|#{window_name}|#{window_panes}'' then ''0|provider|1'' @ [newline]
      else if format = ''#{pane_index}|#{pane_dead}'' then ''0|1'' @ [newline]
      else if format = ''#{pane_pid}'' then ''41'' @ [newline]
      else if format = ''#{pane_start_path}'' then ''/w'' @ [newline]
      else if format = ''#{pane_dead_status}'' then ''0'' @ [newline] else [newline])"

definition exited_host :: host where
  "exited_host = sample_host
     \<lparr> h_stat := (\<lambda>tr p. Inl absent_error),
       h_run := (\<lambda>tr c. Inr \<lparr> co_success = True, co_stdout = exited_answer (last (cc_arguments c)), co_stderr = [] \<rparr>) \<rparr>"

lemma lossy_ascii: "list_all (\<lambda>c. (of_char c :: nat) < 128) s \<Longrightarrow> from_utf8_lossy s = s"
  by (induction s) (subst from_utf8_lossy.simps, simp add: utf8_width_def Let_def)+

lemma exited_ascii: "list_all (\<lambda>c. (of_char c :: nat) < 128) (exited_answer f)" "length (exited_answer f) \<le> 20"
  by (simp_all add: exited_answer_def newline_def)

lemma exited_tmux:
  "system_tmux exited_host ''tmux'' v tr =
     (Inr \<lparr> tr_success = True, tr_stdout = exited_answer (last (cc_arguments (tmux_command ''tmux'' v))), tr_stderr = [] \<rparr>,
      tr @ [CommandRun (tmux_command ''tmux'' v)
        (Inr \<lparr> co_success = True, co_stdout = exited_answer (last (cc_arguments (tmux_command ''tmux'' v))), co_stderr = [] \<rparr>)])"
  using exited_ascii(2) [of "last (cc_arguments (tmux_command ''tmux'' v))"]
  by (simp add: system_tmux_def mapped_def run_command_def exited_host_def response_from_output_def
      max_tmux_output_bytes_def lossy_ascii exited_ascii(1) Let_def)

lemmas exited_text_defs = text_lines_def without_cr_def newline_def carriage_return_def trim_end_breaks_def
  line_break_def Let_def

lemma fst_then_do:
  "fst (then_do m k tr) = (case fst (m tr) of Inl e \<Rightarrow> Inl e | Inr x \<Rightarrow> fst (k x (snd (m tr))))"
  by (cases "m tr") (simp add: then_do_def split: sum.split)

lemma mapped_fst [simp]: "fst (mapped f m tr) = f (fst (m tr))" "snd (mapped f m tr) = snd (m tr)"
  by (simp_all add: mapped_def split: prod.split)

lemma give_fst [simp]: "fst (give x tr) = x"
  by (simp add: give_def)

abbreviation exited_runtime :: private_runtime where
  "exited_runtime \<equiv> system_runtime exited_host sample_paths"

lemma exited_calls:
  "fst (validate_exact_topology_with_pane_state exited_runtime True tr) = Inr ()"
  "fst (exact_pane_pid exited_runtime t tr) = Inr 41"
  "fst (exact_pane_start_path exited_runtime t tr) = Inr ''/w''"
  "fst (retained_pane_exit_status (system_tmux exited_host ''tmux'') socket t tr) = Inr (Some 0)"
  "fst (process_birth_checked exited_host p tr) = Inr None"
proof -
  show "fst (validate_exact_topology_with_pane_state exited_runtime True tr) = Inr ()"
    by (simp add: validate_exact_topology_with_pane_state_def topology_questions_def fst_then_do invoke_def exited_tmux
        tmux_command_def on_socket_def exited_answer_def answers_exactly_def exited_text_defs sample_paths_def)
  show "fst (exact_pane_pid exited_runtime t tr) = Inr 41"
    by (simp add: exact_pane_pid_def read_exact_pane_field_def read_pane_field_def fst_then_do exited_tmux
        tmux_command_def on_socket_def exited_answer_def parse_single_pane_fact_def exited_text_defs parse_u32_def all_digits_def digits_value_def)
  show "fst (exact_pane_start_path exited_runtime t tr) = Inr ''/w''"
    by (simp add: exact_pane_start_path_def read_exact_pane_field_def read_pane_field_def fst_then_do exited_tmux
        tmux_command_def on_socket_def exited_answer_def parse_single_pane_fact_def exited_text_defs)
  show "fst (retained_pane_exit_status (system_tmux exited_host ''tmux'') socket t tr) = Inr (Some 0)"
    by (simp add: retained_pane_exit_status_def read_optional_pane_field_def fst_then_do exited_tmux
        tmux_command_def on_socket_def exited_answer_def exited_text_defs parse_i32_def all_digits_def digits_value_def)
  show "fst (process_birth_checked exited_host p tr) = Inr None"
    by (simp add: process_birth_checked_def read_linux_process_stat_with_scope_def read_stat_def
        Let_def exited_host_def stat_result_def entry_vanished_def absent_error_def)
qed

lemma exited_status:
  "fst (provider_exit_status_with_cwd_proof exited_host exited_runtime 41 ''/w'' None tr) = Inr 0"
  by (simp add: provider_exit_status_with_cwd_proof_def fst_then_do exited_calls path_is_absolute_def
      starts_with_def path_eq_def Let_def)

lemma clean_exit_is_proven_witness:
  "\<exists>tr' shape placed evidence shape'.
     provider_exit_status_with_cwd_proof exited_host exited_runtime 41 ''/w'' None [] = (Inr 0, tr') \<and>
     tr' = shape @ placed @ evidence @ shape' \<and> pane_placed sample_paths 41 ''/w'' None placed \<and>
     exit_proven sample_paths 41 ''/w'' None 0 evidence"
proof -
  obtain tr' where run: "provider_exit_status_with_cwd_proof exited_host exited_runtime 41 ''/w'' None [] = (Inr 0, tr')"
    using exited_status by (metis prod.exhaust_sel)
  from clean_exit_is_proven [OF run] run show ?thesis by auto
qed

end
