(* ===== verification/Profile.thy ===== *)
theory Profile
  imports Private_Runtime Host
begin

text \<open>
  \<open>src/provider/codex/profile.rs\<close>: the one file in the home of Codex that the program may write, and
  what it accepts there. The file has three regions: settings of the provider, the declaration of the
  program, and the state that Codex appends when the user trusts the declared hooks. The TOML parser
  and SHA-256 are parameters; a failing call of the disk is an answer of its world.
\<close>

section \<open>The disk\<close>

text \<open>A name leads to a file, to something else, or through a symbolic link to one of these or nothing.\<close>

datatype disk_target = FileTarget string | OtherTarget
datatype disk_node = Plain disk_target | Link "disk_target option"

type_synonym disk = "string \<Rightarrow> disk_node option"

datatype disk_step =
    InspectPath | ReadPath | RemovePath | MakeParent | CreateTemporary | SetTemporaryMode
  | WriteTemporary | SyncTemporary | RenameTemporary

record disk_world =
  dw_fault :: "disk_step \<Rightarrow> io_error option"
  dw_nanos :: "nat option"

datatype profile_error =
    ClockBeforeEpoch
  | ForeignPath string
  | ProfileIo io_error
  | InvalidPath string
  | MissingOwnedPath string
  | ModifiedPath string
  | OwnershipMismatch
  | UnsupportedSchema
  | NativeTrustPending

definition absent_file :: io_error where
  "absent_file = \<lparr> io_kind = NotFound, io_errno = Some 2, io_text = ''No such file or directory'' \<rparr>"

definition not_a_file :: io_error where
  "not_a_file = \<lparr> io_kind = OtherKind, io_errno = Some 21, io_text = ''Is a directory'' \<rparr>"

text \<open>What a name leads to when links are followed (\<open>fs::metadata\<close>, \<open>Path::exists\<close>, \<open>Path::is_file\<close>).\<close>

definition followed :: "disk \<Rightarrow> string \<Rightarrow> disk_target option" where
  "followed d p = (case d p of None \<Rightarrow> None | Some (Plain t) \<Rightarrow> Some t | Some (Link t) \<Rightarrow> t)"

definition disk_exists :: "disk_world \<Rightarrow> disk \<Rightarrow> string \<Rightarrow> bool" where
  "disk_exists W d p \<longleftrightarrow> dw_fault W InspectPath = None \<and> followed d p \<noteq> None"

definition disk_is_file :: "disk_world \<Rightarrow> disk \<Rightarrow> string \<Rightarrow> bool" where
  "disk_is_file W d p \<longleftrightarrow> dw_fault W InspectPath = None \<and> (\<exists>c. followed d p = Some (FileTarget c))"

definition symlink_metadata :: "disk_world \<Rightarrow> disk \<Rightarrow> string \<Rightarrow> (io_error, disk_node) result" where
  "symlink_metadata W d p =
     (case dw_fault W InspectPath of Some e \<Rightarrow> Inl e | None \<Rightarrow> ok_or (d p) absent_file)"

definition read_file :: "disk_world \<Rightarrow> disk \<Rightarrow> string \<Rightarrow> (io_error, string) result" where
  "read_file W d p =
     (case dw_fault W ReadPath of
        Some e \<Rightarrow> Inl e
      | None \<Rightarrow>
          (case followed d p of
             None \<Rightarrow> Inl absent_file
           | Some OtherTarget \<Rightarrow> Inl not_a_file
           | Some (FileTarget c) \<Rightarrow> Inr c))"

text \<open>
  The replacement of a file: the content goes to a fresh file beside it, which is then renamed. A
  failing step leaves what the earlier steps did (a failing write is taken to leave the fresh file
  empty); only the last one touches the name itself.
\<close>

definition temporary_name :: "string \<Rightarrow> nat \<Rightarrow> string" where
  "temporary_name parent nanos = path_join parent (''.wsnav-observer-'' @ nat_text nanos @ ''.tmp'')"

definition step_fault :: "disk_world \<Rightarrow> disk_step \<Rightarrow> (profile_error, unit) result" where
  "step_fault W k = (case dw_fault W k of Some e \<Rightarrow> Inl (ProfileIo e) | None \<Rightarrow> Inr ())"

definition already_there :: io_error where
  "already_there = \<lparr> io_kind = OtherKind, io_errno = Some 17, io_text = ''File exists'' \<rparr>"

definition atomic_private_write ::
  "disk_world \<Rightarrow> string \<Rightarrow> string \<Rightarrow> disk \<Rightarrow> (profile_error, unit) result \<times> disk" where
  "atomic_private_write W p content d =
     (case path_parent p of
        None \<Rightarrow> (Inl (InvalidPath p), d)
      | Some parent \<Rightarrow>
          (case (step_fault W MakeParent, dw_nanos W) of
             (Inl e, _) \<Rightarrow> (Inl e, d)
           | (Inr _, None) \<Rightarrow> (Inl ClockBeforeEpoch, d)
           | (Inr _, Some nanos) \<Rightarrow>
               let t = temporary_name parent nanos
               in if d t \<noteq> None then (Inl (ProfileIo already_there), d)
                  else
                    (case step_fault W CreateTemporary of
                       Inl e \<Rightarrow> (Inl e, d)
                     | Inr _ \<Rightarrow>
                         let created = d(t \<mapsto> Plain (FileTarget []));
                             written = d(t \<mapsto> Plain (FileTarget content))
                         in (case and_then (step_fault W SetTemporaryMode) (\<lambda>_. step_fault W WriteTemporary) of
                               Inl e \<Rightarrow> (Inl e, created)
                             | Inr _ \<Rightarrow>
                                 (case and_then (step_fault W SyncTemporary) (\<lambda>_. step_fault W RenameTemporary) of
                                    Inl e \<Rightarrow> (Inl e, written)
                                  | Inr _ \<Rightarrow> (Inr (), written(t := None, p := Some (Plain (FileTarget content)))))))))"

section \<open>The declaration\<close>

datatype toml =
    TString string
  | TInteger int
  | TBool bool
  | TTable "(string \<times> toml) list"
  | TOther

type_synonym toml_table = "(string \<times> toml) list"

record profile_env =
  pe_env :: env
  pe_crypto :: crypto
  pe_toml :: "string \<Rightarrow> toml_table option"

record observer_profile =
  ob_home :: string
  ob_executable :: string
  ob_root :: string

definition observer_profile_schema_version :: "8 word" where "observer_profile_schema_version = 2"
definition max_provider_prefix_bytes :: nat where "max_provider_prefix_bytes = 4096"
definition max_provider_scalar_bytes :: nat where "max_provider_scalar_bytes = 256"
definition max_model_availability_nux_counter :: int where "max_model_availability_nux_counter = 4294967295"
definition max_model_slug_bytes :: nat where "max_model_slug_bytes = 128"

definition provider_settings :: "string list" where
  "provider_settings = [''model'', ''model_reasoning_effort'']"

definition profile_marker :: string where
  "profile_marker = ''# Managed by Workstream Navigator. Do not edit manually.'' @ [newline]"

definition profile_path :: "observer_profile \<Rightarrow> string" where
  "profile_path B = path_join (ob_home B) (observer_profile_name @ ''.config.toml'')"

definition double_quoted :: "string \<Rightarrow> string" where
  "double_quoted s = CHR 0x22 # s @ [CHR 0x22]"

text \<open>\<open>value.replace("'", "'\"'\"'")\<close>: what stands for a single quote is seven characters.\<close>

definition single_quote :: char where "single_quote = CHR 0x27"
definition backslash :: char where "backslash = CHR 0x5C"

definition escaped_quote :: string where
  "escaped_quote = [single_quote, backslash, CHR 0x22, single_quote, backslash, CHR 0x22, single_quote]"

definition shell_quote_argument :: "string \<Rightarrow> string" where
  "shell_quote_argument p =
     single_quote # concat (map (\<lambda>c. if c = single_quote then escaped_quote else [c]) (from_utf8_lossy p))
       @ [single_quote]"

definition hook_shell_command :: "observer_profile \<Rightarrow> string" where
  "hook_shell_command B =
     shell_quote_argument (ob_executable B) @ '' --state-root '' @ shell_quote_argument (ob_root B) @ '' _hook''"

definition toml_string :: "env \<Rightarrow> string \<Rightarrow> string" where
  "toml_string E s = json_text E (JString s)"

definition hook_command :: "env \<Rightarrow> observer_profile \<Rightarrow> string" where
  "hook_command E B = toml_string E (hook_shell_command B)"

definition text_of_lines :: "string list \<Rightarrow> string" where
  "text_of_lines ls = concat (map (\<lambda>l. l @ [newline]) ls)"

definition hook_entry :: "string \<Rightarrow> string \<Rightarrow> string option \<Rightarrow> string list" where
  "hook_entry command event matcher =
     [''[[hooks.'' @ event @ '']]''] @
     (case matcher of None \<Rightarrow> [] | Some m \<Rightarrow> [''matcher = '' @ double_quoted m]) @
     [''[[hooks.'' @ event @ ''.hooks]]'', ''type = '' @ double_quoted ''command'', ''command = '' @ command,
      ''timeout = 3'']"

definition rendered :: "env \<Rightarrow> observer_profile \<Rightarrow> string" where
  "rendered E B =
     (let command = hook_command E B
      in profile_marker @ text_of_lines (
           [''[features]'', ''hooks = true'', []] @
           hook_entry command ''SessionStart'' (Some ''startup|resume|clear|compact'') @ [[]] @
           hook_entry command ''UserPromptSubmit'' None @ [[]] @
           hook_entry command ''Stop'' None @ [[]] @
           hook_entry command ''SessionEnd'' (Some ''other'')))"

definition content_hash :: "profile_env \<Rightarrow> string \<Rightarrow> string" where
  "content_hash V s = hex_bytes (sha256 (pe_crypto V) s)"

section \<open>The regions of the file\<close>

fun find_text :: "string \<Rightarrow> string \<Rightarrow> nat option" where
  "find_text pat [] = (if pat = [] then Some 0 else None)"
| "find_text pat (c # s) = (if starts_with pat (c # s) then Some 0 else map_option Suc (find_text pat s))"

definition validate_provider_prefix :: "profile_env \<Rightarrow> string \<Rightarrow> string \<Rightarrow> (profile_error, unit) result" where
  "validate_provider_prefix V prefix p =
     (if prefix = [] then Inr ()
      else
        and_then (ok_or (pe_toml V prefix) (ModifiedPath p)) (\<lambda>table.
        if table = [] \<or> (\<exists>k \<in> set (map fst table). k \<notin> set provider_settings) then Inl (ModifiedPath p)
        else if (\<exists>v \<in> set (map snd table).
            case v of TString s \<Rightarrow> s = [] \<or> max_provider_scalar_bytes < length s | _ \<Rightarrow> True)
        then Inl (ModifiedPath p)
        else Inr ()))"

definition split_provider_prefix ::
  "profile_env \<Rightarrow> string \<Rightarrow> string \<Rightarrow> (profile_error, string \<times> string) result" where
  "split_provider_prefix V content p =
     (case find_text profile_marker content of
        None \<Rightarrow> Inl (ModifiedPath p)
      | Some i \<Rightarrow>
          if find_text profile_marker (drop (i + length profile_marker) content) \<noteq> None
             \<or> (0 < i \<and> last (take i content) \<noteq> newline)
          then Inl (ModifiedPath p)
          else if max_provider_prefix_bytes < length (take i content) then Inl (ModifiedPath p)
          else
            and_then (validate_provider_prefix V (take i content) p) (\<lambda>_.
            Inr (take i content, drop i content)))"

section \<open>The state that Codex appends\<close>

primrec toml_table_of :: "toml \<Rightarrow> toml_table option" where
  "toml_table_of (TString s) = None"
| "toml_table_of (TInteger i) = None"
| "toml_table_of (TBool b) = None"
| "toml_table_of (TTable t) = Some t"
| "toml_table_of TOther = None"

definition hex_letter :: "char \<Rightarrow> bool" where
  "hex_letter c \<longleftrightarrow>
     (CHR ''0'' \<le> c \<and> c \<le> CHR ''9'') \<or> (CHR ''a'' \<le> c \<and> c \<le> CHR ''f'') \<or> (CHR ''A'' \<le> c \<and> c \<le> CHR ''F'')"

definition is_sha256 :: "string \<Rightarrow> bool" where
  "is_sha256 s =
     (case strip_prefix ''sha256:'' s of None \<Rightarrow> False | Some h \<Rightarrow> length h = 64 \<and> list_all hex_letter h)"

definition accepts_hook_record :: "toml \<Rightarrow> bool" where
  "accepts_hook_record v =
     (case toml_table_of v of
        None \<Rightarrow> False
      | Some t \<Rightarrow>
          if length t \<noteq> 1 \<and> (length t \<noteq> 2 \<or> map_of t ''enabled'' = None) then False
          else
            (case map_of t ''trusted_hash'' of Some (TString h) \<Rightarrow> is_sha256 h | _ \<Rightarrow> False) \<and>
            (case map_of t ''enabled'' of None \<Rightarrow> True | Some e \<Rightarrow> e = TBool True))"

definition hook_keys :: "string list" where
  "hook_keys = [''session_start:0:0'', ''user_prompt_submit:0:0'', ''stop:0:0'', ''session_end:0:0'']"

definition hook_prefix :: "string \<Rightarrow> string" where
  "hook_prefix p = from_utf8_lossy p @ '':''"

definition accepts_hook_state :: "string \<Rightarrow> toml \<Rightarrow> bool" where
  "accepts_hook_state p v =
     (case toml_table_of v of
        None \<Rightarrow> False
      | Some hooks \<Rightarrow>
          length hooks = 1 \<and>
          (case Option.bind (map_of hooks ''state'') toml_table_of of
             None \<Rightarrow> False
           | Some state \<Rightarrow>
               state \<noteq> [] \<and>
               list_all (\<lambda>(key, record).
                 (case strip_prefix (hook_prefix p) key of
                    None \<Rightarrow> False
                  | Some hook \<Rightarrow> hook \<in> set hook_keys \<and> accepts_hook_record record)) state))"

definition accepts_project_trust :: "toml \<Rightarrow> bool" where
  "accepts_project_trust v =
     (case toml_table_of v of
        None \<Rightarrow> False
      | Some projects \<Rightarrow>
          projects \<noteq> [] \<and>
          list_all (\<lambda>(project, record). project \<noteq> [] \<and>
            (case toml_table_of record of
               None \<Rightarrow> False
             | Some t \<Rightarrow> length t = 1 \<and> map_of t ''trust_level'' = Some (TString ''trusted''))) projects)"

definition slug_char :: "char \<Rightarrow> bool" where
  "slug_char c \<longleftrightarrow> (CHR ''a'' \<le> c \<and> c \<le> CHR ''z'') \<or> (CHR ''0'' \<le> c \<and> c \<le> CHR ''9'')"

definition is_codex_model_slug :: "string \<Rightarrow> bool" where
  "is_codex_model_slug s \<longleftrightarrow>
     s \<noteq> [] \<and> length s \<le> max_model_slug_bytes \<and>
     list_all (\<lambda>seg. seg \<noteq> [] \<and> list_all slug_char seg)
       (concat (map (split_on CHR ''.'') (split_on CHR ''-'' s)))"

definition accepts_model_availability_nux :: "toml \<Rightarrow> bool" where
  "accepts_model_availability_nux v =
     (case toml_table_of v of
        None \<Rightarrow> False
      | Some tui \<Rightarrow>
          length tui = 1 \<and>
          (case Option.bind (map_of tui ''model_availability_nux'') toml_table_of of
             None \<Rightarrow> False
           | Some counters \<Rightarrow>
               counters \<noteq> [] \<and>
               list_all (\<lambda>(model, n). is_codex_model_slug model \<and>
                 (case n of TInteger i \<Rightarrow> 0 \<le> i \<and> i \<le> max_model_availability_nux_counter | _ \<Rightarrow> False)) counters))"

definition accepts_native_state_suffix :: "toml_table \<Rightarrow> string \<Rightarrow> bool" where
  "accepts_native_state_suffix suffix p \<longleftrightarrow>
     suffix \<noteq> [] \<and> set (map fst suffix) \<subseteq> {''hooks'', ''projects'', ''tui''} \<and>
     (case map_of suffix ''hooks'' of None \<Rightarrow> True | Some v \<Rightarrow> accepts_hook_state p v) \<and>
     (case map_of suffix ''projects'' of None \<Rightarrow> True | Some v \<Rightarrow> accepts_project_trust v) \<and>
     (case map_of suffix ''tui'' of None \<Rightarrow> True | Some v \<Rightarrow> accepts_model_availability_nux v)"

definition has_complete_hook_trust :: "toml_table \<Rightarrow> string \<Rightarrow> bool" where
  "has_complete_hook_trust suffix p =
     (case Option.bind (Option.bind (Option.bind (map_of suffix ''hooks'') toml_table_of)
             (\<lambda>hooks. map_of hooks ''state'')) toml_table_of of
        None \<Rightarrow> False
      | Some state \<Rightarrow>
          length state = length hook_keys \<and>
          list_all (\<lambda>entry. case map_of state (hook_prefix p @ entry) of
             None \<Rightarrow> False | Some r \<Rightarrow> accepts_hook_record r) hook_keys)"

section \<open>The owner of the file\<close>

record owned_document =
  od_prefix :: string
  od_suffix :: "toml_table option"

definition declaration_for :: "env \<Rightarrow> observer_profile \<Rightarrow> profile_ownership \<Rightarrow> (profile_error, string) result" where
  "declaration_for E B own =
     (if po_schema own \<noteq> observer_profile_schema_version then Inl UnsupportedSchema
      else if \<not> path_eq (po_hook own) (ob_executable B) then Inl OwnershipMismatch
      else Inr (rendered E B))"

definition read_owned_document ::
  "profile_env \<Rightarrow> disk_world \<Rightarrow> observer_profile \<Rightarrow> profile_ownership \<Rightarrow> string \<Rightarrow> disk
     \<Rightarrow> (profile_error, owned_document) result" where
  "read_owned_document V W B own expected_hash d =
     (let p = profile_path B
      in if \<not> path_eq (po_path own) p \<or> po_hash own \<noteq> expected_hash then Inl OwnershipMismatch
         else
           and_then (map_err ProfileIo (read_file W d p)) (\<lambda>content.
           if \<not> valid_utf8 content then Inl (ModifiedPath p)
           else
             and_then (split_provider_prefix V content p) (\<lambda>(prefix, rest).
             and_then (declaration_for (pe_env V) B own) (\<lambda>declared.
             case strip_prefix declared rest of
               None \<Rightarrow> Inl (ModifiedPath p)
             | Some native \<Rightarrow>
                 if native = [] then Inr \<lparr> od_prefix = prefix, od_suffix = None \<rparr>
                 else
                   and_then (ok_or (pe_toml V native) (ModifiedPath p)) (\<lambda>suffix.
                   if accepts_native_state_suffix suffix p
                   then Inr \<lparr> od_prefix = prefix, od_suffix = Some suffix \<rparr>
                   else Inl (ModifiedPath p))))))"

definition verify_owned_document ::
  "profile_env \<Rightarrow> disk_world \<Rightarrow> observer_profile \<Rightarrow> profile_ownership \<Rightarrow> string \<Rightarrow> disk \<Rightarrow> (profile_error, unit) result" where
  "verify_owned_document V W B own expected_hash d =
     and_then (read_owned_document V W B own expected_hash d) (\<lambda>_. Inr ())"

definition owned_native_suffix ::
  "profile_env \<Rightarrow> disk_world \<Rightarrow> observer_profile \<Rightarrow> profile_ownership \<Rightarrow> string \<Rightarrow> disk
     \<Rightarrow> (profile_error, toml_table option) result" where
  "owned_native_suffix V W B own expected_hash d =
     and_then (read_owned_document V W B own expected_hash d) (\<lambda>document. Inr (od_suffix document))"

definition verify_native_trust ::
  "profile_env \<Rightarrow> disk_world \<Rightarrow> observer_profile \<Rightarrow> profile_ownership \<Rightarrow> disk \<Rightarrow> (profile_error, unit) result" where
  "verify_native_trust V W B own d =
     (if po_schema own \<noteq> observer_profile_schema_version then Inl UnsupportedSchema
      else
        and_then (owned_native_suffix V W B own (content_hash V (rendered (pe_env V) B)) d) (\<lambda>suffix.
        case suffix of
          Some t \<Rightarrow> if has_complete_hook_trust t (profile_path B) then Inr () else Inl NativeTrustPending
        | None \<Rightarrow> Inl NativeTrustPending))"

datatype profile_inspection =
  ProfileMissing | ProfileForeign | ProfileModified | ProfileUpdateRequired | ProfileTrustPending | ProfileReady

definition previous_profile :: "observer_profile \<Rightarrow> profile_ownership \<Rightarrow> observer_profile" where
  "previous_profile B own = B\<lparr> ob_executable := po_hook own \<rparr>"

definition current_contract :: "profile_env \<Rightarrow> observer_profile \<Rightarrow> profile_ownership \<Rightarrow> bool" where
  "current_contract V B own \<longleftrightarrow>
     po_schema own = observer_profile_schema_version \<and> path_eq (po_hook own) (ob_executable B) \<and>
     po_hash own = content_hash V (rendered (pe_env V) B)"

text \<open>A refused read is a changed file, unless the disk failed.\<close>

definition io_or :: "(profile_error, 'a) result \<Rightarrow> ('a \<Rightarrow> 'b) \<Rightarrow> 'b \<Rightarrow> (profile_error, 'b) result" where
  "io_or r f refused =
     (case r of Inr x \<Rightarrow> Inr (f x) | Inl (ProfileIo e) \<Rightarrow> Inl (ProfileIo e) | Inl _ \<Rightarrow> Inr refused)"

definition inspect_profile ::
  "profile_env \<Rightarrow> disk_world \<Rightarrow> observer_profile \<Rightarrow> profile_ownership option \<Rightarrow> disk
     \<Rightarrow> (profile_error, profile_inspection) result" where
  "inspect_profile V W B existing d =
     (let p = profile_path B
      in and_then (case symlink_metadata W d p of
             Inr m \<Rightarrow> Inr (Some m)
           | Inl e \<Rightarrow> if io_kind e = NotFound then Inr None else Inl (ProfileIo e)) (\<lambda>metadata.
         case existing of
           None \<Rightarrow> Inr (if metadata \<noteq> None then ProfileForeign else ProfileMissing)
         | Some own \<Rightarrow>
             if \<not> path_eq (po_path own) p then Inr ProfileForeign
             else
               (case metadata of
                  None \<Rightarrow> Inr ProfileMissing
                | Some node \<Rightarrow>
                    if \<not> (\<exists>c. node = Plain (FileTarget c)) then Inr ProfileModified
                    else if \<not> current_contract V B own then
                      if po_schema own \<noteq> observer_profile_schema_version then Inr ProfileModified
                      else
                        (case declaration_for (pe_env V) (previous_profile B own) own of
                           Inl _ \<Rightarrow> Inr ProfileModified
                         | Inr declared \<Rightarrow>
                             io_or (read_owned_document V W (previous_profile B own) own (content_hash V declared) d)
                               (\<lambda>_. ProfileUpdateRequired) ProfileModified)
                    else
                      io_or (owned_native_suffix V W B own (content_hash V (rendered (pe_env V) B)) d)
                        (\<lambda>suffix.
                           (case suffix of
                              Some t \<Rightarrow> if has_complete_hook_trust t p then ProfileReady else ProfileTrustPending
                            | None \<Rightarrow> ProfileTrustPending)) ProfileModified)))"

text \<open>The operations that may write; the result comes with the disk that they leave.\<close>

definition install_profile ::
  "profile_env \<Rightarrow> disk_world \<Rightarrow> observer_profile \<Rightarrow> string \<Rightarrow> profile_ownership option \<Rightarrow> disk
     \<Rightarrow> (profile_error, profile_ownership) result \<times> disk" where
  "install_profile V W B owner existing d =
     (let p = profile_path B; content = rendered (pe_env V) B
      in if disk_exists W d p then
           (case existing of
              None \<Rightarrow> (Inl (ForeignPath p), d)
            | Some own \<Rightarrow>
                (if \<not> path_eq (po_path own) p \<or> \<not> path_eq (po_hook own) (ob_executable B) then Inl OwnershipMismatch
                 else if po_schema own \<noteq> observer_profile_schema_version then Inl UnsupportedSchema
                 else and_then (verify_owned_document V W B own (content_hash V content) d) (\<lambda>_. Inr own), d))
         else if existing \<noteq> None then (Inl (MissingOwnedPath p), d)
         else
           (case atomic_private_write W p content d of (r, d') \<Rightarrow>
              (and_then r (\<lambda>_. Inr \<lparr> po_path = p, po_owner = owner, po_schema = observer_profile_schema_version,
                 po_hook = ob_executable B, po_hash = content_hash V content \<rparr>), d')))"

definition remove_profile ::
  "profile_env \<Rightarrow> disk_world \<Rightarrow> observer_profile \<Rightarrow> profile_ownership \<Rightarrow> disk
     \<Rightarrow> (profile_error, unit) result \<times> disk" where
  "remove_profile V W B own d =
     (let p = profile_path B
      in if \<not> path_eq (po_path own) p \<or> \<not> path_eq (po_hook own) (ob_executable B) then (Inl OwnershipMismatch, d)
         else if \<not> disk_is_file W d p then (Inl (MissingOwnedPath p), d)
         else
           (case and_then (declaration_for (pe_env V) B own) (\<lambda>declared.
                 read_owned_document V W B own (content_hash V declared) d) of
              Inl e \<Rightarrow> (Inl e, d)
            | Inr document \<Rightarrow>
                if od_prefix document = [] then
                  (case step_fault W RemovePath of Inl e \<Rightarrow> (Inl e, d) | Inr _ \<Rightarrow> (Inr (), d(p := None)))
                else atomic_private_write W p (od_prefix document) d))"

definition update_profile ::
  "profile_env \<Rightarrow> disk_world \<Rightarrow> observer_profile \<Rightarrow> profile_ownership \<Rightarrow> disk
     \<Rightarrow> (profile_error, profile_ownership) result \<times> disk" where
  "update_profile V W B own d =
     (let p = profile_path B; content = rendered (pe_env V) B; hash = content_hash V content
      in if \<not> path_eq (po_path own) p then (Inl OwnershipMismatch, d)
         else if po_schema own \<noteq> observer_profile_schema_version then (Inl UnsupportedSchema, d)
         else if path_eq (po_hook own) (ob_executable B) \<and> po_hash own = hash then
           (and_then (verify_owned_document V W B own hash d) (\<lambda>_. Inr own), d)
         else
           (case and_then (declaration_for (pe_env V) (previous_profile B own) own) (\<lambda>declared.
                 read_owned_document V W (previous_profile B own) own (content_hash V declared) d) of
              Inl e \<Rightarrow> (Inl e, d)
            | Inr document \<Rightarrow>
                (case atomic_private_write W p (od_prefix document @ content) d of (r, d') \<Rightarrow>
                   (and_then r (\<lambda>_. Inr \<lparr> po_path = p, po_owner = po_owner own,
                      po_schema = observer_profile_schema_version, po_hook = ob_executable B, po_hash = hash \<rparr>), d'))))"

end
