(* ===== verification/Action_State.thy ===== *)
theory Action_State
  imports Clean_Exit Group_Outcome ExecProof Profile
begin

text \<open>
  The actions of \<open>src/actions/\<close> work on the registry and on the processes of the host at once. Their
  state is the registry, the history of calls, and a log of the writes that the action itself has
  committed, each with the history at that moment. Other participants may commit between any two
  calls; a loop that never ends is \<open>None\<close>.
\<close>

section \<open>Errors\<close>

datatype action_error =
    ProviderReadiness string
  | UnsupportedProvider provider_kind
  | ProviderRecoveryUnavailable provider_kind
  | CodexHomeUnavailable
  | ActionIo io_error
  | NoRuntime uuid
  | NoProviderBinding uuid
  | ObserverNotInstalled
  | ObserverNotReady
  | RuntimeProbeAmbiguous
  | ProviderExited
  | OpenCodeProviderReadinessTimeout
  | OpenCodeObserverReadinessTimeout
  | OpenCodeObserverStartupFailed
  | OpenCodeObserverIdentityChanged
  | OpenCodeObserverExitedBeforeReady
  | NativeRecoveryRequired
  | NativeRecoveryUnavailable
  | UnknownWorkstreamAction
  | WorkstreamArchivedAction
  | WorkstreamAlreadyArchivedAction
  | WorkstreamNotArchivedAction
  | WorkstreamRevisionConflict
  | OpenCodeSessionCreationExternalEffectUnknown
  | ProfileFailed profile_error
  | AppServerFailed string
  | OpenCodeFailed string
  | RuntimeFailed runtime_error
  | StateFailed state_error

datatype start_outcome = Started | AlreadyLive | Reconciled

section \<open>Where an action runs\<close>

text \<open>
  \<open>si_others\<close> is what other participants have committed to a registry by the time of a history;
  \<open>si_clock\<close> reads the wall clock.
\<close>

record site =
  si_env :: env
  si_root :: current_state
  si_host :: host
  si_others :: "history \<Rightarrow> registry \<Rightarrow> registry"
  si_clock :: "history \<Rightarrow> nat option"

text \<open>The writes of an action, by the operation and what it was called with.\<close>

datatype registry_write =
    WroteParked uuid int
  | WroteStopped uuid int
  | WroteRecovery uuid int
  | WroteBackfill uuid int pid32 string
  | WroteIdentity uuid int pid32 string
  | WroteHandleGone uuid string
  | WroteArchived uuid int
  | WroteRestored uuid int
  | WroteForgotten uuid int
  | WroteCreated uuid
  | WroteReserved uuid
  | WroteReconciled uuid int
  | WroteIntegration
  | WroteBinding uuid
  | WroteHandle uuid
  | WroteObserver uuid int
  | WroteObserverUnknown uuid
  | WroteJournal

record act_state =
  as_db :: registry
  as_trace :: history
  as_log :: "(registry_write \<times> history) list"

type_synonym 'a action = "act_state \<Rightarrow> ((action_error, 'a) result \<times> act_state) option"

section \<open>Steps\<close>

definition yields :: "'a \<Rightarrow> 'a action" where "yields x s = Some (Inr x, s)"
definition fails :: "action_error \<Rightarrow> 'a action" where "fails e s = Some (Inl e, s)"

definition settle :: "(action_error, 'a) result \<Rightarrow> 'a action" where "settle r s = Some (r, s)"

text \<open>\<open>let x = m?; k(x)\<close>, and \<open>match m { ... }\<close>.\<close>

definition and_next :: "'a action \<Rightarrow> ('a \<Rightarrow> 'b action) \<Rightarrow> 'b action" where
  "and_next m k s =
     (case m s of
        None \<Rightarrow> None
      | Some (r, s') \<Rightarrow> (case r of Inl e \<Rightarrow> Some (Inl e, s') | Inr x \<Rightarrow> k x s'))"

definition outcome :: "'a action \<Rightarrow> ((action_error, 'a) result \<Rightarrow> 'b action) \<Rightarrow> 'b action" where
  "outcome m k s = (case m s of None \<Rightarrow> None | Some (r, s') \<Rightarrow> k r s')"

text \<open>Calls of the host.\<close>

definition hosted_run :: "'a run \<Rightarrow> 'a action" where
  "hosted_run m s =
     (case m (as_trace s) of
        None \<Rightarrow> None
      | Some (r, tr) \<Rightarrow> Some (map_err RuntimeFailed r, s\<lparr> as_trace := tr \<rparr>))"

definition hosted :: "'a act \<Rightarrow> 'a action" where
  "hosted m s = (case m (as_trace s) of (x, tr) \<Rightarrow> Some (Inr x, s\<lparr> as_trace := tr \<rparr>))"

abbreviation hosted_call :: "(runtime_error, 'a) result act \<Rightarrow> 'a action" where
  "hosted_call m \<equiv> hosted_run (once m)"

text \<open>Transactions of the registry; a reader over pages may loop.\<close>

definition current_db :: "site \<Rightarrow> act_state \<Rightarrow> registry" where
  "current_db W s = si_others W (as_trace s) (as_db s)"

definition reading :: "site \<Rightarrow> (registry \<Rightarrow> (state_error, 'a) result) \<Rightarrow> 'a action" where
  "reading W f s = Some (map_err StateFailed (f (current_db W s)), s\<lparr> as_db := current_db W s \<rparr>)"

definition reading_pages :: "site \<Rightarrow> (registry \<Rightarrow> (state_error, 'a) result option) \<Rightarrow> 'a action" where
  "reading_pages W f s =
     map_option (\<lambda>r. (map_err StateFailed r, s\<lparr> as_db := current_db W s \<rparr>)) (f (current_db W s))"

definition writing ::
  "site \<Rightarrow> registry_write \<Rightarrow> (registry \<Rightarrow> (state_error, 'a \<times> registry) result) \<Rightarrow> 'a action" where
  "writing W label f s =
     (case f (current_db W s) of
        Inl e \<Rightarrow> Some (Inl (StateFailed e), s\<lparr> as_db := current_db W s \<rparr>)
      | Inr (x, db) \<Rightarrow> Some (Inr x, s\<lparr> as_db := db, as_log := as_log s @ [(label, as_trace s)] \<rparr>))"

section \<open>Polling\<close>

text \<open>
  \<open>await_pending_exit_evidence_with\<close> and its like: look, stop when there is a result or the deadline
  has passed, sleep and look again. What the closure of the code carries from look to look is \<open>c\<close>.
\<close>

definition park_confirm_timeout :: nat where "park_confirm_timeout = 500000000"
definition park_confirm_poll_interval :: nat where "park_confirm_poll_interval = 10000000"

partial_function (option) polling ::
  "host \<Rightarrow> ('c \<Rightarrow> ('a + 'c) action) \<Rightarrow> nat \<Rightarrow> 'c \<Rightarrow> act_state
     \<Rightarrow> ((action_error, 'a option) result \<times> act_state) option" where
  "polling H look deadline c s =
     (case look c s of
        None \<Rightarrow> None
      | Some (r, s1) \<Rightarrow>
          (case r of
             Inl e \<Rightarrow> Some (Inl e, s1)
           | Inr v \<Rightarrow>
               (case v of
                  Inl x \<Rightarrow> Some (Inr (Some x), s1)
                | Inr c' \<Rightarrow>
                    (case clock_now H (as_trace s1) of (now, tr) \<Rightarrow>
                       if deadline \<le> now then Some (Inr None, s1\<lparr> as_trace := tr \<rparr>)
                       else polling H look deadline c'
                              (s1\<lparr> as_trace := snd (thread_sleep park_confirm_poll_interval tr) \<rparr>)))))"

definition poll_for :: "host \<Rightarrow> ('c \<Rightarrow> ('a + 'c) action) \<Rightarrow> 'c \<Rightarrow> 'a option action" where
  "poll_for H look c =
     and_next (hosted (clock_now H)) (\<lambda>now. polling H look (now + park_confirm_timeout) c)"

end
