(* ===== verification/Cleanup.thy ===== *)
theory Cleanup
  imports Action_State
begin

text \<open>
  \<open>src/actions/model.rs\<close> and \<open>src/actions/cleanup.rs\<close>: the look at a Workstream under its revision, the
  identity that a Runtime record carries, the stop of a recorded provider, and what an action writes
  when it could not finish.
\<close>

section \<open>Workstreams\<close>

definition find_overview :: "uuid \<Rightarrow> workstream_overview list \<Rightarrow> (action_error, workstream_overview) result" where
  "find_overview w overviews = ok_or (List.find (\<lambda>v. wo_workstream v = w) overviews) UnknownWorkstreamAction"

definition workstream_revision_of :: "site \<Rightarrow> uuid \<Rightarrow> int action" where
  "workstream_revision_of W w =
     and_next (reading_pages W (workstream_overviews (si_env W))) (\<lambda>overviews.
     settle (and_then (find_overview w overviews) (\<lambda>v. Inr (wo_revision v))))"

definition ensure_workstream_revision :: "site \<Rightarrow> uuid \<Rightarrow> int option \<Rightarrow> unit action" where
  "ensure_workstream_revision W w expected =
     (case expected of
        None \<Rightarrow> yields ()
      | Some e \<Rightarrow>
          and_next (workstream_revision_of W w) (\<lambda>current.
          if current \<noteq> e then fails WorkstreamRevisionConflict else yields ()))"

definition require_codex_provider :: "provider_kind \<Rightarrow> (action_error, unit) result" where
  "require_codex_provider provider = (if provider = Codex then Inr () else Inl (UnsupportedProvider provider))"

definition workstream_overview_authorized :: "site \<Rightarrow> uuid \<Rightarrow> catalog_authorization \<Rightarrow> workstream_overview action" where
  "workstream_overview_authorized W w auth =
     and_next (reading_pages W (workstream_overviews (si_env W))) (\<lambda>overviews.
     settle (and_then (find_overview w overviews) (\<lambda>v.
       if wo_archived v \<noteq> None \<and> \<not> permits_archived auth then Inl WorkstreamArchivedAction else Inr v)))"

definition active_workstream_overview :: "site \<Rightarrow> uuid \<Rightarrow> workstream_overview action" where
  "active_workstream_overview W w =
     and_next (workstream_overview_authorized W w ActiveOnly) (\<lambda>v.
     if wo_archived v \<noteq> None then fails WorkstreamArchivedAction else yields v)"

section \<open>The recorded process\<close>

definition provider_stop_timeout :: nat where "provider_stop_timeout = 2000000000"

definition observer_identity_matches :: "process_probe \<Rightarrow> pid32 \<Rightarrow> string \<Rightarrow> bool act" where
  "observer_identity_matches P p expected_birth =
     (if expected_birth = [] then give False
      else mapped (\<lambda>birth. birth = Some expected_birth) (process_birth P p))"

definition spawned_observer_identity_matches ::
  "opencode_runtime_handle \<Rightarrow> pid32 \<Rightarrow> string \<Rightarrow> process_probe \<Rightarrow> bool act" where
  "spawned_observer_identity_matches h p birth P =
     (if oh_observer_pid h = Some p \<and> oh_observer_birth h = Some birth
      then observer_identity_matches P p birth else give False)"

definition matches_recorded_runtime :: "runtime_record \<Rightarrow> runtime_probe \<Rightarrow> bool \<Rightarrow> bool" where
  "matches_recorded_runtime r seen require_starting \<longleftrightarrow>
     (require_starting \<longrightarrow> rr_status r = Starting) \<and>
     (case seen of
        ProbeLive _ p cwd (Some birth) \<Rightarrow> path_eq cwd (rr_cwd r) \<and> rr_pid r = Some p \<and> rr_birth r = Some birth
      | _ \<Rightarrow> False)"

definition attachment_runtime_matches :: "runtime_record \<Rightarrow> runtime_probe \<Rightarrow> bool" where
  "attachment_runtime_matches r seen = matches_recorded_runtime r seen False"

definition recorded_provider_identity :: "runtime_record \<Rightarrow> (action_error, pid32 \<times> string) result" where
  "recorded_provider_identity r =
     and_then (ok_or (rr_pid r) RuntimeProbeAmbiguous) (\<lambda>p.
     and_then (ok_or (rr_birth r) RuntimeProbeAmbiguous) (\<lambda>birth.
     if birth = [] then Inl RuntimeProbeAmbiguous else Inr (p, birth)))"

definition stop_recorded_provider :: "site \<Rightarrow> runtime_record \<Rightarrow> unit action" where
  "stop_recorded_provider W r =
     and_next (settle (recorded_provider_identity r)) (\<lambda>(p, birth).
     and_next (hosted_run (terminate_owned_provider_process (si_host W) p birth provider_stop_timeout)) (\<lambda>_.
     yields ()))"

definition stop_recorded_provider_if_present :: "site \<Rightarrow> runtime_record \<Rightarrow> unit action" where
  "stop_recorded_provider_if_present W r =
     (case (rr_pid r, rr_birth r) of
        (Some _, Some birth) \<Rightarrow> if birth \<noteq> [] then stop_recorded_provider W r else fails RuntimeProbeAmbiguous
      | (None, None) \<Rightarrow> yields ()
      | _ \<Rightarrow> fails RuntimeProbeAmbiguous)"

text \<open>The owner of the private server of a record, with \<open>RuntimePaths::for_record\<close>.\<close>

definition recorded_runtime :: "site \<Rightarrow> runtime_record \<Rightarrow> private_runtime action" where
  "recorded_runtime W r =
     settle (case runtime_paths_for_record (si_env W) (st_root (si_root W)) (rr_runtime r) (rr_session r) of
        Inl _ \<Rightarrow> Inl (RuntimeFailed RuntimeSessionMismatchError)
      | Inr paths \<Rightarrow> Inr (system_runtime (si_host W) paths))"

definition park_private :: "site \<Rightarrow> private_runtime \<Rightarrow> unit action" where
  "park_private W R = hosted_call (park_server (si_host W) R)"

definition clean_missing_stopped_runtime :: "site \<Rightarrow> private_runtime \<Rightarrow> runtime_record \<Rightarrow> unit action" where
  "clean_missing_stopped_runtime W R r =
     (if rr_status r \<noteq> Stopped then yields ()
      else
        (case (rr_pid r, rr_birth r) of
           (Some _, Some birth) \<Rightarrow>
             if birth \<noteq> [] then and_next (stop_recorded_provider W r) (\<lambda>_. park_private W R)
             else fails RuntimeProbeAmbiguous
         | (None, None) \<Rightarrow> park_private W R
         | _ \<Rightarrow> fails RuntimeProbeAmbiguous))"

definition park_and_stop_provider :: "site \<Rightarrow> private_runtime \<Rightarrow> pid32 \<Rightarrow> string \<Rightarrow> unit action" where
  "park_and_stop_provider W R p birth =
     and_next (hosted_run (terminate_owned_provider_process (si_host W) p birth provider_stop_timeout)) (\<lambda>_.
     park_private W R)"

definition park_and_stop_process_instance :: "site \<Rightarrow> private_runtime \<Rightarrow> pid32 \<Rightarrow> string \<Rightarrow> unit action" where
  "park_and_stop_process_instance W R p birth =
     and_next (hosted_run (terminate_owned_observer_process (si_host W) p birth provider_stop_timeout)) (\<lambda>_.
     park_private W R)"

definition stop_opencode_observer :: "site \<Rightarrow> opencode_runtime_handle \<Rightarrow> unit action" where
  "stop_opencode_observer W h =
     (case oh_observer_pid h of
        None \<Rightarrow> yields ()
      | Some p \<Rightarrow>
          (case oh_observer_birth h of
             None \<Rightarrow> fails RuntimeProbeAmbiguous
           | Some birth \<Rightarrow>
               if birth = [] then fails RuntimeProbeAmbiguous
               else
                 and_next (hosted_run (terminate_owned_observer_process (si_host W) p birth provider_stop_timeout))
                   (\<lambda>_. yields ())))"

section \<open>When an action cannot finish\<close>

abbreviation first_error :: "('e, 'a) result \<Rightarrow> ('e, 'b) result \<Rightarrow> ('e, 'b) result" where
  "first_error a b \<equiv> and_then a (\<lambda>_. b)"

definition prefer_cleanup_error :: "(action_error, unit) result \<Rightarrow> action_error \<Rightarrow> action_error" where
  "prefer_cleanup_error cleanup original = (case cleanup of Inl e \<Rightarrow> e | Inr _ \<Rightarrow> original)"

definition mark_recovery :: "site \<Rightarrow> runtime_record \<Rightarrow> unit action" where
  "mark_recovery W r =
     writing W (WroteRecovery (rr_runtime r) (rr_revision r))
       (mark_runtime_recovery_required (si_env W) (rr_runtime r) (rr_revision r))"

definition mark_stopped :: "site \<Rightarrow> runtime_record \<Rightarrow> unit action" where
  "mark_stopped W r =
     writing W (WroteStopped (rr_runtime r) (rr_revision r))
       (mark_runtime_stopped (si_env W) (rr_runtime r) (rr_revision r))"

text \<open>These end an action with the error that they return.\<close>

definition fail_unidentified_runtime_launch ::
  "site \<Rightarrow> private_runtime \<Rightarrow> runtime_record \<Rightarrow> action_error \<Rightarrow> 'a action" where
  "fail_unidentified_runtime_launch W R r original =
     outcome (park_private W R) (\<lambda>cleanup.
     outcome (mark_recovery W r) (\<lambda>recovery.
     fails (prefer_cleanup_error (first_error cleanup recovery) original)))"

definition fail_runtime_cleanup :: "site \<Rightarrow> runtime_record \<Rightarrow> action_error \<Rightarrow> 'a action" where
  "fail_runtime_cleanup W r original =
     outcome (mark_recovery W r) (\<lambda>recovery. fails (prefer_cleanup_error recovery original))"

definition fail_unlaunched_runtime :: "site \<Rightarrow> runtime_record \<Rightarrow> action_error \<Rightarrow> 'a action" where
  "fail_unlaunched_runtime W r original =
     outcome (mark_stopped W r) (\<lambda>stopped. fails (prefer_cleanup_error stopped original))"

definition fail_known_absent_opencode_session_creation ::
  "site \<Rightarrow> runtime_record \<Rightarrow> creation_operation \<Rightarrow> action_error \<Rightarrow> 'a action" where
  "fail_known_absent_opencode_session_creation W r prepared original =
     outcome (writing W WroteJournal
         (fail_opencode_session_creation (si_env W) prepared ''provider_effect_not_started'')) (\<lambda>journal.
     outcome (mark_stopped W r) (\<lambda>stopped.
     fails (prefer_cleanup_error (first_error journal stopped) original)))"

definition creation_effect_unknown ::
  "(action_error, 'a) result \<Rightarrow> 'b action" where
  "creation_effect_unknown journal =
     (case journal of
        Inr _ \<Rightarrow> fails OpenCodeSessionCreationExternalEffectUnknown
      | Inl e \<Rightarrow> fails e)"

definition fail_unknown_opencode_session_creation :: "site \<Rightarrow> creation_operation \<Rightarrow> 'a action" where
  "fail_unknown_opencode_session_creation W started =
     outcome (writing W WroteJournal (mark_creation_unknown (si_env W) started)) creation_effect_unknown"

definition fail_cleanup_unknown_opencode_session_creation :: "site \<Rightarrow> creation_operation \<Rightarrow> 'a action" where
  "fail_cleanup_unknown_opencode_session_creation W prepared =
     outcome (writing W WroteJournal (mark_creation_cleanup_unknown (si_env W) prepared)) creation_effect_unknown"

end
