(* ===== verification/Parking.thy ===== *)
theory Parking
  imports Cleanup
begin

text \<open>
  \<open>src/actions/lifecycle.rs\<close>: the stop of a Runtime, the proof that its provider ended by itself, the
  return from an attachment, and the catalog actions Archive, Restore and Forget.
\<close>

section \<open>Evidence\<close>

definition clean_provider_exit_status_with_cwd_proof ::
  "site \<Rightarrow> private_runtime \<Rightarrow> runtime_record \<Rightarrow> runtime_probe \<Rightarrow> string option \<Rightarrow> int option action" where
  "clean_provider_exit_status_with_cwd_proof W R r seen promoted =
     (case (case seen of
              ProbeLive _ _ _ (Some _) \<Rightarrow> None
            | ProbeMissing \<Rightarrow> None
            | ProbeLive _ p _ None \<Rightarrow> Some (Some p)
            | ProbeUnknown _ \<Rightarrow> Some None) of
        None \<Rightarrow> yields None
      | Some pane_pid \<Rightarrow>
          and_next (settle (recorded_provider_identity r)) (\<lambda>(p, _).
          if pane_pid \<noteq> None \<and> pane_pid \<noteq> Some p then yields None
          else
            hosted (mapped (\<lambda>x. case x of Inl _ \<Rightarrow> None | Inr status \<Rightarrow> Some status)
              (case promoted of
                 Some c \<Rightarrow> provider_exit_status_with_promoted_cwd (si_host W) R p (rr_cwd r) c
               | None \<Rightarrow> provider_exit_status (si_host W) R p (rr_cwd r)))))"

definition clean_provider_exit_status ::
  "site \<Rightarrow> private_runtime \<Rightarrow> runtime_record \<Rightarrow> runtime_probe \<Rightarrow> int option action" where
  "clean_provider_exit_status W R r seen = clean_provider_exit_status_with_cwd_proof W R r seen None"

definition recorded_provider_group_is_empty :: "site \<Rightarrow> runtime_record \<Rightarrow> bool action" where
  "recorded_provider_group_is_empty W r =
     and_next (settle (recorded_provider_identity r)) (\<lambda>(p, _).
     and_next (hosted (process_group_members_by_id_checked (si_host W) p)) (\<lambda>members.
     settle (case members of Inl _ \<Rightarrow> Inl RuntimeProbeAmbiguous | Inr ps \<Rightarrow> Inr (ps = []))))"

definition await_recorded_provider_group_empty :: "site \<Rightarrow> runtime_record \<Rightarrow> unit action" where
  "await_recorded_provider_group_empty W r =
     and_next (poll_for (si_host W) (\<lambda>_.
         and_next (recorded_provider_group_is_empty W r) (\<lambda>empty. yields (if empty then Inl () else Inr ()))) ())
       (\<lambda>found. if found = None then fails RuntimeProbeAmbiguous else yields ())"

definition promoted_onboarding_cwd :: "site \<Rightarrow> runtime_record \<Rightarrow> string option action" where
  "promoted_onboarding_cwd W r =
     (if rr_status r \<noteq> Starting then yields None
      else
        and_next (reading_pages W (onboarding_exec_proven_target_for_runtime (si_env W) (si_root W)
            (rr_workstream r) (rr_runtime r) (rr_generation r))) (\<lambda>target.
        case target of
          None \<Rightarrow> yields None
        | Some t \<Rightarrow>
            if ow_workstream (xt_ownership t) \<noteq> rr_workstream r \<or> ow_runtime (xt_ownership t) \<noteq> rr_runtime r
               \<or> xt_provider t \<noteq> rr_provider r \<or> xt_generation t \<noteq> rr_generation r
               \<or> \<not> path_eq (xt_project_root t) (rr_cwd r)
            then fails RuntimeProbeAmbiguous
            else yields (Some (xt_project_root t))))"

section \<open>Park\<close>

record clean_exit_fence =
  ce_id :: uuid
  ce_generation :: string
  ce_revision :: int

definition clean_exit_fence_matches :: "runtime_record \<Rightarrow> clean_exit_fence \<Rightarrow> bool" where
  "clean_exit_fence_matches r f \<longleftrightarrow>
     rr_runtime r = ce_id f \<and> rr_generation r = ce_generation f \<and> rr_revision r = ce_revision f"

definition runtime_of_workstream :: "site \<Rightarrow> uuid \<Rightarrow> runtime_record action" where
  "runtime_of_workstream W w =
     and_next (reading W (runtime_for_workstream (si_env W) w)) (\<lambda>r. settle (ok_or r (NoRuntime w)))"

text \<open>Which probes may be parked; a provider id that is missing in the record is filled in first.\<close>

definition admit_probe :: "site \<Rightarrow> runtime_record \<Rightarrow> runtime_probe \<Rightarrow> bool \<Rightarrow> runtime_record action" where
  "admit_probe W r seen clean =
     (case seen of
        ProbeLive _ p cwd birth \<Rightarrow>
          if matches_recorded_runtime r seen False \<or> clean then yields r
          else
            (case birth of
               Some b \<Rightarrow>
                 if rr_pid r = None \<and> path_eq cwd (rr_cwd r) \<and> rr_birth r = Some b then
                   and_next (writing W (WroteBackfill (rr_runtime r) (rr_revision r) p b)
                     (backfill_runtime_provider_pid (si_env W) (rr_runtime r) (rr_revision r) p b)) (\<lambda>_.
                   and_next (reading W (runtime_by_id (si_env W) (rr_runtime r))) (\<lambda>again.
                   settle (ok_or again RuntimeProbeAmbiguous)))
                 else fails RuntimeProbeAmbiguous
             | None \<Rightarrow> fails RuntimeProbeAmbiguous)
      | ProbeUnknown _ \<Rightarrow> if clean then yields r else fails RuntimeProbeAmbiguous
      | ProbeMissing \<Rightarrow>
          if (\<exists>x. recorded_provider_identity r = Inr x) \<or> (rr_pid r = None \<and> rr_birth r = None) then yields r
          else fails RuntimeProbeAmbiguous)"

text \<open>The second look before the cleanup of a provider that ended by itself.\<close>

definition recheck_clean_exit ::
  "site \<Rightarrow> uuid \<Rightarrow> catalog_authorization \<Rightarrow> int \<Rightarrow> clean_exit_fence \<Rightarrow> runtime_record
     \<Rightarrow> (runtime_record \<times> private_runtime) action" where
  "recheck_clean_exit W w auth revision fence r =
     and_next (await_recorded_provider_group_empty W r) (\<lambda>_.
     and_next (workstream_overview_authorized W w auth) (\<lambda>final.
     if wo_revision final \<noteq> revision then fails WorkstreamRevisionConflict
     else
       and_next (runtime_of_workstream W w) (\<lambda>final_r.
       if \<not> clean_exit_fence_matches final_r fence then fails RuntimeProbeAmbiguous
       else
         and_next (recorded_runtime W final_r) (\<lambda>R.
         and_next (hosted_call (probe (si_host W) R)) (\<lambda>seen.
         and_next (promoted_onboarding_cwd W final_r) (\<lambda>promoted.
         and_next (clean_provider_exit_status_with_cwd_proof W R final_r seen promoted) (\<lambda>status.
         if status \<noteq> Some 0 then fails RuntimeProbeAmbiguous
         else
           and_next (recorded_provider_group_is_empty W final_r) (\<lambda>empty.
           if \<not> empty then fails RuntimeProbeAmbiguous else yields (final_r, R)))))))))"

text \<open>The stops: of the observer, of the provider unless it is gone, and of the server if that worked.\<close>

definition cleanup_processes ::
  "site \<Rightarrow> runtime_record \<Rightarrow> private_runtime \<Rightarrow> opencode_runtime_handle option \<Rightarrow> bool \<Rightarrow> unit action" where
  "cleanup_processes W r R handle already_exited =
     outcome (case handle of None \<Rightarrow> yields () | Some h \<Rightarrow> stop_opencode_observer W h) (\<lambda>observer.
     outcome (if already_exited then yields () else stop_recorded_provider_if_present W r) (\<lambda>provider.
     outcome (case provider of Inl e \<Rightarrow> fails e | Inr _ \<Rightarrow> park_private W R) (\<lambda>server.
     settle (first_error observer server))))"

definition finalize_park :: "site \<Rightarrow> runtime_record \<Rightarrow> private_runtime \<Rightarrow> bool \<Rightarrow> unit action" where
  "finalize_park W r R already_exited =
     and_next (case rr_provider r of
         Codex \<Rightarrow> yields None
       | OpenCode \<Rightarrow> reading W (opencode_runtime_handle_for (si_env W) (rr_runtime r))) (\<lambda>handle.
     outcome (cleanup_processes W r R handle already_exited) (\<lambda>cleanup.
     case cleanup of
       Inl e \<Rightarrow> fail_runtime_cleanup W r e
     | Inr _ \<Rightarrow>
         outcome (if handle = None then yields ()
             else writing W (WroteHandleGone (rr_runtime r) (rr_generation r))
               (delete_opencode_runtime_handle (si_env W) (rr_runtime r) (rr_generation r))) (\<lambda>deleted.
         case deleted of
           Inl e \<Rightarrow> fail_runtime_cleanup W r e
         | Inr _ \<Rightarrow>
             outcome (writing W (WroteParked (rr_runtime r) (rr_revision r))
                 (park_runtime (si_env W) (rr_runtime r) (rr_revision r))) (\<lambda>parked.
             case parked of Inl e \<Rightarrow> fail_runtime_cleanup W r e | Inr _ \<Rightarrow> yields ()))))"

definition park_authorized_with_clean_exit_fence ::
  "site \<Rightarrow> uuid \<Rightarrow> int option \<Rightarrow> catalog_authorization \<Rightarrow> clean_exit_fence option \<Rightarrow> int option action" where
  "park_authorized_with_clean_exit_fence W w expected auth fence =
     and_next (workstream_overview_authorized W w auth) (\<lambda>overview.
     if expected \<noteq> None \<and> expected \<noteq> Some (wo_revision overview) then fails WorkstreamRevisionConflict
     else
       and_next (runtime_of_workstream W w) (\<lambda>r.
       if (case fence of None \<Rightarrow> False | Some f \<Rightarrow> \<not> clean_exit_fence_matches r f) then fails RuntimeProbeAmbiguous
       else
         and_next (recorded_runtime W r) (\<lambda>R.
         and_next (hosted_call (probe (si_host W) R)) (\<lambda>seen.
         and_next (promoted_onboarding_cwd W r) (\<lambda>promoted.
         and_next (clean_provider_exit_status_with_cwd_proof W R r seen promoted) (\<lambda>status.
         if fence \<noteq> None \<and> status \<noteq> Some 0 then yields None
         else
           and_next (admit_probe W r seen (status = Some 0)) (\<lambda>r1.
           and_next (case fence of
               None \<Rightarrow> yields (r1, R)
             | Some f \<Rightarrow> recheck_clean_exit W w auth (wo_revision overview) f r1) (\<lambda>(r2, R2).
           and_next (finalize_park W r2 R2 (fence \<noteq> None)) (\<lambda>_.
           and_next (workstream_revision_of W w) (\<lambda>revision. yields (Some revision)))))))))))"

definition park_authorized ::
  "site \<Rightarrow> uuid \<Rightarrow> int option \<Rightarrow> catalog_authorization \<Rightarrow> int action" where
  "park_authorized W w expected auth =
     and_next (park_authorized_with_clean_exit_fence W w expected auth None) (\<lambda>revision.
     settle (ok_or revision RuntimeProbeAmbiguous))"

definition park_active :: "site \<Rightarrow> uuid \<Rightarrow> int option \<Rightarrow> int action" where
  "park_active W w expected = park_authorized W w expected ActiveOnly"

definition park_authorized_if_clean_provider_exit ::
  "site \<Rightarrow> uuid \<Rightarrow> int \<Rightarrow> runtime_record \<Rightarrow> catalog_authorization \<Rightarrow> int option action" where
  "park_authorized_if_clean_provider_exit W w expected r auth =
     park_authorized_with_clean_exit_fence W w (Some expected) auth
       (Some \<lparr> ce_id = rr_runtime r, ce_generation = rr_generation r, ce_revision = rr_revision r \<rparr>)"

section \<open>The end of an attachment\<close>

datatype attachment_end = EndLive | EndExitPending | EndNotRecordedLive

definition attachment_end_provider_state ::
  "site \<Rightarrow> runtime_record \<Rightarrow> runtime_probe \<Rightarrow> attachment_end action" where
  "attachment_end_provider_state W r seen =
     (if \<not> matches_recorded_runtime r seen False then yields EndNotRecordedLive
      else
        and_next (settle (recorded_provider_identity r)) (\<lambda>(p, birth).
        and_next (hosted (process_observation_checked (si_host W) p)) (\<lambda>observed.
        settle (case observed of
            Inl _ \<Rightarrow> Inl RuntimeProbeAmbiguous
          | Inr None \<Rightarrow> Inr EndExitPending
          | Inr (Some ob) \<Rightarrow>
              if ob_birth ob \<noteq> birth then Inl RuntimeProbeAmbiguous
              else if ob_state ob = Running then Inr EndLive else Inr EndExitPending))))"

definition await_clean_provider_exit_status ::
  "site \<Rightarrow> private_runtime \<Rightarrow> runtime_record \<Rightarrow> runtime_probe \<Rightarrow> string option \<Rightarrow> int option action" where
  "await_clean_provider_exit_status W R r first promoted =
     poll_for (si_host W) (\<lambda>seen.
       and_next (clean_provider_exit_status_with_cwd_proof W R r seen promoted) (\<lambda>status.
       case status of
         Some s \<Rightarrow> yields (Inl s)
       | None \<Rightarrow> and_next (hosted_call (probe (si_host W) R)) (\<lambda>again. yields (Inr again)))) first"

definition reconcile_attachment_end :: "site \<Rightarrow> uuid \<Rightarrow> uuid \<Rightarrow> string \<Rightarrow> bool action" where
  "reconcile_attachment_end W w expected_runtime expected_generation =
     and_next (workstream_overview_authorized W w ArchivedAllowed) (\<lambda>overview.
     and_next (settle (ok_or (wo_runtime overview) (NoRuntime w))) (\<lambda>r.
     if rr_runtime r \<noteq> expected_runtime \<or> rr_generation r \<noteq> expected_generation then fails RuntimeProbeAmbiguous
     else
       and_next (recorded_runtime W r) (\<lambda>R.
       and_next (hosted_call (probe (si_host W) R)) (\<lambda>seen.
       and_next (promoted_onboarding_cwd W r) (\<lambda>promoted.
       and_next (attachment_end_provider_state W r seen) (\<lambda>state.
       if state = EndLive then yields False
       else
         and_next (if state = EndExitPending then await_clean_provider_exit_status W R r seen promoted
             else clean_provider_exit_status_with_cwd_proof W R r seen promoted) (\<lambda>status.
         if status \<noteq> Some 0 then fails RuntimeProbeAmbiguous
         else
           and_next (park_authorized_if_clean_provider_exit W w (wo_revision overview) r ArchivedAllowed) (\<lambda>parked.
           and_next (settle (ok_or parked RuntimeProbeAmbiguous)) (\<lambda>_. yields True)))))))))"

definition await_deliberate_park :: "site \<Rightarrow> uuid \<Rightarrow> uuid \<Rightarrow> bool action" where
  "await_deliberate_park W i w =
     and_next (poll_for (si_host W) (\<lambda>_.
         and_next (reading W (runtime_is_deliberately_parked (si_env W) i w)) (\<lambda>parked.
         yields (if parked then Inl () else Inr ()))) ())
       (\<lambda>found. yields (found \<noteq> None))"

section \<open>The catalog\<close>

definition archive :: "site \<Rightarrow> uuid \<Rightarrow> int \<Rightarrow> int action" where
  "archive W w expected =
     and_next (workstream_overview_authorized W w ArchivedAllowed) (\<lambda>overview.
     if wo_revision overview \<noteq> expected then fails WorkstreamRevisionConflict
     else if wo_archived overview \<noteq> None then fails WorkstreamAlreadyArchivedAction
     else
       and_next (if wo_lifecycle overview \<noteq> Parked \<and> wo_runtime overview \<noteq> None
           then park_active W w (Some expected) else yields expected) (\<lambda>revision. \<lambda>s.
         and_next (settle (map_err (\<lambda>e. StateFailed (DomainErr e)) (now_millis (si_clock W (as_trace s))))) (\<lambda>at.
         writing W (WroteArchived w revision) (archive_workstream (si_env W) w revision at)) s))"

definition restore :: "site \<Rightarrow> uuid \<Rightarrow> int \<Rightarrow> int action" where
  "restore W w expected =
     and_next (ensure_workstream_revision W w (Some expected)) (\<lambda>_.
     writing W (WroteRestored w expected) (restore_workstream (si_env W) w expected))"

definition forget :: "site \<Rightarrow> uuid \<Rightarrow> int \<Rightarrow> unit action" where
  "forget W w expected =
     and_next (workstream_overview_authorized W w ArchivedAllowed) (\<lambda>overview.
     if wo_archived overview = None then fails WorkstreamNotArchivedAction
     else if wo_revision overview \<noteq> expected then fails WorkstreamRevisionConflict
     else
       and_next (reading W (validate_forget_workstream (si_env W) w expected)) (\<lambda>_.
       and_next (if wo_runtime overview \<noteq> None then park_authorized W w (Some expected) ArchivedAllowed
           else yields expected) (\<lambda>revision.
       writing W (WroteForgotten w revision) (forget_workstream (si_env W) w revision))))"

end
