(* ===== verification/Parking_Safety.thy ===== *)
theory Parking_Safety
  imports Parking
begin

text \<open>
  What a Runtime that is recorded as parked has behind it: the contract of an action says what it adds
  to the history and to the log of its own writes, and what holds of the history when it succeeds.
\<close>

section \<open>A shutdown from any history\<close>

definition group_gone :: "pid32 \<Rightarrow> history \<Rightarrow> bool" where
  "group_gone p tr \<longleftrightarrow> (\<exists>session a b. tr = a @ b \<and> scanned_empty p session a)"

lemma group_goneI: "scanned_empty p session tr \<Longrightarrow> group_gone p tr"
  unfolding group_gone_def by (intro exI [of _ session] exI [of _ tr] exI [of _ "[]"]) simp

lemma group_gone_append: "group_gone p tr \<Longrightarrow> group_gone p (tr @ es)"
  unfolding group_gone_def by (metis append_assoc)

abbreviation gone_after :: "pid32 \<Rightarrow> 'a \<Rightarrow> history \<Rightarrow> bool" where
  "gone_after p \<equiv> \<lambda>_ tr. group_gone p tr"

lemma spec_whatever: "spec A (once m) (\<lambda>_. anything) anything"
  by (rule spec_once) (simp split: sum.split)

lemma spec_wait_group_gone:
  assumes "og_group g = p"
  shows "spec anything (wait_for_process_group_exit H (linux_group_probe H) g timeout poll)
     (\<lambda>gone tr. gone \<longrightarrow> group_gone p tr) anything"
  unfolding spec_def
proof (intro allI impI)
  fix tr r tr'
  assume run: "wait_for_process_group_exit H (linux_group_probe H) g timeout poll tr = Some (r, tr')"
  let ?seen = "group_empty (linux_group_probe H) g" and ?tr0 = "tr @ [ClockRead (h_now H tr)]"
  from run have loop: "wait_until H ?seen (h_now H tr + timeout) poll ?tr0 = Some (r, tr')"
    by (simp add: wait_for_process_group_exit_def wait_for_def clock_now_def Let_def)
  have "group_gone p tr'" if "r = Inr True"
    using wait_until_gone [OF loop] that group_empty_cases [of H g] assms by (fastforce intro: group_goneI)
  then show "case r of Inl e \<Rightarrow> True | Inr gone \<Rightarrow> gone \<longrightarrow> group_gone p tr'" by (auto split: sum.split)
qed

lemma spec_kill_gone:
  assumes "og_group g = p"
  shows "spec anything (kill_group_phase H (linux_group_probe H) S g gone timeout poll) (gone_after p) anything"
  unfolding kill_group_phase_def
  by (rule spec_and_run [OF spec_whatever], rule spec_and_run [OF spec_wait_group_gone [OF assms]], rule spec_if)
    (auto intro!: spec_ret spec_refuse)

lemma spec_live_gone:
  assumes "og_group g = p"
  shows "spec anything (terminate_live_proven_process_group H (linux_process_probe H) (linux_group_probe H) S g
     timeout poll) (gone_after p) anything"
proof -
  have left: "spec anything (once (if gone then group_empty (linux_group_probe H) g else give (Inr False)))
      (\<lambda>none_left tr. none_left \<longrightarrow> group_gone p tr) anything" for gone
  proof (rule spec_once)
    fix tr r tr'
    assume "(if gone then group_empty (linux_group_probe H) g else give (Inr False)) tr = (r, tr')"
    then show "case r of Inl e \<Rightarrow> True | Inr none_left \<Rightarrow> none_left \<longrightarrow> group_gone p tr'"
      using group_empty_cases [of H g tr] assms by (auto simp: give_def intro: group_goneI split: if_splits sum.split)
  qed
  show ?thesis
    unfolding terminate_live_proven_process_group_def
    by (rule spec_and_run [OF spec_whatever], rule spec_and_run [OF spec_wait_group_gone [OF assms]], rule spec_if,
        rule spec_ret, simp, rule spec_and_run [OF spec_conseq [OF spec_whatever]], simp, assumption, simp,
        rule spec_and_run [OF left], rule spec_if, rule spec_ret, simp,
        rule spec_conseq [OF spec_kill_gone [OF assms]]) simp_all
qed

lemma spec_provider_gone:
  "spec anything (terminate_owned_provider_process H p birth timeout) (gone_after p) anything"
proof -
  let ?prove = "prove_owned_process_group_after_identity (linux_group_probe H) p birth"
  have prove: "spec anything (once ?prove) (\<lambda>g _. og_group g = p) anything"
    by (rule spec_once) (auto dest: prove_cases split: sum.split)
  have by_id: "spec anything (once (mapped (map_err ProcessGroupProbeFailed) (process_group_members_by_id_checked H p)))
      (\<lambda>members tr. members = [] \<longrightarrow> group_gone p tr) anything"
  proof (rule spec_once)
    fix tr r tr'
    assume run: "mapped (map_err ProcessGroupProbeFailed) (process_group_members_by_id_checked H p) tr = (r, tr')"
    have "group_gone p tr'" if "r = Inr []"
    proof -
      from run that have "linux_process_group_members H p None tr = (Inr [], tr')"
        by (auto simp: mapped_def process_group_members_by_id_checked_def give_def split: prod.splits if_splits)
      from members_cases [OF this, of 0] show ?thesis by (auto simp: in_group_def intro: group_goneI)
    qed
    then show "case r of Inl e \<Rightarrow> True | Inr members \<Rightarrow> members = [] \<longrightarrow> group_gone p tr'" by (auto split: sum.split)
  qed
  have live: "spec (\<lambda>_. og_group g = p) (terminate_live_proven_process_group H (linux_process_probe H)
      (linux_group_probe H) S g timeout poll) (gone_after p) anything" for g S timeout poll
    using spec_live_gone [of g p H S timeout poll] by (auto simp: spec_def)
  show ?thesis
    unfolding terminate_owned_provider_process_def terminate_owned_process_group_def linux_probe_simps
    by (rule spec_if, rule spec_refuse, simp, rule spec_and_run [OF spec_whatever])
      (auto intro!: spec_if spec_refuse spec_ret spec_and_run [OF prove live] spec_and_run [OF by_id] split: option.split)
qed

section \<open>Every call only adds to the history\<close>

text \<open>And no call on a process creates a launch barrier.\<close>

abbreviation grows :: "'a act \<Rightarrow> bool" where "grows m \<equiv> adds (\<lambda>_. True) m"
abbreviation run_grows :: "'a run \<Rightarrow> bool" where "run_grows m \<equiv> run_adds (\<lambda>_. True) m"
abbreviation holds_back :: "'a act \<Rightarrow> bool" where "holds_back m \<equiv> adds no_release m"
abbreviation run_holds_back :: "'a run \<Rightarrow> bool" where "run_holds_back m \<equiv> run_adds no_release m"

lemma grows_any: "adds P m \<Longrightarrow> grows m"
  by (erule adds_mono) simp

lemma run_grows_any: "run_adds P m \<Longrightarrow> run_grows m"
  unfolding run_adds_def by (metis (mono_tags, lifting) list.pred_True)

lemma closed_holds: "adds (closed_call paths) m \<Longrightarrow> holds_back m"
  by (erule adds_mono) (simp add: closed_call_def)

lemma process_holds [added]:
  "holds_back (process_birth_checked H p)" "holds_back (process_observation_checked H p)"
  "holds_back (process_group_checked H p)"
  "holds_back (exact_process_identity (linux_process_probe H) p birth)"
  "holds_back (exact_zombie_identity (linux_process_probe H) p birth)"
  by (simp_all add: process_birth_checked_def process_observation_checked_def process_group_checked_def
      read_linux_process_stat_with_scope_def exact_process_identity_def exact_zombie_identity_def added)

lemma stat_holds [added]: "holds_back (read_linux_process_stat_with_scope H scope p)"
  by (simp add: read_linux_process_stat_with_scope_def added)

lemma read_for_group_holds [added]: "holds_back (read_for_group H p n)"
proof (induction H p n rule: read_for_group.induct)
  case (1 H p left)
  show ?case
    by (subst read_for_group.simps) (use 1 in \<open>auto intro!: added split: if_splits\<close>)
qed

lemma members_hold [added]: "holds_back (linux_process_group_members H g so)"
proof -
  have "holds_back (group_members_loop H g so entries members)" for entries members
  proof (induction entries arbitrary: members)
    case (Cons entry entries)
    then show ?case
      by (auto intro!: added split: sum.split option.split simp: read_linux_process_stat_for_group_def)
  qed (simp add: added)
  then show ?thesis by (simp add: linux_process_group_members_def added)
qed

lemma group_holds [added]:
  "holds_back (process_group_members_checked H info)" "holds_back (process_group_members_by_id_checked H p)"
  "holds_back (group_empty (linux_group_probe H) g)"
  by (simp_all add: process_group_members_checked_def process_group_members_by_id_checked_def group_empty_def added)

lemma leader_holds [added]: "holds_back (leader_gone (linux_process_probe H) (linux_group_probe H) g)"
  unfolding leader_gone_def by (intro adds_then_do) (auto intro!: added split: option.split)

lemma prove_holds [added]: "holds_back (prove_owned_process_group_after_identity (linux_group_probe H) p birth)"
  unfolding prove_owned_process_group_after_identity_def by (intro adds_then_do) (auto intro!: added split: option.split)

lemma signal_holds [added]: "holds_back (system_signal H p birth s)"
  unfolding system_signal_def by (auto intro!: adds_then_do adds_mapped adds_give adds_open adds_send process_holds)

lemma group_signal_holds [added]: "holds_back (system_signal_group H g s allow)"
proof -
  have verify: "holds_back (verify_linux_group_leader H g)"
    unfolding verify_linux_group_leader_def
    by (auto intro!: added simp: process_birth_checked_def process_group_checked_def read_linux_process_stat_with_scope_def)
  have stop: "holds_back (stop_and_verify_linux_group_leader H fd g allow)" for fd
    unfolding stop_and_verify_linux_group_leader_def
    by (auto intro!: added verify split: sum.split)
  have send: "holds_back (send_linux_group_signal H g s stopped)" for stopped
    unfolding send_linux_group_signal_def
    by (auto intro!: added split: option.split sum.split signal_error.split)
  show ?thesis
    unfolding system_signal_group_def by (auto intro!: added stop send split: option.split)
qed

lemma provider_holds: "run_holds_back (terminate_owned_provider_process H p birth timeout)"
proof -
  have wait: "run_holds_back (wait_for_process_group_exit H (linux_group_probe H) g timeout poll)" for g timeout poll
    unfolding wait_for_process_group_exit_def by (rule run_adds_wait) (simp_all add: group_holds)
  have signal: "holds_back (signal_phase (system_signal_group H) g s allow)" for g s allow
    by (simp add: signal_phase_def added)
  have live: "run_holds_back (terminate_live_proven_process_group H (linux_process_probe H) (linux_group_probe H)
      (system_signal_group H) g timeout poll)" for g timeout poll
    unfolding terminate_live_proven_process_group_def kill_group_phase_def
    by (auto intro!: run_adds_and_run run_adds_once wait signal leader_holds group_holds adds_give)
  show ?thesis
    unfolding terminate_owned_provider_process_def terminate_owned_process_group_def linux_probe_simps
    by (auto intro!: run_adds_and_run run_adds_once live adds_mapped adds_give process_holds prove_holds group_holds
        split: option.split)
qed

lemma observer_holds: "run_holds_back (terminate_owned_observer_process H p birth timeout)"
proof -
  have "holds_back (exit_seen (linux_process_probe H) p birth z)" for z
    unfolding exit_seen_def by (intro adds_then_do) (simp_all add: added)
  then have wait: "run_holds_back (wait_for_process_exit H (linux_process_probe H) p birth timeout poll z)" for poll z
    unfolding wait_for_process_exit_def by (rule run_adds_wait) simp_all
  show ?thesis
    unfolding terminate_owned_observer_process_def terminate_owned_process_with_options_def
      terminate_owned_process_inner_def kill_phase_def kill_signal_phase_def
    by (auto intro!: run_adds_and_run run_adds_once adds_mapped adds_give signal_holds process_holds wait
        split: sum.split signal_error.split)
qed

lemmas provider_grows = run_grows_any [OF provider_holds]
lemmas observer_grows = run_grows_any [OF observer_holds]

section \<open>Contracts of actions\<close>

text \<open>\<open>E\<close> is what must hold of a history when a write is committed to it.\<close>

type_synonym write_rule = "registry_write \<Rightarrow> history \<Rightarrow> bool"

definition grown :: "write_rule \<Rightarrow> act_state \<Rightarrow> act_state \<Rightarrow> bool" where
  "grown E s s' \<longleftrightarrow>
     (\<exists>es. as_trace s' = as_trace s @ es) \<and> (\<exists>ws. as_log s' = as_log s @ ws \<and> list_all (\<lambda>(w, h). E w h) ws)"

lemma grown_refl [simp]: "grown E s s"
  by (simp add: grown_def)

lemma grown_trans: "grown E s s1 \<Longrightarrow> grown E s1 s' \<Longrightarrow> grown E s s'"
  unfolding grown_def by (metis append_assoc list_all_append)

definition act_spec ::
  "write_rule \<Rightarrow> (history \<Rightarrow> bool) \<Rightarrow> 'a action \<Rightarrow> ('a \<Rightarrow> history \<Rightarrow> bool) \<Rightarrow> bool" where
  "act_spec E A m Q \<longleftrightarrow>
     (\<forall>s r s'. A (as_trace s) \<longrightarrow> m s = Some (r, s') \<longrightarrow>
        grown E s s' \<and> (\<forall>x. r = Inr x \<longrightarrow> Q x (as_trace s')))"

abbreviation no_claim :: "'a \<Rightarrow> history \<Rightarrow> bool" where "no_claim \<equiv> \<lambda>_ _. True"

named_theorems contract

lemma act_next:
  assumes "act_spec E A m Q" and "\<And>x. act_spec E (Q x) (k x) C"
  shows "act_spec E A (and_next m k) C"
  unfolding act_spec_def
proof (intro allI impI)
  fix s r s'
  assume A: "A (as_trace s)" and run: "and_next m k s = Some (r, s')"
  then obtain q s1 where m: "m s = Some (q, s1)" by (auto simp: and_next_def split: option.splits)
  with assms(1) A have q: "grown E s s1" "\<And>x. q = Inr x \<Longrightarrow> Q x (as_trace s1)" unfolding act_spec_def by blast+
  show "grown E s s' \<and> (\<forall>x. r = Inr x \<longrightarrow> C x (as_trace s'))"
  proof (cases q)
    case (Inl e)
    with run m q show ?thesis by (auto simp: and_next_def)
  next
    case (Inr x)
    with run m have "k x s1 = Some (r, s')" by (simp add: and_next_def)
    with assms(2) [of x] q Inr show ?thesis unfolding act_spec_def by (blast intro: grown_trans)
  qed
qed

lemma act_outcome:
  assumes "act_spec E A m Q" and "\<And>x. act_spec E (Q x) (k (Inr x)) C"
    and "\<And>e. act_spec E (\<lambda>_. True) (k (Inl e)) C"
  shows "act_spec E A (outcome m k) C"
  unfolding act_spec_def
proof (intro allI impI)
  fix s r s'
  assume A: "A (as_trace s)" and run: "outcome m k s = Some (r, s')"
  then obtain q s1 where m: "m s = Some (q, s1)" by (auto simp: outcome_def split: option.splits)
  with assms(1) A have q: "grown E s s1" "\<And>x. q = Inr x \<Longrightarrow> Q x (as_trace s1)" unfolding act_spec_def by blast+
  have k: "k q s1 = Some (r, s')" using run m by (simp add: outcome_def)
  show "grown E s s' \<and> (\<forall>x. r = Inr x \<longrightarrow> C x (as_trace s'))"
  proof (cases q)
    case (Inl e)
    with assms(3) [of e] k q show ?thesis unfolding act_spec_def by (blast intro: grown_trans)
  next
    case (Inr x)
    with assms(2) [of x] k q show ?thesis unfolding act_spec_def by (blast intro: grown_trans)
  qed
qed

lemma act_conseq:
  "act_spec E A m Q \<Longrightarrow> (\<And>tr. A' tr \<Longrightarrow> A tr) \<Longrightarrow> (\<And>x tr. Q x tr \<Longrightarrow> Q' x tr) \<Longrightarrow> act_spec E A' m Q'"
  unfolding act_spec_def by blast

lemma act_given: "(K \<Longrightarrow> act_spec E (\<lambda>_. True) m Q) \<Longrightarrow> act_spec E (\<lambda>_. K) m Q"
  unfolding act_spec_def by blast

lemma act_weaken: "act_spec E A m Q \<Longrightarrow> (\<And>w h. E w h \<Longrightarrow> E' w h) \<Longrightarrow> act_spec E' A m Q"
proof -
  assume m: "act_spec E A m Q" and weaker: "\<And>w h. E w h \<Longrightarrow> E' w h"
  have "grown E s s' \<Longrightarrow> grown E' s s'" for s s'
    unfolding grown_def using weaker by (fastforce simp: list_all_iff)
  with m show ?thesis unfolding act_spec_def by blast
qed

lemma act_yields [contract]: "(\<And>tr. A tr \<Longrightarrow> Q x tr) \<Longrightarrow> act_spec E A (yields x) Q"
  by (auto simp: act_spec_def yields_def)

lemma act_fails [contract]: "act_spec E A (fails e) Q"
  by (auto simp: act_spec_def fails_def)

lemma act_settle [contract]: "(\<And>x tr. r = Inr x \<Longrightarrow> A tr \<Longrightarrow> Q x tr) \<Longrightarrow> act_spec E A (settle r) Q"
  by (auto simp: act_spec_def settle_def)

lemma act_if [contract]:
  "(b \<Longrightarrow> act_spec E A m Q) \<Longrightarrow> (\<not> b \<Longrightarrow> act_spec E A n Q) \<Longrightarrow> act_spec E A (if b then m else n) Q"
  by simp

lemma act_reading [contract]:
  "(\<And>x db tr. f db = Inr x \<Longrightarrow> A tr \<Longrightarrow> Q x tr) \<Longrightarrow> act_spec E A (reading W f) Q"
  by (auto simp: act_spec_def reading_def grown_def)

lemma act_reading_pages [contract]:
  "(\<And>x db tr. f db = Some (Inr x) \<Longrightarrow> A tr \<Longrightarrow> Q x tr) \<Longrightarrow> act_spec E A (reading_pages W f) Q"
  by (auto simp: act_spec_def reading_pages_def grown_def)

lemma act_writing [contract]:
  assumes "\<And>tr. A tr \<Longrightarrow> E w tr" and "\<And>x tr. A tr \<Longrightarrow> Q x tr"
  shows "act_spec E A (writing W w f) Q"
  using assms by (auto simp: act_spec_def writing_def grown_def split: sum.splits)

lemma act_hosted_run:
  assumes "run_grows m" and "spec A m Q anything"
  shows "act_spec E A (hosted_run m) Q"
  unfolding act_spec_def
proof (intro allI impI)
  fix s r s'
  assume A: "A (as_trace s)" and run: "hosted_run m s = Some (r, s')"
  then obtain q tr where m: "m (as_trace s) = Some (q, tr)" and r: "r = map_err RuntimeFailed q" "s' = s\<lparr> as_trace := tr \<rparr>"
    by (auto simp: hosted_run_def split: option.splits)
  from run_addsD [OF assms(1) m] have "grown E s s'" using r by (auto simp: grown_def)
  moreover have "Q x (as_trace s')" if "r = Inr x" for x
    using assms(2) [unfolded spec_def, rule_format, OF A m] that r by simp
  ultimately show "grown E s s' \<and> (\<forall>x. r = Inr x \<longrightarrow> Q x (as_trace s'))" by blast
qed

lemma act_hosted:
  assumes "grows m" and "\<And>tr x tr'. A tr \<Longrightarrow> m tr = (x, tr') \<Longrightarrow> Q x tr'"
  shows "act_spec E A (hosted m) Q"
  unfolding act_spec_def
proof (intro allI impI)
  fix s r s'
  assume A: "A (as_trace s)" and run: "hosted m s = Some (r, s')"
  obtain x tr where m: "m (as_trace s) = (x, tr)" by (cases "m (as_trace s)")
  with run have r: "r = Inr x" "s' = s\<lparr> as_trace := tr \<rparr>" by (simp_all add: hosted_def)
  from addsD [OF assms(1) m] r assms(2) [OF A m] show "grown E s s' \<and> (\<forall>x. r = Inr x \<longrightarrow> Q x (as_trace s'))"
    by (auto simp: grown_def)
qed

lemma act_polling:
  shows "polling H look deadline c s = Some y \<Longrightarrow> A (as_trace s) \<Longrightarrow>
    (\<And>c. act_spec E A (look c) (\<lambda>v tr. case v of Inl x \<Rightarrow> Q (Some x) tr | Inr _ \<Rightarrow> A tr)) \<Longrightarrow>
    (\<And>tr es. A tr \<Longrightarrow> A (tr @ es)) \<Longrightarrow> (\<And>tr. A tr \<Longrightarrow> Q None tr) \<Longrightarrow>
    grown E s (snd y) \<and> (\<forall>x. fst y = Inr x \<longrightarrow> Q x (as_trace (snd y)))"
proof (induction rule: polling.raw_induct [rotated, consumes 1, case_names step])
  case (step f H look deadline c s y)
  from step(2) obtain r s1 where l: "look c s = Some (r, s1)" by (auto split: option.splits)
  have "grown E s s1 \<and> (\<forall>v. r = Inr v \<longrightarrow> (case v of Inl x \<Rightarrow> Q (Some x) (as_trace s1) | Inr _ \<Rightarrow> A (as_trace s1)))"
    using step(4) [of c, unfolded act_spec_def, rule_format, OF step(3) l] by blast
  then have r: "grown E s s1" "\<And>x. r = Inr (Inl x) \<Longrightarrow> Q (Some x) (as_trace s1)"
    "\<And>c'. r = Inr (Inr c') \<Longrightarrow> A (as_trace s1)" by auto
  let ?now = "h_now H (as_trace s1)"
  let ?clock = "as_trace s1 @ [ClockRead ?now]"
  consider (error) e where "r = Inl e" "y = (Inl e, s1)" | (found) x where "r = Inr (Inl x)" "y = (Inr (Some x), s1)"
    | (late) c' where "r = Inr (Inr c')" "y = (Inr None, s1\<lparr> as_trace := ?clock \<rparr>)"
    | (again) c' where "r = Inr (Inr c')"
        "f H look deadline c' (s1\<lparr> as_trace := ?clock @ [Slept park_confirm_poll_interval] \<rparr>) = Some y"
  proof -
    note run = step(2) [unfolded l option.case prod.case clock_now_def thread_sleep_def Let_def snd_conv]
    show thesis
    proof (cases r)
      case (Inl e)
      with run error show ?thesis by simp
    next
      case (Inr v)
      show ?thesis
      proof (cases v)
        case (Inl x)
        with run Inr found show ?thesis by simp
      next
        case (Inr c')
        with run \<open>r = Inr v\<close> late again show ?thesis by (cases "deadline \<le> ?now") simp_all
      qed
    qed
  qed
  then show ?case
  proof cases
    case late
    then have "A ?clock" using r(3) step(5) by blast
    then show ?thesis using late r(1) step(6) [of ?clock] by (auto simp: grown_def)
  next
    case again
    let ?s = "s1\<lparr> as_trace := ?clock @ [Slept park_confirm_poll_interval] \<rparr>"
    have "A (as_trace ?s)" using r(3) [OF again(1)] step(5) [of "as_trace s1" "[ClockRead ?now, Slept park_confirm_poll_interval]"] by simp
    with step(1) [OF again(2) _ step(4-6)] have "grown E ?s (snd y) \<and> (\<forall>x. fst y = Inr x \<longrightarrow> Q x (as_trace (snd y)))" by simp
    moreover have "grown E s1 ?s" by (simp add: grown_def)
    ultimately show ?thesis using r(1) by (blast intro: grown_trans)
  qed (use r in auto)
qed

lemma act_poll_for:
  assumes "\<And>c. act_spec E A (look c) (\<lambda>v tr. case v of Inl x \<Rightarrow> Q (Some x) tr | Inr _ \<Rightarrow> A tr)"
    and "\<And>tr es. A tr \<Longrightarrow> A (tr @ es)" and "\<And>tr. A tr \<Longrightarrow> Q None tr"
  shows "act_spec E A (poll_for H look c) Q"
proof -
  have loop: "act_spec E A (polling H look deadline c) Q" for deadline
    unfolding act_spec_def
  proof (intro allI impI)
    fix s r s'
    assume A: "A (as_trace s)" and run: "polling H look deadline c s = Some (r, s')"
    show "grown E s s' \<and> (\<forall>x. r = Inr x \<longrightarrow> Q x (as_trace s'))"
      using act_polling [OF run A assms] by simp
  qed
  show ?thesis
    unfolding poll_for_def
    by (rule act_next [OF _ loop], rule act_hosted) (auto simp: adds_clock clock_now_def Let_def intro: assms(2))
qed

section \<open>The evidence of a parked Runtime\<close>

text \<open>The private server was told to end and did, or was not there; then its directory was removed.\<close>

definition server_ended :: "runtime_paths \<Rightarrow> history \<Rightarrow> bool" where
  "server_ended paths es \<longleftrightarrow>
     (\<exists>a e rest. es = e # rest \<and> answered paths [''kill-server''] a e \<and>
        (tr_success a \<or> is_missing_server (tr_stderr a)) \<and>
        ((\<exists>x. rest = [FileCalled (PathExists (rp_directory paths)) x] \<and> x \<noteq> Inr True) \<or>
         (\<exists>v. rest = [FileCalled (PathExists (rp_directory paths)) (Inr True),
            FileCalled (RemoveTree (rp_directory paths)) (Inr v)])))"

lemma park_server_ends:
  assumes "park_server H (system_runtime H paths) tr = (Inr (), tr')"
  shows "\<exists>es. tr' = tr @ es \<and> server_ended paths es"
proof -
  from assms obtain tr1 where stop: "stop_server (system_runtime H paths) tr = (Inr (), tr1)"
    and rest: "and_do (path_exists H (rp_directory paths)) (\<lambda>exists.
      if exists then io_call H (rp_directory paths) (RemoveTree (rp_directory paths)) else give (Inr ())) tr1 = (Inr (), tr')"
    unfolding park_server_def then_do_Inr unit_ex system_runtime_simps by blast
  from stop obtain a where kill: "system_tmux H ''tmux'' (on_socket (rp_socket paths) [''kill-server'']) tr = (Inr a, tr1)"
    "tr_success a \<or> is_missing_server (tr_stderr a)"
    by (auto simp: stop_server_def invoke_def success split: if_splits)
  from system_answers [OF kill(1)] obtain e where e: "tr1 = tr @ [e]" "answered paths [''kill-server''] a e" by blast
  let ?x = "h_file H tr1 (PathExists (rp_directory paths))"
  from rest consider "?x \<noteq> Inr True" "tr' = tr1 @ [FileCalled (PathExists (rp_directory paths)) ?x]"
    | v where "?x = Inr True" "tr' = tr1 @ [FileCalled (PathExists (rp_directory paths)) ?x,
        FileCalled (RemoveTree (rp_directory paths)) (Inr v)]"
    by (auto simp: and_do_def path_exists_def mapped_def file_call_def io_call_def give_def Let_def split: if_splits)
  then show ?thesis
  proof cases
    case 1
    with e kill(2) show ?thesis unfolding server_ended_def
      by (intro exI [of _ "[e, FileCalled (PathExists (rp_directory paths)) ?x]"]) auto
  next
    case 2
    with e kill(2) show ?thesis unfolding server_ended_def
      by (intro exI [of _ "[e, FileCalled (PathExists (rp_directory paths)) ?x, FileCalled (RemoveTree (rp_directory paths)) (Inr v)]"]) auto
  qed
qed

definition provider_down :: "runtime_record \<Rightarrow> history \<Rightarrow> bool" where
  "provider_down r tr \<longleftrightarrow> (case rr_pid r of Some p \<Rightarrow> group_gone p tr | None \<Rightarrow> rr_birth r = None)"

lemma provider_down_append: "provider_down r tr \<Longrightarrow> provider_down r (tr @ es)"
  by (auto simp: provider_down_def group_gone_append split: option.splits)

definition exited_cleanly :: "runtime_paths \<Rightarrow> runtime_record \<Rightarrow> history \<Rightarrow> bool" where
  "exited_cleanly paths r tr \<longleftrightarrow>
     (\<exists>p promoted a shape placed evidence shape' b. rr_pid r = Some p \<and>
        tr = a @ shape @ placed @ evidence @ shape' @ b \<and> topology_shown paths True shape \<and>
        pane_placed paths p (rr_cwd r) promoted placed \<and> exit_proven paths p (rr_cwd r) promoted 0 evidence \<and>
        topology_shown paths True shape')"

lemma exited_cleanly_append: "exited_cleanly paths r tr \<Longrightarrow> exited_cleanly paths r (tr @ es)"
  unfolding exited_cleanly_def by (metis append_assoc)

text \<open>A record as some registry held it, and the paths of its private server.\<close>

definition read_somewhere :: "site \<Rightarrow> runtime_record \<Rightarrow> bool" where
  "read_somewhere W r \<longleftrightarrow>
     (\<exists>db w. runtime_for_workstream (si_env W) w db = Inr (Some r)) \<or>
     (\<exists>db i. runtime_by_id (si_env W) i db = Inr (Some r))"

definition own_paths :: "site \<Rightarrow> uuid \<Rightarrow> runtime_paths" where
  "own_paths W i = runtime_paths_for (si_env W) (st_root (si_root W)) i"

abbreviation own_runtime :: "site \<Rightarrow> uuid \<Rightarrow> private_runtime" where
  "own_runtime W i \<equiv> system_runtime (si_host W) (own_paths W i)"

definition parked_evidence :: "site \<Rightarrow> clean_exit_fence option \<Rightarrow> uuid \<Rightarrow> int \<Rightarrow> history \<Rightarrow> bool" where
  "parked_evidence W fence i revision h \<longleftrightarrow>
     (\<exists>r a b. read_somewhere W r \<and> rr_runtime r = i \<and> rr_revision r = revision \<and>
        h = a @ b \<and> provider_down r a \<and> server_ended (own_paths W i) b \<and>
        (case fence of None \<Rightarrow> True
         | Some f \<Rightarrow> clean_exit_fence_matches r f \<and> exited_cleanly (own_paths W i) r a))"

definition park_rule :: "site \<Rightarrow> clean_exit_fence option \<Rightarrow> write_rule" where
  "park_rule W fence w h \<longleftrightarrow>
     (case w of WroteParked i revision \<Rightarrow> parked_evidence W fence i revision h
      | WroteRecovery _ _ \<Rightarrow> True | WroteBackfill _ _ _ _ \<Rightarrow> True | WroteHandleGone _ _ \<Rightarrow> True | _ \<Rightarrow> False)"

section \<open>The steps of a park\<close>

lemma private_grows: "keeps_private paths m \<Longrightarrow> grows m"
  by (rule grows_any)

lemma act_call: "grows m \<Longrightarrow> act_spec E A (hosted_call m) no_claim"
  by (rule act_hosted_run [OF run_adds_once]) (auto intro: spec_conseq [OF spec_whatever])

lemma act_probe [contract]: "(\<And>x tr. Q x tr) \<Longrightarrow> act_spec E A (hosted_call (probe (si_host W) (system_runtime (si_host W) paths))) Q"
  by (rule act_conseq [OF act_call [OF private_grows [OF probe_kept]]]) auto

lemma act_overview:
  "act_spec E A (workstream_overview_authorized W w auth) no_claim"
  unfolding workstream_overview_authorized_def
  by (rule act_next [OF act_reading_pages]) (auto intro: act_settle)

lemma act_runtime_of_workstream:
  "act_spec E A (runtime_of_workstream W w) (\<lambda>r _. read_somewhere W r)"
  unfolding runtime_of_workstream_def
  by (rule act_next [OF act_reading [where Q = "\<lambda>r _. \<exists>db. runtime_for_workstream (si_env W) w db = Inr r"]])
    (auto intro!: act_settle simp: read_somewhere_def)

lemma act_recorded_runtime:
  "act_spec E A (recorded_runtime W r) (\<lambda>R tr. A tr \<and> R = own_runtime W (rr_runtime r))"
  unfolding recorded_runtime_def
  by (rule act_settle) (auto simp: own_paths_def runtime_paths_for_record_def Let_def split: sum.splits if_splits)

lemma act_promoted: "act_spec E A (promoted_onboarding_cwd W r) no_claim"
  unfolding promoted_onboarding_cwd_def
  by (rule act_if, rule act_yields, simp, rule act_next [OF act_reading_pages])
    (auto intro!: act_yields act_fails act_if split: option.split)

lemma act_group_empty:
  "act_spec E A (recorded_provider_group_is_empty W r) (\<lambda>empty tr. (empty \<longrightarrow> provider_down r tr))"
proof -
  have scan: "act_spec E (\<lambda>_. recorded_provider_identity r = Inr (p, birth)) (hosted (process_group_members_by_id_checked (si_host W) p))
      (\<lambda>members tr. members = Inr [] \<longrightarrow> provider_down r tr)" for p birth
  proof (rule act_hosted)
    show "grows (process_group_members_by_id_checked (si_host W) p)" using grows_any [OF probes_quiet(3)] by simp
    fix tr x tr'
    assume identity: "recorded_provider_identity r = Inr (p, birth)"
      and run: "process_group_members_by_id_checked (si_host W) p tr = (x, tr')"
    have "group_gone p tr'" if "x = Inr []"
    proof -
      from run that have "linux_process_group_members (si_host W) p None tr = (Inr [], tr')"
        by (auto simp: process_group_members_by_id_checked_def give_def split: if_splits)
      from members_cases [OF this, of 0] show ?thesis by (auto simp: in_group_def intro: group_goneI)
    qed
    with identity show "x = Inr [] \<longrightarrow> provider_down r tr'"
      by (auto simp: provider_down_def recorded_provider_identity_def split: if_splits)
  qed
  show ?thesis
    unfolding recorded_provider_group_is_empty_def
    by (rule act_next [OF act_settle [where Q = "\<lambda>x _. recorded_provider_identity r = Inr x"]])
      (auto intro!: act_next [OF scan] act_settle split: sum.splits)
qed

lemma act_clean_exit:
  assumes "R = system_runtime (si_host W) paths"
  shows "act_spec E A (clean_provider_exit_status_with_cwd_proof W R r seen promoted)
    (\<lambda>status tr. status = Some 0 \<longrightarrow> exited_cleanly paths r tr)"
proof -
  let ?look = "\<lambda>p. case promoted of
      Some c \<Rightarrow> provider_exit_status_with_promoted_cwd (si_host W) R p (rr_cwd r) c
    | None \<Rightarrow> provider_exit_status (si_host W) R p (rr_cwd r)"
  have look: "?look p = provider_exit_status_with_cwd_proof (si_host W) R p (rr_cwd r) promoted" for p
    by (simp add: provider_exit_status_def provider_exit_status_with_promoted_cwd_def split: option.split)
  have proven: "act_spec E (\<lambda>_. recorded_provider_identity r = Inr (p, birth))
      (hosted (mapped (\<lambda>x. case x of Inl _ \<Rightarrow> None | Inr status \<Rightarrow> Some status) (?look p)))
      (\<lambda>status tr. status = Some 0 \<longrightarrow> exited_cleanly paths r tr)" for p birth
  proof (rule act_hosted)
    show "grows (mapped (\<lambda>x. case x of Inl _ \<Rightarrow> None | Inr status \<Rightarrow> Some status) (?look p))"
      unfolding look unfolding assms by (rule adds_mapped [OF private_grows [OF exit_status_kept]])
    fix tr x tr'
    assume identity: "recorded_provider_identity r = Inr (p, birth)"
      and run: "mapped (\<lambda>x. case x of Inl _ \<Rightarrow> None | Inr status \<Rightarrow> Some status) (?look p) tr = (x, tr')"
    show "x = Some 0 \<longrightarrow> exited_cleanly paths r tr'"
    proof
      assume "x = Some 0"
      with run have "provider_exit_status_with_cwd_proof (si_host W) (system_runtime (si_host W) paths) p (rr_cwd r)
          promoted tr = (Inr 0, tr')"
        unfolding look unfolding assms mapped_eq by (metis option.distinct(1) option.inject sum.case sum.exhaust)
      from exit_status_Inr [OF this] obtain shape placed evidence shape' where
        "tr' = tr @ shape @ placed @ evidence @ shape' @ []" "topology_shown paths True shape"
        "pane_placed paths p (rr_cwd r) promoted placed" "exit_proven paths p (rr_cwd r) promoted 0 evidence"
        "topology_shown paths True shape'" by auto
      moreover have "rr_pid r = Some p"
        using identity by (auto simp: recorded_provider_identity_def split: if_splits)
      ultimately show "exited_cleanly paths r tr'" unfolding exited_cleanly_def by blast
    qed
  qed
  have "act_spec E A (and_next (settle (recorded_provider_identity r)) (\<lambda>(p, _).
      if pane_pid \<noteq> None \<and> pane_pid \<noteq> Some p then yields None
      else hosted (mapped (\<lambda>x. case x of Inl _ \<Rightarrow> None | Inr status \<Rightarrow> Some status) (?look p))))
      (\<lambda>status tr. status = Some 0 \<longrightarrow> exited_cleanly paths r tr)" for pane_pid
    by (rule act_next [OF act_settle [where Q = "\<lambda>x _. recorded_provider_identity r = Inr x"]])
      (auto intro!: act_yields proven)
  then show ?thesis
    unfolding clean_provider_exit_status_with_cwd_proof_def
    by (auto intro!: act_yields split: option.split)
qed

lemma act_admit:
  "act_spec (park_rule W fence) (\<lambda>_. read_somewhere W r) (admit_probe W r seen clean)
     (\<lambda>r1 _. read_somewhere W r1 \<and> rr_runtime r1 = rr_runtime r)"
proof -
  have by_id: "runtime_by_id E i db = Inr (Some r1) \<Longrightarrow> rr_runtime r1 = i" for E i db r1
    by (auto simp: runtime_by_id_def row_to_runtime_with_id_def split: option.splits if_splits sum.splits)
  have filled: "act_spec (park_rule W fence) (\<lambda>_. True) (and_next (writing W (WroteBackfill i v p b) f)
      (\<lambda>_ :: unit. and_next (reading W (runtime_by_id (si_env W) i)) (\<lambda>again.
        settle (ok_or again RuntimeProbeAmbiguous)))) (\<lambda>r1 _. read_somewhere W r1 \<and> rr_runtime r1 = i)" for i v p b f
    by (rule act_next [OF act_writing [where Q = no_claim]], simp add: park_rule_def, simp,
        rule act_next [OF act_reading [where Q = "\<lambda>x _. \<exists>db. runtime_by_id (si_env W) i db = Inr x"]])
      (auto intro!: act_settle simp: read_somewhere_def by_id)
  show ?thesis
    unfolding admit_probe_def
    by (auto intro!: act_yields act_fails act_conseq [OF filled] split: runtime_probe.split option.split)
qed

lemma act_keep:
  assumes "act_spec E (\<lambda>_. True) m Q" and "\<And>tr es. B tr \<Longrightarrow> B (tr @ es)"
  shows "act_spec E B m (\<lambda>x tr. Q x tr \<and> B tr)"
  unfolding act_spec_def
proof (intro allI impI)
  fix s r s'
  assume B: "B (as_trace s)" and run: "m s = Some (r, s')"
  have *: "grown E s s' \<and> (\<forall>x. r = Inr x \<longrightarrow> Q x (as_trace s'))"
    by (rule assms(1) [unfolded act_spec_def, rule_format, OF TrueI run])
  then have "B (as_trace s')" using B assms(2) by (auto simp: grown_def)
  with * show "grown E s s' \<and> (\<forall>x. r = Inr x \<longrightarrow> Q x (as_trace s') \<and> B (as_trace s'))" by blast
qed

text \<open>What a park carries to its end when it rests on a clean exit.\<close>

definition fence_held :: "site \<Rightarrow> clean_exit_fence option \<Rightarrow> runtime_record \<Rightarrow> history \<Rightarrow> bool" where
  "fence_held W fence r tr \<longleftrightarrow>
     (case fence of None \<Rightarrow> True
      | Some f \<Rightarrow> clean_exit_fence_matches r f \<and> provider_down r tr \<and> exited_cleanly (own_paths W (rr_runtime r)) r tr)"

lemma fence_held_append: "fence_held W fence r tr \<Longrightarrow> fence_held W fence r (tr @ es)"
  by (auto simp: fence_held_def provider_down_append exited_cleanly_append split: option.splits)

abbreviation park_ready :: "site \<Rightarrow> clean_exit_fence option \<Rightarrow> runtime_record \<times> private_runtime \<Rightarrow> history \<Rightarrow> bool" where
  "park_ready W fence x tr \<equiv>
     snd x = own_runtime W (rr_runtime (fst x)) \<and> read_somewhere W (fst x) \<and> fence_held W fence (fst x) tr"

lemma act_recheck:
  "act_spec (park_rule W (Some f)) (\<lambda>_. True) (recheck_clean_exit W w auth revision f r) (park_ready W (Some f))"
proof -
  have await: "act_spec E A (await_recorded_provider_group_empty W r) no_claim" for E A
    unfolding await_recorded_provider_group_empty_def
    by (rule act_next [OF act_conseq [OF act_poll_for [where A = "\<lambda>_. True" and Q = no_claim]]])
      (auto intro!: act_fails act_yields act_next [OF act_group_empty] split: sum.split)
  have final: "act_spec E (\<lambda>_. read_somewhere W r2 \<and> R = own_runtime W (rr_runtime r2))
      (and_next (hosted_call (probe (si_host W) R)) (\<lambda>seen.
       and_next (promoted_onboarding_cwd W r2) (\<lambda>promoted.
       and_next (clean_provider_exit_status_with_cwd_proof W R r2 seen promoted) (\<lambda>status.
       if status \<noteq> Some 0 then fails RuntimeProbeAmbiguous
       else and_next (recorded_provider_group_is_empty W r2) (\<lambda>empty.
         if \<not> empty then fails RuntimeProbeAmbiguous else yields (r2, R)))))) (park_ready W (Some f))"
    if "clean_exit_fence_matches r2 f" for E r2 R
  proof (cases "read_somewhere W r2 \<and> R = own_runtime W (rr_runtime r2)")
    case True
    then have R: "R = own_runtime W (rr_runtime r2)" by simp
    have last: "act_spec E (\<lambda>tr. exited_cleanly (own_paths W (rr_runtime r2)) r2 tr) (recorded_provider_group_is_empty W r2)
        (\<lambda>empty tr. (empty \<longrightarrow> provider_down r2 tr) \<and> exited_cleanly (own_paths W (rr_runtime r2)) r2 tr)"
      by (rule act_keep [where B = "exited_cleanly (own_paths W (rr_runtime r2)) r2", OF act_group_empty exited_cleanly_append])
    show ?thesis
      unfolding R
      by (rule act_next [OF act_probe [where Q = no_claim]], simp, rule act_next [OF act_promoted],
          rule act_next [OF act_clean_exit [OF refl]], rule act_if, rule act_fails,
          rule act_next [OF act_conseq [OF last]], simp, assumption, rule act_if, rule act_fails, rule act_yields)
        (use True that in \<open>auto simp: fence_held_def\<close>)
  next
    case False
    then show ?thesis by (auto simp: act_spec_def)
  qed
  show ?thesis
    unfolding recheck_clean_exit_def
    by (rule act_next [OF await], rule act_next [OF act_overview], rule act_if, rule act_fails,
        rule act_next [OF act_runtime_of_workstream], rule act_if, rule act_fails,
        rule act_next [OF act_recorded_runtime], rule final, simp)
qed

section \<open>The end of a park\<close>

lemma act_park_private:
  assumes "R = system_runtime (si_host W) paths"
  shows "act_spec E A (park_private W R) (\<lambda>_ tr. \<exists>a b. tr = a @ b \<and> A a \<and> server_ended paths b)"
  unfolding act_spec_def
proof (intro allI impI)
  fix s r s'
  assume A: "A (as_trace s)" and run: "park_private W R s = Some (r, s')"
  obtain q tr where q: "park_server (si_host W) R (as_trace s) = (q, tr)" by (cases "park_server (si_host W) R (as_trace s)")
  with run have r: "r = map_err RuntimeFailed q" "s' = s\<lparr> as_trace := tr \<rparr>"
    by (auto simp: park_private_def hosted_run_def once_def)
  have "\<exists>es. tr = as_trace s @ es"
    using addsD [OF grows_any [OF end_kept(2)], of "si_host W" paths "as_trace s"] q assms by fastforce
  then have "grown E s s'" using r by (simp add: grown_def)
  moreover have "\<exists>a b. as_trace s' = a @ b \<and> A a \<and> server_ended paths b" if "r = Inr x" for x
  proof -
    from that r have "q = Inr ()" by (cases q) auto
    with q assms park_server_ends [of "si_host W" paths "as_trace s" tr] A r show ?thesis by auto
  qed
  ultimately show "grown E s s' \<and> (\<forall>x. r = Inr x \<longrightarrow> (\<exists>a b. as_trace s' = a @ b \<and> A a \<and> server_ended paths b))"
    by blast
qed

lemma act_stop_observer: "act_spec E A (stop_opencode_observer W h) no_claim"
  unfolding stop_opencode_observer_def
  by (auto intro!: act_yields act_fails act_if act_next [OF act_hosted_run [OF observer_grows, where Q = no_claim]]
      simp: spec_def split: option.split sum.split)

lemma act_stop_provider:
  "act_spec E A (stop_recorded_provider_if_present W r) (\<lambda>_ tr. provider_down r tr)"
proof -
  have stop: "act_spec E A (stop_recorded_provider W r) (\<lambda>_ tr. provider_down r tr)"
    unfolding stop_recorded_provider_def
  proof (rule act_next [OF act_settle [where Q = "\<lambda>x _. recorded_provider_identity r = Inr x"]])
    fix x
    show "act_spec E (\<lambda>_. recorded_provider_identity r = Inr x) ((\<lambda>(p, birth).
        and_next (hosted_run (terminate_owned_provider_process (si_host W) p birth provider_stop_timeout)) (\<lambda>_. yields ())) x)
        (\<lambda>_ tr. provider_down r tr)"
    proof (cases "recorded_provider_identity r = Inr x")
      case True
      obtain p birth where x: "x = (p, birth)" by (cases x)
      with True have "rr_pid r = Some p" by (auto simp: recorded_provider_identity_def split: if_splits)
      moreover have "act_spec E (\<lambda>_. True) (hosted_run (terminate_owned_provider_process (si_host W) p birth provider_stop_timeout))
          (\<lambda>_ tr. group_gone p tr)"
        by (rule act_hosted_run [OF provider_grows spec_provider_gone])
      ultimately show ?thesis
        unfolding x prod.case
        by (intro act_next [OF act_conseq [where A' = "\<lambda>_. recorded_provider_identity r = Inr (p, birth)"]] act_yields)
          (auto simp: provider_down_def)
    next
      case False
      then show ?thesis by (simp add: act_spec_def)
    qed
  qed simp
  then show ?thesis
    unfolding stop_recorded_provider_if_present_def
    by (auto intro!: act_yields act_fails simp: provider_down_def split: option.split)
qed

lemma act_cleanup:
  assumes "R = system_runtime (si_host W) paths" and "\<And>tr es. B tr \<Longrightarrow> B (tr @ es)"
    and "exited \<Longrightarrow> (\<And>tr. B tr \<Longrightarrow> provider_down r tr)"
  shows "act_spec E B (cleanup_processes W r R handle exited)
    (\<lambda>_ tr. \<exists>a b. tr = a @ b \<and> B a \<and> provider_down r a \<and> server_ended paths b)"
proof -
  let ?ended = "\<lambda>_ tr. \<exists>a b. tr = a @ b \<and> (B a \<and> provider_down r a) \<and> server_ended paths b"
  have observer: "act_spec E B (case handle of None \<Rightarrow> yields () | Some h \<Rightarrow> stop_opencode_observer W h) (\<lambda>_. B)"
    by (rule act_conseq [OF act_keep [where B = B and Q = no_claim, OF _ assms(2)]])
      (auto intro!: act_yields act_stop_observer split: option.split)
  have provider: "act_spec E B (if exited then yields () else stop_recorded_provider_if_present W r)
      (\<lambda>_ tr. provider_down r tr \<and> B tr)"
  proof (rule act_if)
    show "act_spec E B (stop_recorded_provider_if_present W r) (\<lambda>_ tr. provider_down r tr \<and> B tr)"
      by (rule act_keep [where B = B, OF act_stop_provider assms(2)])
  qed (auto intro!: act_yields assms(3))
  have server: "act_spec E (\<lambda>tr. provider_down r tr \<and> B tr) (park_private W R) ?ended"
    by (rule act_conseq [OF act_park_private [OF assms(1), where A = "\<lambda>tr. B tr \<and> provider_down r tr"]]) auto
  have anyway: "act_spec E (\<lambda>_. True) m (\<lambda>_ _. True)" if "act_spec E (\<lambda>_. True) m Q" for m :: "unit action" and Q
    by (rule act_conseq [OF that]) auto
  have park: "act_spec E (\<lambda>_. True) (park_private W R) no_claim"
    by (rule anyway [OF act_park_private [OF assms(1)]])
  have refused: "act_spec E (\<lambda>_. True) (outcome (if exited then yields () else stop_recorded_provider_if_present W r)
      (\<lambda>provider. outcome (case provider of Inl e \<Rightarrow> fails e | Inr _ \<Rightarrow> park_private W R)
        (\<lambda>server. settle (Inl e)))) (\<lambda>_. ?ended ())" for e
    by (rule act_outcome [where Q = no_claim])
      (auto intro!: act_yields anyway [OF act_stop_provider] act_outcome [where Q = no_claim] park act_fails act_settle)
  show ?thesis
    unfolding cleanup_processes_def
  proof (rule act_conseq [where Q = "?ended"], rule act_outcome [OF observer])
    fix x :: unit
    show "act_spec E B (outcome (if exited then yields () else stop_recorded_provider_if_present W r)
       (\<lambda>provider. outcome (case provider of Inl e \<Rightarrow> fails e | Inr _ \<Rightarrow> park_private W R)
         (\<lambda>server. settle (first_error (Inr x) server)))) ?ended"
      by (rule act_outcome [OF provider])
        (auto intro!: act_outcome [OF server] act_outcome [where Q = "\<lambda>_ _. False", OF act_fails] act_settle act_fails)
  next
    fix e
    show "act_spec E (\<lambda>_. True) (outcome (if exited then yields () else stop_recorded_provider_if_present W r)
       (\<lambda>provider. outcome (case provider of Inl e \<Rightarrow> fails e | Inr _ \<Rightarrow> park_private W R)
         (\<lambda>server. settle (first_error (Inl e) server)))) ?ended"
      using refused [of e] by simp
  qed auto
qed

lemma act_fail_cleanup: "act_spec (park_rule W fence) A (fail_runtime_cleanup W r e) Q"
  unfolding fail_runtime_cleanup_def mark_recovery_def
  by (rule act_outcome [OF act_writing [where Q = no_claim]]) (auto intro: act_fails simp: park_rule_def)

lemma act_finalize:
  assumes "R = own_runtime W (rr_runtime r)" and "read_somewhere W r"
  shows "act_spec (park_rule W fence) (fence_held W fence r) (finalize_park W r R (fence \<noteq> None)) no_claim"
proof -
  let ?B = "fence_held W fence r" and ?E = "park_rule W fence"
  let ?ended = "\<lambda>tr. \<exists>a b. tr = a @ b \<and> ?B a \<and> provider_down r a \<and> server_ended (own_paths W (rr_runtime r)) b"
  have handle: "act_spec ?E ?B (case rr_provider r of Codex \<Rightarrow> yields None
      | OpenCode \<Rightarrow> reading W (opencode_runtime_handle_for (si_env W) (rr_runtime r))) (\<lambda>_. ?B)"
    by (auto intro!: act_yields act_reading split: provider_kind.split)
  have evidence: "?E (WroteParked (rr_runtime r) (rr_revision r)) tr" if "?ended tr" for tr
  proof -
    from that obtain a b where ab: "tr = a @ b" "?B a" "provider_down r a" "server_ended (own_paths W (rr_runtime r)) b"
      by blast
    have "case fence of None \<Rightarrow> True
        | Some f \<Rightarrow> clean_exit_fence_matches r f \<and> exited_cleanly (own_paths W (rr_runtime r)) r a"
      using ab(2) by (auto simp: fence_held_def split: option.splits)
    with ab assms show ?thesis unfolding park_rule_def parked_evidence_def registry_write.case by blast
  qed
  have parked: "act_spec ?E ?ended (outcome (writing W (WroteParked (rr_runtime r) (rr_revision r)) f)
      (\<lambda>parked. case parked of Inl e \<Rightarrow> fail_runtime_cleanup W r e | Inr _ \<Rightarrow> yields ())) no_claim"
    for f :: "registry \<Rightarrow> (state_error, unit \<times> registry) result"
    by (rule act_outcome [OF act_writing [where Q = no_claim]]) (auto intro: act_yields act_fail_cleanup evidence)
  have deleted: "act_spec ?E ?ended (if handle = None then yields ()
      else writing W (WroteHandleGone (rr_runtime r) (rr_generation r)) f) (\<lambda>_. ?ended)" for handle :: "'a option" and f
    by (rule act_if, rule act_yields, assumption, rule act_writing) (simp_all add: park_rule_def)
  have held: "fence \<noteq> None \<Longrightarrow> ?B tr \<Longrightarrow> provider_down r tr" for tr
    by (auto simp: fence_held_def)
  show ?thesis
    unfolding finalize_park_def
    by (rule act_next [OF handle], rule act_outcome [OF act_cleanup [where B = ?B, OF assms(1) fence_held_append held]],
        assumption, assumption, assumption, unfold sum.case, rule act_outcome [OF deleted], unfold sum.case, rule parked,
        rule act_fail_cleanup, rule act_fail_cleanup)
qed

lemma act_park:
  "act_spec (park_rule W fence) (\<lambda>_. True) (park_authorized_with_clean_exit_fence W w expected auth fence) no_claim"
proof -
  let ?E = "park_rule W fence"
  have again: "act_spec ?E (\<lambda>_. True) (and_next (workstream_revision_of W w) (\<lambda>revision. yields (Some revision))) no_claim"
    unfolding workstream_revision_of_def
    by (rule act_next [OF act_next [OF act_reading_pages]]) (auto intro: act_settle act_yields)
  have finish: "act_spec ?E (park_ready W fence x) (case x of (r2, R2) \<Rightarrow>
      and_next (finalize_park W r2 R2 (fence \<noteq> None)) (\<lambda>_.
      and_next (workstream_revision_of W w) (\<lambda>revision. yields (Some revision)))) no_claim" for x
  proof (cases "snd x = own_runtime W (rr_runtime (fst x)) \<and> read_somewhere W (fst x)")
    case True
    then have end': "act_spec ?E (park_ready W fence x) (finalize_park W (fst x) (snd x) (fence \<noteq> None)) no_claim"
      by (intro act_conseq [OF act_finalize]) auto
    show ?thesis
      by (cases x) (use act_next [OF end' again] in simp)
  next
    case False
    then show ?thesis by (auto simp: act_spec_def)
  qed
  have ready: "act_spec ?E (\<lambda>_. read_somewhere W r1 \<and> R = own_runtime W (rr_runtime r1)) (case fence of
        None \<Rightarrow> yields (r1, R) | Some f \<Rightarrow> recheck_clean_exit W w auth revision f r1) (park_ready W fence)" for r1 R revision
  proof (cases fence)
    case None
    then show ?thesis by (auto intro!: act_yields simp: fence_held_def)
  next
    case (Some f)
    show ?thesis
      unfolding Some option.case by (rule act_conseq [OF act_recheck]) auto
  qed
  have admitted: "act_spec ?E (\<lambda>_. read_somewhere W r \<and> R = own_runtime W (rr_runtime r)) (admit_probe W r seen clean)
      (\<lambda>r1 _. read_somewhere W r1 \<and> R = own_runtime W (rr_runtime r1))" for r R seen clean
  proof (rule act_given)
    assume "read_somewhere W r \<and> R = own_runtime W (rr_runtime r)"
    then show "act_spec ?E (\<lambda>_. True) (admit_probe W r seen clean)
        (\<lambda>r1 _. read_somewhere W r1 \<and> R = own_runtime W (rr_runtime r1))"
      by (intro act_conseq [OF act_admit]) simp_all
  qed
  have look: "act_spec ?E (\<lambda>_. K) m Q \<Longrightarrow> act_spec ?E (\<lambda>_. K) m (\<lambda>_ _. K)" for m :: "'c action" and Q K
    unfolding act_spec_def by blast
  have clean: "act_spec ?E (\<lambda>_. read_somewhere W r \<and> R = own_runtime W (rr_runtime r))
      (clean_provider_exit_status_with_cwd_proof W R r seen promoted) no_claim" for R r seen promoted
    by (rule act_given, rule act_conseq [OF act_clean_exit]) simp_all
  have probed: "act_spec ?E (\<lambda>_. read_somewhere W r \<and> R = own_runtime W (rr_runtime r))
      (hosted_call (probe (si_host W) R)) no_claim" for R r
    by (rule act_given) (simp add: act_probe)
  show ?thesis
    unfolding park_authorized_with_clean_exit_fence_def
  proof (rule act_next [OF act_overview], rule act_if, rule act_fails,
      rule act_next [OF act_runtime_of_workstream], rule act_if, rule act_fails, rule act_next [OF act_recorded_runtime])
    fix overview r R
    let ?K = "\<lambda>_. read_somewhere W r \<and> R = own_runtime W (rr_runtime r)"
    show "act_spec ?E ?K (and_next (hosted_call (probe (si_host W) R)) (\<lambda>seen.
         and_next (promoted_onboarding_cwd W r) (\<lambda>promoted.
         and_next (clean_provider_exit_status_with_cwd_proof W R r seen promoted) (\<lambda>status.
         if fence \<noteq> None \<and> status \<noteq> Some 0 then yields None
         else
           and_next (admit_probe W r seen (status = Some 0)) (\<lambda>r1.
           and_next (case fence of
               None \<Rightarrow> yields (r1, R)
             | Some f \<Rightarrow> recheck_clean_exit W w auth (wo_revision overview) f r1) (\<lambda>(r2, R2).
           and_next (finalize_park W r2 R2 (fence \<noteq> None)) (\<lambda>_.
           and_next (workstream_revision_of W w) (\<lambda>revision. yields (Some revision))))))))) no_claim"
      by (rule act_next [OF look [OF probed]],
          rule act_next [OF look [OF act_promoted]],
          rule act_next [OF look [OF clean]],
          rule act_if, rule act_yields, simp, rule act_next [OF admitted],
          rule act_next [OF ready], rule finish)
  qed
qed

end
