(* ===== verification/Parking_Outcome.thy ===== *)
theory Parking_Outcome
  imports Parking_Safety Group_Outcome Readable Samples
begin

text \<open>
  What the stop of a Runtime and the end of a Workstream leave in the registry, as the log of their
  own writes tells.
\<close>

section \<open>Success\<close>

lemma no_Inl [simp]: "(\<forall>e. x \<noteq> Inl e) \<longleftrightarrow> (\<exists>y. x = Inr y)"
  by (cases x) auto

lemma and_next_Inr:
  "and_next m k s = Some (Inr y, s') \<longleftrightarrow> (\<exists>x s1. m s = Some (Inr x, s1) \<and> k x s1 = Some (Inr y, s'))"
  by (auto simp: and_next_def split: option.splits sum.splits)

lemma outcome_Some: "outcome m k s = Some y \<longleftrightarrow> (\<exists>x s1. m s = Some (x, s1) \<and> k x s1 = Some y)"
  by (auto simp: outcome_def split: option.splits)

lemma settle_Inr: "settle r s = Some (Inr y, s') \<longleftrightarrow> r = Inr y \<and> s' = s"
  by (auto simp: settle_def)

lemma yields_Inr: "yields x s = Some (Inr y, s') \<longleftrightarrow> y = x \<and> s' = s"
  by (auto simp: yields_def)

lemma fails_Inr [simp]: "fails e s \<noteq> Some (Inr y, s')"
  by (simp add: fails_def)

lemma reading_Inr:
  "reading W f s = Some (Inr y, s') \<longleftrightarrow> f (current_db W s) = Inr y \<and> s' = s\<lparr> as_db := current_db W s \<rparr>"
  by (auto simp: reading_def map_err_def split: sum.splits)

lemma pages_Inr:
  "reading_pages W f s = Some (Inr y, s') \<longleftrightarrow>
     f (current_db W s) = Some (Inr y) \<and> s' = s\<lparr> as_db := current_db W s \<rparr>"
  by (auto simp: reading_pages_def map_err_def split: sum.splits)

lemma writing_Inr:
  "writing W x f s = Some (Inr y, s') \<longleftrightarrow>
     (\<exists>db. f (current_db W s) = Inr (y, db) \<and> s' = s\<lparr> as_db := db, as_log := as_log s @ [(x, as_trace s)] \<rparr>)"
  by (auto simp: writing_def split: sum.splits)

lemmas action_Inr = and_next_Inr settle_Inr yields_Inr reading_Inr pages_Inr writing_Inr

lemma fail_cleanup_Inr [simp]: "fail_runtime_cleanup W r e s \<noteq> Some (Inr y, s')"
  by (simp add: fail_runtime_cleanup_def outcome_Some fails_def)

lemma finalize_parks:
  assumes "finalize_park W r R exited s = Some (Inr y, s')"
  shows "\<exists>before h. as_log s' = before @ [(WroteParked (rr_runtime r) (rr_revision r), h)]"
  using assms
  by (auto simp: finalize_park_def and_next_Inr outcome_Some writing_Inr yields_Inr split: sum.splits)

lemma revision_reads: "workstream_revision_of W w s = Some (Inr n, s') \<Longrightarrow> as_log s' = as_log s"
  by (auto simp: workstream_revision_of_def action_Inr)

lemma park_parks:
  assumes "park_authorized_with_clean_exit_fence W w expected auth fence s = Some (Inr (Some n), s')"
  shows "\<exists>i v h. (WroteParked i v, h) \<in> set (as_log s')"
proof -
  from assms obtain r R s1 s2 where end': "finalize_park W r R (fence \<noteq> None) s1 = Some (Inr (), s2)"
    and again: "workstream_revision_of W w s2 = Some (Inr n, s')"
    unfolding park_authorized_with_clean_exit_fence_def
    by (auto simp: and_next_Inr yields_Inr split: if_splits)
  from finalize_parks [OF end'] revision_reads [OF again] show ?thesis by fastforce
qed


section \<open>The end of a Workstream\<close>

lemma grown_log: "grown E s s' \<Longrightarrow> \<exists>ws. as_log s' = as_log s @ ws"
  by (auto simp: grown_def)

lemma park_authorized_rule:
  assumes "park_authorized W w expected auth s = Some (Inr n, s')"
  shows "grown (park_rule W None) s s'" "\<exists>i v h. (WroteParked i v, h) \<in> set (as_log s')"
proof -
  from assms have run: "park_authorized_with_clean_exit_fence W w expected auth None s = Some (Inr (Some n), s')"
    by (auto simp: park_authorized_def action_Inr ok_or_def split: option.splits)
  show "grown (park_rule W None) s s'"
    using act_park [unfolded act_spec_def, rule_format, OF TrueI run] by blast
  show "\<exists>i v h. (WroteParked i v, h) \<in> set (as_log s')" by (rule park_parks [OF run])
qed

text \<open>A Workstream whose overview carries a Runtime is written off only after that was parked.\<close>

definition stopped_before :: "site \<Rightarrow> uuid \<Rightarrow> (workstream_overview \<Rightarrow> bool) \<Rightarrow> act_state
    \<Rightarrow> (registry_write \<times> history) list \<Rightarrow> bool" where
  "stopped_before W w running s log \<longleftrightarrow>
     (\<exists>overviews v. workstream_overviews (si_env W) (current_db W s) = Some (Inr overviews) \<and>
        List.find (\<lambda>v. wo_workstream v = w) overviews = Some v \<and>
        (if running v
         then \<exists>i n h. (WroteParked i n, h) \<in> set log \<and> parked_evidence W None i n h
         else log = []))"

lemma found_Inr: "find_overview w overviews = Inr v \<longleftrightarrow> List.find (\<lambda>v. wo_workstream v = w) overviews = Some v"
  by (simp add: find_overview_def ok_or_def split: option.split)

lemma overview_Inr:
  assumes "workstream_overview_authorized W w auth s = Some (Inr v, s')"
  shows "\<exists>overviews. workstream_overviews (si_env W) (current_db W s) = Some (Inr overviews) \<and>
      List.find (\<lambda>v. wo_workstream v = w) overviews = Some v" "as_log s' = as_log s"
  using assms by (auto simp: workstream_overview_authorized_def action_Inr found_Inr split: sum.splits if_splits)

lemma parked_in:
  assumes "park_authorized W w expected auth s = Some (Inr n, s')" and "as_log s = []"
  shows "\<exists>i n h. (WroteParked i n, h) \<in> set (as_log s') \<and> parked_evidence W None i n h"
  using park_authorized_rule [OF assms(1)] assms(2) by (fastforce simp: grown_def list_all_iff park_rule_def)


section \<open>A concrete stop\<close>

text \<open>A Codex Workstream whose provider and server are gone by the time it is parked.\<close>

definition gone_host :: host where
  "gone_host = sample_host
     \<lparr> h_stat := (\<lambda>tr p. Inl absent_error),
       h_run := (\<lambda>tr c. Inr \<lparr> co_success = False, co_stdout = [], co_stderr = ''no server running'' \<rparr>),
       h_file := (\<lambda>tr f. Inr False) \<rparr>"

definition gone_site :: site where
  "gone_site = \<lparr> si_env = sample_env,
     si_root = \<lparr> st_mode = Current, st_root = ''/s'', st_catalog = schema15_catalog, st_canonicalize = Some \<rparr>,
     si_host = gone_host, si_others = (\<lambda>_ db. db), si_clock = (\<lambda>_. Some 1000) \<rparr>"

definition gone_session :: string where "gone_session = ''wsnav-'' @ sid 4"

definition gone_sample :: registry where
  "gone_sample = sample_registry [sample_workstream 3 ''codex'' ''open'' None 7]
     [(sample_runtime 4 3 ''codex'' ''g1'' ''idle'' 5)\<lparr> rt_session := gone_session \<rparr>] [] [] []"

definition gone_start :: act_state where
  "gone_start = \<lparr> as_db = gone_sample, as_trace = [], as_log = [] \<rparr>"

abbreviation gone_record :: runtime_record where
  "gone_record \<equiv> \<lparr> rr_runtime = 4, rr_workstream = 3, rr_provider = Codex, rr_generation = ''g1'',
     rr_session = gone_session, rr_cwd = ''/work/project'', rr_pid = Some 4711, rr_birth = Some ''birth'',
     rr_status = Idle, rr_revision = 5 \<rparr>"

abbreviation gone_overview :: workstream_overview where
  "gone_overview \<equiv> \<lparr> wo_workstream = 3, wo_location = 1, wo_provider = Codex, wo_path = ''/work/project'',
     wo_display = ''project'', wo_fingerprint = None, wo_remote_display = None, wo_lifecycle = Open,
     wo_archived = None, wo_activity_seq = 1, wo_activity_at = None, wo_revision = 7,
     wo_runtime = Some gone_record, wo_binding = None \<rparr>"

lemma gone_simps [simp]:
  "si_env gone_site = sample_env" "st_root (si_root gone_site) = ''/s''" "si_host gone_site = gone_host"
  "si_clock gone_site tr = Some 1000" "current_db gone_site s = as_db s"
  "as_db gone_start = gone_sample" "as_trace gone_start = []" "as_log gone_start = []"
  by (simp_all add: gone_site_def gone_start_def current_db_def)

lemma gone_texts: "provider_kind_from_text ''codex'' = Inr Codex" "runtime_status_from_text ''idle'' = Inr Idle"
  "workstream_lifecycle_from_text ''open'' = Inr Open" "read_revision 5 = Inr 5" "read_revision 7 = Inr 7"
  "is_missing_server ''no server running''"
  by code_simp+

lemma gone_runtime: "runtime_for_workstream sample_env 3 gone_sample = Inr (Some gone_record)"
  by (simp add: runtime_for_workstream_def gone_sample_def sample_defs lookup_defs row_to_runtime_def
      row_to_runtime_with_id_def read_uuid_def decode_nonzero_pid_def u32_try_from_def transpose_opt_def
      workstream_provider_def gone_texts ok_or_def)

lemma gone_overviews: "workstream_overviews sample_env gone_sample = Some (Inr [gone_overview])"
proof -
  have bases: "overview_bases gone_sample = [overview_base_of (sample_workstream 3 ''codex'' ''open'' None 7, sample_location)]"
    by (simp add: overview_bases_def joined_rows_def gone_sample_def sample_defs location_at_def)
  have "overview_binding sample_env (Some gone_record) gone_sample = Inr None"
    by (simp add: overview_binding_def binding_for_runtime_def load_current_binding_def load_binding_def gone_sample_def sample_defs lookup_defs)
  then have "hydrate_workstream_overview sample_env gone_sample
      (overview_base_of (sample_workstream 3 ''codex'' ''open'' None 7, sample_location)) = Inr gone_overview"
    by (simp add: hydrate_workstream_overview_def overview_base_of_def sample_workstream_def sample_location_def
        read_uuid_def gone_texts gone_runtime Catalog.nonempty_def)
  then show ?thesis
    by (simp add: workstream_overviews_all bases u32_limit_def max_navigator_workstreams_def)
qed

lemma gone_tmux:
  "system_tmux gone_host ''tmux'' v tr =
     (Inr \<lparr> tr_success = False, tr_stdout = [], tr_stderr = ''no server running'' \<rparr>,
      tr @ [CommandRun (tmux_command ''tmux'' v)
        (Inr \<lparr> co_success = False, co_stdout = [], co_stderr = ''no server running'' \<rparr>)])"
  by (simp add: system_tmux_def mapped_def run_command_def gone_host_def response_from_output_def
      max_tmux_output_bytes_def lossy_ascii Let_def)

lemma gone_file: "h_file gone_host tr f = Inr False"
  by (simp add: gone_host_def)

lemma gone_answers:
  "fst (probe gone_host (system_runtime gone_host paths) tr) = Inr ProbeMissing"
  "fst (park_server gone_host (system_runtime gone_host paths) tr) = Inr ()"
  by (simp_all add: probe_def park_server_def stop_server_def fst_then_do invoke_def gone_tmux gone_texts path_exists_def
      file_call_def Let_def gone_file and_do_def mapped_def split: prod.split)

lemma gone_provider:
  "terminate_owned_provider_process gone_host 4711 ''birth'' timeout tr =
     Some (Inr AlreadyGone, tr @ [StatRead 4711 (Inl absent_error), ProcListed (Inr [])])"
  by (simp add: terminate_owned_provider_process_def terminate_owned_process_group_def linux_probe_simps and_run_def once_def
      process_birth_checked_def read_linux_process_stat_with_scope_def read_stat_def mapped_def Let_def gone_host_def
      stat_result_def entry_vanished_def absent_error_def process_group_members_by_id_checked_def
      linux_process_group_members_def list_proc_def then_do_def give_def sample_host_def)

lemma hosted_call_eq:
  "hosted_call m s = Some (map_err RuntimeFailed (fst (m (as_trace s))), s\<lparr> as_trace := snd (m (as_trace s)) \<rparr>)"
  by (simp add: hosted_run_def once_def split: prod.split)

lemmas gone_run_defs = and_next_def outcome_def yields_def fails_def settle_def reading_def reading_pages_def
  hosted_call_eq gone_answers map_err_def

definition gone_parked :: registry where
  "gone_parked = sample_registry [(sample_workstream 3 ''codex'' ''parked'' None 8)\<lparr> ws_activity_seq := 2 \<rparr>]
     [(sample_runtime 4 3 ''codex'' ''g1'' ''stopped'' 6)\<lparr> rt_session := gone_session \<rparr>] [] [] []"

lemma gone_park_runtime: "park_runtime sample_env 4 5 gone_sample = Inr ((), gone_parked)"
  by (simp add: park_runtime_def gone_sample_def gone_parked_def sample_defs lookup_defs runtime_at_revision_def
      update_runtimes_def update_workstreams_def next_activity_sequence_def ok_or_def exec_update_def sql_count_def
      sql_update_rows_def row_checks)

lemma gone_parked_overviews:
  "\<exists>v. workstream_overviews sample_env gone_parked = Some (Inr [v]) \<and> wo_workstream v = 3 \<and> wo_revision v = 8"
proof -
  let ?w = "(sample_workstream 3 ''codex'' ''parked'' None 8)\<lparr> ws_activity_seq := 2 \<rparr>"
  have bases: "overview_bases gone_parked = [overview_base_of (?w, sample_location)]"
    by (simp add: overview_bases_def joined_rows_def gone_parked_def sample_defs location_at_def)
  have texts: "runtime_status_from_text ''stopped'' = Inr Stopped" "workstream_lifecycle_from_text ''parked'' = Inr Parked"
    "read_revision 6 = Inr 6" "read_revision 8 = Inr 8" "validate_registry_text ''runtime generation'' ''g1'' = Inr ()"
    by code_simp+
  have "runtime_for_workstream sample_env 3 gone_parked = Inr (Some (gone_record\<lparr> rr_status := Stopped, rr_revision := 6 \<rparr>))"
    by (simp add: runtime_for_workstream_def gone_parked_def sample_defs lookup_defs row_to_runtime_def
        row_to_runtime_with_id_def read_uuid_def decode_nonzero_pid_def u32_try_from_def transpose_opt_def
        workstream_provider_def gone_texts texts ok_or_def)
  moreover have "retained_codex_binding_for_runtime sample_env 4 gone_parked = Inr None"
    by (simp add: retained_codex_binding_for_runtime_def load_binding_def gone_parked_def sample_defs lookup_defs
        runtime_join_def gone_texts texts ok_or_def)
  ultimately show ?thesis
    by (simp add: workstream_overviews_all bases u32_limit_def max_navigator_workstreams_def
        hydrate_workstream_overview_def overview_base_of_def sample_workstream_def sample_location_def
        read_uuid_def gone_texts texts overview_binding_def)
qed

lemma gone_looks:
  assumes "as_db s = gone_sample"
  shows "workstream_overview_authorized gone_site 3 auth s = Some (Inr gone_overview, s)"
    "runtime_of_workstream gone_site 3 s = Some (Inr gone_record, s)"
    "recorded_runtime gone_site gone_record s = Some (Inr (own_runtime gone_site 4), s)"
    "promoted_onboarding_cwd gone_site gone_record s = Some (Inr None, s)"
proof -
  have same: "s\<lparr> as_db := gone_sample \<rparr> = s" using assms by (cases s) simp
  show "workstream_overview_authorized gone_site 3 auth s = Some (Inr gone_overview, s)"
    using gone_overviews assms
    by (simp add: workstream_overview_authorized_def gone_run_defs find_overview_def ok_or_def same)
  show "runtime_of_workstream gone_site 3 s = Some (Inr gone_record, s)"
    using gone_runtime assms by (simp add: runtime_of_workstream_def gone_run_defs ok_or_def same)
  show "recorded_runtime gone_site gone_record s = Some (Inr (own_runtime gone_site 4), s)"
    by (simp add: recorded_runtime_def runtime_paths_for_record_def runtime_paths_for_def own_paths_def gone_run_defs gone_session_def Let_def)
  show "promoted_onboarding_cwd gone_site gone_record s = Some (Inr None, s)"
    by (simp add: promoted_onboarding_cwd_def gone_run_defs)
qed

lemma gone_finalize:
  assumes "as_db s = gone_sample" and "as_log s = []"
  shows "\<exists>tr h. finalize_park gone_site gone_record (own_runtime gone_site 4) False s =
     Some (Inr (), \<lparr> as_db = gone_parked, as_trace = tr, as_log = [(WroteParked 4 5, h)] \<rparr>)"
proof -
  have server: "\<exists>tr. park_private gone_site (own_runtime gone_site 4) s = Some (Inr (), s\<lparr> as_trace := tr \<rparr>)" for s
    by (auto simp: park_private_def hosted_call_eq gone_answers map_err_def)
  have provider: "stop_recorded_provider_if_present gone_site gone_record s =
      Some (Inr (), s\<lparr> as_trace := as_trace s @ [StatRead 4711 (Inl absent_error), ProcListed (Inr [])] \<rparr>)" for s
    by (simp add: stop_recorded_provider_if_present_def stop_recorded_provider_def recorded_provider_identity_def
        and_next_def settle_def yields_def ok_or_def hosted_run_def gone_provider map_err_def)
  obtain tr where "cleanup_processes gone_site gone_record (own_runtime gone_site 4) None False s =
      Some (Inr (), s\<lparr> as_trace := tr \<rparr>)"
    using server [of "s\<lparr> as_trace := as_trace s @ [StatRead 4711 (Inl absent_error), ProcListed (Inr [])] \<rparr>"]
    by (auto simp: cleanup_processes_def outcome_def yields_def settle_def provider)
  then show ?thesis
    using assms gone_park_runtime
    by (cases s) (simp add: finalize_park_def and_next_def outcome_def yields_def writing_def)
qed

lemma gone_parks:
  "\<exists>tr h. park_authorized_with_clean_exit_fence gone_site 3 (Some 7) ActiveOnly None gone_start =
     Some (Inr (Some 8), \<lparr> as_db = gone_parked, as_trace = tr, as_log = [(WroteParked 4 5, h)] \<rparr>)"
proof -
  obtain s where s: "hosted_call (probe gone_host (own_runtime gone_site 4)) gone_start = Some (Inr ProbeMissing, s)"
    "as_db s = gone_sample" "as_log s = []"
    by (simp add: hosted_call_eq gone_answers map_err_def)
  obtain tr h where park: "finalize_park gone_site gone_record (own_runtime gone_site 4) False s =
      Some (Inr (), \<lparr> as_db = gone_parked, as_trace = tr, as_log = [(WroteParked 4 5, h)] \<rparr>)"
    using gone_finalize [OF s(2,3)] by blast
  have again: "workstream_revision_of gone_site 3 s1 = Some (Inr 8, s1)" if "as_db s1 = gone_parked" for s1
  proof -
    have "s1\<lparr> as_db := gone_parked \<rparr> = s1" using that by (cases s1) simp
    with that gone_parked_overviews show ?thesis
      by (auto simp: workstream_revision_of_def gone_run_defs find_overview_def ok_or_def)
  qed
  have status: "clean_provider_exit_status_with_cwd_proof gone_site (own_runtime gone_site 4) gone_record ProbeMissing None s
      = Some (Inr None, s)"
    by (simp add: clean_provider_exit_status_with_cwd_proof_def yields_def)
  have admitted: "admit_probe gone_site gone_record ProbeMissing False s = Some (Inr gone_record, s)"
    by (simp add: admit_probe_def recorded_provider_identity_def ok_or_def yields_def)
  show ?thesis
    using s(1) park status unfolding park_authorized_with_clean_exit_fence_def
    by (simp add: and_next_def gone_looks s(2) admitted again yields_def)
qed



end
