(* ===== verification/Profile_Safety.thy ===== *)
theory Profile_Safety
  imports Profile
begin

text \<open>
  What the observer profile keeps: the text of others in the file, the exact declaration, and the trust
  that the user gave. The hook command is read back by a reference of the quoting of a shell.
\<close>

section \<open>Splitting the file\<close>

lemma find_text_at: "find_text pat s = Some i \<Longrightarrow> i \<le> length s \<and> take (length pat) (drop i s) = pat"
  by (induction s arbitrary: i) (auto simp: starts_with_def split: if_splits)

lemma stripped_prefix: "strip_prefix pat s = Some r \<Longrightarrow> s = pat @ r"
  by (auto simp: strip_prefix_def starts_with_def split: if_splits) (metis append_take_drop_id)

lemma split_prefix_Inr:
  assumes "split_provider_prefix V content p = Inr (prefix, rest)"
  shows "content = prefix @ rest" "prefix = [] \<or> last prefix = newline" "length prefix \<le> max_provider_prefix_bytes"
    "validate_provider_prefix V prefix p = Inr ()"
  using assms by (auto simp: split_provider_prefix_def split: option.splits if_splits)

text \<open>The regions of an accepted file.\<close>

definition has_regions :: "profile_env \<Rightarrow> observer_profile \<Rightarrow> owned_document \<Rightarrow> string \<Rightarrow> string \<Rightarrow> bool" where
  "has_regions V B document content native \<longleftrightarrow>
     content = od_prefix document @ rendered (pe_env V) B @ native \<and>
     (od_prefix document = [] \<or> last (od_prefix document) = newline) \<and>
     length (od_prefix document) \<le> max_provider_prefix_bytes \<and>
     validate_provider_prefix V (od_prefix document) (profile_path B) = Inr () \<and>
     (if native = [] then od_suffix document = None
      else \<exists>suffix. pe_toml V native = Some suffix \<and> accepts_native_state_suffix suffix (profile_path B) \<and>
        od_suffix document = Some suffix)"

lemma read_file_Inr: "read_file W d p = Inr c \<longleftrightarrow> dw_fault W ReadPath = None \<and> followed d p = Some (FileTarget c)"
  by (auto simp: read_file_def split: option.splits disk_target.splits)

lemma read_owned_Inr:
  assumes "read_owned_document V W B own h d = Inr document"
  shows "\<exists>content native. followed d (profile_path B) = Some (FileTarget content) \<and> has_regions V B document content native"
    "path_eq (po_path own) (profile_path B)" "po_hash own = h" "po_schema own = observer_profile_schema_version"
    "path_eq (po_hook own) (ob_executable B)"
proof -
  let ?p = "profile_path B"
  from assms obtain content prefix rest native where
    content: "followed d ?p = Some (FileTarget content)" and split: "split_provider_prefix V content ?p = Inr (prefix, rest)"
    and native: "strip_prefix (rendered (pe_env V) B) rest = Some native"
    and result: "if native = [] then document = \<lparr> od_prefix = prefix, od_suffix = None \<rparr>
      else \<exists>suffix. pe_toml V native = Some suffix \<and> accepts_native_state_suffix suffix ?p \<and>
        document = \<lparr> od_prefix = prefix, od_suffix = Some suffix \<rparr>"
    by (auto simp: read_owned_document_def declaration_for_def Let_def read_file_Inr split: if_splits option.splits)
  note parts = split_prefix_Inr [OF split] stripped_prefix [OF native]
  have "has_regions V B document content native"
    using parts result by (auto simp: has_regions_def split: if_splits)
  with content show "\<exists>content native. followed d ?p = Some (FileTarget content) \<and> has_regions V B document content native"
    by blast
  show "path_eq (po_path own) ?p" "po_hash own = h" "po_schema own = observer_profile_schema_version"
    "path_eq (po_hook own) (ob_executable B)"
    using assms by (auto simp: read_owned_document_def declaration_for_def Let_def split: if_splits)
qed

section \<open>Trust\<close>

lemma Option_bind_Some: "Option.bind x f = Some y \<longleftrightarrow> (\<exists>z. x = Some z \<and> f z = Some y)"
  by (cases x) auto

lemma table_of_Some: "toml_table_of v = Some t \<longleftrightarrow> v = TTable t"
  by (cases v) auto

lemma complete_trust_state:
  assumes "accepts_native_state_suffix suffix p" and "has_complete_hook_trust suffix p"
  obtains hooks state where "map_of suffix ''hooks'' = Some (TTable hooks)" "map_of hooks ''state'' = Some (TTable state)"
    "fst ` set state = (\<lambda>k. hook_prefix p @ k) ` set hook_keys" "list_all (accepts_hook_record \<circ> snd) state"
proof -
  from assms(2) obtain hooks state where
    at: "map_of suffix ''hooks'' = Some (TTable hooks)" "map_of hooks ''state'' = Some (TTable state)"
    and all: "list_all (\<lambda>k. map_of state (hook_prefix p @ k) \<noteq> None) hook_keys"
    by (auto simp: has_complete_hook_trust_def Option_bind_Some table_of_Some list_all_iff
        split: option.splits)
  from assms(1) at have given: "list_all (\<lambda>(key, record).
      (case strip_prefix (hook_prefix p) key of
         None \<Rightarrow> False | Some hook \<Rightarrow> hook \<in> set hook_keys \<and> accepts_hook_record record)) state"
    by (auto simp: accepts_native_state_suffix_def accepts_hook_state_def split: option.splits)
  have "fst ` set state \<subseteq> (\<lambda>k. hook_prefix p @ k) ` set hook_keys"
    using given by (fastforce simp: list_all_iff dest: stripped_prefix split: option.splits)
  moreover have "(\<lambda>k. hook_prefix p @ k) ` set hook_keys \<subseteq> fst ` set state"
  proof (rule image_subsetI)
    fix k
    assume "k \<in> set hook_keys"
    with all obtain r where "map_of state (hook_prefix p @ k) = Some r" by (auto simp: list_all_iff)
    then show "hook_prefix p @ k \<in> fst ` set state" by (force dest: map_of_SomeD)
  qed
  moreover have "list_all (accepts_hook_record \<circ> snd) state"
    using given by (fastforce simp: list_all_iff split: option.splits)
  ultimately show thesis using at that by blast
qed

text \<open>C32: Managed launches are enabled only by a file that holds, after nothing but validated settings of
  the provider, the exact declaration of this program, followed by a state in which the user trusts
  each of the four declared hooks and no other hook of this file.\<close>

theorem trusted_profile_exact:
  assumes "verify_native_trust V W B own d = Inr ()"
  shows "\<exists>prefix native suffix hooks state.
    followed d (profile_path B) = Some (FileTarget (prefix @ rendered (pe_env V) B @ native)) \<and>
    validate_provider_prefix V prefix (profile_path B) = Inr () \<and> length prefix \<le> 4096 \<and>
    pe_toml V native = Some suffix \<and> map_of suffix ''hooks'' = Some (TTable hooks) \<and>
    map_of hooks ''state'' = Some (TTable state) \<and>
    fst ` set state = (\<lambda>k. hook_prefix (profile_path B) @ k) ` set hook_keys \<and>
    list_all (accepts_hook_record \<circ> snd) state"
proof -
  from assms obtain document suffix where
    read: "read_owned_document V W B own (content_hash V (rendered (pe_env V) B)) d = Inr document"
    and suffix: "od_suffix document = Some suffix" "has_complete_hook_trust suffix (profile_path B)"
    by (auto simp: verify_native_trust_def owned_native_suffix_def split: if_splits option.splits)
  from read_owned_Inr(1) [OF read] obtain content native where
    content: "followed d (profile_path B) = Some (FileTarget content)" and regions: "has_regions V B document content native"
    by blast
  from regions suffix(1) have native: "pe_toml V native = Some suffix" "accepts_native_state_suffix suffix (profile_path B)"
    by (auto simp: has_regions_def split: if_splits)
  from complete_trust_state [OF native(2) suffix(2)] obtain hooks state where
    "map_of suffix ''hooks'' = Some (TTable hooks)" "map_of hooks ''state'' = Some (TTable state)"
    "fst ` set state = (\<lambda>k. hook_prefix (profile_path B) @ k) ` set hook_keys" "list_all (accepts_hook_record \<circ> snd) state"
    by blast
  moreover have "followed d (profile_path B) = Some (FileTarget (od_prefix document @ rendered (pe_env V) B @ native))"
    "validate_provider_prefix V (od_prefix document) (profile_path B) = Inr ()" "length (od_prefix document) \<le> 4096"
    using content regions by (simp_all add: has_regions_def max_provider_prefix_bytes_def)
  ultimately show ?thesis using native(1) by blast
qed


section \<open>What the file keeps\<close>

datatype profile_request =
    InstallProfile string "profile_ownership option"
  | RemoveProfile profile_ownership
  | UpdateProfile profile_ownership

primrec serve_profile ::
  "profile_env \<Rightarrow> disk_world \<Rightarrow> observer_profile \<Rightarrow> profile_request \<Rightarrow> disk
     \<Rightarrow> (profile_error, unit) result \<times> disk" where
  "serve_profile V W B (InstallProfile owner existing) d =
     (case install_profile V W B owner existing d of (r, d') \<Rightarrow> (and_then r (\<lambda>_. Inr ()), d'))"
| "serve_profile V W B (RemoveProfile own) d = remove_profile V W B own d"
| "serve_profile V W B (UpdateProfile own) d =
     (case update_profile V W B own d of (r, d') \<Rightarrow> (and_then r (\<lambda>_. Inr ()), d'))"

text \<open>The fresh file beside the profile.\<close>

definition profile_temporary :: "disk_world \<Rightarrow> observer_profile \<Rightarrow> string set" where
  "profile_temporary W B =
     {t. \<exists>parent nanos. path_parent (profile_path B) = Some parent \<and> dw_nanos W = Some nanos \<and>
        t = temporary_name parent nanos}"

lemma last_join: "q \<noteq> [] \<Longrightarrow> last (path_join p q) = last q"
  by (simp add: path_join_def)

lemma temporary_apart: "profile_path B \<notin> profile_temporary W B"
proof
  assume "profile_path B \<in> profile_temporary W B"
  then obtain parent nanos where "profile_path B = temporary_name parent nanos"
    by (auto simp: profile_temporary_def)
  moreover have "last (profile_path B) = CHR ''l''"
    by (simp add: profile_path_def last_join)
  moreover have "last (temporary_name parent nanos) = CHR ''p''"
    by (simp add: temporary_name_def last_join)
  ultimately show False by simp
qed

lemma private_write:
  assumes "atomic_private_write W (profile_path B) content d = (r, d')"
  shows "if r = Inr () then d' (profile_path B) = Some (Plain (FileTarget content)) else d' (profile_path B) = d (profile_path B)"
    "n \<noteq> profile_path B \<Longrightarrow> n \<notin> profile_temporary W B \<Longrightarrow> d' n = d n"
proof -
  have apart: "t \<noteq> profile_path B" if "t \<in> profile_temporary W B" for t
    using that temporary_apart by metis
  show "if r = Inr () then d' (profile_path B) = Some (Plain (FileTarget content)) else d' (profile_path B) = d (profile_path B)"
    using assms apart
    by (auto simp: atomic_private_write_def Let_def profile_temporary_def split: option.splits sum.splits if_splits)
  show "n \<noteq> profile_path B \<Longrightarrow> n \<notin> profile_temporary W B \<Longrightarrow> d' n = d n"
    using assms
    by (auto simp: atomic_private_write_def Let_def profile_temporary_def split: option.splits sum.splits if_splits)
qed

text \<open>What a request that succeeds may have made of the file.\<close>

definition profile_became :: "profile_env \<Rightarrow> disk_world \<Rightarrow> observer_profile \<Rightarrow> profile_request \<Rightarrow> disk \<Rightarrow> disk_node option \<Rightarrow> bool" where
  "profile_became V W B q d node \<longleftrightarrow>
     (case q of
        InstallProfile owner existing \<Rightarrow>
          existing = None \<and> \<not> disk_exists W d (profile_path B) \<and>
          node = Some (Plain (FileTarget (rendered (pe_env V) B)))
      | RemoveProfile own \<Rightarrow>
          (\<exists>prefix native. followed d (profile_path B) = Some (FileTarget (prefix @ rendered (pe_env V) B @ native)) \<and>
             node = (if prefix = [] then None else Some (Plain (FileTarget prefix))))
      | UpdateProfile own \<Rightarrow>
          (\<exists>prefix native. followed d (profile_path B) =
               Some (FileTarget (prefix @ rendered (pe_env V) (previous_profile B own) @ native)) \<and>
             node = Some (Plain (FileTarget (prefix @ rendered (pe_env V) B)))))"

lemma previous_path [simp]: "profile_path (previous_profile B own) = profile_path B"
  by (simp add: profile_path_def previous_profile_def)

lemma serve_profile_keeps:
  assumes "serve_profile V W B q d = (r, d')"
  shows "d' (profile_path B) = d (profile_path B) \<or> (r = Inr () \<and> profile_became V W B q d (d' (profile_path B)))"
    "n \<noteq> profile_path B \<Longrightarrow> n \<notin> profile_temporary W B \<Longrightarrow> d' n = d n"
proof -
  let ?p = "profile_path B"
  have read: "\<exists>native. followed d ?p = Some (FileTarget (od_prefix doc @ rendered (pe_env V) C @ native))"
    if "read_owned_document V W C own h d = Inr doc" "profile_path C = ?p" for C own h doc
    using read_owned_Inr(1) [OF that(1)] that(2) by (auto simp: has_regions_def)
  have "(d' ?p = d ?p \<or> (r = Inr () \<and> profile_became V W B q d (d' ?p))) \<and>
      (n \<noteq> ?p \<longrightarrow> n \<notin> profile_temporary W B \<longrightarrow> d' n = d n)" for n
  proof (cases q)
    case (InstallProfile owner existing)
    show ?thesis
    proof (cases "disk_exists W d ?p \<or> existing \<noteq> None")
      case True
      with assms InstallProfile show ?thesis
        by (cases existing; cases "disk_exists W d ?p") (auto simp: install_profile_def Let_def)
    next
      case False
      obtain r0 d0 where w: "atomic_private_write W ?p (rendered (pe_env V) B) d = (r0, d0)" by force
      with False assms InstallProfile have "d' = d0" "r = Inr () \<longleftrightarrow> r0 = Inr ()"
        by (auto simp: install_profile_def Let_def split: sum.splits)
      with private_write [OF w] False InstallProfile show ?thesis
        by (auto simp: profile_became_def split: if_splits)
    qed
  next
    case (RemoveProfile own)
    show ?thesis
    proof (cases "and_then (declaration_for (pe_env V) B own) (\<lambda>declared.
        read_owned_document V W B own (content_hash V declared) d)")
      case (Inl e)
      with assms RemoveProfile show ?thesis
        by (auto simp: remove_profile_def Let_def split: if_splits)
    next
      case (Inr doc)
      then obtain h where "read_owned_document V W B own h d = Inr doc" by auto
      from read [OF this refl] obtain native where
        c: "followed d ?p = Some (FileTarget (od_prefix doc @ rendered (pe_env V) B @ native))" by blast
      obtain r0 d0 where w: "atomic_private_write W ?p (od_prefix doc) d = (r0, d0)" by force
      show ?thesis
        using assms RemoveProfile Inr c w private_write [OF w]
        by (auto simp: remove_profile_def profile_became_def Let_def split: if_splits sum.splits)
    qed
  next
    case (UpdateProfile own)
    let ?C = "previous_profile B own"
    show ?thesis
    proof (cases "and_then (declaration_for (pe_env V) ?C own) (\<lambda>declared.
        read_owned_document V W ?C own (content_hash V declared) d)")
      case (Inl e)
      with assms UpdateProfile show ?thesis
        by (auto simp: update_profile_def Let_def split: if_splits)
    next
      case (Inr doc)
      then obtain h where "read_owned_document V W ?C own h d = Inr doc" by auto
      from read [OF this] obtain native where
        c: "followed d ?p = Some (FileTarget (od_prefix doc @ rendered (pe_env V) ?C @ native))" by auto
      obtain r0 d0 where w: "atomic_private_write W ?p (od_prefix doc @ rendered (pe_env V) B) d = (r0, d0)" by force
      show ?thesis
        using assms UpdateProfile Inr c w private_write [OF w]
        by (cases r0) (auto simp: update_profile_def profile_became_def Let_def split: if_splits)
    qed
  qed
  then show "d' ?p = d ?p \<or> (r = Inr () \<and> profile_became V W B q d (d' ?p))"
    "n \<noteq> ?p \<Longrightarrow> n \<notin> profile_temporary W B \<Longrightarrow> d' n = d n" by blast+
qed


section \<open>The hook command\<close>

text \<open>
  How a POSIX shell splits a simple command into words, with its three kinds of quoting; \<open>None\<close> is an
  unterminated quote, or a character that means something else to the shell.
\<close>

datatype shell_mode = Bare | Quoted | DoubleQuoted

definition double_quote :: char where "double_quote = CHR 0x22"

definition shell_special :: "string" where
  "shell_special = ''|&;<>()$*?[]#~=%!{}'' @ [CHR 0x60, newline, CHR 0x09]"

definition word_so_far :: "string option \<Rightarrow> string" where
  "word_so_far w = (case w of None \<Rightarrow> [] | Some s \<Rightarrow> s)"

fun shell_words :: "shell_mode \<Rightarrow> string option \<Rightarrow> string \<Rightarrow> string list option" where
  "shell_words Bare w [] = Some (case w of None \<Rightarrow> [] | Some s \<Rightarrow> [s])"
| "shell_words Bare w (c # s) =
     (if c = CHR '' '' then
        (case w of None \<Rightarrow> shell_words Bare None s | Some x \<Rightarrow> map_option (\<lambda>xs. x # xs) (shell_words Bare None s))
      else if c = single_quote then shell_words Quoted (Some (word_so_far w)) s
      else if c = double_quote then shell_words DoubleQuoted (Some (word_so_far w)) s
      else if c = backslash then
        (case s of [] \<Rightarrow> None | e # s' \<Rightarrow> shell_words Bare (Some (word_so_far w @ [e])) s')
      else if c \<in> set shell_special then None
      else shell_words Bare (Some (word_so_far w @ [c])) s)"
| "shell_words Quoted w [] = None"
| "shell_words Quoted w (c # s) =
     (if c = single_quote then shell_words Bare w s else shell_words Quoted (Some (word_so_far w @ [c])) s)"
| "shell_words DoubleQuoted w [] = None"
| "shell_words DoubleQuoted w (c # s) =
     (if c = double_quote then shell_words Bare w s
      else if c = backslash then
        (case s of
           [] \<Rightarrow> None
         | e # s' \<Rightarrow>
             shell_words DoubleQuoted
               (Some (word_so_far w @ (if e \<in> {double_quote, backslash, CHR ''$'', CHR 0x60} then [e] else [c, e]))) s')
      else if c \<in> {CHR ''$'', CHR 0x60} then None
      else shell_words DoubleQuoted (Some (word_so_far w @ [c])) s)"

lemma quoted_words:
  "single_quote \<notin> set p \<Longrightarrow>
   shell_words Quoted (Some w) (p @ single_quote # rest) = shell_words Bare (Some (w @ p)) rest"
  by (induction p arbitrary: w) (auto simp: word_so_far_def)

lemma unquoted_argument:
  assumes "single_quote \<notin> set (from_utf8_lossy p)"
  shows "shell_quote_argument p = single_quote # from_utf8_lossy p @ [single_quote]"
proof -
  have "concat (map (\<lambda>c. if c = single_quote then escaped_quote else [c]) s) = s" if "single_quote \<notin> set s" for s
    using that by (induction s) auto
  with assms show ?thesis by (simp add: shell_quote_argument_def)
qed

text \<open>C35: For paths without a single quote, a shell that runs the declared hook command starts the
  executable of the program with the state root and the hook entry, whatever other characters (white
  space, quotes, dollar signs) the paths contain.\<close>

theorem hook_command_words:
  assumes "single_quote \<notin> set (from_utf8_lossy (ob_executable B))" and "single_quote \<notin> set (from_utf8_lossy (ob_root B))"
  shows "shell_words Bare None (hook_shell_command B) =
    Some [from_utf8_lossy (ob_executable B), ''--state-root'', from_utf8_lossy (ob_root B), ''_hook'']"
proof -
  note simps = single_quote_def double_quote_def backslash_def shell_special_def newline_def word_so_far_def
  have first: "shell_words Bare None (single_quote # p @ single_quote # rest) = shell_words Bare (Some p) rest"
    if "single_quote \<notin> set p" for p rest
    using quoted_words [OF that, of "[]" rest] by (simp add: simps)
  have word: "shell_words Bare None (x @ CHR '' '' # rest) = map_option (\<lambda>xs. x # xs) (shell_words Bare None rest)"
    if "x = ''--state-root''" for x rest
    using that by (simp add: simps)
  have "hook_shell_command B = single_quote # from_utf8_lossy (ob_executable B) @ single_quote #
      CHR '' '' # ''--state-root'' @ CHR '' '' # single_quote # from_utf8_lossy (ob_root B) @ single_quote # '' _hook''"
    by (simp add: hook_shell_command_def unquoted_argument assms)
  moreover have "shell_words Bare (Some p) (CHR '' '' # rest) = map_option (\<lambda>xs. p # xs) (shell_words Bare None rest)" for p rest
    by simp
  moreover have "shell_words Bare (Some p) '' _hook'' = Some [p, ''_hook'']" for p
    by (simp add: simps)
  ultimately show ?thesis
    by (simp add: first assms word del: shell_words.simps append.simps)
qed

text \<open>A single quote in a path leaves the command with an unterminated quote: the text that replaces it
  is escaped once for the shell and once more, although \<open>toml_string\<close> escapes it again.\<close>

theorem single_quote_breaks_hook_command:
  "shell_words Bare None (hook_shell_command
     \<lparr> ob_home = ''/h'', ob_executable = ''/o'' @ [single_quote] @ ''n/w'', ob_root = ''/s'' \<rparr>) = None"
  by code_simp

section \<open>A trusted profile\<close>

definition sample_trust_table :: toml_table where
  "sample_trust_table =
     [(''hooks'', TTable [(''state'', TTable (map (\<lambda>k. (hook_prefix ''/h/wsnav-observer.config.toml'' @ k,
        TTable [(''trusted_hash'', TString (''sha256:'' @ replicate 64 CHR ''a''))])) hook_keys))])]"

definition sample_profile_env :: profile_env where
  "sample_profile_env =
     \<lparr> pe_env = sample_env\<lparr> json_text := (\<lambda>_. ''x'') \<rparr>, pe_crypto = \<lparr> sha256 = (\<lambda>_. ''h''), uuid_simple = (\<lambda>_. []) \<rparr>,
       pe_toml = (\<lambda>s. if s = [newline] then Some sample_trust_table else None) \<rparr>"

definition sound_disk :: disk_world where
  "sound_disk = \<lparr> dw_fault = (\<lambda>_. None), dw_nanos = Some 7 \<rparr>"

definition sample_profile :: observer_profile where
  "sample_profile = \<lparr> ob_home = ''/h'', ob_executable = ''/w'', ob_root = ''/s'' \<rparr>"

definition sample_ownership :: profile_ownership where
  "sample_ownership = \<lparr> po_path = ''/h/wsnav-observer.config.toml'', po_owner = ''owner'', po_schema = 2, po_hook = ''/w'',
     po_hash = ''68'' \<rparr>"

definition sample_disk :: disk where
  "sample_disk = [''/h/wsnav-observer.config.toml'' \<mapsto>
     Plain (FileTarget (rendered (pe_env sample_profile_env) sample_profile @ [newline]))]"

lemma find_text_absent: "pat \<noteq> [] \<Longrightarrow> hd pat \<notin> set s \<Longrightarrow> find_text pat s = None"
  by (induction s) (auto simp: starts_with_def neq_Nil_conv)

definition sample_body :: string where
  "sample_body = text_of_lines (
     [''[features]'', ''hooks = true'', []] @
     hook_entry ''x'' ''SessionStart'' (Some ''startup|resume|clear|compact'') @ [[]] @
     hook_entry ''x'' ''UserPromptSubmit'' None @ [[]] @ hook_entry ''x'' ''Stop'' None @ [[]] @
     hook_entry ''x'' ''SessionEnd'' (Some ''other''))"

lemma sample_rendered: "rendered (pe_env sample_profile_env) B = profile_marker @ sample_body"
  by (simp add: rendered_def sample_body_def hook_command_def toml_string_def sample_profile_env_def Let_def)

lemma sample_body_chars: "CHR 0x23 \<notin> set sample_body" "list_all (\<lambda>c. (of_char c :: nat) < 128) sample_body"
  by (simp_all add: sample_body_def text_of_lines_def hook_entry_def double_quoted_def newline_def)

lemma sample_split:
  assumes "list_all (\<lambda>c. (of_char c :: nat) < 128) native" and "CHR 0x23 \<notin> set native"
  shows "split_provider_prefix V (profile_marker @ sample_body @ native) p = Inr ([], profile_marker @ sample_body @ native)"
    "valid_utf8 (profile_marker @ sample_body @ native)"
proof -
  have marker: "profile_marker = CHR 0x23 # tl profile_marker" by (simp add: profile_marker_def)
  have "find_text profile_marker (sample_body @ native) = None"
    using assms(2) sample_body_chars(1) marker by (intro find_text_absent) (auto simp: profile_marker_def)
  moreover have "find_text profile_marker (profile_marker @ s) = Some 0" for s
    by (simp add: profile_marker_def starts_with_def)
  ultimately show "split_provider_prefix V (profile_marker @ sample_body @ native) p = Inr ([], profile_marker @ sample_body @ native)"
    by (simp add: split_provider_prefix_def validate_provider_prefix_def)
  show "valid_utf8 (profile_marker @ sample_body @ native)"
    by (rule valid_utf8_ascii) (simp add: assms(1) sample_body_chars(2) profile_marker_def newline_def)
qed

lemma sample_trust: "verify_native_trust sample_profile_env sound_disk sample_profile sample_ownership sample_disk = Inr ()"
proof -
  let ?p = "''/h/wsnav-observer.config.toml''"
  have path: "profile_path sample_profile = ?p" by code_simp
  have split: "split_provider_prefix V (profile_marker @ sample_body @ [newline]) p = Inr ([], profile_marker @ sample_body @ [newline])"
    "valid_utf8 (profile_marker @ sample_body @ [newline])" for V p
    using sample_split [of "[newline]"] by (simp_all add: newline_def)
  have table: "accepts_native_state_suffix sample_trust_table ?p" "has_complete_hook_trust sample_trust_table ?p"
    by code_simp+
  have disk: "read_file sound_disk sample_disk ?p = Inr (profile_marker @ sample_body @ [newline])"
    by (simp add: read_file_def sound_disk_def followed_def sample_disk_def sample_rendered)
  have hash: "content_hash sample_profile_env s = ''68''" for s
    by (simp add: content_hash_def sample_profile_env_def) code_simp
  have parts: "ob_executable sample_profile = ''/w''" "pe_toml sample_profile_env [newline] = Some sample_trust_table"
    by (simp_all add: sample_profile_def sample_profile_env_def)
  have "strip_prefix (profile_marker @ sample_body) (profile_marker @ sample_body @ [newline]) = Some [newline]"
    by (simp add: strip_prefix_def starts_with_def)
  then have "read_owned_document sample_profile_env sound_disk sample_profile sample_ownership ''68'' sample_disk =
      Inr \<lparr> od_prefix = [], od_suffix = Some sample_trust_table \<rparr>"
    using split disk table
    by (simp add: read_owned_document_def path Let_def sample_ownership_def path_eq_def declaration_for_def
        observer_profile_schema_version_def parts sample_rendered ok_or_def)
  with table show ?thesis
    by (simp add: verify_native_trust_def owned_native_suffix_def hash path sample_ownership_def observer_profile_schema_version_def)
qed

lemma trusted_profile_exact_witness:
  "\<exists>native suffix. pe_toml sample_profile_env native = Some suffix \<and> map_of suffix ''hooks'' \<noteq> None"
  using trusted_profile_exact [OF sample_trust] by auto

lemma hook_command_words_witness:
  "shell_words Bare None (hook_shell_command sample_profile) = Some [''/w'', ''--state-root'', ''/s'', ''_hook'']"
proof -
  have "from_utf8_lossy ''/w'' = ''/w''" "from_utf8_lossy ''/s'' = ''/s''" by code_simp+
  then show ?thesis
    using hook_command_words [of sample_profile] by (simp add: sample_profile_def single_quote_def)
qed

text \<open>\<open>install\<close> promises an error instead of writing over a foreign path, but looks through links: a
  symbolic link that leads nowhere counts as absent and is replaced.\<close>

theorem install_replaces_dangling_link:
  "\<exists>own d'. install_profile sample_profile_env sound_disk sample_profile ''owner'' None
       [''/h/wsnav-observer.config.toml'' \<mapsto> Link None] = (Inr own, d') \<and>
     d' ''/h/wsnav-observer.config.toml'' = Some (Plain (FileTarget (rendered (pe_env sample_profile_env) sample_profile)))"
proof -
  let ?p = "''/h/wsnav-observer.config.toml''" and ?d = "[''/h/wsnav-observer.config.toml'' \<mapsto> Link None]"
  have path: "profile_path sample_profile = ?p" "path_parent ?p = Some ''/h''"
    "temporary_name ''/h'' 7 = ''/h/.wsnav-observer-7.tmp''" by code_simp+
  have "atomic_private_write sound_disk ?p content ?d =
      (Inr (), ?d(''/h/.wsnav-observer-7.tmp'' := None, ?p \<mapsto> Plain (FileTarget content)))" for content
    by (simp add: atomic_private_write_def path(2,3) sound_disk_def step_fault_def Let_def fun_upd_twist)
  then show ?thesis
    by (simp add: install_profile_def path(1) Let_def disk_exists_def followed_def sound_disk_def)
qed


end
