(* ===== verification/Starting.thy ===== *)
theory Starting
  imports Parking
begin

text \<open>
  \<open>src/actions/start.rs\<close>, \<open>providers.rs\<close> and the trust check of \<open>model.rs\<close>: the start and the recovery of
  a Codex Workstream, the launch of a reserved Runtime, and the detection of lost Runtimes. The
  services of Codex are its profile on a disk that others may change, and the app server that is asked
  for a thread.
\<close>

section \<open>Services\<close>

text \<open>
  \<open>cs_fresh\<close> draws the identifiers of the registry: of the integration record (0), of a Runtime (1) and of
  its generation (2).
\<close>

record codex_services =
  cs_profile :: profile_env
  cs_executable :: "(io_error, string) result"
  cs_codex_home :: "string option"
  cs_user_home :: "string option"
  cs_world :: "history \<Rightarrow> disk_world"
  cs_disk :: "history \<Rightarrow> disk"
  cs_thread :: "history \<Rightarrow> string \<Rightarrow> (string, unit) result"
  cs_fresh :: "nat \<Rightarrow> act_state \<Rightarrow> uuid"

definition consulting :: "(history \<Rightarrow> (action_error, 'a) result) \<Rightarrow> 'a action" where
  "consulting f s = Some (f (as_trace s), s)"

definition observer_profile_of :: "site \<Rightarrow> codex_services \<Rightarrow> (action_error, observer_profile) result" where
  "observer_profile_of W S =
     and_then (ok_or (case cs_codex_home S of
         Some home \<Rightarrow> Some home
       | None \<Rightarrow> map_option (\<lambda>home. path_join home ''.codex'') (cs_user_home S)) CodexHomeUnavailable) (\<lambda>home.
     and_then (map_err ActionIo (cs_executable S)) (\<lambda>executable.
     Inr \<lparr> ob_home = home, ob_executable = executable, ob_root = st_root (si_root W) \<rparr>))"

definition trust_now :: "codex_services \<Rightarrow> observer_profile \<Rightarrow> profile_ownership \<Rightarrow> history \<Rightarrow> (profile_error, unit) result" where
  "trust_now S B own tr = verify_native_trust (cs_profile S) (cs_world S tr) B own (cs_disk S tr)"

definition record_integration :: "site \<Rightarrow> codex_services \<Rightarrow> profile_ownership \<Rightarrow> integration_lifecycle \<Rightarrow> unit action" where
  "record_integration W S own lifecycle s =
     and_next (writing W WroteIntegration
         (record_codex_integration (si_env W) (cs_fresh S 0 s) own lifecycle)) (\<lambda>_. yields ()) s"

definition reconcile_observer_trust_with_manager :: "site \<Rightarrow> codex_services \<Rightarrow> observer_profile \<Rightarrow> unit action" where
  "reconcile_observer_trust_with_manager W S B =
     and_next (reading W codex_integration) (\<lambda>found.
     case found of
       None \<Rightarrow> yields ()
     | Some i \<Rightarrow>
         and_next (consulting (\<lambda>tr. Inr (trust_now S B (ci_ownership i) tr))) (\<lambda>trust.
         if trust = Inr () \<and> ci_lifecycle i = TrustPending then
           record_integration W S (ci_ownership i) integration_lifecycle.Ready
         else if trust = Inl NativeTrustPending \<and> ci_lifecycle i = integration_lifecycle.Ready then
           record_integration W S (ci_ownership i) TrustPending
         else
           (case trust of
              Inr _ \<Rightarrow> yields ()
            | Inl e \<Rightarrow> if e = NativeTrustPending then yields () else fails (ProfileFailed e))))"

definition reconcile_observer_trust :: "site \<Rightarrow> codex_services \<Rightarrow> unit action" where
  "reconcile_observer_trust W S =
     and_next (settle (observer_profile_of W S)) (reconcile_observer_trust_with_manager W S)"

text \<open>What \<open>start\<close> and \<open>recover\<close> demand of the observer before they launch: the owned profile is in place,
  which \<open>install\<close> only checks when there is an owner, and its hooks are trusted.\<close>

definition require_observer :: "site \<Rightarrow> codex_services \<Rightarrow> unit action" where
  "require_observer W S =
     and_next (reconcile_observer_trust W S) (\<lambda>_.
     and_next (reading W codex_integration) (\<lambda>found.
     and_next (settle (ok_or found ObserverNotInstalled)) (\<lambda>i.
     if ci_lifecycle i \<noteq> integration_lifecycle.Ready then fails ObserverNotReady
     else
       and_next (settle (observer_profile_of W S)) (\<lambda>B.
       and_next (consulting (\<lambda>tr. map_err ProfileFailed (fst (install_profile (cs_profile S) (cs_world S tr) B
           (po_owner (ci_ownership i)) (Some (ci_ownership i)) (cs_disk S tr))))) (\<lambda>_.
       consulting (\<lambda>tr. map_err ProfileFailed (trust_now S B (ci_ownership i) tr)))))))"

section \<open>The programs\<close>

definition codex_launch_program :: "string \<Rightarrow> provider_binding option \<Rightarrow> string list" where
  "codex_launch_program cwd binding =
     [''codex'', ''--profile'', ''wsnav-observer'', ''-C'', cwd]
     @ (case binding of None \<Rightarrow> [] | Some b \<Rightarrow> [''resume'', ps_native (pb_session b)])"

definition codex_recovery_program :: "string \<Rightarrow> provider_binding option \<Rightarrow> string list" where
  "codex_recovery_program cwd binding =
     codex_launch_program cwd None @ [''resume'']
     @ (case binding of None \<Rightarrow> [] | Some b \<Rightarrow> [ps_native (pb_session b)])"

definition managed_codex_environment :: "(string \<times> string) list" where
  "managed_codex_environment =
     [(''LANG'', ''C.UTF-8''), (''LC_ALL'', ''C.UTF-8''), (''LC_CTYPE'', ''C.UTF-8'')]"

definition runtime_launch_program ::
  "site \<Rightarrow> codex_services \<Rightarrow> uuid \<Rightarrow> string list \<Rightarrow> (action_error, string list) result" where
  "runtime_launch_program W S i program =
     and_then (map_err ActionIo (cs_executable S)) (\<lambda>executable.
     Inr ([executable, ''--state-root'', st_root (si_root W), ''_runtime_launch'', uuid_text (si_env W) i, ''--''] @ program))"

section \<open>The launch of a reserved Runtime\<close>

definition release_current :: "site \<Rightarrow> runtime_record \<Rightarrow> unit action" where
  "release_current W r =
     outcome (reading W (runtime_for_workstream (si_env W) (rr_workstream r))) (\<lambda>found.
     case found of
       Inr (Some current) \<Rightarrow>
         if rr_runtime current = rr_runtime r then outcome (mark_recovery W current) (\<lambda>_. yields ()) else yields ()
     | _ \<Rightarrow> yields ())"

text \<open>The provider is held at the barrier; its group is proven, its identity recorded, and it is released.\<close>

definition adopt_launched ::
  "site \<Rightarrow> private_runtime \<Rightarrow> runtime_record \<Rightarrow> pid32 \<Rightarrow> string \<Rightarrow> unit action" where
  "adopt_launched W R r p birth =
     outcome (hosted_call (prove_owned_process_group (linux_process_probe (si_host W)) (linux_group_probe (si_host W)) p birth))
       (\<lambda>owned. case owned of
       Inl e \<Rightarrow>
         outcome (park_and_stop_process_instance W R p birth) (\<lambda>cleanup.
         outcome (mark_recovery W r) (\<lambda>_. fails (prefer_cleanup_error cleanup e)))
     | Inr _ \<Rightarrow>
         outcome (writing W (WroteIdentity (rr_runtime r) (rr_revision r) p birth)
             (record_runtime_process_identity (si_env W) (rr_runtime r) (rr_revision r) p birth)) (\<lambda>recorded.
         case recorded of
           Inl e \<Rightarrow>
             outcome (park_and_stop_provider W R p birth) (\<lambda>cleanup.
             outcome (mark_recovery W r) (\<lambda>_. fails (prefer_cleanup_error cleanup e)))
         | Inr _ \<Rightarrow>
             outcome (hosted_call (release_launch (si_host W) R)) (\<lambda>released.
             case released of
               Inl e \<Rightarrow>
                 outcome (park_and_stop_provider W R p birth) (\<lambda>cleanup.
                 and_next (release_current W r) (\<lambda>_. fails (prefer_cleanup_error cleanup e)))
             | Inr _ \<Rightarrow> yields ())))"

definition launch_reserved_runtime ::
  "site \<Rightarrow> codex_services \<Rightarrow> runtime_record \<Rightarrow> string list \<Rightarrow> unit action" where
  "launch_reserved_runtime W S r program =
     and_next (recorded_runtime W r) (\<lambda>R.
     and_next (settle (runtime_launch_program W S (rr_runtime r) program)) (\<lambda>wrapped.
     outcome (hosted_call (start (si_host W) R
         \<lparr> nl_cwd = rr_cwd r, nl_program = wrapped, nl_environment = managed_codex_environment \<rparr>)) (\<lambda>started.
     case started of
       Inl e \<Rightarrow> fail_unidentified_runtime_launch W R r e
     | Inr _ \<Rightarrow>
         outcome (hosted_call (probe (si_host W) R)) (\<lambda>seen.
         case seen of
           Inl e \<Rightarrow> fail_unidentified_runtime_launch W R r e
         | Inr (ProbeLive _ p cwd (Some birth)) \<Rightarrow>
             if path_eq cwd (rr_cwd r) then adopt_launched W R r p birth
             else fail_unidentified_runtime_launch W R r RuntimeProbeAmbiguous
         | Inr _ \<Rightarrow> fail_unidentified_runtime_launch W R r RuntimeProbeAmbiguous))))"

section \<open>Start\<close>

text \<open>A \<open>stopped\<close> record is no authority to adopt a provider that still runs.\<close>

definition existing_live_runtime_start_outcome ::
  "runtime_record \<Rightarrow> runtime_probe \<Rightarrow> (action_error, start_outcome option) result" where
  "existing_live_runtime_start_outcome r seen =
     (if rr_status r = Stopped \<and> (\<exists>pane p cwd birth. seen = ProbeLive pane p cwd (Some birth))
      then Inl RuntimeProbeAmbiguous
      else if \<not> matches_recorded_runtime r seen False then Inr None
      else Inr (Some AlreadyLive))"

definition remove_stopped_retained_clean_exit ::
  "site \<Rightarrow> private_runtime \<Rightarrow> runtime_record \<Rightarrow> runtime_probe \<Rightarrow> bool action" where
  "remove_stopped_retained_clean_exit W R r seen =
     (if rr_status r \<noteq> Stopped then yields False
      else
        and_next (clean_provider_exit_status W R r seen) (\<lambda>status.
        if status \<noteq> Some 0 then yields False
        else and_next (park_private W R) (\<lambda>_. yields True)))"

definition backfill_live_runtime_provider_pid :: "site \<Rightarrow> runtime_record \<Rightarrow> runtime_probe \<Rightarrow> runtime_record option action" where
  "backfill_live_runtime_provider_pid W r seen =
     (case seen of
        ProbeLive _ p cwd (Some birth) \<Rightarrow>
          if rr_pid r \<noteq> None \<or> \<not> path_eq cwd (rr_cwd r) \<or> rr_birth r \<noteq> Some birth then yields None
          else
            and_next (writing W (WroteBackfill (rr_runtime r) (rr_revision r) p birth)
              (backfill_runtime_provider_pid (si_env W) (rr_runtime r) (rr_revision r) p birth)) (\<lambda>_.
            and_next (reading W (runtime_by_id (si_env W) (rr_runtime r))) (\<lambda>again.
            and_next (settle (ok_or again RuntimeProbeAmbiguous)) (\<lambda>x. yields (Some x))))
      | _ \<Rightarrow> yields None)"

text \<open>The end of a prior Runtime whose server is gone; a recorded process that nobody stopped is lost.\<close>

definition settle_missing_prior :: "site \<Rightarrow> private_runtime \<Rightarrow> runtime_record \<Rightarrow> unit action" where
  "settle_missing_prior W R r =
     and_next (clean_missing_stopped_runtime W R r) (\<lambda>_.
     if rr_birth r \<noteq> None \<and> rr_status r \<noteq> Stopped then
       and_next (mark_recovery W r) (\<lambda>_. fails NativeRecoveryRequired)
     else if rr_status r \<noteq> Stopped then mark_stopped W r
     else yields ())"

text \<open>\<open>Some\<close> outcome ends the start; \<open>None\<close> means that the prior Runtime is over.\<close>

definition settle_prior :: "site \<Rightarrow> runtime_record \<Rightarrow> start_outcome option action" where
  "settle_prior W r =
     and_next (recorded_runtime W r) (\<lambda>R.
     and_next (hosted_call (probe (si_host W) R)) (\<lambda>seen.
     and_next (settle (existing_live_runtime_start_outcome r seen)) (\<lambda>live.
     if live \<noteq> None then yields live
     else
       and_next (backfill_live_runtime_provider_pid W r seen) (\<lambda>filled.
       let r1 = (case filled of None \<Rightarrow> r | Some x \<Rightarrow> x)
       in and_next (settle (existing_live_runtime_start_outcome r1 seen)) (\<lambda>live1.
          if live1 \<noteq> None then yields live1
          else
            and_next (remove_stopped_retained_clean_exit W R r1 seen) (\<lambda>removed.
            if removed then yields None
            else if seen \<noteq> ProbeMissing then fails RuntimeProbeAmbiguous
            else and_next (settle_missing_prior W R r1) (\<lambda>_. yields None)))))))"

definition reserve_for_start :: "site \<Rightarrow> codex_services \<Rightarrow> uuid \<Rightarrow> provider_kind \<Rightarrow> runtime_record action" where
  "reserve_for_start W S w provider s =
     writing W (WroteReserved w) (reserve_runtime_with_provider_authorized (si_env W) (cs_fresh S 1 s) (cs_fresh S 2 s)
       w provider ArchivedAllowed) s"

definition start_codex :: "site \<Rightarrow> codex_services \<Rightarrow> uuid \<Rightarrow> int option \<Rightarrow> workstream_overview \<Rightarrow> start_outcome action" where
  "start_codex W S w expected overview =
     and_next (settle (require_codex_provider (wo_provider overview))) (\<lambda>_.
     if expected \<noteq> None \<and> expected \<noteq> Some (wo_revision overview) then fails WorkstreamRevisionConflict
     else if wo_lifecycle overview = workstream_lifecycle.RecoveryRequired then fails NativeRecoveryRequired
     else
       and_next (require_observer W S) (\<lambda>_.
       and_next (reading W (runtime_for_workstream (si_env W) w)) (\<lambda>prior.
       and_next (case prior of None \<Rightarrow> yields None | Some r \<Rightarrow> settle_prior W r) (\<lambda>live.
       case live of
         Some done_already \<Rightarrow> yields done_already
       | None \<Rightarrow>
           and_next (case prior of
               None \<Rightarrow> yields None
             | Some r \<Rightarrow> reading W (retained_codex_binding_for_runtime (si_env W) (rr_runtime r))) (\<lambda>binding.
           and_next (reserve_for_start W S w (wo_provider overview)) (\<lambda>r.
           and_next (launch_reserved_runtime W S r (codex_launch_program (rr_cwd r) binding)) (\<lambda>_.
           yields Started)))))))"

section \<open>Recovery\<close>

text \<open>\<open>Path::file_name\<close>: the last component, when it is a name.\<close>

definition file_name :: "string \<Rightarrow> string option" where
  "file_name p =
     (case rev (path_components p) of NormalDir n # _ \<Rightarrow> Some n | _ \<Rightarrow> None)"

definition codex_executable_name_matches :: "string \<Rightarrow> bool" where
  "codex_executable_name_matches p \<longleftrightarrow> file_name p = Some ''codex'' \<or> file_name p = Some ''codex (deleted)''"

definition codex_recovery_process_matches :: "process_command \<Rightarrow> string \<Rightarrow> provider_binding \<Rightarrow> bool" where
  "codex_recovery_process_matches command cwd binding \<longleftrightarrow>
     path_is_absolute (pc_executable command) \<and> codex_executable_name_matches (pc_executable command) \<and>
     pc_argv command = codex_recovery_program cwd (Some binding)"

definition live_birth_holds :: "site \<Rightarrow> pid32 \<Rightarrow> string \<Rightarrow> unit action" where
  "live_birth_holds W p birth =
     and_next (hosted (process_birth_checked (si_host W) p)) (\<lambda>now.
     if now = Inr (Some birth) then yields () else fails RuntimeProbeAmbiguous)"

definition live_command_matches :: "site \<Rightarrow> pid32 \<Rightarrow> string \<Rightarrow> provider_binding \<Rightarrow> unit action" where
  "live_command_matches W p cwd binding =
     and_next (hosted (read_linux_process_command (si_host W) p)) (\<lambda>command.
     case command of
       Inr (Some c) \<Rightarrow> if codex_recovery_process_matches c cwd binding then yields () else fails RuntimeProbeAmbiguous
     | _ \<Rightarrow> fails RuntimeProbeAmbiguous)"

definition revalidate_live_codex_runtime ::
  "site \<Rightarrow> private_runtime \<Rightarrow> runtime_record \<Rightarrow> provider_binding \<Rightarrow> runtime_probe action" where
  "revalidate_live_codex_runtime W R r binding =
     and_next (hosted_call (validate_exact_topology R)) (\<lambda>_.
     and_next (hosted_call (probe (si_host W) R)) (\<lambda>seen.
     if \<not> matches_recorded_runtime r seen True then fails RuntimeProbeAmbiguous
     else
       (case seen of
          ProbeLive _ p _ (Some birth) \<Rightarrow>
            and_next (live_birth_holds W p birth) (\<lambda>_.
            and_next (live_command_matches W p (rr_cwd r) binding) (\<lambda>_.
            yields seen))
        | _ \<Rightarrow> fails RuntimeProbeAmbiguous)))"

definition reconcile_live_codex_recovery ::
  "site \<Rightarrow> codex_services \<Rightarrow> private_runtime \<Rightarrow> uuid \<Rightarrow> int \<Rightarrow> runtime_record \<Rightarrow> runtime_probe \<Rightarrow> start_outcome action" where
  "reconcile_live_codex_recovery W S R w revision r seen =
     (case seen of
        ProbeLive _ p _ (Some birth) \<Rightarrow>
          if \<not> matches_recorded_runtime r seen True then fails RuntimeProbeAmbiguous
          else
            and_next (live_birth_holds W p birth) (\<lambda>_.
            and_next (reading W (codex_recovery_binding_authorized (si_env W) w revision (rr_runtime r) (rr_revision r)
                (rr_generation r) ArchivedAllowed)) (\<lambda>binding.
            and_next (live_command_matches W p (rr_cwd r) binding) (\<lambda>_.
            and_next (consulting (\<lambda>tr. map_err AppServerFailed (cs_thread S tr (ps_native (pb_session binding))))) (\<lambda>_.
            and_next (revalidate_live_codex_runtime W R r binding) (\<lambda>again.
            if again \<noteq> seen then fails RuntimeProbeAmbiguous
            else
              and_next (writing W (WroteReconciled (rr_runtime r) (rr_revision r))
                (reconcile_codex_recovery_authorized (si_env W) w revision (rr_runtime r) (rr_revision r)
                  (rr_generation r) binding ArchivedAllowed)) (\<lambda>_.
              yields Reconciled))))))
      | _ \<Rightarrow> fails RuntimeProbeAmbiguous)"

definition reserve_for_recovery :: "site \<Rightarrow> codex_services \<Rightarrow> uuid \<Rightarrow> provider_kind \<Rightarrow> runtime_record action" where
  "reserve_for_recovery W S w provider s =
     writing W (WroteReserved w)
       (reserve_runtime_recovery_authorized (si_env W) (cs_fresh S 2 s) w provider ArchivedAllowed) s"

definition recover_codex :: "site \<Rightarrow> codex_services \<Rightarrow> uuid \<Rightarrow> int option \<Rightarrow> workstream_overview \<Rightarrow> start_outcome action" where
  "recover_codex W S w expected overview =
     and_next (settle (require_codex_provider (wo_provider overview))) (\<lambda>_.
     if expected \<noteq> None \<and> expected \<noteq> Some (wo_revision overview) then fails WorkstreamRevisionConflict
     else if wo_lifecycle overview \<noteq> workstream_lifecycle.RecoveryRequired then fails NativeRecoveryUnavailable
     else
       and_next (runtime_of_workstream W w) (\<lambda>r.
       and_next (recorded_runtime W r) (\<lambda>R.
       and_next (hosted_call (probe (si_host W) R)) (\<lambda>seen.
       if matches_recorded_runtime r seen True then
         and_next (hosted_call (validate_exact_topology R)) (\<lambda>_.
         reconcile_live_codex_recovery W S R w (wo_revision overview) r seen)
       else if seen \<noteq> ProbeMissing then fails RuntimeProbeAmbiguous
       else
         and_next (require_observer W S) (\<lambda>_.
         and_next (stop_recorded_provider W r) (\<lambda>_.
         and_next (park_private W R) (\<lambda>_.
         and_next (reading W (retained_codex_binding_for_runtime (si_env W) (rr_runtime r))) (\<lambda>binding.
         and_next (reserve_for_recovery W S w (wo_provider overview)) (\<lambda>reserved.
         and_next (launch_reserved_runtime W S reserved (codex_recovery_program (rr_cwd reserved) binding)) (\<lambda>_.
         yields Started))))))))))"

section \<open>Lost Runtimes\<close>

definition conclusively_lost :: "runtime_record \<Rightarrow> pid32 \<Rightarrow> string \<Rightarrow> string option \<Rightarrow> bool" where
  "conclusively_lost r p cwd birth \<longleftrightarrow>
     \<not> path_eq cwd (rr_cwd r) \<or> rr_pid r \<noteq> Some p \<or> birth \<noteq> rr_birth r"

definition reconcile_lost_runtime :: "site \<Rightarrow> workstream_overview \<Rightarrow> unit action" where
  "reconcile_lost_runtime W v =
     (case wo_runtime v of
        None \<Rightarrow> yields ()
      | Some r \<Rightarrow>
          if wo_lifecycle v = workstream_lifecycle.RecoveryRequired \<or> rr_birth r = None \<or> rr_status r = Stopped then yields ()
          else
            outcome (recorded_runtime W r) (\<lambda>owner.
            case owner of
              Inl _ \<Rightarrow> yields ()
            | Inr R \<Rightarrow>
                outcome (hosted_call (probe (si_host W) R)) (\<lambda>seen.
                case seen of
                  Inr ProbeMissing \<Rightarrow> mark_recovery W r
                | Inr (ProbeLive _ p cwd birth) \<Rightarrow>
                    (case birth of
                       Some b \<Rightarrow>
                         if rr_pid r = None \<and> path_eq cwd (rr_cwd r) \<and> rr_birth r = Some b then
                           writing W (WroteBackfill (rr_runtime r) (rr_revision r) p b)
                             (backfill_runtime_provider_pid (si_env W) (rr_runtime r) (rr_revision r) p b)
                         else if conclusively_lost r p cwd birth then mark_recovery W r
                         else yields ()
                     | None \<Rightarrow> if conclusively_lost r p cwd birth then mark_recovery W r else yields ())
                | _ \<Rightarrow> yields ())))"

fun reconcile_each :: "site \<Rightarrow> workstream_overview list \<Rightarrow> unit action" where
  "reconcile_each W [] = yields ()"
| "reconcile_each W (v # vs) = and_next (reconcile_lost_runtime W v) (\<lambda>_. reconcile_each W vs)"

definition reconcile_lost_runtimes :: "site \<Rightarrow> unit action" where
  "reconcile_lost_runtimes W =
     and_next (reading_pages W (workstream_overviews (si_env W))) (reconcile_each W)"

end
