(* ===== verification/Launch_Safety.thy ===== *)
theory Launch_Safety
  imports Starting Parking_Outcome Profile_Safety
begin

text \<open>
  The order of a launch: the provider waits behind its barrier, and no path through a start or a
  recovery creates the barrier before the process group of exactly this provider has been proven and
  its identity is in the registry. An action is judged by the relation of the states before and after
  it; two such relations share their rules.
\<close>

section \<open>Relations of states\<close>

text \<open>What an action has added to the history and to its log.\<close>

definition lengthened :: "act_state \<Rightarrow> act_state \<Rightarrow> bool" where
  "lengthened s s' \<longleftrightarrow>
     (\<exists>es. as_trace s' = as_trace s @ es) \<and> (\<exists>ws. as_log s' = as_log s @ ws)"

text \<open>The record of the process was read with this birth, and it leads its own process group.\<close>

definition owner_proven :: "pid32 \<Rightarrow> string \<Rightarrow> history \<Rightarrow> bool" where
  "owner_proven p birth es \<longleftrightarrow>
     (\<exists>e \<in> set es. birth_read p birth e) \<and> (\<exists>e \<in> set es. \<exists>session. group_read p session e)"

text \<open>Either no barrier was created, or before the first one an identity with its proof was committed.\<close>

definition release_gated :: "act_state \<Rightarrow> act_state \<Rightarrow> bool" where
  "release_gated s s' \<longleftrightarrow>
     (\<exists>closed rest ws. as_trace s' = as_trace s @ closed @ rest \<and> as_log s' = as_log s @ ws \<and>
        list_all no_release closed \<and>
        (rest = [] \<or>
         (\<exists>i revision p birth. (WroteIdentity i revision p birth, as_trace s @ closed) \<in> set ws \<and>
            owner_proven p birth closed)))"

definition acts :: "(act_state \<Rightarrow> act_state \<Rightarrow> bool) \<Rightarrow> 'a action \<Rightarrow> bool" where
  "acts C m \<longleftrightarrow> (\<forall>s r s'. m s = Some (r, s') \<longrightarrow> C s s')"

lemma actsD: "acts C m \<Longrightarrow> m s = Some (r, s') \<Longrightarrow> C s s'"
  by (simp add: acts_def)

section \<open>Rules\<close>

locale steady =
  fixes C :: "act_state \<Rightarrow> act_state \<Rightarrow> bool"
  assumes closed_step:
    "as_trace s' = as_trace s @ es \<Longrightarrow> list_all no_release es \<Longrightarrow> as_log s' = as_log s @ ws \<Longrightarrow> C s s'"
  and chain: "C s s1 \<Longrightarrow> C s1 s' \<Longrightarrow> C s s'"
begin

lemma stay: "as_trace s' = as_trace s \<Longrightarrow> as_log s' = as_log s \<Longrightarrow> C s s'"
  by (rule closed_step [of s' s "[]" "[]"]) simp_all

lemma next_known:
  assumes "acts C m" and "\<And>x s s1. m s = Some (Inr x, s1) \<Longrightarrow> acts C (k x)"
  shows "acts C (and_next m k)"
  unfolding acts_def and_next_def
  using actsD [OF assms(1)] assms(2) by (fastforce simp: acts_def split: option.splits sum.splits intro: chain)

lemma thereafter: "acts C m \<Longrightarrow> (\<And>x. acts C (k x)) \<Longrightarrow> acts C (and_next m k)"
  by (rule next_known)

lemma outcome: "acts C m \<Longrightarrow> (\<And>r. acts C (k r)) \<Longrightarrow> acts C (outcome m k)"
  unfolding acts_def outcome_def by (fastforce split: option.splits intro: chain)

lemma here: "acts C (yields x)" "acts C (fails e)" "acts C (settle r)"
  by (auto simp: acts_def yields_def fails_def settle_def intro: stay)

lemma looks: "acts C (reading W f)" "acts C (reading_pages W g)" "acts C (consulting h)"
  by (auto simp: acts_def reading_def reading_pages_def consulting_def intro: stay)

lemma writes: "acts C (writing W x f)"
  by (auto simp: acts_def writing_def split: sum.splits intro: stay closed_step [where es = "[]"])

lemma host_run: "run_holds_back m \<Longrightarrow> acts C (hosted_run m)"
  unfolding acts_def hosted_run_def
  by (auto split: option.splits dest!: run_addsD intro: closed_step [where ws = "[]"])

lemma host_call: "holds_back m \<Longrightarrow> acts C (hosted m)"
  unfolding acts_def hosted_def
  by (auto split: prod.splits dest!: addsD intro: closed_step [where ws = "[]"])

lemma case_if: "acts C m \<Longrightarrow> acts C n \<Longrightarrow> acts C (if b then m else n)"
  by simp

lemmas basic = thereafter outcome here looks writes case_if

lemma own_server:
  assumes "R = system_runtime (si_host W) paths"
  shows "acts C (hosted_call (probe (si_host W) R))" "acts C (park_private W R)"
    "acts C (hosted_call (start (si_host W) R l))" "acts C (hosted_call (validate_exact_topology R))"
  unfolding park_private_def assms
  by (intro host_run run_adds_once closed_holds [of paths] probe_kept end_kept start_kept topology_kept)+

lemma stops:
  "acts C (hosted_run (terminate_owned_provider_process (si_host W) p birth timeout))"
  "acts C (hosted_run (terminate_owned_observer_process (si_host W) p birth timeout))"
  by (intro host_run provider_holds observer_holds)+

lemma marks: "acts C (mark_recovery W r)" "acts C (mark_stopped W r)"
  unfolding mark_recovery_def mark_stopped_def by (rule writes)+

lemma stop_recorded: "acts C (stop_recorded_provider W r)"
  unfolding stop_recorded_provider_def by (auto intro!: basic stops)

lemma park_and_stop:
  assumes "R = system_runtime (si_host W) paths"
  shows "acts C (park_and_stop_provider W R p birth)" "acts C (park_and_stop_process_instance W R p birth)"
    "acts C (fail_unidentified_runtime_launch W R r e)" "acts C (clean_missing_stopped_runtime W R r)"
  unfolding park_and_stop_provider_def park_and_stop_process_instance_def fail_unidentified_runtime_launch_def
    clean_missing_stopped_runtime_def
  by (auto intro!: basic stops marks stop_recorded own_server(2) [OF assms] split: option.split)

lemma recorded: "acts C (recorded_runtime W r)"
  unfolding recorded_runtime_def by (rule here)

end

lemma lengthened_trans: "lengthened s s1 \<Longrightarrow> lengthened s1 s' \<Longrightarrow> lengthened s s'"
  by (auto simp: lengthened_def)

interpretation growth: steady lengthened
  by unfold_locales (auto simp: lengthened_def)

lemma owner_proven_later: "owner_proven p birth es \<Longrightarrow> owner_proven p birth (ds @ es)"
  by (auto simp: owner_proven_def)

lemma gatedI:
  assumes "as_trace s' = as_trace s @ closed @ rest" and "as_log s' = as_log s @ ws" and "list_all no_release closed"
    and "rest = [] \<or> (\<exists>i revision p birth. (WroteIdentity i revision p birth, as_trace s @ closed) \<in> set ws \<and>
      owner_proven p birth closed)"
  shows "release_gated s s'"
  unfolding release_gated_def using assms by blast

lemma gated_trans:
  assumes "release_gated s s1" and "release_gated s1 s'"
  shows "release_gated s s'"
proof -
  from assms(1) obtain c1 r1 w1 where 1: "as_trace s1 = as_trace s @ c1 @ r1" "as_log s1 = as_log s @ w1"
    "list_all no_release c1" "r1 = [] \<or> (\<exists>i v p birth. (WroteIdentity i v p birth, as_trace s @ c1) \<in> set w1 \<and>
      owner_proven p birth c1)"
    unfolding release_gated_def by blast
  from assms(2) obtain c2 r2 w2 where 2: "as_trace s' = as_trace s1 @ c2 @ r2" "as_log s' = as_log s1 @ w2"
    "list_all no_release c2" "r2 = [] \<or> (\<exists>i v p birth. (WroteIdentity i v p birth, as_trace s1 @ c2) \<in> set w2 \<and>
      owner_proven p birth c2)"
    unfolding release_gated_def by blast
  show ?thesis
  proof (cases "r1 = []")
    case True
    with 1 2 show ?thesis
      by (intro gatedI [where closed = "c1 @ c2" and rest = r2 and ws = "w1 @ w2"])
        (auto, use owner_proven_later in blast)
  next
    case False
    with 1 2 show ?thesis
      by (intro gatedI [where closed = c1 and rest = "r1 @ c2 @ r2" and ws = "w1 @ w2"]) auto
  qed
qed

interpretation gate: steady release_gated
proof
  show "release_gated s s'" if "as_trace s' = as_trace s @ es" "list_all no_release es" "as_log s' = as_log s @ ws"
    for s s' es ws
    using that by (intro gatedI [where closed = es and rest = "[]" and ws = ws]) simp_all
qed (rule gated_trans)

section \<open>The launch\<close>

lemma recorded_own: "recorded_runtime W r s = Some (Inr R, s') \<Longrightarrow> \<exists>paths. R = system_runtime (si_host W) paths"
  by (auto simp: recorded_runtime_def settle_def split: sum.splits)

lemma group_proof:
  assumes "prove_owned_process_group (linux_process_probe H) (linux_group_probe H) p birth tr = (Inr g, tr')"
  shows "\<exists>es. tr' = tr @ es \<and> owner_proven p birth es"
proof -
  from assms obtain tr1 where exact: "exact_process_identity (linux_process_probe H) p birth tr = (Inr True, tr1)"
    and group: "prove_owned_process_group_after_identity (linux_group_probe H) p birth tr1 = (Inr g, tr')"
    by (auto simp: prove_owned_process_group_def then_do_Inr give_def split: if_splits)
  from exact_identity_cases [OF exact] obtain e where e: "tr1 = tr @ [e]" "birth_read p birth e" by blast
  from group obtain info tr2 where info: "process_group_checked H p tr1 = (Inr (Some info), tr2)"
    and same: "gi_group info = p"
    and rest: "\<exists>ms i. process_group_members_checked H i tr2 = (Inr ms, tr')"
    by (cases "fst (process_group_checked H p tr1)")
      (auto simp: prove_owned_process_group_after_identity_def then_do_def mapped_def give_def map_err_def
        split: prod.splits sum.splits option.splits if_splits)
  from group_checked_cases [OF info same] obtain e2 where e2: "tr2 = tr1 @ [e2]" "group_read p (gi_session info) e2" by blast
  from rest addsD [OF group_holds(1)] obtain es where "tr' = tr2 @ es" by blast
  with e e2 show ?thesis by (intro exI [of _ "e # e2 # es"]) (auto simp: owner_proven_def)
qed

lemma adopt_gated:
  assumes "R = system_runtime (si_host W) paths"
  shows "acts release_gated (adopt_launched W R r p birth)"
  unfolding acts_def
proof (intro allI impI)
  fix s q s'
  assume run: "adopt_launched W R r p birth s = Some (q, s')"
  let ?prove = "prove_owned_process_group (linux_process_probe (si_host W)) (linux_group_probe (si_host W)) p birth"
  let ?commits = "writing W (WroteIdentity (rr_runtime r) (rr_revision r) p birth)
    (record_runtime_process_identity (si_env W) (rr_runtime r) (rr_revision r) p birth)"
  have holds: "holds_back ?prove"
    unfolding prove_owned_process_group_def by (auto intro!: added process_holds prove_holds)
  obtain o1 s1 where proven: "hosted_call ?prove s = Some (o1, s1)"
    using run by (auto simp: adopt_launched_def outcome_Some)
  have first: "release_gated s s1" by (rule actsD [OF gate.host_run [OF run_adds_once [OF holds]] proven])
  have failed: "acts release_gated (outcome m (\<lambda>cleanup. outcome (mark_recovery W r) (\<lambda>_. fails (f cleanup))))"
    if "acts release_gated m" for m :: "unit action" and f
    using that by (intro gate.outcome gate.marks gate.here)
  show "release_gated s s'"
  proof (cases o1)
    case (Inl e)
    with run proven have "outcome (park_and_stop_process_instance W R p birth) (\<lambda>cleanup.
         outcome (mark_recovery W r) (\<lambda>_. fails (prefer_cleanup_error cleanup e))) s1 = Some (q, s')"
      by (simp add: adopt_launched_def outcome_def [of "hosted_call ?prove"])
    from actsD [OF failed [OF gate.park_and_stop(2) [OF assms]] this] first show ?thesis by (blast intro: gated_trans)
  next
    case (Inr g)
    obtain o2 s2 where wrote: "?commits s1 = Some (o2, s2)"
      using run proven Inr by (auto simp: adopt_launched_def outcome_Some)
    show ?thesis
    proof (cases o2)
      case (Inl e)
      with run proven wrote \<open>o1 = Inr g\<close> have "outcome (park_and_stop_provider W R p birth) (\<lambda>cleanup.
           outcome (mark_recovery W r) (\<lambda>_. fails (prefer_cleanup_error cleanup e))) s2 = Some (q, s')"
        by (simp add: adopt_launched_def outcome_def [of "hosted_call ?prove"] outcome_def [of ?commits])
      from actsD [OF failed [OF gate.park_and_stop(1) [OF assms]] this] actsD [OF gate.writes wrote] first
      show ?thesis by (blast intro: gated_trans)
    next
      case (Inr u)
      let ?rest = "outcome (hosted_call (release_launch (si_host W) R)) (\<lambda>released.
             case released of
               Inl e \<Rightarrow>
                 outcome (park_and_stop_provider W R p birth) (\<lambda>cleanup.
                 and_next (release_current W r) (\<lambda>_. fails (prefer_cleanup_error cleanup e)))
             | Inr x \<Rightarrow> yields x)"
      from run proven wrote \<open>o1 = Inr g\<close> Inr have rest: "?rest s2 = Some (q, s')"
        by (simp add: adopt_launched_def outcome_def [of "hosted_call ?prove"] outcome_def [of ?commits])
      have release: "acts lengthened (hosted_call (release_launch (si_host W) R))"
      proof -
        have "\<exists>es. snd (release_launch (si_host W) R tr) = tr @ es" for tr
          using addsD [OF end_kept(3), of "si_host W" paths tr] assms by (metis prod.collapse)
        then show ?thesis by (auto simp: acts_def hosted_call_eq lengthened_def)
      qed
      have current: "acts lengthened (release_current W r)"
        unfolding release_current_def by (auto intro!: growth.basic growth.marks split: sum.split option.split)
      have "acts lengthened ?rest"
        by (auto intro!: growth.outcome growth.thereafter growth.here release current growth.park_and_stop(1) [OF assms] split: sum.split)
      from actsD [OF this rest] have grown: "lengthened s2 s'" .
      obtain g' tr1 where g: "?prove (as_trace s) = (Inr g', tr1)" "as_trace s1 = tr1" "as_log s1 = as_log s"
        using proven \<open>o1 = Inr g\<close> by (auto simp: hosted_run_def once_def map_err_def split: option.splits prod.splits sum.splits)
      from group_proof [OF g(1)] obtain es where es: "tr1 = as_trace s @ es" "owner_proven p birth es" by blast
      moreover have "list_all no_release es" using addsD [OF holds g(1)] es by auto
      moreover have "as_trace s2 = tr1" "as_log s2 = as_log s @ [(WroteIdentity (rr_runtime r) (rr_revision r) p birth, tr1)]"
        using wrote Inr g by (auto simp: writing_def split: sum.splits)
      ultimately show ?thesis
        using grown unfolding release_gated_def lengthened_def by fastforce
    qed
  qed
qed

lemma launch_gated: "acts release_gated (launch_reserved_runtime W S r program)"
  unfolding launch_reserved_runtime_def
proof (rule gate.next_known [OF gate.recorded])
  fix R s s1
  assume "recorded_runtime W r s = Some (Inr R, s1)"
  then obtain paths where R: "R = system_runtime (si_host W) paths" using recorded_own by blast
  note own = gate.own_server [OF R] gate.park_and_stop [OF R] adopt_gated [OF R]
  show "acts release_gated (and_next (settle (runtime_launch_program W S (rr_runtime r) program)) (\<lambda>wrapped.
     outcome (hosted_call (start (si_host W) R
         \<lparr> nl_cwd = rr_cwd r, nl_program = wrapped, nl_environment = managed_codex_environment \<rparr>)) (\<lambda>started.
     case started of
       Inl e \<Rightarrow> fail_unidentified_runtime_launch W R r e
     | Inr _ \<Rightarrow>
         outcome (hosted_call (probe (si_host W) R)) (\<lambda>seen.
         case seen of
           Inl e \<Rightarrow> fail_unidentified_runtime_launch W R r e
         | Inr (ProbeLive _ p cwd (Some birth)) \<Rightarrow>
             if path_eq cwd (rr_cwd r) then adopt_launched W R r p birth
             else fail_unidentified_runtime_launch W R r RuntimeProbeAmbiguous
         | Inr _ \<Rightarrow> fail_unidentified_runtime_launch W R r RuntimeProbeAmbiguous))))"
    by (intro gate.thereafter gate.here gate.outcome own gate.case_if
        | (split sum.split runtime_probe.split option.split, intro conjI allI impI))+
qed

lemma integration_gated: "acts release_gated (record_integration W S own lifecycle)"
proof -
  have "acts release_gated (and_next (writing W x f) (\<lambda>_. yields ()))" for x and f :: "registry \<Rightarrow> (state_error, 'z \<times> registry) result"
    by (intro gate.thereafter gate.writes gate.here)
  then show ?thesis unfolding acts_def record_integration_def by blast
qed

lemma observer_gated: "acts release_gated (require_observer W S)"
  unfolding require_observer_def reconcile_observer_trust_def reconcile_observer_trust_with_manager_def
  by (auto intro!: gate.basic integration_gated split: option.split sum.split)

lemma reserve_gated:
  "acts release_gated (reserve_for_start W S w provider)" "acts release_gated (reserve_for_recovery W S w provider)"
  unfolding acts_def reserve_for_start_def reserve_for_recovery_def
  using actsD [OF gate.writes] by blast+

lemma clean_exit_gated:
  assumes "R = system_runtime (si_host W) paths"
  shows "acts release_gated (clean_provider_exit_status W R r seen)"
proof -
  have "holds_back (provider_exit_status_with_cwd_proof (si_host W) R p cwd promoted)" for p cwd promoted
    unfolding assms by (rule closed_holds [OF exit_status_kept])
  then show ?thesis
    unfolding clean_provider_exit_status_def clean_provider_exit_status_with_cwd_proof_def
    by (auto intro!: gate.basic gate.host_call adds_mapped simp: provider_exit_status_def split: option.split)
qed

lemma prior_gated: "acts release_gated (settle_prior W r)"
  unfolding settle_prior_def Let_def
proof (rule gate.next_known [OF gate.recorded])
  fix R s s1
  assume "recorded_runtime W r s = Some (Inr R, s1)"
  then obtain paths where R: "R = system_runtime (si_host W) paths" using recorded_own by blast
  have backfill: "acts release_gated (backfill_live_runtime_provider_pid W r seen)" for seen
    unfolding backfill_live_runtime_provider_pid_def
    by (auto intro!: gate.basic split: runtime_probe.split option.split)
  have removed: "acts release_gated (remove_stopped_retained_clean_exit W R x seen)" for x seen
    unfolding remove_stopped_retained_clean_exit_def
    by (auto intro!: gate.basic clean_exit_gated [OF R] gate.own_server [OF R])
  have missing: "acts release_gated (settle_missing_prior W R x)" for x
    unfolding settle_missing_prior_def by (auto intro!: gate.basic gate.park_and_stop [OF R] gate.marks)
  show "acts release_gated (and_next (hosted_call (probe (si_host W) R)) (\<lambda>seen.
     and_next (settle (existing_live_runtime_start_outcome r seen)) (\<lambda>live.
     if live \<noteq> None then yields live
     else
       and_next (backfill_live_runtime_provider_pid W r seen) (\<lambda>filled.
       and_next (settle (existing_live_runtime_start_outcome (case filled of None \<Rightarrow> r | Some x \<Rightarrow> x) seen)) (\<lambda>live1.
          if live1 \<noteq> None then yields live1
          else
            and_next (remove_stopped_retained_clean_exit W R (case filled of None \<Rightarrow> r | Some x \<Rightarrow> x) seen) (\<lambda>removed.
            if removed then yields None
            else if seen \<noteq> ProbeMissing then fails RuntimeProbeAmbiguous
            else and_next (settle_missing_prior W R (case filled of None \<Rightarrow> r | Some x \<Rightarrow> x)) (\<lambda>_. yields None)))))))"
    by (intro gate.basic gate.own_server [OF R] backfill removed missing)
qed

lemma start_gated: "acts release_gated (start_codex W S w expected v)"
  unfolding start_codex_def
  by (auto intro!: gate.basic observer_gated prior_gated reserve_gated launch_gated split: option.split)

lemma live_gated:
  assumes "R = system_runtime (si_host W) paths"
  shows "acts release_gated (reconcile_live_codex_recovery W S R w revision r seen)"
proof -
  have birth: "acts release_gated (live_birth_holds W p birth)" for p birth
    unfolding live_birth_holds_def by (auto intro!: gate.basic gate.host_call process_holds)
  have "holds_back (read_linux_process_command (si_host W) p)" for p
    unfolding read_linux_process_command_def by (auto intro!: added split: option.split)
  then have command: "acts release_gated (live_command_matches W p cwd binding)" for p cwd binding
    unfolding live_command_matches_def
    by (auto intro!: gate.basic gate.host_call split: sum.split option.split)
  have again: "acts release_gated (revalidate_live_codex_runtime W R r binding)" for binding
    unfolding revalidate_live_codex_runtime_def
    by (auto intro!: gate.basic gate.own_server [OF assms] birth command split: runtime_probe.split option.split)
  show ?thesis
    unfolding reconcile_live_codex_recovery_def
    by (auto intro!: gate.basic birth command again split: runtime_probe.split option.split)
qed

lemma recover_gated: "acts release_gated (recover_codex W S w expected v)"
proof -
  have known: "acts release_gated (and_next (recorded_runtime W r) k)"
    if "\<And>R paths. R = system_runtime (si_host W) paths \<Longrightarrow> acts release_gated (k R)" for r and k :: "_ \<Rightarrow> start_outcome action"
    using that by (auto intro!: gate.next_known [OF gate.recorded] dest: recorded_own)
  have runtime: "acts release_gated (runtime_of_workstream W w)"
    unfolding runtime_of_workstream_def by (auto intro!: gate.basic)
  show ?thesis
    unfolding recover_codex_def
    by (intro gate.basic known runtime observer_gated gate.stop_recorded reserve_gated launch_gated live_gated)
      (auto intro!: gate.own_server)
qed

section \<open>What a start leaves\<close>

text \<open>The last write is the identity; after it came nothing but the creation of the launch barrier.\<close>

definition released_last :: "site \<Rightarrow> act_state \<Rightarrow> bool" where
  "released_last W s \<longleftrightarrow>
     (\<exists>i revision p birth before h v u. as_log s = before @ [(WroteIdentity i revision p birth, h)] \<and>
        as_trace s = h @ [FileCalled (CreateFresh (launch_barrier (own_paths W i)) private_file_mode) (Inr v),
          FileCalled (SetMode (launch_barrier (own_paths W i)) private_file_mode) (Inr u)])"

lemma fail_launch_Inr [simp]: "fail_unidentified_runtime_launch W R r e s \<noteq> Some (Inr y, s')"
  by (simp add: fail_unidentified_runtime_launch_def outcome_Some fails_def)

lemma release_Inr:
  assumes "release_launch H R tr = (Inr (), tr')"
  shows "\<exists>v u. tr' = tr @ [FileCalled (CreateFresh (launch_barrier (pr_paths R)) private_file_mode) (Inr v),
    FileCalled (SetMode (launch_barrier (pr_paths R)) private_file_mode) (Inr u)]"
  using assms
  by (auto simp: release_launch_def create_launch_barrier_def set_mode_def then_do_Inr io_call_def mapped_def
      file_call_def Let_def map_err_def split: sum.splits)

lemma launched_last:
  assumes "launch_reserved_runtime W S r program s = Some (Inr (), s')"
  shows "released_last W s'"
proof -
  let ?seen = "\<lambda>R. outcome (hosted_call (probe (si_host W) R)) (\<lambda>seen.
         case seen of
           Inl e \<Rightarrow> fail_unidentified_runtime_launch W R r e
         | Inr (ProbeLive _ p cwd (Some birth)) \<Rightarrow>
             if path_eq cwd (rr_cwd r) then adopt_launched W R r p birth
             else fail_unidentified_runtime_launch W R r RuntimeProbeAmbiguous
         | Inr _ \<Rightarrow> fail_unidentified_runtime_launch W R r RuntimeProbeAmbiguous)"
  from assms obtain R s1 wrapped where R: "recorded_runtime W r s = Some (Inr R, s1)"
    and later: "outcome (hosted_call (start (si_host W) R
         \<lparr> nl_cwd = rr_cwd r, nl_program = wrapped, nl_environment = managed_codex_environment \<rparr>)) (\<lambda>started.
       case started of Inl e \<Rightarrow> fail_unidentified_runtime_launch W R r e | Inr _ \<Rightarrow> ?seen R) s1 = Some (Inr (), s')"
    by (auto simp: launch_reserved_runtime_def and_next_Inr settle_Inr)
  from later obtain started :: "(action_error, unit) result" and s2 where
    "(case started of Inl e \<Rightarrow> fail_unidentified_runtime_launch W R r e | Inr _ \<Rightarrow> ?seen R) s2 = Some (Inr (), s')"
    unfolding outcome_Some [of "hosted_call (start (si_host W) R _)"] by blast
  then have seen: "?seen R s2 = Some (Inr (), s')"
    by (cases started) auto
  from seen obtain q s3 where q: "(case q of
           Inl e \<Rightarrow> fail_unidentified_runtime_launch W R r e
         | Inr (ProbeLive _ p cwd (Some birth)) \<Rightarrow>
             if path_eq cwd (rr_cwd r) then adopt_launched W R r p birth
             else fail_unidentified_runtime_launch W R r RuntimeProbeAmbiguous
         | Inr _ \<Rightarrow> fail_unidentified_runtime_launch W R r RuntimeProbeAmbiguous) s3 = Some (Inr (), s')"
    unfolding outcome_Some by blast
  then obtain p birth where adopted: "adopt_launched W R r p birth s3 = Some (Inr (), s')"
    by (auto split: sum.splits runtime_probe.splits option.splits if_splits)
  have paths: "pr_paths R = own_paths W (rr_runtime r)"
    using act_recorded_runtime [of "\<lambda>_ _. True" "\<lambda>_. True" W r, unfolded act_spec_def, rule_format, OF TrueI R] by simp
  from adopted obtain s5 s4 where wrote: "writing W (WroteIdentity (rr_runtime r) (rr_revision r) p birth)
      (record_runtime_process_identity (si_env W) (rr_runtime r) (rr_revision r) p birth) s5 = Some (Inr (), s4)"
    and release: "hosted_call (release_launch (si_host W) R) s4 = Some (Inr (), s')"
    by (auto simp: adopt_launched_def outcome_Some fails_def and_next_Inr yields_Inr split: sum.splits)
  from release obtain tr where "release_launch (si_host W) R (as_trace s4) = (Inr (), tr)" "s' = s4\<lparr> as_trace := tr \<rparr>"
    by (auto simp: hosted_run_def once_def map_err_def split: prod.splits sum.splits)
  with release_Inr [of "si_host W" R "as_trace s4" tr] wrote show ?thesis
    unfolding released_last_def by (auto simp: writing_Inr paths)
qed

lemma prior_live: "settle_prior W r s = Some (Inr (Some x), s') \<Longrightarrow> x = AlreadyLive"
  by (auto simp: settle_prior_def and_next_Inr settle_Inr yields_Inr existing_live_runtime_start_outcome_def Let_def
      split: if_splits)

text \<open>C31: However a start or a recovery of a Codex Workstream goes, whatever the host answers and whatever
  others write meanwhile: the launch barrier that holds the provider is not created before the record of
  that process was read with its birth and as the leader of its own group, and then its identity was
  committed to the registry; and a start that succeeds has released the provider as its very last step.\<close>

theorem provider_released_after_identity:
  assumes "m \<in> {start_codex W S w expected v, recover_codex W S w expected v}" and "m s = Some (r, s')"
  shows "release_gated s s' \<and> (r = Inr Started \<longrightarrow> released_last W s')"
proof
  show "release_gated s s'" using assms actsD [OF start_gated] actsD [OF recover_gated] by blast
  have "released_last W s'" if "m s = Some (Inr Started, s')"
  proof -
    from assms(1) that have "\<exists>x program s1. launch_reserved_runtime W S x program s1 = Some (Inr (), s')"
    proof (elim insertE emptyE)
      assume "m = start_codex W S w expected v"
      with that show ?thesis
        by (fastforce simp: start_codex_def and_next_Inr yields_Inr dest: prior_live split: if_splits option.splits)
    next
      assume "m = recover_codex W S w expected v"
      with that show ?thesis
        by (fastforce simp: recover_codex_def reconcile_live_codex_recovery_def and_next_Inr yields_Inr
            split: if_splits runtime_probe.splits option.splits)
    qed
    then show ?thesis using launched_last by blast
  qed
  then show "r = Inr Started \<longrightarrow> released_last W s'" using assms(2) by blast
qed

section \<open>A concrete start\<close>

text \<open>A Codex Workstream that never ran, a trusted observer profile, and a host on which the provider comes
  up as the leader of its group.\<close>

definition launch_answer :: "string \<Rightarrow> string" where
  "launch_answer format =
     (if format = ''#{pane_id}'' then ''%0'' @ [newline]
      else if format = ''#{pane_pid}'' then ''41'' @ [newline]
      else if format = ''#{pane_current_path}'' then ''/work/project'' @ [newline] else [])"

definition launch_host :: host where
  "launch_host = sample_host
     \<lparr> h_stat := (\<lambda>tr p. sample_line), h_list := (\<lambda>tr. Inr [Inr (Some ''41'')]),
       h_run := (\<lambda>tr c. Inr \<lparr> co_success = True, co_stdout = launch_answer (last (cc_arguments c)), co_stderr = [] \<rparr>),
       h_file := (\<lambda>tr f. case f of PathExists p \<Rightarrow> Inr False | _ \<Rightarrow> Inr True) \<rparr>"

lemma launch_ascii: "list_all (\<lambda>c. (of_char c :: nat) < 128) (launch_answer f)" "length (launch_answer f) \<le> 20"
  by (simp_all add: launch_answer_def newline_def)

lemma launch_tmux:
  "system_tmux launch_host ''tmux'' v tr =
     (Inr \<lparr> tr_success = True, tr_stdout = launch_answer (last (cc_arguments (tmux_command ''tmux'' v))), tr_stderr = [] \<rparr>,
      tr @ [CommandRun (tmux_command ''tmux'' v)
        (Inr \<lparr> co_success = True, co_stdout = launch_answer (last (cc_arguments (tmux_command ''tmux'' v))), co_stderr = [] \<rparr>)])"
  using launch_ascii(2) [of "last (cc_arguments (tmux_command ''tmux'' v))"]
  by (simp add: system_tmux_def mapped_def run_command_def launch_host_def response_from_output_def
      max_tmux_output_bytes_def lossy_ascii launch_ascii(1) Let_def)

lemma launch_files:
  "h_file launch_host tr (PathExists p) = Inr False" "h_file launch_host tr (IsDirectory p) = Inr True"
  "h_file launch_host tr (CreateTree p) = Inr True" "h_file launch_host tr (CreateDirectory p) = Inr True"
  "h_file launch_host tr (SetMode p m) = Inr True" "h_file launch_host tr (WriteFile p s) = Inr True"
  "h_file launch_host tr (CreateFresh p m) = Inr True"
  by (simp_all add: launch_host_def)

lemma launch_reads:
  "read_linux_process_stat_with_scope launch_host scope 41 tr =
    (Inr (Some \<lparr> ps_state = ''S'', ps_birth = ''777'', ps_group = 41, ps_session_id = 40, ps_exit = 256 \<rparr>),
     tr @ [StatRead 41 sample_line])"
  by (simp add: read_linux_process_stat_with_scope_def mapped_def read_stat_def Let_def launch_host_def
      stat_result_def sample_stat_parsed)

lemma launch_starts:
  assumes "path_parent (rp_directory paths) \<noteq> None" and "nl_program l \<noteq> []"
  shows "fst (start launch_host (system_runtime launch_host paths) l tr) = Inr ()"
proof -
  have io: "fst (io_call launch_host p c tr) = Inr ()" if "\<And>tr. h_file launch_host tr c = Inr True" for p c tr
    using that by (simp add: io_call_def file_call_def Let_def map_err_def)
  have "fst (create_private_runtime_directory launch_host (rp_directory paths) tr) = Inr ()" for tr
    using assms(1) by (auto simp: create_private_runtime_directory_def fst_then_do io launch_files set_mode_def)
  moreover have "fst (write_tmux_config launch_host p n tr) = Inr ()" for p n tr
    by (simp add: write_tmux_config_def fst_then_do io launch_files set_mode_def)
  moreover have "fst (validate_launch launch_host l tr) = Inr ()" for tr
    using assms(2) by (simp add: validate_launch_def file_call_def Let_def launch_files require_def)
  moreover have "fst (and_do (path_exists launch_host p) k tr) = fst (k False (snd (path_exists launch_host p tr)))"
    for p tr and k :: "bool \<Rightarrow> (runtime_error, unit) result act"
    by (simp add: and_do_def path_exists_def mapped_def file_call_def Let_def launch_files)
  ultimately show ?thesis
    by (simp add: start_def start_with_startup_def no_runtime_startup_def fst_then_do Let_def launch_tmux accepted_def)
qed

lemma launch_probed:
  "fst (probe launch_host (system_runtime launch_host paths) tr) = Inr (ProbeLive ''%0'' 41 ''/work/project'' (Some ''777''))"
proof -
  have field: "fst (pane_field (system_runtime launch_host paths) f l k tr) = fst (k x (snd (read_pane_field
      (pr_tmux (system_runtime launch_host paths)) (rp_socket paths) (rp_session_name paths @ '':0.0'') f l tr)))"
    if "parse_single_pane_fact (launch_answer f) = Some x" for f l k tr x
    using that by (simp add: pane_field_def read_pane_field_def fst_then_do launch_tmux tmux_command_def on_socket_def)
  have facts: "parse_single_pane_fact (launch_answer ''#{pane_id}'') = Some ''%0''"
    "parse_single_pane_fact (launch_answer ''#{pane_pid}'') = Some ''41''"
    "parse_single_pane_fact (launch_answer ''#{pane_current_path}'') = Some ''/work/project''"
    by (simp_all add: launch_answer_def parse_single_pane_fact_def exited_text_defs)
  have pid: "parse_u32 ''41'' = Some 41" by (simp add: parse_u32_def all_digits_def digits_value_def)
  have "fst (process_birth (linux_process_probe launch_host) 41 tr) = Some ''777''" for tr
    by (simp add: process_birth_def process_birth_checked_def launch_reads)
  then show ?thesis
    by (simp add: probe_def probe_pane_def fst_then_do invoke_def launch_tmux field [OF facts(1)] field [OF facts(2)]
        field [OF facts(3)] pid)
qed

lemma launch_proven:
  "fst (prove_owned_process_group (linux_process_probe launch_host) (linux_group_probe launch_host) 41 ''777'' tr) =
    Inr sample_group"
proof -
  have pid: "parse_u32 ''41'' = Some 41" by (simp add: parse_u32_def all_digits_def digits_value_def)
  have listed: "h_list launch_host tr = Inr [Inr (Some ''41'')]" for tr by (simp add: launch_host_def)
  show ?thesis
    by (simp add: prove_owned_process_group_def prove_owned_process_group_after_identity_def exact_process_identity_def
        process_birth_checked_def process_group_checked_def process_group_members_checked_def
        linux_process_group_members_def list_proc_def listed pid Let_def then_do_def give_def mapped_def map_err_def
        read_linux_process_stat_for_group_def and_do_def read_for_group.simps launch_reads in_group_def)
qed

lemma launch_released: "fst (release_launch launch_host R tr) = Inr ()"
  by (simp add: release_launch_def create_launch_barrier_def set_mode_def fst_then_do io_call_def file_call_def Let_def
      launch_files map_err_def)

definition launch_site :: site where
  "launch_site = gone_site\<lparr> si_host := launch_host \<rparr>"

definition launch_services :: codex_services where
  "launch_services =
     \<lparr> cs_profile = sample_profile_env, cs_executable = Inr ''/w'', cs_codex_home = Some ''/h'', cs_user_home = None,
       cs_world = (\<lambda>_. sound_disk), cs_disk = (\<lambda>_. sample_disk), cs_thread = (\<lambda>_ _. Inr ()),
       cs_fresh = (\<lambda>k _. if k = 1 then 4 else 5) \<rparr>"

definition launch_db :: registry where
  "launch_db = (sample_registry [sample_workstream 3 ''codex'' ''open'' None 7] [] [] [] [])
     \<lparr> integration_rows := [\<lparr> ig_id = sid 12, ig_profile_name = observer_profile_name,
         ig_path = ''/h/wsnav-observer.config.toml'', ig_owner = ''owner'', ig_schema_version = 2, ig_hook = ''/w'',
         ig_hash = ''68'', ig_lifecycle = ''ready'', ig_revision = 1 \<rparr>] \<rparr>"

definition launch_begin :: act_state where
  "launch_begin = \<lparr> as_db = launch_db, as_trace = [], as_log = [] \<rparr>"

abbreviation launch_overview :: workstream_overview where
  "launch_overview \<equiv> gone_overview\<lparr> wo_runtime := None \<rparr>"

abbreviation launch_record :: runtime_record where
  "launch_record \<equiv> \<lparr> rr_runtime = 4, rr_workstream = 3, rr_provider = Codex, rr_generation = sid 5,
     rr_session = gone_session, rr_cwd = ''/work/project'', rr_pid = None, rr_birth = None,
     rr_status = Starting, rr_revision = 1 \<rparr>"

lemma launch_simps [simp]:
  "si_env launch_site = sample_env" "st_root (si_root launch_site) = ''/s''" "si_host launch_site = launch_host"
  "current_db launch_site s = as_db s" "as_db launch_begin = launch_db" "as_trace launch_begin = []"
  "as_log launch_begin = []"
  by (simp_all add: launch_site_def launch_begin_def gone_site_def current_db_def)

lemma launch_integration:
  "codex_integration launch_db = Inr (Some \<lparr> ci_ownership = sample_ownership,
     ci_lifecycle = integration_lifecycle.Ready, ci_revision = 1 \<rparr>)"
proof -
  have "integration_lifecycle_from_text ''ready'' = Inr integration_lifecycle.Ready" "read_revision 1 = Inr 1" by code_simp+
  then show ?thesis
    by (simp add: codex_integration_def launch_db_def sample_registry_def row_to_integration_def sample_ownership_def)
qed

lemma launch_profile:
  "observer_profile_of launch_site launch_services = Inr sample_profile"
  "trust_now launch_services sample_profile sample_ownership tr = Inr ()"
  "fst (install_profile (cs_profile launch_services) (cs_world launch_services tr) sample_profile own
     (Some sample_ownership) (cs_disk launch_services tr)) = Inr sample_ownership"
proof -
  have path: "profile_path sample_profile = ''/h/wsnav-observer.config.toml''" by code_simp
  show "observer_profile_of launch_site launch_services = Inr sample_profile"
    by (simp add: observer_profile_of_def launch_services_def sample_profile_def ok_or_def map_err_def)
  show "trust_now launch_services sample_profile sample_ownership tr = Inr ()"
    by (simp add: trust_now_def launch_services_def sample_trust)
  have document: "\<exists>x. read_owned_document sample_profile_env sound_disk sample_profile sample_ownership
      (content_hash sample_profile_env (rendered (pe_env sample_profile_env) sample_profile)) sample_disk = Inr x"
    using sample_trust by (auto simp: verify_native_trust_def owned_native_suffix_def split: sum.splits if_splits)
  have found: "disk_exists sound_disk sample_disk ''/h/wsnav-observer.config.toml''"
    by (simp add: disk_exists_def followed_def sample_disk_def sound_disk_def)
  show "fst (install_profile (cs_profile launch_services) (cs_world launch_services tr) sample_profile own
     (Some sample_ownership) (cs_disk launch_services tr)) = Inr sample_ownership"
    using document found
    by (auto simp: install_profile_def launch_services_def path verify_owned_document_def Let_def sample_ownership_def
        sample_profile_def [THEN arg_cong, of ob_executable] path_eq_def observer_profile_schema_version_def)
qed

lemma launch_observed: "require_observer launch_site launch_services launch_begin = Some (Inr (), launch_begin)"
proof -
  have same: "launch_begin\<lparr> as_db := launch_db \<rparr> = launch_begin" by (simp add: launch_begin_def)
  show ?thesis
    by (simp add: require_observer_def reconcile_observer_trust_def reconcile_observer_trust_with_manager_def
        and_next_def settle_def reading_def consulting_def launch_integration launch_profile map_err_def ok_or_def
        yields_def same)
qed

lemma launch_reserved:
  "\<exists>db. reserve_runtime_with_provider_authorized sample_env 4 5 3 Codex ArchivedAllowed launch_db = Inr (launch_record, db) \<and>
     (\<exists>db'. record_runtime_process_identity sample_env 4 1 41 ''777'' db = Inr ((), db'))"
proof -
  have "validate_registry_text ''process birth'' ''777'' = Inr ()" by code_simp
  then show ?thesis
    using provider_texts [of Codex]
    by (simp add: reserve_runtime_with_provider_authorized_def open_workstream_project_root_def launch_db_def
        sample_defs lookup_defs tmux_session_name_def gone_session_def insert_runtime_def constrained_def row_checks
        touch_workstream_def next_activity_sequence_def Let_def sql_update_rows_def updates_Inr sql_count_def
        revision_initial_def record_runtime_process_identity_def one_row_def update_workstreams_def update_runtimes_def
        exec_update_def permits_archived_def gone_texts)
qed

lemma launch_adopted:
  assumes "record_runtime_process_identity sample_env 4 1 41 ''777'' (as_db s) = Inr ((), db')"
  shows "\<exists>s'. adopt_launched launch_site R launch_record 41 ''777'' s = Some (Inr (), s')"
  using assms
  by (simp add: adopt_launched_def outcome_def hosted_call_eq launch_proven launch_released map_err_def writing_def yields_def)

lemma launch_runs:
  assumes "as_db s = db" and "record_runtime_process_identity sample_env 4 1 41 ''777'' db = Inr ((), db')"
  shows "\<exists>s'. launch_reserved_runtime launch_site launch_services launch_record program s = Some (Inr (), s')"
proof -
  let ?R = "system_runtime launch_host (own_paths launch_site 4)"
  have R: "recorded_runtime launch_site launch_record s = Some (Inr ?R, s)"
    by (simp add: recorded_runtime_def runtime_paths_for_record_def runtime_paths_for_def own_paths_def settle_def
        gone_session_def Let_def)
  have parent: "path_parent (rp_directory (own_paths launch_site 4)) \<noteq> None"
  proof -
    have no_root: "RootDir \<notin> set (concat (map component_of ws))" for ws by (auto simp: component_of_def)
    obtain rest where "split_on CHR ''/'' (''/s/run/runtime-'' @ sid 4) = [] # ''s'' # rest" by simp
    then have "path_components (''/s/run/runtime-'' @ sid 4) =
        RootDir # NormalDir ''s'' # concat (map component_of rest)"
      by (simp add: path_components_def path_is_absolute_def starts_with_def component_of_def)
    moreover have "last (NormalDir ''s'' # concat (map component_of rest)) \<noteq> RootDir"
    proof (cases "concat (map component_of rest) = []")
      case False
      then have "last (concat (map component_of rest)) \<in> set (concat (map component_of rest))" by (rule last_in_set)
      then show ?thesis using no_root [of rest] False by (metis last_ConsR)
    qed simp
    moreover have "path_join (path_join ''/s'' runtime_directory) (''runtime-'' @ sid 4) = ''/s/run/runtime-'' @ sid 4"
      by (simp add: path_join_def runtime_directory_def path_is_absolute_def starts_with_def)
    ultimately have "path_parent (path_join (path_join ''/s'' runtime_directory) (''runtime-'' @ sid 4)) \<noteq> None"
      by (simp add: path_parent_def)
    then show ?thesis by (simp add: own_paths_def runtime_paths_for_def Let_def)
  qed
  have wrapped: "runtime_launch_program launch_site launch_services 4 program = Inr ([''/w'', ''--state-root'', ''/s'',
      ''_runtime_launch'', sid 4, ''--''] @ program)"
    by (simp add: runtime_launch_program_def launch_services_def map_err_def)
  have same: "path_eq ''/work/project'' ''/work/project''" by (simp add: path_eq_def)
  have adopted: "\<exists>s'. adopt_launched launch_site ?R launch_record 41 ''777'' (s\<lparr> as_trace := tr \<rparr>) = Some (Inr (), s')" for tr
    by (rule launch_adopted) (use assms in simp)
  show ?thesis
    using adopted
    by (simp add: launch_reserved_runtime_def and_next_def R settle_def wrapped outcome_def hosted_call_eq
        launch_starts [OF parent] launch_probed map_err_def same)
qed

lemma provider_released_after_identity_witness:
  "\<exists>s'. start_codex launch_site launch_services 3 (Some 7) launch_overview launch_begin = Some (Inr Started, s') \<and>
     release_gated launch_begin s' \<and> released_last launch_site s'"
proof -
  obtain db db' where reserved: "reserve_runtime_with_provider_authorized sample_env 4 5 3 Codex ArchivedAllowed launch_db =
      Inr (launch_record, db)" and recorded: "record_runtime_process_identity sample_env 4 1 41 ''777'' db = Inr ((), db')"
    using launch_reserved by blast
  have same: "launch_begin\<lparr> as_db := launch_db \<rparr> = launch_begin" by (simp add: launch_begin_def)
  have none: "runtime_for_workstream sample_env 3 launch_db = Inr None"
    by (simp add: runtime_for_workstream_def launch_db_def sample_defs lookup_defs)
  have fresh: "cs_fresh launch_services k s = (if k = 1 then 4 else 5)" for k s by (simp add: launch_services_def)
  obtain s' where launched: "launch_reserved_runtime launch_site launch_services launch_record
      (codex_launch_program ''/work/project'' None) (launch_begin\<lparr> as_db := db, as_log := [(WroteReserved 3, [])] \<rparr>) =
      Some (Inr (), s')"
    using launch_runs [OF _ recorded, of "launch_begin\<lparr> as_db := db, as_log := [(WroteReserved 3, [])] \<rparr>"] by auto
  have run: "start_codex launch_site launch_services 3 (Some 7) launch_overview launch_begin = Some (Inr Started, s')"
    by (simp add: start_codex_def and_next_def settle_def require_codex_provider_def launch_observed reading_def none
        map_err_def same reserve_for_start_def writing_def fresh reserved yields_def launched)
  from provider_released_after_identity [of "start_codex launch_site launch_services 3 (Some 7) launch_overview"
      launch_site launch_services 3 "Some 7" launch_overview launch_begin "Inr Started" s'] run show ?thesis by simp
qed

end
