(* ===== verification/Spec2Isabelle.thy ===== *)
theory Spec2Isabelle
  imports Provider Ownership Boundaries Screen Projection Signal_Reach Shutdown_Returns
    Private_Safety Parking_Outcome Profile_Safety Launch_Safety
begin

text \<open>
  Workstream Navigator keeps native coding-agent sessions (Codex, OpenCode) running in private tmux
  servers and lets one terminal move between them. This development models the parts of it that
  decide something: the durable registry, the hand-off of a user's shell to a managed session, what
  the Navigator shows and offers, the private servers and processes of a session, and the actions
  that start, stop, archive and forget one.

  \<^bold>\<open>The parts and how they interact.\<close> The registry (\<open>src/state/\<close>) is an SQLite database of schema 15; every
  operation is one transaction that loads rows, decides, and writes rows under their revisions.
  The onboarding journal (\<open>src/state/current/\<close>, \<open>src/onboarding.rs\<close>) adds the transactions through
  which a command typed into a provisional shell becomes a managed session: it reserves a Location,
  a Workstream and a Runtime, issues a one-shot launch capability, hands the Runtime over and proves
  the exec. \<open>src/snapshot.rs\<close> projects the registry; the Navigator (\<open>src/navigator/\<close>) shows the
  projection and turns keys and clicks into commands that carry the revisions it showed, which the
  registry then checks again. \<open>src/runtime/mod.rs\<close> reads \<open>/proc\<close>, owns the private tmux servers and ends
  processes; the actions (\<open>src/actions/\<close>) combine it with the registry, which records what it proved.
  \<open>src/provider/grammar.rs\<close> decides which command lines may be managed at all, and
  \<open>src/provider/codex/profile.rs\<close> owns the Codex profile whose hooks report on a session.

  \<^bold>\<open>Theories and sources.\<close>
  \<^item> \<open>Prelude\<close>, \<open>Bytes\<close>, \<open>Unicode\<close>, \<open>Environment\<close>: results and errors, strings as byte lists with the
    standard-library operations the code uses, and the third-party code as a parameter (\<open>env\<close>: the
    text of a UUID, JSON text, SHA-256) with its documented laws (\<open>env_ok\<close>).
  \<^item> \<open>Domain\<close> (\<open>src/domain/mod.rs\<close>), \<open>Provider\<close> (\<open>src/provider/names.rs\<close>, \<open>lifecycle.rs\<close>,
    \<open>grammar.rs\<close>).
  \<^item> \<open>Tables\<close>, \<open>Registry\<close>, \<open>Loaders\<close> (\<open>src/state/schema.rs\<close>, \<open>utils.rs\<close>, \<open>models.rs\<close>): a record
    \<open>registry\<close> with one list of rows per table, INSERT, UPDATE and DELETE with the constraints of the
    schema, and the conversion of rows to the typed records of the code.
  \<^item> \<open>Activity\<close>, \<open>Runtimes\<close>, \<open>Lifecycle\<close>, \<open>Journal\<close>, \<open>Creation\<close>, \<open>Catalog\<close>, \<open>Paging\<close>, \<open>Host\<close>
    (\<open>src/state/workstream.rs\<close>, \<open>runtime.rs\<close>, \<open>lifecycle.rs\<close>, \<open>compound.rs\<close>, \<open>host.rs\<close>): one function
    per operation, from the registry to an error or a result and the next registry.
  \<^item> \<open>Capability\<close>, \<open>Intent\<close>, \<open>Projects\<close>, \<open>Schema15\<close>, \<open>Onboarding\<close>, \<open>Inventory\<close>, \<open>Handoff\<close>, \<open>ExecProof\<close>
    (\<open>src/onboarding.rs\<close>, \<open>src/state/current/onboarding.rs\<close>, \<open>projection.rs\<close>, \<open>schema.rs\<close>,
    \<open>registry.rs\<close>): the capability, the journal and the transactions of a hand-off.
  \<^item> \<open>Snapshot\<close> (\<open>src/snapshot.rs\<close>), \<open>Navigator\<close>, \<open>Rendering\<close>, \<open>Screen\<close> (\<open>src/navigator/view.rs\<close>),
    \<open>Controller\<close> (\<open>src/navigator/controller.rs\<close>): the projection; the model with its cursor, dialogs
    and keys; the drawn lines, the footer and hit-testing; the preflight of actions.
  \<^item> \<open>Host_Calls\<close>, \<open>Proc_Fs\<close>, \<open>Shutdown\<close>, \<open>Group_Shutdown\<close> (\<open>src/runtime/mod.rs\<close>): the operating
    system as a function from the history of calls to the next answer, the reading of \<open>/proc\<close>, and
    the bounded shutdown of a helper and of a provider's process group.
  \<^item> \<open>Tmux\<close>, \<open>Private_Runtime\<close> (\<open>src/runtime/mod.rs\<close>, \<open>src/private_tmux.rs\<close>): the adapter, the configuration, and
    the owner of one private server with its start, probe, attachment, launch barrier and end.
  \<^item> \<open>Profile\<close> (\<open>src/provider/codex/profile.rs\<close>): the observer profile on a disk whose every call may fail.
  \<^item> \<open>Action_State\<close>, \<open>Cleanup\<close>, \<open>Parking\<close>, \<open>Starting\<close> (\<open>src/actions/\<close>): what an action works on (registry, history,
    its own committed writes, and other writers between any two steps), the cleanup after a failure,
    the stop of a Runtime with Archive, Restore and Forget, and the start and recovery of Codex.
  \<^item> \<open>Integrity\<close>, \<open>Invariants\<close>, \<open>Preservation\<close>, \<open>Durability\<close>, \<open>Attempts\<close>, \<open>History\<close>, \<open>Validity\<close>,
    \<open>Takeover\<close>, \<open>Progression\<close>, \<open>Cards\<close>, \<open>Shutdown_Safety\<close>, \<open>Group_Safety\<close>, \<open>Parking_Safety\<close> hold the lemmas;
    \<open>Samples\<close> and \<open>AttemptSamples\<close> the concrete registries of the witnesses; \<open>Ownership\<close>, \<open>Readable\<close>,
    \<open>Consumption\<close>, \<open>Boundaries\<close>, \<open>Launch\<close>, \<open>Projection\<close>, \<open>Selection\<close>, \<open>Shutdown_Outcome\<close>, \<open>Group_Outcome\<close>,
    \<open>Shutdown_Returns\<close>, \<open>Signal_Reach\<close>, \<open>Private_Safety\<close>, \<open>Clean_Exit\<close>, \<open>Profile_Safety\<close>, \<open>Parking_Outcome\<close>,
    \<open>Launch_Safety\<close> and this theory the properties that span components.

  \<^bold>\<open>What the lemmas show.\<close> Every transaction keeps the integrity of the registry (keys, references,
  agreement of the provider, decodable rows) and only moves revisions forward, so that a revision
  read before is a fence for what is written later. An intact registry can be read, page by page,
  as one unbounded read would, but for one condition that is characterised exactly. A Runtime that
  may be alive is never reserved again. Every onboarding transaction is at most one step of an
  abstract attempt machine (a refinement), each boundary of an attempt is crossed at most once, and
  a hand-off that is not disturbed reaches its proven exec. The Navigator's cursor is always on a
  shown card, a click hits the card that is drawn under it, and what it offers passes the preflight.
  A signal is sent only to the process that is recorded, whatever processes do between two calls; the
  owner of a private server touches nothing but its own socket and directory; a Runtime is recorded
  as parked, archived or forgotten only after the proven end of its processes; a provider is released
  from its launch barrier only after its identity is in the registry; and the observer profile keeps
  foreign text and is trusted only when every hook is.

  \<^bold>\<open>Bounds and fuel.\<close> Pids, UUIDs and groups are words; revisions and times are integers with the \<open>i64\<close>
  bounds checked where the code checks them; \<open>usize\<close> and \<open>u16\<close> sums saturate where the code saturates.
  Loops over pages and the waiting loops are \<open>partial_function\<close>s, so that not returning is the value
  \<open>None\<close>; the properties that speak of a result say that there is one, or rest on a lemma that there is.

  \<^bold>\<open>Not modelled.\<close> Effects that carry no decision of the program: the files, locks and permissions of the
  state root, git, HTTP and terminal input and drawing (ratatui's layout and the width of a character
  are parameters; tmux is the host's answers to its commands). The start of an OpenCode server with
  its observer, the attachment of the navigator's own tmux, the broker, the provisional shells and the
  provider adapters exchange frames over sockets and child processes; their decisions about the
  registry are the transactions that are modelled. SQLite is modelled by the statements the code runs, not by its
  SQL text; a busy database and a failing disk are not among the errors.
\<close>

section \<open>The registry as a whole\<close>


lemma sample_parks:
  "\<exists>db'. park_runtime sample_env 4 5 (codex_sample ''open'' ''idle'' None) = Inr ((), db')"
  by (simp add: park_runtime_def runtime_at_revision_def codex_lookups sample_runtime_def updates_Inr
      sql_count_def row_checks)
    (simp add: codex_sample_def sample_defs next_activity_sequence_def row_checks sql_update_rows_def)

lemma sample_intact: "registry_ok sample_env (codex_sample ''open'' ''idle'' None)"
  by (simp add: codex_sample_ok range_text_iff)




end
